(* ===== verification/Prelude.thy ===== *)
theory Prelude
  imports Main "HOL-Library.Word" "HOL-Library.Monad_Syntax" "HOL-Library.Sublist"
begin

text \<open>
  Vocabulary shared by the whole development.

  \<^item> A Rust computation that may panic (or run into undefined behaviour) is a value of
    type \<open>'a run\<close>: \<open>Some x\<close> returns \<open>x\<close>, \<open>None\<close> does not return. Rust's own
    \<open>Option\<close> is HOL's \<open>option\<close>, so a function that returns an \<open>Option\<close> and may panic
    has type \<open>'a option run\<close>.
  \<^item> Machine integers keep their width: \<open>u8\<close>, \<open>u16\<close>, \<open>u32\<close>, \<open>u64\<close> and \<open>usize\<close> (64
    bits, the width of the supported targets); \<open>i8\<close> is the type of the result codes.
  \<^item> \<open>utf8_valid\<close> is the validity test of \<open>core::str::from_utf8\<close>, byte by byte.
  \<^item> The collections of theorems \<open>run_simps\<close> (how computations unfold) and
    \<open>api_defs\<close> (thin wrappers of the C API) are what the component theories hand to
    the simplifier.
\<close>

named_theorems run_simps "equations that unfold computations of type run"
named_theorems api_defs "definitions of thin wrappers of the C API"

subsection \<open>Computations that may panic\<close>

type_synonym 'a run = "'a option"

abbreviation (input) ret :: "'a \<Rightarrow> 'a run" where
  "ret \<equiv> Some"

abbreviation (input) panic :: "'a run" where
  "panic \<equiv> None"

definition or_else :: "'a option run \<Rightarrow> 'a option run \<Rightarrow> 'a option run" where
  "or_else a b = Option.bind a (\<lambda>x. case x of Some v \<Rightarrow> ret (Some v) | None \<Rightarrow> b)"

lemma or_else_simps [simp]:
  "or_else panic b = panic"
  "or_else (ret None) b = b"
  "or_else (ret (Some v)) b = ret (Some v)"
  by (simp_all add: or_else_def)

lemma or_else_Some_Some:
  "or_else a b = ret (Some v) \<longleftrightarrow> a = ret (Some v) \<or> a = ret None \<and> b = ret (Some v)"
  by (auto simp: or_else_def bind_eq_Some_conv split: option.splits)

lemma or_else_None:
  "or_else a b = ret None \<longleftrightarrow> a = ret None \<and> b = ret None"
  by (auto simp: or_else_def bind_eq_Some_conv split: option.splits)

subsection \<open>Machine integers\<close>

type_synonym u8 = "8 word"
type_synonym u16 = "16 word"
type_synonym u32 = "32 word"
type_synonym u64 = "64 word"
type_synonym usize = "64 word"
type_synonym i8 = "8 word"

definition saturating_sub :: "('n::len) word \<Rightarrow> 'n word \<Rightarrow> 'n word" where
  "saturating_sub a b = (if a < b then 0 else a - b)"

lemma unat_saturating_sub: "unat (saturating_sub a b) = unat a - unat b"
proof (cases "a < b")
  case True
  then show ?thesis by (simp add: saturating_sub_def word_less_nat_alt)
next
  case False
  then have "b \<le> a" by simp
  then show ?thesis using False by (simp add: saturating_sub_def unat_sub)
qed

lemma unat_usize_bound: "unat (l :: usize) < 2 ^ 64"
  using unsigned_less [of l] by simp

lemma unat_of_nat_usize: "n < 2 ^ 64 \<Longrightarrow> unat (of_nat n :: usize) = n"
  by (simp add: unat_of_nat)

subsection \<open>UTF-8 validity\<close>

text \<open>
  The table of well-formed UTF-8 byte sequences (Unicode, table 3-7), which
  \<open>core::str::from_utf8\<close> implements. The argument is the rest of the input.
\<close>

definition utf8_cont :: "u8 \<Rightarrow> bool" where
  "utf8_cont b \<longleftrightarrow> 0x80 \<le> b \<and> b \<le> 0xBF"

fun utf8_valid :: "u8 list \<Rightarrow> bool" where
  "utf8_valid [] = True"
| "utf8_valid (b # bs) =
    (if b \<le> 0x7F then utf8_valid bs
     else if 0xC2 \<le> b \<and> b \<le> 0xDF then
       (case bs of b1 # bs1 \<Rightarrow> utf8_cont b1 \<and> utf8_valid bs1 | [] \<Rightarrow> False)
     else if 0xE0 \<le> b \<and> b \<le> 0xEF then
       (case bs of b1 # b2 # bs2 \<Rightarrow>
          (if b = 0xE0 then 0xA0 \<le> b1 \<and> b1 \<le> 0xBF
           else if b = 0xED then 0x80 \<le> b1 \<and> b1 \<le> 0x9F else utf8_cont b1)
          \<and> utf8_cont b2 \<and> utf8_valid bs2
        | _ \<Rightarrow> False)
     else if 0xF0 \<le> b \<and> b \<le> 0xF4 then
       (case bs of b1 # b2 # b3 # bs3 \<Rightarrow>
          (if b = 0xF0 then 0x90 \<le> b1 \<and> b1 \<le> 0xBF
           else if b = 0xF4 then 0x80 \<le> b1 \<and> b1 \<le> 0x8F else utf8_cont b1)
          \<and> utf8_cont b2 \<and> utf8_cont b3 \<and> utf8_valid bs3
        | _ \<Rightarrow> False)
     else False)"

declare utf8_valid.simps(2) [simp del]

lemma utf8_valid_ascii: "(\<forall>b \<in> set bs. b \<le> 0x7F) \<Longrightarrow> utf8_valid bs"
  by (induction bs) (simp_all add: utf8_valid.simps(2))

subsection \<open>Lists\<close>

lemma find_None_iff_all: "find P xs = None \<longleftrightarrow> list_all (\<lambda>x. \<not> P x) xs"
  by (auto simp: find_None_iff list_all_iff)

lemma concat_filter_partition:
  "length (filter P xs) + length (filter (\<lambda>x. \<not> P x) xs) = length xs"
  by (induction xs) simp_all

lemma sum_list_update_add:
  fixes xs :: "'a::comm_monoid_add list"
  shows "i < length xs \<Longrightarrow> sum_list (xs[i := v]) + xs ! i = sum_list xs + v"
  by (induction xs arbitrary: i) (auto simp: add_ac split: nat.splits)

end
