(* ===== verification/RustStr.thy ===== *)
theory RustStr
  imports Prelude
begin

text \<open>
  Rust's \<open>str\<close> as the build scripts use it: a sequence of Unicode scalar values whose
  \<^emph>\<open>byte\<close> offsets are what \<open>str::find\<close> returns and what slicing takes. A slice at an
  offset that is past the end or inside a character panics, so slicing has type \<open>rstr run\<close>.
  The lemmas at the end show that the offsets the scripts compute (sums of \<open>len_utf8\<close> over
  a prefix, results of \<open>find\<close>) never make a slice panic.
\<close>

type_synonym rchar = int
type_synonym rstr = "rchar list"

definition lit :: "string \<Rightarrow> rstr" where
  "lit s = map of_char s"

definition len_utf8 :: "rchar \<Rightarrow> nat" where
  "len_utf8 c = (if c < 0x80 then 1 else if c < 0x800 then 2 else if c < 0x10000 then 3 else 4)"

definition str_len :: "rstr \<Rightarrow> nat" where
  "str_len s = sum_list (map len_utf8 s)"

subsection \<open>Slicing by byte offset\<close>

text \<open>\<open>split_at_byte n s\<close> is \<open>(&s[..n], &s[n..])\<close>.\<close>

fun split_at_byte :: "nat \<Rightarrow> rstr \<Rightarrow> (rstr \<times> rstr) run" where
  "split_at_byte n [] = (if n = 0 then ret ([], []) else panic)"
| "split_at_byte n (c # s) =
    (if n = 0 then ret ([], c # s)
     else if n < len_utf8 c then panic
     else map_option (\<lambda>(p, q). (c # p, q)) (split_at_byte (n - len_utf8 c) s))"

definition str_to :: "nat \<Rightarrow> rstr \<Rightarrow> rstr run" where
  "str_to n s = map_option fst (split_at_byte n s)"

definition str_from :: "nat \<Rightarrow> rstr \<Rightarrow> rstr run" where
  "str_from n s = map_option snd (split_at_byte n s)"

definition str_range :: "nat \<Rightarrow> nat \<Rightarrow> rstr \<Rightarrow> rstr run" where
  "str_range a b s = (if b < a then panic else Option.bind (str_to b s) (str_from a))"

subsection \<open>Searching\<close>

definition starts_with :: "'a list \<Rightarrow> 'a list \<Rightarrow> bool" where
  "starts_with pat s \<longleftrightarrow> take (length pat) s = pat"

fun str_find :: "rstr \<Rightarrow> rstr \<Rightarrow> nat option" where
  "str_find pat [] = (if pat = [] then Some 0 else None)"
| "str_find pat (c # s) =
    (if starts_with pat (c # s) then Some 0
     else map_option (\<lambda>n. len_utf8 c + n) (str_find pat s))"

definition str_contains :: "rstr \<Rightarrow> rstr \<Rightarrow> bool" where
  "str_contains s pat \<longleftrightarrow> str_find pat s \<noteq> None"

definition strip_prefix :: "rstr \<Rightarrow> rstr \<Rightarrow> rstr option" where
  "strip_prefix pat s = (if starts_with pat s then Some (drop (length pat) s) else None)"

subsection \<open>Character classes\<close>

text \<open>
  \<open>char::is_whitespace\<close> is the Unicode property \<open>White_Space\<close>, given in full.
  \<open>char::is_alphanumeric\<close> is given in full on ASCII; beyond it the Unicode tables of the
  standard library are the parameter \<open>ua\<close> of the definitions that use it.
\<close>

definition is_whitespace :: "rchar \<Rightarrow> bool" where
  "is_whitespace c \<longleftrightarrow> 9 \<le> c \<and> c \<le> 13 \<or> c = 32 \<or> c = 0x85 \<or> c = 0xA0 \<or> c = 0x1680
     \<or> 0x2000 \<le> c \<and> c \<le> 0x200A \<or> c = 0x2028 \<or> c = 0x2029 \<or> c = 0x202F \<or> c = 0x205F \<or> c = 0x3000"

definition is_alphanumeric :: "(rchar \<Rightarrow> bool) \<Rightarrow> rchar \<Rightarrow> bool" where
  "is_alphanumeric ua c \<longleftrightarrow>
     (if c < 0x80 then 48 \<le> c \<and> c \<le> 57 \<or> 65 \<le> c \<and> c \<le> 90 \<or> 97 \<le> c \<and> c \<le> 122 else ua c)"

text \<open>\<open>s.split_whitespace().next()\<close>.\<close>

definition first_word :: "rstr \<Rightarrow> rstr option" where
  "first_word s = (case dropWhile is_whitespace s of
     [] \<Rightarrow> None
   | c # cs \<Rightarrow> Some (takeWhile (\<lambda>x. \<not> is_whitespace x) (c # cs)))"

text \<open>\<open>s.split(c)\<close>: the pieces between occurrences of a character.\<close>

fun split_char :: "'a \<Rightarrow> 'a list \<Rightarrow> 'a list list" where
  "split_char c [] = [[]]"
| "split_char c (x # xs) =
    (if x = c then [] # split_char c xs
     else case split_char c xs of [] \<Rightarrow> [[x]] | p # ps \<Rightarrow> (x # p) # ps)"

subsection \<open>Lemmas\<close>

lemma len_utf8_pos [simp]: "0 < len_utf8 c"
  by (simp add: len_utf8_def)

lemma len_utf8_ascii [simp]: "c < 0x80 \<Longrightarrow> len_utf8 c = 1"
  by (simp add: len_utf8_def)

lemma str_len_simps [simp]:
  "str_len [] = 0"
  "str_len (c # s) = len_utf8 c + str_len s"
  "str_len (s @ t) = str_len s + str_len t"
  "str_len (rev s) = str_len s"
  by (simp_all add: str_len_def rev_map [symmetric] sum_list_rev)

lemma str_len_0_iff [simp]: "str_len s = 0 \<longleftrightarrow> s = []"
  by (cases s) auto

lemma lit_simps [simp]: "lit [] = []" "lit (c # s) = of_char c # lit s"
  by (simp_all add: lit_def)

lemma length_lit [simp]: "length (lit s) = length s"
  by (simp add: lit_def)

lemma split_at_byte_iff: "split_at_byte n s = ret (p, q) \<longleftrightarrow> s = p @ q \<and> n = str_len p"
proof (induction n s arbitrary: p rule: split_at_byte.induct)
  case (1 n)
  then show ?case by auto
next
  case (2 n c s)
  show ?case
  proof (cases "n = 0")
    case True
    then show ?thesis by auto
  next
    case n: False
    show ?thesis
    proof (cases "n < len_utf8 c")
      case True
      then show ?thesis using n by (cases p) auto
    next
      case False
      show ?thesis
      proof (cases p)
        case Nil
        then show ?thesis using n False by (auto simp: map_option_case split: option.splits)
      next
        case (Cons d p')
        have "split_at_byte n (c # s) = ret (p, q) \<longleftrightarrow>
            d = c \<and> split_at_byte (n - len_utf8 c) s = ret (p', q)"
          using n False Cons by (auto simp: map_option_case split: option.splits)
        also have "\<dots> \<longleftrightarrow> d = c \<and> s = p' @ q \<and> n - len_utf8 c = str_len p'"
          using 2 [OF n False, of p'] by simp
        also have "\<dots> \<longleftrightarrow> c # s = p @ q \<and> n = str_len p"
          using Cons False by auto
        finally show ?thesis .
      qed
    qed
  qed
qed

lemma str_to_iff: "str_to n s = ret p \<longleftrightarrow> (\<exists>q. s = p @ q) \<and> n = str_len p"
  by (auto simp: str_to_def split_at_byte_iff)

lemma str_from_iff: "str_from n s = ret q \<longleftrightarrow> (\<exists>p. s = p @ q \<and> n = str_len p)"
  by (auto simp: str_from_def split_at_byte_iff)

lemma str_to_append [simp]: "str_to (str_len p) (p @ q) = ret p"
  by (simp add: str_to_iff)

lemma str_from_append [simp]: "str_from (str_len p) (p @ q) = ret q"
  by (auto simp: str_from_iff)

lemma str_range_append:
  assumes "a = str_len p" "b = str_len p + str_len m"
  shows "str_range a b (p @ m @ q) = ret m"
proof -
  have "str_to b ((p @ m) @ q) = ret (p @ m)"
    using assms by (metis str_len_simps(3) str_to_append)
  then show ?thesis using assms by (simp add: str_range_def)
qed

text \<open>The prefix of \<open>s\<close> before the first occurrence of \<open>pat\<close>, which is what a slice at the
  offset found denotes.\<close>

fun before_first :: "'a list \<Rightarrow> 'a list \<Rightarrow> 'a list option" where
  "before_first pat [] = (if pat = [] then Some [] else None)"
| "before_first pat (c # s) =
    (if starts_with pat (c # s) then Some [] else map_option ((#) c) (before_first pat s))"

lemma starts_with_iff: "starts_with pat s \<longleftrightarrow> (\<exists>q. s = pat @ q)"
  by (metis append_eq_conv_conj append_take_drop_id starts_with_def)

lemma starts_with_simps [simp]:
  "starts_with [] s" "\<not> starts_with (p # ps) []"
  "starts_with (p # ps) (c # s) \<longleftrightarrow> p = c \<and> starts_with ps s"
  by (auto simp: starts_with_def)

lemma starts_with_nth: "starts_with p l \<Longrightarrow> i < length p \<Longrightarrow> l ! i = p ! i"
  by (auto simp: starts_with_iff nth_append)

lemma starts_with_append [simp]: "starts_with pat (pat @ q)"
  by (simp add: starts_with_def)

lemma before_first_append: "before_first pat s = Some p \<Longrightarrow> \<exists>q. s = p @ pat @ q"
  by (induction s arbitrary: p) (auto simp: starts_with_iff split: if_splits)

lemma str_find_before_first: "str_find pat s = map_option str_len (before_first pat s)"
  by (induction s) (simp_all add: option.map_comp comp_def)

lemma str_to_find:
  "str_find pat s = Some l \<Longrightarrow> \<exists>p. before_first pat s = Some p \<and> str_to l s = ret p"
  using before_first_append by (fastforce simp: str_find_before_first)

lemma str_to_find_incl:
  "str_find pat s = Some l \<Longrightarrow>
    \<exists>p. before_first pat s = Some p \<and> str_to (l + str_len pat) s = ret (p @ pat)"
proof -
  assume "str_find pat s = Some l"
  then obtain p where p: "before_first pat s = Some p" "l = str_len p"
    by (auto simp: str_find_before_first)
  then obtain q where "s = (p @ pat) @ q" by (auto dest: before_first_append)
  then show ?thesis using p by (metis str_len_simps(3) str_to_append)
qed

lemma concat_split_char: "split_char c s \<noteq> []"
  by (induction s) (auto split: list.splits)

lemma split_char_join: "concat (map (\<lambda>p. p @ [c]) (split_char c s)) = s @ [c]"
  by (induction s) (auto split: list.splits simp: concat_split_char)

lemma split_char_no_sep: "c \<notin> set s \<Longrightarrow> split_char c s = [s]"
  by (induction s) auto

lemma split_char_append:
  "c \<notin> set p \<Longrightarrow> split_char c (p @ c # s) = p # split_char c s"
  by (induction p) auto

end
