(* ===== verification/SplitGuide.thy ===== *)
theory SplitGuide
  imports RustStr
begin

text \<open>
  \<open>buildrs/splitguide.rs\<close>: the build script's pass that cuts the header produced by cbindgen
  into tokens, groups the tokens into records (a declaration with its comments and the
  preprocessor conditionals around it) and writes every record to the headers that
  \<open>splitguide.yaml\<close> assigns it to.

  Definitions follow the file: \<open>Until\<close>, the ten token recognisers and \<open>Token::next\<close>, the
  \<open>Tokenizer\<close> iterator, \<open>Record\<close> and its \<open>add_token\<close>, and \<open>group_tokens\<close>; the rules and
  \<open>split_bindings\<close> are in the next theory. The parameter \<open>ua\<close> stands for the Unicode
  tables behind \<open>char::is_alphanumeric\<close>. The nesting counter is an \<open>i32\<close> in the code and an
  \<open>int\<close> here: it is bounded by the number of tokens of one header.

  The lemmas show that a token is a non-empty prefix of the input (so the tokenizer and
  \<open>group_tokens\<close> terminate and lose nothing), what a record knows of its tokens, and that
  grouping fails exactly on an unmatched \<open>#endif\<close>.
\<close>

subsection \<open>Tokens\<close>

datatype token_type =
    Comment | Typedef | Function | Const | PrivateToken | PreprDefine | PreprInclude
  | PreprIf | PreprElse | PreprEndif | Whitespace

record token =
  tt :: token_type
  token_id :: rstr
  span :: rstr

definition Token_new :: "token_type \<Rightarrow> rstr \<Rightarrow> rstr \<Rightarrow> token" where
  "Token_new t i sp = \<lparr>tt = t, token_id = i, span = sp\<rparr>"

text \<open>\<open>impl Until for &str\<close>\<close>

definition until :: "rstr \<Rightarrow> rstr \<Rightarrow> rstr option run" where
  "until s pat = (case str_find pat s of
     None \<Rightarrow> ret None
   | Some l \<Rightarrow> map_option Some (str_to l s))"

definition until_incl :: "rstr \<Rightarrow> rstr \<Rightarrow> rstr option run" where
  "until_incl s pat = (case str_find pat s of
     None \<Rightarrow> ret None
   | Some l \<Rightarrow> map_option Some (str_to (l + str_len pat) s))"

definition unwrap_or :: "'a option \<Rightarrow> 'a \<Rightarrow> 'a" where
  "unwrap_or x d = (case x of Some v \<Rightarrow> v | None \<Rightarrow> d)"

definition is_id_char :: "(rchar \<Rightarrow> bool) \<Rightarrow> rchar \<Rightarrow> bool" where
  "is_id_char ua c \<longleftrightarrow> is_alphanumeric ua c \<or> c = of_char CHR ''_''"

text \<open>The loop of \<open>Token::typedef\<close>: bytes up to the first \<open>;\<close> outside braces.\<close>

fun typedef_scan :: "nat \<Rightarrow> int \<Rightarrow> rstr \<Rightarrow> nat" where
  "typedef_scan len accolades [] = len"
| "typedef_scan len accolades (c # s) =
    (let len = len + len_utf8 c in
     if c = of_char CHR ''{'' then typedef_scan len (accolades + 1) s
     else if c = of_char CHR ''}'' then typedef_scan len (accolades - 1) s
     else if c = of_char CHR '';'' \<and> accolades = 0 then len
     else typedef_scan len accolades s)"

definition token_typedef :: "(rchar \<Rightarrow> bool) \<Rightarrow> rstr \<Rightarrow> token option run" where
  "token_typedef ua s =
    (if starts_with (lit ''typedef'') s then do {
       sp \<leftarrow> str_to (typedef_scan 0 0 s) s;
       let id_len = 1 + str_len (takeWhile (is_id_char ua) (drop 1 (rev sp)));
       if str_len sp < id_len then panic else do {
         i \<leftarrow> str_range (str_len sp - id_len) (str_len sp - 1) sp;
         ret (Some (Token_new (if starts_with (lit ''_'') i then PrivateToken else Typedef) i sp))
       }
     } else ret None)"

definition token_function :: "(rchar \<Rightarrow> bool) \<Rightarrow> rstr \<Rightarrow> token option run" where
  "token_function ua s = do {
     u \<leftarrow> until_incl s (lit '';'');
     case u of None \<Rightarrow> ret None | Some sp \<Rightarrow>
       if of_char CHR ''('' \<in> set sp then do {
         let r = rev sp;
         let tail = takeWhile (\<lambda>c. c \<noteq> of_char CHR ''('') r;
         let id_end = 1 + str_len tail;
         let id_len = str_len (takeWhile (is_id_char ua) (drop (Suc (length tail)) r));
         if str_len sp < id_end + id_len then panic else do {
           i \<leftarrow> str_range (str_len sp - id_end - id_len) (str_len sp - id_end) sp;
           ret (Some (Token_new Function i sp))
         }
       } else ret None
   }"

definition token_const :: "(rchar \<Rightarrow> bool) \<Rightarrow> rstr \<Rightarrow> token option run" where
  "token_const ua s = do {
     u \<leftarrow> until_incl s (lit '';'');
     case u of None \<Rightarrow> ret None | Some sp \<Rightarrow>
       if str_contains sp (lit ''const'') then do {
         let id_len = str_len (takeWhile (is_id_char ua) (drop 1 (rev sp)));
         if str_len sp < 1 + id_len then panic else do {
           i \<leftarrow> str_range (str_len sp - 1 - id_len) (str_len sp - 1) sp;
           ret (Some (Token_new Const i sp))
         }
       } else ret None
   }"

text \<open>The loop of \<open>Token::whitespace\<close>: bytes of leading white space.\<close>

fun whitespace_scan :: "nat \<Rightarrow> rstr \<Rightarrow> nat" where
  "whitespace_scan len [] = len"
| "whitespace_scan len (c # s) =
    (if is_whitespace c then whitespace_scan (len + len_utf8 c) s else len)"

definition token_whitespace :: "rstr \<Rightarrow> token option run" where
  "token_whitespace s =
    (let len = whitespace_scan 0 s in
     if 0 < len then map_option (\<lambda>sp. Some (Token_new Whitespace [] sp)) (str_to len s)
     else ret None)"

definition token_comment :: "rstr \<Rightarrow> token option run" where
  "token_comment s =
    (if starts_with (lit ''/*'') s then do {
       u \<leftarrow> until_incl s (lit ''*/'');
       ret (Some (Token_new Comment [] (unwrap_or u s)))
     } else if starts_with (lit ''//'') s then do {
       u \<leftarrow> until s (lit ''\<newline>'');
       ret (Some (Token_new Comment [] (unwrap_or u s)))
     } else ret None)"

definition token_prepr_if :: "rstr \<Rightarrow> token option run" where
  "token_prepr_if s =
    (if starts_with (lit ''#if '') s \<or> starts_with (lit ''#ifdef '') s
        \<or> starts_with (lit ''#ifndef '') s then do {
       u \<leftarrow> until s (lit ''\<newline>'');
       let sp = unwrap_or u s;
       ret (Some (Token_new PreprIf sp sp))
     } else ret None)"

definition token_prepr_define :: "rstr \<Rightarrow> token option run" where
  "token_prepr_define s =
    (let start = lit ''#define '' in
     case strip_prefix start s of None \<Rightarrow> ret None | Some defined \<Rightarrow> do {
       u \<leftarrow> until s (lit ''\<newline>'');
       let sp = unwrap_or u s;
       rest \<leftarrow> str_from (str_len start) sp;
       i \<leftarrow> first_word rest;
       ret (Some (Token_new (if starts_with (lit ''_'') defined then PrivateToken else PreprDefine) i sp))
     })"

definition token_prepr_endif :: "rstr \<Rightarrow> token option run" where
  "token_prepr_endif s =
    (if starts_with (lit ''#endif'') s then do {
       u \<leftarrow> until s (lit ''\<newline>'');
       ret (Some (Token_new PreprEndif [] (unwrap_or u s)))
     } else ret None)"

definition token_prepr_else :: "rstr \<Rightarrow> token option run" where
  "token_prepr_else s =
    (if starts_with (lit ''#else'') s then do {
       u \<leftarrow> until s (lit ''\<newline>'');
       ret (Some (Token_new PreprElse [] (unwrap_or u s)))
     } else ret None)"

definition token_include :: "rstr \<Rightarrow> rstr \<Rightarrow> rstr \<Rightarrow> token option run" where
  "token_include s start stop =
    (if starts_with start s then do {
       u \<leftarrow> until_incl s stop;
       sp \<leftarrow> u;
       if str_len sp < str_len stop then panic else do {
         i \<leftarrow> str_range (str_len start) (str_len sp - str_len stop) sp;
         ret (Some (Token_new PreprInclude i sp))
       }
     } else ret None)"

definition token_prepr_include :: "rstr \<Rightarrow> token option run" where
  "token_prepr_include s =
    or_else (token_include s (lit ''#include '' @ [34]) [34])
            (token_include s (lit ''#include <'') (lit ''>''))"

definition token_next :: "(rchar \<Rightarrow> bool) \<Rightarrow> rstr \<Rightarrow> token option run" where
  "token_next ua s =
    or_else (token_whitespace s)
    (or_else (token_comment s)
    (or_else (token_prepr_endif s)
    (or_else (token_prepr_include s)
    (or_else (token_prepr_define s)
    (or_else (token_prepr_if s)
    (or_else (token_prepr_else s)
    (or_else (token_typedef ua s)
    (or_else (token_const ua s)
             (token_function ua s)))))))))"

text \<open>\<open>Tokenizer::next\<close>: the next token and the remaining input. Input no recogniser accepts
  panics.\<close>

definition tokenizer_next :: "(rchar \<Rightarrow> bool) \<Rightarrow> rstr \<Rightarrow> (token \<times> rstr) option run" where
  "tokenizer_next ua inner =
    (if inner = [] then ret None else do {
       result \<leftarrow> token_next ua inner;
       case result of
         Some t \<Rightarrow> map_option (\<lambda>rest. Some (t, rest)) (str_from (str_len (span t)) inner)
       | None \<Rightarrow> panic
     })"

subsection \<open>Records\<close>

datatype record_type =
    REmpty | RMultiple | RPrivateToken | RTypedef | RFunction | RConst | RPreprDefine | RPreprInclude

definition record_type_update :: "record_type \<Rightarrow> record_type \<Rightarrow> record_type" where
  "record_type_update self rt =
    (case self of REmpty \<Rightarrow> rt | RMultiple \<Rightarrow> RMultiple | _ \<Rightarrow> RMultiple)"

record hrecord =
  used :: bool
  rt :: record_type
  nesting :: int
  ids :: "rstr list"
  tokens :: "token list"

definition Record_new :: hrecord where
  "Record_new = \<lparr>used = False, rt = REmpty, nesting = 0, ids = [], tokens = []\<rparr>"

datatype split_error =
    UnmatchedEndif
  | UnusedRecord record_type "rstr list"
  | IdNotFound rstr

definition is_used :: "hrecord \<Rightarrow> split_error + unit" where
  "is_used r =
    (if used r \<or> rt r = REmpty \<or> rt r = RPrivateToken then Inr ()
     else Inl (UnusedRecord (rt r) (map token_id (tokens r))))"

definition is_ready :: "hrecord \<Rightarrow> bool" where
  "is_ready r \<longleftrightarrow> nesting r = 0 \<and> rt r \<noteq> REmpty"

definition contains_id :: "hrecord \<Rightarrow> rstr \<Rightarrow> bool" where
  "contains_id r i \<longleftrightarrow> list_ex (\<lambda>v. v = i) (ids r)"

definition push_token :: "token \<Rightarrow> hrecord \<Rightarrow> hrecord" where
  "push_token t r = r\<lparr>tokens := tokens r @ [t]\<rparr>"

definition push_record_type_token :: "token \<Rightarrow> record_type \<Rightarrow> hrecord \<Rightarrow> hrecord" where
  "push_record_type_token t k r =
    (let r = r\<lparr>rt := record_type_update (rt r) k\<rparr>;
         r = (if token_id t \<noteq> [] then r\<lparr>ids := ids r @ [token_id t]\<rparr> else r)
     in push_token t r)"

definition push_prepr_if :: "token \<Rightarrow> hrecord \<Rightarrow> hrecord" where
  "push_prepr_if t r = push_token t (r\<lparr>nesting := nesting r + 1\<rparr>)"

definition push_prepr_endif :: "token \<Rightarrow> hrecord \<Rightarrow> split_error + hrecord" where
  "push_prepr_endif t r =
    (let r = r\<lparr>nesting := nesting r - 1\<rparr> in
     if nesting r < 0 then Inl UnmatchedEndif else Inr (push_token t r))"

definition add_token :: "token \<Rightarrow> hrecord \<Rightarrow> split_error + hrecord" where
  "add_token t r = (case tt t of
     Comment \<Rightarrow> Inr (push_token t r)
   | Typedef \<Rightarrow> Inr (push_record_type_token t RTypedef r)
   | Function \<Rightarrow> Inr (push_record_type_token t RFunction r)
   | Const \<Rightarrow> Inr (push_record_type_token t RConst r)
   | PrivateToken \<Rightarrow> Inr (push_record_type_token t RPrivateToken r)
   | PreprDefine \<Rightarrow> Inr (push_record_type_token t RPreprDefine r)
   | PreprInclude \<Rightarrow> Inr (push_record_type_token t RPreprInclude r)
   | PreprIf \<Rightarrow> Inr (push_prepr_if t r)
   | PreprElse \<Rightarrow> Inr (push_token t r)
   | PreprEndif \<Rightarrow> push_prepr_endif t r
   | Whitespace \<Rightarrow> Inr (push_token t r))"

text \<open>\<open>Display\<close> of tokens and records: every token ends its line, comments come first, white
  space is dropped.\<close>

definition token_display :: "token \<Rightarrow> rstr" where
  "token_display t = span t @ lit ''\<newline>''"

definition record_display :: "hrecord \<Rightarrow> rstr" where
  "record_display r =
     concat (map token_display (filter (\<lambda>t. tt t = Comment) (tokens r)))
     @ concat (map token_display (filter (\<lambda>t. tt t \<noteq> Comment \<and> tt t \<noteq> Whitespace) (tokens r)))"

subsection \<open>Every token is a non-empty prefix of the input\<close>

definition takes_prefix :: "token option run \<Rightarrow> rstr \<Rightarrow> bool" where
  "takes_prefix r s \<longleftrightarrow> (\<forall>t. r = ret (Some t) \<longrightarrow> span t \<noteq> [] \<and> (\<exists>q. s = span t @ q))"

lemma takes_prefixI:
  "(\<And>t. r = ret (Some t) \<Longrightarrow> span t \<noteq> [] \<and> (\<exists>q. s = span t @ q)) \<Longrightarrow> takes_prefix r s"
  by (simp add: takes_prefix_def)

lemma takes_prefix_or_else [intro]:
  "takes_prefix a s \<Longrightarrow> takes_prefix b s \<Longrightarrow> takes_prefix (or_else a b) s"
  by (auto simp: takes_prefix_def or_else_Some_Some)

lemma span_Token_new [simp]: "span (Token_new k i sp) = sp" "tt (Token_new k i sp) = k"
  "token_id (Token_new k i sp) = i"
  by (simp_all add: Token_new_def)

lemma until_total: "until s pat = ret (before_first pat s)"
proof (cases "before_first pat s")
  case (Some p)
  then obtain q where "s = p @ q" by (auto dest: before_first_append)
  then show ?thesis using Some by (simp add: until_def str_find_before_first)
qed (simp add: until_def str_find_before_first)

lemma until_incl_total: "until_incl s pat = ret (map_option (\<lambda>p. p @ pat) (before_first pat s))"
proof (cases "before_first pat s")
  case None
  then show ?thesis by (simp add: until_incl_def str_find_before_first)
next
  case (Some p)
  then have "str_find pat s = Some (str_len p)" by (simp add: str_find_before_first)
  with str_to_find_incl [OF this] Some show ?thesis by (simp add: until_incl_def)
qed

text \<open>A line that starts with a non-empty keyword holding no line break is cut after it.\<close>

lemma before_first_keyword:
  assumes "starts_with kw s" "kw \<noteq> []" "pat = [c]" "c \<notin> set kw"
  shows "unwrap_or (before_first pat s) s \<noteq> [] \<and> (\<exists>q. s = unwrap_or (before_first pat s) s @ q)"
proof (cases "before_first pat s")
  case None
  then show ?thesis using assms by (auto simp: unwrap_or_def starts_with_def)
next
  case (Some p)
  obtain k ks where kw: "kw = k # ks" using assms by (cases kw) auto
  then obtain q where s: "s = k # q" using assms(1) by (auto simp: starts_with_iff)
  have "p \<noteq> []" using Some assms kw s by (auto simp: starts_with_def)
  then show ?thesis using before_first_append [OF Some] Some by (auto simp: unwrap_or_def)
qed

lemma takes_prefix_line:
  assumes "starts_with kw s" "kw \<noteq> []" "c \<notin> set kw" "span t = unwrap_or (before_first [c] s) s"
  shows "takes_prefix (ret (Some t)) s"
  using before_first_keyword [OF assms(1,2) refl assms(3)] assms(4) by (simp add: takes_prefix_def)

lemma takes_prefix_until_incl:
  assumes "pat \<noteq> []" "\<And>sp t. f sp = ret (Some t) \<Longrightarrow> span t = sp"
  shows "takes_prefix (do { u \<leftarrow> until_incl s pat; case u of None \<Rightarrow> ret None | Some sp \<Rightarrow> f sp }) s"
  using assms by (fastforce simp: until_incl_total takes_prefix_def dest: before_first_append
      split: option.splits)

lemma takes_prefix_None [simp]: "takes_prefix (ret None) s"
  by (simp add: takes_prefix_def)

lemma whitespace_scan_eq: "whitespace_scan n s = n + str_len (takeWhile is_whitespace s)"
  by (induction n s rule: whitespace_scan.induct) auto

lemma token_whitespace_eq:
  "token_whitespace s = (let w = takeWhile is_whitespace s in
     ret (if w = [] then None else Some (Token_new Whitespace [] w)))"
proof -
  have "str_to (str_len (takeWhile is_whitespace s)) s = ret (takeWhile is_whitespace s)"
    by (metis str_to_append takeWhile_dropWhile_id)
  then show ?thesis by (auto simp: token_whitespace_def whitespace_scan_eq Let_def)
qed

lemma whitespace_prefix: "takes_prefix (token_whitespace s) s"
  by (auto simp: token_whitespace_eq takes_prefix_def Let_def intro: takeWhile_dropWhile_id [symmetric])

text \<open>The characters \<open>Token::typedef\<close> takes.\<close>

fun typedef_span :: "int \<Rightarrow> rstr \<Rightarrow> rstr" where
  "typedef_span a [] = []"
| "typedef_span a (c # s) = c #
    (if c = of_char CHR ''{'' then typedef_span (a + 1) s
     else if c = of_char CHR ''}'' then typedef_span (a - 1) s
     else if c = of_char CHR '';'' \<and> a = 0 then []
     else typedef_span a s)"

lemma typedef_scan_eq: "typedef_scan n a s = n + str_len (typedef_span a s)"
  by (induction n a s rule: typedef_scan.induct) (auto simp: Let_def)

lemma typedef_span_prefix: "\<exists>q. s = typedef_span a s @ q"
  by (induction a s rule: typedef_span.induct) auto

lemma typedef_span_str_to: "str_to (typedef_scan 0 0 s) s = ret (typedef_span 0 s)"
  by (metis add_0 str_to_append typedef_scan_eq typedef_span_prefix)

lemma typedef_prefix: "takes_prefix (token_typedef ua s) s"
proof (rule takes_prefixI)
  fix t
  assume "token_typedef ua s = ret (Some t)"
  then have "span t = typedef_span 0 s" "s \<noteq> []"
    by (auto simp: token_typedef_def typedef_span_str_to Let_def bind_eq_Some_conv starts_with_def
        split: if_splits)
  then show "span t \<noteq> [] \<and> (\<exists>q. s = span t @ q)"
    using typedef_span_prefix [of s 0] by (cases s) auto
qed

lemma function_prefix: "takes_prefix (token_function ua s) s"
  unfolding token_function_def
  by (rule takes_prefix_until_incl) (auto simp: Let_def bind_eq_Some_conv split: if_splits)

lemma const_prefix: "takes_prefix (token_const ua s) s"
  unfolding token_const_def
  by (rule takes_prefix_until_incl) (auto simp: Let_def bind_eq_Some_conv split: if_splits)

lemma takes_prefix_if [intro]:
  "(P \<Longrightarrow> takes_prefix a s) \<Longrightarrow> (\<not> P \<Longrightarrow> takes_prefix b s) \<Longrightarrow> takes_prefix (if P then a else b) s"
  by simp

lemma comment_prefix: "takes_prefix (token_comment s) s"
proof -
  have A: "takes_prefix (do { u \<leftarrow> until_incl s (lit ''*/''); ret (Some (Token_new Comment [] (unwrap_or u s))) }) s"
    if "starts_with (lit ''/*'') s"
    using that by (cases "before_first (lit ''*/'') s")
      (auto simp: until_incl_total takes_prefix_def unwrap_or_def starts_with_def dest: before_first_append)
  have B: "takes_prefix (do { u \<leftarrow> until s (lit ''\<newline>''); ret (Some (Token_new Comment [] (unwrap_or u s))) }) s"
    if "starts_with (lit ''//'') s"
    using takes_prefix_line [OF that, of "of_char CHR ''\<newline>''"] by (simp add: until_total)
  show ?thesis unfolding token_comment_def using A B by auto
qed

lemma prepr_endif_prefix: "takes_prefix (token_prepr_endif s) s"
  using takes_prefix_line [of "lit ''#endif''" s "of_char CHR ''\<newline>''"]
  by (auto simp: token_prepr_endif_def until_total)

lemma prepr_else_prefix: "takes_prefix (token_prepr_else s) s"
  using takes_prefix_line [of "lit ''#else''" s "of_char CHR ''\<newline>''"]
  by (auto simp: token_prepr_else_def until_total)

lemma prepr_if_prefix: "takes_prefix (token_prepr_if s) s"
  using takes_prefix_line [of "lit ''#if ''" s "of_char CHR ''\<newline>''"]
    takes_prefix_line [of "lit ''#ifdef ''" s "of_char CHR ''\<newline>''"]
    takes_prefix_line [of "lit ''#ifndef ''" s "of_char CHR ''\<newline>''"]
  by (auto simp: token_prepr_if_def until_total Let_def)

lemma prepr_define_prefix: "takes_prefix (token_prepr_define s) s"
proof (rule takes_prefixI)
  fix t
  assume "token_prepr_define s = ret (Some t)"
  then have "starts_with (lit ''#define '') s" "span t = unwrap_or (before_first [of_char CHR ''\<newline>''] s) s"
    by (auto simp: token_prepr_define_def strip_prefix_def until_total bind_eq_Some_conv Let_def
        split: if_splits)
  then show "span t \<noteq> [] \<and> (\<exists>q. s = span t @ q)"
    using before_first_keyword [OF _ _ refl, of "lit ''#define ''" s "of_char CHR ''\<newline>''"] by auto
qed

lemma include_prefix: "stop \<noteq> [] \<Longrightarrow> takes_prefix (token_include s start stop) s"
  by (auto simp: token_include_def until_incl_total takes_prefix_def bind_eq_Some_conv
      split: if_splits dest: before_first_append)

lemma prepr_include_prefix: "takes_prefix (token_prepr_include s) s"
  by (auto simp: token_prepr_include_def intro!: include_prefix)

lemma token_next_prefix: "takes_prefix (token_next ua s) s"
  unfolding token_next_def
  by (intro takes_prefix_or_else whitespace_prefix comment_prefix prepr_endif_prefix
      prepr_include_prefix prepr_define_prefix prepr_if_prefix prepr_else_prefix typedef_prefix
      const_prefix function_prefix)

lemma tokenizer_next_Some:
  assumes "tokenizer_next ua s = ret (Some (t, rest))"
  shows "s = span t @ rest" "span t \<noteq> []"
proof -
  have n: "token_next ua s = ret (Some t)" and f: "str_from (str_len (span t)) s = ret rest"
    using assms by (auto simp: tokenizer_next_def bind_eq_Some_conv split: if_splits option.splits)
  show "span t \<noteq> []" using token_next_prefix n by (auto simp: takes_prefix_def)
  obtain q where "s = span t @ q" using token_next_prefix [of ua s] n by (auto simp: takes_prefix_def)
  then show "s = span t @ rest" using f by simp
qed

lemma tokenizer_next_shrinks:
  "tokenizer_next ua s = ret (Some (t, rest)) \<Longrightarrow> length rest < length s"
  using tokenizer_next_Some [of ua s t rest] by (cases "span t") auto

lemma tokenizer_next_end: "tokenizer_next ua s = ret None \<longleftrightarrow> s = []"
  by (auto simp: tokenizer_next_def bind_eq_Some_conv split: if_splits option.splits)

subsection \<open>Grouping tokens into records\<close>

text \<open>\<open>group_tokens\<close>: the loop over the tokenizer, from its remaining input, the record being
  collected and the records already pushed.\<close>

function (sequential) group_loop ::
  "(rchar \<Rightarrow> bool) \<Rightarrow> rstr \<Rightarrow> hrecord \<Rightarrow> hrecord list \<Rightarrow> (split_error + hrecord list) run" where
  "group_loop ua inner record_collect records =
    (case tokenizer_next ua inner of
       None \<Rightarrow> panic
     | Some None \<Rightarrow> ret (Inr (records @ [record_collect]))
     | Some (Some (t, rest)) \<Rightarrow>
         (case add_token t record_collect of
            Inl e \<Rightarrow> ret (Inl e)
          | Inr r \<Rightarrow>
              if is_ready r then group_loop ua rest Record_new (records @ [r])
              else group_loop ua rest r records))"
  by pat_completeness auto
termination
  by (relation "measure (\<lambda>(ua, inner, c, rs). length inner)") (auto dest: tokenizer_next_shrinks)

definition group_tokens :: "(rchar \<Rightarrow> bool) \<Rightarrow> rstr \<Rightarrow> (split_error + hrecord list) run" where
  "group_tokens ua stream = group_loop ua stream Record_new []"

declare group_loop.simps [simp del]

text \<open>The whole token stream, and grouping as a fold over it: what \<open>group_tokens\<close> computes
  when the tokenizer accepts the whole input.\<close>

function (sequential) tokenise :: "(rchar \<Rightarrow> bool) \<Rightarrow> rstr \<Rightarrow> token list run" where
  "tokenise ua inner =
    (case tokenizer_next ua inner of
       None \<Rightarrow> panic
     | Some None \<Rightarrow> ret []
     | Some (Some (t, rest)) \<Rightarrow> map_option ((#) t) (tokenise ua rest))"
  by pat_completeness auto
termination
  by (relation "measure (\<lambda>(ua, inner). length inner)") (auto dest: tokenizer_next_shrinks)

declare tokenise.simps [simp del]

fun group_list :: "token list \<Rightarrow> hrecord \<Rightarrow> split_error + hrecord list" where
  "group_list [] c = Inr [c]"
| "group_list (t # ts) c = (case add_token t c of
     Inl e \<Rightarrow> Inl e
   | Inr r \<Rightarrow> if is_ready r then map_sum id ((#) r) (group_list ts Record_new) else group_list ts r)"

lemma tokenise_Nil: "tokenise ua s = ret [] \<longleftrightarrow> tokenizer_next ua s = ret None"
  by (auto simp: tokenise.simps [of ua s] split: option.splits)

lemma tokenise_Cons: "tokenise ua s = ret (t # ts) \<longleftrightarrow>
    (\<exists>rest. tokenizer_next ua s = ret (Some (t, rest)) \<and> tokenise ua rest = ret ts)"
  by (auto simp: tokenise.simps [of ua s] split: option.splits)

lemma tokenise_spans:
  "tokenise ua s = ret ts \<Longrightarrow> concat (map span ts) = s \<and> (\<forall>t \<in> set ts. span t \<noteq> [])"
proof (induction ts arbitrary: s)
  case Nil
  then show ?case by (simp add: tokenise_Nil tokenizer_next_end)
next
  case (Cons t ts)
  then obtain rest where r: "tokenizer_next ua s = ret (Some (t, rest))" "tokenise ua rest = ret ts"
    by (auto simp: tokenise_Cons)
  show ?case using Cons.IH [OF r(2)] tokenizer_next_Some [OF r(1)] by simp
qed

lemma group_loop_tokenise:
  "tokenise ua s = ret ts \<Longrightarrow> group_loop ua s c rs = ret (map_sum id ((@) rs) (group_list ts c))"
proof (induction ts arbitrary: s c rs)
  case Nil
  then have "tokenizer_next ua s = ret None"
    by (auto simp: tokenise.simps [of ua s] split: option.splits)
  then show ?case by (simp add: group_loop.simps [of ua s])
next
  case (Cons t ts)
  then obtain rest where r: "tokenizer_next ua s = ret (Some (t, rest))" "tokenise ua rest = ret ts"
    by (auto simp: tokenise.simps [of ua s] split: option.splits)
  show ?case
    by (simp add: group_loop.simps [of ua s] r Cons.IH [OF r(2)] sum.map_comp comp_def
        split: sum.splits)
qed

lemma group_loop_Inr_tokenise:
  "group_loop ua s c rs = ret (Inr out) \<Longrightarrow> \<exists>ts. tokenise ua s = ret ts"
proof (induction ua s c rs rule: group_loop.induct)
  case (1 ua s c rs)
  then show ?case
    by (auto simp: group_loop.simps [of ua s] tokenise.simps [of ua s]
        split: option.splits sum.splits if_splits prod.splits)
qed

text \<open>What a record says of its tokens: its nesting is the number of open conditionals, no
  \<open>#endif\<close> in it closes a conditional opened outside, its type and its identifiers are those of
  its declarations.\<close>

definition nest_delta :: "token \<Rightarrow> int" where
  "nest_delta t = (case tt t of PreprIf \<Rightarrow> 1 | PreprEndif \<Rightarrow> - 1 | _ \<Rightarrow> 0)"

fun balanced :: "int \<Rightarrow> token list \<Rightarrow> bool" where
  "balanced n [] = (0 \<le> n)"
| "balanced n (t # ts) = (0 \<le> n \<and> balanced (n + nest_delta t) ts)"

definition decl_type :: "token \<Rightarrow> record_type option" where
  "decl_type t = (case tt t of
     Typedef \<Rightarrow> Some RTypedef | Function \<Rightarrow> Some RFunction | Const \<Rightarrow> Some RConst
   | PrivateToken \<Rightarrow> Some RPrivateToken | PreprDefine \<Rightarrow> Some RPreprDefine
   | PreprInclude \<Rightarrow> Some RPreprInclude | _ \<Rightarrow> None)"

definition decls :: "token list \<Rightarrow> token list" where
  "decls ts = filter (\<lambda>t. decl_type t \<noteq> None) ts"

definition summary_type :: "token list \<Rightarrow> record_type" where
  "summary_type ts = (case List.map_filter decl_type ts of [] \<Rightarrow> REmpty | [k] \<Rightarrow> k | _ \<Rightarrow> RMultiple)"

definition record_ok :: "hrecord \<Rightarrow> bool" where
  "record_ok r \<longleftrightarrow> \<not> used r \<and> nesting r = sum_list (map nest_delta (tokens r))
     \<and> balanced 0 (tokens r) \<and> rt r = summary_type (tokens r)
     \<and> ids r = filter (\<lambda>i. i \<noteq> []) (map token_id (decls (tokens r)))"

lemma balanced_nonneg: "balanced n ts \<Longrightarrow> 0 \<le> n"
  by (cases ts) auto

lemma balanced_append:
  "balanced n (ts @ us) \<longleftrightarrow> balanced n ts \<and> balanced (n + sum_list (map nest_delta ts)) us"
  by (induction ts arbitrary: n) (auto simp: add.assoc dest: balanced_nonneg)

lemma balanced_end: "balanced n ts \<Longrightarrow> 0 \<le> n + sum_list (map nest_delta ts)"
  using balanced_append [of n ts "[]"] by simp

lemma record_ok_new: "record_ok Record_new"
  by (simp add: record_ok_def Record_new_def summary_type_def decls_def List.map_filter_def)

lemma map_filter_snoc:
  "List.map_filter f (xs @ [x]) = List.map_filter f xs @ (case f x of None \<Rightarrow> [] | Some y \<Rightarrow> [y])"
  by (simp add: List.map_filter_def split: option.splits)

lemma decl_type_not_special: "decl_type t \<noteq> Some REmpty" "decl_type t \<noteq> Some RMultiple"
  by (simp_all add: decl_type_def split: token_type.splits)

lemma summary_type_snoc:
  "summary_type (ts @ [t]) =
    (case decl_type t of None \<Rightarrow> summary_type ts | Some k \<Rightarrow> record_type_update (summary_type ts) k)"
proof -
  have "\<forall>k \<in> set (List.map_filter decl_type ts). k \<noteq> REmpty"
    by (auto simp: List.map_filter_def decl_type_not_special split: option.splits)
  then show ?thesis
    by (cases "List.map_filter decl_type ts"; cases "decl_type t")
       (auto simp: summary_type_def map_filter_snoc record_type_update_def
        split: list.splits record_type.splits)
qed

lemma add_token_error: "add_token t c = Inl e \<Longrightarrow> tt t = PreprEndif \<and> e = UnmatchedEndif"
  by (auto simp: add_token_def push_prepr_endif_def Let_def split: token_type.splits if_splits)

lemma add_token_Inr:
  "add_token t c = Inr r \<Longrightarrow> tokens r = tokens c @ [t] \<and> used r = used c
     \<and> nesting r = nesting c + nest_delta t
     \<and> rt r = (case decl_type t of None \<Rightarrow> rt c | Some k \<Rightarrow> record_type_update (rt c) k)
     \<and> ids r = ids c @ (if decl_type t \<noteq> None \<and> token_id t \<noteq> [] then [token_id t] else [])"
  by (auto simp: add_token_def push_prepr_endif_def push_prepr_if_def push_token_def
      push_record_type_token_def nest_delta_def decl_type_def Let_def split: token_type.splits if_splits)

lemma add_token_Inr_iff:
  "0 \<le> nesting c \<Longrightarrow> (\<exists>r. add_token t c = Inr r) \<longleftrightarrow> 0 \<le> nesting c + nest_delta t"
  by (auto simp: add_token_def push_prepr_endif_def nest_delta_def Let_def split: token_type.splits)

lemma add_token_ok:
  assumes "record_ok c" "add_token t c = Inr r"
  shows "record_ok r"
proof -
  have c: "0 \<le> nesting c" using assms(1) balanced_end by (fastforce simp: record_ok_def)
  then have "0 \<le> nesting r" using add_token_Inr_iff [of c t] assms(2) add_token_Inr by fastforce
  then show ?thesis
    using assms(1) c add_token_Inr [OF assms(2)]
    by (auto simp: record_ok_def summary_type_snoc decls_def balanced_append split: option.splits)
qed

lemma record_ok_nesting: "record_ok c \<Longrightarrow> 0 \<le> nesting c"
  using balanced_end by (fastforce simp: record_ok_def)

lemma group_list_unbalanced:
  "record_ok c \<Longrightarrow> \<not> balanced (nesting c) ts \<Longrightarrow> group_list ts c = Inl UnmatchedEndif"
proof (induction ts arbitrary: c)
  case Nil
  then show ?case using record_ok_nesting by simp
next
  case (Cons t ts)
  show ?case
  proof (cases "add_token t c")
    case (Inl e)
    then show ?thesis using add_token_error by fastforce
  next
    case (Inr r)
    have r: "record_ok r" "nesting r = nesting c + nest_delta t"
      using add_token_ok [OF Cons.prems(1) Inr] add_token_Inr [OF Inr] by auto
    have nb: "\<not> balanced (nesting r) ts" using Cons.prems r record_ok_nesting by auto
    show ?thesis
    proof (cases "is_ready r")
      case True
      then have "nesting r = nesting Record_new" by (simp add: is_ready_def Record_new_def)
      then show ?thesis using Inr True nb Cons.IH [OF record_ok_new] by simp
    next
      case False
      then show ?thesis using Inr Cons.IH [OF r(1) nb] by simp
    qed
  qed
qed

definition grouped :: "token list \<Rightarrow> hrecord list \<Rightarrow> bool" where
  "grouped ts rs \<longleftrightarrow> rs \<noteq> [] \<and> concat (map tokens rs) = ts \<and> list_all record_ok rs
     \<and> list_all is_ready (butlast rs) \<and> \<not> is_ready (last rs)"

lemma group_list_balanced:
  "record_ok c \<Longrightarrow> \<not> is_ready c \<Longrightarrow> balanced (nesting c) ts \<Longrightarrow>
    \<exists>rs. group_list ts c = Inr rs \<and> grouped (tokens c @ ts) rs"
proof (induction ts arbitrary: c)
  case Nil
  then show ?case by (simp add: grouped_def)
next
  case (Cons t ts)
  have "0 \<le> nesting c + nest_delta t" using Cons.prems(3) balanced_nonneg by fastforce
  then obtain r where a: "add_token t c = Inr r"
    using add_token_Inr_iff [of c t] record_ok_nesting [OF Cons.prems(1)] by auto
  have r: "record_ok r" "nesting r = nesting c + nest_delta t" "tokens r = tokens c @ [t]"
    using add_token_ok [OF Cons.prems(1) a] add_token_Inr [OF a] by auto
  have b: "balanced (nesting r) ts" using Cons.prems(3) r by simp
  show ?case
  proof (cases "is_ready r")
    case True
    then have "nesting r = nesting Record_new" by (simp add: is_ready_def Record_new_def)
    moreover have "\<not> is_ready Record_new" by (simp add: is_ready_def Record_new_def)
    moreover have "tokens Record_new = []" by (simp add: Record_new_def)
    ultimately obtain rs where "group_list ts Record_new = Inr rs" "grouped ts rs"
      using Cons.IH [OF record_ok_new] b by auto
    then show ?thesis using a True r by (auto simp: grouped_def)
  next
    case False
    then show ?thesis using Cons.IH [OF r(1) False b] a r by simp
  qed
qed

subsection \<open>The identifiers the recognisers extract\<close>

text \<open>The identifier a piece of text ends with: what the byte arithmetic of the recognisers
  stands for.\<close>

definition trailing_id :: "(rchar \<Rightarrow> bool) \<Rightarrow> rstr \<Rightarrow> rstr" where
  "trailing_id ua p = rev (takeWhile (is_id_char ua) (rev p))"

lemma trailing_id_suffix: "\<exists>q. p = q @ trailing_id ua p"
proof -
  have "p = rev (takeWhile (is_id_char ua) (rev p) @ dropWhile (is_id_char ua) (rev p))" by simp
  then show ?thesis unfolding trailing_id_def by (metis rev_append)
qed

lemma trailing_id_len: "str_len (takeWhile (is_id_char ua) (rev p)) = str_len (trailing_id ua p)"
  by (simp add: trailing_id_def)

lemma trailing_id_range:
  assumes "b = str_len p" "a = str_len p - str_len (trailing_id ua p)"
  shows "str_range a b (p @ q) = ret (trailing_id ua p)"
proof -
  obtain h where h: "p = h @ trailing_id ua p" using trailing_id_suffix by blast
  then have "str_len p = str_len h + str_len (trailing_id ua p)" by (metis str_len_simps(3))
  then have "str_range a b (h @ trailing_id ua p @ q) = ret (trailing_id ua p)"
    using str_range_append [of a h b "trailing_id ua p" q] assms by simp
  then show ?thesis using h by (metis append_assoc)
qed

lemma trailing_id_le: "str_len (trailing_id ua p) \<le> str_len p"
  by (metis le_add2 str_len_simps(3) trailing_id_suffix)

lemma lit_semicolon: "lit '';'' = [59]" "str_len [59::rchar] = 1"
  by (simp_all add: len_utf8_def)

lemma token_const_eq:
  "token_const ua s = ret (case before_first [59] s of
     None \<Rightarrow> None
   | Some p \<Rightarrow> if str_contains (p @ [59]) (lit ''const'')
       then Some (Token_new Const (trailing_id ua p) (p @ [59])) else None)"
proof (cases "before_first [59] s")
  case (Some p)
  have "str_range (str_len p - str_len (trailing_id ua p)) (str_len p) (p @ [59])
      = ret (trailing_id ua p)"
    by (rule trailing_id_range) simp_all
  then show ?thesis
    using Some trailing_id_le [of ua p]
    by (simp add: token_const_def until_incl_total lit_semicolon trailing_id_len Let_def
        del: lit_simps)
qed (simp add: token_const_def until_incl_total lit_semicolon del: lit_simps)

lemma takeWhile_rev_last:
  "x \<notin> set b \<Longrightarrow> takeWhile (\<lambda>c. c \<noteq> x) (rev (a @ x # b)) = rev b"
  using takeWhile_append2 [of "rev b" "\<lambda>c. c \<noteq> x" "x # rev a"] by auto

lemma token_function_eq:
  assumes p: "before_first [59] s = Some p" and sp: "p @ [59] = a @ 40 # b" and b: "40 \<notin> set b"
  shows "token_function ua s = ret (Some (Token_new Function (trailing_id ua a) (p @ [59])))"
proof -
  have u: "until_incl s (lit '';'') = ret (Some (a @ 40 # b))"
    using p sp by (simp add: until_incl_total lit_semicolon del: lit_simps)
  have t: "takeWhile (\<lambda>c. c \<noteq> 40) (rev (a @ 40 # b)) = rev b" using b by (rule takeWhile_rev_last)
  have d: "drop (Suc (length b)) (rev (a @ 40 # b)) = rev a" by simp
  have l: "str_len (a @ 40 # b) = str_len a + 1 + str_len b" by (simp add: len_utf8_def)
  have r: "str_range (str_len (a @ 40 # b) - (1 + str_len b) - str_len (trailing_id ua a))
      (str_len (a @ 40 # b) - (1 + str_len b)) (a @ 40 # b) = ret (trailing_id ua a)"
    unfolding l by (rule trailing_id_range) simp_all
  show ?thesis
    using trailing_id_le [of ua a] r
    by (simp add: token_function_def u t d trailing_id_len l Let_def sp del: lit_simps rev_append rev.simps)
qed

lemma token_function_none:
  assumes "case before_first [59] s of None \<Rightarrow> True | Some p \<Rightarrow> 40 \<notin> set p"
  shows "token_function ua s = ret None"
  using assms by (auto simp: token_function_def until_incl_total lit_semicolon simp del: lit_simps
      split: option.splits)

lemma group_tokens_grouped:
  assumes "group_tokens ua stream = ret (Inr records)"
  shows "\<exists>ts. tokenise ua stream = ret ts \<and> grouped ts records"
proof -
  obtain ts where ts: "tokenise ua stream = ret ts"
    using assms group_loop_Inr_tokenise by (fastforce simp: group_tokens_def)
  have g: "group_list ts Record_new = Inr records"
    using group_loop_tokenise [OF ts, of Record_new "[]"] assms
    by (cases "group_list ts Record_new") (auto simp: group_tokens_def)
  have n: "nesting Record_new = 0" "tokens Record_new = []" "\<not> is_ready Record_new"
    by (simp_all add: Record_new_def is_ready_def)
  have "balanced 0 ts" using group_list_unbalanced [OF record_ok_new, of ts] g n by auto
  then show ?thesis using group_list_balanced [OF record_ok_new n(3), of ts] n g ts by auto
qed

lemma group_loop_ok: "group_tokens ua stream = ret (Inr records) \<Longrightarrow> list_all record_ok records"
  by (auto simp: grouped_def dest: group_tokens_grouped)

subsection \<open>Properties\<close>

text \<open>C3: \<open>group_tokens\<close> loses nothing and cuts at declaration boundaries. When it succeeds,
  the spans of the tokens of its records, in order, are the whole input; every record knows its
  nesting, type and identifiers, and its conditionals are balanced prefix by prefix; and every
  record but the last is complete (it holds a declaration and no open conditional).\<close>

theorem group_tokens_lossless:
  assumes "group_tokens ua stream = ret (Inr records)"
  shows "concat (map span (concat (map tokens records))) = stream
    \<and> list_all record_ok records \<and> list_all is_ready (butlast records)"
  using group_tokens_grouped [OF assms] by (auto simp: grouped_def dest: tokenise_spans)

theorem group_tokens_lossless_witness:
  "group_tokens (\<lambda>_. False) (lit ''int f(int x);//c'')
    = ret (Inr [\<lparr>used = False, rt = RFunction, nesting = 0, ids = [lit ''f''],
        tokens = [Token_new Function (lit ''f'') (lit ''int f(int x);'')]\<rparr>,
       \<lparr>used = False, rt = REmpty, nesting = 0, ids = [],
        tokens = [Token_new Comment [] (lit ''//c'')]\<rparr>])
   \<and> list_all record_ok [\<lparr>used = False, rt = RFunction, nesting = 0, ids = [lit ''f''],
        tokens = [Token_new Function (lit ''f'') (lit ''int f(int x);'')]\<rparr>]"
proof -
  have g: "group_tokens (\<lambda>_. False) (lit ''int f(int x);//c'')
    = ret (Inr [\<lparr>used = False, rt = RFunction, nesting = 0, ids = [lit ''f''],
        tokens = [Token_new Function (lit ''f'') (lit ''int f(int x);'')]\<rparr>,
       \<lparr>used = False, rt = REmpty, nesting = 0, ids = [],
        tokens = [Token_new Comment [] (lit ''//c'')]\<rparr>])"
    by code_simp
  show ?thesis using group_tokens_lossless [OF g] g by simp
qed

text \<open>C21: on an input the tokenizer accepts, \<open>group_tokens\<close> returns, and it returns an error
  exactly when some \<open>#endif\<close> has no conditional to close, at any place in the stream: the
  nesting count, which restarts with every record, misses none and invents none.\<close>

theorem group_tokens_error_iff:
  assumes "tokenise ua stream = ret ts"
  shows "(\<exists>out. group_tokens ua stream = ret out)
    \<and> (group_tokens ua stream = ret (Inl UnmatchedEndif) \<longleftrightarrow> \<not> balanced 0 ts)"
proof -
  have e: "group_tokens ua stream = ret (map_sum id ((@) []) (group_list ts Record_new))"
    using group_loop_tokenise [OF assms] by (simp add: group_tokens_def)
  have n: "nesting Record_new = 0" "\<not> is_ready Record_new"
    by (simp_all add: Record_new_def is_ready_def)
  show ?thesis
  proof (cases "balanced 0 ts")
    case True
    then show ?thesis using group_list_balanced [OF record_ok_new n(2), of ts] n e by auto
  next
    case False
    then show ?thesis using group_list_unbalanced [OF record_ok_new, of ts] n e by auto
  qed
qed

theorem group_tokens_error_iff_witness:
  "tokenise (\<lambda>_. False) (lit ''#endif'') = ret [Token_new PreprEndif [] (lit ''#endif'')]
   \<and> group_tokens (\<lambda>_. False) (lit ''#endif'') = ret (Inl UnmatchedEndif)"
proof -
  have t: "tokenise (\<lambda>_. False) (lit ''#endif'') = ret [Token_new PreprEndif [] (lit ''#endif'')]"
    by code_simp
  show ?thesis using group_tokens_error_iff [OF t] t by (simp add: nest_delta_def)
qed

text \<open>The byte arithmetic of the function recogniser finds the function's name. On a
  declaration up to its first \<open>;\<close> whose last parenthesis opens after the text \<open>a\<close>, the
  recogniser does not panic (no slice is out of range or inside a character) and its token has
  the identifier \<open>a\<close> ends with, whatever non-ASCII text surrounds it.\<close>

lemma token_function_name:
  assumes "s = p @ 59 # rest" "59 \<notin> set p" "p = a @ 40 # b" "40 \<notin> set b"
  shows "token_function ua s = ret (Some (Token_new Function (trailing_id ua a) (p @ [59])))"
proof -
  have "before_first [59] s = Some p"
    using assms(1,2) by (induction p arbitrary: s) (auto simp: starts_with_def)
  then show ?thesis by (rule token_function_eq [of s p a "b @ [59]"]) (use assms in auto)
qed

end
