(* ===== verification/SplitRules.thy ===== *)
theory SplitRules
  imports SplitGuide
begin

text \<open>
  \<open>buildrs/splitguide.rs\<close>: the rules of \<open>splitguide.yaml\<close> and \<open>split_bindings\<close>.

  The parsed YAML file (\<open>serde_yaml\<close>) is a parameter: its entries in the iteration order of the
  \<open>HashMap\<close>, with distinct paths. \<open>tf\<close> is \<open>test_feature\<close>. The open output files are an
  association list from path to contents; writes to them succeed, and the file system calls that
  lock, unlock and delete files are left out.
\<close>

subsection \<open>Rules\<close>

type_synonym path = rstr

datatype split_rule = Brand record_type | Exclusive rstr | Shared rstr

type_synonym split_guide = "(path \<times> split_rule list) list"

text \<open>The two closures of \<open>SplitGuide::from_yaml\<close>: the feature filter and the parser of a rule.\<close>

definition rule_text :: "(rstr \<Rightarrow> bool) \<Rightarrow> rstr \<Rightarrow> rstr option" where
  "rule_text tf s =
    (let parts = split_char (of_char CHR ''#'') s in
     if list_all tf (tl parts) then Some (hd parts) else None)"

definition parse_rule :: "rstr \<Rightarrow> split_rule" where
  "parse_rule s =
    (if s = lit '':functions'' then Brand RFunction
     else if s = lit '':typedefs'' then Brand RTypedef
     else if s = lit '':includes'' then Brand RPreprInclude
     else if s = lit '':defines'' then Brand RPreprDefine
     else if s = lit '':const'' then Brand RConst
     else if s = lit '':multiples'' then Brand RMultiple
     else if s \<noteq> [] \<and> last s = of_char CHR ''!'' then Exclusive (butlast s)
     else Shared s)"

definition from_yaml :: "(rstr \<Rightarrow> bool) \<Rightarrow> (path \<times> rstr list) list \<Rightarrow> split_guide" where
  "from_yaml tf entries =
    map (\<lambda>(name, rules). (name, map parse_rule (List.map_filter (rule_text tf) rules))) entries"

definition rule_shared :: "hrecord \<Rightarrow> split_rule \<Rightarrow> bool" where
  "rule_shared r rule = (case rule of
     Brand brand \<Rightarrow> brand = rt r
   | Exclusive i \<Rightarrow> False
   | Shared i \<Rightarrow> contains_id r i)"

definition rule_exclusive :: "hrecord \<Rightarrow> split_rule \<Rightarrow> bool" where
  "rule_exclusive r rule = (case rule of Exclusive i \<Rightarrow> contains_id r i | _ \<Rightarrow> False)"

text \<open>The inner loop of \<open>appropriate_files\<close>, on the two vectors.\<close>

fun match_rules :: "hrecord \<Rightarrow> path \<Rightarrow> split_rule list \<Rightarrow> path list \<times> path list \<Rightarrow> path list \<times> path list" where
  "match_rules r file [] acc = acc"
| "match_rules r file (rule # rules) (shared, exclusives) = match_rules r file rules
    (case rule of
       Brand brand \<Rightarrow> if brand = rt r then (shared @ [file], exclusives) else (shared, exclusives)
     | Exclusive i \<Rightarrow> if contains_id r i then (shared, exclusives @ [file]) else (shared, exclusives)
     | Shared i \<Rightarrow> if contains_id r i then (shared @ [file], exclusives) else (shared, exclusives))"

definition appropriate_files :: "split_guide \<Rightarrow> hrecord \<Rightarrow> path list" where
  "appropriate_files guide r =
    (case fold (\<lambda>(file, rules). match_rules r file rules) guide ([], []) of
       (shared, exclusives) \<Rightarrow> if exclusives = [] then shared else exclusives)"

definition requested_ids :: "split_guide \<Rightarrow> rstr list" where
  "requested_ids guide = concat (map (\<lambda>(_, rules). List.map_filter
     (\<lambda>r. case r of Brand _ \<Rightarrow> None | Exclusive s \<Rightarrow> Some s | Shared s \<Rightarrow> Some s) rules) guide)"

subsection \<open>Writing the headers\<close>

type_synonym out_files = "(path \<times> rstr) list"

text \<open>\<open>HEADER\<close>, the licence text every header starts with.\<close>

definition HEADER :: rstr where
  "HEADER = lit (''//\<newline>// Copyright (c) 2024 ZettaScale Technology\<newline>//\<newline>''
     @ ''// This program and the accompanying materials are made available under the\<newline>''
     @ ''// terms of the Eclipse Public License 2.0 which is available at\<newline>''
     @ ''// http://www.eclipse.org/legal/epl-2.0, or the Apache License, Version 2.0\<newline>''
     @ ''// which is available at https://www.apache.org/licenses/LICENSE-2.0.\<newline>//\<newline>''
     @ ''// SPDX-License-Identifier: EPL-2.0 OR Apache-2.0\<newline>//\<newline>// Contributors:\<newline>''
     @ ''//   ZettaScale Zenoh Team, <zenoh@zettascale.tech>\<newline>//\<newline>// clang-format off\<newline>''
     @ ''#ifdef DOCS\<newline>#define ALIGN(n)\<newline>#define ZENOHC_API\<newline>#endif\<newline>'')"

definition open_files :: "split_guide \<Rightarrow> out_files" where
  "open_files guide = map (\<lambda>(path, _). (path, HEADER)) guide"

text \<open>\<open>files.get_mut(&file).unwrap()\<close> followed by a write.\<close>

fun append_to :: "path \<Rightarrow> rstr \<Rightarrow> out_files \<Rightarrow> out_files run" where
  "append_to file txt [] = panic"
| "append_to file txt ((p, c) # fs) =
    (if p = file then ret ((p, c @ txt) # fs) else map_option ((#) (p, c)) (append_to file txt fs))"

text \<open>The body of the writing loop: one record to its files.\<close>

fun write_record :: "path list \<Rightarrow> hrecord \<Rightarrow> out_files \<Rightarrow> (hrecord \<times> out_files) run" where
  "write_record [] r fs = ret (r, fs)"
| "write_record (file # files) r fs = do {
     let r = r\<lparr>used := True\<rparr>;
     fs \<leftarrow> append_to file (record_display r) fs;
     write_record files r fs
   }"

fun write_records :: "split_guide \<Rightarrow> hrecord list \<Rightarrow> out_files \<Rightarrow> (hrecord list \<times> out_files) run" where
  "write_records guide [] fs = ret ([], fs)"
| "write_records guide (r # rs) fs = do {
     (r, fs) \<leftarrow> write_record (appropriate_files guide r) r fs;
     (rs, fs) \<leftarrow> write_records guide rs fs;
     ret (r # rs, fs)
   }"

fun first_unused :: "hrecord list \<Rightarrow> split_error + unit" where
  "first_unused [] = Inr ()"
| "first_unused (r # rs) = (case is_used r of Inl e \<Rightarrow> Inl e | Inr _ \<Rightarrow> first_unused rs)"

text \<open>\<open>split_bindings\<close>, from the contents of the generated header. It returns the contents of the
  output files beside its result, since they are written on the error paths too.\<close>

definition split_bindings ::
  "(rchar \<Rightarrow> bool) \<Rightarrow> split_guide \<Rightarrow> rstr \<Rightarrow> (out_files \<times> (split_error + path list)) run" where
  "split_bindings ua guide bindings = do {
     let files = open_files guide;
     grouped \<leftarrow> group_tokens ua bindings;
     case grouped of
       Inl e \<Rightarrow> ret (files, Inl e)
     | Inr records \<Rightarrow>
         (case find (\<lambda>i. \<not> list_ex (\<lambda>r. contains_id r i) records) (requested_ids guide) of
            Some i \<Rightarrow> ret (files, Inl (IdNotFound i))
          | None \<Rightarrow> do {
              (records, files) \<leftarrow> write_records guide records files;
              case first_unused records of
                Inl e \<Rightarrow> ret (files, Inl e)
              | Inr _ \<Rightarrow> ret (files, Inr (map fst files))
            })
   }"

subsection \<open>Lemmas\<close>

lemma match_rules_eq:
  "match_rules r file rules (sh, ex) =
    (sh @ map (\<lambda>_. file) (filter (rule_shared r) rules), ex @ map (\<lambda>_. file) (filter (rule_exclusive r) rules))"
  by (induction rules arbitrary: sh ex)
    (auto simp: rule_shared_def rule_exclusive_def split: split_rule.splits)

definition files_by :: "(split_rule \<Rightarrow> bool) \<Rightarrow> split_guide \<Rightarrow> path list" where
  "files_by P guide = concat (map (\<lambda>(file, rules). map (\<lambda>_. file) (filter P rules)) guide)"

lemma fold_match_rules:
  "fold (\<lambda>(file, rules). match_rules r file rules) guide (sh, ex) =
    (sh @ files_by (rule_shared r) guide, ex @ files_by (rule_exclusive r) guide)"
  by (induction guide arbitrary: sh ex) (auto simp: match_rules_eq files_by_def)

lemma appropriate_files_eq:
  "appropriate_files guide r =
    (if files_by (rule_exclusive r) guide = [] then files_by (rule_shared r) guide
     else files_by (rule_exclusive r) guide)"
  by (simp add: appropriate_files_def fold_match_rules)

lemma files_by_set: "set (files_by P guide) = {f. \<exists>rules. (f, rules) \<in> set guide \<and> (\<exists>x \<in> set rules. P x)}"
  by (auto simp: files_by_def)

lemma appropriate_files_listed: "f \<in> set (appropriate_files guide r) \<Longrightarrow> f \<in> fst ` set guide"
  by (force simp: appropriate_files_eq files_by_set split: if_splits)

lemma record_display_used [simp]: "record_display (r\<lparr>used := b\<rparr>) = record_display r"
  by (simp add: record_display_def)

text \<open>A change of the contents that keeps the files.\<close>

definition on_contents :: "(path \<Rightarrow> rstr \<Rightarrow> rstr) \<Rightarrow> out_files \<Rightarrow> out_files" where
  "on_contents g fs = map (\<lambda>(p, c). (p, g p c)) fs"

lemma on_contents_keys [simp]: "map fst (on_contents g fs) = map fst fs"
  by (simp add: on_contents_def case_prod_beta comp_def)

lemma on_contents_dom [simp]: "fst ` set (on_contents g fs) = fst ` set fs"
  by (metis list.set_map on_contents_keys)

lemma on_contents_comp [simp]:
  "on_contents g (on_contents h fs) = on_contents (\<lambda>p c. g p (h p c)) fs"
  by (simp add: on_contents_def case_prod_beta)

lemma on_contents_id [simp]: "on_contents (\<lambda>p c. c) fs = fs"
  by (simp add: on_contents_def)

lemma on_contents_other:
  "f \<notin> fst ` set fs \<Longrightarrow> on_contents (\<lambda>p c. if p = f then g p c else c) fs = fs"
  by (induction fs) (auto simp: on_contents_def)

lemma append_to_eq:
  "f \<in> fst ` set fs \<Longrightarrow> distinct (map fst fs) \<Longrightarrow>
    append_to f txt fs = ret (on_contents (\<lambda>p c. if p = f then c @ txt else c) fs)"
proof (induction fs)
  case (Cons e fs)
  show ?case
  proof (cases "fst e = f")
    case True
    then have "f \<notin> fst ` set fs" using Cons.prems by auto
    then have "on_contents (\<lambda>p c. if p = f then c @ txt else c) fs = fs"
      by (rule on_contents_other)
    then show ?thesis using True by (cases e) (simp add: on_contents_def)
  next
    case False
    then show ?thesis using Cons by (cases e) (auto simp: on_contents_def)
  qed
qed simp

text \<open>What a run of writes leaves in a file: its old contents and then, in order, the records
  that have it among their files, once per occurrence.\<close>

definition copies :: "path list \<Rightarrow> hrecord \<Rightarrow> path \<Rightarrow> rstr" where
  "copies files r p = concat (replicate (count_list files p) (record_display r))"

definition share :: "split_guide \<Rightarrow> hrecord list \<Rightarrow> path \<Rightarrow> rstr" where
  "share guide rs p = concat (map (\<lambda>r. copies (appropriate_files guide r) r p) rs)"

lemma write_record_eq:
  "set files \<subseteq> fst ` set fs \<Longrightarrow> distinct (map fst fs) \<Longrightarrow>
    write_record files r fs = ret (if files = [] then r else r\<lparr>used := True\<rparr>,
      on_contents (\<lambda>p c. c @ copies files r p) fs)"
proof (induction files arbitrary: r fs)
  case Nil
  then show ?case by (simp add: copies_def)
next
  case (Cons f files)
  let ?fs = "on_contents (\<lambda>p c. if p = f then c @ record_display r else c) fs"
  have "write_record files (r\<lparr>used := True\<rparr>) ?fs = ret (r\<lparr>used := True\<rparr>,
      on_contents (\<lambda>p c. c @ copies files (r\<lparr>used := True\<rparr>) p) ?fs)"
    using Cons.IH [of ?fs "r\<lparr>used := True\<rparr>"] Cons.prems by simp
  moreover have "on_contents (\<lambda>p c. c @ copies files (r\<lparr>used := True\<rparr>) p) ?fs
      = on_contents (\<lambda>p c. c @ copies (f # files) r p) fs"
    by (auto simp: copies_def on_contents_def)
  ultimately show ?case using Cons.prems by (simp add: append_to_eq Let_def cong: if_cong)
qed

lemma write_records_eq:
  "fst ` set fs = fst ` set guide \<Longrightarrow> distinct (map fst fs) \<Longrightarrow>
    write_records guide rs fs =
      ret (map (\<lambda>r. if appropriate_files guide r = [] then r else r\<lparr>used := True\<rparr>) rs,
           on_contents (\<lambda>p c. c @ share guide rs p) fs)"
proof (induction rs arbitrary: fs)
  case Nil
  then show ?case by (simp add: share_def)
next
  case (Cons r rs)
  have "set (appropriate_files guide r) \<subseteq> fst ` set fs"
    using Cons.prems(1) appropriate_files_listed by auto
  note w = write_record_eq [OF this Cons.prems(2)]
  show ?case
    using Cons.IH [of "on_contents (\<lambda>p c. c @ copies (appropriate_files guide r) r p) fs"] Cons.prems
    by (simp add: w share_def)
qed

lemma first_unused_Inr: "first_unused rs = Inr () \<longleftrightarrow> (\<forall>r \<in> set rs. is_used r = Inr ())"
  by (induction rs) (auto split: sum.splits)

lemma rule_exclusive_any:
  "(\<exists>x \<in> set rules. rule_exclusive r x) \<longleftrightarrow> (\<exists>i. Exclusive i \<in> set rules \<and> i \<in> set (ids r))"
proof -
  have "rule_exclusive r x \<longleftrightarrow> (\<exists>i. x = Exclusive i \<and> i \<in> set (ids r))" for x
    by (cases x) (auto simp: rule_exclusive_def contains_id_def list_ex_iff)
  then show ?thesis by auto
qed

lemma rule_shared_any:
  "(\<exists>x \<in> set rules. rule_shared r x) \<longleftrightarrow>
    (Brand (rt r) \<in> set rules \<or> (\<exists>i. Shared i \<in> set rules \<and> i \<in> set (ids r)))"
proof -
  have "rule_shared r x \<longleftrightarrow> x = Brand (rt r) \<or> (\<exists>i. x = Shared i \<and> i \<in> set (ids r))" for x
    by (cases x) (auto simp: rule_shared_def contains_id_def list_ex_iff)
  then show ?thesis by auto
qed

lemma open_files_keys [simp]: "map fst (open_files guide) = map fst guide"
  by (simp add: open_files_def case_prod_beta comp_def)

lemma open_files_dom: "fst ` set (open_files guide) = fst ` set guide"
  by (metis list.set_map open_files_keys)

lemma on_open_files:
  "on_contents (\<lambda>p c. c @ g p) (open_files guide) = map (\<lambda>(p, _). (p, HEADER @ g p)) guide"
  by (simp add: on_contents_def open_files_def case_prod_beta)

definition mark_used :: "split_guide \<Rightarrow> hrecord \<Rightarrow> hrecord" where
  "mark_used guide r = (if appropriate_files guide r = [] then r else r\<lparr>used := True\<rparr>)"

lemma split_bindings_written:
  assumes "group_tokens ua bindings = ret (Inr records)" "distinct (map fst guide)"
    and "list_all (\<lambda>i. list_ex (\<lambda>r. contains_id r i) records) (requested_ids guide)"
  shows "split_bindings ua guide bindings =
    ret (map (\<lambda>(p, _). (p, HEADER @ share guide records p)) guide,
         map_sum id (\<lambda>_. map fst guide) (first_unused (map (mark_used guide) records)))"
proof -
  have "find (\<lambda>i. \<not> list_ex (\<lambda>r. contains_id r i) records) (requested_ids guide) = None"
    using assms(3) by (simp add: find_None_iff_all)
  moreover have "map fst (map (\<lambda>(p, _). (p, HEADER @ share guide records p)) guide) = map fst guide"
    by (simp add: case_prod_beta comp_def)
  moreover note write_records_eq [OF open_files_dom, of guide records]
  ultimately show ?thesis
    using assms(1,2) by (auto simp: split_bindings_def on_open_files mark_used_def [abs_def] Let_def
        split: sum.splits)
qed

lemma mark_used_is_used:
  "\<not> used r \<Longrightarrow> is_used (mark_used guide r) = Inr () \<longleftrightarrow>
     appropriate_files guide r \<noteq> [] \<or> rt r = REmpty \<or> rt r = RPrivateToken"
  by (auto simp: mark_used_def is_used_def)

lemma count_list_pos: "x \<in> set xs \<longleftrightarrow> 0 < count_list xs x"
  by (metis count_list_0_iff neq0_conv)

lemma share_contains:
  assumes "r \<in> set rs" "p \<in> set (appropriate_files guide r)"
  shows "\<exists>a b. share guide rs p = a @ record_display r @ b"
proof -
  obtain xs ys where rs: "rs = xs @ r # ys" using assms(1) split_list by metis
  obtain k where "count_list (appropriate_files guide r) p = Suc k"
    using assms(2) by (metis count_list_pos gr0_implies_Suc)
  then have "share guide rs p = share guide xs p @ record_display r
      @ concat (replicate k (record_display r)) @ share guide ys p"
    by (simp add: share_def copies_def rs)
  then show ?thesis by blast
qed

subsection \<open>Properties\<close>

text \<open>C20: what \<open>split_bindings\<close> writes. When the header groups into records, the guide's paths
  are distinct (they are the keys of a map) and every identifier the guide names is found, the
  function returns (no writer is missing), and every output file is exactly the licence header
  followed by the displays of the records assigned to it, in the order of the generated header
  and once per rule that assigns them.\<close>

theorem split_bindings_files:
  assumes "group_tokens ua bindings = ret (Inr records)" "distinct (map fst guide)"
    and "list_all (\<lambda>i. list_ex (\<lambda>r. contains_id r i) records) (requested_ids guide)"
  shows "\<exists>res. split_bindings ua guide bindings =
    ret (map (\<lambda>(p, _). (p, HEADER @ concat (map (\<lambda>r. concat (replicate
       (count_list (appropriate_files guide r) p) (record_display r))) records))) guide, res)"
  using split_bindings_written [OF assms] by (simp add: share_def copies_def)

theorem split_bindings_files_witness:
  "\<exists>res. split_bindings (\<lambda>_. False) [(lit ''a.h'', [Brand RFunction])] (lit ''int f(int x);'')
     = ret ([(lit ''a.h'', HEADER @ lit ''int f(int x);\<newline>'')], res)"
proof -
  let ?r = "\<lparr>used = False, rt = RFunction, nesting = 0, ids = [lit ''f''],
        tokens = [Token_new Function (lit ''f'') (lit ''int f(int x);'')]\<rparr>"
  have g: "group_tokens (\<lambda>_. False) (lit ''int f(int x);'') = ret (Inr [?r, Record_new])"
    by code_simp
  have d: "appropriate_files [(lit ''a.h'', [Brand RFunction])] ?r = [lit ''a.h'']"
    "appropriate_files [(lit ''a.h'', [Brand RFunction])] Record_new = []"
    "record_display ?r = lit ''int f(int x);\<newline>''"
    by code_simp+
  show ?thesis
    using split_bindings_files [OF g, of "[(lit ''a.h'', [Brand RFunction])]"] d
    by (simp add: requested_ids_def List.map_filter_def del: lit_simps)
qed

text \<open>C4: nothing is silently dropped. When \<open>split_bindings\<close> succeeds, every record of the
  header that holds a public declaration appears in at least one output file, and the paths it
  returns are those of the guide.\<close>

theorem split_bindings_complete:
  assumes "split_bindings ua guide bindings = ret (files, Inr paths)" "distinct (map fst guide)"
    and "group_tokens ua bindings = ret (Inr records)" "r \<in> set records"
    and "rt r \<noteq> REmpty" "rt r \<noteq> RPrivateToken"
  shows "paths = map fst guide \<and> (\<exists>p c a b. (p, c) \<in> set files \<and> c = a @ record_display r @ b)"
proof -
  have ids: "list_all (\<lambda>i. list_ex (\<lambda>r. contains_id r i) records) (requested_ids guide)"
    using assms(1,3) by (auto simp: split_bindings_def find_None_iff_all Let_def split: option.splits)
  note w = split_bindings_written [OF assms(3,2) ids]
  have u: "first_unused (map (mark_used guide) records) = Inr ()"
    and fs: "files = map (\<lambda>(p, _). (p, HEADER @ share guide records p)) guide"
    and ps: "paths = map fst guide"
    using w assms(1) by (cases "first_unused (map (mark_used guide) records)"; auto)+
  have "\<not> used r"
    using group_loop_ok [OF assms(3)] assms(4) by (auto simp: list_all_iff record_ok_def)
  then obtain p where p: "p \<in> set (appropriate_files guide r)"
    using u assms(4-6) mark_used_is_used [of r guide] by (fastforce simp: first_unused_Inr neq_Nil_conv)
  then obtain v where "(p, v) \<in> set guide" using appropriate_files_listed by fastforce
  then have "(p, HEADER @ share guide records p) \<in> set files" by (force simp: fs)
  moreover obtain a b where "share guide records p = a @ record_display r @ b"
    using share_contains [OF assms(4) p] by blast
  ultimately show ?thesis using ps by (metis append_assoc)
qed

theorem split_bindings_complete_witness:
  "\<exists>c a b. c = a @ lit ''int f(int x);\<newline>'' @ b \<and>
     split_bindings (\<lambda>_. False) [(lit ''a.h'', [Brand RFunction])] (lit ''int f(int x);'')
       = ret ([(lit ''a.h'', c)], Inr [lit ''a.h''])"
proof -
  let ?r = "\<lparr>used = False, rt = RFunction, nesting = 0, ids = [lit ''f''],
        tokens = [Token_new Function (lit ''f'') (lit ''int f(int x);'')]\<rparr>"
  let ?guide = "[(lit ''a.h'', [Brand RFunction])]"
  have g: "group_tokens (\<lambda>_. False) (lit ''int f(int x);'') = ret (Inr [?r, Record_new])"
    by code_simp
  have "first_unused (map (mark_used ?guide) [?r, Record_new]) = Inr ()"
    "share ?guide [?r, Record_new] (lit ''a.h'') = lit ''int f(int x);\<newline>''"
    by code_simp+
  then have s: "split_bindings (\<lambda>_. False) ?guide (lit ''int f(int x);'')
      = ret ([(lit ''a.h'', HEADER @ lit ''int f(int x);\<newline>'')], Inr [lit ''a.h''])"
    using split_bindings_written [OF g, of ?guide]
    by (simp add: requested_ids_def List.map_filter_def del: lit_simps)
  have d: "record_display ?r = lit ''int f(int x);\<newline>''" by code_simp
  show ?thesis
    using split_bindings_complete [OF s _ g, of ?r] s by (auto simp: d simp del: lit_simps)
qed

text \<open>An exclusive rule takes a record away from every other rule. When some rule
  \<open>id!\<close> names an identifier of the record, the record is assigned exactly to the files that have
  such a rule; only without one do brands and shared rules apply.\<close>

lemma exclusive_rules_win:
  "set (appropriate_files guide r) =
    (if \<exists>(f, rules) \<in> set guide. \<exists>i. Exclusive i \<in> set rules \<and> i \<in> set (ids r)
     then {f. \<exists>rules i. (f, rules) \<in> set guide \<and> Exclusive i \<in> set rules \<and> i \<in> set (ids r)}
     else {f. \<exists>rules. (f, rules) \<in> set guide \<and>
             (Brand (rt r) \<in> set rules \<or> (\<exists>i. Shared i \<in> set rules \<and> i \<in> set (ids r)))})"
proof -
  have "files_by (rule_exclusive r) guide = [] \<longleftrightarrow> set (files_by (rule_exclusive r) guide) = {}"
    by simp
  then show ?thesis
    unfolding appropriate_files_eq
    by (auto simp: files_by_set rule_exclusive_any rule_shared_any simp del: set_empty)
qed

end
