(* ===== verification/Preprocess.thy ===== *)
theory Preprocess
  imports RustStr
begin

text \<open>
  \<open>buildrs/cbindgen_generator.rs\<close>: the pass that evaluates the feature conditionals of the
  generated header (\<open>process_feature_defines\<close>, \<open>evaluate_c_defines_line\<close>), and the two other
  text passes that need no regular expression (\<open>fix_cbindgen\<close> and the replacements of
  \<open>text_replace\<close>).

  The parameters are \<open>tf\<close> (\<open>test_feature\<close>, which reads the features zenoh was built with) and
  \<open>ev\<close> (\<open>evalexpr::eval\<close>, an external crate). The map of features is given in source order.

  The lemmas give the pass a structured meaning: on a header whose conditionals nest, it is the
  evaluation of a tree of conditional blocks.
\<close>

subsection \<open>Replacing text\<close>

text \<open>\<open>str::replace\<close> with a non-empty pattern: left to right, without overlap.\<close>

function str_replace :: "rstr \<Rightarrow> rstr \<Rightarrow> rstr \<Rightarrow> rstr" where
  "str_replace pat to [] = []"
| "str_replace pat to (c # s) =
    (if pat \<noteq> [] \<and> starts_with pat (c # s) then to @ str_replace pat to (drop (length pat) (c # s))
     else c # str_replace pat to s)"
  by pat_completeness auto
termination
  by (relation "measure (\<lambda>(pat, to, s). length s)") (auto simp: neq_Nil_conv)

definition fix_cbindgen :: "rstr \<Rightarrow> rstr" where
  "fix_cbindgen bindings =
    str_replace (lit ''\<newline>#endif\<newline>  ;'') (lit '';\<newline>#endif'') bindings"

text \<open>The three plain replacements of \<open>text_replace\<close>.\<close>

definition text_replace_plain :: "rstr \<Rightarrow> rstr" where
  "text_replace_plain buf =
    str_replace (lit ''extern const'') (lit ''ZENOHC_API extern const'')
      (str_replace (lit ''_t_Tag'') (lit ''_tag_t'')
        (str_replace (lit ''_T_'') (lit ''_'') buf))"

subsection \<open>Feature conditionals\<close>

definition RUST_TO_C_FEATURES :: "(rstr \<times> rstr) list" where
  "RUST_TO_C_FEATURES = map (\<lambda>(r, c). (lit r, lit c)) [
     (''unstable'', ''Z_FEATURE_UNSTABLE_API''),
     (''shared-memory'', ''Z_FEATURE_SHARED_MEMORY''),
     (''auth_pubkey'', ''Z_FEATURE_AUTH_PUBKEY''),
     (''auth_usrpwd'', ''Z_FEATURE_AUTH_USRPWD''),
     (''transport_multilink'', ''Z_FEATURE_TRANSPORT_MULTILINK''),
     (''transport_compression'', ''Z_FEATURE_TRANSPORT_COMPRESSION''),
     (''transport_quic'', ''Z_FEATURE_TRANSPORT_QUIC''),
     (''transport_tcp'', ''Z_FEATURE_TRANSPORT_TCP''),
     (''transport_tls'', ''Z_FEATURE_TRANSPORT_TLS''),
     (''transport_udp'', ''Z_FEATURE_TRANSPORT_UDP''),
     (''transport_unixsock-stream'', ''Z_FEATURE_TRANSPORT_UNIXSOCK_STREAM''),
     (''transport_ws'', ''Z_FEATURE_TRANSPORT_WS''),
     (''transport_vsock'', ''Z_FEATURE_VSOCK''),
     (''transport_quic_datagram'', ''Z_FEATURE_TRANSPORT_QUIC_DATAGRAM'')]"

datatype eval_value = BoolValue bool | OtherValue

text \<open>The result of \<open>evalexpr::eval\<close>: \<open>None\<close> stands for \<open>Err\<close>.\<close>

type_synonym evaluator = "rstr \<Rightarrow> eval_value option"

definition evaluate_c_defines_line :: "(rstr \<Rightarrow> bool) \<Rightarrow> evaluator \<Rightarrow> rstr \<Rightarrow> bool run" where
  "evaluate_c_defines_line tf ev line =
    (let s = fold (\<lambda>(rust_feature, c_feature) s.
               str_replace (lit ''defined('' @ c_feature @ lit '')'')
                 (if tf rust_feature then lit ''true'' else lit ''false'') s)
               RUST_TO_C_FEATURES line;
         s = str_replace (lit ''#if'') [] s
     in case ev s of
          Some v \<Rightarrow> ret (v = BoolValue False)
        | None \<Rightarrow> panic)"

definition is_ifdef :: "rstr \<Rightarrow> bool" where
  "is_ifdef l \<longleftrightarrow> starts_with (lit ''#ifdef'') l"

definition is_endif :: "rstr \<Rightarrow> bool" where
  "is_endif l \<longleftrightarrow> starts_with (lit ''#endif'') l"

definition is_if :: "rstr \<Rightarrow> bool" where
  "is_if l \<longleftrightarrow> starts_with (lit ''#if '') l"

text \<open>The loop of \<open>process_feature_defines\<close> over the lines of the header, from the local
  variables \<open>skip\<close> and \<open>nest_level\<close> (a \<open>usize\<close>: decrementing zero panics). \<open>ev\<close> evaluates a
  line, as \<open>evaluate_c_defines_line tf ev\<close> does.\<close>

fun process_lines :: "(rstr \<Rightarrow> bool run) \<Rightarrow> bool \<Rightarrow> nat \<Rightarrow> rstr list \<Rightarrow> rstr run" where
  "process_lines ev skip nest_level [] = ret []"
| "process_lines ev skip nest_level (line # ls) =
    (if is_ifdef line \<and> skip then process_lines ev skip (nest_level + 1) ls
     else if is_endif line \<and> skip then
       (if nest_level = 0 then panic
        else process_lines ev (nest_level - 1 \<noteq> 0) (nest_level - 1) ls)
     else if is_if line then do {
       v \<leftarrow> (if skip then ret True else ev line);
       if v then process_lines ev True (nest_level + 1) ls
       else map_option (\<lambda>out. line @ lit ''\<newline>'' @ out) (process_lines ev False nest_level ls)
     }
     else if \<not> skip then map_option (\<lambda>out. line @ lit ''\<newline>'' @ out) (process_lines ev skip nest_level ls)
     else process_lines ev skip nest_level ls)"

definition process_feature_defines :: "(rstr \<Rightarrow> bool) \<Rightarrow> evaluator \<Rightarrow> rstr list \<Rightarrow> rstr run" where
  "process_feature_defines tf ev ls = process_lines (evaluate_c_defines_line tf ev) False 0 ls"

subsection \<open>A header as a tree of conditional blocks\<close>

datatype block = Text rstr | Cond rstr "block list" rstr

definition is_ifndef :: "rstr \<Rightarrow> bool" where
  "is_ifndef l \<longleftrightarrow> starts_with (lit ''#ifndef'') l"

fun flatten :: "block list \<Rightarrow> rstr list" where
  "flatten [] = []"
| "flatten (Text l # bs) = l # flatten bs"
| "flatten (Cond h body e # bs) = h # flatten body @ e # flatten bs"

text \<open>Well-nested text: a conditional opens with one of the three directives and closes with
  \<open>#endif\<close>; other lines are none of these.\<close>

fun nested :: "block list \<Rightarrow> bool" where
  "nested [] = True"
| "nested (Text l # bs) = (\<not> is_ifdef l \<and> \<not> is_endif l \<and> \<not> is_if l \<and> \<not> is_ifndef l \<and> nested bs)"
| "nested (Cond h body e # bs) =
    ((is_ifdef h \<or> is_if h \<or> is_ifndef h) \<and> is_endif e \<and> nested body \<and> nested bs)"

text \<open>No \<open>#ifndef\<close> opens a block, at any depth.\<close>

fun no_ifndef :: "block list \<Rightarrow> bool" where
  "no_ifndef [] = True"
| "no_ifndef (Text l # bs) = no_ifndef bs"
| "no_ifndef (Cond h body e # bs) = (\<not> is_ifndef h \<and> no_ifndef body \<and> no_ifndef bs)"

text \<open>What a preprocessor does with such a tree: a block whose \<open>#if\<close> is false goes, with
  everything in it; every other line stays.\<close>

fun eval_blocks :: "(rstr \<Rightarrow> bool run) \<Rightarrow> block list \<Rightarrow> rstr run" where
  "eval_blocks ev [] = ret []"
| "eval_blocks ev (Text l # bs) = map_option (\<lambda>out. l @ lit ''\<newline>'' @ out) (eval_blocks ev bs)"
| "eval_blocks ev (Cond h body e # bs) = do {
     removed \<leftarrow> (if is_if h then ev h else ret False);
     if removed then eval_blocks ev bs
     else do {
       inner \<leftarrow> eval_blocks ev body;
       outer \<leftarrow> eval_blocks ev bs;
       ret (h @ lit ''\<newline>'' @ inner @ e @ lit ''\<newline>'' @ outer)
     }
   }"

text \<open>No removed block holds an \<open>#ifndef\<close>.\<close>

fun removed_ok :: "(rstr \<Rightarrow> bool run) \<Rightarrow> block list \<Rightarrow> bool" where
  "removed_ok ev [] = True"
| "removed_ok ev (Text l # bs) = removed_ok ev bs"
| "removed_ok ev (Cond h body e # bs) =
    ((if is_if h \<and> ev h = ret True then no_ifndef body else removed_ok ev body) \<and> removed_ok ev bs)"

subsection \<open>Lemmas\<close>

lemma directives_disjoint:
  "is_ifdef l \<Longrightarrow> \<not> is_endif l \<and> \<not> is_if l \<and> \<not> is_ifndef l"
  "is_endif l \<Longrightarrow> \<not> is_if l \<and> \<not> is_ifndef l \<and> \<not> is_ifdef l"
  "is_ifndef l \<Longrightarrow> \<not> is_if l \<and> \<not> is_ifdef l \<and> \<not> is_endif l"
  using starts_with_nth [of "lit ''#ifdef''" l 3] starts_with_nth [of "lit ''#if ''" l 3]
    starts_with_nth [of "lit ''#ifndef''" l 3] starts_with_nth [of "lit ''#endif''" l 3]
    starts_with_nth [of "lit ''#endif''" l 1] starts_with_nth [of "lit ''#ifdef''" l 1]
  by (auto simp: is_ifdef_def is_endif_def is_if_def is_ifndef_def simp del: lit_simps)
     (simp_all add: numeral_3_eq_3)

lemma opener_not_endif: "is_ifdef h \<or> is_if h \<or> is_ifndef h \<Longrightarrow> \<not> is_endif h"
  using directives_disjoint by blast

text \<open>A block that is being skipped leaves the level as it found it.\<close>

lemma skip_blocks:
  "nested bs \<Longrightarrow> no_ifndef bs \<Longrightarrow>
    process_lines ev True (Suc n) (flatten bs @ ls) = process_lines ev True (Suc n) ls"
proof (induction bs arbitrary: n ls rule: flatten.induct)
  case (3 h body e bs)
  have e: "is_endif e" "\<not> is_ifdef e" "\<not> is_if e" using "3.prems" directives_disjoint(2) [of e] by simp_all
  have "process_lines ev True (Suc n) (flatten (Cond h body e # bs) @ ls) =
      process_lines ev True (Suc (Suc n)) (flatten body @ e # flatten bs @ ls)"
  proof -
    have "is_ifdef h \<or> is_if h" "\<not> is_endif h" using "3.prems" opener_not_endif by auto
    then show ?thesis by auto
  qed
  also have "\<dots> = process_lines ev True (Suc (Suc n)) (e # flatten bs @ ls)"
    using 3 by simp
  also have "\<dots> = process_lines ev True (Suc n) (flatten bs @ ls)" using e by simp
  finally show ?case using 3 by simp
qed auto

lemma process_blocks:
  "nested bs \<Longrightarrow> removed_ok ev bs \<Longrightarrow>
    process_lines ev False 0 (flatten bs @ ls) =
      do { a \<leftarrow> eval_blocks ev bs; b \<leftarrow> process_lines ev False 0 ls; ret (a @ b) }"
proof (induction bs arbitrary: ls rule: flatten.induct)
  case 1
  then show ?case by (cases "process_lines ev False 0 ls") auto
next
  case (2 l bs)
  then have "process_lines ev False 0 (flatten (Text l # bs) @ ls) =
      map_option (\<lambda>out. l @ lit ''\<newline>'' @ out) (process_lines ev False 0 (flatten bs @ ls))"
    by (simp del: lit_simps)
  also have "process_lines ev False 0 (flatten bs @ ls) =
      do { a \<leftarrow> eval_blocks ev bs; b \<leftarrow> process_lines ev False 0 ls; ret (a @ b) }"
    using 2 by simp
  finally show ?case
    by (cases "eval_blocks ev bs"; cases "process_lines ev False 0 ls") simp_all
next
  case (3 h body e bs)
  have e: "is_endif e" "\<not> is_ifdef e" "\<not> is_if e" using "3.prems" directives_disjoint(2) [of e] by simp_all
  have h: "\<not> is_endif h" using "3.prems" opener_not_endif by auto
  show ?case
  proof (cases "is_if h \<and> ev h = ret True")
    case True
    then have "process_lines ev False 0 (flatten (Cond h body e # bs) @ ls) =
        process_lines ev True (Suc 0) (flatten body @ e # flatten bs @ ls)" using h by simp
    also have "\<dots> = process_lines ev False 0 (flatten bs @ ls)"
      using True 3 e skip_blocks [of body ev 0 "e # flatten bs @ ls"] by simp
    finally show ?thesis using True 3 by simp
  next
    case False
    show ?thesis
    proof (cases "is_if h \<and> ev h = None")
      case True
      then show ?thesis using h by simp
    next
      case stay: False
      have "process_lines ev False 0 (flatten (Cond h body e # bs) @ ls) =
          map_option (\<lambda>out. h @ lit ''\<newline>'' @ out)
            (process_lines ev False 0 (flatten body @ e # flatten bs @ ls))"
        using False stay h by (cases "is_if h") auto
      then show ?thesis
        using False stay 3 e
        by (cases "is_if h"; cases "eval_blocks ev body"; cases "eval_blocks ev bs";
            cases "process_lines ev False 0 ls") auto
    qed
  qed
qed

text \<open>The nesting level alone, line by line: while it is zero nothing is skipped, and only an \<open>#if\<close> that
  evaluates to false raises it; while it is positive, \<open>#ifdef\<close> and \<open>#if\<close> raise it and \<open>#endif\<close> lowers it.\<close>

definition level_step :: "(rstr \<Rightarrow> bool run) \<Rightarrow> nat \<Rightarrow> rstr \<Rightarrow> nat run" where
  "level_step ev n line =
    (if n = 0 then (if is_if line then map_option (\<lambda>v. if v then 1 else 0) (ev line) else ret 0)
     else ret (if is_ifdef line \<or> is_if line then n + 1 else if is_endif line then n - 1 else n))"

primrec level_after :: "(rstr \<Rightarrow> bool run) \<Rightarrow> nat \<Rightarrow> rstr list \<Rightarrow> nat run" where
  "level_after ev n [] = ret n"
| "level_after ev n (line # ls) = Option.bind (level_step ev n line) (\<lambda>m. level_after ev m ls)"

lemma level_step_panic: "level_step ev n line = panic \<longleftrightarrow> n = 0 \<and> is_if line \<and> ev line = panic"
  by (simp add: level_step_def)

text \<open>\<open>skip\<close> holds exactly while the level is positive, so the level is never decremented from zero, and the pass
  stops at a line only where that line is evaluated in vain.\<close>

lemma process_lines_step:
  "process_lines ev (0 < n) n (line # ls) = panic \<longleftrightarrow>
    level_step ev n line = panic \<or>
    (\<exists>m. level_step ev n line = ret m \<and> process_lines ev (0 < m) m ls = panic)"
proof (cases n)
  case 0
  then show ?thesis
    by (cases "is_if line"; cases "ev line") (auto simp: level_step_def)
next
  case (Suc k)
  consider "is_ifdef line" "\<not> is_endif line" | "is_endif line" "\<not> is_ifdef line" "\<not> is_if line"
    | "is_if line" "\<not> is_ifdef line" "\<not> is_endif line" | "\<not> is_ifdef line" "\<not> is_endif line" "\<not> is_if line"
    using directives_disjoint [of line] by blast
  then show ?thesis by cases (simp_all add: Suc level_step_def)
qed

lemma process_lines_panic:
  "process_lines ev (0 < n) n ls = panic \<longleftrightarrow>
    (\<exists>pre line post. ls = pre @ line # post \<and> level_after ev n pre = ret 0 \<and> is_if line \<and> ev line = panic)"
proof (induction ls arbitrary: n)
  case (Cons line ls)
  have "(\<exists>pre l post. line # ls = pre @ l # post \<and> level_after ev n pre = ret 0 \<and> is_if l \<and> ev l = panic) \<longleftrightarrow>
      n = 0 \<and> is_if line \<and> ev line = panic \<or>
      (\<exists>m pre l post. level_step ev n line = ret m \<and> ls = pre @ l # post \<and> level_after ev m pre = ret 0 \<and>
         is_if l \<and> ev l = panic)" (is "?lhs \<longleftrightarrow> ?rhs")
  proof
    assume ?lhs
    then obtain pre l post where w: "line # ls = pre @ l # post" "level_after ev n pre = ret 0" "is_if l" "ev l = panic"
      by blast
    then show ?rhs
      by (cases pre) (auto simp: bind_eq_Some_conv)
  next
    assume ?rhs
    then consider "n = 0 \<and> is_if line \<and> ev line = panic"
      | m pre l post where "level_step ev n line = ret m" "ls = pre @ l # post" "level_after ev m pre = ret 0"
          "is_if l" "ev l = panic" by blast
    then show ?lhs
    proof cases
      case 1
      then show ?thesis by (intro exI [of _ "[]"] exI [of _ line] exI [of _ ls]) simp
    next
      case 2
      then show ?thesis by (intro exI [of _ "line # pre"] exI [of _ l] exI [of _ post]) simp
    qed
  qed
  then show ?case
    unfolding process_lines_step Cons.IH level_step_panic by blast
qed simp

subsection \<open>Properties\<close>

text \<open>C5: \<open>process_feature_defines\<close> computes the structured meaning of feature conditionals.
  On a header whose conditionals nest, and in which no block it removes holds an \<open>#ifndef\<close>, its
  output is that of the tree: exactly the blocks whose \<open>#if\<close> line evaluates to false are
  removed, with all they contain, and every other line is kept, in order.\<close>

theorem process_feature_defines_tree:
  assumes "nested bs" "removed_ok (evaluate_c_defines_line tf ev) bs"
  shows "process_feature_defines tf ev (flatten bs) = eval_blocks (evaluate_c_defines_line tf ev) bs"
  using process_blocks [OF assms, of "[]"] by (simp add: process_feature_defines_def)

theorem process_feature_defines_tree_witness:
  "process_feature_defines (\<lambda>_. True) (\<lambda>s. Some (BoolValue (s = lit '' true'')))
     (flatten [Cond (lit ''#if defined(Z_FEATURE_UNSTABLE_API)'') [Text (lit ''a'')] (lit ''#endif''),
               Cond (lit ''#if false'') [Cond (lit ''#ifdef B'') [Text (lit ''b'')] (lit ''#endif'')] (lit ''#endif''),
               Text (lit ''c'')])
   = ret (lit ''#if defined(Z_FEATURE_UNSTABLE_API)\<newline>a\<newline>#endif\<newline>c\<newline>'')"
proof -
  let ?bs = "[Cond (lit ''#if defined(Z_FEATURE_UNSTABLE_API)'') [Text (lit ''a'')] (lit ''#endif''),
               Cond (lit ''#if false'') [Cond (lit ''#ifdef B'') [Text (lit ''b'')] (lit ''#endif'')] (lit ''#endif''),
               Text (lit ''c'')]"
  let ?ev = "evaluate_c_defines_line (\<lambda>_. True) (\<lambda>s. Some (BoolValue (s = lit '' true'')))"
  have e: "nested ?bs" "removed_ok ?ev ?bs"
    "eval_blocks ?ev ?bs = ret (lit ''#if defined(Z_FEATURE_UNSTABLE_API)\<newline>a\<newline>#endif\<newline>c\<newline>'')"
    by code_simp+
  show ?thesis using process_feature_defines_tree [OF e(1,2)] e(3) by simp
qed

text \<open>C23: exactly when the pass does not return. It never decrements its level below zero, whatever the nesting
  of the header, and panics only where it must: at an \<open>#if\<close> line outside every removed block that the
  evaluator rejects. A line inside a removed block is never evaluated.\<close>

theorem process_feature_defines_returns:
  "process_feature_defines tf ev ls = panic \<longleftrightarrow>
    (\<exists>pre line post. ls = pre @ line # post \<and> level_after (evaluate_c_defines_line tf ev) 0 pre = ret 0
       \<and> is_if line \<and> evaluate_c_defines_line tf ev line = panic)"
  using process_lines_panic [of "evaluate_c_defines_line tf ev" 0 ls] by (simp add: process_feature_defines_def)

text \<open>The restriction on \<open>#ifndef\<close> is needed. An \<open>#ifndef\<close> inside a removed block is not
  counted, so its \<open>#endif\<close> ends the removal, and the rest of the block stays in the header.\<close>

lemma process_feature_defines_ifndef:
  assumes "ev (lit '' false'') = Some (BoolValue False)"
  shows "process_feature_defines tf ev [lit ''#if false'', lit ''#ifndef A'', lit ''a'', lit ''#endif'',
      lit ''b'', lit ''#endif''] = ret (lit ''b\<newline>#endif\<newline>'')
    \<and> eval_blocks (evaluate_c_defines_line tf ev)
        [Cond (lit ''#if false'') [Cond (lit ''#ifndef A'') [Text (lit ''a'')] (lit ''#endif''),
           Text (lit ''b'')] (lit ''#endif'')] = ret []"
proof -
  have r: "fold (\<lambda>(rust_feature, c_feature) s.
               str_replace (lit ''defined('' @ c_feature @ lit '')'')
                 (if tf rust_feature then lit ''true'' else lit ''false'') s)
               RUST_TO_C_FEATURES (lit ''#if false'') = lit ''#if false''"
    by (simp add: RUST_TO_C_FEATURES_def starts_with_def)
  have "evaluate_c_defines_line tf ev (lit ''#if false'') = ret True"
    unfolding evaluate_c_defines_line_def r using assms by (simp add: Let_def starts_with_def)
  then show ?thesis
    by (simp add: process_feature_defines_def is_if_def is_ifdef_def is_endif_def starts_with_def)
qed

end
