(* ===== verification/ResultCodes.thy ===== *)
theory ResultCodes
  imports Prelude
begin

text \<open>
  \<open>src/result.rs\<close>: the result codes of the C API, of type \<open>i8\<close>, and the thread-local buffer
  that keeps the text of the last error (\<open>Buffer<1024>\<close>, \<open>zc_get_last_error\<close>). The text is
  given as its bytes.
\<close>

type_synonym z_result_t = i8

definition Z_CHANNEL_DISCONNECTED :: z_result_t where "Z_CHANNEL_DISCONNECTED = 1"
definition Z_CHANNEL_NODATA :: z_result_t where "Z_CHANNEL_NODATA = 2"
definition Z_OK :: z_result_t where "Z_OK = 0"
definition Z_EINVAL :: z_result_t where "Z_EINVAL = - 1"
definition Z_EPARSE :: z_result_t where "Z_EPARSE = - 2"
definition Z_EIO :: z_result_t where "Z_EIO = - 3"
definition Z_ENETWORK :: z_result_t where "Z_ENETWORK = - 4"
definition Z_ENULL :: z_result_t where "Z_ENULL = - 5"
definition Z_EUNAVAILABLE :: z_result_t where "Z_EUNAVAILABLE = - 6"
definition Z_EDESERIALIZE :: z_result_t where "Z_EDESERIALIZE = - 7"
definition Z_ESESSION_CLOSED :: z_result_t where "Z_ESESSION_CLOSED = - 8"
definition Z_EUTF8 :: z_result_t where "Z_EUTF8 = - 9"
definition Z_EBUSY_MUTEX :: z_result_t where "Z_EBUSY_MUTEX = - 16"
definition Z_EINVAL_MUTEX :: z_result_t where "Z_EINVAL_MUTEX = - 22"
definition Z_EAGAIN_MUTEX :: z_result_t where "Z_EAGAIN_MUTEX = - 11"
definition Z_EPOISON_MUTEX :: z_result_t where "Z_EPOISON_MUTEX = - 22"
definition Z_EGENERIC :: z_result_t where "Z_EGENERIC = - 128"

lemmas code_values =
  Z_CHANNEL_DISCONNECTED_def Z_CHANNEL_NODATA_def Z_OK_def Z_EINVAL_def Z_EPARSE_def Z_EIO_def
  Z_ENETWORK_def Z_ENULL_def Z_EUNAVAILABLE_def Z_EDESERIALIZE_def Z_ESESSION_CLOSED_def
  Z_EUTF8_def Z_EBUSY_MUTEX_def Z_EINVAL_MUTEX_def Z_EAGAIN_MUTEX_def Z_EPOISON_MUTEX_def
  Z_EGENERIC_def

definition error_codes :: "z_result_t list" where
  "error_codes = [Z_EINVAL, Z_EPARSE, Z_EIO, Z_ENETWORK, Z_ENULL, Z_EUNAVAILABLE, Z_EDESERIALIZE,
     Z_ESESSION_CLOSED, Z_EUTF8, Z_EBUSY_MUTEX, Z_EINVAL_MUTEX, Z_EAGAIN_MUTEX, Z_EGENERIC]"

lemma codes_distinct_ok [simp]:
  "Z_EINVAL \<noteq> Z_OK" "Z_EPARSE \<noteq> Z_OK" "Z_EIO \<noteq> Z_OK" "Z_ENETWORK \<noteq> Z_OK" "Z_ENULL \<noteq> Z_OK"
  "Z_EUNAVAILABLE \<noteq> Z_OK" "Z_EDESERIALIZE \<noteq> Z_OK" "Z_ESESSION_CLOSED \<noteq> Z_OK" "Z_EUTF8 \<noteq> Z_OK"
  "Z_EBUSY_MUTEX \<noteq> Z_OK" "Z_EINVAL_MUTEX \<noteq> Z_OK" "Z_EAGAIN_MUTEX \<noteq> Z_OK"
  "Z_EPOISON_MUTEX \<noteq> Z_OK" "Z_EGENERIC \<noteq> Z_OK"
  "Z_CHANNEL_DISCONNECTED \<noteq> Z_OK" "Z_CHANNEL_NODATA \<noteq> Z_OK"
  "Z_CHANNEL_DISCONNECTED \<noteq> Z_CHANNEL_NODATA"
  by (simp_all add: code_values)

lemma error_codes_negative: "c \<in> set error_codes \<Longrightarrow> sint c < 0"
  by (auto simp: error_codes_def code_values)

lemma error_codes_distinct: "distinct error_codes"
  by (simp add: error_codes_def code_values)

subsection \<open>The last error\<close>

record error_buffer =
  buffer :: "u8 list"
  buffer_len :: nat

definition Buffer_default :: "nat \<Rightarrow> error_buffer" where
  "Buffer_default n = \<lparr>buffer = replicate n 0, buffer_len = 0\<rparr>"

text \<open>\<open>Buffer::update\<close>: slicing and \<open>copy_from_slice\<close> panic when their lengths do not fit.\<close>

definition Buffer_update :: "u8 list \<Rightarrow> error_buffer \<Rightarrow> error_buffer run" where
  "Buffer_update error b =
    (let n = length (buffer b); l = min (length error) n in
     if l \<le> n \<and> l \<le> length error
     then ret (b\<lparr>buffer_len := l, buffer := take l error @ drop l (buffer b)\<rparr>)
     else panic)"

text \<open>The bytes of the view \<open>zc_get_last_error\<close> constructs.\<close>

definition zc_get_last_error :: "error_buffer \<Rightarrow> u8 list" where
  "zc_get_last_error b = take (buffer_len b) (buffer b)"

lemma Buffer_update_returns:
  "Buffer_update e b = ret (b\<lparr>buffer_len := min (length e) (length (buffer b)),
     buffer := take (min (length e) (length (buffer b))) e @ drop (min (length e) (length (buffer b))) (buffer b)\<rparr>)"
  by (simp add: Buffer_update_def Let_def)

subsection \<open>Properties\<close>

text \<open>The last error is the message, cut to the buffer. After any number of updates of a
  fresh buffer of \<open>N\<close> bytes, none of which panics, what \<open>zc_get_last_error\<close> shows is the last
  message truncated to \<open>N\<close> bytes: nothing of a longer, older message shows through, and the
  buffer keeps its size.\<close>

lemma last_error_is_last_message:
  "\<exists>b. fold (\<lambda>e b. Option.bind b (Buffer_update e)) (es @ [e]) (ret (Buffer_default N)) = ret b
     \<and> length (buffer b) = N \<and> zc_get_last_error b = take N e"
proof -
  have "\<exists>b. fold (\<lambda>e b. Option.bind b (Buffer_update e)) es (ret b0) = ret b \<and> length (buffer b) = N"
    if "length (buffer b0) = N" for b0
    using that by (induction es arbitrary: b0) (simp_all add: Buffer_update_returns)
  from this [of "Buffer_default N"]
  obtain b where "fold (\<lambda>e b. Option.bind b (Buffer_update e)) es (ret (Buffer_default N)) = ret b"
    "length (buffer b) = N" by (auto simp: Buffer_default_def)
  then show ?thesis by (simp add: Buffer_update_returns zc_get_last_error_def min_def)
qed

end
