(* ===== verification/Memory.thy ===== *)
theory Memory
  imports ResultCodes
begin

text \<open>
  The memory the C API works on: raw pointers, blocks allocated by Rust (\<open>Box\<close>) and blocks that
  belong to the C program, and the calls of deleters the program hands over.

  A pointer is an address without provenance (\<open>Addr\<close>, with \<open>Addr 0\<close> the null pointer; a length
  cast to a pointer is such an address) or an offset into a block. Reading or freeing what is not
  there is undefined behaviour and has the value \<open>panic\<close>: a theorem that an operation returns
  says that it stays in bounds, reads no freed block and frees no block twice.

  Also here: \<open>strlen_or_zero\<close> and \<open>copy_to_c_array\<close> of \<open>src/lib.rs\<close>.
\<close>

datatype ptr = Addr usize | Ptr nat nat

abbreviation (input) null :: ptr where
  "null \<equiv> Addr 0"

definition is_null :: "ptr \<Rightarrow> bool" where
  "is_null p \<longleftrightarrow> p = null"

datatype block_kind = Boxed | User

type_synonym user_fn = nat

record heap =
  blocks :: "nat \<rightharpoonup> block_kind \<times> u8 list"
  next_block :: nat
  calls :: "(user_fn \<times> ptr \<times> ptr) list"

definition ptr_add :: "ptr \<Rightarrow> nat \<Rightarrow> ptr" where
  "ptr_add p n = (case p of Addr a \<Rightarrow> Addr (a + of_nat n) | Ptr b off \<Rightarrow> Ptr b (off + n))"

text \<open>The bytes behind \<open>from_raw_parts(p, len)\<close>: the pointer must not be null, even for length
  zero, and must be valid for \<open>len\<close> bytes.\<close>

definition from_raw_parts :: "ptr \<Rightarrow> nat \<Rightarrow> heap \<Rightarrow> u8 list run" where
  "from_raw_parts p len h =
    (if is_null p then panic
     else if len = 0 then ret []
     else case p of
       Addr _ \<Rightarrow> panic
     | Ptr b off \<Rightarrow>
         (case blocks h b of
            None \<Rightarrow> panic
          | Some (_, bs) \<Rightarrow> if off + len \<le> length bs then ret (take len (drop off bs)) else panic))"

definition write_mem :: "ptr \<Rightarrow> u8 list \<Rightarrow> heap \<Rightarrow> heap run" where
  "write_mem p xs h =
    (if is_null p then panic
     else if xs = [] then ret h
     else case p of
       Addr _ \<Rightarrow> panic
     | Ptr b off \<Rightarrow>
         (case blocks h b of
            None \<Rightarrow> panic
          | Some (k, bs) \<Rightarrow>
              if off + length xs \<le> length bs
              then ret (h\<lparr>blocks := (blocks h)(b \<mapsto> (k, take off bs @ xs @ drop (off + length xs) bs))\<rparr>)
              else panic))"

text \<open>\<open>Box::leak\<close> of a boxed slice: an empty slice is not allocated.\<close>

definition box_leak :: "u8 list \<Rightarrow> heap \<Rightarrow> ptr \<times> heap" where
  "box_leak bs h =
    (if bs = [] then (Addr 1, h)
     else (Ptr (next_block h) 0,
           h\<lparr>blocks := (blocks h)(next_block h \<mapsto> (Boxed, bs)), next_block := next_block h + 1\<rparr>))"

text \<open>Dropping \<open>Box::from_raw\<close> of a slice: it must be the whole of a boxed slice still there.\<close>

definition box_free :: "ptr \<Rightarrow> nat \<Rightarrow> heap \<Rightarrow> heap run" where
  "box_free p len h =
    (if is_null p then panic
     else if len = 0 then ret h
     else case p of
       Ptr b 0 \<Rightarrow>
         (case blocks h b of
            Some (Boxed, bs) \<Rightarrow> if length bs = len then ret (h\<lparr>blocks := (blocks h)(b := None)\<rparr>) else panic
          | _ \<Rightarrow> panic)
     | _ \<Rightarrow> panic)"

definition heap_ok :: "heap \<Rightarrow> bool" where
  "heap_ok h \<longleftrightarrow> (\<forall>b. next_block h \<le> b \<longrightarrow> blocks h b = None)"

definition boxed :: "heap \<Rightarrow> nat set" where
  "boxed h = {b. \<exists>bs. blocks h b = Some (Boxed, bs)}"

subsection \<open>C strings\<close>

text \<open>\<open>libc::strlen\<close>: it reads up to the first zero byte; without one it runs past the block.\<close>

definition strlen :: "ptr \<Rightarrow> heap \<Rightarrow> nat run" where
  "strlen p h = (case p of
     Addr _ \<Rightarrow> panic
   | Ptr b off \<Rightarrow>
       (case blocks h b of
          None \<Rightarrow> panic
        | Some (_, bs) \<Rightarrow>
            let s = drop off bs; n = length (takeWhile (\<lambda>x. x \<noteq> 0) s) in
            if n < length s then ret n else panic))"

definition strlen_or_zero :: "ptr \<Rightarrow> heap \<Rightarrow> nat run" where
  "strlen_or_zero p h = (if is_null p then ret 0 else strlen p h)"

text \<open>\<open>CopyableToCArray for &[u8]\<close>: the number of bytes copied, and the memory.\<close>

definition copy_to_c_array :: "u8 list \<Rightarrow> ptr \<Rightarrow> nat \<Rightarrow> heap \<Rightarrow> (nat \<times> heap) run" where
  "copy_to_c_array xs buf len h =
    (if is_null buf \<or> len = 0 \<and> xs \<noteq> [] then ret (0, h)
     else let max_len = min len (length xs)
          in map_option (\<lambda>h. (max_len, h)) (write_mem buf (take max_len xs) h))"

subsection \<open>Lemmas\<close>

definition readable :: "ptr \<Rightarrow> nat \<Rightarrow> heap \<Rightarrow> bool" where
  "readable p len h \<longleftrightarrow> len = 0 \<or> from_raw_parts p len h \<noteq> panic"

lemma from_raw_parts_length: "from_raw_parts p len h = ret bs \<Longrightarrow> length bs = len"
  by (auto simp: from_raw_parts_def split: if_splits ptr.splits option.splits)

lemma box_leak_ok: "heap_ok h \<Longrightarrow> heap_ok (snd (box_leak bs h))"
  by (auto simp: box_leak_def heap_ok_def)

lemma box_leak_boxed:
  "heap_ok h \<Longrightarrow> bs \<noteq> [] \<Longrightarrow> boxed (snd (box_leak bs h)) = insert (next_block h) (boxed h)
     \<and> next_block h \<notin> boxed h"
  by (auto simp: box_leak_def boxed_def heap_ok_def)

lemma box_leak_read:
  "bs \<noteq> [] \<Longrightarrow> box_leak bs h = (p, h') \<Longrightarrow> from_raw_parts p (length bs) h' = ret bs"
  by (auto simp: box_leak_def from_raw_parts_def is_null_def)

lemma box_leak_free:
  "heap_ok h \<Longrightarrow> box_leak bs h = (p, h') \<Longrightarrow>
    box_free p (length bs) h' = ret (h\<lparr>next_block := next_block h'\<rparr>)"
  by (auto simp: box_leak_def box_free_def is_null_def heap_ok_def fun_upd_idem)

text \<open>A string in the middle of a block: its length, its text, and rewriting it.\<close>

lemma strlen_block:
  "blocks h b = Some (k, pre @ s @ 0 # post) \<Longrightarrow> 0 \<notin> set s \<Longrightarrow> strlen_or_zero (Ptr b (length pre)) h = ret (length s)"
proof -
  assume "blocks h b = Some (k, pre @ s @ 0 # post)" "0 \<notin> set s"
  moreover from this have "takeWhile (\<lambda>x. x \<noteq> 0) (s @ 0 # post) = s" by (subst takeWhile_append2) auto
  ultimately show ?thesis by (simp add: strlen_or_zero_def is_null_def strlen_def Let_def)
qed

lemma read_block:
  "blocks h b = Some (k, pre @ s @ rest) \<Longrightarrow> from_raw_parts (Ptr b (length pre)) (length s) h = ret s"
  by (simp add: from_raw_parts_def is_null_def)

lemma write_block:
  assumes "blocks h b = Some (k, pre @ s @ rest)" "length buf = length s"
  shows "\<exists>h'. write_mem (Ptr b (length pre)) buf h = ret h' \<and> blocks h' = (blocks h)(b \<mapsto> (k, pre @ buf @ rest))"
proof (cases "buf = []")
  case True
  then show ?thesis using assms by (simp add: write_mem_def is_null_def fun_upd_idem)
next
  case False
  then show ?thesis using assms by (simp add: write_mem_def is_null_def)
qed

lemma strlen_or_zero_null [simp]: "strlen_or_zero (Addr 0) h = ret 0"
  by (simp add: strlen_or_zero_def is_null_def)

subsection \<open>Properties\<close>

text \<open>C22: \<open>copy_to_c_array\<close> stays inside the caller's buffer. On a buffer of \<open>len\<close> bytes it
  returns, it writes exactly the common prefix of the value and the buffer, it reports that
  number of bytes, and everything else in memory keeps its value.\<close>

theorem copy_to_c_array_in_bounds:
  assumes "blocks h b = Some (k, mem)" "off + len \<le> length mem"
  shows "\<exists>h'. copy_to_c_array xs (Ptr b off) len h = ret (min len (length xs), h')
    \<and> blocks h' b = Some (k, take off mem @ take len xs @ drop (off + min len (length xs)) mem)
    \<and> (\<forall>b'. b' \<noteq> b \<longrightarrow> blocks h' b' = blocks h b')"
  using assms
  by (cases "len = 0 \<or> xs = []") (auto simp: copy_to_c_array_def write_mem_def is_null_def Let_def min_def)

theorem copy_to_c_array_in_bounds_witness:
  "\<exists>h'. copy_to_c_array [1, 2, 3] (Ptr 0 1) 2
      \<lparr>blocks = [0 \<mapsto> (User, [9, 9, 9, 9])], next_block = 1, calls = []\<rparr> = ret (2, h')
    \<and> blocks h' 0 = Some (User, [9, 1, 2, 9])"
  using copy_to_c_array_in_bounds
    [of "\<lparr>blocks = [0 \<mapsto> (User, [9, 9, 9, 9])], next_block = 1, calls = []\<rparr>" 0 User "[9, 9, 9, 9]" 1 2 "[1, 2, 3]"]
  by auto

end
