(* ===== verification/Ownership.thy ===== *)
theory Ownership
  imports ResultCodes
begin

text \<open>
  The ownership protocol of the C API: \<open>src/transmute.rs\<close> and the code
  \<open>buildrs/opaque_types_generator.rs\<close> writes for every owned type.

  An owned object has a \<^emph>\<open>gravestone\<close>, a value that holds no resource. Moving out of a slot
  (\<open>take_c_type\<close>, \<open>take_rust_type\<close>) replaces its contents by the gravestone; dropping a slot
  drops its contents and leaves the gravestone. A transmute between a C type and a Rust type of
  the same layout (\<open>as_rust_type_ref\<close>, \<open>into_c_type\<close> and the like) is the identity here.

  The locale \<open>gravestone\<close> is the contract of the trait \<open>Gravestone\<close>, with the drop of a value as
  a change of the world that owns its resources. It is interpreted for \<open>Option\<close> here, and for
  the slices, string arrays and closures in their theories.
\<close>

text \<open>\<open>std::mem::replace\<close>: the old value and the new contents.\<close>

definition mem_replace :: "'a \<Rightarrow> 'a \<Rightarrow> 'a \<times> 'a" where
  "mem_replace dest src = (dest, src)"

definition gravestone_option :: "'a option" where
  "gravestone_option = None"

definition is_gravestone_option :: "'a option \<Rightarrow> bool" where
  "is_gravestone_option x \<longleftrightarrow> x = None"

text \<open>The generated \<open>TakeCType::take_c_type\<close> of a moved type, for the gravestone \<open>g\<close>: what is
  taken, and what stays in the slot.\<close>

definition take_c_type :: "'a \<Rightarrow> 'a \<Rightarrow> 'a \<times> 'a" where
  "take_c_type g this = mem_replace this g"

definition take_rust_type :: "'a \<Rightarrow> 'a \<Rightarrow> 'a \<times> 'a" where
  "take_rust_type g this = take_c_type g this"

text \<open>The generated \<open>Drop\<close> of an owned type, for a drop of the Rust value that changes the
  world: the slot keeps the gravestone, the old value is dropped.\<close>

definition owned_drop :: "'a \<Rightarrow> ('a \<Rightarrow> 'w \<Rightarrow> 'w run) \<Rightarrow> 'a \<Rightarrow> 'w \<Rightarrow> ('a \<times> 'w) run" where
  "owned_drop g drp this w =
    (let (old, this) = mem_replace this g in map_option (\<lambda>w. (this, w)) (drp old w))"

text \<open>The body of every \<open>z_xxx_drop\<close>: \<open>let _ = this_.take_rust_type();\<close> drops what it takes.\<close>

definition moved_drop :: "'a \<Rightarrow> ('a \<Rightarrow> 'w \<Rightarrow> 'w run) \<Rightarrow> 'a \<Rightarrow> 'w \<Rightarrow> ('a \<times> 'w) run" where
  "moved_drop g drp this w =
    (let (x, this) = take_rust_type g this in map_option (\<lambda>w. (this, w)) (drp x w))"

text \<open>Dropping an \<open>Option<T>\<close>.\<close>

definition drop_option :: "('a \<Rightarrow> 'w \<Rightarrow> 'w run) \<Rightarrow> 'a option \<Rightarrow> 'w \<Rightarrow> 'w run" where
  "drop_option drp x w = (case x of None \<Rightarrow> ret w | Some v \<Rightarrow> drp v w)"

text \<open>\<open>as_ref().unwrap()\<close>, the borrow of an object that is an \<open>Option\<close>: it panics on the
  gravestone. (\<open>unwrap_unchecked\<close> is undefined behaviour there.)\<close>

definition loan_option :: "'a option \<Rightarrow> 'a run" where
  "loan_option this = this"

locale gravestone =
  fixes g :: 'a
    and is_gravestone :: "'a \<Rightarrow> bool"
    and drp :: "'a \<Rightarrow> 'w \<Rightarrow> 'w run"
  assumes is_gravestone_g: "is_gravestone g"
    and drp_g: "drp g w = ret w"
begin

lemma take_leaves_gravestone: "take_rust_type g x = (x, g) \<and> is_gravestone (snd (take_rust_type g x))"
  by (simp add: take_rust_type_def take_c_type_def mem_replace_def is_gravestone_g)

lemma moved_drop_eq: "moved_drop g drp x w = map_option (\<lambda>w. (g, w)) (drp x w)"
  by (simp add: moved_drop_def take_rust_type_def take_c_type_def mem_replace_def)

lemma owned_drop_is_moved_drop: "owned_drop g drp x w = moved_drop g drp x w"
  by (simp add: moved_drop_eq owned_drop_def mem_replace_def)

text \<open>Dropping again, or letting the language drop the slot afterwards, does nothing.\<close>

lemma drop_twice:
  "moved_drop g drp x w = ret (x', w') \<Longrightarrow> moved_drop g drp x' w' = ret (g, w') \<and> owned_drop g drp x' w' = ret (g, w')"
proof -
  assume "moved_drop g drp x w = ret (x', w')"
  then have "x' = g" by (auto simp: moved_drop_eq)
  then show ?thesis by (simp add: owned_drop_is_moved_drop) (simp add: moved_drop_eq drp_g)
qed

text \<open>What is taken is dropped once: by the taker, not by the slot it came from.\<close>

lemma take_then_drop:
  assumes "take_rust_type g x = (y, x')"
  shows "Option.bind (owned_drop g drp x' w) (\<lambda>(_, w). drp y w) = drp x w"
proof -
  have "y = x" "x' = g" using assms take_leaves_gravestone [of x] by simp_all
  then show ?thesis by (simp add: owned_drop_is_moved_drop) (simp add: moved_drop_eq drp_g)
qed

end

interpretation opt: gravestone gravestone_option is_gravestone_option "drop_option d" for d
  by unfold_locales (simp_all add: gravestone_option_def is_gravestone_option_def drop_option_def)

end
