(* ===== verification/Slices.thy ===== *)
theory Slices
  imports Memory Ownership
begin

text \<open>
  \<open>src/collections.rs\<close>: slices, strings and string arrays.

  \<open>CSlice\<close> is the record \<open>cslice\<close>; \<open>CSliceOwned\<close>, \<open>CSliceView\<close>, \<open>CStringInner\<close>,
  \<open>CStringOwned\<close> and \<open>CStringView\<close> are newtypes of it and have the same representation. A
  function of the C API that constructs into uninitialised memory returns the value it writes
  beside its result code; a borrow (\<open>z_slice_loan\<close> and the like) is the object itself. Error
  messages go to the log and the last-error buffer (theory \<open>ResultCodes\<close>) and are left out.
\<close>

subsection \<open>CSlice\<close>

datatype deleter = DefaultDrop | UserDrop user_fn

record cslice =
  data :: ptr
  len :: usize
  drop_fn :: "deleter option"
  drop_context :: ptr

definition z_drop_c_slice_default :: "ptr \<Rightarrow> ptr \<Rightarrow> heap \<Rightarrow> heap run" where
  "z_drop_c_slice_default d ctx h = (case ctx of
     Addr n \<Rightarrow> box_free d (unat n) h
   | Ptr _ _ \<Rightarrow> panic)"

definition CSlice_new_unchecked :: "ptr \<Rightarrow> usize \<Rightarrow> deleter option \<Rightarrow> ptr \<Rightarrow> cslice" where
  "CSlice_new_unchecked d l dr ctx = \<lparr>data = d, len = l, drop_fn = dr, drop_context = ctx\<rparr>"

definition CSlice_new_borrowed_unchecked :: "ptr \<Rightarrow> usize \<Rightarrow> cslice" where
  "CSlice_new_borrowed_unchecked d l = CSlice_new_unchecked d l None null"

definition CSlice_new :: "ptr \<Rightarrow> usize \<Rightarrow> deleter option \<Rightarrow> ptr \<Rightarrow> z_result_t + cslice" where
  "CSlice_new d l dr ctx =
    (if is_null d \<and> l > 0 then Inl Z_EINVAL else Inr (CSlice_new_unchecked d l dr ctx))"

definition CSlice_new_borrowed :: "ptr \<Rightarrow> usize \<Rightarrow> z_result_t + cslice" where
  "CSlice_new_borrowed d l =
    (if is_null d \<and> l > 0 then Inl Z_EINVAL else Inr (CSlice_new_borrowed_unchecked d l))"

definition CSlice_gravestone :: cslice where
  "CSlice_gravestone = \<lparr>data = null, len = 0, drop_fn = None, drop_context = null\<rparr>"

definition CSlice_is_gravestone :: "cslice \<Rightarrow> bool" where
  "CSlice_is_gravestone s \<longleftrightarrow> is_null (data s)"

definition CSlice_wrap :: "ptr \<Rightarrow> usize \<Rightarrow> cslice" where
  "CSlice_wrap d l = CSlice_new_unchecked d l (Some DefaultDrop) (Addr l)"

definition CSlice_new_owned_unchecked :: "ptr \<Rightarrow> usize \<Rightarrow> heap \<Rightarrow> (cslice \<times> heap) run" where
  "CSlice_new_owned_unchecked d l h =
    (if l = 0 then ret (CSlice_gravestone, h)
     else do {
       bs \<leftarrow> from_raw_parts d (unat l) h;
       let (p, h) = box_leak bs h;
       ret (CSlice_wrap p l, h)
     })"

definition CSlice_new_owned :: "ptr \<Rightarrow> usize \<Rightarrow> heap \<Rightarrow> ((z_result_t + cslice) \<times> heap) run" where
  "CSlice_new_owned d l h =
    (if is_null d \<and> l > 0 then ret (Inl Z_EINVAL, h)
     else map_option (\<lambda>(s, h). (Inr s, h)) (CSlice_new_owned_unchecked d l h))"

definition CSlice_slice :: "cslice \<Rightarrow> heap \<Rightarrow> u8 list run" where
  "CSlice_slice s h = (if len s = 0 then ret [] else from_raw_parts (data s) (unat (len s)) h)"

definition CSlice_is_empty :: "cslice \<Rightarrow> bool" where
  "CSlice_is_empty s \<longleftrightarrow> len s = 0"

definition CSlice_is_owned :: "cslice \<Rightarrow> bool" where
  "CSlice_is_owned s \<longleftrightarrow> drop_fn s \<noteq> None"

definition clone_to_borrowed :: "cslice \<Rightarrow> cslice" where
  "clone_to_borrowed s = CSlice_new_borrowed_unchecked (data s) (len s)"

definition clone_to_owned :: "cslice \<Rightarrow> heap \<Rightarrow> (cslice \<times> heap) run" where
  "clone_to_owned s h = CSlice_new_owned_unchecked (data s) (len s) h"

definition CSlice_clone :: "cslice \<Rightarrow> heap \<Rightarrow> (cslice \<times> heap) run" where
  "CSlice_clone s h = CSlice_new_owned_unchecked (data s) (len s) h"

definition CSlice_drop :: "cslice \<Rightarrow> heap \<Rightarrow> heap run" where
  "CSlice_drop s h = (case drop_fn s of
     None \<Rightarrow> ret h
   | Some DefaultDrop \<Rightarrow> z_drop_c_slice_default (data s) (drop_context s) h
   | Some (UserDrop f) \<Rightarrow> ret (h\<lparr>calls := calls h @ [(f, data s, drop_context s)]\<rparr>))"

definition CSlice_eq :: "cslice \<Rightarrow> cslice \<Rightarrow> heap \<Rightarrow> bool run" where
  "CSlice_eq s t h = do { a \<leftarrow> CSlice_slice s h; b \<leftarrow> CSlice_slice t h; ret (a = b) }"

text \<open>\<open>From<Vec<u8>>\<close> and \<open>From<String>\<close>.\<close>

definition CSlice_from_vec :: "u8 list \<Rightarrow> heap \<Rightarrow> cslice \<times> heap" where
  "CSlice_from_vec v h = (let (p, h) = box_leak v h in (CSlice_wrap p (of_nat (length v)), h))"

definition CString_from_string :: "u8 list \<Rightarrow> heap \<Rightarrow> cslice \<times> heap" where
  "CString_from_string v h = (let (p, h) = box_leak v h in (CSlice_wrap p (of_nat (length v)), h))"

text \<open>\<open>TryFrom<&CStringInner> for &str\<close>: \<open>None\<close> is the UTF-8 error.\<close>

definition CString_to_str :: "cslice \<Rightarrow> heap \<Rightarrow> u8 list option run" where
  "CString_to_str s h =
    (if is_null (data s) then ret (Some [])
     else do {
       bs \<leftarrow> from_raw_parts (data s) (unat (len s)) h;
       ret (if utf8_valid bs then Some bs else None)
     })"

text \<open>\<open>CStringView::new_borrowed\<close> and \<open>try_into\<close>, the way functions that take a string by pointer and
  length use them: the text, or the code to return.\<close>

definition borrowed_str :: "ptr \<Rightarrow> usize \<Rightarrow> heap \<Rightarrow> (z_result_t + u8 list) run" where
  "borrowed_str p l h = (case CSlice_new_borrowed p l of
     Inl r \<Rightarrow> ret (Inl r)
   | Inr cs \<Rightarrow> do {
       s \<leftarrow> CString_to_str cs h;
       ret (case s of Some s \<Rightarrow> Inr s | None \<Rightarrow> Inl Z_EINVAL)
     })"

subsection \<open>Slices\<close>

definition z_view_slice_empty :: cslice where
  "z_view_slice_empty = CSlice_gravestone"

definition z_view_slice_from_buf :: "ptr \<Rightarrow> usize \<Rightarrow> z_result_t \<times> cslice" where
  "z_view_slice_from_buf start l = (case CSlice_new_borrowed start l of
     Inr s \<Rightarrow> (Z_OK, s) | Inl e \<Rightarrow> (e, CSlice_gravestone))"

definition z_view_slice_is_empty :: "cslice \<Rightarrow> bool" where
  "z_view_slice_is_empty this = CSlice_is_empty this"

definition z_slice_empty :: cslice where
  "z_slice_empty = CSlice_gravestone"

definition z_internal_slice_null :: cslice where
  "z_internal_slice_null = z_slice_empty"

definition z_slice_drop :: "cslice \<Rightarrow> heap \<Rightarrow> (cslice \<times> heap) run" where
  "z_slice_drop this h = moved_drop CSlice_gravestone CSlice_drop this h"

definition z_slice_clone :: "cslice \<Rightarrow> heap \<Rightarrow> (cslice \<times> heap) run" where
  "z_slice_clone this h = clone_to_owned this h"

definition z_internal_slice_check :: "cslice \<Rightarrow> bool" where
  "z_internal_slice_check this \<longleftrightarrow> \<not> CSlice_is_empty this"

definition z_slice_len :: "cslice \<Rightarrow> usize" where
  "z_slice_len this = len this"

definition z_slice_data :: "cslice \<Rightarrow> ptr" where
  "z_slice_data this = data this"

definition z_slice_is_empty :: "cslice \<Rightarrow> bool" where
  "z_slice_is_empty this = CSlice_is_empty this"

definition z_slice_copy_from_buf :: "ptr \<Rightarrow> usize \<Rightarrow> heap \<Rightarrow> (z_result_t \<times> cslice \<times> heap) run" where
  "z_slice_copy_from_buf start l h = do {
     (r, h) \<leftarrow> CSlice_new_owned start l h;
     case r of Inr s \<Rightarrow> ret (Z_OK, s, h) | Inl e \<Rightarrow> ret (e, CSlice_gravestone, h)
   }"

definition z_slice_from_buf ::
  "ptr \<Rightarrow> usize \<Rightarrow> user_fn option \<Rightarrow> ptr \<Rightarrow> z_result_t \<times> cslice" where
  "z_slice_from_buf d l dr ctx = (case CSlice_new d l (map_option UserDrop dr) ctx of
     Inr s \<Rightarrow> (Z_OK, s) | Inl e \<Rightarrow> (e, CSlice_gravestone))"

subsection \<open>Strings\<close>

definition z_string_drop :: "cslice \<Rightarrow> heap \<Rightarrow> (cslice \<times> heap) run" where
  "z_string_drop this h = moved_drop CSlice_gravestone CSlice_drop this h"

definition z_internal_string_check :: "cslice \<Rightarrow> bool" where
  "z_internal_string_check this \<longleftrightarrow> \<not> CSlice_is_empty this"

definition z_internal_string_null :: cslice where
  "z_internal_string_null = CSlice_gravestone"

definition z_view_string_is_empty :: "cslice \<Rightarrow> bool" where
  "z_view_string_is_empty this = CSlice_is_empty this"

definition z_string_empty :: cslice where
  "z_string_empty = CSlice_gravestone"

definition z_view_string_empty :: cslice where
  "z_view_string_empty = CSlice_gravestone"

definition z_string_copy_from_substr :: "ptr \<Rightarrow> usize \<Rightarrow> heap \<Rightarrow> (z_result_t \<times> cslice \<times> heap) run" where
  "z_string_copy_from_substr str l h = do {
     (r, h) \<leftarrow> CSlice_new_owned str l h;
     case r of Inr s \<Rightarrow> ret (Z_OK, s, h) | Inl e \<Rightarrow> ret (e, CSlice_gravestone, h)
   }"

definition z_string_copy_from_str :: "ptr \<Rightarrow> heap \<Rightarrow> (z_result_t \<times> cslice \<times> heap) run" where
  "z_string_copy_from_str str h = do {
     n \<leftarrow> strlen_or_zero str h;
     z_string_copy_from_substr str (of_nat n) h
   }"

definition z_string_from_str ::
  "ptr \<Rightarrow> user_fn option \<Rightarrow> ptr \<Rightarrow> heap \<Rightarrow> (z_result_t \<times> cslice) run" where
  "z_string_from_str str dr ctx h = do {
     n \<leftarrow> strlen_or_zero str h;
     ret (case CSlice_new str (of_nat n) (map_option UserDrop dr) ctx of
            Inr s \<Rightarrow> (Z_OK, s) | Inl e \<Rightarrow> (e, CSlice_gravestone))
   }"

definition z_view_string_from_str :: "ptr \<Rightarrow> heap \<Rightarrow> (z_result_t \<times> cslice) run" where
  "z_view_string_from_str str h = do {
     n \<leftarrow> strlen_or_zero str h;
     ret (case CSlice_new_borrowed str (of_nat n) of
            Inr s \<Rightarrow> (Z_OK, s) | Inl e \<Rightarrow> (e, CSlice_gravestone))
   }"

definition z_view_string_from_substr :: "ptr \<Rightarrow> usize \<Rightarrow> z_result_t \<times> cslice" where
  "z_view_string_from_substr str l = (case CSlice_new_borrowed str l of
     Inr s \<Rightarrow> (Z_OK, s) | Inl e \<Rightarrow> (e, CSlice_gravestone))"

definition z_string_len :: "cslice \<Rightarrow> usize" where
  "z_string_len this = len this"

definition z_string_data :: "cslice \<Rightarrow> ptr" where
  "z_string_data this = data this"

definition z_string_clone :: "cslice \<Rightarrow> heap \<Rightarrow> (cslice \<times> heap) run" where
  "z_string_clone this h = clone_to_owned this h"

definition z_string_as_slice :: "cslice \<Rightarrow> cslice" where
  "z_string_as_slice this = this"

definition z_string_is_empty :: "cslice \<Rightarrow> bool" where
  "z_string_is_empty this = CSlice_is_empty this"

subsection \<open>String arrays\<close>

type_synonym zvector = "cslice list"

definition ZVector_gravestone :: zvector where
  "ZVector_gravestone = []"

definition ZVector_is_gravestone :: "zvector \<Rightarrow> bool" where
  "ZVector_is_gravestone v \<longleftrightarrow> v = []"

text \<open>The drop of a \<open>Vec\<close> drops its elements in order.\<close>

fun ZVector_drop :: "zvector \<Rightarrow> heap \<Rightarrow> heap run" where
  "ZVector_drop [] h = ret h"
| "ZVector_drop (s # v) h = Option.bind (CSlice_drop s h) (ZVector_drop v)"

definition z_string_array_new :: zvector where
  "z_string_array_new = ZVector_gravestone"

definition z_internal_string_array_null :: zvector where
  "z_internal_string_array_null = z_string_array_new"

definition z_internal_string_array_check :: "zvector \<Rightarrow> bool" where
  "z_internal_string_array_check this \<longleftrightarrow> this \<noteq> []"

definition z_string_array_drop :: "zvector \<Rightarrow> heap \<Rightarrow> (zvector \<times> heap) run" where
  "z_string_array_drop this h = moved_drop ZVector_gravestone ZVector_drop this h"

definition z_string_array_len :: "zvector \<Rightarrow> nat" where
  "z_string_array_len this = length this"

definition z_string_array_is_empty :: "zvector \<Rightarrow> bool" where
  "z_string_array_is_empty this \<longleftrightarrow> this = []"

definition z_string_array_get :: "zvector \<Rightarrow> nat \<Rightarrow> cslice option" where
  "z_string_array_get this index = (if index \<ge> length this then None else Some (this ! index))"

definition z_string_array_push_by_copy :: "zvector \<Rightarrow> cslice \<Rightarrow> heap \<Rightarrow> (nat \<times> zvector \<times> heap) run" where
  "z_string_array_push_by_copy this value h = do {
     (s, h) \<leftarrow> clone_to_owned value h;
     let this = this @ [s];
     ret (length this, this, h)
   }"

definition z_string_array_push_by_alias :: "zvector \<Rightarrow> cslice \<Rightarrow> nat \<times> zvector" where
  "z_string_array_push_by_alias this value =
    (let this = this @ [clone_to_borrowed value] in (length this, this))"

text \<open>The derived \<open>Clone\<close> of \<open>Vec<CStringInner>\<close>: every element is copied.\<close>

fun z_string_array_clone :: "zvector \<Rightarrow> heap \<Rightarrow> (zvector \<times> heap) run" where
  "z_string_array_clone [] h = ret ([], h)"
| "z_string_array_clone (s # v) h = do {
     (s', h) \<leftarrow> CSlice_clone s h;
     (v', h) \<leftarrow> z_string_array_clone v h;
     ret (s' # v', h)
   }"

lemmas [api_defs] =
  z_view_slice_empty_def z_view_slice_from_buf_def z_view_slice_is_empty_def z_slice_empty_def
  z_internal_slice_null_def z_slice_drop_def z_slice_clone_def z_internal_slice_check_def
  z_slice_len_def z_slice_data_def z_slice_is_empty_def z_slice_copy_from_buf_def z_slice_from_buf_def
  z_string_drop_def z_internal_string_check_def z_internal_string_null_def z_view_string_is_empty_def
  z_string_empty_def z_view_string_empty_def z_string_copy_from_substr_def z_string_copy_from_str_def
  z_string_from_str_def z_view_string_from_str_def z_view_string_from_substr_def z_string_len_def
  z_string_data_def z_string_clone_def z_string_as_slice_def z_string_is_empty_def
  z_string_array_new_def z_internal_string_array_null_def z_internal_string_array_check_def
  z_string_array_drop_def z_string_array_len_def z_string_array_is_empty_def z_string_array_get_def
  z_string_array_push_by_copy_def z_string_array_push_by_alias_def

lemmas cslice_defs =
  CSlice_new_unchecked_def CSlice_new_borrowed_unchecked_def CSlice_new_def CSlice_new_borrowed_def
  CSlice_gravestone_def CSlice_is_gravestone_def CSlice_wrap_def CSlice_new_owned_unchecked_def
  CSlice_new_owned_def CSlice_slice_def CSlice_is_empty_def CSlice_is_owned_def clone_to_borrowed_def
  clone_to_owned_def CSlice_clone_def CSlice_drop_def z_drop_c_slice_default_def CSlice_from_vec_def

interpretation csl: gravestone CSlice_gravestone CSlice_is_gravestone CSlice_drop
  by unfold_locales (simp_all add: cslice_defs is_null_def)

interpretation zvec: gravestone ZVector_gravestone ZVector_is_gravestone ZVector_drop
  by unfold_locales (simp_all add: ZVector_gravestone_def ZVector_is_gravestone_def)

end
