(* ===== verification/SliceMachine.thy ===== *)
theory SliceMachine
  imports Slices "HOL-Library.Multiset"
begin

text \<open>
  A program that uses the slices, strings and string arrays of \<open>src/collections.rs\<close>: its owned
  objects sit in slots, and every step is a call of the C API (or the program's own allocation
  and release of its memory). The ownership invariant says that every block the library has
  allocated is owned by exactly one object; it is preserved by every call, so that no block is
  freed twice or leaks, and every deleter handed over is called exactly once.

  Strings have the representation of slices, and their constructors, copies and drops are the
  same functions of \<open>CSlice\<close>: a slot of the first kind holds either.
\<close>

subsection \<open>What an object owns\<close>

definition own :: "cslice \<Rightarrow> nat multiset" where
  "own s = (case (drop_fn s, data s) of
     (Some DefaultDrop, Ptr b _) \<Rightarrow> if len s = 0 then {#} else {#b#}
   | _ \<Rightarrow> {#})"

definition pend :: "cslice \<Rightarrow> (user_fn \<times> ptr \<times> ptr) multiset" where
  "pend s = (case drop_fn s of Some (UserDrop f) \<Rightarrow> {#(f, data s, drop_context s)#} | _ \<Rightarrow> {#})"

definition part_ok :: "heap \<Rightarrow> cslice \<Rightarrow> bool" where
  "part_ok h s \<longleftrightarrow> (drop_fn s = Some DefaultDrop \<longrightarrow> drop_context s = Addr (len s) \<and>
     (if len s = 0 then \<not> is_null (data s)
      else \<exists>b bs. data s = Ptr b 0 \<and> blocks h b = Some (Boxed, bs) \<and> length bs = unat (len s)))"

definition mem_wf :: "heap \<Rightarrow> cslice multiset \<Rightarrow> bool" where
  "mem_wf h P \<longleftrightarrow> heap_ok h \<and> (\<forall>s \<in># P. part_ok h s) \<and> (\<Sum>s\<in>#P. own s) = mset_set (boxed h)"

definition pending :: "cslice multiset \<Rightarrow> (user_fn \<times> ptr \<times> ptr) multiset" where
  "pending P = (\<Sum>s\<in>#P. pend s)"

lemma pending_simps [simp]:
  "pending {#} = {#}" "pending (add_mset s P) = pend s + pending P" "pending (P + Q) = pending P + pending Q"
  by (simp_all add: pending_def)

lemma finite_boxed: "heap_ok h \<Longrightarrow> finite (boxed h)"
proof (rule finite_subset)
  assume "heap_ok h"
  then show "boxed h \<subseteq> {..< next_block h}"
    unfolding boxed_def heap_ok_def by (auto intro: ccontr)
qed simp

text \<open>Objects that own no block can come and go.\<close>

lemma wf_inert: "drop_fn s \<noteq> Some DefaultDrop \<Longrightarrow> mem_wf h (add_mset s P) \<longleftrightarrow> mem_wf h P"
  by (auto simp: mem_wf_def part_ok_def own_def split: option.splits deleter.splits)

lemma wf_calls [simp]: "mem_wf (h\<lparr>calls := c\<rparr>) P \<longleftrightarrow> mem_wf h P"
  by (simp add: mem_wf_def heap_ok_def part_ok_def boxed_def)

lemma own_part_ok:
  "part_ok h s \<Longrightarrow> drop_fn s = Some DefaultDrop \<Longrightarrow> len s \<noteq> 0 \<Longrightarrow>
    \<exists>b bs. data s = Ptr b 0 \<and> own s = {#b#} \<and> blocks h b = Some (Boxed, bs) \<and> length bs = unat (len s)"
  by (auto simp: part_ok_def own_def)

lemma part_ok_frame:
  "part_ok h s \<Longrightarrow> (\<And>b. b \<in># own s \<Longrightarrow> blocks h' b = blocks h b) \<Longrightarrow> part_ok h' s"
  by (auto simp: part_ok_def own_def split: if_splits)

lemma own_in_boxed: "mem_wf h P \<Longrightarrow> s \<in># P \<Longrightarrow> b \<in># own s \<Longrightarrow> b \<in> boxed h"
proof -
  assume a: "mem_wf h P" "s \<in># P" "b \<in># own s"
  then have "b \<in># (\<Sum>s\<in>#P. own s)" by auto
  then have "b \<in># mset_set (boxed h)" using a(1) unfolding mem_wf_def by metis
  then show ?thesis using a finite_boxed [of h] by (simp add: mem_wf_def)
qed

lemma wf_drop:
  assumes "mem_wf h (add_mset s P)"
  shows "\<exists>h'. CSlice_drop s h = ret h' \<and> mem_wf h' P \<and> mset (calls h') = mset (calls h) + pend s"
proof (cases "drop_fn s = Some DefaultDrop \<and> len s \<noteq> 0")
  case False
  have "own s = {#}" using False by (auto simp: own_def split: option.splits deleter.splits ptr.splits)
  then have w: "mem_wf h P" using assms by (simp add: mem_wf_def)
  have "CSlice_drop s h = ret (h\<lparr>calls := calls h @ (case drop_fn s of
      Some (UserDrop f) \<Rightarrow> [(f, data s, drop_context s)] | _ \<Rightarrow> [])\<rparr>)"
    using False assms by (auto simp: CSlice_drop_def z_drop_c_slice_default_def mem_wf_def part_ok_def
        box_free_def split: option.splits deleter.splits)
  then show ?thesis using w by (auto simp: pend_def split: option.splits deleter.splits)
next
  case True
  have p: "part_ok h s" and ok: "heap_ok h" using assms by (simp_all add: mem_wf_def)
  obtain b bs where b: "data s = Ptr b 0" "own s = {#b#}" "blocks h b = Some (Boxed, bs)"
      "length bs = unat (len s)"
    using own_part_ok [OF p] True by blast
  let ?h = "h\<lparr>blocks := (blocks h)(b := None)\<rparr>"
  have nz: "unat (len s) \<noteq> 0" using True by (simp add: unat_eq_zero)
  have d: "CSlice_drop s h = ret ?h"
    using True b nz p by (auto simp: CSlice_drop_def z_drop_c_slice_default_def part_ok_def box_free_def is_null_def)
  have bx: "boxed ?h = boxed h - {b}" "b \<in> boxed h" using b by (auto simp: boxed_def)
  have sum: "add_mset b (\<Sum>s\<in>#P. own s) = mset_set (boxed h)" using assms b by (simp add: mem_wf_def)
  also have "\<dots> = add_mset b (mset_set (boxed ?h))"
    using bx finite_boxed [OF ok] by (metis mset_set.remove)
  finally have sum': "(\<Sum>s\<in>#P. own s) = mset_set (boxed ?h)" by simp
  have "part_ok ?h t" if t: "t \<in># P" for t
  proof (rule part_ok_frame)
    show "part_ok h t" using assms t by (simp add: mem_wf_def)
    fix c assume "c \<in># own t"
    then have "c \<in># (\<Sum>s\<in>#P. own s)" using t by auto
    then have "c \<noteq> b" using sum' finite_boxed [OF ok] bx by auto
    then show "blocks ?h c = blocks h c" by simp
  qed
  moreover have "heap_ok ?h" using ok by (simp add: heap_ok_def)
  moreover have "pend s = {#}" using True by (simp add: pend_def)
  ultimately show ?thesis using d sum' by (simp add: mem_wf_def)
qed

lemma wf_drop_list:
  "mem_wf h (mset v + P) \<Longrightarrow>
    \<exists>h'. ZVector_drop v h = ret h' \<and> mem_wf h' P \<and> mset (calls h') = mset (calls h) + pending (mset v)"
proof (induction v arbitrary: h)
  case (Cons s v)
  from Cons.prems obtain h1 where h1: "CSlice_drop s h = ret h1" "mem_wf h1 (mset v + P)"
      "mset (calls h1) = mset (calls h) + pend s" using wf_drop by fastforce
  from Cons.IH [OF h1(2)] h1 show ?case by auto
qed simp

definition extends :: "heap \<Rightarrow> heap \<Rightarrow> bool" where
  "extends h h' \<longleftrightarrow> (\<forall>b v. blocks h b = Some v \<longrightarrow> blocks h' b = Some v)"

lemma extends_refl [simp]: "extends h h"
  by (simp add: extends_def)

lemma extends_trans: "extends h h' \<Longrightarrow> extends h' h'' \<Longrightarrow> extends h h''"
  by (simp add: extends_def)

lemma extends_read: "extends h h' \<Longrightarrow> from_raw_parts p n h = ret bs \<Longrightarrow> from_raw_parts p n h' = ret bs"
  by (auto simp: extends_def from_raw_parts_def split: if_splits ptr.splits option.splits prod.splits)

lemma extends_readable: "extends h h' \<Longrightarrow> readable p n h \<Longrightarrow> readable p n h'"
  using extends_read by (fastforce simp: readable_def)

lemma wf_alloc:
  assumes "mem_wf h P" "bs \<noteq> []" "length bs < 2 ^ 64" "box_leak bs h = (p, h')"
  shows "mem_wf h' (add_mset (CSlice_wrap p (of_nat (length bs))) P) \<and> extends h h'
    \<and> calls h' = calls h"
proof -
  let ?b = "next_block h" and ?l = "of_nat (length bs) :: usize"
  have h': "p = Ptr ?b 0" "h' = h\<lparr>blocks := (blocks h)(?b \<mapsto> (Boxed, bs)), next_block := ?b + 1\<rparr>"
    using assms by (auto simp: box_leak_def)
  have ok: "heap_ok h" using assms(1) by (simp add: mem_wf_def)
  have free: "blocks h ?b = None" using ok by (simp add: heap_ok_def)
  have ul: "unat ?l = length bs" using assms(3) by (simp add: unat_of_nat_usize)
  have l: "?l \<noteq> 0" using ul assms(2) by (metis length_0_conv unat_0)
  have own: "own (CSlice_wrap p ?l) = {#?b#}"
    using l by (simp add: own_def CSlice_wrap_def CSlice_new_unchecked_def h')
  have bx: "boxed h' = insert ?b (boxed h)" "?b \<notin> boxed h"
    using free by (auto simp: boxed_def h')
  have "(\<Sum>s\<in>#add_mset (CSlice_wrap p ?l) P. own s) = mset_set (boxed h')"
    using own bx assms(1) finite_boxed [OF ok] by (simp add: mem_wf_def)
  moreover have "part_ok h' (CSlice_wrap p ?l)"
    using l ul by (simp add: part_ok_def CSlice_wrap_def CSlice_new_unchecked_def h')
  moreover have "part_ok h' t" if "t \<in># P" for t
  proof (rule part_ok_frame)
    show "part_ok h t" using assms(1) that by (simp add: mem_wf_def)
    fix c assume "c \<in># own t"
    then have "c \<noteq> ?b" using own_in_boxed [OF assms(1) that] bx by blast
    then show "blocks h' c = blocks h c" by (simp add: h')
  qed
  moreover have "heap_ok h'" using ok by (simp add: heap_ok_def h')
  ultimately show ?thesis using free by (auto simp: mem_wf_def extends_def h')
qed

lemma unat_pos_iff: "(l :: usize) \<noteq> 0 \<longleftrightarrow> 0 < unat l"
  by (simp add: unat_gt_0)

lemma wf_new_owned:
  assumes "mem_wf h P" "readable d (unat l) h"
  shows "\<exists>s h'. CSlice_new_owned_unchecked d l h = ret (s, h') \<and> mem_wf h' (add_mset s P)
    \<and> extends h h' \<and> calls h' = calls h \<and> pend s = {#}
    \<and> CSlice_slice s h' = (if l = 0 then ret [] else from_raw_parts d (unat l) h)"
proof (cases "l = 0")
  case True
  moreover have "drop_fn CSlice_gravestone \<noteq> Some DefaultDrop" by (simp add: CSlice_gravestone_def)
  ultimately show ?thesis using assms wf_inert
    by (auto simp: CSlice_new_owned_unchecked_def pend_def CSlice_slice_def CSlice_gravestone_def)
next
  case False
  then obtain bs where bs: "from_raw_parts d (unat l) h = ret bs"
    using assms(2) by (auto simp: readable_def unat_pos_iff)
  then have n: "length bs = unat l" by (rule from_raw_parts_length)
  then have ne: "bs \<noteq> []" using False by (auto simp: unat_pos_iff)
  obtain p h' where lk: "box_leak bs h = (p, h')" by (cases "box_leak bs h")
  have l: "of_nat (length bs) = l" using n by simp
  have "length bs < 2 ^ 64" using n unat_usize_bound [of l] by simp
  note w = wf_alloc [OF assms(1) ne this lk, unfolded l]
  have "from_raw_parts p (unat l) h' = ret bs" using box_leak_read [OF ne lk] n by simp
  then show ?thesis using w bs lk False
    by (auto simp: CSlice_new_owned_unchecked_def pend_def CSlice_slice_def CSlice_wrap_def
        CSlice_new_unchecked_def)
qed

lemma wf_clone_list:
  assumes "mem_wf h P" "\<forall>s \<in> set v. readable (data s) (unat (len s)) h"
  shows "\<exists>v' h'. z_string_array_clone v h = ret (v', h') \<and> mem_wf h' (mset v' + P)
    \<and> extends h h' \<and> calls h' = calls h \<and> pending (mset v') = {#}
    \<and> map (\<lambda>s. CSlice_slice s h') v' = map (\<lambda>s. CSlice_slice s h) v"
  using assms
proof (induction v arbitrary: h P)
  case (Cons s v)
  have "readable (data s) (unat (len s)) h" using Cons.prems by simp
  from wf_new_owned [OF Cons.prems(1) this]
  obtain s' h1 where s': "CSlice_clone s h = ret (s', h1)" "mem_wf h1 (add_mset s' P)" "extends h h1"
      "calls h1 = calls h" "pend s' = {#}" "CSlice_slice s' h1 = CSlice_slice s h"
    by (auto simp: CSlice_clone_def CSlice_slice_def)
  have "\<forall>t \<in> set v. readable (data t) (unat (len t)) h1"
    using Cons.prems(2) extends_readable [OF s'(3)] by auto
  from Cons.IH [OF s'(2) this]
  obtain v' h2 where v': "z_string_array_clone v h1 = ret (v', h2)" "mem_wf h2 (mset v' + add_mset s' P)"
      "extends h1 h2" "calls h2 = calls h1" "pending (mset v') = {#}"
      "map (\<lambda>s. CSlice_slice s h2) v' = map (\<lambda>s. CSlice_slice s h1) v" by blast
  have same: "CSlice_slice t h' = CSlice_slice t h0"
    if "extends h0 h'" "readable (data t) (unat (len t)) h0" for t h0 h'
    using that extends_read [OF that(1)] by (auto simp: CSlice_slice_def readable_def unat_pos_iff)
  have "readable (data s') (unat (len s')) h1"
    using s'(6) Cons.prems(2) by (auto simp: CSlice_slice_def readable_def unat_pos_iff split: if_splits)
  then have "CSlice_slice s' h2 = CSlice_slice s h" using same [OF v'(3)] s'(6) by simp
  moreover have "map (\<lambda>s. CSlice_slice s h1) v = map (\<lambda>s. CSlice_slice s h) v"
    using same [OF s'(3)] Cons.prems(2) by simp
  ultimately show ?case using s' v' extends_trans [OF s'(3) v'(3)] by auto
qed simp

subsection \<open>Programs\<close>

record world =
  mem :: heap
  slices :: "cslice list"
  arrays :: "zvector list"

text \<open>One call each. \<open>SliceTake\<close> is the generated \<open>z_slice_take\<close> of the C side: it moves the
  object and leaves the gravestone. \<open>UserAlloc\<close> and \<open>UserFree\<close> are the program's own memory.\<close>

datatype op =
    CopyFromBuf nat ptr usize
  | FromBuf nat ptr usize "user_fn option" ptr
  | SliceClone nat nat
  | SliceTake nat nat
  | SliceDrop nat
  | ArrayNew nat
  | PushByCopy nat nat
  | PushByAlias nat nat
  | ArrayClone nat nat
  | ArrayDrop nat
  | UserAlloc "u8 list"
  | UserFree nat

definition set_slice :: "nat \<Rightarrow> cslice \<Rightarrow> heap \<Rightarrow> world \<Rightarrow> world" where
  "set_slice i s h w = w\<lparr>mem := h, slices := (slices w)[i := s]\<rparr>"

definition set_array :: "nat \<Rightarrow> zvector \<Rightarrow> heap \<Rightarrow> world \<Rightarrow> world" where
  "set_array i v h w = w\<lparr>mem := h, arrays := (arrays w)[i := v]\<rparr>"

fun exec :: "op \<Rightarrow> world \<Rightarrow> world run" where
  "exec (CopyFromBuf i p l) w =
     map_option (\<lambda>(_, s, h). set_slice i s h w) (z_slice_copy_from_buf p l (mem w))"
| "exec (FromBuf i p l dr c) w = ret (set_slice i (snd (z_slice_from_buf p l dr c)) (mem w) w)"
| "exec (SliceClone i j) w =
     map_option (\<lambda>(s, h). set_slice i s h w) (z_slice_clone (slices w ! j) (mem w))"
| "exec (SliceTake i j) w =
     (let (x, rest) = take_c_type CSlice_gravestone (slices w ! j) in
      ret (set_slice i x (mem w) (set_slice j rest (mem w) w)))"
| "exec (SliceDrop i) w =
     map_option (\<lambda>(s, h). set_slice i s h w) (z_slice_drop (slices w ! i) (mem w))"
| "exec (ArrayNew i) w = ret (set_array i z_string_array_new (mem w) w)"
| "exec (PushByCopy i j) w =
     map_option (\<lambda>(_, v, h). set_array i v h w)
       (z_string_array_push_by_copy (arrays w ! i) (slices w ! j) (mem w))"
| "exec (PushByAlias i j) w =
     ret (set_array i (snd (z_string_array_push_by_alias (arrays w ! i) (slices w ! j))) (mem w) w)"
| "exec (ArrayClone i j) w =
     map_option (\<lambda>(v, h). set_array i v h w) (z_string_array_clone (arrays w ! j) (mem w))"
| "exec (ArrayDrop i) w =
     map_option (\<lambda>(v, h). set_array i v h w) (z_string_array_drop (arrays w ! i) (mem w))"
| "exec (UserAlloc bs) w = ret (w\<lparr>mem := (mem w)\<lparr>blocks := (blocks (mem w))(next_block (mem w) \<mapsto> (User, bs)),
       next_block := next_block (mem w) + 1\<rparr>\<rparr>)"
| "exec (UserFree b) w = ret (w\<lparr>mem := (mem w)\<lparr>blocks := (blocks (mem w))(b := None)\<rparr>\<rparr>)"

text \<open>What the caller owes: slots exist, a constructor writes to a slot that holds nothing (as the
  \<open>MaybeUninit\<close> parameters demand), memory it reads is there, and memory it frees is its own.\<close>

definition vacant_slice :: "nat \<Rightarrow> world \<Rightarrow> bool" where
  "vacant_slice i w \<longleftrightarrow> i < length (slices w) \<and> drop_fn (slices w ! i) = None"

definition vacant_array :: "nat \<Rightarrow> world \<Rightarrow> bool" where
  "vacant_array i w \<longleftrightarrow> i < length (arrays w) \<and> list_all (\<lambda>s. drop_fn s = None) (arrays w ! i)"

definition can_read :: "world \<Rightarrow> cslice \<Rightarrow> bool" where
  "can_read w s \<longleftrightarrow> drop_fn s = Some DefaultDrop \<or> readable (data s) (unat (len s)) (mem w)"

fun allowed :: "op \<Rightarrow> world \<Rightarrow> bool" where
  "allowed (CopyFromBuf i p l) w = (vacant_slice i w \<and> (is_null p \<or> readable p (unat l) (mem w)))"
| "allowed (FromBuf i p l dr c) w = vacant_slice i w"
| "allowed (SliceClone i j) w = (vacant_slice i w \<and> j < length (slices w) \<and> can_read w (slices w ! j))"
| "allowed (SliceTake i j) w = (vacant_slice i w \<and> j < length (slices w) \<and> i \<noteq> j)"
| "allowed (SliceDrop i) w = (i < length (slices w))"
| "allowed (ArrayNew i) w = vacant_array i w"
| "allowed (PushByCopy i j) w = (i < length (arrays w) \<and> j < length (slices w) \<and> can_read w (slices w ! j))"
| "allowed (PushByAlias i j) w = (i < length (arrays w) \<and> j < length (slices w))"
| "allowed (ArrayClone i j) w =
     (vacant_array i w \<and> j < length (arrays w) \<and> list_all (can_read w) (arrays w ! j))"
| "allowed (ArrayDrop i) w = (i < length (arrays w))"
| "allowed (UserAlloc bs) w = True"
| "allowed (UserFree b) w = (\<exists>bs. blocks (mem w) b = Some (User, bs))"

text \<open>The deleters a call hands over to the library.\<close>

fun handed :: "op \<Rightarrow> (user_fn \<times> ptr \<times> ptr) multiset" where
  "handed (FromBuf i p l (Some f) c) = (if is_null p \<and> l > 0 then {#} else {#(f, p, c)#})"
| "handed _ = {#}"

definition parts :: "world \<Rightarrow> cslice multiset" where
  "parts w = mset (slices w) + sum_list (map mset (arrays w))"

definition ownership_inv :: "world \<Rightarrow> bool" where
  "ownership_inv w \<longleftrightarrow> mem_wf (mem w) (parts w)"

fun exec_all :: "op list \<Rightarrow> world \<Rightarrow> world run" where
  "exec_all [] w = ret w"
| "exec_all (c # cs) w = Option.bind (exec c w) (exec_all cs)"

fun allowed_all :: "op list \<Rightarrow> world \<Rightarrow> bool" where
  "allowed_all [] w = True"
| "allowed_all (c # cs) w = (allowed c w \<and> (case exec c w of None \<Rightarrow> True | Some w' \<Rightarrow> allowed_all cs w'))"

subsection \<open>Every call preserves ownership\<close>

lemma mem_set [simp]:
  "mem (set_slice i s h w) = h" "mem (set_array i v h w) = h"
  by (simp_all add: set_slice_def set_array_def)

lemma slice_split:
  assumes "i < length (slices w)"
  shows "\<exists>R. parts w = add_mset (slices w ! i) R \<and> (\<forall>s h. parts (set_slice i s h w) = add_mset s R)"
proof (intro exI conjI allI)
  let ?R = "(mset (slices w) - {#slices w ! i#}) + sum_list (map mset (arrays w))"
  have "slices w ! i \<in># mset (slices w)" using assms by simp
  then show "parts w = add_mset (slices w ! i) ?R" by (simp add: parts_def)
  show "parts (set_slice i s h w) = add_mset s ?R" for s h
    using assms by (simp add: parts_def set_slice_def mset_update)
qed

lemma array_split:
  assumes "i < length (arrays w)"
  shows "\<exists>R. parts w = mset (arrays w ! i) + R \<and> (\<forall>v h. parts (set_array i v h w) = mset v + R)"
proof -
  obtain xs ys where a: "arrays w = xs @ arrays w ! i # ys" "length xs = i"
    using assms id_take_nth_drop [OF assms] by (metis length_take min.absorb4)
  let ?R = "mset (slices w) + sum_list (map mset (xs @ ys))"
  have "parts w = mset (arrays w ! i) + ?R" unfolding parts_def by (subst a(1)) (simp add: add_ac)
  moreover have "(arrays w)[i := v] = xs @ v # ys" for v using a by (metis list_update_length)
  ultimately show ?thesis by (auto simp: parts_def set_array_def add_ac intro!: exI [of _ ?R])
qed

lemma vacant_pend: "drop_fn s = None \<Longrightarrow> pend s = {#}"
  by (simp add: pend_def)

lemma vacant_list:
  "list_all (\<lambda>s. drop_fn s = None) v \<Longrightarrow> pending (mset v) = {#} \<and> (mem_wf h (mset v + R) \<longleftrightarrow> mem_wf h R)"
  by (induction v) (auto simp: wf_inert vacant_pend)

lemma owned_readable:
  assumes "mem_wf h P" "s \<in># P" "drop_fn s = Some DefaultDrop"
  shows "readable (data s) (unat (len s)) h"
proof (cases "len s = 0")
  case False
  have "part_ok h s" using assms by (simp add: mem_wf_def)
  from own_part_ok [OF this assms(3) False] show ?thesis
    by (auto simp: readable_def from_raw_parts_def is_null_def)
qed (simp add: readable_def)

lemma can_read_readable:
  "ownership_inv w \<Longrightarrow> s \<in># parts w \<Longrightarrow> can_read w s \<Longrightarrow> readable (data s) (unat (len s)) (mem w)"
  using owned_readable by (auto simp: ownership_inv_def can_read_def)

text \<open>A step that returns, keeps the invariant and accounts for every deleter.\<close>

definition sound_step :: "op \<Rightarrow> world \<Rightarrow> bool" where
  "sound_step c w \<longleftrightarrow> (\<exists>w'. exec c w = ret w' \<and> ownership_inv w'
     \<and> mset (calls (mem w')) + pending (parts w') = mset (calls (mem w)) + pending (parts w) + handed c)"

lemma fill_slice:
  assumes "ownership_inv w" "vacant_slice i w"
    and "\<And>R. mem_wf (mem w) R \<Longrightarrow> mem_wf h (add_mset s R)"
  shows "ownership_inv (set_slice i s h w)
    \<and> pending (parts (set_slice i s h w)) = pending (parts w) + pend s"
proof -
  have i: "i < length (slices w)" "drop_fn (slices w ! i) = None" using assms(2) by (auto simp: vacant_slice_def)
  obtain R where R: "parts w = add_mset (slices w ! i) R" "parts (set_slice i s h w) = add_mset s R"
    using slice_split [OF i(1)] by blast
  have "mem_wf (mem w) R" using assms(1) i R by (simp add: ownership_inv_def wf_inert)
  then show ?thesis using assms(3) R i by (simp add: ownership_inv_def vacant_pend)
qed

lemma fill_array:
  assumes "ownership_inv w" "vacant_array i w"
    and "\<And>R. mem_wf (mem w) R \<Longrightarrow> mem_wf h (mset v + R)"
  shows "ownership_inv (set_array i v h w)
    \<and> pending (parts (set_array i v h w)) = pending (parts w) + pending (mset v)"
proof -
  have i: "i < length (arrays w)" "list_all (\<lambda>s. drop_fn s = None) (arrays w ! i)"
    using assms(2) by (auto simp: vacant_array_def)
  obtain R where R: "parts w = mset (arrays w ! i) + R" "parts (set_array i v h w) = mset v + R"
    using array_split [OF i(1)] by blast
  have "mem_wf (mem w) R" using assms(1) vacant_list [OF i(2)] R by (simp add: ownership_inv_def)
  then show ?thesis using assms(3) R vacant_list [OF i(2)] by (simp add: ownership_inv_def)
qed

lemma readable_source:
  "ownership_inv w \<Longrightarrow> j < length (slices w) \<Longrightarrow> can_read w (slices w ! j) \<Longrightarrow>
    readable (data (slices w ! j)) (unat (len (slices w ! j))) (mem w)"
  by (rule can_read_readable) (simp_all add: parts_def)

lemma new_owned_step:
  assumes "ownership_inv w" "vacant_slice i w" "readable d (unat l) (mem w)"
  shows "\<exists>s h. CSlice_new_owned_unchecked d l (mem w) = ret (s, h)
    \<and> ownership_inv (set_slice i s h w) \<and> calls h = calls (mem w)
    \<and> pending (parts (set_slice i s h w)) = pending (parts w)"
proof -
  obtain s h where e: "CSlice_new_owned_unchecked d l (mem w) = ret (s, h)"
    using wf_new_owned [OF assms(1) [unfolded ownership_inv_def] assms(3)] by blast
  have "mem_wf h (add_mset s R) \<and> calls h = calls (mem w) \<and> pend s = {#}" if "mem_wf (mem w) R" for R
    using wf_new_owned [OF that assms(3)] e by auto
  then show ?thesis
    using e assms fill_slice [OF assms(1,2), of h s] by (auto simp: ownership_inv_def)
qed

lemma CopyFromBuf_sound:
  "ownership_inv w \<Longrightarrow> allowed (CopyFromBuf i p l) w \<Longrightarrow> sound_step (CopyFromBuf i p l) w"
proof -
  assume a: "ownership_inv w" "allowed (CopyFromBuf i p l) w"
  show ?thesis
  proof (cases "is_null p \<and> l > 0")
    case True
    have "drop_fn CSlice_gravestone = None" by (simp add: CSlice_gravestone_def)
    then show ?thesis
      using True a fill_slice [OF a(1), of i "mem w" CSlice_gravestone]
      by (auto simp: sound_step_def z_slice_copy_from_buf_def CSlice_new_owned_def wf_inert vacant_pend)
  next
    case False
    have "readable p (unat l) (mem w)"
      using a False by (auto simp: readable_def word_greater_zero_iff)
    then show ?thesis
      using a False new_owned_step [OF a(1), of i p l]
      by (auto simp: sound_step_def z_slice_copy_from_buf_def CSlice_new_owned_def)
  qed
qed

lemma SliceClone_sound:
  "ownership_inv w \<Longrightarrow> allowed (SliceClone i j) w \<Longrightarrow> sound_step (SliceClone i j) w"
  using new_owned_step [of w i "data (slices w ! j)" "len (slices w ! j)"] readable_source [of w j]
  by (auto simp: sound_step_def z_slice_clone_def clone_to_owned_def)

lemma FromBuf_sound:
  "ownership_inv w \<Longrightarrow> allowed (FromBuf i p l dr c) w \<Longrightarrow> sound_step (FromBuf i p l dr c) w"
proof -
  assume a: "ownership_inv w" "allowed (FromBuf i p l dr c) w"
  let ?s = "snd (z_slice_from_buf p l dr c)"
  have "drop_fn ?s \<noteq> Some DefaultDrop" "pend ?s = handed (FromBuf i p l dr c)"
    by (cases dr; simp add: z_slice_from_buf_def CSlice_new_def CSlice_new_unchecked_def
        CSlice_gravestone_def pend_def)+
  then show ?thesis
    using a fill_slice [OF a(1), of i "mem w" ?s] by (simp add: sound_step_def wf_inert)
qed

lemma SliceTake_sound:
  "ownership_inv w \<Longrightarrow> allowed (SliceTake i j) w \<Longrightarrow> sound_step (SliceTake i j) w"
proof -
  assume a: "ownership_inv w" "allowed (SliceTake i j) w"
  then have i: "i < length (slices w)" "drop_fn (slices w ! i) = None" "j < length (slices w)" "i \<noteq> j"
    by (auto simp: vacant_slice_def)
  let ?g = CSlice_gravestone
  let ?w = "set_slice i (slices w ! j) (mem w) (set_slice j ?g (mem w) w)"
  obtain R where R: "parts w = add_mset (slices w ! j) R" "parts (set_slice j ?g (mem w) w) = add_mset ?g R"
    using slice_split [OF i(3)] by blast
  have si: "i < length (slices (set_slice j ?g (mem w) w))"
    "slices (set_slice j ?g (mem w) w) ! i = slices w ! i" using i by (simp_all add: set_slice_def)
  from slice_split [OF si(1)] obtain Q where
    Q: "add_mset ?g R = add_mset (slices w ! i) Q" "parts ?w = add_mset (slices w ! j) Q"
    unfolding R(2) si(2) by metis
  have g: "drop_fn ?g = None" by (simp add: CSlice_gravestone_def)
  have "mem_wf (mem w) (add_mset (slices w ! j) Q)"
    using a(1) R Q i g wf_inert [of ?g "mem w" "add_mset (slices w ! j) R"]
      wf_inert [of "slices w ! i" "mem w" "add_mset (slices w ! j) Q"]
    by (metis add_mset_commute option.distinct(1) ownership_inv_def)
  moreover have "pend ?g + pending R = pend (slices w ! i) + pending Q"
    using Q(1) by (metis pending_simps(2))
  ultimately show ?thesis
    using R Q i g by (simp add: sound_step_def take_c_type_def mem_replace_def ownership_inv_def vacant_pend)
qed

lemma SliceDrop_sound:
  "ownership_inv w \<Longrightarrow> allowed (SliceDrop i) w \<Longrightarrow> sound_step (SliceDrop i) w"
proof -
  assume a: "ownership_inv w" "allowed (SliceDrop i) w"
  then have i: "i < length (slices w)" by simp
  obtain R where R: "parts w = add_mset (slices w ! i) R"
      "\<And>s h. parts (set_slice i s h w) = add_mset s R"
    using slice_split [OF i] by blast
  have g: "drop_fn CSlice_gravestone = None" by (simp add: CSlice_gravestone_def)
  from wf_drop [of "mem w" "slices w ! i" R] a R obtain h where
    "CSlice_drop (slices w ! i) (mem w) = ret h" "mem_wf h R"
    "mset (calls h) = mset (calls (mem w)) + pend (slices w ! i)" by (auto simp: ownership_inv_def)
  then show ?thesis
    using R g by (auto simp: sound_step_def z_slice_drop_def csl.moved_drop_eq ownership_inv_def
        wf_inert vacant_pend)
qed

lemma ArrayDrop_sound:
  "ownership_inv w \<Longrightarrow> allowed (ArrayDrop i) w \<Longrightarrow> sound_step (ArrayDrop i) w"
proof -
  assume a: "ownership_inv w" "allowed (ArrayDrop i) w"
  then have i: "i < length (arrays w)" by simp
  obtain R where R: "parts w = mset (arrays w ! i) + R"
      "\<And>v h. parts (set_array i v h w) = mset v + R"
    using array_split [OF i] by blast
  from wf_drop_list [of "mem w" "arrays w ! i" R] a R obtain h where
    "ZVector_drop (arrays w ! i) (mem w) = ret h" "mem_wf h R"
    "mset (calls h) = mset (calls (mem w)) + pending (mset (arrays w ! i))" by (auto simp: ownership_inv_def)
  then show ?thesis
    using R(1) R(2) [of ZVector_gravestone h]
    by (simp add: sound_step_def z_string_array_drop_def zvec.moved_drop_eq ownership_inv_def)
       (simp add: ZVector_gravestone_def add_ac)
qed

lemma ArrayNew_sound:
  "ownership_inv w \<Longrightarrow> allowed (ArrayNew i) w \<Longrightarrow> sound_step (ArrayNew i) w"
  using fill_array [of w i "mem w" "[]"]
  by (simp add: sound_step_def z_string_array_new_def ZVector_gravestone_def)

lemma ArrayClone_sound:
  "ownership_inv w \<Longrightarrow> allowed (ArrayClone i j) w \<Longrightarrow> sound_step (ArrayClone i j) w"
proof -
  assume a: "ownership_inv w" "allowed (ArrayClone i j) w"
  have j: "j < length (arrays w)" "list_all (can_read w) (arrays w ! j)" using a by simp_all
  obtain R where "parts w = mset (arrays w ! j) + R" using array_split [OF j(1)] by blast
  then have rd: "\<forall>s \<in> set (arrays w ! j). readable (data s) (unat (len s)) (mem w)"
    using can_read_readable [OF a(1)] j(2) by (auto simp: list_all_iff)
  obtain v h where e: "z_string_array_clone (arrays w ! j) (mem w) = ret (v, h)"
    using wf_clone_list [OF a(1) [unfolded ownership_inv_def] rd] by blast
  have "mem_wf h (mset v + R) \<and> calls h = calls (mem w) \<and> pending (mset v) = {#}" if "mem_wf (mem w) R" for R
    using wf_clone_list [OF that rd] e by auto
  then show ?thesis
    using a e fill_array [OF a(1), of i h v] by (auto simp: sound_step_def ownership_inv_def)
qed

lemma push_step:
  assumes "ownership_inv w" "i < length (arrays w)"
    and "\<And>R. mem_wf (mem w) R \<Longrightarrow> mem_wf h (add_mset s R)"
  shows "ownership_inv (set_array i (arrays w ! i @ [s]) h w)
    \<and> pending (parts (set_array i (arrays w ! i @ [s]) h w)) = pending (parts w) + pend s"
proof -
  obtain R where R: "parts w = mset (arrays w ! i) + R"
      "parts (set_array i (arrays w ! i @ [s]) h w) = add_mset s (mset (arrays w ! i) + R)"
    using array_split [OF assms(2)] by fastforce
  then show ?thesis using assms(1,3) by (simp add: ownership_inv_def)
qed

lemma PushByCopy_sound:
  "ownership_inv w \<Longrightarrow> allowed (PushByCopy i j) w \<Longrightarrow> sound_step (PushByCopy i j) w"
proof -
  assume a: "ownership_inv w" "allowed (PushByCopy i j) w"
  let ?t = "slices w ! j"
  have rd: "readable (data ?t) (unat (len ?t)) (mem w)" using a readable_source [of w j] by simp
  obtain s h where e: "CSlice_new_owned_unchecked (data ?t) (len ?t) (mem w) = ret (s, h)"
    using wf_new_owned [OF a(1) [unfolded ownership_inv_def] rd] by blast
  have "mem_wf h (add_mset s R) \<and> calls h = calls (mem w) \<and> pend s = {#}" if "mem_wf (mem w) R" for R
    using wf_new_owned [OF that rd] e by auto
  then show ?thesis
    using a e push_step [OF a(1), of i h s]
    by (auto simp: sound_step_def z_string_array_push_by_copy_def clone_to_owned_def ownership_inv_def)
qed

lemma PushByAlias_sound:
  "ownership_inv w \<Longrightarrow> allowed (PushByAlias i j) w \<Longrightarrow> sound_step (PushByAlias i j) w"
  using push_step [of w i "mem w" "clone_to_borrowed (slices w ! j)"]
  by (auto simp: sound_step_def z_string_array_push_by_alias_def clone_to_borrowed_def
      CSlice_new_borrowed_unchecked_def CSlice_new_unchecked_def wf_inert vacant_pend)

lemma wf_user_block:
  assumes "mem_wf h P" "b \<notin> boxed h" "boxed h' = boxed h" "heap_ok h'" "\<And>c. c \<noteq> b \<Longrightarrow> blocks h' c = blocks h c"
  shows "mem_wf h' P"
proof -
  have "part_ok h' s" if "s \<in># P" for s
  proof (rule part_ok_frame)
    show "part_ok h s" using assms(1) that by (simp add: mem_wf_def)
    fix c assume "c \<in># own s"
    then have "c \<noteq> b" using own_in_boxed [OF assms(1) that] assms(2) by blast
    then show "blocks h' c = blocks h c" by (rule assms(5))
  qed
  then show ?thesis using assms by (simp add: mem_wf_def)
qed

lemma User_sound:
  "ownership_inv w \<Longrightarrow> sound_step (UserAlloc bs) w"
  "ownership_inv w \<Longrightarrow> allowed (UserFree b) w \<Longrightarrow> sound_step (UserFree b) w"
proof -
  assume a: "ownership_inv w"
  then have ok: "heap_ok (mem w)" by (simp add: ownership_inv_def mem_wf_def)
  have n: "blocks (mem w) (next_block (mem w)) = None" using ok by (simp add: heap_ok_def)
  let ?h = "mem w\<lparr>blocks := (blocks (mem w))(next_block (mem w) \<mapsto> (User, bs)), next_block := next_block (mem w) + 1\<rparr>"
  have "boxed ?h = boxed (mem w)" "next_block (mem w) \<notin> boxed (mem w)" "heap_ok ?h"
    using n ok by (auto simp: boxed_def heap_ok_def)
  then have "mem_wf ?h (parts w)"
    using a wf_user_block [of "mem w" "parts w" "next_block (mem w)" ?h] by (simp add: ownership_inv_def)
  then show "sound_step (UserAlloc bs) w"
    by (simp add: sound_step_def ownership_inv_def parts_def)
  show "sound_step (UserFree b) w" if "allowed (UserFree b) w"
  proof -
    let ?h = "mem w\<lparr>blocks := (blocks (mem w))(b := None)\<rparr>"
    have "boxed ?h = boxed (mem w)" "b \<notin> boxed (mem w)" "heap_ok ?h"
      using that ok by (auto simp: boxed_def heap_ok_def)
    then have "mem_wf ?h (parts w)"
      using a wf_user_block [of "mem w" "parts w" b ?h] by (simp add: ownership_inv_def)
    then show ?thesis by (simp add: sound_step_def ownership_inv_def parts_def)
  qed
qed

lemma step_sound: "ownership_inv w \<Longrightarrow> allowed c w \<Longrightarrow> sound_step c w"
  by (cases c) (simp_all only: CopyFromBuf_sound FromBuf_sound SliceClone_sound SliceTake_sound
      SliceDrop_sound ArrayNew_sound PushByCopy_sound PushByAlias_sound ArrayClone_sound
      ArrayDrop_sound User_sound)

lemma steps_sound:
  "ownership_inv w \<Longrightarrow> allowed_all cs w \<Longrightarrow> \<exists>w'. exec_all cs w = ret w' \<and> ownership_inv w'
     \<and> mset (calls (mem w')) + pending (parts w') = mset (calls (mem w)) + pending (parts w) + (\<Sum>c\<leftarrow>cs. handed c)"
proof (induction cs arbitrary: w)
  case (Cons c cs)
  then obtain w1 where w1: "exec c w = ret w1" "ownership_inv w1"
      "mset (calls (mem w1)) + pending (parts w1) = mset (calls (mem w)) + pending (parts w) + handed c"
    using step_sound [of w c] by (auto simp: sound_step_def)
  then have "allowed_all cs w1" using Cons.prems by simp
  from Cons.IH [OF w1(2) this] w1 show ?case by (auto simp: add.assoc)
qed simp

subsection \<open>No call writes to a block that stays\<close>

definition blocks_stable :: "heap \<Rightarrow> heap \<Rightarrow> bool" where
  "blocks_stable h h' \<longleftrightarrow> next_block h \<le> next_block h'
     \<and> (\<forall>b < next_block h. blocks h' b = blocks h b \<or> blocks h' b = None)"

lemma stable_refl [simp]: "blocks_stable h h"
  by (simp add: blocks_stable_def)

lemma stable_trans: "blocks_stable h h' \<Longrightarrow> blocks_stable h' h'' \<Longrightarrow> blocks_stable h h''"
  unfolding blocks_stable_def by (metis order_less_le_trans order_trans)

lemma stable_CSlice_drop: "CSlice_drop s h = ret h' \<Longrightarrow> blocks_stable h h'"
  by (auto simp: CSlice_drop_def z_drop_c_slice_default_def box_free_def blocks_stable_def
      split: option.splits deleter.splits ptr.splits if_splits nat.splits block_kind.splits)

lemma stable_ZVector_drop: "ZVector_drop v h = ret h' \<Longrightarrow> blocks_stable h h'"
  by (induction v arbitrary: h)
     (auto simp: bind_eq_Some_conv intro: stable_trans stable_CSlice_drop)

lemma stable_new_owned: "CSlice_new_owned_unchecked d l h = ret (s, h') \<Longrightarrow> blocks_stable h h'"
  by (auto simp: CSlice_new_owned_unchecked_def bind_eq_Some_conv box_leak_def blocks_stable_def split: if_splits)

lemma stable_array_clone: "z_string_array_clone v h = ret (v', h') \<Longrightarrow> blocks_stable h h'"
  by (induction v arbitrary: h v')
     (auto simp: bind_eq_Some_conv CSlice_clone_def intro: stable_trans stable_new_owned)

lemma stable_copy_from_buf: "z_slice_copy_from_buf p l h = ret (r, s, h') \<Longrightarrow> blocks_stable h h'"
  by (cases "is_null p \<and> l > 0")
     (auto simp: z_slice_copy_from_buf_def CSlice_new_owned_def bind_eq_Some_conv intro: stable_new_owned)

lemma stable_exec: "exec c w = ret w' \<Longrightarrow> blocks_stable (mem w) (mem w')"
proof (cases c)
  case (UserAlloc bs)
  then show "exec c w = ret w' \<Longrightarrow> ?thesis" by (auto simp: blocks_stable_def)
next
  case (UserFree b)
  then show "exec c w = ret w' \<Longrightarrow> ?thesis" by (auto simp: blocks_stable_def split: if_splits)
qed (auto simp: z_slice_clone_def clone_to_owned_def z_slice_drop_def csl.moved_drop_eq
    z_string_array_push_by_copy_def z_string_array_drop_def zvec.moved_drop_eq take_c_type_def
    mem_replace_def bind_eq_Some_conv Let_def
    intro: stable_copy_from_buf stable_new_owned stable_CSlice_drop stable_ZVector_drop stable_array_clone)

fun touches :: "op \<Rightarrow> nat set" where
  "touches (CopyFromBuf i p l) = {i}"
| "touches (FromBuf i p l dr c) = {i}"
| "touches (SliceClone i j) = {i}"
| "touches (SliceTake i j) = {i, j}"
| "touches (SliceDrop i) = {i}"
| "touches _ = {}"

lemma exec_untouched:
  "exec c w = ret w' \<Longrightarrow> i \<notin> touches c \<Longrightarrow> slices w' ! i = slices w ! i \<and> length (slices w') = length (slices w)"
  by (cases c) (auto simp: set_slice_def set_array_def take_c_type_def mem_replace_def)

lemma owned_contents_stable:
  assumes "ownership_inv w" "ownership_inv w'" "blocks_stable (mem w) (mem w')"
    and "i < length (slices w)" "slices w' ! i = slices w ! i" "length (slices w') = length (slices w)"
    and "drop_fn (slices w ! i) = Some DefaultDrop"
  shows "CSlice_slice (slices w' ! i) (mem w') = CSlice_slice (slices w ! i) (mem w)"
proof (cases "len (slices w ! i) = 0")
  case False
  have "slices w ! i \<in># parts w" "slices w ! i \<in># parts w'"
    using assms(4) nth_mem [of i "slices w"] nth_mem [of i "slices w'"] assms(5,6) by (auto simp: parts_def)
  then have "part_ok (mem w) (slices w ! i)" "part_ok (mem w') (slices w ! i)"
    using assms(1,2) by (simp_all add: ownership_inv_def mem_wf_def)
  then obtain b bs bs' where b: "data (slices w ! i) = Ptr b 0" "blocks (mem w) b = Some (Boxed, bs)"
      "blocks (mem w') b = Some (Boxed, bs')"
    using own_part_ok [OF _ assms(7) False] by (metis ptr.inject(2))
  have "b < next_block (mem w)"
    using b assms(1) by (metis heap_ok_def linorder_not_less mem_wf_def option.distinct(1) ownership_inv_def)
  then have "bs' = bs" using assms(3) b by (auto simp: blocks_stable_def)
  then show ?thesis using b assms(5) by (simp add: CSlice_slice_def from_raw_parts_def)
qed (simp add: CSlice_slice_def assms)

lemma steps_contents:
  "ownership_inv w \<Longrightarrow> allowed_all cs w \<Longrightarrow> exec_all cs w = ret w' \<Longrightarrow> i < length (slices w)
   \<Longrightarrow> drop_fn (slices w ! i) = Some DefaultDrop \<Longrightarrow> \<forall>c \<in> set cs. i \<notin> touches c
   \<Longrightarrow> slices w' ! i = slices w ! i \<and> CSlice_slice (slices w' ! i) (mem w') = CSlice_slice (slices w ! i) (mem w)"
proof (induction cs arbitrary: w)
  case (Cons c cs)
  obtain w1 where w1: "exec c w = ret w1" "ownership_inv w1" "exec_all cs w1 = ret w'"
    using step_sound [of w c] Cons.prems by (auto simp: sound_step_def)
  have u: "slices w1 ! i = slices w ! i" "length (slices w1) = length (slices w)"
    using exec_untouched [OF w1(1)] Cons.prems(6) by auto
  have "CSlice_slice (slices w1 ! i) (mem w1) = CSlice_slice (slices w ! i) (mem w)"
    using owned_contents_stable [OF Cons.prems(1) w1(2) stable_exec [OF w1(1)]] u Cons.prems by simp
  then show ?case using Cons.IH [of w1] w1 u Cons.prems by auto
qed simp

lemma vacant_parts:
  assumes "\<forall>s \<in># P. drop_fn s = None" "mem_wf h P"
  shows "boxed h = {} \<and> pending P = {#}"
proof -
  have "own s = {#}" "pend s = {#}" if "s \<in># P" for s
    using assms(1) that by (auto simp: own_def pend_def)
  then have "(\<Sum>s\<in>#P. own s) = {#}" "pending P = {#}"
    by (auto simp: pending_def sum_mset_0_iff)
  moreover have "finite (boxed h)" using assms(2) finite_boxed by (simp add: mem_wf_def)
  ultimately show ?thesis using assms(2) unfolding mem_wf_def by (metis mset_set_empty_iff)
qed

subsection \<open>Properties\<close>

text \<open>C1: memory safety and exact accounting of the slice, string and string-array API. From a
  state in which every block of the library has exactly one owner, every sequence of calls that
  respects the API's contract runs without undefined behaviour (no read of freed memory, no double
  free, no free with a wrong size), ends in such a state again, and every deleter handed over has
  either been called exactly once or is still pending in exactly one object.\<close>

theorem collections_ownership:
  assumes "ownership_inv w" "allowed_all cs w"
  shows "\<exists>w'. exec_all cs w = ret w' \<and> ownership_inv w'
    \<and> mset (calls (mem w')) + pending (parts w')
      = mset (calls (mem w)) + pending (parts w) + (\<Sum>c\<leftarrow>cs. handed c)"
  using assms by (rule steps_sound)

definition demo_world :: world where
  "demo_world = \<lparr>mem = \<lparr>blocks = [0 \<mapsto> (User, [7, 8, 9])], next_block = 1, calls = []\<rparr>,
     slices = [CSlice_gravestone, CSlice_gravestone], arrays = [[]]\<rparr>"

definition demo_ops :: "op list" where
  "demo_ops = [CopyFromBuf 0 (Ptr 0 0) 2, FromBuf 1 (Ptr 0 0) 3 (Some 5) null, PushByCopy 0 0,
     UserFree 0, SliceDrop 1, SliceDrop 0, ArrayDrop 0, SliceDrop 0]"

lemma demo_world_inv: "ownership_inv demo_world"
proof -
  have b: "boxed (mem demo_world) = {}" by (auto simp: boxed_def demo_world_def split: if_splits)
  show ?thesis
    unfolding ownership_inv_def mem_wf_def b
    by (simp add: demo_world_def parts_def part_ok_def own_def CSlice_gravestone_def heap_ok_def)
qed

lemmas demo_simps = demo_ops_def demo_world_def vacant_slice_def CSlice_gravestone_def readable_def
  from_raw_parts_def is_null_def set_slice_def set_array_def z_slice_copy_from_buf_def
  CSlice_new_owned_def CSlice_new_owned_unchecked_def box_leak_def CSlice_wrap_def
  CSlice_new_unchecked_def z_slice_from_buf_def CSlice_new_def can_read_def
  z_string_array_push_by_copy_def clone_to_owned_def z_slice_drop_def CSlice_drop_def
  z_drop_c_slice_default_def box_free_def z_string_array_drop_def ZVector_gravestone_def
  moved_drop_def take_rust_type_def take_c_type_def mem_replace_def

lemma demo_allowed: "allowed_all demo_ops demo_world"
  by (simp add: demo_simps)

theorem collections_ownership_witness:
  "allowed_all demo_ops demo_world \<and> (\<exists>w'. exec_all demo_ops demo_world = ret w' \<and> ownership_inv w'
     \<and> mset (calls (mem w')) + pending (parts w') = {#(5, Ptr 0 0, null)#})"
  using collections_ownership [OF demo_world_inv demo_allowed] demo_allowed
  by (simp add: demo_world_def demo_ops_def parts_def pend_def CSlice_gravestone_def is_null_def)

text \<open>C2: no leak. When such a sequence of calls ends with every object dropped (nothing left with
  a deleter), no block of the library remains allocated, and the deleters called are exactly those
  handed over, each as often as it was handed over.\<close>

theorem collections_no_leak:
  assumes "ownership_inv w" "allowed_all cs w" "exec_all cs w = ret w'"
    and "\<forall>s \<in># parts w'. drop_fn s = None"
  shows "boxed (mem w') = {} \<and>
    mset (calls (mem w')) = mset (calls (mem w)) + pending (parts w) + (\<Sum>c\<leftarrow>cs. handed c)"
proof -
  have "ownership_inv w'"
    and "mset (calls (mem w')) + pending (parts w')
      = mset (calls (mem w)) + pending (parts w) + (\<Sum>c\<leftarrow>cs. handed c)"
    using steps_sound [OF assms(1,2)] assms(3) by auto
  then show ?thesis using vacant_parts [OF assms(4)] by (simp add: ownership_inv_def)
qed

theorem collections_no_leak_witness:
  "\<exists>w'. exec_all demo_ops demo_world = ret w' \<and> boxed (mem w') = {}
     \<and> mset (calls (mem w')) = {#(5, Ptr 0 0, null)#}"
proof -
  have e: "exec_all demo_ops demo_world =
      ret \<lparr>mem = \<lparr>blocks = Map.empty, next_block = 3, calls = [(5, Ptr 0 0, null)]\<rparr>,
           slices = [CSlice_gravestone, CSlice_gravestone], arrays = [[]]\<rparr>"
    by (auto simp: demo_simps fun_eq_iff)
  have "\<forall>s \<in># parts \<lparr>mem = \<lparr>blocks = Map.empty, next_block = 3, calls = [(5, Ptr 0 0, null)]\<rparr>,
           slices = [CSlice_gravestone, CSlice_gravestone], arrays = [[]]\<rparr>. drop_fn s = None"
    by (simp add: parts_def CSlice_gravestone_def)
  from collections_no_leak [OF demo_world_inv demo_allowed e this] e show ?thesis by auto
qed

text \<open>C19: a copy is independent of its source. An object that owns its bytes (made by
  \<open>z_slice_copy_from_buf\<close>, \<open>z_string_copy_from_str\<close>, a clone or a conversion from a vector) reads
  the same after any sequence of calls that does not move or drop it, whatever happens to the memory
  it was copied from, to its clones, and to the rest of the heap.\<close>

theorem copies_are_independent:
  assumes "ownership_inv w" "allowed_all cs w" "exec_all cs w = ret w'" "i < length (slices w)"
    and "drop_fn (slices w ! i) = Some DefaultDrop" "\<forall>c \<in> set cs. i \<notin> touches c"
  shows "CSlice_slice (slices w' ! i) (mem w') = CSlice_slice (slices w ! i) (mem w)"
  using steps_contents [OF assms] by blast

theorem copies_are_independent_witness:
  "\<exists>w1 w2. exec (CopyFromBuf 0 (Ptr 0 0) 2) demo_world = ret w1 \<and> exec_all [UserFree 0, SliceClone 1 0] w1 = ret w2
     \<and> CSlice_slice (slices w2 ! 0) (mem w2) = CSlice_slice (slices w1 ! 0) (mem w1)"
proof -
  obtain w1 where w1: "exec (CopyFromBuf 0 (Ptr 0 0) 2) demo_world = ret w1" "ownership_inv w1"
    using step_sound [OF demo_world_inv, of "CopyFromBuf 0 (Ptr 0 0) 2"]
    by (auto simp: sound_step_def demo_simps)
  have e: "w1 = \<lparr>mem = \<lparr>blocks = [0 \<mapsto> (User, [7, 8, 9]), 1 \<mapsto> (Boxed, [7, 8])], next_block = 2, calls = []\<rparr>,
     slices = [CSlice_wrap (Ptr 1 0) 2, CSlice_gravestone], arrays = [[]]\<rparr>"
    using w1(1) by (auto simp: demo_simps)
  have a: "allowed_all [UserFree 0, SliceClone 1 0] w1" by (simp add: e demo_simps z_slice_clone_def)
  obtain w2 where w2: "exec_all [UserFree 0, SliceClone 1 0] w1 = ret w2"
    using steps_sound [OF w1(2) a] by auto
  have "CSlice_slice (slices w2 ! 0) (mem w2) = CSlice_slice (slices w1 ! 0) (mem w1)"
    by (rule copies_are_independent [OF w1(2) a w2])
       (simp_all add: e CSlice_wrap_def CSlice_new_unchecked_def)
  then show ?thesis using w1 w2 by blast
qed

text \<open>\<open>z_string_copy_from_str\<close> on a C string. For a pointer to text ended by a zero byte it
  returns \<open>Z_OK\<close> and an owned string that reads as the text without the zero; the caller's blocks
  keep their contents.\<close>

lemma z_string_copy_from_str_text:
  assumes "heap_ok h" "blocks h b = Some (k, pre @ chars @ 0 # rest)" "0 \<notin> set chars" "length chars < 2 ^ 64"
  shows "\<exists>s h'. z_string_copy_from_str (Ptr b (length pre)) h = ret (Z_OK, s, h')
    \<and> CSlice_slice s h' = ret chars \<and> extends h h'"
proof -
  have n: "strlen_or_zero (Ptr b (length pre)) h = ret (length chars)" by (rule strlen_block [OF assms(2,3)])
  have l: "unat (of_nat (length chars) :: usize) = length chars" using assms(4) by (rule unat_of_nat_usize)
  have rd: "from_raw_parts (Ptr b (length pre)) (length chars) h = ret chars" by (rule read_block [OF assms(2)])
  show ?thesis
  proof (cases "chars = []")
    case True
    then show ?thesis
      using n by (auto simp: z_string_copy_from_str_def z_string_copy_from_substr_def CSlice_new_owned_def
          CSlice_new_owned_unchecked_def CSlice_slice_def CSlice_gravestone_def)
  next
    case False
    then have nz: "(of_nat (length chars) :: usize) \<noteq> 0" using l by (metis length_0_conv unat_0)
    obtain p h' where lk: "box_leak chars h = (p, h')" by (cases "box_leak chars h")
    then have "extends h h'" using False assms(1) by (auto simp: box_leak_def extends_def heap_ok_def)
    then show ?thesis
      using n rd nz l lk box_leak_read [OF False lk]
      by (simp add: z_string_copy_from_str_def z_string_copy_from_substr_def CSlice_new_owned_def
          CSlice_new_owned_unchecked_def CSlice_slice_def CSlice_wrap_def CSlice_new_unchecked_def is_null_def)
  qed
qed

text \<open>A null pointer is not an error of the string constructors that use \<open>strlen\<close>: it is the
  empty string. Their documentation announces \<open>-1\<close>.\<close>

lemma string_from_null_is_ok:
  "z_string_copy_from_str null h = ret (Z_OK, CSlice_gravestone, h)
   \<and> (\<exists>s. z_view_string_from_str null h = ret (Z_OK, s) \<and> len s = 0 \<and> CSlice_is_gravestone s)"
  by (simp add: z_string_copy_from_str_def z_string_copy_from_substr_def z_view_string_from_str_def cslice_defs is_null_def)

end
