(* ===== verification/Sync.thy ===== *)
theory Sync
  imports Ownership
begin

text \<open>
  \<open>src/platform/synchronization.rs\<close>: mutexes, condition variables and tasks.

  A mutex is the pair of a Rust \<open>Mutex<()>\<close> and a cell for the guard of the thread that holds it:
  the C functions keep the guard there between \<open>z_mutex_lock\<close> and \<open>z_mutex_unlock\<close>. The cell is
  not protected by anything but the mutex itself, and a function touches the two in several
  separate steps. The model is therefore an interleaving of atomic steps of any number of
  threads: acquiring or releasing the Rust mutex is one step, an access of the cell another. A
  guard is the identity of the thread whose \<open>lock\<close> created it. Unlocking and waiting are only
  called by a thread whose lock call has returned, as the API demands; a condition variable may
  wake up spuriously.

  The invariant at the end shows that the protocol is sound: the cell is only accessed by the
  holder of the mutex, a guard found in it and forgotten never exists, and no guard is dropped by
  being overwritten.
\<close>

subsection \<open>State\<close>

type_synonym tid = nat

datatype pc =
    Idle
  | Locking        \<comment> \<open>in \<open>this.0.lock()\<close>\<close>
  | Locked         \<comment> \<open>has the guard, not yet stored\<close>
  | Critical       \<comment> \<open>the lock call has returned\<close>
  | Unlocking      \<comment> \<open>has taken the guard out, about to drop it\<close>
  | WaitTaken      \<comment> \<open>has taken the guard out, about to wait\<close>
  | Sleeping       \<comment> \<open>in \<open>Condvar::wait\<close>\<close>
  | Woken          \<comment> \<open>has the new guard, not yet stored\<close>

record mutex_state =
  holder :: "tid option"
  poisoned :: bool
  guard :: "tid option"
  pcs :: "tid \<Rightarrow> pc"
  forgotten :: "tid list"
  results :: "(tid \<times> z_result_t) list"

definition z_mutex_init :: "z_result_t \<times> mutex_state option" where
  "z_mutex_init = (Z_OK, Some \<lparr>holder = None, poisoned = False, guard = None, pcs = (\<lambda>_. Idle),
     forgotten = [], results = []\<rparr>)"

definition z_internal_mutex_check :: "mutex_state option \<Rightarrow> bool" where
  "z_internal_mutex_check this \<longleftrightarrow> this \<noteq> None"

definition z_internal_mutex_null :: "mutex_state option" where
  "z_internal_mutex_null = None"

definition z_mutex_drop :: "('m \<Rightarrow> 'w \<Rightarrow> 'w run) \<Rightarrow> 'm option \<Rightarrow> 'w \<Rightarrow> ('m option \<times> 'w) run" where
  "z_mutex_drop d this w = moved_drop gravestone_option (drop_option d) this w"

definition z_mutex_loan_mut :: "'m option \<Rightarrow> 'm run" where
  "z_mutex_loan_mut this = loan_option this"

subsection \<open>The steps of the mutex functions\<close>

definition at :: "tid \<Rightarrow> pc \<Rightarrow> mutex_state \<Rightarrow> bool" where
  "at t p s \<longleftrightarrow> pcs s t = p"

definition goto :: "tid \<Rightarrow> pc \<Rightarrow> mutex_state \<Rightarrow> mutex_state" where
  "goto t p s = s\<lparr>pcs := (pcs s)(t := p)\<rparr>"

definition finish :: "tid \<Rightarrow> z_result_t \<Rightarrow> mutex_state \<Rightarrow> mutex_state" where
  "finish t r s = s\<lparr>results := results s @ [(t, r)]\<rparr>"

text \<open>\<open>Mutex::lock\<close> when the mutex is free: a poisoned mutex gives its guard inside the error,
  which is dropped at once.\<close>

definition lock_acquire :: "tid \<Rightarrow> mutex_state \<Rightarrow> mutex_state" where
  "lock_acquire t s =
    (if poisoned s then finish t Z_EPOISON_MUTEX (goto t Idle s)
     else goto t Locked (s\<lparr>holder := Some t\<rparr>))"

text \<open>\<open>let old_lock = this.1.replace(new_lock); forget(old_lock); Z_OK\<close>\<close>

definition lock_store :: "tid \<Rightarrow> mutex_state \<Rightarrow> mutex_state" where
  "lock_store t s =
    (let old_lock = guard s;
         s = s\<lparr>guard := Some t\<rparr>;
         s = (case old_lock of None \<Rightarrow> s | Some g \<Rightarrow> s\<lparr>forgotten := forgotten s @ [g]\<rparr>)
     in finish t Z_OK (goto t Critical s))"

definition try_lock :: "tid \<Rightarrow> mutex_state \<Rightarrow> mutex_state" where
  "try_lock t s =
    (if holder s \<noteq> None \<or> poisoned s then finish t Z_EBUSY_MUTEX s
     else goto t Locked (s\<lparr>holder := Some t\<rparr>))"

text \<open>The drop of a guard releases the mutex.\<close>

definition release :: "mutex_state \<Rightarrow> mutex_state" where
  "release s = s\<lparr>holder := None\<rparr>"

text \<open>\<open>z_mutex_unlock\<close> up to \<open>this.1.take()\<close>; the guard taken is dropped in the next step.\<close>

definition unlock_take :: "tid \<Rightarrow> mutex_state \<Rightarrow> mutex_state" where
  "unlock_take t s =
    (if guard s = None then finish t Z_EINVAL_MUTEX (goto t Idle s)
     else goto t Unlocking (s\<lparr>guard := None\<rparr>))"

definition unlock_drop :: "tid \<Rightarrow> mutex_state \<Rightarrow> mutex_state" where
  "unlock_drop t s = finish t Z_OK (goto t Idle (release s))"

text \<open>\<open>z_condvar_wait\<close>: the guard is taken out of the cell, \<open>Condvar::wait\<close> releases the mutex and
  acquires it again, and the new guard is assigned to the cell; the assignment drops what the cell
  held.\<close>

definition wait_take :: "tid \<Rightarrow> mutex_state \<Rightarrow> mutex_state" where
  "wait_take t s =
    (if guard s = None then finish t Z_EINVAL_MUTEX s
     else goto t WaitTaken (s\<lparr>guard := None\<rparr>))"

definition wait_sleep :: "tid \<Rightarrow> mutex_state \<Rightarrow> mutex_state" where
  "wait_sleep t s = goto t Sleeping (release s)"

definition wait_wake :: "tid \<Rightarrow> mutex_state \<Rightarrow> mutex_state" where
  "wait_wake t s =
    (if poisoned s then finish t Z_EPOISON_MUTEX (goto t Idle s)
     else goto t Woken (s\<lparr>holder := Some t\<rparr>))"

definition wait_store :: "tid \<Rightarrow> mutex_state \<Rightarrow> mutex_state" where
  "wait_store t s =
    (let s = (if guard s = None then s else release s)
     in finish t Z_OK (goto t Critical (s\<lparr>guard := Some t\<rparr>)))"

inductive mstep :: "mutex_state \<Rightarrow> mutex_state \<Rightarrow> bool" where
  lock_call: "at t Idle s \<Longrightarrow> mstep s (goto t Locking s)"
| lock_ok: "at t Locking s \<Longrightarrow> holder s = None \<Longrightarrow> mstep s (lock_acquire t s)"
| lock_done: "at t Locked s \<Longrightarrow> mstep s (lock_store t s)"
| try_call: "at t Idle s \<Longrightarrow> mstep s (try_lock t s)"
| unlock_call: "at t Critical s \<Longrightarrow> mstep s (unlock_take t s)"
| unlock_done: "at t Unlocking s \<Longrightarrow> mstep s (unlock_drop t s)"
| wait_call: "at t Critical s \<Longrightarrow> mstep s (wait_take t s)"
| wait_rel: "at t WaitTaken s \<Longrightarrow> mstep s (wait_sleep t s)"
| wait_again: "at t Sleeping s \<Longrightarrow> holder s = None \<Longrightarrow> mstep s (wait_wake t s)"
| wait_done: "at t Woken s \<Longrightarrow> mstep s (wait_store t s)"

inductive reachable :: "mutex_state \<Rightarrow> bool" where
  init: "z_mutex_init = (r, Some s) \<Longrightarrow> reachable s"
| step: "reachable s \<Longrightarrow> mstep s s' \<Longrightarrow> reachable s'"

inductive_cases mstepE: "mstep s s'"

subsection \<open>Condition variables and tasks\<close>

definition z_condvar_init :: "unit option" where
  "z_condvar_init = Some ()"

definition z_internal_condvar_null :: "'c option" where
  "z_internal_condvar_null = None"

definition z_condvar_drop :: "('c \<Rightarrow> 'w \<Rightarrow> 'w run) \<Rightarrow> 'c option \<Rightarrow> 'w \<Rightarrow> ('c option \<times> 'w) run" where
  "z_condvar_drop d this w = moved_drop gravestone_option (drop_option d) this w"

definition z_internal_condvar_check :: "'c option \<Rightarrow> bool" where
  "z_internal_condvar_check this \<longleftrightarrow> this \<noteq> None"

definition z_condvar_loan :: "'c option \<Rightarrow> 'c run" where
  "z_condvar_loan this = loan_option this"

definition z_condvar_loan_mut :: "'c option \<Rightarrow> 'c run" where
  "z_condvar_loan_mut this = loan_option this"

text \<open>\<open>Condvar::notify_one\<close> lets a sleeping thread, if any, try to take the mutex again; threads may
  also wake up spuriously, so it does not change what the steps above allow.\<close>

definition z_condvar_signal :: "mutex_state \<Rightarrow> z_result_t \<times> mutex_state" where
  "z_condvar_signal s = (Z_OK, s)"

definition z_internal_task_null :: "'h option" where
  "z_internal_task_null = None"

definition z_internal_task_check :: "'h option \<Rightarrow> bool" where
  "z_internal_task_check this \<longleftrightarrow> this \<noteq> None"

text \<open>A join handle that is dropped detaches its thread: nothing else happens.\<close>

definition z_task_detach :: "'h option \<Rightarrow> 'h option" where
  "z_task_detach this = snd (take_rust_type gravestone_option this)"

definition z_task_drop :: "'h option \<Rightarrow> 'h option" where
  "z_task_drop this = snd (take_rust_type gravestone_option this)"

text \<open>\<open>join\<close> is the result of \<open>JoinHandle::join\<close>: whether the thread returned without panicking.\<close>

definition z_task_join :: "('h \<Rightarrow> bool) \<Rightarrow> 'h option \<Rightarrow> z_result_t \<times> 'h option" where
  "z_task_join join this = (case take_rust_type gravestone_option this of
     (None, this) \<Rightarrow> (Z_OK, this)
   | (Some task, this) \<Rightarrow> (if join task then Z_OK else Z_EINVAL_MUTEX, this))"

text \<open>\<open>spawn\<close> is the result of \<open>thread::Builder::spawn\<close>. On failure the task is not written:
  \<open>None\<close> is uninitialised memory.\<close>

definition z_task_init :: "('f \<times> 'a \<Rightarrow> 'h option) \<Rightarrow> 'f \<Rightarrow> 'a \<Rightarrow> z_result_t \<times> 'h option option" where
  "z_task_init spawn fn arg = (case spawn (fn, arg) of
     Some join_handle \<Rightarrow> (Z_OK, Some (Some join_handle))
   | None \<Rightarrow> (Z_EAGAIN_MUTEX, None))"

subsection \<open>The invariant\<close>

definition holds_lock :: "pc \<Rightarrow> bool" where
  "holds_lock p \<longleftrightarrow> p \<in> {Locked, Critical, Unlocking, WaitTaken, Woken}"

definition mutex_inv :: "mutex_state \<Rightarrow> bool" where
  "mutex_inv s \<longleftrightarrow>
     (\<forall>t. holds_lock (pcs s t) \<longleftrightarrow> holder s = Some t)
   \<and> (\<forall>t. pcs s t = Critical \<longleftrightarrow> guard s = Some t)
   \<and> forgotten s = [] \<and> \<not> poisoned s \<and> (\<forall>(t, r) \<in> set (results s). r = Z_OK \<or> r = Z_EBUSY_MUTEX)"

lemmas step_defs = at_def goto_def finish_def lock_acquire_def lock_store_def try_lock_def release_def
  unlock_take_def unlock_drop_def wait_take_def wait_sleep_def wait_wake_def wait_store_def

lemma mutex_inv_init: "z_mutex_init = (r, Some s) \<Longrightarrow> mutex_inv s"
  by (auto simp: z_mutex_init_def mutex_inv_def holds_lock_def)

text \<open>A thread that holds the mutex without being critical finds the cell empty.\<close>

lemma guard_empty:
  assumes "mutex_inv s" "holds_lock (pcs s t)" "pcs s t \<noteq> Critical"
  shows "guard s = None"
proof (cases "guard s")
  case (Some g)
  then have "pcs s g = Critical" using assms(1) by (simp add: mutex_inv_def)
  then have "holder s = Some g" using assms(1) by (metis holds_lock_def insertCI mutex_inv_def)
  moreover have "holder s = Some t" using assms(1,2) by (simp add: mutex_inv_def)
  ultimately show ?thesis using \<open>pcs s g = Critical\<close> assms(3) by simp
qed

text \<open>A step of thread \<open>t\<close> keeps the invariant when it changes the holder and the cell only for
  itself and in accordance with its new program counter.\<close>

lemma mutex_inv_update:
  assumes "mutex_inv s" "pcs s' = (pcs s)(t := p)"
    and "holds_lock p \<longleftrightarrow> holder s' = Some t" "p = Critical \<longleftrightarrow> guard s' = Some t"
    and "\<And>u. u \<noteq> t \<Longrightarrow> holder s' = Some u \<longleftrightarrow> holder s = Some u"
    and "\<And>u. u \<noteq> t \<Longrightarrow> guard s' = Some u \<longleftrightarrow> guard s = Some u"
    and "forgotten s' = forgotten s" "poisoned s' = poisoned s"
    and "\<forall>(t, r) \<in> set (results s'). r = Z_OK \<or> r = Z_EBUSY_MUTEX"
  shows "mutex_inv s'"
  using assms unfolding mutex_inv_def by auto

lemma mutex_inv_thread:
  "mutex_inv s \<Longrightarrow> holder s = Some t \<longleftrightarrow> holds_lock (pcs s t)"
  "mutex_inv s \<Longrightarrow> guard s = Some t \<longleftrightarrow> pcs s t = Critical"
  "mutex_inv s \<Longrightarrow> forgotten s = []" "mutex_inv s \<Longrightarrow> \<not> poisoned s"
  "mutex_inv s \<Longrightarrow> \<forall>(t, r) \<in> set (results s). r = Z_OK \<or> r = Z_EBUSY_MUTEX"
  unfolding mutex_inv_def by auto

lemma mutex_inv_step:
  assumes "mstep s s'" "mutex_inv s"
  shows "mutex_inv s'"
  using assms(1)
proof (cases rule: mstep.cases)
  case (lock_call t)
  then show ?thesis
    by (intro mutex_inv_update [OF assms(2), where t = t and p = Locking])
       (use mutex_inv_thread [OF assms(2)] in \<open>auto simp: step_defs holds_lock_def\<close>)
next
  case (lock_ok t)
  then show ?thesis
    by (intro mutex_inv_update [OF assms(2), where t = t and p = Locked])
       (use mutex_inv_thread [OF assms(2)] in \<open>auto simp: step_defs holds_lock_def\<close>)
next
  case (lock_done t)
  then have "guard s = None" using guard_empty [OF assms(2), of t] by (simp add: at_def holds_lock_def)
  then show ?thesis using lock_done
    by (intro mutex_inv_update [OF assms(2), where t = t and p = Critical])
       (use mutex_inv_thread [OF assms(2)] in \<open>auto simp: step_defs holds_lock_def Let_def\<close>)
next
  case (try_call t)
  then show ?thesis
    by (intro mutex_inv_update [OF assms(2), where t = t and p = "if holder s = None then Locked else Idle"])
       (use mutex_inv_thread [OF assms(2)] in \<open>auto simp: step_defs holds_lock_def fun_eq_iff\<close>)
next
  case (unlock_call t)
  then have "guard s = Some t" using mutex_inv_thread(2) [OF assms(2), of t] by (simp add: at_def)
  then show ?thesis using unlock_call
    by (intro mutex_inv_update [OF assms(2), where t = t and p = Unlocking])
       (use mutex_inv_thread(1,3,4,5) [OF assms(2)] in \<open>auto simp: step_defs holds_lock_def\<close>)
next
  case (unlock_done t)
  then have "guard s = None" "holder s = Some t"
    using guard_empty [OF assms(2), of t] mutex_inv_thread(1) [OF assms(2), of t] by (simp_all add: at_def holds_lock_def)
  then show ?thesis using unlock_done
    by (intro mutex_inv_update [OF assms(2), where t = t and p = Idle])
       (use mutex_inv_thread(2,3,4,5) [OF assms(2)] in \<open>auto simp: step_defs holds_lock_def\<close>)
next
  case (wait_call t)
  then have "guard s = Some t" using mutex_inv_thread(2) [OF assms(2), of t] by (simp add: at_def)
  then show ?thesis using wait_call
    by (intro mutex_inv_update [OF assms(2), where t = t and p = WaitTaken])
       (use mutex_inv_thread(1,3,4,5) [OF assms(2)] in \<open>auto simp: step_defs holds_lock_def\<close>)
next
  case (wait_rel t)
  then have "guard s = None" "holder s = Some t"
    using guard_empty [OF assms(2), of t] mutex_inv_thread(1) [OF assms(2), of t] by (simp_all add: at_def holds_lock_def)
  then show ?thesis using wait_rel
    by (intro mutex_inv_update [OF assms(2), where t = t and p = Sleeping])
       (use mutex_inv_thread(2,3,4,5) [OF assms(2)] in \<open>auto simp: step_defs holds_lock_def\<close>)
next
  case (wait_again t)
  then show ?thesis
    by (intro mutex_inv_update [OF assms(2), where t = t and p = Woken])
       (use mutex_inv_thread [OF assms(2)] in \<open>auto simp: step_defs holds_lock_def\<close>)
next
  case (wait_done t)
  then have "guard s = None" using guard_empty [OF assms(2), of t] by (simp add: at_def holds_lock_def)
  then show ?thesis using wait_done
    by (intro mutex_inv_update [OF assms(2), where t = t and p = Critical])
       (use mutex_inv_thread [OF assms(2)] in \<open>auto simp: step_defs holds_lock_def Let_def\<close>)
qed

lemma reachable_inv: "reachable s \<Longrightarrow> mutex_inv s"
  by (induction rule: reachable.induct) (auto intro: mutex_inv_init mutex_inv_step)

subsection \<open>Properties\<close>

text \<open>C24: the guard protocol is sound under every interleaving. In every reachable state of any
  number of threads calling lock, try-lock, unlock and wait: at most one thread is in its critical
  section, and the cell holds exactly its guard; a thread about to store or drop a guard (the only
  other accesses of the cell) holds the mutex and finds the cell empty, so no two threads access the
  cell at once, no live guard is forgotten and none is dropped by being overwritten.\<close>

theorem mutex_protocol_sound:
  assumes "reachable s"
  shows "(\<forall>t u. pcs s t = Critical \<and> pcs s u = Critical \<longrightarrow> t = u)
    \<and> (\<forall>t. pcs s t = Critical \<longleftrightarrow> guard s = Some t)
    \<and> (\<forall>t. pcs s t \<in> {Locked, Unlocking, WaitTaken, Woken} \<longrightarrow> holder s = Some t \<and> guard s = None)
    \<and> forgotten s = []"
proof -
  note inv = reachable_inv [OF assms]
  have "t = u" if "pcs s t = Critical" "pcs s u = Critical" for t u
    using that mutex_inv_thread(2) [OF inv, of t] mutex_inv_thread(2) [OF inv, of u] by simp
  moreover have "holder s = Some t \<and> guard s = None" if "pcs s t \<in> {Locked, Unlocking, WaitTaken, Woken}" for t
    using that mutex_inv_thread(1) [OF inv, of t] guard_empty [OF inv, of t] by (auto simp: holds_lock_def)
  ultimately show ?thesis using mutex_inv_thread [OF inv] by auto
qed

definition demo_start :: mutex_state where
  "demo_start = \<lparr>holder = None, poisoned = False, guard = None, pcs = (\<lambda>_. Idle), forgotten = [], results = []\<rparr>"

lemma demo_reachable: "reachable (lock_store 1 (lock_acquire 1 (goto 1 Locking demo_start)))"
proof -
  have "reachable demo_start" by (rule reachable.init) (simp add: demo_start_def z_mutex_init_def)
  then have "reachable (goto 1 Locking demo_start)"
    by (rule reachable.step) (rule mstep.lock_call, simp add: at_def demo_start_def)
  then have "reachable (lock_acquire 1 (goto 1 Locking demo_start))"
    by (rule reachable.step) (rule mstep.lock_ok, simp_all add: step_defs demo_start_def)
  then show ?thesis
    by (rule reachable.step) (rule mstep.lock_done, simp add: step_defs demo_start_def)
qed

theorem mutex_protocol_sound_witness:
  "guard (lock_store 1 (lock_acquire 1 (goto 1 Locking demo_start))) = Some 1"
  using mutex_protocol_sound [OF demo_reachable] by (simp add: step_defs demo_start_def Let_def)

text \<open>The error codes the mutex functions return. In every run of the API in which no thread
  panics while it holds a mutex, lock, unlock and wait only ever return \<open>Z_OK\<close>, and try-lock
  returns \<open>Z_OK\<close> or \<open>Z_EBUSY_MUTEX\<close>: the codes for a poisoned mutex and for an unlock without a
  lock do not occur for callers that respect the contract.\<close>

lemma mutex_result_codes:
  assumes "reachable s" "(t, r) \<in> set (results s)"
  shows "r = Z_OK \<or> r = Z_EBUSY_MUTEX"
  using mutex_inv_thread(5) [OF reachable_inv [OF assms(1)]] assms(2) by auto

text \<open>A task handle is used up by whatever ends it. Join, detach and drop leave the gravestone
  on every path, success and failure alike, so a second call finds nothing to join and returns
  \<open>Z_OK\<close>.\<close>

lemma task_consumed:
  "snd (z_task_join join this) = gravestone_option \<and> z_task_detach this = gravestone_option
   \<and> z_task_drop this = gravestone_option
   \<and> z_task_join join (snd (z_task_join join this)) = (Z_OK, gravestone_option)"
  by (cases this) (simp_all add: z_task_join_def z_task_detach_def z_task_drop_def take_rust_type_def
      take_c_type_def mem_replace_def gravestone_option_def)

end
