(* ===== verification/Closures.thy ===== *)
theory Closures
  imports Memory Ownership
begin

text \<open>
  \<open>src/closures/*_closure.rs\<close>: the closures of the C API, twelve types with the same layout (a
  context, a call function, a drop function) and the same functions. The generic functions come
  first; the functions of each type follow, with the type's payload as the type variable.

  Functions of the program are names; calling one is an event of the trace. A call of an
  uninitialised closure reports an error. Calls here are made through a slot; that the library
  may call a closure from several threads at once is not modelled.

  The last part is the guarantee the constructors document: no call once the drop has started,
  and a drop exactly once.
\<close>

subsection \<open>The common code\<close>

record closure =
  c_context :: ptr
  c_call :: "user_fn option"
  c_drop :: "user_fn option"

datatype 'a event = Called user_fn 'a ptr | Dropped user_fn ptr | Reported

definition closure_default :: closure where
  "closure_default = \<lparr>c_context = null, c_call = None, c_drop = None\<rparr>"

definition closure_is_empty :: "closure \<Rightarrow> bool" where
  "closure_is_empty this \<longleftrightarrow> c_call this = None \<and> c_drop this = None \<and> is_null (c_context this)"

definition closure_drop :: "closure \<Rightarrow> 'a event list \<Rightarrow> 'a event list run" where
  "closure_drop this log = (case c_drop this of
     Some f \<Rightarrow> ret (log @ [Dropped f (c_context this)])
   | None \<Rightarrow> ret log)"

definition closure_call :: "closure \<Rightarrow> 'a \<Rightarrow> 'a event list \<Rightarrow> 'a event list" where
  "closure_call closure x log = (case c_call closure of
     Some call \<Rightarrow> log @ [Called call x (c_context closure)]
   | None \<Rightarrow> log @ [Reported])"

definition closure_new :: "user_fn option \<Rightarrow> user_fn option \<Rightarrow> ptr \<Rightarrow> closure" where
  "closure_new call dr ctx = \<lparr>c_context = ctx, c_call = call, c_drop = dr\<rparr>"

text \<open>The moved types of closures take with \<open>std::mem::take\<close>, which leaves the default.\<close>

definition closure_take_c_type :: "closure \<Rightarrow> closure \<times> closure" where
  "closure_take_c_type this = mem_replace this closure_default"

interpretation clo: gravestone closure_default closure_is_empty closure_drop
  by unfold_locales (simp_all add: closure_default_def closure_is_empty_def closure_drop_def is_null_def)

subsection \<open>The closure types\<close>

text \<open>\<open>src/closures/sample_closure.rs\<close>\<close>

definition z_internal_closure_sample_null :: "closure" where
  "z_internal_closure_sample_null = closure_default"

definition z_internal_closure_sample_check :: "closure \<Rightarrow> bool" where
  "z_internal_closure_sample_check = (\<lambda>this. \<not> closure_is_empty this)"

definition z_closure_sample_call :: "closure \<Rightarrow> 'a \<Rightarrow> 'a event list \<Rightarrow> 'a event list" where
  "z_closure_sample_call = closure_call"

definition z_closure_sample_drop :: "closure \<Rightarrow> 'a event list \<Rightarrow> (closure \<times> 'a event list) run" where
  "z_closure_sample_drop = moved_drop closure_default closure_drop"

definition z_closure_sample_loan :: "closure \<Rightarrow> closure" where
  "z_closure_sample_loan = (\<lambda>closure. closure)"

definition z_closure_sample_loan_mut :: "closure \<Rightarrow> closure" where
  "z_closure_sample_loan_mut = (\<lambda>closure. closure)"

definition z_closure_sample :: "user_fn option \<Rightarrow> user_fn option \<Rightarrow> ptr \<Rightarrow> closure" where
  "z_closure_sample = closure_new"

text \<open>\<open>src/closures/query_closure.rs\<close>\<close>

definition z_internal_closure_query_null :: "closure" where
  "z_internal_closure_query_null = closure_default"

definition z_internal_closure_query_check :: "closure \<Rightarrow> bool" where
  "z_internal_closure_query_check = (\<lambda>this. \<not> closure_is_empty this)"

definition z_closure_query_call :: "closure \<Rightarrow> 'a \<Rightarrow> 'a event list \<Rightarrow> 'a event list" where
  "z_closure_query_call = closure_call"

definition z_closure_query_drop :: "closure \<Rightarrow> 'a event list \<Rightarrow> (closure \<times> 'a event list) run" where
  "z_closure_query_drop = moved_drop closure_default closure_drop"

definition z_closure_query_loan :: "closure \<Rightarrow> closure" where
  "z_closure_query_loan = (\<lambda>closure. closure)"

definition z_closure_query_loan_mut :: "closure \<Rightarrow> closure" where
  "z_closure_query_loan_mut = (\<lambda>closure. closure)"

definition z_closure_query :: "user_fn option \<Rightarrow> user_fn option \<Rightarrow> ptr \<Rightarrow> closure" where
  "z_closure_query = closure_new"

text \<open>\<open>src/closures/reply_closure.rs\<close>\<close>

definition z_internal_closure_reply_null :: "closure" where
  "z_internal_closure_reply_null = closure_default"

definition z_internal_closure_reply_check :: "closure \<Rightarrow> bool" where
  "z_internal_closure_reply_check = (\<lambda>this. \<not> closure_is_empty this)"

definition z_closure_reply_call :: "closure \<Rightarrow> 'a \<Rightarrow> 'a event list \<Rightarrow> 'a event list" where
  "z_closure_reply_call = closure_call"

definition z_closure_reply_drop :: "closure \<Rightarrow> 'a event list \<Rightarrow> (closure \<times> 'a event list) run" where
  "z_closure_reply_drop = moved_drop closure_default closure_drop"

definition z_closure_reply_loan :: "closure \<Rightarrow> closure" where
  "z_closure_reply_loan = (\<lambda>closure. closure)"

definition z_closure_reply_loan_mut :: "closure \<Rightarrow> closure" where
  "z_closure_reply_loan_mut = (\<lambda>closure. closure)"

definition z_closure_reply :: "user_fn option \<Rightarrow> user_fn option \<Rightarrow> ptr \<Rightarrow> closure" where
  "z_closure_reply = closure_new"

text \<open>\<open>src/closures/hello_closure.rs\<close>\<close>

definition z_internal_closure_hello_null :: "closure" where
  "z_internal_closure_hello_null = closure_default"

definition z_internal_closure_hello_check :: "closure \<Rightarrow> bool" where
  "z_internal_closure_hello_check = (\<lambda>this. \<not> closure_is_empty this)"

definition z_closure_hello_call :: "closure \<Rightarrow> 'a \<Rightarrow> 'a event list \<Rightarrow> 'a event list" where
  "z_closure_hello_call = closure_call"

definition z_closure_hello_drop :: "closure \<Rightarrow> 'a event list \<Rightarrow> (closure \<times> 'a event list) run" where
  "z_closure_hello_drop = moved_drop closure_default closure_drop"

definition z_closure_hello_loan :: "closure \<Rightarrow> closure" where
  "z_closure_hello_loan = (\<lambda>closure. closure)"

definition z_closure_hello_loan_mut :: "closure \<Rightarrow> closure" where
  "z_closure_hello_loan_mut = (\<lambda>closure. closure)"

definition z_closure_hello :: "user_fn option \<Rightarrow> user_fn option \<Rightarrow> ptr \<Rightarrow> closure" where
  "z_closure_hello = closure_new"

text \<open>\<open>src/closures/zenohid_closure.rs\<close>\<close>

definition z_internal_closure_zid_null :: "closure" where
  "z_internal_closure_zid_null = closure_default"

definition z_internal_closure_zid_check :: "closure \<Rightarrow> bool" where
  "z_internal_closure_zid_check = (\<lambda>this. \<not> closure_is_empty this)"

definition z_closure_zid_call :: "closure \<Rightarrow> 'a \<Rightarrow> 'a event list \<Rightarrow> 'a event list" where
  "z_closure_zid_call = closure_call"

definition z_closure_zid_drop :: "closure \<Rightarrow> 'a event list \<Rightarrow> (closure \<times> 'a event list) run" where
  "z_closure_zid_drop = moved_drop closure_default closure_drop"

definition z_closure_zid_loan :: "closure \<Rightarrow> closure" where
  "z_closure_zid_loan = (\<lambda>closure. closure)"

definition z_closure_zid_loan_mut :: "closure \<Rightarrow> closure" where
  "z_closure_zid_loan_mut = (\<lambda>closure. closure)"

definition z_closure_zid :: "user_fn option \<Rightarrow> user_fn option \<Rightarrow> ptr \<Rightarrow> closure" where
  "z_closure_zid = closure_new"

text \<open>\<open>src/closures/matching_status_closure.rs\<close>\<close>

definition z_internal_closure_matching_status_null :: "closure" where
  "z_internal_closure_matching_status_null = closure_default"

definition z_internal_closure_matching_status_check :: "closure \<Rightarrow> bool" where
  "z_internal_closure_matching_status_check = (\<lambda>this. \<not> closure_is_empty this)"

definition z_closure_matching_status_call :: "closure \<Rightarrow> 'a \<Rightarrow> 'a event list \<Rightarrow> 'a event list" where
  "z_closure_matching_status_call = closure_call"

definition z_closure_matching_status_drop :: "closure \<Rightarrow> 'a event list \<Rightarrow> (closure \<times> 'a event list) run" where
  "z_closure_matching_status_drop = moved_drop closure_default closure_drop"

definition z_closure_matching_status_loan :: "closure \<Rightarrow> closure" where
  "z_closure_matching_status_loan = (\<lambda>closure. closure)"

definition z_closure_matching_status :: "user_fn option \<Rightarrow> user_fn option \<Rightarrow> ptr \<Rightarrow> closure" where
  "z_closure_matching_status = closure_new"

text \<open>\<open>src/closures/miss_closure.rs\<close>\<close>

definition ze_internal_closure_miss_null :: "closure" where
  "ze_internal_closure_miss_null = closure_default"

definition ze_internal_closure_miss_check :: "closure \<Rightarrow> bool" where
  "ze_internal_closure_miss_check = (\<lambda>this. \<not> closure_is_empty this)"

definition ze_closure_miss_call :: "closure \<Rightarrow> 'a \<Rightarrow> 'a event list \<Rightarrow> 'a event list" where
  "ze_closure_miss_call = closure_call"

definition ze_closure_miss_drop :: "closure \<Rightarrow> 'a event list \<Rightarrow> (closure \<times> 'a event list) run" where
  "ze_closure_miss_drop = moved_drop closure_default closure_drop"

definition ze_closure_miss_loan :: "closure \<Rightarrow> closure" where
  "ze_closure_miss_loan = (\<lambda>closure. closure)"

definition ze_closure_miss :: "user_fn option \<Rightarrow> user_fn option \<Rightarrow> ptr \<Rightarrow> closure" where
  "ze_closure_miss = closure_new"

text \<open>\<open>src/closures/log_closure.rs\<close>\<close>

definition zc_internal_closure_log_null :: "closure" where
  "zc_internal_closure_log_null = closure_default"

definition zc_internal_closure_log_check :: "closure \<Rightarrow> bool" where
  "zc_internal_closure_log_check = (\<lambda>this. \<not> closure_is_empty this)"

definition zc_closure_log_call :: "closure \<Rightarrow> 's \<Rightarrow> 'm \<Rightarrow> ('s \<times> 'm) event list \<Rightarrow> ('s \<times> 'm) event list" where
  "zc_closure_log_call = (\<lambda>closure severity msg. closure_call closure (severity, msg))"

definition zc_closure_log_drop :: "closure \<Rightarrow> 'a event list \<Rightarrow> (closure \<times> 'a event list) run" where
  "zc_closure_log_drop = moved_drop closure_default closure_drop"

definition zc_closure_log_loan :: "closure \<Rightarrow> closure" where
  "zc_closure_log_loan = (\<lambda>closure. closure)"

definition zc_closure_log :: "user_fn option \<Rightarrow> user_fn option \<Rightarrow> ptr \<Rightarrow> closure" where
  "zc_closure_log = closure_new"

text \<open>\<open>src/closures/link_closure.rs\<close>\<close>

definition z_internal_closure_link_null :: "closure" where
  "z_internal_closure_link_null = closure_default"

definition z_internal_closure_link_check :: "closure \<Rightarrow> bool" where
  "z_internal_closure_link_check = (\<lambda>this. \<not> closure_is_empty this)"

definition z_closure_link_call :: "closure \<Rightarrow> 'a \<Rightarrow> 'a event list \<Rightarrow> 'a event list" where
  "z_closure_link_call = closure_call"

definition z_closure_link_drop :: "closure \<Rightarrow> 'a event list \<Rightarrow> (closure \<times> 'a event list) run" where
  "z_closure_link_drop = moved_drop closure_default closure_drop"

definition z_closure_link_loan :: "closure \<Rightarrow> closure" where
  "z_closure_link_loan = (\<lambda>closure. closure)"

definition z_closure_link_loan_mut :: "closure \<Rightarrow> closure" where
  "z_closure_link_loan_mut = (\<lambda>closure. closure)"

definition z_closure_link :: "user_fn option \<Rightarrow> user_fn option \<Rightarrow> ptr \<Rightarrow> closure" where
  "z_closure_link = closure_new"

text \<open>\<open>src/closures/link_event_closure.rs\<close>\<close>

definition z_internal_closure_link_event_null :: "closure" where
  "z_internal_closure_link_event_null = closure_default"

definition z_internal_closure_link_event_check :: "closure \<Rightarrow> bool" where
  "z_internal_closure_link_event_check = (\<lambda>this. \<not> closure_is_empty this)"

definition z_closure_link_event_call :: "closure \<Rightarrow> 'a \<Rightarrow> 'a event list \<Rightarrow> 'a event list" where
  "z_closure_link_event_call = closure_call"

definition z_closure_link_event_drop :: "closure \<Rightarrow> 'a event list \<Rightarrow> (closure \<times> 'a event list) run" where
  "z_closure_link_event_drop = moved_drop closure_default closure_drop"

definition z_closure_link_event_loan :: "closure \<Rightarrow> closure" where
  "z_closure_link_event_loan = (\<lambda>closure. closure)"

definition z_closure_link_event :: "user_fn option \<Rightarrow> user_fn option \<Rightarrow> ptr \<Rightarrow> closure" where
  "z_closure_link_event = closure_new"

text \<open>\<open>src/closures/transport_closure.rs\<close>\<close>

definition z_internal_closure_transport_null :: "closure" where
  "z_internal_closure_transport_null = closure_default"

definition z_internal_closure_transport_check :: "closure \<Rightarrow> bool" where
  "z_internal_closure_transport_check = (\<lambda>this. \<not> closure_is_empty this)"

definition z_closure_transport_call :: "closure \<Rightarrow> 'a \<Rightarrow> 'a event list \<Rightarrow> 'a event list" where
  "z_closure_transport_call = closure_call"

definition z_closure_transport_drop :: "closure \<Rightarrow> 'a event list \<Rightarrow> (closure \<times> 'a event list) run" where
  "z_closure_transport_drop = moved_drop closure_default closure_drop"

definition z_closure_transport_loan :: "closure \<Rightarrow> closure" where
  "z_closure_transport_loan = (\<lambda>closure. closure)"

definition z_closure_transport_loan_mut :: "closure \<Rightarrow> closure" where
  "z_closure_transport_loan_mut = (\<lambda>closure. closure)"

definition z_closure_transport :: "user_fn option \<Rightarrow> user_fn option \<Rightarrow> ptr \<Rightarrow> closure" where
  "z_closure_transport = closure_new"

text \<open>\<open>src/closures/transport_event_closure.rs\<close>\<close>

definition z_internal_closure_transport_event_null :: "closure" where
  "z_internal_closure_transport_event_null = closure_default"

definition z_internal_closure_transport_event_check :: "closure \<Rightarrow> bool" where
  "z_internal_closure_transport_event_check = (\<lambda>this. \<not> closure_is_empty this)"

definition z_closure_transport_event_call :: "closure \<Rightarrow> 'a \<Rightarrow> 'a event list \<Rightarrow> 'a event list" where
  "z_closure_transport_event_call = closure_call"

definition z_closure_transport_event_drop :: "closure \<Rightarrow> 'a event list \<Rightarrow> (closure \<times> 'a event list) run" where
  "z_closure_transport_event_drop = moved_drop closure_default closure_drop"

definition z_closure_transport_event_loan :: "closure \<Rightarrow> closure" where
  "z_closure_transport_event_loan = (\<lambda>closure. closure)"

definition z_closure_transport_event :: "user_fn option \<Rightarrow> user_fn option \<Rightarrow> ptr \<Rightarrow> closure" where
  "z_closure_transport_event = closure_new"

subsection \<open>A program that uses closures\<close>

record 'a cworld =
  cslots :: "closure list"
  log :: "'a event list"

datatype 'a cop =
    CNew nat "user_fn option" "user_fn option" ptr
  | CCall nat 'a
  | CTake nat nat
  | CDrop nat

fun cexec :: "'a cop \<Rightarrow> 'a cworld \<Rightarrow> 'a cworld run" where
  "cexec (CNew i call dr ctx) w = ret (w\<lparr>cslots := (cslots w)[i := z_closure_sample call dr ctx]\<rparr>)"
| "cexec (CCall i x) w = ret (w\<lparr>log := z_closure_sample_call (cslots w ! i) x (log w)\<rparr>)"
| "cexec (CTake i j) w =
    (let (x, rest) = closure_take_c_type (cslots w ! j)
     in ret (w\<lparr>cslots := ((cslots w)[j := rest])[i := x]\<rparr>))"
| "cexec (CDrop i) w =
    map_option (\<lambda>(c, l). w\<lparr>cslots := (cslots w)[i := c], log := l\<rparr>)
      (z_closure_sample_drop (cslots w ! i) (log w))"

text \<open>The caller constructs in empty slots and gives every closure a context of its own.\<close>

type_synonym made = "(ptr \<times> user_fn option) list"

fun callowed :: "made \<Rightarrow> 'a cop \<Rightarrow> 'a cworld \<Rightarrow> bool" where
  "callowed made (CNew i call dr ctx) w \<longleftrightarrow>
     i < length (cslots w) \<and> closure_is_empty (cslots w ! i) \<and> \<not> is_null ctx \<and> ctx \<notin> fst ` set made"
| "callowed made (CCall i x) w \<longleftrightarrow> i < length (cslots w)"
| "callowed made (CTake i j) w \<longleftrightarrow>
     i < length (cslots w) \<and> j < length (cslots w) \<and> i \<noteq> j \<and> closure_is_empty (cslots w ! i)"
| "callowed made (CDrop i) w \<longleftrightarrow> i < length (cslots w)"

fun made_by :: "'a cop \<Rightarrow> made" where
  "made_by (CNew i call dr ctx) = [(ctx, dr)]"
| "made_by _ = []"

inductive crun :: "nat \<Rightarrow> made \<Rightarrow> 'a cworld \<Rightarrow> bool" where
  start: "crun n [] \<lparr>cslots = replicate n closure_default, log = []\<rparr>"
| more: "crun n made w \<Longrightarrow> callowed made c w \<Longrightarrow> cexec c w = ret w' \<Longrightarrow> crun n (made @ made_by c) w'"

fun about :: "'a event \<Rightarrow> ptr option" where
  "about (Called f x c) = Some c"
| "about (Dropped f c) = Some c"
| "about Reported = None"

definition live :: "closure list \<Rightarrow> ptr \<Rightarrow> bool" where
  "live ss c \<longleftrightarrow> (\<exists>s \<in> set ss. \<not> closure_is_empty s \<and> c_context s = c)"

text \<open>Nothing about a context follows its drop: no call, and no second drop.\<close>

definition final_drop :: "ptr \<Rightarrow> 'a event list \<Rightarrow> bool" where
  "final_drop c es \<longleftrightarrow> (\<forall>pre f post. es = pre @ Dropped f c # post \<longrightarrow> (\<forall>e \<in> set post. about e \<noteq> Some c))"

lemma final_drop_snoc:
  "final_drop c (es @ [e]) \<longleftrightarrow> final_drop c es \<and> (about e = Some c \<longrightarrow> (\<forall>f. Dropped f c \<notin> set es))"
proof
  assume l: "final_drop c (es @ [e])"
  have "final_drop c es" unfolding final_drop_def
  proof (intro allI impI)
    fix pre f post assume "es = pre @ Dropped f c # post"
    then show "\<forall>e \<in> set post. about e \<noteq> Some c" using l unfolding final_drop_def by (metis append.assoc append_Cons in_set_conv_decomp)
  qed
  moreover have "about e = Some c \<longrightarrow> Dropped f c \<notin> set es" for f
  proof (intro impI notI)
    assume a: "about e = Some c" "Dropped f c \<in> set es"
    then obtain pre post where "es = pre @ Dropped f c # post" by (meson split_list)
    then have "es @ [e] = pre @ Dropped f c # (post @ [e])" by simp
    then show False using l a(1) unfolding final_drop_def by (metis in_set_conv_decomp)
  qed
  ultimately show "final_drop c es \<and> (about e = Some c \<longrightarrow> (\<forall>f. Dropped f c \<notin> set es))" by blast
next
  assume r: "final_drop c es \<and> (about e = Some c \<longrightarrow> (\<forall>f. Dropped f c \<notin> set es))"
  show "final_drop c (es @ [e])" unfolding final_drop_def
  proof (intro allI impI)
    fix pre f post assume eq: "es @ [e] = pre @ Dropped f c # post"
    show "\<forall>x \<in> set post. about x \<noteq> Some c"
    proof (cases post rule: rev_cases)
      case (snoc post' x)
      then have "es @ [e] = (pre @ Dropped f c # post') @ [x]" using eq by simp
      then have es: "es = pre @ Dropped f c # post'" "e = x" by (simp_all only: append1_eq_conv)
      then have "\<forall>x \<in> set post'. about x \<noteq> Some c" using r unfolding final_drop_def by blast
      moreover have "about e \<noteq> Some c" using r es by auto
      ultimately show ?thesis using snoc es by auto
    qed simp
  qed
qed

subsubsection \<open>The invariant of runs\<close>

text \<open>Of the slots: what they hold was made by the program, and contexts are not shared.\<close>

definition slots_inv :: "made \<Rightarrow> closure list \<Rightarrow> bool" where
  "slots_inv made ss \<longleftrightarrow>
     (\<forall>i < length ss. \<not> closure_is_empty (ss ! i) \<longrightarrow> (c_context (ss ! i), c_drop (ss ! i)) \<in> set made)
   \<and> (\<forall>i < length ss. \<forall>j < length ss. i \<noteq> j \<longrightarrow> \<not> closure_is_empty (ss ! i) \<longrightarrow>
        \<not> closure_is_empty (ss ! j) \<longrightarrow> c_context (ss ! i) \<noteq> c_context (ss ! j))"

text \<open>Of the trace, for the set \<open>L\<close> of live contexts.\<close>

definition trace_inv :: "made \<Rightarrow> (ptr \<Rightarrow> bool) \<Rightarrow> 'a event list \<Rightarrow> bool" where
  "trace_inv made L es \<longleftrightarrow>
     (\<forall>e \<in> set es. \<forall>c. about e = Some c \<longrightarrow> c \<in> fst ` set made)
   \<and> (\<forall>c f. L c \<longrightarrow> Dropped f c \<notin> set es)
   \<and> (\<forall>c. final_drop c es)
   \<and> (\<forall>c f. (c, Some f) \<in> set made \<longrightarrow> L c \<or> Dropped f c \<in> set es)"

definition closure_inv :: "made \<Rightarrow> 'a cworld \<Rightarrow> bool" where
  "closure_inv made w \<longleftrightarrow> slots_inv made (cslots w) \<and> distinct (map fst made)
     \<and> trace_inv made (live (cslots w)) (log w)"

lemma default_empty [simp]: "closure_is_empty closure_default"
  by (rule clo.is_gravestone_g)

lemma live_nth: "live ss c \<longleftrightarrow> (\<exists>i < length ss. \<not> closure_is_empty (ss ! i) \<and> c_context (ss ! i) = c)"
  unfolding live_def by (metis in_set_conv_nth)

lemma closure_inv_start: "closure_inv [] \<lparr>cslots = replicate n closure_default, log = []\<rparr>"
  by (simp add: closure_inv_def slots_inv_def trace_inv_def final_drop_def live_nth)

lemma trace_call:
  "trace_inv made L es \<Longrightarrow> L c \<Longrightarrow> c \<in> fst ` set made \<Longrightarrow> trace_inv made L (es @ [Called f x c])"
  by (auto simp: trace_inv_def final_drop_snoc)

lemma trace_report: "trace_inv made L es \<Longrightarrow> trace_inv made L (es @ [Reported])"
  by (auto simp: trace_inv_def final_drop_snoc)

lemma trace_new:
  assumes "trace_inv made L es" "ctx \<notin> fst ` set made"
  shows "trace_inv (made @ [(ctx, dr)]) (\<lambda>c. L c \<or> c = ctx) es"
proof -
  have "Dropped f ctx \<notin> set es" for f using assms by (fastforce simp: trace_inv_def)
  then show ?thesis using assms(1) by (auto simp: trace_inv_def)
qed

lemma trace_drop:
  assumes "trace_inv made L es" "distinct (map fst made)" "(c, Some f) \<in> set made" "L c"
  shows "trace_inv made (\<lambda>d. L d \<and> d \<noteq> c) (es @ [Dropped f c])"
proof -
  have "g = f" if "(c, Some g) \<in> set made" for g
    using eq_key_imp_eq_value [OF assms(2,3) that] by simp
  then have "L d \<and> d \<noteq> c \<or> Dropped g d \<in> set (es @ [Dropped f c])" if "(d, Some g) \<in> set made" for d g
    using assms(1) that by (auto simp: trace_inv_def)
  moreover have "c \<in> fst ` set made" using assms(3) by force
  then have "\<forall>e \<in> set (es @ [Dropped f c]). \<forall>d. about e = Some d \<longrightarrow> d \<in> fst ` set made"
    using assms(1) by (simp add: trace_inv_def)
  moreover have "final_drop d (es @ [Dropped f c])" for d
    using assms(1,4) by (auto simp: trace_inv_def final_drop_snoc)
  moreover have "Dropped g d \<notin> set (es @ [Dropped f c])" if "L d \<and> d \<noteq> c" for d g
    using assms(1) that by (auto simp: trace_inv_def)
  ultimately show ?thesis unfolding trace_inv_def by blast
qed

lemma trace_forget:
  assumes "trace_inv made L es" "distinct (map fst made)" "(c, None) \<in> set made"
  shows "trace_inv made (\<lambda>d. L d \<and> d \<noteq> c) es"
proof -
  have "(c, Some g) \<notin> set made" for g
    using eq_key_imp_eq_value [OF assms(2,3), of "Some g"] by auto
  then show ?thesis using assms(1) by (auto simp: trace_inv_def)
qed

lemma live_fill:
  assumes "i < length ss" "closure_is_empty (ss ! i)"
  shows "live (ss[i := s]) = (\<lambda>c. live ss c \<or> \<not> closure_is_empty s \<and> c_context s = c)"
proof
  fix c
  show "live (ss[i := s]) c = (live ss c \<or> \<not> closure_is_empty s \<and> c_context s = c)"
    using assms unfolding live_nth by (metis length_list_update nth_list_update_eq nth_list_update_neq)
qed

lemma live_clear:
  assumes "slots_inv made ss" "i < length ss"
  shows "live (ss[i := closure_default]) =
    (\<lambda>c. live ss c \<and> \<not> (\<not> closure_is_empty (ss ! i) \<and> c_context (ss ! i) = c))"
proof
  fix c
  show "live (ss[i := closure_default]) c =
      (live ss c \<and> \<not> (\<not> closure_is_empty (ss ! i) \<and> c_context (ss ! i) = c))"
    using assms unfolding live_nth slots_inv_def
    by (metis default_empty length_list_update nth_list_update_eq nth_list_update_neq)
qed

lemma slots_clear: "slots_inv made ss \<Longrightarrow> closure_is_empty s \<Longrightarrow> slots_inv made (ss[i := s])"
  by (cases "i < length ss") (auto simp: slots_inv_def nth_list_update)

lemma slots_fill:
  assumes "slots_inv made ss" "i < length ss" "(c_context s, c_drop s) \<in> set made" "\<not> live ss (c_context s)"
  shows "slots_inv made (ss[i := s])"
  using assms unfolding slots_inv_def live_nth by (auto simp: nth_list_update)

lemma slots_mono: "slots_inv made ss \<Longrightarrow> slots_inv (made @ m) ss"
  by (auto simp: slots_inv_def)

lemma live_made: "slots_inv made ss \<Longrightarrow> live ss c \<Longrightarrow> c \<in> fst ` set made"
  unfolding slots_inv_def live_nth by (metis fst_conv image_eqI)

lemma CNew_inv:
  assumes "closure_inv made w" "callowed made (CNew i call dr ctx) w"
    "cexec (CNew i call dr ctx) w = ret w'"
  shows "closure_inv (made @ [(ctx, dr)]) w'"
proof -
  let ?s = "z_closure_sample call dr ctx"
  have s: "c_context ?s = ctx" "c_drop ?s = dr" "\<not> closure_is_empty ?s"
    using assms(2) by (simp_all add: z_closure_sample_def closure_new_def closure_is_empty_def)
  have i: "i < length (cslots w)" "closure_is_empty (cslots w ! i)" "ctx \<notin> fst ` set made"
    using assms(2) by simp_all
  have inv: "slots_inv made (cslots w)" "distinct (map fst made)" "trace_inv made (live (cslots w)) (log w)"
    using assms(1) by (simp_all add: closure_inv_def)
  have "slots_inv (made @ [(ctx, dr)]) ((cslots w)[i := ?s])"
    using live_made [OF inv(1)] i s by (intro slots_fill slots_mono inv) auto
  moreover have "live ((cslots w)[i := ?s]) = (\<lambda>c. live (cslots w) c \<or> c = ctx)"
    using live_fill [OF i(1,2), of ?s] s by auto
  ultimately show ?thesis
    using assms(3) trace_new [OF inv(3) i(3)] inv(2) i(3) by (auto simp: closure_inv_def)
qed

lemma CCall_inv:
  assumes "closure_inv made w" "callowed made (CCall i x) w" "cexec (CCall i x) w = ret w'"
  shows "closure_inv made w'"
proof (cases "c_call (cslots w ! i)")
  case None
  then have "w' = w\<lparr>log := log w @ [Reported]\<rparr>"
    using assms(3) by (simp add: z_closure_sample_call_def closure_call_def)
  then show ?thesis using assms(1) by (simp add: closure_inv_def trace_report)
next
  case (Some f)
  let ?c = "c_context (cslots w ! i)"
  have w': "w' = w\<lparr>log := log w @ [Called f x ?c]\<rparr>"
    using assms(3) Some by (simp add: z_closure_sample_call_def closure_call_def)
  have "\<not> closure_is_empty (cslots w ! i)" using Some by (simp add: closure_is_empty_def)
  then have "live (cslots w) ?c" using assms(2) by (auto simp: live_nth)
  then show ?thesis using assms(1) w' live_made by (auto simp: closure_inv_def intro: trace_call)
qed

lemma CDrop_inv:
  assumes "closure_inv made w" "callowed made (CDrop i) w" "cexec (CDrop i) w = ret w'"
  shows "closure_inv made w'"
proof -
  let ?s = "cslots w ! i"
  have i: "i < length (cslots w)" using assms(2) by simp
  have inv: "slots_inv made (cslots w)" "distinct (map fst made)" "trace_inv made (live (cslots w)) (log w)"
    using assms(1) by (simp_all add: closure_inv_def)
  note lv = live_clear [OF inv(1) i] and sl = slots_clear [OF inv(1) default_empty, of i]
  have d: "cslots w' = (cslots w)[i := closure_default]"
    "ret (log w') = closure_drop ?s (log w)"
    using assms(3) by (auto simp: z_closure_sample_drop_def clo.moved_drop_eq)
  show ?thesis
  proof (cases "closure_is_empty ?s")
    case True
    then have "log w' = log w" "live (cslots w') = live (cslots w)"
      using d lv by (simp_all add: closure_is_empty_def closure_drop_def)
    then show ?thesis using d sl inv by (simp add: closure_inv_def)
  next
    case False
    have m: "(c_context ?s, c_drop ?s) \<in> set made" using inv(1) i False by (simp add: slots_inv_def)
    have l: "live (cslots w) (c_context ?s)" using i False by (auto simp: live_nth)
    have lv': "live (cslots w') = (\<lambda>c. live (cslots w) c \<and> c \<noteq> c_context ?s)"
      using d lv False by auto
    show ?thesis
    proof (cases "c_drop ?s")
      case None
      then show ?thesis
        using trace_forget [OF inv(3,2)] m d(2) lv' sl inv(2) d(1) by (simp add: closure_inv_def closure_drop_def)
    next
      case (Some f)
      then show ?thesis
        using trace_drop [OF inv(3,2) _ l] m d(2) lv' sl inv(2) d(1)
        by (simp add: closure_inv_def closure_drop_def)
    qed
  qed
qed

lemma CTake_inv:
  assumes "closure_inv made w" "callowed made (CTake i j) w" "cexec (CTake i j) w = ret w'"
  shows "closure_inv made w'"
proof -
  let ?s = "cslots w ! j" and ?ss = "(cslots w)[j := closure_default]"
  have a: "i < length (cslots w)" "j < length (cslots w)" "i \<noteq> j" "closure_is_empty (cslots w ! i)"
    using assms(2) by simp_all
  have inv: "slots_inv made (cslots w)" "distinct (map fst made)" "trace_inv made (live (cslots w)) (log w)"
    using assms(1) by (simp_all add: closure_inv_def)
  have w': "cslots w' = ?ss[i := ?s]" "log w' = log w"
    using assms(3) by (auto simp: closure_take_c_type_def mem_replace_def)
  note lv = live_clear [OF inv(1) a(2)]
  have e: "closure_is_empty (?ss ! i)" "i < length ?ss" using a by simp_all
  have "live (cslots w') = live (cslots w)"
    unfolding w' live_fill [OF e(2,1)] lv using a by (intro ext) (auto simp: live_nth)
  moreover have "slots_inv made (cslots w')"
  proof (cases "closure_is_empty ?s")
    case True
    then show ?thesis unfolding w' by (intro slots_clear inv(1)) simp_all
  next
    case False
    then have "(c_context ?s, c_drop ?s) \<in> set made" using inv(1) a by (simp add: slots_inv_def)
    moreover have "\<not> live ?ss (c_context ?s)" using lv False by simp
    ultimately show ?thesis
      unfolding w' by (intro slots_fill [of made ?ss] slots_clear [OF inv(1) default_empty, of j] e(2))
  qed
  ultimately show ?thesis using inv w' by (simp add: closure_inv_def)
qed

lemma crun_inv: "crun n made w \<Longrightarrow> closure_inv made w"
proof (induction rule: crun.induct)
  case (start n)
  then show ?case by (rule closure_inv_start)
next
  case (more n made w c w')
  show ?case
  proof (cases c)
    case (CNew i call dr ctx)
    then show ?thesis using CNew_inv more by fastforce
  next
    case (CCall i x)
    then show ?thesis using CCall_inv more by fastforce
  next
    case (CTake i j)
    then show ?thesis using CTake_inv more by fastforce
  next
    case (CDrop i)
    then show ?thesis using CDrop_inv more by fastforce
  qed
qed

subsection \<open>Properties\<close>

text \<open>C25: the guarantee the closure constructors document. In every program that constructs
  closures with contexts of their own, moves them, calls them and drops them, in any order and any
  number of times: once the drop function of a context has been called, neither the call function
  nor the drop function is ever called with that context again; and a closure that was given a drop
  function is either still held by a slot or has had it called.\<close>

theorem closure_guarantee:
  assumes "crun n made w"
  shows "(\<forall>pre f c post. log w = pre @ Dropped f c # post \<longrightarrow> (\<forall>e \<in> set post. about e \<noteq> Some c))
    \<and> (\<forall>c f. (c, Some f) \<in> set made \<longrightarrow>
         (\<exists>s \<in> set (cslots w). \<not> closure_is_empty s \<and> c_context s = c) \<or> Dropped f c \<in> set (log w))"
proof -
  have "trace_inv made (live (cslots w)) (log w)" using crun_inv [OF assms] by (simp add: closure_inv_def)
  then show ?thesis by (simp add: trace_inv_def final_drop_def live_def)
qed

theorem closure_guarantee_witness:
  "crun 1 [(Ptr 0 0, Some 9)] \<lparr>cslots = [closure_default], log = [Called 5 True (Ptr 0 0), Dropped 9 (Ptr 0 0)]\<rparr>
   \<and> Dropped 9 (Ptr 0 0) \<in> set [Called 5 True (Ptr 0 0), Dropped 9 (Ptr 0 0)]"
proof -
  let ?c = "\<lparr>c_context = Ptr 0 0, c_call = Some 5, c_drop = Some 9\<rparr>"
  have "crun 1 [] \<lparr>cslots = [closure_default], log = []\<rparr>" using crun.start [of 1] by simp
  from crun.more [OF this, of "CNew 0 (Some 5) (Some 9) (Ptr 0 0)"]
  have "crun 1 [(Ptr 0 0, Some 9)] \<lparr>cslots = [?c], log = [] :: bool event list\<rparr>"
    by (simp add: is_null_def z_closure_sample_def closure_new_def)
  from crun.more [OF this, of "CCall 0 True"]
  have "crun 1 [(Ptr 0 0, Some 9)] \<lparr>cslots = [?c], log = [Called 5 True (Ptr 0 0)]\<rparr>"
    by (simp add: z_closure_sample_call_def closure_call_def)
  from crun.more [OF this, of "CDrop 0"]
  have r: "crun 1 [(Ptr 0 0, Some 9)] \<lparr>cslots = [closure_default], log = [Called 5 True (Ptr 0 0), Dropped 9 (Ptr 0 0)]\<rparr>"
    by (simp add: z_closure_sample_drop_def clo.moved_drop_eq closure_drop_def)
  show ?thesis using closure_guarantee [OF r] r by simp
qed

end
