(* ===== verification/ClosureTypes.thy ===== *)
theory ClosureTypes
  imports Closures
begin

text \<open>
  \<open>src/closures/*_closure.rs\<close>, the parts that theory \<open>Closures\<close> has once for all types: the structure, the
  default, the emptiness test and the drop of each of the twelve types, written out as they are in each file
  and proved equal to the common code; and the conversion of a Rust closure to a C closure.

  The conversion puts the Rust closure in a box, whose address becomes the context, and fills in two
  functions compiled for its type: one that calls the boxed closure, one that takes the box back and
  drops it. Boxes are a list, a freed box is \<open>None\<close>, and using one is undefined behaviour. What calling
  and dropping a Rust closure do to the world are the parameters \<open>app\<close> and \<open>drp\<close>.
\<close>

subsection \<open>Boxes\<close>

text \<open>\<open>Box::into_raw(Box::new(f))\<close>, and the borrow \<open>&*(this as *const F)\<close>.\<close>

definition box_into_raw :: "'f \<Rightarrow> 'f option list \<Rightarrow> ptr \<times> 'f option list" where
  "box_into_raw f bs = (Ptr (length bs) 0, bs @ [Some f])"

definition box_deref :: "ptr \<Rightarrow> 'f option list \<Rightarrow> 'f run" where
  "box_deref p bs = (case p of Ptr b i \<Rightarrow> if i = 0 \<and> b < length bs then bs ! b else panic | Addr a \<Rightarrow> panic)"

text \<open>The functions \<open>call\<close> and \<open>drop\<close> inside the conversion.\<close>

definition call_boxed :: "('f \<Rightarrow> 'a \<Rightarrow> 'w \<Rightarrow> 'w) \<Rightarrow> 'a \<Rightarrow> ptr \<Rightarrow> 'f option list \<times> 'w \<Rightarrow> ('f option list \<times> 'w) run" where
  "call_boxed app x this s = do { f \<leftarrow> box_deref this (fst s); ret (fst s, app f x (snd s)) }"

definition drop_boxed :: "('f \<Rightarrow> 'w \<Rightarrow> 'w) \<Rightarrow> ptr \<Rightarrow> 'f option list \<times> 'w \<Rightarrow> ('f option list \<times> 'w) run" where
  "drop_boxed drp this s = do {
     f \<leftarrow> box_deref this (fst s);
     ret ((case this of Ptr b i \<Rightarrow> (fst s)[b := None] | Addr a \<Rightarrow> fst s), drp f (snd s))
   }"

subsection \<open>The types\<close>

text \<open>\<open>src/closures/sample_closure.rs\<close>\<close>

type_synonym z_owned_closure_sample_t = closure

definition z_owned_closure_sample_default :: "z_owned_closure_sample_t" where
  "z_owned_closure_sample_default = \<lparr>c_context = null, c_call = None, c_drop = None\<rparr>"

definition z_owned_closure_sample_is_empty :: "z_owned_closure_sample_t \<Rightarrow> bool" where
  "z_owned_closure_sample_is_empty this \<longleftrightarrow> c_call this = None \<and> c_drop this = None \<and> is_null (c_context this)"

definition z_owned_closure_sample_drop :: "z_owned_closure_sample_t \<Rightarrow> 'a event list \<Rightarrow> 'a event list" where
  "z_owned_closure_sample_drop this tr = (case c_drop this of
     Some f \<Rightarrow> tr @ [Dropped f (c_context this)]
   | None \<Rightarrow> tr)"

definition z_closure_sample_from :: "user_fn \<Rightarrow> user_fn \<Rightarrow> 'f \<Rightarrow> 'f option list \<Rightarrow> z_owned_closure_sample_t \<times> 'f option list" where
  "z_closure_sample_from call_F drop_F f bs =
    (let (this, bs) = box_into_raw f bs
     in (\<lparr>c_context = this, c_call = Some call_F, c_drop = Some drop_F\<rparr>, bs))"

text \<open>\<open>src/closures/query_closure.rs\<close>\<close>

type_synonym z_owned_closure_query_t = closure

definition z_owned_closure_query_default :: "z_owned_closure_query_t" where
  "z_owned_closure_query_default = \<lparr>c_context = null, c_call = None, c_drop = None\<rparr>"

definition z_owned_closure_query_is_empty :: "z_owned_closure_query_t \<Rightarrow> bool" where
  "z_owned_closure_query_is_empty this \<longleftrightarrow> c_call this = None \<and> c_drop this = None \<and> is_null (c_context this)"

definition z_owned_closure_query_drop :: "z_owned_closure_query_t \<Rightarrow> 'a event list \<Rightarrow> 'a event list" where
  "z_owned_closure_query_drop this tr = (case c_drop this of
     Some f \<Rightarrow> tr @ [Dropped f (c_context this)]
   | None \<Rightarrow> tr)"

definition z_closure_query_from :: "user_fn \<Rightarrow> user_fn \<Rightarrow> 'f \<Rightarrow> 'f option list \<Rightarrow> z_owned_closure_query_t \<times> 'f option list" where
  "z_closure_query_from call_F drop_F f bs =
    (let (this, bs) = box_into_raw f bs
     in (\<lparr>c_context = this, c_call = Some call_F, c_drop = Some drop_F\<rparr>, bs))"

text \<open>\<open>src/closures/reply_closure.rs\<close>\<close>

type_synonym z_owned_closure_reply_t = closure

definition z_owned_closure_reply_default :: "z_owned_closure_reply_t" where
  "z_owned_closure_reply_default = \<lparr>c_context = null, c_call = None, c_drop = None\<rparr>"

definition z_owned_closure_reply_is_empty :: "z_owned_closure_reply_t \<Rightarrow> bool" where
  "z_owned_closure_reply_is_empty this \<longleftrightarrow> c_call this = None \<and> c_drop this = None \<and> is_null (c_context this)"

definition z_owned_closure_reply_drop :: "z_owned_closure_reply_t \<Rightarrow> 'a event list \<Rightarrow> 'a event list" where
  "z_owned_closure_reply_drop this tr = (case c_drop this of
     Some f \<Rightarrow> tr @ [Dropped f (c_context this)]
   | None \<Rightarrow> tr)"

definition z_closure_reply_from :: "user_fn \<Rightarrow> user_fn \<Rightarrow> 'f \<Rightarrow> 'f option list \<Rightarrow> z_owned_closure_reply_t \<times> 'f option list" where
  "z_closure_reply_from call_F drop_F f bs =
    (let (this, bs) = box_into_raw f bs
     in (\<lparr>c_context = this, c_call = Some call_F, c_drop = Some drop_F\<rparr>, bs))"

text \<open>\<open>src/closures/hello_closure.rs\<close>\<close>

type_synonym z_owned_closure_hello_t = closure

definition z_owned_closure_hello_default :: "z_owned_closure_hello_t" where
  "z_owned_closure_hello_default = \<lparr>c_context = null, c_call = None, c_drop = None\<rparr>"

definition z_owned_closure_hello_is_empty :: "z_owned_closure_hello_t \<Rightarrow> bool" where
  "z_owned_closure_hello_is_empty this \<longleftrightarrow> c_call this = None \<and> c_drop this = None \<and> is_null (c_context this)"

definition z_owned_closure_hello_drop :: "z_owned_closure_hello_t \<Rightarrow> 'a event list \<Rightarrow> 'a event list" where
  "z_owned_closure_hello_drop this tr = (case c_drop this of
     Some f \<Rightarrow> tr @ [Dropped f (c_context this)]
   | None \<Rightarrow> tr)"

definition z_closure_hello_from :: "user_fn \<Rightarrow> user_fn \<Rightarrow> 'f \<Rightarrow> 'f option list \<Rightarrow> z_owned_closure_hello_t \<times> 'f option list" where
  "z_closure_hello_from call_F drop_F f bs =
    (let (this, bs) = box_into_raw f bs
     in (\<lparr>c_context = this, c_call = Some call_F, c_drop = Some drop_F\<rparr>, bs))"

text \<open>\<open>src/closures/zenohid_closure.rs\<close>\<close>

type_synonym z_owned_closure_zid_t = closure

definition z_owned_closure_zid_default :: "z_owned_closure_zid_t" where
  "z_owned_closure_zid_default = \<lparr>c_context = null, c_call = None, c_drop = None\<rparr>"

definition z_owned_closure_zid_is_empty :: "z_owned_closure_zid_t \<Rightarrow> bool" where
  "z_owned_closure_zid_is_empty this \<longleftrightarrow> c_call this = None \<and> c_drop this = None \<and> is_null (c_context this)"

definition z_owned_closure_zid_drop :: "z_owned_closure_zid_t \<Rightarrow> 'a event list \<Rightarrow> 'a event list" where
  "z_owned_closure_zid_drop this tr = (case c_drop this of
     Some f \<Rightarrow> tr @ [Dropped f (c_context this)]
   | None \<Rightarrow> tr)"

definition z_closure_zid_from :: "user_fn \<Rightarrow> user_fn \<Rightarrow> 'f \<Rightarrow> 'f option list \<Rightarrow> z_owned_closure_zid_t \<times> 'f option list" where
  "z_closure_zid_from call_F drop_F f bs =
    (let (this, bs) = box_into_raw f bs
     in (\<lparr>c_context = this, c_call = Some call_F, c_drop = Some drop_F\<rparr>, bs))"

text \<open>\<open>src/closures/matching_status_closure.rs\<close>\<close>

type_synonym z_owned_closure_matching_status_t = closure

definition z_owned_closure_matching_status_default :: "z_owned_closure_matching_status_t" where
  "z_owned_closure_matching_status_default = \<lparr>c_context = null, c_call = None, c_drop = None\<rparr>"

definition z_owned_closure_matching_status_is_empty :: "z_owned_closure_matching_status_t \<Rightarrow> bool" where
  "z_owned_closure_matching_status_is_empty this \<longleftrightarrow> c_call this = None \<and> c_drop this = None \<and> is_null (c_context this)"

definition z_owned_closure_matching_status_drop :: "z_owned_closure_matching_status_t \<Rightarrow> 'a event list \<Rightarrow> 'a event list" where
  "z_owned_closure_matching_status_drop this tr = (case c_drop this of
     Some f \<Rightarrow> tr @ [Dropped f (c_context this)]
   | None \<Rightarrow> tr)"

definition z_closure_matching_status_from :: "user_fn \<Rightarrow> user_fn \<Rightarrow> 'f \<Rightarrow> 'f option list \<Rightarrow> z_owned_closure_matching_status_t \<times> 'f option list" where
  "z_closure_matching_status_from call_F drop_F f bs =
    (let (this, bs) = box_into_raw f bs
     in (\<lparr>c_context = this, c_call = Some call_F, c_drop = Some drop_F\<rparr>, bs))"

text \<open>\<open>src/closures/miss_closure.rs\<close>\<close>

type_synonym ze_owned_closure_miss_t = closure

definition ze_owned_closure_miss_default :: "ze_owned_closure_miss_t" where
  "ze_owned_closure_miss_default = \<lparr>c_context = null, c_call = None, c_drop = None\<rparr>"

definition ze_owned_closure_miss_is_empty :: "ze_owned_closure_miss_t \<Rightarrow> bool" where
  "ze_owned_closure_miss_is_empty this \<longleftrightarrow> c_call this = None \<and> c_drop this = None \<and> is_null (c_context this)"

definition ze_owned_closure_miss_drop :: "ze_owned_closure_miss_t \<Rightarrow> 'a event list \<Rightarrow> 'a event list" where
  "ze_owned_closure_miss_drop this tr = (case c_drop this of
     Some f \<Rightarrow> tr @ [Dropped f (c_context this)]
   | None \<Rightarrow> tr)"

definition ze_closure_miss_from :: "user_fn \<Rightarrow> user_fn \<Rightarrow> 'f \<Rightarrow> 'f option list \<Rightarrow> ze_owned_closure_miss_t \<times> 'f option list" where
  "ze_closure_miss_from call_F drop_F f bs =
    (let (this, bs) = box_into_raw f bs
     in (\<lparr>c_context = this, c_call = Some call_F, c_drop = Some drop_F\<rparr>, bs))"

text \<open>\<open>src/closures/transport_closure.rs\<close>\<close>

type_synonym z_owned_closure_transport_t = closure

definition z_owned_closure_transport_default :: "z_owned_closure_transport_t" where
  "z_owned_closure_transport_default = \<lparr>c_context = null, c_call = None, c_drop = None\<rparr>"

definition z_owned_closure_transport_is_empty :: "z_owned_closure_transport_t \<Rightarrow> bool" where
  "z_owned_closure_transport_is_empty this \<longleftrightarrow> c_call this = None \<and> c_drop this = None \<and> is_null (c_context this)"

definition z_owned_closure_transport_drop :: "z_owned_closure_transport_t \<Rightarrow> 'a event list \<Rightarrow> 'a event list" where
  "z_owned_closure_transport_drop this tr = (case c_drop this of
     Some f \<Rightarrow> tr @ [Dropped f (c_context this)]
   | None \<Rightarrow> tr)"

definition z_closure_transport_from :: "user_fn \<Rightarrow> user_fn \<Rightarrow> 'f \<Rightarrow> 'f option list \<Rightarrow> z_owned_closure_transport_t \<times> 'f option list" where
  "z_closure_transport_from call_F drop_F f bs =
    (let (this, bs) = box_into_raw f bs
     in (\<lparr>c_context = this, c_call = Some call_F, c_drop = Some drop_F\<rparr>, bs))"

text \<open>\<open>src/closures/link_closure.rs\<close>\<close>

type_synonym z_owned_closure_link_t = closure

definition z_owned_closure_link_default :: "z_owned_closure_link_t" where
  "z_owned_closure_link_default = \<lparr>c_context = null, c_call = None, c_drop = None\<rparr>"

definition z_owned_closure_link_is_empty :: "z_owned_closure_link_t \<Rightarrow> bool" where
  "z_owned_closure_link_is_empty this \<longleftrightarrow> c_call this = None \<and> c_drop this = None \<and> is_null (c_context this)"

definition z_owned_closure_link_drop :: "z_owned_closure_link_t \<Rightarrow> 'a event list \<Rightarrow> 'a event list" where
  "z_owned_closure_link_drop this tr = (case c_drop this of
     Some f \<Rightarrow> tr @ [Dropped f (c_context this)]
   | None \<Rightarrow> tr)"

definition z_closure_link_from :: "user_fn \<Rightarrow> user_fn \<Rightarrow> 'f \<Rightarrow> 'f option list \<Rightarrow> z_owned_closure_link_t \<times> 'f option list" where
  "z_closure_link_from call_F drop_F f bs =
    (let (this, bs) = box_into_raw f bs
     in (\<lparr>c_context = this, c_call = Some call_F, c_drop = Some drop_F\<rparr>, bs))"

text \<open>\<open>src/closures/transport_event_closure.rs\<close>\<close>

type_synonym z_owned_closure_transport_event_t = closure

definition z_owned_closure_transport_event_default :: "z_owned_closure_transport_event_t" where
  "z_owned_closure_transport_event_default = \<lparr>c_context = null, c_call = None, c_drop = None\<rparr>"

definition z_owned_closure_transport_event_is_empty :: "z_owned_closure_transport_event_t \<Rightarrow> bool" where
  "z_owned_closure_transport_event_is_empty this \<longleftrightarrow> c_call this = None \<and> c_drop this = None \<and> is_null (c_context this)"

definition z_owned_closure_transport_event_drop :: "z_owned_closure_transport_event_t \<Rightarrow> 'a event list \<Rightarrow> 'a event list" where
  "z_owned_closure_transport_event_drop this tr = (case c_drop this of
     Some f \<Rightarrow> tr @ [Dropped f (c_context this)]
   | None \<Rightarrow> tr)"

definition z_closure_transport_event_from :: "user_fn \<Rightarrow> user_fn \<Rightarrow> 'f \<Rightarrow> 'f option list \<Rightarrow> z_owned_closure_transport_event_t \<times> 'f option list" where
  "z_closure_transport_event_from call_F drop_F f bs =
    (let (this, bs) = box_into_raw f bs
     in (\<lparr>c_context = this, c_call = Some call_F, c_drop = Some drop_F\<rparr>, bs))"

text \<open>\<open>src/closures/link_event_closure.rs\<close>\<close>

type_synonym z_owned_closure_link_event_t = closure

definition z_owned_closure_link_event_default :: "z_owned_closure_link_event_t" where
  "z_owned_closure_link_event_default = \<lparr>c_context = null, c_call = None, c_drop = None\<rparr>"

definition z_owned_closure_link_event_is_empty :: "z_owned_closure_link_event_t \<Rightarrow> bool" where
  "z_owned_closure_link_event_is_empty this \<longleftrightarrow> c_call this = None \<and> c_drop this = None \<and> is_null (c_context this)"

definition z_owned_closure_link_event_drop :: "z_owned_closure_link_event_t \<Rightarrow> 'a event list \<Rightarrow> 'a event list" where
  "z_owned_closure_link_event_drop this tr = (case c_drop this of
     Some f \<Rightarrow> tr @ [Dropped f (c_context this)]
   | None \<Rightarrow> tr)"

definition z_closure_link_event_from :: "user_fn \<Rightarrow> user_fn \<Rightarrow> 'f \<Rightarrow> 'f option list \<Rightarrow> z_owned_closure_link_event_t \<times> 'f option list" where
  "z_closure_link_event_from call_F drop_F f bs =
    (let (this, bs) = box_into_raw f bs
     in (\<lparr>c_context = this, c_call = Some call_F, c_drop = Some drop_F\<rparr>, bs))"

text \<open>\<open>src/closures/log_closure.rs\<close>\<close>

type_synonym zc_owned_closure_log_t = closure

definition zc_owned_closure_log_empty :: "zc_owned_closure_log_t" where
  "zc_owned_closure_log_empty = \<lparr>c_context = null, c_call = None, c_drop = None\<rparr>"

definition zc_owned_closure_log_default :: "zc_owned_closure_log_t" where
  "zc_owned_closure_log_default = zc_owned_closure_log_empty"

definition zc_owned_closure_log_is_empty :: "zc_owned_closure_log_t \<Rightarrow> bool" where
  "zc_owned_closure_log_is_empty this \<longleftrightarrow> c_call this = None \<and> c_drop this = None \<and> is_null (c_context this)"

definition zc_owned_closure_log_drop :: "zc_owned_closure_log_t \<Rightarrow> 'a event list \<Rightarrow> 'a event list" where
  "zc_owned_closure_log_drop this tr = (case c_drop this of
     Some f \<Rightarrow> tr @ [Dropped f (c_context this)]
   | None \<Rightarrow> tr)"

lemmas closure_type_defs =
  z_owned_closure_sample_default_def
  z_owned_closure_sample_is_empty_def
  z_owned_closure_sample_drop_def
  z_closure_sample_from_def
  z_owned_closure_query_default_def
  z_owned_closure_query_is_empty_def
  z_owned_closure_query_drop_def
  z_closure_query_from_def
  z_owned_closure_reply_default_def
  z_owned_closure_reply_is_empty_def
  z_owned_closure_reply_drop_def
  z_closure_reply_from_def
  z_owned_closure_hello_default_def
  z_owned_closure_hello_is_empty_def
  z_owned_closure_hello_drop_def
  z_closure_hello_from_def
  z_owned_closure_zid_default_def
  z_owned_closure_zid_is_empty_def
  z_owned_closure_zid_drop_def
  z_closure_zid_from_def
  z_owned_closure_matching_status_default_def
  z_owned_closure_matching_status_is_empty_def
  z_owned_closure_matching_status_drop_def
  z_closure_matching_status_from_def
  ze_owned_closure_miss_default_def
  ze_owned_closure_miss_is_empty_def
  ze_owned_closure_miss_drop_def
  ze_closure_miss_from_def
  z_owned_closure_transport_default_def
  z_owned_closure_transport_is_empty_def
  z_owned_closure_transport_drop_def
  z_closure_transport_from_def
  z_owned_closure_link_default_def
  z_owned_closure_link_is_empty_def
  z_owned_closure_link_drop_def
  z_closure_link_from_def
  z_owned_closure_transport_event_default_def
  z_owned_closure_transport_event_is_empty_def
  z_owned_closure_transport_event_drop_def
  z_closure_transport_event_from_def
  z_owned_closure_link_event_default_def
  z_owned_closure_link_event_is_empty_def
  z_owned_closure_link_event_drop_def
  z_closure_link_event_from_def
  zc_owned_closure_log_empty_def
  zc_owned_closure_log_default_def
  zc_owned_closure_log_is_empty_def
  zc_owned_closure_log_drop_def

subsection \<open>Lemmas\<close>

lemma closure_types_common:
  "z_owned_closure_sample_default = closure_default" "z_owned_closure_query_default = closure_default"
  "z_owned_closure_reply_default = closure_default" "z_owned_closure_hello_default = closure_default"
  "z_owned_closure_zid_default = closure_default" "z_owned_closure_matching_status_default = closure_default"
  "ze_owned_closure_miss_default = closure_default" "z_owned_closure_transport_default = closure_default"
  "z_owned_closure_link_default = closure_default" "z_owned_closure_transport_event_default = closure_default"
  "z_owned_closure_link_event_default = closure_default" "zc_owned_closure_log_default = closure_default"
  by (simp_all add: closure_type_defs closure_default_def)

lemma closure_types_is_empty:
  "z_owned_closure_sample_is_empty = closure_is_empty" "z_owned_closure_query_is_empty = closure_is_empty"
  "z_owned_closure_reply_is_empty = closure_is_empty" "z_owned_closure_hello_is_empty = closure_is_empty"
  "z_owned_closure_zid_is_empty = closure_is_empty" "z_owned_closure_matching_status_is_empty = closure_is_empty"
  "ze_owned_closure_miss_is_empty = closure_is_empty" "z_owned_closure_transport_is_empty = closure_is_empty"
  "z_owned_closure_link_is_empty = closure_is_empty" "z_owned_closure_transport_event_is_empty = closure_is_empty"
  "z_owned_closure_link_event_is_empty = closure_is_empty" "zc_owned_closure_log_is_empty = closure_is_empty"
  by (auto simp: fun_eq_iff closure_type_defs closure_is_empty_def)

lemma closure_types_drop:
  "closure_drop this tr = ret (z_owned_closure_sample_drop this tr)" "closure_drop this tr = ret (z_owned_closure_query_drop this tr)"
  "closure_drop this tr = ret (z_owned_closure_reply_drop this tr)" "closure_drop this tr = ret (z_owned_closure_hello_drop this tr)"
  "closure_drop this tr = ret (z_owned_closure_zid_drop this tr)" "closure_drop this tr = ret (z_owned_closure_matching_status_drop this tr)"
  "closure_drop this tr = ret (ze_owned_closure_miss_drop this tr)" "closure_drop this tr = ret (z_owned_closure_transport_drop this tr)"
  "closure_drop this tr = ret (z_owned_closure_link_drop this tr)" "closure_drop this tr = ret (z_owned_closure_transport_event_drop this tr)"
  "closure_drop this tr = ret (z_owned_closure_link_event_drop this tr)" "closure_drop this tr = ret (zc_owned_closure_log_drop this tr)"
  by (simp_all add: closure_type_defs closure_drop_def split: option.split)

lemma closure_types_from:
  "z_closure_query_from = z_closure_sample_from" "z_closure_reply_from = z_closure_sample_from"
  "z_closure_hello_from = z_closure_sample_from" "z_closure_zid_from = z_closure_sample_from"
  "z_closure_matching_status_from = z_closure_sample_from" "ze_closure_miss_from = z_closure_sample_from"
  "z_closure_transport_from = z_closure_sample_from" "z_closure_link_from = z_closure_sample_from"
  "z_closure_transport_event_from = z_closure_sample_from" "z_closure_link_event_from = z_closure_sample_from"
  by (simp_all add: fun_eq_iff closure_type_defs)

subsection \<open>Running a converted closure\<close>

text \<open>The events of a closure's trace, run: a call of the function \<open>call_F\<close> is \<open>call_boxed\<close>, one of \<open>drop_F\<close> is
  \<open>drop_boxed\<close>.\<close>

fun run_boxed ::
  "('f \<Rightarrow> 'a \<Rightarrow> 'w \<Rightarrow> 'w) \<Rightarrow> ('f \<Rightarrow> 'w \<Rightarrow> 'w) \<Rightarrow> user_fn \<Rightarrow> user_fn \<Rightarrow> 'a event list
   \<Rightarrow> 'f option list \<times> 'w \<Rightarrow> ('f option list \<times> 'w) run" where
  "run_boxed app drp call_F drop_F [] s = ret s"
| "run_boxed app drp call_F drop_F (Called g x c # tr) s =
    (if g = call_F then Option.bind (call_boxed app x c s) (run_boxed app drp call_F drop_F tr) else panic)"
| "run_boxed app drp call_F drop_F (Dropped g c # tr) s =
    (if g = drop_F then Option.bind (drop_boxed drp c s) (run_boxed app drp call_F drop_F tr) else panic)"
| "run_boxed app drp call_F drop_F (Reported # tr) s = panic"

lemma run_boxed_append:
  "run_boxed app drp cf df (tr @ tr') s = Option.bind (run_boxed app drp cf df tr s) (run_boxed app drp cf df tr')"
proof (induction tr arbitrary: s)
  case (Cons e tr)
  then show ?case by (cases e) (auto simp: bind_assoc split: bind_splits)
qed simp

lemma call_log: "fold (z_closure_sample_call c) xs tr = tr @ fold (z_closure_sample_call c) xs []"
proof (induction xs arbitrary: tr)
  case (Cons x xs)
  show ?case
    by (simp add: Cons [of "z_closure_sample_call c x tr"] Cons [of "z_closure_sample_call c x []"])
      (simp add: z_closure_sample_call_def closure_call_def split: option.split)
qed simp

lemma run_calls:
  "b < length bs \<Longrightarrow> bs ! b = Some f \<Longrightarrow> c_call c = Some cf \<Longrightarrow> c_context c = Ptr b 0 \<Longrightarrow>
   run_boxed app drp cf df (fold (z_closure_sample_call c) xs []) (bs, w) = ret (bs, fold (app f) xs w)"
proof (induction xs arbitrary: w)
  case (Cons x xs)
  have "fold (z_closure_sample_call c) (x # xs) [] = Called cf x (Ptr b 0) # fold (z_closure_sample_call c) xs []"
    using Cons.prems call_log [of c xs "[Called cf x (Ptr b 0)]"] by (simp add: z_closure_sample_call_def closure_call_def)
  then show ?case using Cons by (simp add: call_boxed_def box_deref_def)
qed simp

text \<open>Any number of calls and a drop: the Rust closure runs once for each call, in order, is then dropped and
  its box freed, no freed box is used, no other box touched, and dropping the slot again adds nothing.\<close>

lemma boxed_closure_runs:
  assumes "z_closure_sample_from cf df f bs = (c, bs')"
    and "z_closure_sample_drop c (fold (z_closure_sample_call c) xs []) = ret (slot, tr)"
  shows "run_boxed app drp cf df tr (bs', w) = ret (bs @ [None], drp f (fold (app f) xs w))
    \<and> z_closure_sample_drop slot tr = ret (slot, tr)"
proof -
  have c: "c_context c = Ptr (length bs) 0" "c_call c = Some cf" "c_drop c = Some df" "bs' = bs @ [Some f]"
    using assms(1) by (auto simp: z_closure_sample_from_def box_into_raw_def)
  then have t: "tr = fold (z_closure_sample_call c) xs [] @ [Dropped df (Ptr (length bs) 0)]" "slot = closure_default"
    using assms(2) by (auto simp: z_closure_sample_drop_def clo.moved_drop_eq closure_drop_def)
  have "run_boxed app drp cf df (fold (z_closure_sample_call c) xs []) (bs', w) = ret (bs', fold (app f) xs w)"
    using c by (intro run_calls) simp_all
  then have "run_boxed app drp cf df tr (bs', w) = ret (bs @ [None], drp f (fold (app f) xs w))"
    unfolding t(1) run_boxed_append using c(4) by (simp add: drop_boxed_def box_deref_def)
  moreover have "z_closure_sample_drop slot tr = ret (slot, tr)"
    unfolding t(2) z_closure_sample_drop_def clo.moved_drop_eq
    by (simp add: closure_drop_def closure_default_def)
  ultimately show ?thesis by blast
qed

end
