(* ===== verification/Channels.thy ===== *)
theory Channels
  imports ClosureTypes
begin

text \<open>
  \<open>src/closures/sample_channel.rs\<close>, \<open>query_channel.rs\<close>, \<open>response_channel.rs\<close>: fifo and ring channels
  behind closures. The three files have the same functions for three payloads.

  The channels themselves are zenoh's: \<open>into_handler\<close>, \<open>recv\<close> and \<open>try_recv\<close> are parameters, with
  \<open>Err\<close> (disconnected) as \<open>None\<close> and \<open>Ok q\<close> as \<open>Some q\<close>. A receive returns the code and the value
  written to the output slot. The sender is a closure whose context is the boxed callback; sending
  moves the payload out of the borrowed slot.
\<close>

subsection \<open>The common code\<close>

text \<open>\<open>__z_handler_xxx_send\<close>: the callback \<open>f\<close> gets what the slot held (\<open>unwrap_unchecked\<close>: an empty
  slot is undefined behaviour), and the slot is left empty.\<close>

definition handler_send :: "('x \<Rightarrow> 'w \<Rightarrow> 'w) \<Rightarrow> 'x option \<Rightarrow> 'w \<Rightarrow> ('x option \<times> 'w) run" where
  "handler_send f slot w =
    (let (taken, slot) = mem_replace slot None in map_option (\<lambda>x. (slot, f x w)) taken)"

definition channel_new ::
  "(nat \<Rightarrow> 'c \<times> 'h) \<Rightarrow> ('c \<Rightarrow> ptr) \<Rightarrow> user_fn \<Rightarrow> user_fn \<Rightarrow> nat \<Rightarrow> closure \<times> 'h option" where
  "channel_new into_handler box send_fn drop_handler_fn capacity =
    (let (cb, h) = into_handler capacity; cb_ptr = box cb
     in (\<lparr>c_context = cb_ptr, c_call = Some send_fn, c_drop = Some drop_handler_fn\<rparr>, Some h))"

definition handler_recv :: "('h \<Rightarrow> 'x option \<times> 'h) \<Rightarrow> 'h \<Rightarrow> (z_result_t \<times> 'x option) \<times> 'h" where
  "handler_recv recv this = (case recv this of
     (Some q, this) \<Rightarrow> ((Z_OK, Some q), this)
   | (None, this) \<Rightarrow> ((Z_CHANNEL_DISCONNECTED, None), this))"

definition fifo_handler_try_recv :: "('h \<Rightarrow> 'x option option \<times> 'h) \<Rightarrow> 'h \<Rightarrow> (z_result_t \<times> 'x option) \<times> 'h" where
  "fifo_handler_try_recv try_recv this = (case try_recv this of
     (Some (Some q), this) \<Rightarrow> ((Z_OK, Some q), this)
   | (Some None, this) \<Rightarrow> ((Z_CHANNEL_NODATA, None), this)
   | (None, this) \<Rightarrow> ((Z_CHANNEL_DISCONNECTED, None), this))"

definition ring_handler_try_recv :: "('h \<Rightarrow> 'x option option \<times> 'h) \<Rightarrow> 'h \<Rightarrow> (z_result_t \<times> 'x option) \<times> 'h" where
  "ring_handler_try_recv try_recv this = (case try_recv this of
     (Some q, this) \<Rightarrow> ((if q \<noteq> None then Z_OK else Z_CHANNEL_NODATA, q), this)
   | (None, this) \<Rightarrow> ((Z_CHANNEL_DISCONNECTED, None), this))"

subsection \<open>The channel types\<close>

text \<open>\<open>__z_handler_xxx_drop\<close> takes the boxed callback back and drops it, like the drop function of a
  converted closure.\<close>

text \<open>\<open>src/closures/sample_channel.rs\<close>\<close>

definition z_handler_sample_send :: "('x \<Rightarrow> 'w \<Rightarrow> 'w) \<Rightarrow> 'x option \<Rightarrow> 'w \<Rightarrow> ('x option \<times> 'w) run" where
  "z_handler_sample_send = handler_send"

definition z_handler_sample_drop :: "('c \<Rightarrow> 'w \<Rightarrow> 'w) \<Rightarrow> ptr \<Rightarrow> 'c option list \<times> 'w \<Rightarrow> ('c option list \<times> 'w) run" where
  "z_handler_sample_drop drp ctx s = drop_boxed drp ctx s"

definition z_fifo_handler_sample_drop :: "('h \<Rightarrow> 'w \<Rightarrow> 'w run) \<Rightarrow> 'h option \<Rightarrow> 'w \<Rightarrow> ('h option \<times> 'w) run" where
  "z_fifo_handler_sample_drop = (\<lambda>d. moved_drop gravestone_option (drop_option d))"

definition z_internal_fifo_handler_sample_null :: "'h option" where
  "z_internal_fifo_handler_sample_null = None"

definition z_internal_fifo_handler_sample_check :: "'h option \<Rightarrow> bool" where
  "z_internal_fifo_handler_sample_check = (\<lambda>this. this \<noteq> None)"

definition z_fifo_channel_sample_new :: "(nat \<Rightarrow> 'c \<times> 'h) \<Rightarrow> ('c \<Rightarrow> ptr) \<Rightarrow> user_fn \<Rightarrow> user_fn \<Rightarrow> nat \<Rightarrow> closure \<times> 'h option" where
  "z_fifo_channel_sample_new = channel_new"

definition z_fifo_handler_sample_loan :: "'h option \<Rightarrow> 'h run" where
  "z_fifo_handler_sample_loan = loan_option"

definition z_fifo_handler_sample_recv :: "('h \<Rightarrow> 'x option \<times> 'h) \<Rightarrow> 'h \<Rightarrow> (z_result_t \<times> 'x option) \<times> 'h" where
  "z_fifo_handler_sample_recv = handler_recv"

definition z_fifo_handler_sample_try_recv :: "('h \<Rightarrow> 'x option option \<times> 'h) \<Rightarrow> 'h \<Rightarrow> (z_result_t \<times> 'x option) \<times> 'h" where
  "z_fifo_handler_sample_try_recv = fifo_handler_try_recv"

definition z_ring_handler_sample_drop :: "('h \<Rightarrow> 'w \<Rightarrow> 'w run) \<Rightarrow> 'h option \<Rightarrow> 'w \<Rightarrow> ('h option \<times> 'w) run" where
  "z_ring_handler_sample_drop = (\<lambda>d. moved_drop gravestone_option (drop_option d))"

definition z_internal_ring_handler_sample_null :: "'h option" where
  "z_internal_ring_handler_sample_null = None"

definition z_internal_ring_handler_sample_check :: "'h option \<Rightarrow> bool" where
  "z_internal_ring_handler_sample_check = (\<lambda>this. this \<noteq> None)"

definition z_ring_channel_sample_new :: "(nat \<Rightarrow> 'c \<times> 'h) \<Rightarrow> ('c \<Rightarrow> ptr) \<Rightarrow> user_fn \<Rightarrow> user_fn \<Rightarrow> nat \<Rightarrow> closure \<times> 'h option" where
  "z_ring_channel_sample_new = channel_new"

definition z_ring_handler_sample_loan :: "'h option \<Rightarrow> 'h run" where
  "z_ring_handler_sample_loan = loan_option"

definition z_ring_handler_sample_recv :: "('h \<Rightarrow> 'x option \<times> 'h) \<Rightarrow> 'h \<Rightarrow> (z_result_t \<times> 'x option) \<times> 'h" where
  "z_ring_handler_sample_recv = handler_recv"

definition z_ring_handler_sample_try_recv :: "('h \<Rightarrow> 'x option option \<times> 'h) \<Rightarrow> 'h \<Rightarrow> (z_result_t \<times> 'x option) \<times> 'h" where
  "z_ring_handler_sample_try_recv = ring_handler_try_recv"

text \<open>\<open>src/closures/query_channel.rs\<close>\<close>

definition z_handler_query_send :: "('x \<Rightarrow> 'w \<Rightarrow> 'w) \<Rightarrow> 'x option \<Rightarrow> 'w \<Rightarrow> ('x option \<times> 'w) run" where
  "z_handler_query_send = handler_send"

definition z_handler_query_drop :: "('c \<Rightarrow> 'w \<Rightarrow> 'w) \<Rightarrow> ptr \<Rightarrow> 'c option list \<times> 'w \<Rightarrow> ('c option list \<times> 'w) run" where
  "z_handler_query_drop drp ctx s = drop_boxed drp ctx s"

definition z_fifo_handler_query_drop :: "('h \<Rightarrow> 'w \<Rightarrow> 'w run) \<Rightarrow> 'h option \<Rightarrow> 'w \<Rightarrow> ('h option \<times> 'w) run" where
  "z_fifo_handler_query_drop = (\<lambda>d. moved_drop gravestone_option (drop_option d))"

definition z_internal_fifo_handler_query_null :: "'h option" where
  "z_internal_fifo_handler_query_null = None"

definition z_internal_fifo_handler_query_check :: "'h option \<Rightarrow> bool" where
  "z_internal_fifo_handler_query_check = (\<lambda>this. this \<noteq> None)"

definition z_fifo_channel_query_new :: "(nat \<Rightarrow> 'c \<times> 'h) \<Rightarrow> ('c \<Rightarrow> ptr) \<Rightarrow> user_fn \<Rightarrow> user_fn \<Rightarrow> nat \<Rightarrow> closure \<times> 'h option" where
  "z_fifo_channel_query_new = channel_new"

definition z_fifo_handler_query_loan :: "'h option \<Rightarrow> 'h run" where
  "z_fifo_handler_query_loan = loan_option"

definition z_fifo_handler_query_recv :: "('h \<Rightarrow> 'x option \<times> 'h) \<Rightarrow> 'h \<Rightarrow> (z_result_t \<times> 'x option) \<times> 'h" where
  "z_fifo_handler_query_recv = handler_recv"

definition z_fifo_handler_query_try_recv :: "('h \<Rightarrow> 'x option option \<times> 'h) \<Rightarrow> 'h \<Rightarrow> (z_result_t \<times> 'x option) \<times> 'h" where
  "z_fifo_handler_query_try_recv = fifo_handler_try_recv"

definition z_ring_handler_query_drop :: "('h \<Rightarrow> 'w \<Rightarrow> 'w run) \<Rightarrow> 'h option \<Rightarrow> 'w \<Rightarrow> ('h option \<times> 'w) run" where
  "z_ring_handler_query_drop = (\<lambda>d. moved_drop gravestone_option (drop_option d))"

definition z_internal_ring_handler_query_null :: "'h option" where
  "z_internal_ring_handler_query_null = None"

definition z_internal_ring_handler_query_check :: "'h option \<Rightarrow> bool" where
  "z_internal_ring_handler_query_check = (\<lambda>this. this \<noteq> None)"

definition z_ring_channel_query_new :: "(nat \<Rightarrow> 'c \<times> 'h) \<Rightarrow> ('c \<Rightarrow> ptr) \<Rightarrow> user_fn \<Rightarrow> user_fn \<Rightarrow> nat \<Rightarrow> closure \<times> 'h option" where
  "z_ring_channel_query_new = channel_new"

definition z_ring_handler_query_loan :: "'h option \<Rightarrow> 'h run" where
  "z_ring_handler_query_loan = loan_option"

definition z_ring_handler_query_recv :: "('h \<Rightarrow> 'x option \<times> 'h) \<Rightarrow> 'h \<Rightarrow> (z_result_t \<times> 'x option) \<times> 'h" where
  "z_ring_handler_query_recv = handler_recv"

definition z_ring_handler_query_try_recv :: "('h \<Rightarrow> 'x option option \<times> 'h) \<Rightarrow> 'h \<Rightarrow> (z_result_t \<times> 'x option) \<times> 'h" where
  "z_ring_handler_query_try_recv = ring_handler_try_recv"

text \<open>\<open>src/closures/response_channel.rs\<close>\<close>

definition z_handler_reply_send :: "('x \<Rightarrow> 'w \<Rightarrow> 'w) \<Rightarrow> 'x option \<Rightarrow> 'w \<Rightarrow> ('x option \<times> 'w) run" where
  "z_handler_reply_send = handler_send"

definition z_handler_reply_drop :: "('c \<Rightarrow> 'w \<Rightarrow> 'w) \<Rightarrow> ptr \<Rightarrow> 'c option list \<times> 'w \<Rightarrow> ('c option list \<times> 'w) run" where
  "z_handler_reply_drop drp ctx s = drop_boxed drp ctx s"

definition z_fifo_handler_reply_drop :: "('h \<Rightarrow> 'w \<Rightarrow> 'w run) \<Rightarrow> 'h option \<Rightarrow> 'w \<Rightarrow> ('h option \<times> 'w) run" where
  "z_fifo_handler_reply_drop = (\<lambda>d. moved_drop gravestone_option (drop_option d))"

definition z_internal_fifo_handler_reply_null :: "'h option" where
  "z_internal_fifo_handler_reply_null = None"

definition z_internal_fifo_handler_reply_check :: "'h option \<Rightarrow> bool" where
  "z_internal_fifo_handler_reply_check = (\<lambda>this. this \<noteq> None)"

definition z_fifo_channel_reply_new :: "(nat \<Rightarrow> 'c \<times> 'h) \<Rightarrow> ('c \<Rightarrow> ptr) \<Rightarrow> user_fn \<Rightarrow> user_fn \<Rightarrow> nat \<Rightarrow> closure \<times> 'h option" where
  "z_fifo_channel_reply_new = channel_new"

definition z_fifo_handler_reply_loan :: "'h option \<Rightarrow> 'h run" where
  "z_fifo_handler_reply_loan = loan_option"

definition z_fifo_handler_reply_recv :: "('h \<Rightarrow> 'x option \<times> 'h) \<Rightarrow> 'h \<Rightarrow> (z_result_t \<times> 'x option) \<times> 'h" where
  "z_fifo_handler_reply_recv = handler_recv"

definition z_fifo_handler_reply_try_recv :: "('h \<Rightarrow> 'x option option \<times> 'h) \<Rightarrow> 'h \<Rightarrow> (z_result_t \<times> 'x option) \<times> 'h" where
  "z_fifo_handler_reply_try_recv = fifo_handler_try_recv"

definition z_ring_handler_reply_drop :: "('h \<Rightarrow> 'w \<Rightarrow> 'w run) \<Rightarrow> 'h option \<Rightarrow> 'w \<Rightarrow> ('h option \<times> 'w) run" where
  "z_ring_handler_reply_drop = (\<lambda>d. moved_drop gravestone_option (drop_option d))"

definition z_internal_ring_handler_reply_null :: "'h option" where
  "z_internal_ring_handler_reply_null = None"

definition z_internal_ring_handler_reply_check :: "'h option \<Rightarrow> bool" where
  "z_internal_ring_handler_reply_check = (\<lambda>this. this \<noteq> None)"

definition z_ring_channel_reply_new :: "(nat \<Rightarrow> 'c \<times> 'h) \<Rightarrow> ('c \<Rightarrow> ptr) \<Rightarrow> user_fn \<Rightarrow> user_fn \<Rightarrow> nat \<Rightarrow> closure \<times> 'h option" where
  "z_ring_channel_reply_new = channel_new"

definition z_ring_handler_reply_loan :: "'h option \<Rightarrow> 'h run" where
  "z_ring_handler_reply_loan = loan_option"

definition z_ring_handler_reply_recv :: "('h \<Rightarrow> 'x option \<times> 'h) \<Rightarrow> 'h \<Rightarrow> (z_result_t \<times> 'x option) \<times> 'h" where
  "z_ring_handler_reply_recv = handler_recv"

definition z_ring_handler_reply_try_recv :: "('h \<Rightarrow> 'x option option \<times> 'h) \<Rightarrow> 'h \<Rightarrow> (z_result_t \<times> 'x option) \<times> 'h" where
  "z_ring_handler_reply_try_recv = ring_handler_try_recv"

subsection \<open>Lemmas\<close>

lemma try_recv_agree: "ring_handler_try_recv r h = fifo_handler_try_recv r h"
  by (auto simp: ring_handler_try_recv_def fifo_handler_try_recv_def split: option.splits prod.splits)

text \<open>Receiving \<open>n\<close> times.\<close>

fun try_recv_n :: "('h \<Rightarrow> 'x option option \<times> 'h) \<Rightarrow> nat \<Rightarrow> 'h \<Rightarrow> (z_result_t \<times> 'x option) list \<times> 'h" where
  "try_recv_n r 0 h = ([], h)"
| "try_recv_n r (Suc n) h =
    (let (x, h) = z_fifo_handler_sample_try_recv r h; (xs, h) = try_recv_n r n h in (x # xs, h))"

fun send_all :: "('x \<Rightarrow> 'w \<Rightarrow> 'w) \<Rightarrow> 'x list \<Rightarrow> 'w \<Rightarrow> 'w run" where
  "send_all f [] w = ret w"
| "send_all f (x # xs) w = Option.bind (z_handler_sample_send f (Some x) w) (\<lambda>(slot, w). send_all f xs w)"

lemma send_all_queue:
  assumes "\<And>x h. queue (push x h) = queue h @ [x]"
  shows "\<exists>h'. send_all push xs h = ret h' \<and> queue h' = queue h @ xs"
proof (induction xs arbitrary: h)
  case (Cons x xs)
  from Cons.IH [of "push x h"] show ?case
    by (simp add: z_handler_sample_send_def handler_send_def mem_replace_def assms)
qed simp

lemma try_recv_n_queue:
  assumes "\<And>h. try_recv h = (case queue h of [] \<Rightarrow> (Some None, h) | x # _ \<Rightarrow> (Some (Some x), pop h))"
    and "\<And>h x q. queue h = x # q \<Longrightarrow> queue (pop h) = q"
  shows "queue h = xs @ q \<Longrightarrow> fst (try_recv_n try_recv (length xs) h) = map (\<lambda>x. (Z_OK, Some x)) xs
    \<and> queue (snd (try_recv_n try_recv (length xs) h)) = q"
proof (induction xs arbitrary: h)
  case (Cons x xs)
  have q: "queue (pop h) = xs @ q" using assms(2) [of h x "xs @ q"] Cons.prems by simp
  have "z_fifo_handler_sample_try_recv try_recv h = ((Z_OK, Some x), pop h)"
    using Cons.prems by (simp add: z_fifo_handler_sample_try_recv_def fifo_handler_try_recv_def assms(1))
  then show ?case using Cons.IH [OF q] by (simp add: case_prod_beta)
qed simp

text \<open>For a channel that is a queue while its sender is alive (a send appends, a receive takes the first
  element, an empty queue has no data) and has room for them, the samples sent through the closure are
  received with \<open>Z_OK\<close>, in order and once each, and the next receive returns \<open>Z_CHANNEL_NODATA\<close> with the
  gravestone.\<close>

lemma fifo_delivers_in_order:
  assumes "\<And>x h. queue (push x h) = queue h @ [x]"
    and "\<And>h. try_recv h = (case queue h of [] \<Rightarrow> (Some None, h) | x # _ \<Rightarrow> (Some (Some x), pop h))"
    and "\<And>h x q. queue h = x # q \<Longrightarrow> queue (pop h) = q"
    and "queue h = []"
  shows "\<exists>h1 h2. send_all push xs h = ret h1
    \<and> try_recv_n try_recv (length xs) h1 = (map (\<lambda>x. (Z_OK, Some x)) xs, h2)
    \<and> z_fifo_handler_sample_try_recv try_recv h2 = ((Z_CHANNEL_NODATA, None), h2)
    \<and> (\<forall>x w. z_handler_sample_send push (Some x) w = ret (None, push x w))"
proof -
  obtain h1 where h1: "send_all push xs h = ret h1" "queue h1 = xs @ []"
    using send_all_queue [of queue push, OF assms(1)] assms(4) by fastforce
  obtain ys h2 where r: "try_recv_n try_recv (length xs) h1 = (ys, h2)"
    by (cases "try_recv_n try_recv (length xs) h1")
  have "ys = map (\<lambda>x. (Z_OK, Some x)) xs \<and> queue h2 = []"
    using try_recv_n_queue [where queue = queue and pop = pop, OF assms(2,3) h1(2)] r by simp
  then show ?thesis
    using h1 r by (simp add: z_fifo_handler_sample_try_recv_def fifo_handler_try_recv_def assms(2)
        z_handler_sample_send_def handler_send_def mem_replace_def)
qed

text \<open>What a receive returns is told by its code. On every outcome of either kind of channel the
  output is written, it holds a value exactly when the code is \<open>Z_OK\<close>, and the ring channel's
  \<open>try_recv\<close>, written differently, agrees with the fifo channel's.\<close>

lemma recv_codes_and_values:
  "(fst (fst (z_fifo_handler_reply_recv recv h)) = Z_OK \<longleftrightarrow> snd (fst (z_fifo_handler_reply_recv recv h)) \<noteq> None)
 \<and> (fst (fst (z_ring_handler_query_try_recv try_recv h)) = Z_OK
      \<longleftrightarrow> snd (fst (z_ring_handler_query_try_recv try_recv h)) \<noteq> None)
 \<and> z_ring_handler_query_try_recv try_recv h = z_fifo_handler_query_try_recv try_recv h"
proof (intro conjI)
  show "fst (fst (z_fifo_handler_reply_recv recv h)) = Z_OK \<longleftrightarrow> snd (fst (z_fifo_handler_reply_recv recv h)) \<noteq> None"
    by (simp add: z_fifo_handler_reply_recv_def handler_recv_def split: prod.splits option.splits)
  show "fst (fst (z_ring_handler_query_try_recv try_recv h)) = Z_OK
      \<longleftrightarrow> snd (fst (z_ring_handler_query_try_recv try_recv h)) \<noteq> None"
    by (simp add: z_ring_handler_query_try_recv_def ring_handler_try_recv_def split: prod.splits option.splits)
  show "z_ring_handler_query_try_recv try_recv h = z_fifo_handler_query_try_recv try_recv h"
    by (simp add: z_ring_handler_query_try_recv_def z_fifo_handler_query_try_recv_def try_recv_agree)
qed

subsection \<open>The channels as C sees them\<close>

datatype channel_payload = Sample_channel | Query_channel | Reply_channel

datatype channel_policy = Fifo_channel | Ring_channel

datatype 'x channel_op = Send_op 'x | Recv_op | Try_recv_op

text \<open>What the operations of the channel itself give.\<close>

datatype 'x channel_outcome = Was_sent | Was_received 'x | Had_no_data | Was_disconnected

fun channel_step ::
  "('x \<Rightarrow> 'h \<Rightarrow> 'h) \<Rightarrow> ('h \<Rightarrow> 'x option \<times> 'h) \<Rightarrow> ('h \<Rightarrow> 'x option option \<times> 'h) \<Rightarrow> 'x channel_op \<Rightarrow> 'h
    \<Rightarrow> 'x channel_outcome \<times> 'h" where
  "channel_step push recv try_recv (Send_op x) h = (Was_sent, push x h)"
| "channel_step push recv try_recv Recv_op h = (case recv h of
     (Some x, h) \<Rightarrow> (Was_received x, h) | (None, h) \<Rightarrow> (Was_disconnected, h))"
| "channel_step push recv try_recv Try_recv_op h = (case try_recv h of
     (Some (Some x), h) \<Rightarrow> (Was_received x, h) | (Some None, h) \<Rightarrow> (Had_no_data, h) | (None, h) \<Rightarrow> (Was_disconnected, h))"

text \<open>What the C functions give: a send leaves the borrowed slot, a receive its code and the output slot.\<close>

datatype 'x channel_result = Slot_left "'x option" | Got z_result_t "'x option"

fun channel_c_step ::
  "channel_payload \<Rightarrow> channel_policy \<Rightarrow> ('x \<Rightarrow> 'h \<Rightarrow> 'h) \<Rightarrow> ('h \<Rightarrow> 'x option \<times> 'h) \<Rightarrow> ('h \<Rightarrow> 'x option option \<times> 'h)
    \<Rightarrow> 'x channel_op \<Rightarrow> 'h \<Rightarrow> ('x channel_result \<times> 'h) run" where
  "channel_c_step pl po push recv try_recv (Send_op x) h =
     map_option (\<lambda>(slot, h). (Slot_left slot, h))
       ((case pl of Sample_channel \<Rightarrow> z_handler_sample_send | Query_channel \<Rightarrow> z_handler_query_send
         | Reply_channel \<Rightarrow> z_handler_reply_send) push (Some x) h)"
| "channel_c_step pl po push recv try_recv Recv_op h =
     (let ((code, v), h) = (case (po, pl) of
         (Fifo_channel, Sample_channel) \<Rightarrow> z_fifo_handler_sample_recv
       | (Fifo_channel, Query_channel) \<Rightarrow> z_fifo_handler_query_recv
       | (Fifo_channel, Reply_channel) \<Rightarrow> z_fifo_handler_reply_recv
       | (Ring_channel, Sample_channel) \<Rightarrow> z_ring_handler_sample_recv
       | (Ring_channel, Query_channel) \<Rightarrow> z_ring_handler_query_recv
       | (Ring_channel, Reply_channel) \<Rightarrow> z_ring_handler_reply_recv) recv h
      in ret (Got code v, h))"
| "channel_c_step pl po push recv try_recv Try_recv_op h =
     (let ((code, v), h) = (case (po, pl) of
         (Fifo_channel, Sample_channel) \<Rightarrow> z_fifo_handler_sample_try_recv
       | (Fifo_channel, Query_channel) \<Rightarrow> z_fifo_handler_query_try_recv
       | (Fifo_channel, Reply_channel) \<Rightarrow> z_fifo_handler_reply_try_recv
       | (Ring_channel, Sample_channel) \<Rightarrow> z_ring_handler_sample_try_recv
       | (Ring_channel, Query_channel) \<Rightarrow> z_ring_handler_query_try_recv
       | (Ring_channel, Reply_channel) \<Rightarrow> z_ring_handler_reply_try_recv) try_recv h
      in ret (Got code v, h))"

fun channel_run where
  "channel_run push recv try_recv [] h = ([], h)"
| "channel_run push recv try_recv (p # ps) h =
    (let (r, h) = channel_step push recv try_recv p h; (rs, h) = channel_run push recv try_recv ps h in (r # rs, h))"

fun channel_c_run where
  "channel_c_run pl po push recv try_recv [] h = ret ([], h)"
| "channel_c_run pl po push recv try_recv (p # ps) h = do {
     (r, h) \<leftarrow> channel_c_step pl po push recv try_recv p h;
     (rs, h) \<leftarrow> channel_c_run pl po push recv try_recv ps h;
     ret (r # rs, h)
   }"

text \<open>How C is told of an outcome, and what it makes of it.\<close>

fun told :: "'x channel_outcome \<Rightarrow> 'x channel_result" where
  "told Was_sent = Slot_left None"
| "told (Was_received x) = Got Z_OK (Some x)"
| "told Had_no_data = Got Z_CHANNEL_NODATA None"
| "told Was_disconnected = Got Z_CHANNEL_DISCONNECTED None"

definition understood :: "'x channel_result \<Rightarrow> 'x channel_outcome" where
  "understood r = (case r of
     Slot_left _ \<Rightarrow> Was_sent
   | Got code v \<Rightarrow> if code = Z_OK then Was_received (the v)
       else if code = Z_CHANNEL_NODATA then Had_no_data else Was_disconnected)"

lemma understood_told: "understood (told r) = r"
  by (cases r) (simp_all add: understood_def Z_OK_def Z_CHANNEL_NODATA_def Z_CHANNEL_DISCONNECTED_def)

lemmas channel_functions =
  z_handler_sample_send_def z_handler_query_send_def z_handler_reply_send_def
  z_fifo_handler_sample_recv_def z_fifo_handler_query_recv_def z_fifo_handler_reply_recv_def
  z_ring_handler_sample_recv_def z_ring_handler_query_recv_def z_ring_handler_reply_recv_def
  z_fifo_handler_sample_try_recv_def z_fifo_handler_query_try_recv_def z_fifo_handler_reply_try_recv_def
  z_ring_handler_sample_try_recv_def z_ring_handler_query_try_recv_def z_ring_handler_reply_try_recv_def

lemma channel_c_step_told:
  "channel_c_step pl po push recv try_recv p h =
    (let (r, h) = channel_step push recv try_recv p h in ret (told r, h))"
proof (cases p)
  case (Send_op x)
  then show ?thesis
    by (cases pl) (simp_all add: channel_functions handler_send_def mem_replace_def)
next
  case Recv_op
  then show ?thesis
    by (cases pl; cases po)
       (simp_all add: channel_functions handler_recv_def split: prod.split option.split)
next
  case Try_recv_op
  have ring: "ring_handler_try_recv try_recv = fifo_handler_try_recv try_recv"
    by (rule ext) (rule try_recv_agree)
  show ?thesis
    using Try_recv_op by (cases pl; cases po)
      (simp_all add: channel_functions ring fifo_handler_try_recv_def split: prod.split option.split)
qed

lemma channel_c_run_told:
  "channel_c_run pl po push recv try_recv ps h =
    (let (rs, h) = channel_run push recv try_recv ps h in ret (map told rs, h))"
  by (induction ps arbitrary: h) (simp_all add: channel_c_step_told Let_def split_beta)

subsection \<open>Properties\<close>


end
