(* ===== verification/Commons.thy ===== *)
theory Commons
  imports Slices
begin

text \<open>
  \<open>src/commons.rs\<close>, with the severities of \<open>src/closures/log_closure.rs\<close> and the entity kinds of
  \<open>src/scouting.rs\<close>: the enumerations of the C API with their discriminants and their conversions
  from and to the enumerations of zenoh, and the owned samples.

  Zenoh's enumerations have the variants that the exhaustive matches of the conversions name.
\<close>

subsection \<open>Enumerations\<close>

datatype z_sample_kind_t = SK_PUT | SK_DELETE

datatype SampleKind = SampleKind_Put | SampleKind_Delete

fun z_sample_kind_discr :: "z_sample_kind_t \<Rightarrow> int" where
  "z_sample_kind_discr SK_PUT = 0"
| "z_sample_kind_discr SK_DELETE = 1"

fun z_sample_kind_from_rust :: "SampleKind \<Rightarrow> z_sample_kind_t" where
  "z_sample_kind_from_rust SampleKind_Put = SK_PUT"
| "z_sample_kind_from_rust SampleKind_Delete = SK_DELETE"

fun z_sample_kind_to_rust :: "z_sample_kind_t \<Rightarrow> SampleKind" where
  "z_sample_kind_to_rust SK_PUT = SampleKind_Put"
| "z_sample_kind_to_rust SK_DELETE = SampleKind_Delete"

datatype z_locality_t = LOC_ANY | LOC_SESSION_LOCAL | LOC_REMOTE

datatype Locality = Locality_Any | Locality_SessionLocal | Locality_Remote

fun z_locality_discr :: "z_locality_t \<Rightarrow> int" where
  "z_locality_discr LOC_ANY = 0"
| "z_locality_discr LOC_SESSION_LOCAL = 1"
| "z_locality_discr LOC_REMOTE = 2"

fun z_locality_from_rust :: "Locality \<Rightarrow> z_locality_t" where
  "z_locality_from_rust Locality_Any = LOC_ANY"
| "z_locality_from_rust Locality_SessionLocal = LOC_SESSION_LOCAL"
| "z_locality_from_rust Locality_Remote = LOC_REMOTE"

fun z_locality_to_rust :: "z_locality_t \<Rightarrow> Locality" where
  "z_locality_to_rust LOC_ANY = Locality_Any"
| "z_locality_to_rust LOC_SESSION_LOCAL = Locality_SessionLocal"
| "z_locality_to_rust LOC_REMOTE = Locality_Remote"

datatype z_reliability_t = REL_BEST_EFFORT | REL_RELIABLE

datatype Reliability = Reliability_BestEffort | Reliability_Reliable

fun z_reliability_discr :: "z_reliability_t \<Rightarrow> int" where
  "z_reliability_discr REL_BEST_EFFORT = 0"
| "z_reliability_discr REL_RELIABLE = 1"

fun z_reliability_from_rust :: "Reliability \<Rightarrow> z_reliability_t" where
  "z_reliability_from_rust Reliability_BestEffort = REL_BEST_EFFORT"
| "z_reliability_from_rust Reliability_Reliable = REL_RELIABLE"

fun z_reliability_to_rust :: "z_reliability_t \<Rightarrow> Reliability" where
  "z_reliability_to_rust REL_BEST_EFFORT = Reliability_BestEffort"
| "z_reliability_to_rust REL_RELIABLE = Reliability_Reliable"

datatype z_reply_keyexpr_t = RK_ANY | RK_MATCHING_QUERY

datatype ReplyKeyExpr = ReplyKeyExpr_Any | ReplyKeyExpr_MatchingQuery

fun z_reply_keyexpr_discr :: "z_reply_keyexpr_t \<Rightarrow> int" where
  "z_reply_keyexpr_discr RK_ANY = 0"
| "z_reply_keyexpr_discr RK_MATCHING_QUERY = 1"

fun z_reply_keyexpr_from_rust :: "ReplyKeyExpr \<Rightarrow> z_reply_keyexpr_t" where
  "z_reply_keyexpr_from_rust ReplyKeyExpr_Any = RK_ANY"
| "z_reply_keyexpr_from_rust ReplyKeyExpr_MatchingQuery = RK_MATCHING_QUERY"

fun z_reply_keyexpr_to_rust :: "z_reply_keyexpr_t \<Rightarrow> ReplyKeyExpr" where
  "z_reply_keyexpr_to_rust RK_ANY = ReplyKeyExpr_Any"
| "z_reply_keyexpr_to_rust RK_MATCHING_QUERY = ReplyKeyExpr_MatchingQuery"

datatype z_query_target_t = QT_BEST_MATCHING | QT_ALL | QT_ALL_COMPLETE

datatype QueryTarget = QueryTarget_BestMatching | QueryTarget_All | QueryTarget_AllComplete

fun z_query_target_discr :: "z_query_target_t \<Rightarrow> int" where
  "z_query_target_discr QT_BEST_MATCHING = 0"
| "z_query_target_discr QT_ALL = 1"
| "z_query_target_discr QT_ALL_COMPLETE = 2"

fun z_query_target_from_rust :: "QueryTarget \<Rightarrow> z_query_target_t" where
  "z_query_target_from_rust QueryTarget_BestMatching = QT_BEST_MATCHING"
| "z_query_target_from_rust QueryTarget_All = QT_ALL"
| "z_query_target_from_rust QueryTarget_AllComplete = QT_ALL_COMPLETE"

fun z_query_target_to_rust :: "z_query_target_t \<Rightarrow> QueryTarget" where
  "z_query_target_to_rust QT_BEST_MATCHING = QueryTarget_BestMatching"
| "z_query_target_to_rust QT_ALL = QueryTarget_All"
| "z_query_target_to_rust QT_ALL_COMPLETE = QueryTarget_AllComplete"

datatype z_consolidation_mode_t = CM_AUTO | CM_NONE | CM_MONOTONIC | CM_LATEST

datatype ConsolidationMode = ConsolidationMode_Auto | ConsolidationMode_None | ConsolidationMode_Monotonic | ConsolidationMode_Latest

fun z_consolidation_mode_discr :: "z_consolidation_mode_t \<Rightarrow> int" where
  "z_consolidation_mode_discr CM_AUTO = - 1"
| "z_consolidation_mode_discr CM_NONE = 0"
| "z_consolidation_mode_discr CM_MONOTONIC = 1"
| "z_consolidation_mode_discr CM_LATEST = 2"

fun z_consolidation_mode_from_rust :: "ConsolidationMode \<Rightarrow> z_consolidation_mode_t" where
  "z_consolidation_mode_from_rust ConsolidationMode_Auto = CM_AUTO"
| "z_consolidation_mode_from_rust ConsolidationMode_None = CM_NONE"
| "z_consolidation_mode_from_rust ConsolidationMode_Monotonic = CM_MONOTONIC"
| "z_consolidation_mode_from_rust ConsolidationMode_Latest = CM_LATEST"

fun z_consolidation_mode_to_rust :: "z_consolidation_mode_t \<Rightarrow> ConsolidationMode" where
  "z_consolidation_mode_to_rust CM_AUTO = ConsolidationMode_Auto"
| "z_consolidation_mode_to_rust CM_NONE = ConsolidationMode_None"
| "z_consolidation_mode_to_rust CM_MONOTONIC = ConsolidationMode_Monotonic"
| "z_consolidation_mode_to_rust CM_LATEST = ConsolidationMode_Latest"

datatype z_priority_t = PRI_REAL_TIME | PRI_INTERACTIVE_HIGH | PRI_INTERACTIVE_LOW | PRI_DATA_HIGH | PRI_DATA | PRI_DATA_LOW | PRI_BACKGROUND

datatype Priority = Priority_RealTime | Priority_InteractiveHigh | Priority_InteractiveLow | Priority_DataHigh | Priority_Data | Priority_DataLow | Priority_Background

fun z_priority_discr :: "z_priority_t \<Rightarrow> int" where
  "z_priority_discr PRI_REAL_TIME = 1"
| "z_priority_discr PRI_INTERACTIVE_HIGH = 2"
| "z_priority_discr PRI_INTERACTIVE_LOW = 3"
| "z_priority_discr PRI_DATA_HIGH = 4"
| "z_priority_discr PRI_DATA = 5"
| "z_priority_discr PRI_DATA_LOW = 6"
| "z_priority_discr PRI_BACKGROUND = 7"

fun z_priority_from_rust :: "Priority \<Rightarrow> z_priority_t" where
  "z_priority_from_rust Priority_RealTime = PRI_REAL_TIME"
| "z_priority_from_rust Priority_InteractiveHigh = PRI_INTERACTIVE_HIGH"
| "z_priority_from_rust Priority_InteractiveLow = PRI_INTERACTIVE_LOW"
| "z_priority_from_rust Priority_DataHigh = PRI_DATA_HIGH"
| "z_priority_from_rust Priority_Data = PRI_DATA"
| "z_priority_from_rust Priority_DataLow = PRI_DATA_LOW"
| "z_priority_from_rust Priority_Background = PRI_BACKGROUND"

fun z_priority_to_rust :: "z_priority_t \<Rightarrow> Priority" where
  "z_priority_to_rust PRI_REAL_TIME = Priority_RealTime"
| "z_priority_to_rust PRI_INTERACTIVE_HIGH = Priority_InteractiveHigh"
| "z_priority_to_rust PRI_INTERACTIVE_LOW = Priority_InteractiveLow"
| "z_priority_to_rust PRI_DATA_HIGH = Priority_DataHigh"
| "z_priority_to_rust PRI_DATA = Priority_Data"
| "z_priority_to_rust PRI_DATA_LOW = Priority_DataLow"
| "z_priority_to_rust PRI_BACKGROUND = Priority_Background"

datatype z_congestion_control_t = CC_BLOCK | CC_DROP | CC_BLOCK_FIRST

datatype CongestionControl = CongestionControl_Block | CongestionControl_Drop | CongestionControl_BlockFirst

fun z_congestion_control_discr :: "z_congestion_control_t \<Rightarrow> int" where
  "z_congestion_control_discr CC_BLOCK = 0"
| "z_congestion_control_discr CC_DROP = 1"
| "z_congestion_control_discr CC_BLOCK_FIRST = 2"

fun z_congestion_control_from_rust :: "CongestionControl \<Rightarrow> z_congestion_control_t" where
  "z_congestion_control_from_rust CongestionControl_Block = CC_BLOCK"
| "z_congestion_control_from_rust CongestionControl_Drop = CC_DROP"
| "z_congestion_control_from_rust CongestionControl_BlockFirst = CC_BLOCK_FIRST"

fun z_congestion_control_to_rust :: "z_congestion_control_t \<Rightarrow> CongestionControl" where
  "z_congestion_control_to_rust CC_BLOCK = CongestionControl_Block"
| "z_congestion_control_to_rust CC_DROP = CongestionControl_Drop"
| "z_congestion_control_to_rust CC_BLOCK_FIRST = CongestionControl_BlockFirst"

datatype zc_log_severity_t = LOG_TRACE | LOG_DEBUG | LOG_INFO | LOG_WARN | LOG_ERROR

datatype Level = Level_TRACE | Level_DEBUG | Level_INFO | Level_WARN | Level_ERROR

fun zc_log_severity_discr :: "zc_log_severity_t \<Rightarrow> int" where
  "zc_log_severity_discr LOG_TRACE = 0"
| "zc_log_severity_discr LOG_DEBUG = 1"
| "zc_log_severity_discr LOG_INFO = 2"
| "zc_log_severity_discr LOG_WARN = 3"
| "zc_log_severity_discr LOG_ERROR = 4"

text \<open>The derived \<open>PartialOrd\<close> of the severities: by discriminant.\<close>

instantiation zc_log_severity_t :: linorder
begin

definition less_eq_zc_log_severity_t :: "zc_log_severity_t \<Rightarrow> zc_log_severity_t \<Rightarrow> bool" where
  "x \<le> y \<longleftrightarrow> zc_log_severity_discr x \<le> zc_log_severity_discr y"

definition less_zc_log_severity_t :: "zc_log_severity_t \<Rightarrow> zc_log_severity_t \<Rightarrow> bool" where
  "x < y \<longleftrightarrow> zc_log_severity_discr x < zc_log_severity_discr y"

instance
proof
  fix x y :: zc_log_severity_t
  show "x \<le> y \<Longrightarrow> y \<le> x \<Longrightarrow> x = y"
    by (cases x; cases y) (simp_all add: less_eq_zc_log_severity_t_def)
qed (auto simp: less_eq_zc_log_severity_t_def less_zc_log_severity_t_def)

end

fun zc_log_severity_from_rust :: "Level \<Rightarrow> zc_log_severity_t" where
  "zc_log_severity_from_rust Level_TRACE = LOG_TRACE"
| "zc_log_severity_from_rust Level_DEBUG = LOG_DEBUG"
| "zc_log_severity_from_rust Level_INFO = LOG_INFO"
| "zc_log_severity_from_rust Level_WARN = LOG_WARN"
| "zc_log_severity_from_rust Level_ERROR = LOG_ERROR"

fun zc_log_severity_to_rust :: "zc_log_severity_t \<Rightarrow> Level" where
  "zc_log_severity_to_rust LOG_TRACE = Level_TRACE"
| "zc_log_severity_to_rust LOG_DEBUG = Level_DEBUG"
| "zc_log_severity_to_rust LOG_INFO = Level_INFO"
| "zc_log_severity_to_rust LOG_WARN = Level_WARN"
| "zc_log_severity_to_rust LOG_ERROR = Level_ERROR"

text \<open>Entity kinds: \<open>WhatAmI\<close> is converted one way, and \<open>z_what_t\<close> is a set of kinds.\<close>

datatype z_whatami_t = WAI_ROUTER | WAI_PEER | WAI_CLIENT

datatype WhatAmI = WhatAmI_Router | WhatAmI_Peer | WhatAmI_Client

fun z_whatami_discr :: "z_whatami_t \<Rightarrow> u8" where
  "z_whatami_discr WAI_ROUTER = 0x01"
| "z_whatami_discr WAI_PEER = 0x02"
| "z_whatami_discr WAI_CLIENT = 0x04"

fun z_hello_whatami :: "WhatAmI \<Rightarrow> z_whatami_t" where
  "z_hello_whatami WhatAmI_Router = WAI_ROUTER"
| "z_hello_whatami WhatAmI_Peer = WAI_PEER"
| "z_hello_whatami WhatAmI_Client = WAI_CLIENT"

datatype z_what_t = W_ROUTER | W_PEER | W_CLIENT | W_ROUTER_PEER | W_ROUTER_CLIENT | W_PEER_CLIENT | W_ROUTER_PEER_CLIENT

fun z_what_discr :: "z_what_t \<Rightarrow> u8" where
  "z_what_discr W_ROUTER = 0x01"
| "z_what_discr W_PEER = 0x02"
| "z_what_discr W_CLIENT = 0x04"
| "z_what_discr W_ROUTER_PEER = 0x03"
| "z_what_discr W_ROUTER_CLIENT = 0x05"
| "z_what_discr W_PEER_CLIENT = 0x06"
| "z_what_discr W_ROUTER_PEER_CLIENT = 0x07"

text \<open>\<open>WhatAmIMatcher::try_from(u8)\<close> and \<open>to_str\<close> are zenoh's: the parameter \<open>matcher\<close> is the text of
  the kinds in a valid mask. The text is static data at \<open>p\<close>.\<close>

definition z_whatami_to_view_string ::
  "(u8 \<Rightarrow> (ptr \<times> usize) option) \<Rightarrow> z_whatami_t \<Rightarrow> z_result_t \<times> cslice option" where
  "z_whatami_to_view_string matcher whatami = (case matcher (z_whatami_discr whatami) of
     None \<Rightarrow> (Z_EINVAL, None)
   | Some (p, n) \<Rightarrow> (Z_OK, Some (CSlice_new_borrowed_unchecked p n)))"

subsection \<open>Owned samples\<close>

definition z_internal_sample_check :: "'s option \<Rightarrow> bool" where
  "z_internal_sample_check this \<longleftrightarrow> this \<noteq> None"

definition z_internal_sample_null :: "'s option" where
  "z_internal_sample_null = None"

definition z_sample_loan :: "'s option \<Rightarrow> 's run" where
  "z_sample_loan this = loan_option this"

definition z_sample_loan_mut :: "'s option \<Rightarrow> 's run" where
  "z_sample_loan_mut this = loan_option this"

definition z_sample_drop :: "('s \<Rightarrow> 'w \<Rightarrow> 'w run) \<Rightarrow> 's option \<Rightarrow> 'w \<Rightarrow> ('s option \<times> 'w) run" where
  "z_sample_drop d this w = moved_drop gravestone_option (drop_option d) this w"

text \<open>\<open>clone\<close> is \<open>Sample::clone\<close>.\<close>

definition z_sample_clone :: "('s \<Rightarrow> 's) \<Rightarrow> 's \<Rightarrow> 's option" where
  "z_sample_clone clone this = Some (clone this)"

text \<open>The sample moves out of the borrowed place, which keeps \<open>Sample::empty()\<close>.\<close>

definition z_sample_take_from_loaned :: "'s \<Rightarrow> 's \<Rightarrow> 's option \<times> 's" where
  "z_sample_take_from_loaned emp src = (let (old, src) = mem_replace src emp in (Some old, src))"

text \<open>The kinds of \<open>z_what_t\<close> are the sets of kinds their discriminants say, bit by bit.\<close>

unbundle bit_operations_syntax

definition what_includes :: "z_what_t \<Rightarrow> z_whatami_t \<Rightarrow> bool" where
  "what_includes w k \<longleftrightarrow> z_what_discr w AND z_whatami_discr k \<noteq> 0"

lemma what_includes_table:
  "what_includes w WAI_ROUTER \<longleftrightarrow> w \<in> {W_ROUTER, W_ROUTER_PEER, W_ROUTER_CLIENT, W_ROUTER_PEER_CLIENT}"
  "what_includes w WAI_PEER \<longleftrightarrow> w \<in> {W_PEER, W_ROUTER_PEER, W_PEER_CLIENT, W_ROUTER_PEER_CLIENT}"
  "what_includes w WAI_CLIENT \<longleftrightarrow> w \<in> {W_CLIENT, W_ROUTER_CLIENT, W_PEER_CLIENT, W_ROUTER_PEER_CLIENT}"
  by (cases w; simp add: what_includes_def)+

lemma kinds_eq:
  "A = B \<longleftrightarrow> (WAI_ROUTER \<in> A \<longleftrightarrow> WAI_ROUTER \<in> B) \<and> (WAI_PEER \<in> A \<longleftrightarrow> WAI_PEER \<in> B)
     \<and> (WAI_CLIENT \<in> A \<longleftrightarrow> WAI_CLIENT \<in> B)"
proof -
  have "(\<forall>k. P k) \<longleftrightarrow> P WAI_ROUTER \<and> P WAI_PEER \<and> P WAI_CLIENT" for P
    by (rule iffI, simp, rule allI, case_tac k, simp_all)
  then show ?thesis by (simp add: set_eq_iff)
qed

lemma what_ex:
  "(\<exists>w. P w) \<longleftrightarrow> P W_ROUTER \<or> P W_PEER \<or> P W_CLIENT \<or> P W_ROUTER_PEER \<or> P W_ROUTER_CLIENT
     \<or> P W_PEER_CLIENT \<or> P W_ROUTER_PEER_CLIENT"
  by (rule iffI, erule exE, case_tac w, auto)

subsection \<open>Properties\<close>

text \<open>The enumerations of the C API and of zenoh are in one-to-one correspondence. Converting a
  value to zenoh and back, and back and forth, gives the value again for all nine enumerations, so
  no setting is lost or confused on its way through the API.\<close>

lemma enum_conversions_inverse:
  "(\<forall>x y. (z_sample_kind_to_rust x = y) = (z_sample_kind_from_rust y = x))
 \<and> (\<forall>x y. (z_locality_to_rust x = y) = (z_locality_from_rust y = x))
 \<and> (\<forall>x y. (z_reliability_to_rust x = y) = (z_reliability_from_rust y = x))
 \<and> (\<forall>x y. (z_reply_keyexpr_to_rust x = y) = (z_reply_keyexpr_from_rust y = x))
 \<and> (\<forall>x y. (z_query_target_to_rust x = y) = (z_query_target_from_rust y = x))
 \<and> (\<forall>x y. (z_consolidation_mode_to_rust x = y) = (z_consolidation_mode_from_rust y = x))
 \<and> (\<forall>x y. (z_priority_to_rust x = y) = (z_priority_from_rust y = x))
 \<and> (\<forall>x y. (z_congestion_control_to_rust x = y) = (z_congestion_control_from_rust y = x))
 \<and> (\<forall>x y. (zc_log_severity_to_rust x = y) = (zc_log_severity_from_rust y = x))"
proof (intro conjI allI)
  show "(z_sample_kind_to_rust x = y) = (z_sample_kind_from_rust y = x)" for x y by (cases x; cases y; simp)
  show "(z_locality_to_rust x = y) = (z_locality_from_rust y = x)" for x y by (cases x; cases y; simp)
  show "(z_reliability_to_rust x = y) = (z_reliability_from_rust y = x)" for x y by (cases x; cases y; simp)
  show "(z_reply_keyexpr_to_rust x = y) = (z_reply_keyexpr_from_rust y = x)" for x y by (cases x; cases y; simp)
  show "(z_query_target_to_rust x = y) = (z_query_target_from_rust y = x)" for x y by (cases x; cases y; simp)
  show "(z_consolidation_mode_to_rust x = y) = (z_consolidation_mode_from_rust y = x)" for x y
    by (cases x; cases y; simp)
  show "(z_priority_to_rust x = y) = (z_priority_from_rust y = x)" for x y by (cases x; cases y; simp)
  show "(z_congestion_control_to_rust x = y) = (z_congestion_control_from_rust y = x)" for x y
    by (cases x; cases y; simp)
  show "(zc_log_severity_to_rust x = y) = (zc_log_severity_from_rust y = x)" for x y by (cases x; cases y; simp)
qed

text \<open>The masks of entity kinds are sets. Every non-empty set of entity kinds is the mask of
  exactly one \<open>z_what_t\<close>, and the discriminant of a kind is the mask that includes only it.\<close>

lemma what_masks_are_sets:
  "(\<forall>S. S \<noteq> {} \<longrightarrow> (\<exists>!w. {k. what_includes w k} = S))
   \<and> (\<forall>k. \<exists>w. z_what_discr w = z_whatami_discr k \<and> {j. what_includes w j} = {k})"
proof (intro conjI allI impI)
  fix S :: "z_whatami_t set"
  assume "S \<noteq> {}"
  then have "WAI_ROUTER \<in> S \<or> WAI_PEER \<in> S \<or> WAI_CLIENT \<in> S" using kinds_eq [of S "{}"] by auto
  then have "\<exists>w. {k. what_includes w k} = S"
    unfolding kinds_eq [of _ S] mem_Collect_eq what_includes_table what_ex
    by (cases "WAI_ROUTER \<in> S"; cases "WAI_PEER \<in> S"; cases "WAI_CLIENT \<in> S") simp_all
  moreover have "w = v" if "{k. what_includes w k} = {k. what_includes v k}" for v w
    using that unfolding kinds_eq mem_Collect_eq what_includes_table by (cases w; cases v; simp)
  ultimately show "\<exists>!w. {k. what_includes w k} = S" by metis
next
  fix k
  have "z_what_discr w = z_whatami_discr k \<and> {j. what_includes w j} = {k}"
    if "(w, k) \<in> {(W_ROUTER, WAI_ROUTER), (W_PEER, WAI_PEER), (W_CLIENT, WAI_CLIENT)}" for w
    using that unfolding kinds_eq mem_Collect_eq what_includes_table by auto
  then show "\<exists>w. z_what_discr w = z_whatami_discr k \<and> {j. what_includes w j} = {k}"
    by (cases k) blast+
qed

end
