(* ===== verification/Clock.thy ===== *)
theory Clock
  imports Memory
begin

text \<open>
  \<open>src/platform/clock.rs\<close>: the monotonic and the system clock, whose readings in nanoseconds
  (\<open>u128\<close>, a natural number here) are parameters, cut to 64 bits by \<open>as u64\<close>; and
  \<open>z_time_now_as_str\<close>, for the formatted time \<open>s\<close>. A null time is \<open>None\<close>.
\<close>

record z_clock_t =
  clock_t :: u64
  t_base :: ptr

record z_time_t =
  time_t :: u64

definition as_u64 :: "nat \<Rightarrow> u64" where
  "as_u64 n = of_nat n"

definition z_clock_now :: "ptr \<Rightarrow> nat \<Rightarrow> z_clock_t" where
  "z_clock_now base elapsed = \<lparr>clock_t = as_u64 elapsed, t_base = base\<rparr>"

definition get_elapsed_nanos :: "nat \<Rightarrow> z_clock_t option \<Rightarrow> u64" where
  "get_elapsed_nanos elapsed time = (case time of
     None \<Rightarrow> 0
   | Some c \<Rightarrow> (let now_t = as_u64 elapsed in saturating_sub now_t (clock_t c)))"

definition z_clock_elapsed_s :: "nat \<Rightarrow> z_clock_t option \<Rightarrow> u64" where
  "z_clock_elapsed_s elapsed time = get_elapsed_nanos elapsed time div 1000000000"

definition z_clock_elapsed_ms :: "nat \<Rightarrow> z_clock_t option \<Rightarrow> u64" where
  "z_clock_elapsed_ms elapsed time = get_elapsed_nanos elapsed time div 1000000"

definition z_clock_elapsed_us :: "nat \<Rightarrow> z_clock_t option \<Rightarrow> u64" where
  "z_clock_elapsed_us elapsed time = get_elapsed_nanos elapsed time div 1000"

text \<open>\<open>now\<close> is the duration since the epoch, \<open>None\<close> when the system clock is before it.\<close>

definition z_time_now :: "nat option \<Rightarrow> z_time_t" where
  "z_time_now now = \<lparr>time_t = as_u64 (case now of Some n \<Rightarrow> n | None \<Rightarrow> 0)\<rparr>"

definition get_elapsed_nanos_system_clock :: "nat option \<Rightarrow> z_time_t option \<Rightarrow> u64" where
  "get_elapsed_nanos_system_clock now time = (case time of
     None \<Rightarrow> 0
   | Some c \<Rightarrow> (let now_t = time_t (z_time_now now) in saturating_sub now_t (time_t c)))"

definition z_time_elapsed_s :: "nat option \<Rightarrow> z_time_t option \<Rightarrow> u64" where
  "z_time_elapsed_s now time = get_elapsed_nanos_system_clock now time div 1000000000"

definition z_time_elapsed_ms :: "nat option \<Rightarrow> z_time_t option \<Rightarrow> u64" where
  "z_time_elapsed_ms now time = get_elapsed_nanos_system_clock now time div 1000000"

definition z_time_elapsed_us :: "nat option \<Rightarrow> z_time_t option \<Rightarrow> u64" where
  "z_time_elapsed_us now time = get_elapsed_nanos_system_clock now time div 1000"

definition z_time_now_as_str :: "u8 list \<Rightarrow> ptr \<Rightarrow> nat \<Rightarrow> heap \<Rightarrow> (ptr \<times> heap) run" where
  "z_time_now_as_str s buf len h =
    (if len = 0 \<or> is_null buf then ret (buf, h)
     else do {
       (res, h) \<leftarrow> copy_to_c_array s buf (len - 1) h;
       h \<leftarrow> write_mem (ptr_add buf res) [0] h;
       ret (buf, h)
     })"

subsection \<open>Lemmas\<close>

lemma unat_as_u64: "n < 2 ^ 64 \<Longrightarrow> unat (as_u64 n) = n"
  by (simp add: as_u64_def unat_of_nat_usize)

lemma unat_div_const: "unat ((x :: u64) div y) = unat x div unat y"
  by (simp add: unat_div)

subsection \<open>Properties\<close>

text \<open>C35: elapsed time is the difference of the readings, rounded down to the unit. For readings of
  the monotonic clock that fit 64 bits of nanoseconds (584 years), the elapsed seconds, milliseconds
  and microseconds since a clock reading are the difference of the readings, and a reading that lies
  in the future gives zero instead of wrapping around.\<close>

theorem clock_elapsed_exact:
  assumes "a < 2 ^ 64" "b < 2 ^ 64"
  shows "unat (z_clock_elapsed_us b (Some (z_clock_now base a))) = (b - a) div 1000
    \<and> unat (z_clock_elapsed_ms b (Some (z_clock_now base a))) = (b - a) div 1000000
    \<and> unat (z_clock_elapsed_s b (Some (z_clock_now base a))) = (b - a) div 1000000000"
  using assms
  by (simp add: z_clock_elapsed_us_def z_clock_elapsed_ms_def z_clock_elapsed_s_def get_elapsed_nanos_def
      z_clock_now_def unat_div_const unat_saturating_sub unat_as_u64)

theorem clock_elapsed_exact_witness:
  "unat (z_clock_elapsed_ms 7000000 (Some (z_clock_now null 2500000))) = 4
   \<and> unat (z_clock_elapsed_ms 5 (Some (z_clock_now null 2500000))) = 0"
  using clock_elapsed_exact [of 2500000 7000000 null] clock_elapsed_exact [of 2500000 5 null] by simp

text \<open>\<open>z_time_now_as_str\<close> never writes past the buffer and always terminates the string. On a
  buffer of \<open>len > 0\<close> bytes it returns the buffer, which then holds the formatted time cut to
  \<open>len - 1\<close> bytes and a zero byte, and nothing outside the buffer changes.\<close>

lemma z_time_now_as_str_terminated:
  assumes "blocks h b = Some (k, pre @ old @ post)" "length old = len" "len > 0"
  shows "\<exists>h' rest. z_time_now_as_str s (Ptr b (length pre)) len h = ret (Ptr b (length pre), h')
    \<and> blocks h' b = Some (k, pre @ take (len - 1) s @ [0] @ rest @ post)
    \<and> length (take (len - 1) s @ [0] @ rest) = len
    \<and> (\<forall>c. c \<noteq> b \<longrightarrow> blocks h' c = blocks h c)"
proof -
  let ?m = "take (len - 1) s" and ?n = "min (len - 1) (length s)"
  have n: "length ?m = ?n" by simp
  obtain h1 where c: "copy_to_c_array s (Ptr b (length pre)) (len - 1) h = ret (?n, h1)"
      "blocks h1 b = Some (k, pre @ ?m @ drop ?n old @ post)"
      "\<forall>c. c \<noteq> b \<longrightarrow> blocks h1 c = blocks h c"
  proof (cases "len - 1 = 0 \<or> s = []")
    case True
    then have "copy_to_c_array s (Ptr b (length pre)) (len - 1) h = ret (?n, h)"
      by (auto simp: copy_to_c_array_def write_mem_def is_null_def)
    then show ?thesis using that [of h] assms True by auto
  next
    case False
    then have "copy_to_c_array s (Ptr b (length pre)) (len - 1) h = ret (?n,
        h\<lparr>blocks := (blocks h)(b \<mapsto> (k, pre @ ?m @ drop ?n old @ post))\<rparr>)"
      using assms by (auto simp: copy_to_c_array_def write_mem_def is_null_def Let_def min_def)
    then show ?thesis using that by simp
  qed
  obtain x rest where r: "drop ?n old = x # rest"
  proof -
    have "?n < length old" using assms(2,3) by (simp add: min_def) linarith
    then show ?thesis using that by (metis Cons_nth_drop_Suc)
  qed
  have len: "?n + 1 + length rest = len"
    using arg_cong [OF r, of length] assms(2) by simp
  have "write_mem (Ptr b (length pre + ?n)) [0] h1 =
      ret (h1\<lparr>blocks := (blocks h1)(b \<mapsto> (k, pre @ ?m @ [0] @ rest @ post))\<rparr>)"
    using c(2) r n by (simp add: write_mem_def is_null_def min_def)
  then show ?thesis
    using c assms(3) len by (auto simp: z_time_now_as_str_def is_null_def ptr_add_def)
qed

end
