(* ===== verification/Generics.thy ===== *)
theory Generics
  imports Preprocess
begin

text \<open>
  The generic macros of the C API: \<open>buildrs/common_helpers.rs\<close>, the signatures of
  \<open>buildrs/splitguide.rs\<close> (\<open>Ctype\<close>, \<open>FuncArg\<close>, \<open>FunctionSignature\<close>) and the part of
  \<open>buildrs/cbindgen_generator.rs\<close> that finds the functions of every owned type in the
  preprocessed header and writes \<open>zenoh_macros.h\<close>.

  The \<open>regex\<close> crate is the parameter \<open>captures\<close>: for a pattern and a text, the capture groups of
  the successive matches. \<open>extract\<close> panics when the number of groups is not the one expected, and
  so do the definitions. A second parameter, \<open>squeeze\<close>, is the replacement of runs of white space
  (\<open>multiple_spaces.replace_all\<close>). The text of zenoh's enabled features is the parameter
  \<open>FEATURES\<close>. In patterns and texts a backslash is written as a backquote, see \<open>txt_of\<close>.
\<close>

subsection \<open>Texts\<close>

definition txt_of :: "string \<Rightarrow> rstr" where
  "txt_of s = map (\<lambda>c. if c = 96 then 92 else c) (lit s)"

fun join :: "rstr \<Rightarrow> rstr list \<Rightarrow> rstr" where
  "join sep [] = []"
| "join sep [p] = p"
| "join sep (p # q # ps) = p @ sep @ join sep (q # ps)"

definition all_some :: "('a \<Rightarrow> 'b run) \<Rightarrow> 'a list \<Rightarrow> 'b list run" where
  "all_some f xs = those (map f xs)"

subsection \<open>Common helpers\<close>

text \<open>\<open>split_type_name\<close>: pfx, category, semantic part and post of \<open>z_owned_bytes_t\<close>.\<close>

definition split_type_name :: "rstr \<Rightarrow> (rstr \<times> rstr option \<times> rstr \<times> rstr) run" where
  "split_type_name type_name = (case split_char 95 type_name of
     pfx # cat # rest \<Rightarrow>
       (let category = (if cat \<noteq> lit ''owned'' \<and> cat \<noteq> lit ''loaned'' \<and> cat \<noteq> lit ''moved''
                        then None else Some cat)
        in if rest = [] then panic
           else let post = last rest;
                    prefix_cat_len = str_len pfx + 1
                      + (case category of None \<Rightarrow> 0 | Some c \<Rightarrow> str_len c + 1)
                in map_option (\<lambda>semantic. (pfx, category, semantic, post))
                     (str_range prefix_cat_len (str_len type_name - str_len post - 1) type_name))
   | _ \<Rightarrow> panic)"

definition test_feature :: "rstr \<Rightarrow> rstr \<Rightarrow> bool" where
  "test_feature FEATURES feature \<longleftrightarrow> str_contains FEATURES (lit '' zenoh/'' @ feature)"

subsection \<open>Signatures\<close>

record Ctype =
  typename :: rstr

definition Ctype_new :: "rstr \<Rightarrow> Ctype" where
  "Ctype_new s = \<lparr>typename = s\<rparr>"

definition without_cv :: "Ctype \<Rightarrow> Ctype" where
  "without_cv c = \<lparr>typename = str_replace (lit ''const '') [] (typename c)\<rparr>"

definition without_ptr :: "Ctype \<Rightarrow> Ctype" where
  "without_ptr c = \<lparr>typename = filter (\<lambda>x. x \<noteq> 42 \<and> x \<noteq> 38) (typename c)\<rparr>"

definition with_ref :: "Ctype \<Rightarrow> Ctype" where
  "with_ref c = \<lparr>typename = map (\<lambda>x. if x = 42 then 38 else x) (typename c)\<rparr>"

definition decay :: "Ctype \<Rightarrow> Ctype" where
  "decay c = without_ptr (without_cv c)"

record FuncArg =
  arg_type :: Ctype
  arg_name :: rstr

definition FuncArg_new :: "rstr \<Rightarrow> rstr \<Rightarrow> FuncArg" where
  "FuncArg_new ty n = \<lparr>arg_type = Ctype_new ty, arg_name = n\<rparr>"

record FunctionSignature =
  entity_name :: rstr
  return_type :: Ctype
  func_name :: rstr
  args :: "FuncArg list"

definition FunctionSignature_new :: "rstr \<Rightarrow> rstr \<Rightarrow> rstr \<Rightarrow> FuncArg list \<Rightarrow> FunctionSignature" where
  "FunctionSignature_new e r f a =
    \<lparr>entity_name = e, return_type = Ctype_new r, func_name = f, args = a\<rparr>"

subsection \<open>Finding the functions of the owned types\<close>

type_synonym regex = "rstr \<Rightarrow> rstr \<Rightarrow> rstr list list"

text \<open>\<open>format!("{}_{}_{}_{}*", pfx, category, semantic, post)\<close>\<close>

definition pointer_to :: "rstr \<Rightarrow> rstr \<Rightarrow> rstr \<Rightarrow> rstr \<Rightarrow> rstr" where
  "pointer_to pfx category semantic post =
    pfx @ lit ''_'' @ category @ lit ''_'' @ semantic @ lit ''_'' @ post @ lit ''*''"

definition re_move_take :: rstr where
  "re_move_take = txt_of ''(`w+)_drop`(struct (`w+) `*(`w+)`);''"

definition move_take_of :: "rstr list \<Rightarrow> (FunctionSignature \<times> FunctionSignature) run" where
  "move_take_of c = (case c of
     [func_name_prefix, aty, an] \<Rightarrow> do {
       (pfx, _, semantic, post) \<leftarrow> split_type_name aty;
       let z_owned_type = pointer_to pfx (lit ''owned'') semantic post;
       let z_moved_type = pointer_to pfx (lit ''moved'') semantic post;
       ret (FunctionSignature_new semantic z_moved_type (func_name_prefix @ lit ''_move'')
              [FuncArg_new z_owned_type an],
            FunctionSignature_new semantic (lit ''void'') (func_name_prefix @ lit ''_take'')
              [FuncArg_new z_owned_type an, FuncArg_new z_moved_type (lit ''x'')])
     }
   | _ \<Rightarrow> panic)"

definition make_move_take_signatures ::
  "regex \<Rightarrow> rstr \<Rightarrow> (FunctionSignature list \<times> FunctionSignature list) run" where
  "make_move_take_signatures captures bindings =
    map_option (\<lambda>fs. (map fst fs, map snd fs)) (all_some move_take_of (captures re_move_take bindings))"

definition re_loan :: rstr where
  "re_loan = txt_of ''const struct (`w+) `*(`w+)_loan`(const struct (`w+) `*(`w+)`);''"

definition find_loan_functions :: "regex \<Rightarrow> rstr \<Rightarrow> FunctionSignature list run" where
  "find_loan_functions captures bindings = all_some (\<lambda>c. case c of
     [rt, fn, aty, an] \<Rightarrow> do {
       (_, _, semantic, _) \<leftarrow> split_type_name aty;
       ret (FunctionSignature_new semantic (lit ''const '' @ rt @ lit ''*'') (fn @ lit ''_loan'')
              [FuncArg_new (lit ''const '' @ aty @ lit ''*'') an])
     }
   | _ \<Rightarrow> panic)
   (captures re_loan bindings)"

definition re_loan_mut :: rstr where
  "re_loan_mut = txt_of ''struct (`w+) `*(`w+)_loan_mut`(struct (`w+) `*(`w+)`);''"

definition find_loan_mut_functions :: "regex \<Rightarrow> rstr \<Rightarrow> FunctionSignature list run" where
  "find_loan_mut_functions captures bindings = all_some (\<lambda>c. case c of
     [rt, fn, aty, an] \<Rightarrow> do {
       (_, _, semantic, _) \<leftarrow> split_type_name aty;
       ret (FunctionSignature_new semantic (rt @ lit ''*'') (fn @ lit ''_loan_mut'')
              [FuncArg_new (aty @ lit ''*'') an])
     }
   | _ \<Rightarrow> panic)
   (captures re_loan_mut bindings)"

definition re_take_from_loaned :: rstr where
  "re_take_from_loaned = txt_of ''void (`w+)_take_from_loaned`(struct (`w+) `*(`w+)''"

definition find_take_from_loaned_functions :: "regex \<Rightarrow> rstr \<Rightarrow> FunctionSignature list run" where
  "find_take_from_loaned_functions captures bindings = all_some (\<lambda>c. case c of
     [fn, aty, an] \<Rightarrow> do {
       (pfx, _, semantic, post) \<leftarrow> split_type_name aty;
       let z_owned_type = pointer_to pfx (lit ''owned'') semantic post;
       let z_loaned_type = pointer_to pfx (lit ''loaned'') semantic post;
       ret (FunctionSignature_new semantic (lit ''void'') (fn @ lit ''_take_from_loaned'')
              [FuncArg_new z_owned_type an, FuncArg_new z_loaned_type (lit ''src'')])
     }
   | _ \<Rightarrow> panic)
   (captures re_take_from_loaned bindings)"

definition re_drop :: rstr where
  "re_drop = txt_of ''(.+?) +(`w+_drop)`(struct (`w+) `*(`w+)`);''"

definition find_drop_functions :: "regex \<Rightarrow> rstr \<Rightarrow> FunctionSignature list run" where
  "find_drop_functions captures bindings = all_some (\<lambda>c. case c of
     [rt, fn, aty, an] \<Rightarrow> do {
       let rt = join (lit '' '') (filter (\<lambda>x. x \<noteq> lit ''ZENOHC_API'') (split_char 32 rt));
       (_, _, semantic, _) \<leftarrow> split_type_name aty;
       ret (FunctionSignature_new semantic rt fn [FuncArg_new (aty @ lit ''*'') an])
     }
   | _ \<Rightarrow> panic)
   (captures re_drop bindings)"

definition re_null :: rstr where
  "re_null = txt_of '' (z.?_internal_`w+_null)`(struct (`w+) `*(`w+)`);''"

definition find_null_functions :: "regex \<Rightarrow> rstr \<Rightarrow> FunctionSignature list run" where
  "find_null_functions captures bindings = all_some (\<lambda>c. case c of
     [fn, aty, an] \<Rightarrow> do {
       (_, _, semantic, _) \<leftarrow> split_type_name aty;
       ret (FunctionSignature_new semantic (lit ''void'') fn [FuncArg_new (aty @ lit ''*'') an])
     }
   | _ \<Rightarrow> panic)
   (captures re_null bindings)"

definition re_check :: rstr where
  "re_check = txt_of ''bool (z.?_internal_`w+_check)`(const struct (`w+) `*(`w+)`);''"

definition find_check_functions :: "regex \<Rightarrow> rstr \<Rightarrow> FunctionSignature list run" where
  "find_check_functions captures bindings = all_some (\<lambda>c. case c of
     [fn, aty, an] \<Rightarrow> do {
       (_, _, semantic, _) \<leftarrow> split_type_name aty;
       ret (FunctionSignature_new semantic (lit ''bool'') fn
              [FuncArg_new (lit ''const '' @ aty @ lit ''*'') an])
     }
   | _ \<Rightarrow> panic)
   (captures re_check bindings)"

definition re_call :: rstr where
  "re_call = txt_of ''(`w+) (`w+)_call`(const struct (`w+) `*(`w+),`s+(`w*)`s*struct (`w+) (`*?)(`w+)`);''"

definition find_call_functions :: "regex \<Rightarrow> rstr \<Rightarrow> FunctionSignature list run" where
  "find_call_functions captures bindings = all_some (\<lambda>c. case c of
     [rt, fn, closure_type, closure_name, arg_cv, aty, arg_deref, an] \<Rightarrow> do {
       let arg_cv = (if arg_cv = [] then [] else lit ''const '');
       (_, _, semantic, _) \<leftarrow> split_type_name aty;
       ret (FunctionSignature_new semantic rt (fn @ lit ''_call'')
              [FuncArg_new (lit ''const '' @ closure_type @ lit ''*'') closure_name,
               FuncArg_new (arg_cv @ aty @ arg_deref) an])
     }
   | _ \<Rightarrow> panic)
   (captures re_call bindings)"

definition re_closure :: rstr where
  "re_closure = txt_of (''(`w+) (`w+)_closure_(`w+)`(struct`s+(`w+)`s+`*(`w+),`s+void`s+`(`*call`)(`([`s`w,`*]*`)),'' @
      ''`s+void`s+`(`*drop`)(`(.*`)),`s+void`s+`*context`);'')"

definition find_closure_constructors :: "regex \<Rightarrow> (rstr \<Rightarrow> rstr) \<Rightarrow> rstr \<Rightarrow> FunctionSignature list run" where
  "find_closure_constructors captures squeeze bindings = all_some (\<lambda>c. case c of
     [rt, pfx, sfx, closure_type, closure_name, call_signature_raw, drop_signature] \<Rightarrow> do {
       let call_signature = str_replace (lit ''struct '') [] call_signature_raw;
       let call_signature = str_replace (lit ''enum '') [] call_signature;
       let call_signature = squeeze call_signature;
       (_, _, semantic, _) \<leftarrow> split_type_name closure_type;
       ret (FunctionSignature_new semantic rt (pfx @ lit ''_closure_'' @ sfx)
              [FuncArg_new (closure_type @ lit ''*'') closure_name,
               FuncArg_new (lit ''void (*call)'' @ call_signature) (lit ''call''),
               FuncArg_new (lit ''void (*drop)'' @ drop_signature) (lit ''drop''),
               FuncArg_new (lit ''void*'') (lit ''context'')])
     }
   | _ \<Rightarrow> panic)
   (captures re_closure bindings)"

definition re_recv :: rstr where
  "re_recv = txt_of (''(`w+)`s+z_(`w+)_handler_(`w+)_recv`(const`s+struct`s+(`w+)`s+`*(`w+),'' @
      ''`s+struct`s+(`w+)`s+`*(`w+)`);'')"

definition find_recv_functions :: "regex \<Rightarrow> rstr \<Rightarrow> FunctionSignature list run" where
  "find_recv_functions captures bindings = all_some (\<lambda>c. case c of
     [rt, handler_type, value_type, arg1_type, arg1_name, arg2_type, arg2_name] \<Rightarrow> do {
       (_, _, semantic, _) \<leftarrow> split_type_name arg1_type;
       ret (FunctionSignature_new semantic rt
              (lit ''z_'' @ handler_type @ lit ''_handler_'' @ value_type @ lit ''_recv'')
              [FuncArg_new (lit ''const '' @ arg1_type @ lit ''*'') arg1_name,
               FuncArg_new (arg2_type @ lit ''*'') arg2_name])
     }
   | _ \<Rightarrow> panic)
   (captures re_recv bindings)"

definition re_clone :: rstr where
  "re_clone = txt_of ''(`w+)`s+z_(`w+)_clone`(struct`s+(`w+)`s+`*(`w+),`s+const`s+struct`s+(`w+)`s+`*(`w+)`);''"

definition find_clone_functions :: "regex \<Rightarrow> rstr \<Rightarrow> FunctionSignature list run" where
  "find_clone_functions captures bindings = all_some (\<lambda>c. case c of
     [rt, fn, dst_type, dst_name, src_type, src_name] \<Rightarrow> do {
       (_, _, semantic, _) \<leftarrow> split_type_name dst_type;
       ret (FunctionSignature_new semantic rt (lit ''z_'' @ fn @ lit ''_clone'')
              [FuncArg_new (dst_type @ lit ''*'') dst_name,
               FuncArg_new (lit ''const '' @ src_type @ lit ''*'') src_name])
     }
   | _ \<Rightarrow> panic)
   (captures re_clone bindings)"

subsection \<open>Writing the C macros\<close>

text \<open>\<open>func.args[i]\<close>, which panics out of range.\<close>

definition arg_at :: "FunctionSignature \<Rightarrow> nat \<Rightarrow> FuncArg run" where
  "arg_at f i = (if i < length (args f) then ret (args f ! i) else panic)"

text \<open>The association of one function in a \<open>_Generic\<close> selection.\<close>

definition generic_assoc :: "bool \<Rightarrow> FunctionSignature \<Rightarrow> rstr run" where
  "generic_assoc dec func = do {
     a \<leftarrow> arg_at func 0;
     let owned_type = (if dec then typename (decay (arg_type a)) else typename (arg_type a));
     ret (txt_of '', `\<newline>'' @ lit ''        '' @ owned_type @ lit '' : '' @ func_name func)
   }"

definition generate_generic_c :: "FunctionSignature list \<Rightarrow> rstr \<Rightarrow> bool \<Rightarrow> rstr run" where
  "generate_generic_c macro_func generic_name dec = (case macro_func of
     [] \<Rightarrow> panic
   | first # _ \<Rightarrow> do {
       let va_args = list_ex (\<lambda>f. length (args f) \<noteq> length (args first)) macro_func;
       let names = map arg_name (args first);
       first_name \<leftarrow> map_option arg_name (arg_at first 0);
       let out = (if va_args
                  then lit ''#define '' @ generic_name @ lit ''('' @ join (lit '', '') names
                       @ txt_of '', ...) `\<newline>        _Generic(('' @ first_name @ lit '')''
                  else lit ''#define '' @ generic_name @ lit ''('' @ join (lit '', '') names
                       @ txt_of '') `\<newline>    _Generic(('' @ first_name @ lit '')'');
       let names = (if dec then names[0 := lit ''&'' @ first_name] else names);
       assocs \<leftarrow> all_some (generic_assoc dec) macro_func;
       let out = out @ concat assocs @ txt_of '' `\<newline>'';
       ret (if va_args then out @ lit ''    )('' @ join (lit '', '') names @ lit '', __VA_ARGS__)''
            else out @ lit ''    )('' @ join (lit '', '') names @ lit '')'')
     })"

definition generate_generic_loan_c :: "FunctionSignature list \<Rightarrow> rstr run" where
  "generate_generic_loan_c macro_func = generate_generic_c macro_func (lit ''z_loan'') True"

definition generate_generic_loan_mut_c :: "FunctionSignature list \<Rightarrow> rstr run" where
  "generate_generic_loan_mut_c macro_func = generate_generic_c macro_func (lit ''z_loan_mut'') True"

definition generate_generic_move_c :: "FunctionSignature list \<Rightarrow> rstr run" where
  "generate_generic_move_c macro_func = generate_generic_c macro_func (lit ''z_move'') True"

definition generate_generic_take_c :: "FunctionSignature list \<Rightarrow> rstr run" where
  "generate_generic_take_c macro_func = generate_generic_c macro_func (lit ''z_take'') False"

definition generate_generic_take_from_loaned_c :: "FunctionSignature list \<Rightarrow> rstr run" where
  "generate_generic_take_from_loaned_c macro_func =
    generate_generic_c macro_func (lit ''z_take_from_loaned'') False"

definition generate_generic_drop_c :: "FunctionSignature list \<Rightarrow> rstr run" where
  "generate_generic_drop_c macro_func = generate_generic_c macro_func (lit ''z_drop'') False"

definition generate_generic_clone_c :: "FunctionSignature list \<Rightarrow> rstr run" where
  "generate_generic_clone_c macro_func = generate_generic_c macro_func (lit ''z_clone'') False"

definition generate_generic_null_c :: "FunctionSignature list \<Rightarrow> rstr run" where
  "generate_generic_null_c macro_func = generate_generic_c macro_func (lit ''z_internal_null'') False"

definition generate_generic_check_c :: "FunctionSignature list \<Rightarrow> rstr run" where
  "generate_generic_check_c macro_func = generate_generic_c macro_func (lit ''z_internal_check'') True"

definition generate_generic_call_c :: "FunctionSignature list \<Rightarrow> rstr run" where
  "generate_generic_call_c macro_func = generate_generic_c macro_func (lit ''z_call'') False"

text \<open>The inline function that takes the contents of a moved object and leaves the gravestone.\<close>

definition take_function :: "FunctionSignature \<Rightarrow> rstr run" where
  "take_function sig = do {
     a0 \<leftarrow> arg_at sig 0;
     (pfx, _, semantic, _) \<leftarrow> split_type_name (typename (arg_type a0));
     a1 \<leftarrow> arg_at sig 1;
     ret (lit ''static inline void '' @ func_name sig @ lit ''('' @ typename (arg_type a0) @ lit '' '' @ arg_name a0
       @ lit '', '' @ typename (arg_type a1) @ lit '' '' @ arg_name a1 @ lit '') { *'' @ arg_name a0 @ lit '' = ''
       @ arg_name a1 @ lit ''->_this; '' @ pfx @ lit ''_internal_'' @ semantic @ lit ''_null(&'' @ arg_name a1
       @ lit ''->_this); }\<newline>'')
   }"

definition generate_take_functions :: "FunctionSignature list \<Rightarrow> rstr run" where
  "generate_take_functions macro_func = map_option concat (all_some take_function macro_func)"

definition generate_move_functions_c :: "FunctionSignature list \<Rightarrow> rstr run" where
  "generate_move_functions_c macro_func = map_option concat (all_some (\<lambda>sig. do {
     a0 \<leftarrow> arg_at sig 0;
     ret (lit ''static inline '' @ typename (return_type sig) @ lit '' '' @ func_name sig @ lit ''(''
       @ typename (arg_type a0) @ lit '' x) { return ('' @ typename (return_type sig) @ lit '')(x); }\<newline>'')
   }) macro_func)"

definition generate_move_functions_cpp :: "FunctionSignature list \<Rightarrow> rstr run" where
  "generate_move_functions_cpp macro_func = map_option concat (all_some (\<lambda>sig. do {
     a0 \<leftarrow> arg_at sig 0;
     ret (lit ''static inline '' @ typename (return_type sig) @ lit '' '' @ func_name sig @ lit ''(''
       @ typename (arg_type a0) @ lit '' x) { return reinterpret_cast<'' @ typename (return_type sig)
       @ lit ''>(x); }\<newline>'')
   }) macro_func)"

definition generate_generic_closure_c :: "FunctionSignature list \<Rightarrow> rstr run" where
  "generate_generic_closure_c macro_func = do {
     ts \<leftarrow> all_some (\<lambda>f. do {
       let callback_typename = func_name f @ lit ''_callback_t'';
       a1 \<leftarrow> arg_at f 1;
       let prototype = str_replace (lit '' (*call)'') (lit ''(*'' @ callback_typename @ lit '')'')
             (typename (arg_type a1));
       ret (lit ''typedef '' @ prototype @ lit '';\<newline>'')
     }) macro_func;
     g \<leftarrow> generate_generic_c macro_func (lit ''z_closure'') False;
     ret (lit ''typedef void(*z_closure_drop_callback_t)(void *context);\<newline>'' @ concat ts @ lit ''\<newline>'' @ g)
   }"

definition generate_generic_recv_c :: "FunctionSignature list \<Rightarrow> rstr run" where
  "generate_generic_recv_c macro_func = do {
     let try_recv_funcs = filter (\<lambda>f. str_contains (func_name f) (lit ''try_recv'')) macro_func;
     let recv_funcs = filter (\<lambda>f. \<not> str_contains (func_name f) (lit ''try_recv'')) macro_func;
     t \<leftarrow> generate_generic_c try_recv_funcs (lit ''z_try_recv'') False;
     r \<leftarrow> generate_generic_c recv_funcs (lit ''z_recv'') False;
     ret (t @ lit ''\<newline>\<newline>'' @ r)
   }"

subsection \<open>Writing the C++ overloads\<close>

text \<open>The parameters after the first, \<open>for i in 1..func.args.len()\<close>.\<close>

fun cpp_params :: "nat \<Rightarrow> FuncArg list \<Rightarrow> rstr" where
  "cpp_params i [] = []"
| "cpp_params i (a # as) =
    (if i mod 2 = 0 then lit '',\<newline>    '' else lit '', '')
    @ typename (arg_type a) @ lit '' '' @ arg_name a @ cpp_params (Suc i) as"

definition cpp_overload :: "rstr \<Rightarrow> bool \<Rightarrow> rstr \<Rightarrow> rstr \<Rightarrow> FunctionSignature \<Rightarrow> rstr run" where
  "cpp_overload generic_name dec body_start body_end func = do {
     a0 \<leftarrow> arg_at func 0;
     let rt = typename (return_type func);
     let aty = (if dec then typename (with_ref (arg_type a0)) else typename (arg_type a0));
     let x = (if dec then lit ''&'' @ arg_name a0 else arg_name a0);
     ret (lit ''\<newline>'' @ lit ''inline '' @ rt @ lit '' '' @ generic_name @ lit ''('' @ aty @ lit '' '' @ arg_name a0
       @ cpp_params 1 (tl (args func)) @ lit '') {'' @ body_start
       @ (if rt \<noteq> lit ''void'' then lit ''return '' else [])
       @ func_name func @ lit ''('' @ x @ concat (map (\<lambda>a. lit '', '' @ arg_name a) (tl (args func)))
       @ lit '');'' @ body_end @ lit ''};'')
   }"

definition generate_generic_cpp :: "FunctionSignature list \<Rightarrow> rstr \<Rightarrow> bool \<Rightarrow> rstr run" where
  "generate_generic_cpp macro_func generic_name dec =
    (let (body_start, body_end) =
           (if list_ex (\<lambda>f. 1 < length (args f)) macro_func then (lit ''\<newline>    '', lit ''\<newline>'')
            else (lit '' '', lit '' ''))
     in map_option concat (all_some (cpp_overload generic_name dec body_start body_end) macro_func))"

definition generate_generic_loan_cpp :: "FunctionSignature list \<Rightarrow> rstr run" where
  "generate_generic_loan_cpp macro_func = generate_generic_cpp macro_func (lit ''z_loan'') True"

text \<open>The loop of \<open>generate_generic_loan_to_owned_type_cpp\<close>; \<open>dn\<close> holds the processed types.\<close>

fun loan_to_owned_types :: "rstr list \<Rightarrow> FunctionSignature list \<Rightarrow> rstr run" where
  "loan_to_owned_types dn [] = ret []"
| "loan_to_owned_types dn (f # fs) =
    (let loaned = typename (without_ptr (without_cv (return_type f))) in
     if loaned \<in> set dn then loan_to_owned_types dn fs
     else do {
       a0 \<leftarrow> arg_at f 0;
       let owned = typename (without_ptr (without_cv (arg_type a0)));
       rest \<leftarrow> loan_to_owned_types (loaned # dn) fs;
       ret (if str_contains owned (lit ''view'') then rest
            else lit ''\<newline>template<> struct z_loaned_to_owned_type_t<'' @ loaned @ lit ''> { typedef '' @ owned
              @ lit '' type; };\<newline>template<> struct z_owned_to_loaned_type_t<'' @ owned @ lit ''> { typedef ''
              @ loaned @ lit '' type; };'' @ rest)
     })"

definition generate_generic_loan_to_owned_type_cpp :: "FunctionSignature list \<Rightarrow> rstr run" where
  "generate_generic_loan_to_owned_type_cpp macro_func =
    map_option (\<lambda>out. lit ''template<class T> struct z_loaned_to_owned_type_t {};\<newline>''
        @ lit ''template<class T> struct z_owned_to_loaned_type_t {};'' @ out)
      (loan_to_owned_types [] macro_func)"

definition generate_generic_loan_mut_cpp :: "FunctionSignature list \<Rightarrow> rstr run" where
  "generate_generic_loan_mut_cpp macro_func = generate_generic_cpp macro_func (lit ''z_loan_mut'') True"

definition generate_generic_drop_cpp :: "FunctionSignature list \<Rightarrow> rstr run" where
  "generate_generic_drop_cpp macro_func = generate_generic_cpp macro_func (lit ''z_drop'') False"

definition generate_generic_move_cpp :: "FunctionSignature list \<Rightarrow> rstr run" where
  "generate_generic_move_cpp macro_func = generate_generic_cpp macro_func (lit ''z_move'') True"

definition generate_generic_take_cpp :: "FunctionSignature list \<Rightarrow> rstr run" where
  "generate_generic_take_cpp macro_func = generate_generic_cpp macro_func (lit ''z_take'') False"

definition generate_generic_take_from_loaned_cpp :: "FunctionSignature list \<Rightarrow> rstr run" where
  "generate_generic_take_from_loaned_cpp macro_func =
    generate_generic_cpp macro_func (lit ''z_take_from_loaned'') False"

definition generate_generic_null_cpp :: "FunctionSignature list \<Rightarrow> rstr run" where
  "generate_generic_null_cpp macro_func = generate_generic_cpp macro_func (lit ''z_internal_null'') False"

definition generate_generic_check_cpp :: "FunctionSignature list \<Rightarrow> rstr run" where
  "generate_generic_check_cpp macro_func = generate_generic_cpp macro_func (lit ''z_internal_check'') True"

definition generate_generic_call_cpp :: "FunctionSignature list \<Rightarrow> rstr run" where
  "generate_generic_call_cpp macro_func = generate_generic_cpp macro_func (lit ''z_call'') False"

definition generate_generic_clone_cpp :: "FunctionSignature list \<Rightarrow> rstr run" where
  "generate_generic_clone_cpp macro_func = generate_generic_cpp macro_func (lit ''z_clone'') False"

definition generate_generic_recv_cpp :: "FunctionSignature list \<Rightarrow> rstr run" where
  "generate_generic_recv_cpp macro_func = do {
     let try_recv_funcs = filter (\<lambda>f. str_contains (func_name f) (lit ''try_recv'')) macro_func;
     let recv_funcs = filter (\<lambda>f. \<not> str_contains (func_name f) (lit ''try_recv'')) macro_func;
     t \<leftarrow> generate_generic_cpp try_recv_funcs (lit ''z_try_recv'') False;
     r \<leftarrow> generate_generic_cpp recv_funcs (lit ''z_recv'') False;
     ret (t @ lit ''\<newline>\<newline>'' @ r)
   }"

definition set_arg_type :: "nat \<Rightarrow> rstr \<Rightarrow> FunctionSignature \<Rightarrow> FunctionSignature" where
  "set_arg_type i ty f = f\<lparr>args := (args f)[i := (args f ! i)\<lparr>arg_type := \<lparr>typename = ty\<rparr>\<rparr>]\<rparr>"

definition generate_generic_closure_cpp :: "FunctionSignature list \<Rightarrow> rstr run" where
  "generate_generic_closure_cpp macro_func = do {
     ps \<leftarrow> all_some (\<lambda>f. do {
       a1 \<leftarrow> arg_at f 1;
       let prototype = str_replace (lit '' (*'' @ arg_name a1 @ lit '')'') [] (typename (arg_type a1));
       let callback_typename = func_name f @ lit ''_callback_t'';
       _ \<leftarrow> arg_at f 2;
       ret (lit ''extern \"C\" using '' @ callback_typename @ lit '' = '' @ prototype @ lit '';\<newline>'',
            set_arg_type 2 (lit ''z_closure_drop_callback_t*'') (set_arg_type 1 (callback_typename @ lit ''*'') f))
     }) macro_func;
     g \<leftarrow> generate_generic_cpp (map snd ps) (lit ''z_closure'') False;
     ret (lit ''extern \"C\" using z_closure_drop_callback_t = void(void* context);\<newline>''
       @ concat (map fst ps) @ g)
   }"

subsection \<open>The header of the generic macros\<close>

text \<open>The set of the entities of a list of signatures.\<close>

definition entities :: "FunctionSignature list \<Rightarrow> rstr set" where
  "entities fs = set (map entity_name fs)"

record generic_functions =
  move_funcs :: "FunctionSignature list"
  take_funcs :: "FunctionSignature list"
  loan_funcs :: "FunctionSignature list"
  loan_mut_funcs :: "FunctionSignature list"
  take_from_loaned_funcs :: "FunctionSignature list"
  drop_funcs :: "FunctionSignature list"
  null_funcs :: "FunctionSignature list"
  check_funcs :: "FunctionSignature list"
  call_funcs :: "FunctionSignature list"
  closure_constructors :: "FunctionSignature list"
  recv_funcs :: "FunctionSignature list"
  clone_funcs :: "FunctionSignature list"

definition collect_functions :: "regex \<Rightarrow> (rstr \<Rightarrow> rstr) \<Rightarrow> rstr \<Rightarrow> generic_functions run" where
  "collect_functions captures squeeze bindings = do {
     (moves, takes) \<leftarrow> make_move_take_signatures captures bindings;
     loans \<leftarrow> find_loan_functions captures bindings;
     loan_muts \<leftarrow> find_loan_mut_functions captures bindings;
     take_from_loaneds \<leftarrow> find_take_from_loaned_functions captures bindings;
     drops \<leftarrow> find_drop_functions captures bindings;
     nulls \<leftarrow> find_null_functions captures bindings;
     checks \<leftarrow> find_check_functions captures bindings;
     calls \<leftarrow> find_call_functions captures bindings;
     closures \<leftarrow> find_closure_constructors captures squeeze bindings;
     recvs \<leftarrow> find_recv_functions captures bindings;
     clones \<leftarrow> find_clone_functions captures bindings;
     ret \<lparr>move_funcs = moves, take_funcs = takes, loan_funcs = loans, loan_mut_funcs = loan_muts,
       take_from_loaned_funcs = take_from_loaneds, drop_funcs = drops, null_funcs = nulls,
       check_funcs = checks, call_funcs = calls, closure_constructors = closures, recv_funcs = recvs,
       clone_funcs = clones\<rparr>
   }"

text \<open>The check that every droppable entity has its functions and nothing else has.\<close>

definition functions_complete :: "generic_functions \<Rightarrow> bool" where
  "functions_complete fs \<longleftrightarrow>
     (let drops = entities (drop_funcs fs)
      in drops = entities (null_funcs fs) \<and> drops = entities (check_funcs fs)
         \<and> drops = entities (move_funcs fs) \<and> drops = entities (take_funcs fs))"

definition generics_c_part :: "generic_functions \<Rightarrow> rstr list run" where
  "generics_c_part fs = those [
     generate_move_functions_c (move_funcs fs), generate_generic_loan_c (loan_funcs fs),
     generate_generic_loan_mut_c (loan_mut_funcs fs), generate_generic_drop_c (drop_funcs fs),
     generate_generic_move_c (move_funcs fs), generate_generic_null_c (null_funcs fs),
     generate_take_functions (take_funcs fs), generate_generic_take_c (take_funcs fs),
     generate_generic_take_from_loaned_c (take_from_loaned_funcs fs),
     generate_generic_check_c (check_funcs fs), generate_generic_call_c (call_funcs fs),
     generate_generic_closure_c (closure_constructors fs), generate_generic_recv_c (recv_funcs fs),
     generate_generic_clone_c (clone_funcs fs)]"

definition generics_cpp_part :: "generic_functions \<Rightarrow> rstr list run" where
  "generics_cpp_part fs = those [
     generate_move_functions_cpp (move_funcs fs), generate_generic_loan_cpp (loan_funcs fs),
     generate_generic_loan_mut_cpp (loan_mut_funcs fs), generate_generic_drop_cpp (drop_funcs fs),
     generate_generic_move_cpp (move_funcs fs), generate_generic_null_cpp (null_funcs fs),
     generate_take_functions (take_funcs fs), generate_generic_take_cpp (take_funcs fs),
     generate_generic_take_from_loaned_cpp (take_from_loaned_funcs fs),
     generate_generic_check_cpp (check_funcs fs), generate_generic_call_cpp (call_funcs fs),
     generate_generic_closure_cpp (closure_constructors fs), generate_generic_recv_cpp (recv_funcs fs),
     generate_generic_clone_cpp (clone_funcs fs),
     generate_generic_loan_to_owned_type_cpp (loan_funcs fs @ loan_mut_funcs fs)]"

definition create_generics_header :: "regex \<Rightarrow> (rstr \<Rightarrow> rstr) \<Rightarrow> rstr \<Rightarrow> rstr run" where
  "create_generics_header captures squeeze bindings = do {
     fs \<leftarrow> collect_functions captures squeeze bindings;
     if \<not> functions_complete fs then panic
     else do {
       c_part \<leftarrow> generics_c_part fs;
       cpp_part \<leftarrow> generics_cpp_part fs;
       ret (lit ''#pragma once\<newline>// clang-format off\<newline>\<newline>'' @ lit ''\<newline>#ifndef __cplusplus\<newline>\<newline>''
         @ join (lit ''\<newline>\<newline>'') c_part
         @ lit ''\<newline>#else  // #ifndef __cplusplus\<newline>'' @ lit ''\<newline>\<newline>''
         @ join (lit ''\<newline>\<newline>'') cpp_part
         @ lit ''\<newline>#endif  // #ifndef __cplusplus\<newline>\<newline>'')
     }
   }"

subsection \<open>The configuration header\<close>

text \<open>\<open>str::trim\<close>\<close>

definition trim :: "rstr \<Rightarrow> rstr" where
  "trim s = rev (dropWhile is_whitespace (rev (dropWhile is_whitespace s)))"

text \<open>\<open>configure\<close>: the text of \<open>zenoh_configure.h\<close> from the contents of \<open>version.txt\<close>, the upper-case
  name of the target architecture and the feature test. (The features are written in the order of
  the map's iterator, which is not specified; here it is the order of the source.)\<close>

definition configure :: "(rstr \<Rightarrow> bool) \<Rightarrow> rstr \<Rightarrow> rstr \<Rightarrow> rstr run" where
  "configure tf arch version =
    (let version = trim version; version_parts = split_char 46 version
     in if length version_parts < 3 then panic
        else
          let major = version_parts ! 0; minor = version_parts ! 1; patch = version_parts ! 2;
              tweak = (if 3 < length version_parts then lit '' '' @ version_parts ! 3 else [])
          in ret (lit ''#pragma once\<newline>#define ZENOH_C \"'' @ version @ lit ''\"\<newline>#define ZENOH_C_MAJOR '' @ major
            @ lit ''\<newline>#define ZENOH_C_MINOR '' @ minor @ lit ''\<newline>#define ZENOH_C_PATCH '' @ patch
            @ lit ''\<newline>#define ZENOH_C_TWEAK'' @ tweak @ lit ''\<newline>\<newline>#define TARGET_ARCH_'' @ arch @ lit ''\<newline>''
            @ concat (map (\<lambda>(rust_feature, c_feature).
                if tf rust_feature then lit ''#define '' @ c_feature @ lit ''\<newline>'' else []) RUST_TO_C_FEATURES)))"

subsection \<open>Lemmas\<close>

lemma those_iff: "those xs = Some ys \<longleftrightarrow> xs = map Some ys"
  by (induction xs arbitrary: ys) (auto split: option.splits)

lemma all_some_iff: "all_some f xs = Some ys \<longleftrightarrow> map f xs = map Some ys"
  by (simp add: all_some_def those_iff)

lemma all_some_member:
  "all_some f xs = Some ys \<Longrightarrow> x \<in> set xs \<Longrightarrow> \<exists>y \<in> set ys. f x = Some y"
  unfolding all_some_iff by (metis (no_types, opaque_lifting) ex_map_conv list.set_map image_iff)

lemma sublist_concat: "p \<in> set ps \<Longrightarrow> sublist p (concat ps)"
  by (metis concat.simps(2) concat_append split_list sublist_appendI)

lemma sublist_join: "p \<in> set ps \<Longrightarrow> sublist p (join sep ps)"
proof (induction sep ps rule: join.induct)
  case (3 sep a b ps)
  then show ?case
    by (metis join.simps(3) set_ConsD sublist_appendI append_Nil sublist_append)
qed auto

lemma split_char_length: "split_char c (s @ c # q) \<noteq> [] \<and> tl (split_char c (s @ c # q)) \<noteq> []"
  by (induction s) (auto simp: concat_split_char split: list.splits)

lemma last_split_char: "c \<notin> set q \<Longrightarrow> last (split_char c (s @ c # q)) = q"
proof (induction s)
  case (Cons x s)
  then show ?case using split_char_length [of c s q] by (cases "split_char c (s @ c # q)") auto
qed (simp add: split_char_no_sep)

text \<open>The pieces of a text at a character, put together again.\<close>

lemma split_char_Cons: "split_char c s = p # r # rs \<Longrightarrow> \<exists>s'. s = p @ c # s' \<and> split_char c s' = r # rs"
proof (induction s arbitrary: p)
  case (Cons x s)
  then show ?case by (cases "x = c") (fastforce split: list.splits)+
qed simp

lemma split_char_pieces: "p \<in> set (split_char c s) \<Longrightarrow> c \<notin> set p"
  by (induction s arbitrary: p) (auto split: list.splits if_splits)

lemma split_char_last: "tl (split_char c s) \<noteq> [] \<Longrightarrow> \<exists>s'. s = s' @ c # last (split_char c s)"
proof (induction s)
  case (Cons x s)
  show ?case
  proof (cases "tl (split_char c s) = []")
    case True
    then obtain p where p: "split_char c s = [p]" using concat_split_char [of c s] by (cases "split_char c s") auto
    then have "s = p" using split_char_join [of c s] by simp
    then show ?thesis using p Cons.prems by (auto split: if_splits)
  next
    case False
    then obtain s' where "s = s' @ c # last (split_char c s)" using Cons.IH by auto
    then have "x # s = (x # s') @ c # last (split_char c (x # s))"
      using False concat_split_char [of c s] by (cases "split_char c s") auto
    then show ?thesis by blast
  qed
qed simp

definition is_category :: "rstr \<Rightarrow> bool" where
  "is_category k \<longleftrightarrow> k = lit ''owned'' \<or> k = lit ''loaned'' \<or> k = lit ''moved''"

definition type_name_of :: "rstr \<Rightarrow> rstr option \<Rightarrow> rstr \<Rightarrow> rstr \<Rightarrow> rstr" where
  "type_name_of p c s q = p @ lit ''_'' @ (case c of None \<Rightarrow> [] | Some k \<Rightarrow> k @ lit ''_'') @ s @ lit ''_'' @ q"

lemma split_type_name_of:
  assumes "95 \<notin> set p" "95 \<notin> set q" "is_category k"
  shows "split_type_name (type_name_of p (Some k) s q) = ret (p, Some k, s, q)"
proof -
  have "95 \<notin> set k" using assms(3) by (auto simp: is_category_def)
  then have pieces: "split_char 95 (p @ 95 # k @ 95 # s @ 95 # q) = p # k # split_char 95 (s @ 95 # q)"
    using assms by (simp add: split_char_append)
  have "str_range (str_len p + 1 + (str_len k + 1)) (str_len (p @ 95 # k @ 95 # s @ 95 # q) - str_len q - 1)
      ((p @ 95 # k @ [95]) @ s @ 95 # q) = ret s"
    by (rule str_range_append) simp_all
  then show ?thesis
    using pieces assms(2,3) split_char_length [of 95 s q] last_split_char [of 95 q s]
    by (auto simp: split_type_name_def type_name_of_def is_category_def Let_def)
qed

lemma str_to_unique: "str_to (str_len p) s = ret p' \<Longrightarrow> s = p @ q \<Longrightarrow> p' = p"
  by simp

lemma str_range_pieces:
  assumes "str_range (str_len u) (str_len w) s = ret m" "s = u @ r" "s = w @ v"
  shows "w = u @ m"
proof -
  have "str_to (str_len w) s = ret w" using assms(3) by simp
  then have "str_from (str_len u) w = ret m" using assms(1) by (simp add: str_range_def split: if_splits)
  then obtain u' where u': "w = u' @ m" "str_len u = str_len u'" by (auto simp: str_from_iff)
  have "str_to (str_len u) s = ret u" using assms(2) by simp
  moreover have "str_to (str_len u) s = ret u'" using u' assms(3) by simp
  ultimately show ?thesis using u' by simp
qed

lemma split_type_name_eq:
  assumes "split_type_name tn = ret (p, c, s, q)"
  shows "tn = type_name_of p c s q \<and> 95 \<notin> set p \<and> 95 \<notin> set q \<and> (\<forall>k. c = Some k \<longrightarrow> is_category k)"
proof -
  obtain cat rest where ps: "split_char 95 tn = p # cat # rest" "rest \<noteq> []" "q = last rest"
    and c: "c = (if is_category cat then Some cat else None)"
    and m: "str_range (str_len p + 1 + (case c of None \<Rightarrow> 0 | Some c \<Rightarrow> str_len c + 1))
              (str_len tn - str_len q - 1) tn = ret s"
    using assms unfolding split_type_name_def is_category_def
    by (auto split: list.splits if_splits simp: Let_def)
  obtain t' where t': "tn = p @ 95 # t'" "split_char 95 t' = cat # rest" using split_char_Cons [OF ps(1)] by blast
  then obtain t'' where t'': "t' = cat @ 95 # t''"
    using ps(2) split_char_Cons [of 95 t' cat] by (cases rest) auto
  obtain w where w: "tn = w @ 95 # q" using split_char_last [of 95 tn] ps by auto
  have b: "str_len tn - str_len q - 1 = str_len w" using w by simp
  define u where "u = p @ 95 # (case c of None \<Rightarrow> [] | Some k \<Rightarrow> k @ [95])"
  have a: "str_len p + 1 + (case c of None \<Rightarrow> 0 | Some c \<Rightarrow> str_len c + 1) = str_len u"
    by (simp add: u_def split: option.splits)
  have "\<exists>r. tn = u @ r" using t' t'' c by (auto simp: u_def)
  then have "w = u @ s" using str_range_pieces [OF m [unfolded a b]] w by blast
  moreover have "95 \<notin> set p" "95 \<notin> set q" using ps split_char_pieces [of _ 95 tn] by auto
  ultimately show ?thesis using w c by (auto simp: type_name_of_def u_def split: option.splits)
qed

subsection \<open>Properties of names and features\<close>

text \<open>Taking a type name apart and putting it together are inverse. Whenever \<open>split_type_name\<close>
  returns, the parts joined by underscores are the name again and neither the prefix nor the postfix
  contains an underscore; and a name put together from such a prefix and postfix and one of the
  categories splits into exactly its parts. So the \<open>moved\<close> and \<open>loaned\<close> names the generator derives
  from an \<open>owned\<close> name differ from it in the category only.\<close>

lemma split_type_name_roundtrip:
  "(split_type_name tn = ret (p, Some k, s, q)) =
     (tn = type_name_of p (Some k) s q \<and> 95 \<notin> set p \<and> 95 \<notin> set q \<and> is_category k)"
  using split_type_name_of split_type_name_eq [of tn p "Some k" s q] by blast

text \<open>The text of zenoh's features: every enabled feature after a space and the crate's name.\<close>

definition features_text :: "rstr list \<Rightarrow> rstr" where
  "features_text fs = concat (map (\<lambda>f. lit '' zenoh/'' @ f) fs)"

lemma str_contains_iff: "str_contains s pat \<longleftrightarrow> (\<exists>u v. s = u @ pat @ v)"
proof (induction s)
  case Nil
  then show ?case by (auto simp: str_contains_def)
next
  case (Cons c s)
  have "(\<exists>u v. c # s = u @ pat @ v) \<longleftrightarrow> starts_with pat (c # s) \<or> (\<exists>u v. s = u @ pat @ v)"
    unfolding starts_with_iff by (auto simp: Cons_eq_append_conv)
  then show ?case using Cons.IH by (auto simp: str_contains_def)
qed

lemma features_text_occurrence:
  assumes "\<forall>g \<in> set fs. 32 \<notin> set g" "32 \<notin> set f"
    and "features_text fs = u @ (lit '' zenoh/'' @ f) @ v"
  shows "\<exists>g \<in> set fs. prefix f g"
  using assms
proof (induction fs arbitrary: u)
  case (Cons g fs)
  let ?z = "lit ''zenoh/''"
  have z: "lit '' zenoh/'' = 32 # ?z" "32 \<notin> set (?z @ g)" using Cons.prems(1) by auto
  have T: "features_text fs = [] \<or> (\<exists>r. features_text fs = 32 # r)"
    by (cases fs) (auto simp: features_text_def)
  have eq: "32 # (?z @ g) @ features_text fs = u @ 32 # ?z @ f @ v"
    using Cons.prems(3) by (simp add: features_text_def)
  show ?case
  proof (cases u)
    case Nil
    then have "g @ features_text fs = f @ v" using eq by simp
    then obtain x where "g = f @ x \<or> f = g @ x \<and> features_text fs = x @ v"
      by (auto simp: append_eq_append_conv2)
    then show ?thesis using T Cons.prems(2) by (cases x) (auto simp: prefix_def)
  next
    case (Cons y u')
    then have "(?z @ g) @ features_text fs = u' @ 32 # ?z @ f @ v" using eq by simp
    then obtain x where "?z @ g = u' @ x \<and> x @ features_text fs = 32 # ?z @ f @ v
        \<or> (?z @ g) @ x = u' \<and> features_text fs = x @ 32 # ?z @ f @ v"
      unfolding append_eq_append_conv2 by blast
    then have "\<exists>x. features_text fs = x @ 32 # ?z @ f @ v"
    proof (elim disjE conjE)
      assume a: "?z @ g = u' @ x" "x @ features_text fs = 32 # ?z @ f @ v"
      then have "x = []" using z(2) by (cases x) auto
      then show ?thesis using a(2) by (auto intro: exI [of _ "[]"])
    qed blast
    then show ?thesis using Cons.IH Cons.prems by (auto simp: z(1))
  qed
qed (simp add: features_text_def)

text \<open>What the feature test really tests. For features without spaces, \<open>test_feature\<close> accepts a
  name exactly when an enabled feature \<^emph>\<open>starts\<close> with it.\<close>

lemma test_feature_prefix:
  assumes "\<forall>g \<in> set fs. 32 \<notin> set g" "32 \<notin> set f"
  shows "test_feature (features_text fs) f \<longleftrightarrow> (\<exists>g \<in> set fs. prefix f g)"
proof
  assume "test_feature (features_text fs) f"
  then show "\<exists>g \<in> set fs. prefix f g"
    using features_text_occurrence [OF assms] by (auto simp: test_feature_def str_contains_iff)
next
  assume "\<exists>g \<in> set fs. prefix f g"
  then obtain g r as bs where "fs = as @ g # bs" "g = f @ r" by (metis prefixE split_list)
  then have "features_text fs = features_text as @ (lit '' zenoh/'' @ f) @ r @ features_text bs"
    by (simp add: features_text_def)
  then show "test_feature (features_text fs) f" unfolding test_feature_def str_contains_iff by blast
qed

text \<open>The feature \<open>transport_quic\<close> counts as enabled when only \<open>transport_quic_datagram\<close> is.\<close>

subsection \<open>The associations of a generic macro\<close>

text \<open>The type by which a macro selects a function.\<close>

definition selector :: "bool \<Rightarrow> FunctionSignature \<Rightarrow> rstr" where
  "selector dec f = typename ((if dec then decay else id) (arg_type (hd (args f))))"

text \<open>The association on a line of a macro, if it has one: eight spaces, a type, a colon, a function.\<close>

definition parse_assoc :: "rstr \<Rightarrow> (rstr \<times> rstr) option" where
  "parse_assoc line = (if starts_with (lit ''        '') line
     then map_option (\<lambda>ty. (ty, takeWhile (\<lambda>c. c \<noteq> 32 \<and> c \<noteq> 44) (drop (8 + length ty + 3) line)))
            (before_first (lit '' : '') (drop 8 line))
     else None)"

definition macro_assocs :: "rstr \<Rightarrow> (rstr \<times> rstr) list" where
  "macro_assocs out = List.map_filter parse_assoc (split_char 10 out)"

text \<open>Signatures as the regular expressions yield them: at least one argument, names of word
  characters, types without line breaks and colons.\<close>

definition wf_sig :: "FunctionSignature \<Rightarrow> bool" where
  "wf_sig f \<longleftrightarrow> args f \<noteq> [] \<and> list_all (\<lambda>a. 10 \<notin> set (arg_name a) \<and> 58 \<notin> set (arg_name a)) (args f)
     \<and> 10 \<notin> set (typename (arg_type (hd (args f)))) \<and> 58 \<notin> set (typename (arg_type (hd (args f))))
     \<and> {10, 32, 44} \<inter> set (func_name f) = {}"

lemma set_str_replace_nil: "set (str_replace pat [] s) \<subseteq> set s"
proof (induction pat "[] :: rstr" s rule: str_replace.induct)
  case (2 pat c s)
  have "set (drop (length pat) (c # s)) \<subseteq> set (c # s)" by (rule set_drop_subset)
  then show ?case using 2 by auto
qed simp

lemma selector_chars:
  assumes "wf_sig f" shows "10 \<notin> set (selector dec f)" "58 \<notin> set (selector dec f)"
  using assms set_str_replace_nil [of "lit ''const ''" "typename (arg_type (hd (args f)))"]
  by (auto simp: selector_def wf_sig_def decay_def without_ptr_def without_cv_def)

lemma before_first_colon: "58 \<notin> set ty \<Longrightarrow> before_first (lit '' : '') (ty @ lit '' : '' @ r) = Some ty"
proof (induction ty)
  case (Cons c ty)
  have "\<not> starts_with (lit '' : '') ((c # ty) @ lit '' : '' @ r)" using Cons.prems by (cases ty) auto
  then show ?case using Cons by simp
qed simp

lemma before_first_no_colon: "58 \<notin> set l \<Longrightarrow> before_first (lit '' : '') l = None"
  by (induction l) (auto simp: starts_with_iff)

lemma drop_length_append: "drop (length p) (p @ q) = q"
  by simp

lemma parse_assoc_line:
  assumes "58 \<notin> set ty" "{32, 44} \<inter> set fn = {}" "e = lit '', '' @ r \<or> e = lit '' '' @ r"
  shows "parse_assoc (lit ''        '' @ ty @ lit '' : '' @ fn @ e) = Some (ty, fn)"
proof -
  have "takeWhile (\<lambda>c. c \<noteq> 32 \<and> c \<noteq> 44) (fn @ e) = fn"
    using assms(2,3) by (auto simp: takeWhile_append)
  moreover have "drop (length (lit ''        '' @ ty @ lit '' : '')) ((lit ''        '' @ ty @ lit '' : '') @ fn @ e) = fn @ e"
    by (rule drop_length_append)
  then have "drop (8 + length ty + 3) (lit ''        '' @ ty @ lit '' : '' @ fn @ e) = fn @ e"
    by (simp del: lit_simps)
  ultimately show ?thesis
    using before_first_colon [OF assms(1), of "fn @ e"]
    by (simp del: lit_simps add: parse_assoc_def)
qed

lemma parse_assoc_no_colon: "58 \<notin> set l \<Longrightarrow> parse_assoc l = None"
  using before_first_no_colon [of "drop 8 l"] in_set_dropD [of 58 8 l] by (auto simp: parse_assoc_def)

text \<open>The lines of a text made of a first line and continuation lines.\<close>

fun macro_lines :: "rstr \<Rightarrow> rstr \<Rightarrow> rstr \<Rightarrow> rstr list \<Rightarrow> rstr list" where
  "macro_lines sep e x [] = [x @ e]"
| "macro_lines sep e x (l # ls) = (x @ sep) # macro_lines sep e l ls"

lemma split_macro_lines:
  "10 \<notin> set x \<Longrightarrow> \<forall>l \<in> set ls. 10 \<notin> set l \<Longrightarrow> 10 \<notin> set sep \<Longrightarrow> 10 \<notin> set e \<Longrightarrow> 10 \<notin> set z \<Longrightarrow>
   split_char 10 (x @ concat (map (\<lambda>l. sep @ 10 # l) ls) @ e @ 10 # z) = macro_lines sep e x ls @ [z]"
proof (induction ls arbitrary: x)
  case Nil
  then show ?case using split_char_append [of 10 "x @ e" z] by (simp add: split_char_no_sep)
next
  case (Cons l ls)
  then show ?case
    using split_char_append [of 10 "x @ sep" "l @ concat (map (\<lambda>l. sep @ 10 # l) ls) @ e @ 10 # z"] by simp
qed

lemma map_filter_join: "List.map_filter f (xs @ ys) = List.map_filter f xs @ List.map_filter f ys"
  by (simp add: List.map_filter_def)

lemma map_filter_macro_lines:
  assumes "\<forall>f \<in> set fs. parse_assoc (l f @ sep) = Some (g f) \<and> parse_assoc (l f @ e) = Some (g f)"
  shows "List.map_filter parse_assoc (macro_lines sep e x (map l fs))
    = List.map_filter parse_assoc [x @ (if fs = [] then e else sep)] @ map g fs"
  using assms by (induction fs arbitrary: x) (simp_all add: map_filter_simps split: option.splits)

lemma join_chars: "c \<notin> set sep \<Longrightarrow> \<forall>p \<in> set ps. c \<notin> set p \<Longrightarrow> c \<notin> set (join sep ps)"
  by (induction sep ps rule: join.induct) auto

lemma macro_assocs_text:
  assumes "10 \<notin> set d" "\<not> starts_with (lit '' '') d" "10 \<notin> set x" "58 \<notin> set x" "10 \<notin> set z"
    and "\<not> starts_with (lit ''        '') z"
    and "\<forall>f \<in> set fs. 58 \<notin> set (ty f) \<and> 10 \<notin> set (ty f) \<and> {10, 32, 44} \<inter> set (fn f) = {}"
  shows "macro_assocs (d @ 10 # x
      @ concat (map (\<lambda>f. txt_of '', `\<newline>'' @ lit ''        '' @ ty f @ lit '' : '' @ fn f) fs)
      @ txt_of '' `\<newline>'' @ z) = map (\<lambda>f. (ty f, fn f)) fs"
proof -
  let ?l = "\<lambda>f. lit ''        '' @ ty f @ lit '' : '' @ fn f"
  let ?sep = "txt_of '', `''" and ?e = "txt_of '' `''"
  have sep: "txt_of '', `\<newline>'' = ?sep @ [10]" "txt_of '' `\<newline>'' = ?e @ [10]"
    "?sep = lit '', '' @ [92]" "?e = lit '' '' @ [92]"
    by (simp_all add: txt_of_def)
  have nl: "\<forall>l \<in> set (map ?l fs). 10 \<notin> set l" using assms(7) by auto
  have "split_char 10 (d @ 10 # x @ concat (map (\<lambda>f. txt_of '', `\<newline>'' @ ?l f) fs) @ txt_of '' `\<newline>'' @ z)
      = d # macro_lines ?sep ?e x (map ?l fs) @ [z]"
    using split_macro_lines [of x "map ?l fs" ?sep ?e z] nl assms(1,3,5)
    by (simp add: split_char_append sep comp_def)
  moreover have "parse_assoc d = None" using assms(2) by (auto simp: parse_assoc_def starts_with_iff)
  moreover have "parse_assoc z = None" using assms(6) by (simp add: parse_assoc_def)
  moreover have "parse_assoc (x @ ?sep) = None" "parse_assoc (x @ ?e) = None"
    using assms(4) by (simp_all add: parse_assoc_no_colon sep)
  moreover have "parse_assoc (?l f @ ?sep) = Some (ty f, fn f)" "parse_assoc (?l f @ ?e) = Some (ty f, fn f)"
    if "f \<in> set fs" for f
    using parse_assoc_line [of "ty f" "fn f" ?sep "[92]"] parse_assoc_line [of "ty f" "fn f" ?e "[92]"]
      assms(7) that sep(3,4) by fastforce+
  ultimately show ?thesis
    using map_filter_macro_lines [of fs ?l ?sep "\<lambda>f. (ty f, fn f)" ?e x]
    by (simp add: macro_assocs_def map_filter_simps map_filter_join)
qed

lemma generic_assoc_wf:
  "wf_sig f \<Longrightarrow> generic_assoc dec f
    = ret (txt_of '', `\<newline>'' @ lit ''        '' @ selector dec f @ lit '' : '' @ func_name f)"
  by (cases "args f") (auto simp: generic_assoc_def arg_at_def wf_sig_def selector_def)

lemma generate_generic_c_text:
  assumes "list_all wf_sig (first # fs)" "10 \<notin> set name"
  shows "\<exists>d x z. generate_generic_c (first # fs) name dec = ret (d @ 10 # x
        @ concat (map (\<lambda>f. txt_of '', `\<newline>'' @ lit ''        '' @ selector dec f @ lit '' : '' @ func_name f) (first # fs))
        @ txt_of '' `\<newline>'' @ z)
    \<and> 10 \<notin> set d \<and> \<not> starts_with (lit '' '') d \<and> 10 \<notin> set x \<and> 58 \<notin> set x \<and> 10 \<notin> set z
    \<and> \<not> starts_with (lit ''        '') z"
proof -
  let ?assoc = "\<lambda>f. txt_of '', `\<newline>'' @ lit ''        '' @ selector dec f @ lit '' : '' @ func_name f"
  let ?va = "list_ex (\<lambda>f. length (args f) \<noteq> length (args first)) (first # fs)"
  let ?names = "map arg_name (args first)"
  let ?n0 = "arg_name (hd (args first))"
  let ?names' = "if dec then ?names[0 := lit ''&'' @ ?n0] else ?names"
  let ?d = "lit ''#define '' @ name @ lit ''('' @ join (lit '', '') ?names @ txt_of (if ?va then '', ...) `'' else '') `'')"
  let ?x = "lit (if ?va then ''        _Generic(('' else ''    _Generic(('') @ ?n0 @ lit '')''"
  let ?z = "lit ''    )('' @ join (lit '', '') ?names' @ lit (if ?va then '', __VA_ARGS__)'' else '')'')"
  have all: "wf_sig f" if "f \<in> set (first # fs)" for f using assms(1) that by (auto simp: list_all_iff)
  have first: "args first \<noteq> []" "\<forall>n \<in> set ?names. 10 \<notin> set n \<and> 58 \<notin> set n"
    using all [of first] by (auto simp: wf_sig_def list_all_iff)
  then have n0: "?n0 \<in> set ?names" "arg_at first 0 = ret (hd (args first))"
    by (auto simp: arg_at_def hd_conv_nth)
  have names': "\<forall>n \<in> set ?names'. 10 \<notin> set n"
    using first n0 set_update_subset_insert [of ?names 0 "lit ''&'' @ ?n0"] by auto
  have "all_some (generic_assoc dec) (first # fs) = ret (map ?assoc (first # fs))"
    unfolding all_some_iff using all generic_assoc_wf by auto
  then have "generate_generic_c (first # fs) name dec
      = ret (?d @ 10 # ?x @ concat (map ?assoc (first # fs)) @ txt_of '' `\<newline>'' @ ?z)"
    using n0(2) by (simp add: generate_generic_c_def txt_of_def Let_def)
  moreover have "10 \<notin> set ?d" using first(2) assms(2) join_chars [of 10 "lit '', ''" ?names]
    by (auto simp: txt_of_def)
  moreover have "10 \<notin> set ?x" "58 \<notin> set ?x" using n0 first(2) by auto
  moreover have "10 \<notin> set ?z" using names' join_chars [of 10 "lit '', ''" ?names'] by auto
  ultimately show ?thesis
    by (intro exI [of _ ?d] exI [of _ ?x] exI [of _ ?z] conjI) simp_all
qed

text \<open>C37: a generic macro dispatches every function by the type of its first argument. For any
  non-empty list of signatures as the regular expressions yield them, the generator returns a macro,
  and reading its lines back gives exactly the associations from the (decayed) type of each
  function's first argument to that function, in order: none is lost and nothing else is there.\<close>

theorem generic_macro_dispatch:
  assumes "macro_func \<noteq> []" "list_all wf_sig macro_func" "10 \<notin> set generic_name"
  shows "\<exists>out. generate_generic_c macro_func generic_name dec = ret out
    \<and> macro_assocs out = map (\<lambda>f. (selector dec f, func_name f)) macro_func"
proof -
  obtain first fs where mf: "macro_func = first # fs" using assms(1) by (cases macro_func) auto
  have "\<forall>f \<in> set (first # fs). 58 \<notin> set (selector dec f) \<and> 10 \<notin> set (selector dec f)
      \<and> {10, 32, 44} \<inter> set (func_name f) = {}"
  proof
    fix f assume "f \<in> set (first # fs)"
    then have "wf_sig f" using assms(2) unfolding mf list_all_iff by blast
    then show "58 \<notin> set (selector dec f) \<and> 10 \<notin> set (selector dec f) \<and> {10, 32, 44} \<inter> set (func_name f) = {}"
      using selector_chars [of f dec] by (simp add: wf_sig_def)
  qed
  note chars = this
  obtain d x z where g: "generate_generic_c (first # fs) generic_name dec = ret (d @ 10 # x
        @ concat (map (\<lambda>f. txt_of '', `\<newline>'' @ lit ''        '' @ selector dec f @ lit '' : '' @ func_name f) (first # fs))
        @ txt_of '' `\<newline>'' @ z)" (is "_ = ret ?out")
    and dxz: "10 \<notin> set d" "\<not> starts_with (lit '' '') d" "10 \<notin> set x" "58 \<notin> set x" "10 \<notin> set z"
      "\<not> starts_with (lit ''        '') z"
    using generate_generic_c_text [of first fs generic_name dec] assms(2,3) unfolding mf by blast
  have "macro_assocs ?out = map (\<lambda>f. (selector dec f, func_name f)) (first # fs)"
    by (rule macro_assocs_text) (fact dxz chars)+
  then show ?thesis using g unfolding mf by blast
qed

definition demo_sig :: "string \<Rightarrow> string \<Rightarrow> FunctionSignature" where
  "demo_sig ty fn = FunctionSignature_new [] (lit ''void'') (lit fn) [FuncArg_new (lit ty) (lit ''this_'')]"

theorem generic_macro_dispatch_witness:
  "\<exists>out. generate_generic_c [demo_sig ''const z_owned_bytes_t*'' ''z_bytes_loan'', demo_sig ''z_owned_slice_t*'' ''z_slice_loan'']
      (lit ''z_loan'') True = ret out
    \<and> macro_assocs out = [(lit ''z_owned_bytes_t'', lit ''z_bytes_loan''), (lit ''z_owned_slice_t'', lit ''z_slice_loan'')]"
proof -
  have "selector True (demo_sig ''const z_owned_bytes_t*'' ''z_bytes_loan'') = lit ''z_owned_bytes_t''"
    "selector True (demo_sig ''z_owned_slice_t*'' ''z_slice_loan'') = lit ''z_owned_slice_t''" by code_simp+
  moreover have "list_all wf_sig [demo_sig ''const z_owned_bytes_t*'' ''z_bytes_loan'', demo_sig ''z_owned_slice_t*'' ''z_slice_loan'']"
    by code_simp
  moreover have "func_name (demo_sig ty fn) = lit fn" for ty fn
    by (simp add: demo_sig_def FunctionSignature_new_def)
  ultimately show ?thesis
    using generic_macro_dispatch [of "[demo_sig ''const z_owned_bytes_t*'' ''z_bytes_loan'', demo_sig ''z_owned_slice_t*'' ''z_slice_loan'']"
        "lit ''z_loan''" True] by (simp del: lit_simps add: lit_def)
qed

subsection \<open>The header as a whole\<close>

lemma generics_c_part_members:
  assumes "generics_c_part fs = ret parts"
  shows "\<exists>ts ms. generate_take_functions (take_funcs fs) = ret ts \<and> ts \<in> set parts
    \<and> generate_move_functions_c (move_funcs fs) = ret ms \<and> ms \<in> set parts"
proof -
  have "generate_take_functions (take_funcs fs) \<in> set (map Some parts)"
    "generate_move_functions_c (move_funcs fs) \<in> set (map Some parts)"
    using assms unfolding generics_c_part_def those_iff by (metis list.set_intros)+
  then show ?thesis by auto
qed

lemma in_middle: "x = a @ b @ m @ r \<Longrightarrow> \<exists>u v. x = u @ m @ v"
  by (intro exI [of _ "a @ b"] exI [of _ r]) simp

lemma create_generics_header_parts:
  assumes "create_generics_header captures squeeze b = ret out"
  shows "\<exists>fs ts ms. collect_functions captures squeeze b = ret fs \<and> functions_complete fs
    \<and> generate_take_functions (take_funcs fs) = ret ts \<and> sublist ts out
    \<and> generate_move_functions_c (move_funcs fs) = ret ms \<and> sublist ms out"
proof -
  obtain fs c_part cpp_part where fs: "collect_functions captures squeeze b = ret fs" "functions_complete fs"
    and c: "generics_c_part fs = ret c_part" and cpp: "generics_cpp_part fs = ret cpp_part"
    using assms unfolding create_generics_header_def
    by (auto simp del: lit_simps simp: bind_eq_Some_conv split: if_splits)
  then have "\<exists>u v. out = u @ join (lit ''\<newline>\<newline>'') c_part @ v"
    using assms unfolding create_generics_header_def
    by (simp del: lit_simps) (rule in_middle, erule sym)
  then obtain u v where out: "out = u @ join (lit ''\<newline>\<newline>'') c_part @ v" by blast
  have "sublist t out" if "t \<in> set c_part" for t
    using sublist_join [OF that] out by (metis sublist_appendI sublist_order.order_trans)
  then show ?thesis using generics_c_part_members [OF c] fs by blast
qed

text \<open>The inline functions of an entity, from its \<open>drop\<close>.\<close>

definition take_text :: "rstr \<Rightarrow> rstr \<Rightarrow> rstr \<Rightarrow> rstr \<Rightarrow> rstr \<Rightarrow> rstr" where
  "take_text fn an p s q = lit ''static inline void '' @ fn @ lit ''_take('' @ pointer_to p (lit ''owned'') s q @ lit '' '' @ an
     @ lit '', '' @ pointer_to p (lit ''moved'') s q @ lit '' x) { *'' @ an @ lit '' = x->_this; '' @ p @ lit ''_internal_''
     @ s @ lit ''_null(&x->_this); }\<newline>''"

definition move_text :: "rstr \<Rightarrow> rstr \<Rightarrow> rstr \<Rightarrow> rstr \<Rightarrow> rstr" where
  "move_text fn p s q = lit ''static inline '' @ pointer_to p (lit ''moved'') s q @ lit '' '' @ fn @ lit ''_move'' @ lit ''(''
     @ pointer_to p (lit ''owned'') s q @ lit '' x) { return ('' @ pointer_to p (lit ''moved'') s q @ lit '')(x); }\<newline>''"

lemma split_pointer_to:
  assumes "95 \<notin> set p" "95 \<notin> set q" "is_category k"
  shows "split_type_name (pointer_to p k s q) = ret (p, Some k, s, q @ lit ''*'')"
proof -
  have "pointer_to p k s q = type_name_of p (Some k) s (q @ lit ''*'')"
    by (simp add: pointer_to_def type_name_of_def)
  then show ?thesis using split_type_name_of [of p "q @ lit ''*''" k s] assms by simp
qed

lemma move_take_of_eq:
  assumes "move_take_of [fn, aty, an] = ret (mv, tk)"
  shows "\<exists>p c s q. split_type_name aty = ret (p, c, s, q) \<and> entity_name mv = s \<and> entity_name tk = s
    \<and> take_function tk = ret (take_text fn an p s q)
    \<and> arg_at mv 0 = ret (FuncArg_new (pointer_to p (lit ''owned'') s q) an)
    \<and> typename (return_type mv) = pointer_to p (lit ''moved'') s q \<and> func_name mv = fn @ lit ''_move''"
proof -
  obtain p c s q where sp: "split_type_name aty = ret (p, c, s, q)"
    using assms by (auto simp: move_take_of_def bind_eq_Some_conv)
  have "split_type_name (pointer_to p (lit ''owned'') s q) = ret (p, Some (lit ''owned''), s, q @ lit ''*'')"
    using split_type_name_eq [OF sp] by (intro split_pointer_to) (simp_all add: is_category_def)
  then show ?thesis
    using assms sp unfolding move_take_of_def
    by (auto simp del: lit_simps simp: Let_def take_function_def arg_at_def FunctionSignature_new_def
        FuncArg_new_def Ctype_new_def take_text_def) (simp add: append_assoc)?
qed

lemma collect_functions_parts:
  assumes "collect_functions captures squeeze b = ret fs"
  shows "make_move_take_signatures captures b = ret (move_funcs fs, take_funcs fs)
    \<and> find_null_functions captures b = ret (null_funcs fs) \<and> find_check_functions captures b = ret (check_funcs fs)
    \<and> find_drop_functions captures b = ret (drop_funcs fs)"
  using assms unfolding collect_functions_def by (auto simp: bind_eq_Some_conv)

lemma move_functions_member:
  assumes "generate_move_functions_c mf = ret ms" "mv \<in> set mf" "arg_at mv 0 = ret (FuncArg_new ty an)"
  shows "sublist (lit ''static inline '' @ typename (return_type mv) @ lit '' '' @ func_name mv @ lit ''('' @ ty
    @ lit '' x) { return ('' @ typename (return_type mv) @ lit '')(x); }\<newline>'') ms"
proof -
  obtain ts where ts: "ms = concat ts" and a: "all_some (\<lambda>sig. do {
     a0 \<leftarrow> arg_at sig 0;
     ret (lit ''static inline '' @ typename (return_type sig) @ lit '' '' @ func_name sig @ lit ''(''
       @ typename (arg_type a0) @ lit '' x) { return ('' @ typename (return_type sig) @ lit '')(x); }\<newline>'')
   }) mf = ret ts"
    using assms(1) unfolding generate_move_functions_c_def map_option_eq_Some by blast
  show ?thesis
    using all_some_member [OF a assms(2)] assms(3) sublist_concat
    unfolding ts by (auto simp del: lit_simps simp: FuncArg_new_def Ctype_new_def)
qed

text \<open>C36: a header that is written is complete. If \<open>create_generics_header\<close> returns, then for every
  entity whose \<open>drop\<close> the header declares: the type name splits; the header has the inline \<open>take\<close>,
  which copies the moved object out and resets it by the null function of that entity, and the
  inline \<open>move\<close>, both between the owned and the moved type of the entity; and the entity has a drop,
  a null and a check function. Conversely every null or check function is of an entity with a drop.\<close>

theorem generics_header_complete:
  assumes "create_generics_header captures squeeze b = ret out"
    and "[fn, aty, an] \<in> set (captures re_move_take b)"
  shows "\<exists>fs p c s q. collect_functions captures squeeze b = ret fs \<and> split_type_name aty = ret (p, c, s, q)
    \<and> sublist (take_text fn an p s q) out \<and> sublist (move_text fn p s q) out
    \<and> s \<in> entities (drop_funcs fs) \<and> s \<in> entities (null_funcs fs) \<and> s \<in> entities (check_funcs fs)
    \<and> entities (null_funcs fs) = entities (drop_funcs fs) \<and> entities (check_funcs fs) = entities (drop_funcs fs)"
proof -
  obtain fs ts ms where fs: "collect_functions captures squeeze b = ret fs" "functions_complete fs"
    and ts: "generate_take_functions (take_funcs fs) = ret ts" "sublist ts out"
    and ms: "generate_move_functions_c (move_funcs fs) = ret ms" "sublist ms out"
    using create_generics_header_parts [OF assms(1)] by blast
  obtain mts where mts: "all_some move_take_of (captures re_move_take b) = ret mts"
    "move_funcs fs = map fst mts" "take_funcs fs = map snd mts"
    using collect_functions_parts [OF fs(1)] by (auto simp: make_move_take_signatures_def)
  obtain mv tk where m: "(mv, tk) \<in> set mts" "move_take_of [fn, aty, an] = ret (mv, tk)"
    using all_some_member [OF mts(1) assms(2)] by auto
  then have mem: "mv \<in> set (move_funcs fs)" "tk \<in> set (take_funcs fs)" using mts by force+
  obtain p c s q where p: "split_type_name aty = ret (p, c, s, q)" "entity_name mv = s"
      "take_function tk = ret (take_text fn an p s q)"
      "arg_at mv 0 = ret (FuncArg_new (pointer_to p (lit ''owned'') s q) an)"
      "typename (return_type mv) = pointer_to p (lit ''moved'') s q" "func_name mv = fn @ lit ''_move''"
    using move_take_of_eq [OF m(2)] by blast
  obtain tts where tts: "ts = concat tts" "all_some take_function (take_funcs fs) = ret tts"
    using ts(1) unfolding generate_take_functions_def map_option_eq_Some by blast
  then have "take_text fn an p s q \<in> set tts" using all_some_member [OF tts(2) mem(2)] p(3) by auto
  then have "sublist (take_text fn an p s q) out"
    using sublist_concat ts(2) sublist_order.order_trans unfolding tts(1) by blast
  moreover have "sublist (move_text fn p s q) out"
    using move_functions_member [OF ms(1) mem(1) p(4)] ms(2) unfolding p(5,6) move_text_def append_assoc
    by (rule sublist_order.order_trans)
  moreover have "s \<in> entities (move_funcs fs)" using mem(1) p(2) by (auto simp: entities_def)
  ultimately show ?thesis using fs p(1) unfolding functions_complete_def Let_def by blast
qed

text \<open>A header with one entity of each kind.\<close>

definition demo_captures :: regex where
  "demo_captures pat b = map (map lit)
    (if pat = re_move_take then [[''z_bytes'', ''z_owned_bytes_t'', ''this_'']]
     else if pat = re_loan then [[''z_loaned_bytes_t'', ''z_bytes'', ''z_owned_bytes_t'', ''this_'']]
     else if pat = re_loan_mut then [[''z_loaned_bytes_t'', ''z_bytes'', ''z_owned_bytes_t'', ''this_'']]
     else if pat = re_take_from_loaned then [[''z_bytes'', ''z_owned_bytes_t'', ''dst'']]
     else if pat = re_drop then [[''ZENOHC_API void'', ''z_bytes_drop'', ''z_owned_bytes_t'', ''this_'']]
     else if pat = re_null then [[''z_internal_bytes_null'', ''z_owned_bytes_t'', ''this_'']]
     else if pat = re_check then [[''z_internal_bytes_check'', ''z_owned_bytes_t'', ''this_'']]
     else if pat = re_call then
       [[''void'', ''z_closure_hello'', ''z_loaned_closure_hello_t'', ''closure'', [], ''z_loaned_hello_t'', ''*'', ''hello'']]
     else if pat = re_closure then
       [[''void'', ''z'', ''hello'', ''z_owned_closure_hello_t'', ''this_'', ''(void *h)'', ''(void *c)'']]
     else if pat = re_recv then
       [[''z_result_t'', ''fifo'', ''query_try'', ''z_loaned_fifo_handler_query_t'', ''this_'', ''z_owned_query_t'', ''q''],
        [''z_result_t'', ''fifo'', ''query'', ''z_loaned_fifo_handler_query_t'', ''this_'', ''z_owned_query_t'', ''q'']]
     else if pat = re_clone then [[''void'', ''bytes'', ''z_owned_bytes_t'', ''dst'', ''z_loaned_bytes_t'', ''this_'']]
     else [])"

lemma demo_header: "create_generics_header demo_captures (\<lambda>s. s) [] \<noteq> None"
  by code_simp

theorem generics_header_complete_witness:
  "\<exists>out. create_generics_header demo_captures (\<lambda>s. s) [] = ret out
    \<and> sublist (take_text (lit ''z_bytes'') (lit ''this_'') (lit ''z'') (lit ''bytes'') (lit ''t'')) out"
proof -
  obtain out where out: "create_generics_header demo_captures (\<lambda>s. s) [] = ret out" using demo_header by auto
  have m: "[lit ''z_bytes'', lit ''z_owned_bytes_t'', lit ''this_''] \<in> set (demo_captures re_move_take [])"
    by (simp del: lit_simps add: demo_captures_def)
  have "split_type_name (lit ''z_owned_bytes_t'') = ret (lit ''z'', Some (lit ''owned''), lit ''bytes'', lit ''t'')"
    by code_simp
  then show ?thesis using generics_header_complete [OF out m] out by auto
qed

end
