(* ===== verification/Bytes.thy ===== *)
theory Bytes
  imports Slices
begin

text \<open>
  \<open>src/zbytes.rs\<close>: the payload type of the C API, its readers and writers.

  \<open>ZBytes\<close>, \<open>ZBytesReader\<close> and \<open>ZBytesWriter\<close> are zenoh's: their operations are the fields of the
  records \<open>zbytes_ops\<close>, \<open>reader_ops\<close> and \<open>writer_ops\<close>, arguments of the functions that use them.
  A payload refers to the slices it was made of, so reading it needs the memory. A function that
  constructs into uninitialised memory returns what it writes; \<open>None\<close> is a location left as it was.
\<close>

subsection \<open>The operations of zenoh\<close>

record ('z, 'm) zbytes_ops =
  zb_default :: 'z
  zb_from_slice :: "cslice \<Rightarrow> 'z"
  zb_is_empty :: "'z \<Rightarrow> bool"
  zb_len :: "'z \<Rightarrow> usize"
  zb_clone :: "'z \<Rightarrow> 'z"
  zb_to_bytes :: "'z \<Rightarrow> heap \<Rightarrow> u8 list run"
  zb_borrowed :: "'z \<Rightarrow> (ptr \<times> usize) option"
  zb_try_to_string :: "'z \<Rightarrow> heap \<Rightarrow> u8 list option run"
  zb_as_shm :: "'z \<Rightarrow> 'm option"
  zb_from_shm :: "'m \<Rightarrow> 'z"

text \<open>\<open>std::io::SeekFrom\<close>, and the \<open>Read\<close> and \<open>Seek\<close> operations of a reader: \<open>None\<close> is \<open>Err\<close>. The
  bytes that \<open>read\<close> puts at the start of a buffer of the given length are its result.\<close>

datatype seek_from = SeekStart u64 | SeekCurrent "64 word" | SeekEnd "64 word"

record 'r reader_ops =
  rd_read :: "'r \<Rightarrow> nat \<Rightarrow> u8 list option \<times> 'r"
  rd_seek :: "'r \<Rightarrow> seek_from \<Rightarrow> u64 option \<times> 'r"
  rd_stream_position :: "'r \<Rightarrow> u64 option \<times> 'r"
  rd_remaining :: "'r \<Rightarrow> usize"

record ('w, 'z) writer_ops =
  wr_new :: 'w
  wr_write_all :: "'w \<Rightarrow> u8 list \<Rightarrow> unit option \<times> 'w"
  wr_append :: "'w \<Rightarrow> 'z \<Rightarrow> 'w"
  wr_finish :: "'w \<Rightarrow> 'z"

subsection \<open>Payloads\<close>

definition ZBytes_gravestone :: "('z, 'm) zbytes_ops \<Rightarrow> 'z" where
  "ZBytes_gravestone Z = zb_default Z"

definition ZBytes_is_gravestone :: "('z, 'm) zbytes_ops \<Rightarrow> 'z \<Rightarrow> bool" where
  "ZBytes_is_gravestone Z this = zb_is_empty Z this"

definition z_internal_bytes_null :: "('z, 'm) zbytes_ops \<Rightarrow> 'z" where
  "z_internal_bytes_null Z = zb_default Z"

definition z_bytes_empty :: "('z, 'm) zbytes_ops \<Rightarrow> 'z" where
  "z_bytes_empty Z = zb_default Z"

definition z_bytes_drop :: "('z, 'm) zbytes_ops \<Rightarrow> ('z \<Rightarrow> 'w \<Rightarrow> 'w run) \<Rightarrow> 'z \<Rightarrow> 'w \<Rightarrow> ('z \<times> 'w) run" where
  "z_bytes_drop Z d this w = moved_drop (ZBytes_gravestone Z) d this w"

definition z_internal_bytes_check :: "('z, 'm) zbytes_ops \<Rightarrow> 'z \<Rightarrow> bool" where
  "z_internal_bytes_check Z this \<longleftrightarrow> \<not> zb_is_empty Z this"

definition z_bytes_loan :: "'z \<Rightarrow> 'z" where
  "z_bytes_loan this = this"

definition z_bytes_loan_mut :: "'z \<Rightarrow> 'z" where
  "z_bytes_loan_mut this = this"

definition z_bytes_is_empty :: "('z, 'm) zbytes_ops \<Rightarrow> 'z \<Rightarrow> bool" where
  "z_bytes_is_empty Z this = zb_is_empty Z this"

definition z_bytes_clone :: "('z, 'm) zbytes_ops \<Rightarrow> 'z \<Rightarrow> 'z" where
  "z_bytes_clone Z this = zb_clone Z this"

definition z_bytes_len :: "('z, 'm) zbytes_ops \<Rightarrow> 'z \<Rightarrow> usize" where
  "z_bytes_len Z this = zb_len Z this"

definition z_bytes_to_string :: "('z, 'm) zbytes_ops \<Rightarrow> 'z \<Rightarrow> heap \<Rightarrow> (z_result_t \<times> cslice \<times> heap) run" where
  "z_bytes_to_string Z this h = do {
     r \<leftarrow> zb_try_to_string Z this h;
     case r of
       Some s \<Rightarrow> (let (cs, h) = CString_from_string s h in ret (Z_OK, cs, h))
     | None \<Rightarrow> ret (Z_EINVAL, CSlice_gravestone, h)
   }"

definition z_bytes_to_slice :: "('z, 'm) zbytes_ops \<Rightarrow> 'z \<Rightarrow> heap \<Rightarrow> (z_result_t \<times> cslice \<times> heap) run" where
  "z_bytes_to_slice Z this h = do {
     v \<leftarrow> zb_to_bytes Z this h;
     let (s, h) = CSlice_from_vec v h;
     ret (Z_OK, s, h)
   }"

text \<open>\<open>to_owned\<close> shares the buffer.\<close>

definition z_bytes_to_owned_shm :: "('z, 'm) zbytes_ops \<Rightarrow> 'z \<Rightarrow> z_result_t \<times> 'm option" where
  "z_bytes_to_owned_shm Z this = (case zb_as_shm Z this of
     Some s \<Rightarrow> (Z_OK, Some s) | None \<Rightarrow> (Z_EINVAL, None))"

definition z_bytes_as_loaned_shm :: "('z, 'm) zbytes_ops \<Rightarrow> 'z \<Rightarrow> z_result_t \<times> 'm option" where
  "z_bytes_as_loaned_shm Z this = (case zb_as_shm Z this of
     Some s \<Rightarrow> (Z_OK, Some s) | None \<Rightarrow> (Z_EINVAL, None))"

definition z_bytes_as_mut_loaned_shm :: "('z, 'm) zbytes_ops \<Rightarrow> 'z \<Rightarrow> z_result_t \<times> 'm option" where
  "z_bytes_as_mut_loaned_shm Z this = (case zb_as_shm Z this of
     Some s \<Rightarrow> (Z_OK, Some s) | None \<Rightarrow> (Z_EINVAL, None))"

text \<open>\<open>ZSliceBuffer::as_slice\<close>, by which zenoh reads a slice of the C API, and the conversions of a
  slice or string to a payload.\<close>

definition CSlice_as_slice :: "cslice \<Rightarrow> heap \<Rightarrow> u8 list run" where
  "CSlice_as_slice s h = CSlice_slice s h"

definition ZBytes_from_CSlice :: "('z, 'm) zbytes_ops \<Rightarrow> cslice \<Rightarrow> 'z" where
  "ZBytes_from_CSlice Z s = zb_from_slice Z s"

definition z_bytes_from_slice :: "('z, 'm) zbytes_ops \<Rightarrow> cslice \<Rightarrow> 'z \<times> cslice" where
  "z_bytes_from_slice Z slot =
    (let (s, slot) = take_rust_type CSlice_gravestone slot in (ZBytes_from_CSlice Z s, slot))"

definition z_bytes_copy_from_slice :: "('z, 'm) zbytes_ops \<Rightarrow> cslice \<Rightarrow> heap \<Rightarrow> ('z \<times> heap) run" where
  "z_bytes_copy_from_slice Z s h = map_option (\<lambda>(s, h). (ZBytes_from_CSlice Z s, h)) (clone_to_owned s h)"

definition bytes_or_default :: "('z, 'm) zbytes_ops \<Rightarrow> z_result_t + cslice \<Rightarrow> z_result_t \<times> 'z" where
  "bytes_or_default Z r = (case r of
     Inr s \<Rightarrow> (Z_OK, ZBytes_from_CSlice Z s) | Inl _ \<Rightarrow> (Z_EINVAL, zb_default Z))"

definition z_bytes_from_buf :: "('z, 'm) zbytes_ops \<Rightarrow> ptr \<Rightarrow> usize \<Rightarrow> user_fn option \<Rightarrow> ptr \<Rightarrow> z_result_t \<times> 'z" where
  "z_bytes_from_buf Z d l dl ctx = bytes_or_default Z (CSlice_new d l (map_option UserDrop dl) ctx)"

definition z_bytes_from_static_buf :: "('z, 'm) zbytes_ops \<Rightarrow> ptr \<Rightarrow> usize \<Rightarrow> z_result_t \<times> 'z" where
  "z_bytes_from_static_buf Z d l = bytes_or_default Z (CSlice_new d l None null)"

definition z_bytes_copy_from_buf :: "('z, 'm) zbytes_ops \<Rightarrow> ptr \<Rightarrow> usize \<Rightarrow> heap \<Rightarrow> (z_result_t \<times> 'z \<times> heap) run" where
  "z_bytes_copy_from_buf Z d l h = do {
     (r, h) \<leftarrow> CSlice_new_owned d l h;
     let (c, z) = bytes_or_default Z r;
     ret (c, z, h)
   }"

definition z_bytes_from_string :: "('z, 'm) zbytes_ops \<Rightarrow> cslice \<Rightarrow> 'z \<times> cslice" where
  "z_bytes_from_string Z slot =
    (let (s, slot) = take_rust_type CSlice_gravestone slot in (ZBytes_from_CSlice Z s, slot))"

definition z_bytes_copy_from_string :: "('z, 'm) zbytes_ops \<Rightarrow> cslice \<Rightarrow> heap \<Rightarrow> ('z \<times> heap) run" where
  "z_bytes_copy_from_string Z s h = map_option (\<lambda>(s, h). (ZBytes_from_CSlice Z s, h)) (clone_to_owned s h)"

definition z_bytes_from_str ::
  "('z, 'm) zbytes_ops \<Rightarrow> ptr \<Rightarrow> user_fn option \<Rightarrow> ptr \<Rightarrow> heap \<Rightarrow> (z_result_t \<times> 'z) run" where
  "z_bytes_from_str Z str dl ctx h = do {
     n \<leftarrow> strlen_or_zero str h;
     ret (bytes_or_default Z (CSlice_new str (of_nat n) (map_option UserDrop dl) ctx))
   }"

definition z_bytes_from_static_str :: "('z, 'm) zbytes_ops \<Rightarrow> ptr \<Rightarrow> heap \<Rightarrow> (z_result_t \<times> 'z) run" where
  "z_bytes_from_static_str Z str h = do {
     n \<leftarrow> strlen_or_zero str h;
     ret (bytes_or_default Z (CSlice_new str (of_nat n) None null))
   }"

definition z_bytes_copy_from_str :: "('z, 'm) zbytes_ops \<Rightarrow> ptr \<Rightarrow> heap \<Rightarrow> (z_result_t \<times> 'z \<times> heap) run" where
  "z_bytes_copy_from_str Z str h = do {
     n \<leftarrow> strlen_or_zero str h;
     (r, h) \<leftarrow> CSlice_new_owned str (of_nat n) h;
     let (c, z) = bytes_or_default Z r;
     ret (c, z, h)
   }"

text \<open>The slice iterator is zenoh's; \<open>nxt\<close> is its \<open>next\<close>.\<close>

definition z_bytes_get_slice_iterator :: "('z \<Rightarrow> 'i) \<Rightarrow> 'z \<Rightarrow> 'i" where
  "z_bytes_get_slice_iterator slices this = slices this"

definition z_bytes_slice_iterator_next ::
  "('i \<Rightarrow> (ptr \<times> usize) option \<times> 'i) \<Rightarrow> 'i \<Rightarrow> bool \<times> cslice option \<times> 'i" where
  "z_bytes_slice_iterator_next nxt this = (case nxt this of
     (Some (p, n), this) \<Rightarrow> (True, Some (CSlice_new_borrowed_unchecked p n), this)
   | (None, this) \<Rightarrow> (False, None, this))"

definition z_bytes_get_contiguous_view :: "('z, 'm) zbytes_ops \<Rightarrow> 'z \<Rightarrow> z_result_t \<times> cslice option" where
  "z_bytes_get_contiguous_view Z this = (case zb_borrowed Z this of
     Some (p, n) \<Rightarrow> (Z_OK, Some (CSlice_new_borrowed_unchecked p n)) | None \<Rightarrow> (Z_EINVAL, None))"

definition z_bytes_from_shm :: "('z, 'm) zbytes_ops \<Rightarrow> 'm option \<Rightarrow> (z_result_t \<times> 'z) \<times> 'm option" where
  "z_bytes_from_shm Z slot = (case take_rust_type gravestone_option slot of
     (Some shm, slot) \<Rightarrow> ((Z_OK, zb_from_shm Z shm), slot)
   | (None, slot) \<Rightarrow> ((Z_ENULL, zb_default Z), slot))"

definition z_bytes_from_shm_mut :: "('z, 'm) zbytes_ops \<Rightarrow> 'm option \<Rightarrow> (z_result_t \<times> 'z) \<times> 'm option" where
  "z_bytes_from_shm_mut Z slot = (case take_rust_type gravestone_option slot of
     (Some shm, slot) \<Rightarrow> ((Z_OK, zb_from_shm Z shm), slot)
   | (None, slot) \<Rightarrow> ((Z_ENULL, zb_default Z), slot))"

subsection \<open>Readers\<close>

definition z_bytes_get_reader :: "('z \<Rightarrow> 'r) \<Rightarrow> 'z \<Rightarrow> 'r" where
  "z_bytes_get_reader reader this = reader this"

text \<open>\<open>from_raw_parts_mut\<close> needs a valid buffer of \<open>len\<close> bytes, whatever is then read into it.\<close>

definition z_bytes_reader_read :: "'r reader_ops \<Rightarrow> 'r \<Rightarrow> ptr \<Rightarrow> usize \<Rightarrow> heap \<Rightarrow> (usize \<times> 'r \<times> heap) run" where
  "z_bytes_reader_read R this dst l h = do {
     _ \<leftarrow> from_raw_parts dst (unat l) h;
     case rd_read R this (unat l) of
       (Some bs, this) \<Rightarrow> map_option (\<lambda>h. (of_nat (length bs), this, h)) (write_mem dst bs h)
     | (None, this) \<Rightarrow> ret (0, this, h)
   }"

definition SEEK_SET :: int where "SEEK_SET = 0"

definition SEEK_CUR :: int where "SEEK_CUR = 1"

definition SEEK_END :: int where "SEEK_END = 2"

definition z_bytes_reader_seek :: "'r reader_ops \<Rightarrow> 'r \<Rightarrow> 64 word \<Rightarrow> int \<Rightarrow> z_result_t \<times> 'r" where
  "z_bytes_reader_seek R this offset origin =
    (let pos = (if origin = SEEK_SET then (if 0 \<le> sint offset then Some (SeekStart offset) else None)
                else if origin = SEEK_CUR then Some (SeekCurrent offset)
                else if origin = SEEK_END then Some (SeekEnd offset)
                else None)
     in case pos of
          None \<Rightarrow> (Z_EINVAL, this)
        | Some p \<Rightarrow> (case rd_seek R this p of
            (Some _, this) \<Rightarrow> (Z_OK, this) | (None, this) \<Rightarrow> (Z_EINVAL, this)))"

definition z_bytes_reader_tell :: "'r reader_ops \<Rightarrow> 'r \<Rightarrow> 64 word \<times> 'r" where
  "z_bytes_reader_tell R this = (case rd_stream_position R this of
     (Some p, this) \<Rightarrow> (p, this) | (None, this) \<Rightarrow> (- 1, this))"

definition z_bytes_reader_remaining :: "'r reader_ops \<Rightarrow> 'r \<Rightarrow> usize" where
  "z_bytes_reader_remaining R this = rd_remaining R this"

subsection \<open>Writers\<close>

definition z_bytes_writer_empty :: "('w, 'z) writer_ops \<Rightarrow> z_result_t \<times> 'w option" where
  "z_bytes_writer_empty W = (Z_OK, Some (wr_new W))"

definition z_bytes_writer_drop :: "('w \<Rightarrow> 's \<Rightarrow> 's run) \<Rightarrow> 'w option \<Rightarrow> 's \<Rightarrow> ('w option \<times> 's) run" where
  "z_bytes_writer_drop d this s = moved_drop gravestone_option (drop_option d) this s"

definition z_internal_bytes_writer_check :: "'w option \<Rightarrow> bool" where
  "z_internal_bytes_writer_check this \<longleftrightarrow> this \<noteq> None"

definition z_bytes_writer_loan :: "'w option \<Rightarrow> 'w run" where
  "z_bytes_writer_loan this = loan_option this"

definition z_bytes_writer_loan_mut :: "'w option \<Rightarrow> 'w run" where
  "z_bytes_writer_loan_mut this = loan_option this"

definition z_internal_bytes_writer_null :: "'w option" where
  "z_internal_bytes_writer_null = None"

definition z_bytes_writer_finish :: "('w, 'z) writer_ops \<Rightarrow> 'w option \<Rightarrow> ('z \<times> 'w option) run" where
  "z_bytes_writer_finish W slot = (case take_rust_type gravestone_option slot of
     (Some w, slot) \<Rightarrow> ret (wr_finish W w, slot) | (None, _) \<Rightarrow> panic)"

definition z_bytes_writer_write_all ::
  "('w, 'z) writer_ops \<Rightarrow> 'w \<Rightarrow> ptr \<Rightarrow> usize \<Rightarrow> heap \<Rightarrow> (z_result_t \<times> 'w) run" where
  "z_bytes_writer_write_all W this src l h = do {
     bs \<leftarrow> from_raw_parts src (unat l) h;
     case wr_write_all W this bs of
       (Some _, this) \<Rightarrow> ret (Z_OK, this) | (None, this) \<Rightarrow> ret (Z_EIO, this)
   }"

definition z_bytes_writer_append ::
  "('z, 'm) zbytes_ops \<Rightarrow> ('w, 'z) writer_ops \<Rightarrow> 'w \<Rightarrow> 'z \<Rightarrow> z_result_t \<times> 'w \<times> 'z" where
  "z_bytes_writer_append Z W this bytes =
    (let (b, slot) = take_rust_type (ZBytes_gravestone Z) bytes in (Z_OK, wr_append W this b, slot))"

subsection \<open>Properties\<close>

text \<open>What zenoh promises of a payload made of a slice: its bytes are those of the slice.\<close>

definition payload_reads_slices :: "('z, 'm) zbytes_ops \<Rightarrow> bool" where
  "payload_reads_slices Z \<longleftrightarrow> (\<forall>s h. zb_to_bytes Z (zb_from_slice Z s) h = CSlice_as_slice s h)"

lemma new_owned_slice:
  assumes "from_raw_parts p (unat l) h = ret bs"
  shows "\<exists>s h'. CSlice_new_owned p l h = ret (Inr s, h') \<and> CSlice_slice s h' = ret bs
    \<and> (l \<noteq> 0 \<longrightarrow> s = CSlice_wrap (Ptr (next_block h) 0) l \<and> blocks h' = (blocks h)(next_block h \<mapsto> (Boxed, bs)))"
proof (cases "l = 0")
  case True
  then show ?thesis using assms
    by (auto simp: CSlice_new_owned_def CSlice_new_owned_unchecked_def CSlice_gravestone_def CSlice_slice_def
        from_raw_parts_def split: if_splits)
next
  case False
  then have n: "length bs = unat l" "bs \<noteq> []" "0 < unat l"
    using from_raw_parts_length [OF assms] unat_gt_0 [of l] by auto
  moreover have "\<not> is_null p" using assms by (auto simp: from_raw_parts_def)
  ultimately show ?thesis
    using assms False by (auto simp: CSlice_new_owned_def CSlice_new_owned_unchecked_def CSlice_slice_def
        CSlice_wrap_def CSlice_new_unchecked_def box_leak_def from_raw_parts_def is_null_def)
qed

lemma from_vec_slice: "length v < 2 ^ 64 \<Longrightarrow> CSlice_from_vec v h = (s, h') \<Longrightarrow> CSlice_slice s h' = ret v"
  using unat_of_nat_usize [of "length v"]
  by (cases "v = []")
     (auto simp: CSlice_from_vec_def CSlice_slice_def CSlice_wrap_def CSlice_new_unchecked_def box_leak_def
       from_raw_parts_def is_null_def)

lemma copied_payload_reads:
  assumes "payload_reads_slices Z" "from_raw_parts (Ptr b off) (unat l) h = ret bs" "heap_ok h" "blocks h b \<noteq> None"
  shows "\<exists>z h'. z_bytes_copy_from_buf Z (Ptr b off) l h = ret (Z_OK, z, h')
    \<and> (\<forall>h2 \<in> {h', h'\<lparr>blocks := (blocks h')(b := None)\<rparr>}.
        \<exists>s h''. z_bytes_to_slice Z z h2 = ret (Z_OK, s, h'') \<and> CSlice_slice s h'' = ret bs \<and> CSlice_is_owned s)"
proof -
  obtain s0 h' where s0: "CSlice_new_owned (Ptr b off) l h = ret (Inr s0, h')" "CSlice_slice s0 h' = ret bs"
    and fresh: "l \<noteq> 0 \<longrightarrow> s0 = CSlice_wrap (Ptr (next_block h) 0) l \<and> blocks h' = (blocks h)(next_block h \<mapsto> (Boxed, bs))"
    using new_owned_slice [OF assms(2)] by blast
  have len: "length bs < 2 ^ 64" using from_raw_parts_length [OF assms(2)] unat_usize_bound [of l] by simp
  have "b \<noteq> next_block h" using assms(3,4) by (auto simp: heap_ok_def)
  then have read: "CSlice_slice s0 h2 = ret bs" if "h2 \<in> {h', h'\<lparr>blocks := (blocks h')(b := None)\<rparr>}" for h2
    using that s0(2) fresh assms(2) s0(1)
    by (cases "l = 0") (auto simp: CSlice_slice_def CSlice_wrap_def CSlice_new_unchecked_def from_raw_parts_def
      CSlice_new_owned_def CSlice_new_owned_unchecked_def CSlice_gravestone_def split: if_splits)
  have "\<exists>s h''. z_bytes_to_slice Z (zb_from_slice Z s0) h2 = ret (Z_OK, s, h'') \<and> CSlice_slice s h'' = ret bs
      \<and> CSlice_is_owned s" if "h2 \<in> {h', h'\<lparr>blocks := (blocks h')(b := None)\<rparr>}" for h2
  proof -
    obtain s h'' where v: "CSlice_from_vec bs h2 = (s, h'')" by fastforce
    then have "CSlice_is_owned s"
      by (auto simp: CSlice_from_vec_def CSlice_is_owned_def CSlice_wrap_def CSlice_new_unchecked_def split: prod.splits)
    then show ?thesis using v read [OF that] from_vec_slice [OF len v] assms(1)
      by (simp add: z_bytes_to_slice_def payload_reads_slices_def CSlice_as_slice_def)
  qed
  then show ?thesis using s0(1)
    by (simp add: z_bytes_copy_from_buf_def bytes_or_default_def ZBytes_from_CSlice_def)
qed

text \<open>C39: copying a buffer into a payload and the payload into a slice gives the buffer's bytes. The
  copy succeeds, and the slice made of the payload owns the same bytes, even when the C program
  releases the original buffer in between.\<close>

theorem bytes_copy_roundtrip:
  assumes "payload_reads_slices Z" "from_raw_parts (Ptr b off) (unat l) h = ret bs" "heap_ok h" "blocks h b \<noteq> None"
  shows "\<exists>z h'. z_bytes_copy_from_buf Z (Ptr b off) l h = ret (Z_OK, z, h')
    \<and> (\<forall>h2 \<in> {h', h'\<lparr>blocks := (blocks h')(b := None)\<rparr>}.
        \<exists>s h''. z_bytes_to_slice Z z h2 = ret (Z_OK, s, h'') \<and> CSlice_slice s h'' = ret bs \<and> CSlice_is_owned s)"
  using assms by (rule copied_payload_reads)

text \<open>A payload that is a slice, and a heap with a user's buffer.\<close>

definition demo_zbytes :: "(cslice, nat) zbytes_ops" where
  "demo_zbytes = \<lparr>zb_default = CSlice_gravestone, zb_from_slice = id, zb_is_empty = CSlice_is_empty, zb_len = len,
     zb_clone = id, zb_to_bytes = CSlice_slice, zb_borrowed = (\<lambda>s. Some (data s, len s)),
     zb_try_to_string = CString_to_str, zb_as_shm = (\<lambda>_. None), zb_from_shm = (\<lambda>_. CSlice_gravestone)\<rparr>"

definition demo_heap :: heap where
  "demo_heap = \<lparr>blocks = [0 \<mapsto> (User, [7, 8, 9])], next_block = 1, calls = []\<rparr>"

theorem bytes_copy_roundtrip_witness:
  "payload_reads_slices demo_zbytes
   \<and> (\<exists>z h'. z_bytes_copy_from_buf demo_zbytes (Ptr 0 1) 2 demo_heap = ret (Z_OK, z, h')
        \<and> (\<exists>s h''. z_bytes_to_slice demo_zbytes z (h'\<lparr>blocks := (blocks h')(0 := None)\<rparr>) = ret (Z_OK, s, h'')
            \<and> CSlice_slice s h'' = ret [8, 9]))"
proof -
  have "payload_reads_slices demo_zbytes"
    by (simp add: payload_reads_slices_def demo_zbytes_def CSlice_as_slice_def)
  moreover have "from_raw_parts (Ptr 0 1) (unat (2 :: usize)) demo_heap = ret [8, 9]" "heap_ok demo_heap" "blocks demo_heap 0 \<noteq> None"
    by (simp_all add: from_raw_parts_def demo_heap_def is_null_def heap_ok_def)
  ultimately show ?thesis using bytes_copy_roundtrip [of demo_zbytes 0 1 2 demo_heap "[8, 9]"] by blast
qed

text \<open>The contract of \<open>std::io::Read\<close> and \<open>std::io::Seek\<close> for a reader over the bytes \<open>xs\<close>, with \<open>pos\<close>
  its position: a read fills the buffer unless the data ends, a seek inside the data moves there
  and one before its start is an error that does not move.\<close>

definition seek_target :: "nat \<Rightarrow> nat \<Rightarrow> seek_from \<Rightarrow> int" where
  "seek_target tot p s = (case s of
     SeekStart n \<Rightarrow> uint n | SeekCurrent d \<Rightarrow> int p + sint d | SeekEnd d \<Rightarrow> int tot + sint d)"

definition reader_over :: "'r reader_ops \<Rightarrow> ('r \<Rightarrow> nat) \<Rightarrow> u8 list \<Rightarrow> bool" where
  "reader_over R pos xs \<longleftrightarrow>
     (\<forall>r n. pos r \<le> length xs \<longrightarrow> (\<exists>r'. rd_read R r n = (Some (take n (drop (pos r) xs)), r')
        \<and> pos r' = min (pos r + n) (length xs)))
   \<and> (\<forall>r s. pos r \<le> length xs \<longrightarrow> (let t = seek_target (length xs) (pos r) s in
        (0 \<le> t \<and> t \<le> int (length xs) \<longrightarrow> (\<exists>r'. rd_seek R r s = (Some (of_int t), r') \<and> pos r' = nat t))
      \<and> (t < 0 \<longrightarrow> (\<exists>r'. rd_seek R r s = (None, r') \<and> pos r' = pos r))))"

text \<open>The position the C program asks for.\<close>

definition wanted :: "nat \<Rightarrow> nat \<Rightarrow> 64 word \<Rightarrow> int \<Rightarrow> int" where
  "wanted tot p offset origin =
    (if origin = SEEK_SET then 0 else if origin = SEEK_CUR then int p else int tot) + sint offset"

lemma word_nonneg:
  assumes "0 \<le> sint (w :: 64 word)" shows "uint w = sint w" "unat w = nat (sint w)"
proof -
  have "sint w < 2 ^ 64" using sint_lt [of w] by simp
  then show "uint w = sint w" using assms by (simp add: uint_sint take_bit_int_eq_self)
  then show "unat w = nat (sint w)" by (simp add: unat_eq_nat_uint)
qed

lemma seek_result:
  assumes "reader_over R pos xs" "pos r \<le> length xs" "origin \<in> {SEEK_SET, SEEK_CUR, SEEK_END}"
  shows "0 \<le> wanted (length xs) (pos r) offset origin \<Longrightarrow> wanted (length xs) (pos r) offset origin \<le> int (length xs)
      \<Longrightarrow> \<exists>r'. z_bytes_reader_seek R r offset origin = (Z_OK, r') \<and> pos r' = nat (wanted (length xs) (pos r) offset origin)"
    and "wanted (length xs) (pos r) offset origin < 0
      \<Longrightarrow> \<exists>r'. z_bytes_reader_seek R r offset origin = (Z_EINVAL, r') \<and> pos r' = pos r"
proof -
  let ?t = "\<lambda>s. seek_target (length xs) (pos r) s"
  have ok: "\<exists>r'. rd_seek R r s = (Some (of_int (?t s)), r') \<and> pos r' = nat (?t s)" if "0 \<le> ?t s" "?t s \<le> int (length xs)" for s
    using assms(1,2) that unfolding reader_over_def Let_def by blast
  have bad: "\<exists>r'. rd_seek R r s = (None, r') \<and> pos r' = pos r" if "?t s < 0" for s
    using assms(1,2) that unfolding reader_over_def Let_def by blast
  show "\<exists>r'. z_bytes_reader_seek R r offset origin = (Z_OK, r') \<and> pos r' = nat (wanted (length xs) (pos r) offset origin)"
    if "0 \<le> wanted (length xs) (pos r) offset origin" "wanted (length xs) (pos r) offset origin \<le> int (length xs)"
    using that assms(3) ok [of "SeekStart offset"] ok [of "SeekCurrent offset"] ok [of "SeekEnd offset"] word_nonneg [of offset]
    by (auto simp: z_bytes_reader_seek_def wanted_def seek_target_def SEEK_SET_def SEEK_CUR_def SEEK_END_def)
  show "\<exists>r'. z_bytes_reader_seek R r offset origin = (Z_EINVAL, r') \<and> pos r' = pos r"
    if "wanted (length xs) (pos r) offset origin < 0"
    using that assms(3) bad [of "SeekCurrent offset"] bad [of "SeekEnd offset"]
    by (auto simp: z_bytes_reader_seek_def wanted_def seek_target_def SEEK_SET_def SEEK_CUR_def SEEK_END_def)
qed

lemma read_result:
  assumes "reader_over R pos xs" "pos r \<le> length xs" "blocks h b = Some (k, mem)" "off + unat (l :: usize) \<le> length mem"
  shows "\<exists>r' h'. z_bytes_reader_read R r (Ptr b off) l h = ret (of_nat (min (unat l) (length xs - pos r)), r', h')
    \<and> blocks h' b = Some (k, take off mem @ take (unat l) (drop (pos r) xs) @ drop (off + min (unat l) (length xs - pos r)) mem)"
proof -
  obtain r' where r': "rd_read R r (unat l) = (Some (take (unat l) (drop (pos r) xs)), r')"
    using assms(1,2) unfolding reader_over_def by blast
  have n: "length (take (unat l) (drop (pos r) xs)) = min (unat l) (length xs - pos r)" by (simp add: min.commute)
  have "off + length (take (unat l) (drop (pos r) xs)) \<le> length mem" using assms(4) n by simp
  moreover have "from_raw_parts (Ptr b off) (unat l) h \<noteq> None"
    using assms(3,4) by (simp add: from_raw_parts_def is_null_def)
  ultimately show ?thesis
    using assms(3) r' n by (auto simp: z_bytes_reader_read_def write_mem_def is_null_def)
qed

text \<open>C40: seeking and reading give the bytes at the position asked for. From any position of a reader
  and for each of the three origins: a position inside the payload is reached, with \<open>Z_OK\<close>, and a
  read then puts the bytes that start there into the caller's buffer, as many as fit and are left,
  and nothing else; a position before the start gives \<open>Z_EINVAL\<close> and does not move the reader.\<close>

theorem reader_seek_then_read:
  assumes "reader_over R pos xs" "pos r \<le> length xs" "origin \<in> {SEEK_SET, SEEK_CUR, SEEK_END}"
    and "blocks h b = Some (k, mem)" "off + unat (l :: usize) \<le> length mem"
  shows "if wanted (length xs) (pos r) offset origin < 0
      then \<exists>r'. z_bytes_reader_seek R r offset origin = (Z_EINVAL, r') \<and> pos r' = pos r
      else wanted (length xs) (pos r) offset origin \<le> int (length xs) \<longrightarrow>
        (let t = nat (wanted (length xs) (pos r) offset origin); n = min (unat l) (length xs - t)
         in \<exists>r' r'' h'. z_bytes_reader_seek R r offset origin = (Z_OK, r') \<and> pos r' = t
            \<and> z_bytes_reader_read R r' (Ptr b off) l h = ret (of_nat n, r'', h')
            \<and> blocks h' b = Some (k, take off mem @ take n (drop t xs) @ drop (off + n) mem))"
proof (cases "wanted (length xs) (pos r) offset origin < 0")
  case True
  then show ?thesis using seek_result(2) [OF assms(1-3) True] by simp
next
  case False
  let ?t = "nat (wanted (length xs) (pos r) offset origin)"
  show ?thesis
  proof (cases "wanted (length xs) (pos r) offset origin \<le> int (length xs)")
    case in_range: True
    then obtain r' where r': "z_bytes_reader_seek R r offset origin = (Z_OK, r')" "pos r' = ?t"
      using False seek_result(1) [OF assms(1-3), of offset] by auto
    then have "pos r' \<le> length xs" using in_range False by simp
    moreover have "take (min (unat l) (length xs - ?t)) (drop ?t xs) = take (unat l) (drop ?t xs)"
      by (simp add: min_def)
    ultimately show ?thesis
      using r' read_result [OF assms(1) _ assms(4,5), of r'] False by (auto simp: Let_def)
  qed (use False in simp)
qed

definition demo_reader :: "nat reader_ops" where
  "demo_reader = \<lparr>
     rd_read = (\<lambda>r n. (Some (take n (drop r [1, 2, 3, 4])), min (r + n) 4)),
     rd_seek = (\<lambda>r s. let t = seek_target 4 r s in if 0 \<le> t \<and> t \<le> 4 then (Some (of_int t), nat t) else (None, r)),
     rd_stream_position = (\<lambda>r. (Some (of_nat r), r)), rd_remaining = (\<lambda>r. of_nat (4 - r))\<rparr>"

theorem reader_seek_then_read_witness:
  "\<exists>r' r'' h'. z_bytes_reader_seek demo_reader 1 (- 2) SEEK_END = (Z_OK, r')
    \<and> z_bytes_reader_read demo_reader r' (Ptr 0 0) 3 demo_heap = ret (2, r'', h')
    \<and> blocks h' 0 = Some (User, [3, 4, 9])"
proof -
  have four: "Suc (Suc (Suc (Suc 0))) = 4" by simp
  have r: "reader_over demo_reader id [1, 2, 3, 4]"
    by (simp add: reader_over_def demo_reader_def Let_def four)
  have w: "wanted 4 1 (- 2) SEEK_END = 2"
    by (simp add: wanted_def SEEK_END_def SEEK_SET_def SEEK_CUR_def)
  show ?thesis
    using reader_seek_then_read [OF r, of 1 SEEK_END demo_heap 0 User "[7, 8, 9]" 0 3 "- 2"] w
    by (auto simp: demo_heap_def Let_def four)
qed

end
