(* ===== verification/Serialization.thy ===== *)
theory Serialization
  imports Bytes
begin

text \<open>
  \<open>src/serialization.rs\<close>: serializers, deserializers and the one-value functions.

  The wire format is \<open>zenoh_ext\<close>'s. What a function uses of it is an argument: \<open>ser\<close> is the
  serialization of one value of its type (\<open>z_serialize\<close>, or \<open>ZSerializer::serialize\<close>, which
  appends to a serializer), \<open>de\<close> the deserialization (\<open>None\<close> is \<open>Err\<close>). Floats are their bit
  patterns. A destination is the value it holds before and after the call.
\<close>

subsection \<open>Serializers\<close>

definition ze_serializer_empty :: "'s \<Rightarrow> z_result_t \<times> 's option" where
  "ze_serializer_empty new = (Z_OK, Some new)"

definition ze_serializer_drop :: "('s \<Rightarrow> 'w \<Rightarrow> 'w run) \<Rightarrow> 's option \<Rightarrow> 'w \<Rightarrow> ('s option \<times> 'w) run" where
  "ze_serializer_drop d this w = moved_drop gravestone_option (drop_option d) this w"

definition ze_internal_serializer_check :: "'s option \<Rightarrow> bool" where
  "ze_internal_serializer_check this \<longleftrightarrow> this \<noteq> None"

definition ze_serializer_loan :: "'s option \<Rightarrow> 's run" where
  "ze_serializer_loan this = loan_option this"

definition ze_serializer_loan_mut :: "'s option \<Rightarrow> 's run" where
  "ze_serializer_loan_mut this = loan_option this"

definition ze_internal_serializer_null :: "'s option" where
  "ze_internal_serializer_null = None"

definition ze_serializer_finish :: "('s \<Rightarrow> 'z) \<Rightarrow> 's option \<Rightarrow> ('z \<times> 's option) run" where
  "ze_serializer_finish finish slot = (case take_rust_type gravestone_option slot of
     (Some s, slot) \<Rightarrow> ret (finish s, slot) | (None, _) \<Rightarrow> panic)"

subsection \<open>One value\<close>

definition ze_serialize_arithmetic :: "('a \<Rightarrow> 'z) \<Rightarrow> 'a \<Rightarrow> 'z" where
  "ze_serialize_arithmetic ser val = ser val"

definition ze_deserialize_arithmetic :: "('z \<Rightarrow> 'a option) \<Rightarrow> 'z \<Rightarrow> 'a \<Rightarrow> z_result_t \<times> 'a" where
  "ze_deserialize_arithmetic de this val = (case de this of
     Some v \<Rightarrow> (Z_OK, v) | None \<Rightarrow> (Z_EPARSE, val))"

definition ze_serialize_uint8 :: "(u8 \<Rightarrow> 'z) \<Rightarrow> u8 \<Rightarrow> z_result_t \<times> 'z" where
  "ze_serialize_uint8 ser val = (Z_OK, ze_serialize_arithmetic ser val)"

definition ze_serialize_uint16 :: "(u16 \<Rightarrow> 'z) \<Rightarrow> u16 \<Rightarrow> z_result_t \<times> 'z" where
  "ze_serialize_uint16 ser val = (Z_OK, ze_serialize_arithmetic ser val)"

definition ze_serialize_uint32 :: "(u32 \<Rightarrow> 'z) \<Rightarrow> u32 \<Rightarrow> z_result_t \<times> 'z" where
  "ze_serialize_uint32 ser val = (Z_OK, ze_serialize_arithmetic ser val)"

definition ze_serialize_uint64 :: "(u64 \<Rightarrow> 'z) \<Rightarrow> u64 \<Rightarrow> z_result_t \<times> 'z" where
  "ze_serialize_uint64 ser val = (Z_OK, ze_serialize_arithmetic ser val)"

definition ze_serialize_int8 :: "(8 word \<Rightarrow> 'z) \<Rightarrow> 8 word \<Rightarrow> z_result_t \<times> 'z" where
  "ze_serialize_int8 ser val = (Z_OK, ze_serialize_arithmetic ser val)"

definition ze_serialize_int16 :: "(16 word \<Rightarrow> 'z) \<Rightarrow> 16 word \<Rightarrow> z_result_t \<times> 'z" where
  "ze_serialize_int16 ser val = (Z_OK, ze_serialize_arithmetic ser val)"

definition ze_serialize_int32 :: "(32 word \<Rightarrow> 'z) \<Rightarrow> 32 word \<Rightarrow> z_result_t \<times> 'z" where
  "ze_serialize_int32 ser val = (Z_OK, ze_serialize_arithmetic ser val)"

definition ze_serialize_int64 :: "(64 word \<Rightarrow> 'z) \<Rightarrow> 64 word \<Rightarrow> z_result_t \<times> 'z" where
  "ze_serialize_int64 ser val = (Z_OK, ze_serialize_arithmetic ser val)"

definition ze_serialize_float :: "(32 word \<Rightarrow> 'z) \<Rightarrow> 32 word \<Rightarrow> z_result_t \<times> 'z" where
  "ze_serialize_float ser val = (Z_OK, ze_serialize_arithmetic ser val)"

definition ze_serialize_double :: "(64 word \<Rightarrow> 'z) \<Rightarrow> 64 word \<Rightarrow> z_result_t \<times> 'z" where
  "ze_serialize_double ser val = (Z_OK, ze_serialize_arithmetic ser val)"

definition ze_serialize_bool :: "(bool \<Rightarrow> 'z) \<Rightarrow> bool \<Rightarrow> z_result_t \<times> 'z" where
  "ze_serialize_bool ser val = (Z_OK, ze_serialize_arithmetic ser val)"

definition ze_deserialize_uint8 :: "('z \<Rightarrow> u8 option) \<Rightarrow> 'z \<Rightarrow> u8 \<Rightarrow> z_result_t \<times> u8" where
  "ze_deserialize_uint8 de this dst = ze_deserialize_arithmetic de this dst"

definition ze_deserialize_uint16 :: "('z \<Rightarrow> u16 option) \<Rightarrow> 'z \<Rightarrow> u16 \<Rightarrow> z_result_t \<times> u16" where
  "ze_deserialize_uint16 de this dst = ze_deserialize_arithmetic de this dst"

definition ze_deserialize_uint32 :: "('z \<Rightarrow> u32 option) \<Rightarrow> 'z \<Rightarrow> u32 \<Rightarrow> z_result_t \<times> u32" where
  "ze_deserialize_uint32 de this dst = ze_deserialize_arithmetic de this dst"

definition ze_deserialize_uint64 :: "('z \<Rightarrow> u64 option) \<Rightarrow> 'z \<Rightarrow> u64 \<Rightarrow> z_result_t \<times> u64" where
  "ze_deserialize_uint64 de this dst = ze_deserialize_arithmetic de this dst"

definition ze_deserialize_int8 :: "('z \<Rightarrow> 8 word option) \<Rightarrow> 'z \<Rightarrow> 8 word \<Rightarrow> z_result_t \<times> 8 word" where
  "ze_deserialize_int8 de this dst = ze_deserialize_arithmetic de this dst"

definition ze_deserialize_int16 :: "('z \<Rightarrow> 16 word option) \<Rightarrow> 'z \<Rightarrow> 16 word \<Rightarrow> z_result_t \<times> 16 word" where
  "ze_deserialize_int16 de this dst = ze_deserialize_arithmetic de this dst"

definition ze_deserialize_int32 :: "('z \<Rightarrow> 32 word option) \<Rightarrow> 'z \<Rightarrow> 32 word \<Rightarrow> z_result_t \<times> 32 word" where
  "ze_deserialize_int32 de this dst = ze_deserialize_arithmetic de this dst"

definition ze_deserialize_int64 :: "('z \<Rightarrow> 64 word option) \<Rightarrow> 'z \<Rightarrow> 64 word \<Rightarrow> z_result_t \<times> 64 word" where
  "ze_deserialize_int64 de this dst = ze_deserialize_arithmetic de this dst"

definition ze_deserialize_float :: "('z \<Rightarrow> 32 word option) \<Rightarrow> 'z \<Rightarrow> 32 word \<Rightarrow> z_result_t \<times> 32 word" where
  "ze_deserialize_float de this dst = ze_deserialize_arithmetic de this dst"

definition ze_deserialize_double :: "('z \<Rightarrow> 64 word option) \<Rightarrow> 'z \<Rightarrow> 64 word \<Rightarrow> z_result_t \<times> 64 word" where
  "ze_deserialize_double de this dst = ze_deserialize_arithmetic de this dst"

definition ze_deserialize_bool :: "('z \<Rightarrow> bool option) \<Rightarrow> 'z \<Rightarrow> bool \<Rightarrow> z_result_t \<times> bool" where
  "ze_deserialize_bool de this dst = ze_deserialize_arithmetic de this dst"

definition ze_serialize_slice :: "(u8 list \<Rightarrow> 'z) \<Rightarrow> cslice \<Rightarrow> heap \<Rightarrow> (z_result_t \<times> 'z) run" where
  "ze_serialize_slice ser s h = do { bs \<leftarrow> CSlice_slice s h; ret (Z_OK, ser bs) }"

definition ze_serialize_buf :: "(u8 list \<Rightarrow> 'z) \<Rightarrow> ptr \<Rightarrow> usize \<Rightarrow> heap \<Rightarrow> (z_result_t \<times> 'z) run" where
  "ze_serialize_buf ser d l h = do { bs \<leftarrow> from_raw_parts d (unat l) h; ret (Z_OK, ser bs) }"

definition ze_deserialize_slice :: "('z \<Rightarrow> u8 list option) \<Rightarrow> 'z \<Rightarrow> heap \<Rightarrow> z_result_t \<times> cslice \<times> heap" where
  "ze_deserialize_slice de this h = (case de this of
     Some v \<Rightarrow> (let (s, h) = CSlice_from_vec v h in (Z_OK, s, h))
   | None \<Rightarrow> (Z_EDESERIALIZE, CSlice_gravestone, h))"

definition ze_serialize_string :: "(u8 list \<Rightarrow> 'z) \<Rightarrow> 'z \<Rightarrow> cslice \<Rightarrow> heap \<Rightarrow> (z_result_t \<times> 'z) run" where
  "ze_serialize_string ser new str h = do {
     bs \<leftarrow> CSlice_slice str h;
     ret (if utf8_valid bs then (Z_OK, ser bs) else (Z_EUTF8, new))
   }"

definition ze_serialize_substr :: "(u8 list \<Rightarrow> 'z) \<Rightarrow> 'z \<Rightarrow> ptr \<Rightarrow> usize \<Rightarrow> heap \<Rightarrow> (z_result_t \<times> 'z) run" where
  "ze_serialize_substr ser new start l h = do {
     bs \<leftarrow> from_raw_parts start (unat l) h;
     ret (if utf8_valid bs then (Z_OK, ser bs) else (Z_EUTF8, new))
   }"

definition ze_serialize_str :: "(u8 list \<Rightarrow> 'z) \<Rightarrow> 'z \<Rightarrow> ptr \<Rightarrow> heap \<Rightarrow> (z_result_t \<times> 'z) run" where
  "ze_serialize_str ser new str h = do {
     n \<leftarrow> strlen_or_zero str h;
     ze_serialize_substr ser new str (of_nat n) h
   }"

definition ze_deserialize_string :: "('z \<Rightarrow> u8 list option) \<Rightarrow> 'z \<Rightarrow> heap \<Rightarrow> z_result_t \<times> cslice \<times> heap" where
  "ze_deserialize_string de this h = (case de this of
     Some v \<Rightarrow> (let (s, h) = CString_from_string v h in (Z_OK, s, h))
   | None \<Rightarrow> (Z_EDESERIALIZE, CSlice_gravestone, h))"

subsection \<open>Sequences of values\<close>

definition ze_deserializer_from_bytes :: "('z \<Rightarrow> 'd) \<Rightarrow> 'z \<Rightarrow> 'd" where
  "ze_deserializer_from_bytes new this = new this"

definition ze_deserializer_is_done :: "('d \<Rightarrow> bool) \<Rightarrow> 'd \<Rightarrow> bool" where
  "ze_deserializer_is_done is_done this = is_done this"

definition ze_serializer_serialize_arithmetic :: "('s \<Rightarrow> 'a \<Rightarrow> 's) \<Rightarrow> 's \<Rightarrow> 'a \<Rightarrow> 's" where
  "ze_serializer_serialize_arithmetic ser this val = ser this val"

definition ze_deserializer_deserialize_arithmetic ::
  "('d \<Rightarrow> 'a option \<times> 'd) \<Rightarrow> 'd \<Rightarrow> 'a \<Rightarrow> z_result_t \<times> 'a \<times> 'd" where
  "ze_deserializer_deserialize_arithmetic de this val = (case de this of
     (Some v, this) \<Rightarrow> (Z_OK, v, this) | (None, this) \<Rightarrow> (Z_EDESERIALIZE, val, this))"

definition ze_serializer_serialize_uint8 :: "('s \<Rightarrow> u8 \<Rightarrow> 's) \<Rightarrow> 's \<Rightarrow> u8 \<Rightarrow> z_result_t \<times> 's" where
  "ze_serializer_serialize_uint8 ser this val = (Z_OK, ze_serializer_serialize_arithmetic ser this val)"

definition ze_serializer_serialize_uint16 :: "('s \<Rightarrow> u16 \<Rightarrow> 's) \<Rightarrow> 's \<Rightarrow> u16 \<Rightarrow> z_result_t \<times> 's" where
  "ze_serializer_serialize_uint16 ser this val = (Z_OK, ze_serializer_serialize_arithmetic ser this val)"

definition ze_serializer_serialize_uint32 :: "('s \<Rightarrow> u32 \<Rightarrow> 's) \<Rightarrow> 's \<Rightarrow> u32 \<Rightarrow> z_result_t \<times> 's" where
  "ze_serializer_serialize_uint32 ser this val = (Z_OK, ze_serializer_serialize_arithmetic ser this val)"

definition ze_serializer_serialize_uint64 :: "('s \<Rightarrow> u64 \<Rightarrow> 's) \<Rightarrow> 's \<Rightarrow> u64 \<Rightarrow> z_result_t \<times> 's" where
  "ze_serializer_serialize_uint64 ser this val = (Z_OK, ze_serializer_serialize_arithmetic ser this val)"

definition ze_serializer_serialize_int8 :: "('s \<Rightarrow> 8 word \<Rightarrow> 's) \<Rightarrow> 's \<Rightarrow> 8 word \<Rightarrow> z_result_t \<times> 's" where
  "ze_serializer_serialize_int8 ser this val = (Z_OK, ze_serializer_serialize_arithmetic ser this val)"

definition ze_serializer_serialize_int16 :: "('s \<Rightarrow> 16 word \<Rightarrow> 's) \<Rightarrow> 's \<Rightarrow> 16 word \<Rightarrow> z_result_t \<times> 's" where
  "ze_serializer_serialize_int16 ser this val = (Z_OK, ze_serializer_serialize_arithmetic ser this val)"

definition ze_serializer_serialize_int32 :: "('s \<Rightarrow> 32 word \<Rightarrow> 's) \<Rightarrow> 's \<Rightarrow> 32 word \<Rightarrow> z_result_t \<times> 's" where
  "ze_serializer_serialize_int32 ser this val = (Z_OK, ze_serializer_serialize_arithmetic ser this val)"

definition ze_serializer_serialize_int64 :: "('s \<Rightarrow> 64 word \<Rightarrow> 's) \<Rightarrow> 's \<Rightarrow> 64 word \<Rightarrow> z_result_t \<times> 's" where
  "ze_serializer_serialize_int64 ser this val = (Z_OK, ze_serializer_serialize_arithmetic ser this val)"

definition ze_serializer_serialize_float :: "('s \<Rightarrow> 32 word \<Rightarrow> 's) \<Rightarrow> 's \<Rightarrow> 32 word \<Rightarrow> z_result_t \<times> 's" where
  "ze_serializer_serialize_float ser this val = (Z_OK, ze_serializer_serialize_arithmetic ser this val)"

definition ze_serializer_serialize_double :: "('s \<Rightarrow> 64 word \<Rightarrow> 's) \<Rightarrow> 's \<Rightarrow> 64 word \<Rightarrow> z_result_t \<times> 's" where
  "ze_serializer_serialize_double ser this val = (Z_OK, ze_serializer_serialize_arithmetic ser this val)"

definition ze_serializer_serialize_bool :: "('s \<Rightarrow> bool \<Rightarrow> 's) \<Rightarrow> 's \<Rightarrow> bool \<Rightarrow> z_result_t \<times> 's" where
  "ze_serializer_serialize_bool ser this val = (Z_OK, ze_serializer_serialize_arithmetic ser this val)"

definition ze_deserializer_deserialize_uint8 ::
  "('d \<Rightarrow> u8 option \<times> 'd) \<Rightarrow> 'd \<Rightarrow> u8 \<Rightarrow> z_result_t \<times> u8 \<times> 'd" where
  "ze_deserializer_deserialize_uint8 de this dst = ze_deserializer_deserialize_arithmetic de this dst"

definition ze_deserializer_deserialize_uint16 ::
  "('d \<Rightarrow> u16 option \<times> 'd) \<Rightarrow> 'd \<Rightarrow> u16 \<Rightarrow> z_result_t \<times> u16 \<times> 'd" where
  "ze_deserializer_deserialize_uint16 de this dst = ze_deserializer_deserialize_arithmetic de this dst"

definition ze_deserializer_deserialize_uint32 ::
  "('d \<Rightarrow> u32 option \<times> 'd) \<Rightarrow> 'd \<Rightarrow> u32 \<Rightarrow> z_result_t \<times> u32 \<times> 'd" where
  "ze_deserializer_deserialize_uint32 de this dst = ze_deserializer_deserialize_arithmetic de this dst"

definition ze_deserializer_deserialize_uint64 ::
  "('d \<Rightarrow> u64 option \<times> 'd) \<Rightarrow> 'd \<Rightarrow> u64 \<Rightarrow> z_result_t \<times> u64 \<times> 'd" where
  "ze_deserializer_deserialize_uint64 de this dst = ze_deserializer_deserialize_arithmetic de this dst"

definition ze_deserializer_deserialize_int8 ::
  "('d \<Rightarrow> 8 word option \<times> 'd) \<Rightarrow> 'd \<Rightarrow> 8 word \<Rightarrow> z_result_t \<times> 8 word \<times> 'd" where
  "ze_deserializer_deserialize_int8 de this dst = ze_deserializer_deserialize_arithmetic de this dst"

definition ze_deserializer_deserialize_int16 ::
  "('d \<Rightarrow> 16 word option \<times> 'd) \<Rightarrow> 'd \<Rightarrow> 16 word \<Rightarrow> z_result_t \<times> 16 word \<times> 'd" where
  "ze_deserializer_deserialize_int16 de this dst = ze_deserializer_deserialize_arithmetic de this dst"

definition ze_deserializer_deserialize_int32 ::
  "('d \<Rightarrow> 32 word option \<times> 'd) \<Rightarrow> 'd \<Rightarrow> 32 word \<Rightarrow> z_result_t \<times> 32 word \<times> 'd" where
  "ze_deserializer_deserialize_int32 de this dst = ze_deserializer_deserialize_arithmetic de this dst"

definition ze_deserializer_deserialize_int64 ::
  "('d \<Rightarrow> 64 word option \<times> 'd) \<Rightarrow> 'd \<Rightarrow> 64 word \<Rightarrow> z_result_t \<times> 64 word \<times> 'd" where
  "ze_deserializer_deserialize_int64 de this dst = ze_deserializer_deserialize_arithmetic de this dst"

definition ze_deserializer_deserialize_float ::
  "('d \<Rightarrow> 32 word option \<times> 'd) \<Rightarrow> 'd \<Rightarrow> 32 word \<Rightarrow> z_result_t \<times> 32 word \<times> 'd" where
  "ze_deserializer_deserialize_float de this dst = ze_deserializer_deserialize_arithmetic de this dst"

definition ze_deserializer_deserialize_double ::
  "('d \<Rightarrow> 64 word option \<times> 'd) \<Rightarrow> 'd \<Rightarrow> 64 word \<Rightarrow> z_result_t \<times> 64 word \<times> 'd" where
  "ze_deserializer_deserialize_double de this dst = ze_deserializer_deserialize_arithmetic de this dst"

definition ze_deserializer_deserialize_bool ::
  "('d \<Rightarrow> bool option \<times> 'd) \<Rightarrow> 'd \<Rightarrow> bool \<Rightarrow> z_result_t \<times> bool \<times> 'd" where
  "ze_deserializer_deserialize_bool de this dst = ze_deserializer_deserialize_arithmetic de this dst"

definition ze_serializer_serialize_slice :: "('s \<Rightarrow> u8 list \<Rightarrow> 's) \<Rightarrow> 's \<Rightarrow> cslice \<Rightarrow> heap \<Rightarrow> (z_result_t \<times> 's) run" where
  "ze_serializer_serialize_slice ser this s h = do { bs \<leftarrow> CSlice_slice s h; ret (Z_OK, ser this bs) }"

definition ze_serializer_serialize_buf :: "('s \<Rightarrow> u8 list \<Rightarrow> 's) \<Rightarrow> 's \<Rightarrow> ptr \<Rightarrow> usize \<Rightarrow> heap \<Rightarrow> (z_result_t \<times> 's) run" where
  "ze_serializer_serialize_buf ser this d l h = do { bs \<leftarrow> from_raw_parts d (unat l) h; ret (Z_OK, ser this bs) }"

definition ze_deserializer_deserialize_slice ::
  "('d \<Rightarrow> u8 list option \<times> 'd) \<Rightarrow> 'd \<Rightarrow> heap \<Rightarrow> z_result_t \<times> cslice \<times> 'd \<times> heap" where
  "ze_deserializer_deserialize_slice de this h = (case de this of
     (Some v, this) \<Rightarrow> (let (s, h) = CSlice_from_vec v h in (Z_OK, s, this, h))
   | (None, this) \<Rightarrow> (Z_EDESERIALIZE, CSlice_gravestone, this, h))"

definition ze_serializer_serialize_string :: "('s \<Rightarrow> u8 list \<Rightarrow> 's) \<Rightarrow> 's \<Rightarrow> cslice \<Rightarrow> heap \<Rightarrow> (z_result_t \<times> 's) run" where
  "ze_serializer_serialize_string ser this str h = do {
     bs \<leftarrow> CSlice_slice str h;
     ret (if utf8_valid bs then (Z_OK, ser this bs) else (Z_EUTF8, this))
   }"

definition ze_serializer_serialize_substr ::
  "('s \<Rightarrow> u8 list \<Rightarrow> 's) \<Rightarrow> 's \<Rightarrow> ptr \<Rightarrow> usize \<Rightarrow> heap \<Rightarrow> (z_result_t \<times> 's) run" where
  "ze_serializer_serialize_substr ser this start l h = do {
     bs \<leftarrow> from_raw_parts start (unat l) h;
     ret (if utf8_valid bs then (Z_OK, ser this bs) else (Z_EUTF8, this))
   }"

definition ze_serializer_serialize_str :: "('s \<Rightarrow> u8 list \<Rightarrow> 's) \<Rightarrow> 's \<Rightarrow> ptr \<Rightarrow> heap \<Rightarrow> (z_result_t \<times> 's) run" where
  "ze_serializer_serialize_str ser this str h = do {
     n \<leftarrow> strlen_or_zero str h;
     ze_serializer_serialize_substr ser this str (of_nat n) h
   }"

definition ze_deserializer_deserialize_string ::
  "('d \<Rightarrow> u8 list option \<times> 'd) \<Rightarrow> 'd \<Rightarrow> heap \<Rightarrow> z_result_t \<times> cslice \<times> 'd \<times> heap" where
  "ze_deserializer_deserialize_string de this h = (case de this of
     (Some v, this) \<Rightarrow> (let (s, h) = CString_from_string v h in (Z_OK, s, this, h))
   | (None, this) \<Rightarrow> (Z_EDESERIALIZE, CSlice_gravestone, this, h))"

definition ze_serializer_serialize_sequence_length :: "('s \<Rightarrow> usize \<Rightarrow> 's) \<Rightarrow> 's \<Rightarrow> usize \<Rightarrow> z_result_t \<times> 's" where
  "ze_serializer_serialize_sequence_length ser this l = (Z_OK, ser this l)"

definition ze_deserializer_deserialize_sequence_length ::
  "('d \<Rightarrow> usize option \<times> 'd) \<Rightarrow> 'd \<Rightarrow> z_result_t \<times> usize \<times> 'd" where
  "ze_deserializer_deserialize_sequence_length de this = (case de this of
     (Some l, this) \<Rightarrow> (Z_OK, l, this) | (None, this) \<Rightarrow> (Z_EDESERIALIZE, 0, this))"


subsection \<open>Programs that serialize and deserialize\<close>

text \<open>The values of the wire, their types, and \<open>zenoh_ext\<close>'s serializer over them.\<close>

datatype sval = VU8 "u8" | VU16 "u16" | VU32 "u32" | VU64 "u64" | VI8 "8 word" | VI16 "16 word" | VI32 "32 word" | VI64 "64 word" | VF32 "32 word" | VF64 "64 word" | VBool "bool" | VLen usize | VBytes "u8 list" | VText "u8 list"

datatype stype = TU8 | TU16 | TU32 | TU64 | TI8 | TI16 | TI32 | TI64 | TF32 | TF64 | TBool | TLen | TBytes | TText

fun type_of :: "sval \<Rightarrow> stype" where
  "type_of (VU8 _) = TU8"
| "type_of (VU16 _) = TU16"
| "type_of (VU32 _) = TU32"
| "type_of (VU64 _) = TU64"
| "type_of (VI8 _) = TI8"
| "type_of (VI16 _) = TI16"
| "type_of (VI32 _) = TI32"
| "type_of (VI64 _) = TI64"
| "type_of (VF32 _) = TF32"
| "type_of (VF64 _) = TF64"
| "type_of (VBool _) = TBool"
| "type_of (VLen _) = TLen"
| "type_of (VBytes _) = TBytes"
| "type_of (VText _) = TText"

record ('s, 'd, 'z) serde =
  se_new :: 's
  se_serialize :: "'s \<Rightarrow> sval \<Rightarrow> 's"
  se_finish :: "'s \<Rightarrow> 'z"
  de_new :: "'z \<Rightarrow> 'd"
  de_deserialize :: "'d \<Rightarrow> stype \<Rightarrow> sval option \<times> 'd"
  de_done :: "'d \<Rightarrow> bool"

text \<open>\<open>ZDeserializer::deserialize::<T>\<close> at a type: the value, seen at that type.\<close>

definition de_at :: "('s, 'd, 'z) serde \<Rightarrow> stype \<Rightarrow> (sval \<Rightarrow> 'a option) \<Rightarrow> 'd \<Rightarrow> 'a option \<times> 'd" where
  "de_at S ty get d = (let (v, d) = de_deserialize S d ty in (Option.bind v get, d))"

text \<open>What a C program passes to a serializer: a value, or memory holding it.\<close>

datatype carg = CScalar sval | CSliceArg cslice | CBuf ptr usize | CStringArg cslice | CSubstr ptr usize | CStr ptr

fun serialize_scalar :: "('s, 'd, 'z) serde \<Rightarrow> sval \<Rightarrow> 's \<Rightarrow> z_result_t \<times> 's" where
  "serialize_scalar S (VU8 x) s = ze_serializer_serialize_uint8 (\<lambda>s v. se_serialize S s (VU8 v)) s x"
| "serialize_scalar S (VU16 x) s = ze_serializer_serialize_uint16 (\<lambda>s v. se_serialize S s (VU16 v)) s x"
| "serialize_scalar S (VU32 x) s = ze_serializer_serialize_uint32 (\<lambda>s v. se_serialize S s (VU32 v)) s x"
| "serialize_scalar S (VU64 x) s = ze_serializer_serialize_uint64 (\<lambda>s v. se_serialize S s (VU64 v)) s x"
| "serialize_scalar S (VI8 x) s = ze_serializer_serialize_int8 (\<lambda>s v. se_serialize S s (VI8 v)) s x"
| "serialize_scalar S (VI16 x) s = ze_serializer_serialize_int16 (\<lambda>s v. se_serialize S s (VI16 v)) s x"
| "serialize_scalar S (VI32 x) s = ze_serializer_serialize_int32 (\<lambda>s v. se_serialize S s (VI32 v)) s x"
| "serialize_scalar S (VI64 x) s = ze_serializer_serialize_int64 (\<lambda>s v. se_serialize S s (VI64 v)) s x"
| "serialize_scalar S (VF32 x) s = ze_serializer_serialize_float (\<lambda>s v. se_serialize S s (VF32 v)) s x"
| "serialize_scalar S (VF64 x) s = ze_serializer_serialize_double (\<lambda>s v. se_serialize S s (VF64 v)) s x"
| "serialize_scalar S (VBool x) s = ze_serializer_serialize_bool (\<lambda>s v. se_serialize S s (VBool v)) s x"
| "serialize_scalar S (VLen x) s = ze_serializer_serialize_sequence_length (\<lambda>s v. se_serialize S s (VLen v)) s x"
| "serialize_scalar S v s = (Z_EINVAL, s)"

definition serialize_arg :: "('s, 'd, 'z) serde \<Rightarrow> heap \<Rightarrow> carg \<Rightarrow> 's \<Rightarrow> (z_result_t \<times> 's) run" where
  "serialize_arg S h a s = (case a of
     CScalar v \<Rightarrow> ret (serialize_scalar S v s)
   | CSliceArg c \<Rightarrow> ze_serializer_serialize_slice (\<lambda>s v. se_serialize S s (VBytes v)) s c h
   | CBuf p l \<Rightarrow> ze_serializer_serialize_buf (\<lambda>s v. se_serialize S s (VBytes v)) s p l h
   | CStringArg c \<Rightarrow> ze_serializer_serialize_string (\<lambda>s v. se_serialize S s (VText v)) s c h
   | CSubstr p l \<Rightarrow> ze_serializer_serialize_substr (\<lambda>s v. se_serialize S s (VText v)) s p l h
   | CStr p \<Rightarrow> ze_serializer_serialize_str (\<lambda>s v. se_serialize S s (VText v)) s p h)"

fun serialize_args :: "('s, 'd, 'z) serde \<Rightarrow> heap \<Rightarrow> carg list \<Rightarrow> 's \<Rightarrow> (z_result_t list \<times> 's) run" where
  "serialize_args S h [] s = ret ([], s)"
| "serialize_args S h (a # as) s = do {
     (c, s) \<leftarrow> serialize_arg S h a s;
     (cs, s) \<leftarrow> serialize_args S h as s;
     ret (c # cs, s)
   }"

text \<open>What the program gets back: a scalar, or a slice or string it reads.\<close>

fun deserialize_at :: "('s, 'd, 'z) serde \<Rightarrow> stype \<Rightarrow> 'd \<Rightarrow> heap \<Rightarrow> (z_result_t \<times> sval \<times> 'd \<times> heap) run" where
  "deserialize_at S TU8 d h =
    (let (c, v, d) = ze_deserializer_deserialize_uint8 (de_at S TU8 (\<lambda>v. case v of VU8 x \<Rightarrow> Some x | _ \<Rightarrow> None)) d 0
     in ret (c, VU8 v, d, h))"
| "deserialize_at S TU16 d h =
    (let (c, v, d) = ze_deserializer_deserialize_uint16 (de_at S TU16 (\<lambda>v. case v of VU16 x \<Rightarrow> Some x | _ \<Rightarrow> None)) d 0
     in ret (c, VU16 v, d, h))"
| "deserialize_at S TU32 d h =
    (let (c, v, d) = ze_deserializer_deserialize_uint32 (de_at S TU32 (\<lambda>v. case v of VU32 x \<Rightarrow> Some x | _ \<Rightarrow> None)) d 0
     in ret (c, VU32 v, d, h))"
| "deserialize_at S TU64 d h =
    (let (c, v, d) = ze_deserializer_deserialize_uint64 (de_at S TU64 (\<lambda>v. case v of VU64 x \<Rightarrow> Some x | _ \<Rightarrow> None)) d 0
     in ret (c, VU64 v, d, h))"
| "deserialize_at S TI8 d h =
    (let (c, v, d) = ze_deserializer_deserialize_int8 (de_at S TI8 (\<lambda>v. case v of VI8 x \<Rightarrow> Some x | _ \<Rightarrow> None)) d 0
     in ret (c, VI8 v, d, h))"
| "deserialize_at S TI16 d h =
    (let (c, v, d) = ze_deserializer_deserialize_int16 (de_at S TI16 (\<lambda>v. case v of VI16 x \<Rightarrow> Some x | _ \<Rightarrow> None)) d 0
     in ret (c, VI16 v, d, h))"
| "deserialize_at S TI32 d h =
    (let (c, v, d) = ze_deserializer_deserialize_int32 (de_at S TI32 (\<lambda>v. case v of VI32 x \<Rightarrow> Some x | _ \<Rightarrow> None)) d 0
     in ret (c, VI32 v, d, h))"
| "deserialize_at S TI64 d h =
    (let (c, v, d) = ze_deserializer_deserialize_int64 (de_at S TI64 (\<lambda>v. case v of VI64 x \<Rightarrow> Some x | _ \<Rightarrow> None)) d 0
     in ret (c, VI64 v, d, h))"
| "deserialize_at S TF32 d h =
    (let (c, v, d) = ze_deserializer_deserialize_float (de_at S TF32 (\<lambda>v. case v of VF32 x \<Rightarrow> Some x | _ \<Rightarrow> None)) d 0
     in ret (c, VF32 v, d, h))"
| "deserialize_at S TF64 d h =
    (let (c, v, d) = ze_deserializer_deserialize_double (de_at S TF64 (\<lambda>v. case v of VF64 x \<Rightarrow> Some x | _ \<Rightarrow> None)) d 0
     in ret (c, VF64 v, d, h))"
| "deserialize_at S TBool d h =
    (let (c, v, d) = ze_deserializer_deserialize_bool (de_at S TBool (\<lambda>v. case v of VBool x \<Rightarrow> Some x | _ \<Rightarrow> None)) d False
     in ret (c, VBool v, d, h))"
| "deserialize_at S TLen d h =
    (let (c, v, d) = ze_deserializer_deserialize_sequence_length (de_at S TLen (\<lambda>v. case v of VLen x \<Rightarrow> Some x | _ \<Rightarrow> None)) d
     in ret (c, VLen v, d, h))"
| "deserialize_at S TBytes d h = do {
     let (c, s, d, h) = ze_deserializer_deserialize_slice (de_at S TBytes (\<lambda>v. case v of VBytes x \<Rightarrow> Some x | _ \<Rightarrow> None)) d h;
     bs \<leftarrow> CSlice_slice s h;
     ret (c, VBytes bs, d, h)
   }"
| "deserialize_at S TText d h = do {
     let (c, s, d, h) = ze_deserializer_deserialize_string (de_at S TText (\<lambda>v. case v of VText x \<Rightarrow> Some x | _ \<Rightarrow> None)) d h;
     bs \<leftarrow> CSlice_slice s h;
     ret (c, VText bs, d, h)
   }"

fun deserialize_all :: "('s, 'd, 'z) serde \<Rightarrow> stype list \<Rightarrow> 'd \<Rightarrow> heap \<Rightarrow> (z_result_t list \<times> sval list \<times> 'd \<times> heap) run" where
  "deserialize_all S [] d h = ret ([], [], d, h)"
| "deserialize_all S (ty # ts) d h = do {
     (c, v, d, h) \<leftarrow> deserialize_at S ty d h;
     (cs, vs, d, h) \<leftarrow> deserialize_all S ts d h;
     ret (c # cs, v # vs, d, h)
   }"

text \<open>The value an argument denotes: memory that cannot be read, or a text that is not UTF-8, is none.\<close>

definition denotes :: "heap \<Rightarrow> carg \<Rightarrow> sval \<Rightarrow> bool" where
  "denotes h a v \<longleftrightarrow> (case a of
     CScalar x \<Rightarrow> v = x \<and> type_of x \<notin> {TBytes, TText}
   | CSliceArg c \<Rightarrow> (\<exists>bs. CSlice_slice c h = ret bs \<and> v = VBytes bs)
   | CBuf p l \<Rightarrow> (\<exists>bs. from_raw_parts p (unat l) h = ret bs \<and> v = VBytes bs)
   | CStringArg c \<Rightarrow> (\<exists>bs. CSlice_slice c h = ret bs \<and> utf8_valid bs \<and> v = VText bs)
   | CSubstr p l \<Rightarrow> (\<exists>bs. from_raw_parts p (unat l) h = ret bs \<and> utf8_valid bs \<and> v = VText bs)
   | CStr p \<Rightarrow> (\<exists>n bs. strlen p h = ret n \<and> n < 2 ^ 64 \<and> from_raw_parts p n h = ret bs \<and> utf8_valid bs \<and> v = VText bs))"

text \<open>The values \<open>zenoh_ext\<close> can write: their bytes fit the address space, and a text is UTF-8.\<close>

fun serializable :: "sval \<Rightarrow> bool" where
  "serializable (VBytes bs) = (length bs < 2 ^ 64)"
| "serializable (VText bs) = (length bs < 2 ^ 64 \<and> utf8_valid bs)"
| "serializable _ = True"

text \<open>What \<open>zenoh_ext\<close> promises of its format, in which types are not written. After values have been
  serialized in turn, the serializer holds them; from the bytes of a serializer that holds values, the
  deserializer that asks for the type of the first finds it, and then the rest is left. The same bytes may hold
  other values at other types: \<open>holds\<close> and \<open>left\<close> relate a state to every sequence it can be read as.\<close>

definition serde_contract ::
  "('s, 'd, 'z) serde \<Rightarrow> ('s \<Rightarrow> sval list \<Rightarrow> bool) \<Rightarrow> ('d \<Rightarrow> sval list \<Rightarrow> bool) \<Rightarrow> bool" where
  "serde_contract S holds left \<longleftrightarrow> holds (se_new S) []
     \<and> (\<forall>s vs v. holds s vs \<longrightarrow> serializable v \<longrightarrow> holds (se_serialize S s v) (vs @ [v]))
     \<and> (\<forall>s vs. holds s vs \<longrightarrow> left (de_new S (se_finish S s)) vs)
     \<and> (\<forall>d v vs. left d (v # vs) \<longrightarrow>
          (\<exists>d'. de_deserialize S d (type_of v) = (Some v, d') \<and> left d' vs))
     \<and> (\<forall>d. left d [] \<longrightarrow> de_done S d)"

subsection \<open>Properties\<close>

lemmas serializer_defs =
  ze_serializer_serialize_arithmetic_def ze_serializer_serialize_uint8_def ze_serializer_serialize_uint16_def ze_serializer_serialize_uint32_def ze_serializer_serialize_uint64_def ze_serializer_serialize_int8_def ze_serializer_serialize_int16_def ze_serializer_serialize_int32_def ze_serializer_serialize_int64_def ze_serializer_serialize_float_def ze_serializer_serialize_double_def ze_serializer_serialize_bool_def
  ze_serializer_serialize_sequence_length_def

lemmas deserializer_defs =
  ze_deserializer_deserialize_arithmetic_def ze_deserializer_deserialize_uint8_def ze_deserializer_deserialize_uint16_def ze_deserializer_deserialize_uint32_def ze_deserializer_deserialize_uint64_def ze_deserializer_deserialize_int8_def ze_deserializer_deserialize_int16_def ze_deserializer_deserialize_int32_def ze_deserializer_deserialize_int64_def ze_deserializer_deserialize_float_def ze_deserializer_deserialize_double_def ze_deserializer_deserialize_bool_def
  ze_deserializer_deserialize_sequence_length_def

lemma serialize_scalar_ok:
  "type_of v \<notin> {TBytes, TText} \<Longrightarrow> serialize_scalar S v s = (Z_OK, se_serialize S s v)"
  by (cases v) (simp_all add: serializer_defs)

lemma serialize_arg_ok: "denotes h a v \<Longrightarrow> serialize_arg S h a s = ret (Z_OK, se_serialize S s v)"
proof (cases a)
  case (CStr p)
  assume "denotes h a v"
  then obtain n bs where n: "strlen p h = ret n" "n < 2 ^ 64" "from_raw_parts p n h = ret bs" "utf8_valid bs" "v = VText bs"
    using CStr by (auto simp: denotes_def)
  moreover have "\<not> is_null p" using n(1) by (auto simp: strlen_def is_null_def split: ptr.splits)
  ultimately show ?thesis using CStr
    by (simp add: serialize_arg_def ze_serializer_serialize_str_def ze_serializer_serialize_substr_def
        strlen_or_zero_def unat_of_nat_usize)
qed (auto simp: denotes_def serialize_arg_def serialize_scalar_ok ze_serializer_serialize_slice_def
    ze_serializer_serialize_buf_def ze_serializer_serialize_string_def ze_serializer_serialize_substr_def)

lemma slice_fits: "CSlice_slice c h = ret bs \<Longrightarrow> length bs < 2 ^ 64"
  using from_raw_parts_length [of "data c" "unat (len c)" h bs] unat_usize_bound [of "len c"]
  by (auto simp: CSlice_slice_def split: if_splits)

lemma denotes_serializable: "denotes h a v \<Longrightarrow> serializable v"
proof -
  assume d: "denotes h a v"
  have buf: "length bs < 2 ^ 64" if "from_raw_parts p (unat (l :: usize)) h = ret bs" for p l bs
    using from_raw_parts_length [OF that] unat_usize_bound [of l] by simp
  show ?thesis
  proof (cases a)
    case (CScalar x)
    then show ?thesis using d by (cases x) (auto simp: denotes_def)
  next
    case (CStr p)
    then show ?thesis using d from_raw_parts_length [of p _ h] by (fastforce simp: denotes_def)
  qed (use d buf slice_fits in \<open>auto simp: denotes_def\<close>)
qed

lemma serialize_args_ok:
  assumes "serde_contract S holds left" "list_all2 (denotes h) as vs"
  shows "holds s ws \<Longrightarrow>
    \<exists>s'. serialize_args S h as s = ret (replicate (length as) Z_OK, s') \<and> holds s' (ws @ vs)"
  using assms(2)
proof (induction as vs arbitrary: s ws rule: list_all2_induct)
  case (Cons a as v vs)
  have "holds (se_serialize S s v) (ws @ [v])"
    using assms(1) Cons.prems denotes_serializable [OF Cons.hyps(1)] unfolding serde_contract_def by blast
  from Cons.IH [OF this] show ?case using serialize_arg_ok [OF Cons.hyps(1), of S s] by auto
qed simp

lemma deserialize_at_ok:
  assumes "serde_contract S holds left" "left d (v # vs)" "serializable v"
  shows "\<exists>d' h'. deserialize_at S (type_of v) d h = ret (Z_OK, v, d', h') \<and> left d' vs"
proof -
  obtain d' where d': "de_deserialize S d (type_of v) = (Some v, d')" "left d' vs"
    using assms(1,2) unfolding serde_contract_def by blast
  have bytes: "\<exists>s h'. CSlice_from_vec bs h = (s, h') \<and> CSlice_slice s h' = ret bs" if "length bs < 2 ^ 64" for bs
    using from_vec_slice [OF that, of h] by (metis prod.collapse)
  have texts: "CString_from_string bs h = CSlice_from_vec bs h" for bs
    by (simp add: CString_from_string_def CSlice_from_vec_def)
  show ?thesis
  proof (cases v)
    case (VBytes bs)
    then show ?thesis using d' bytes [of bs] assms(3)
      by (auto simp: de_at_def ze_deserializer_deserialize_slice_def)
  next
    case (VText bs)
    then show ?thesis using d' bytes [of bs] assms(3)
      by (auto simp: de_at_def ze_deserializer_deserialize_string_def texts)
  qed (use d' in \<open>simp_all add: de_at_def deserializer_defs\<close>)
qed

lemma deserialize_all_ok:
  assumes "serde_contract S holds left"
  shows "left d vs \<Longrightarrow> list_all serializable vs \<Longrightarrow>
    \<exists>d' h'. deserialize_all S (map type_of vs) d h = ret (replicate (length vs) Z_OK, vs, d', h') \<and> left d' []"
proof (induction vs arbitrary: d h)
  case (Cons v vs)
  then obtain d' h' where d': "deserialize_at S (type_of v) d h = ret (Z_OK, v, d', h')" "left d' vs"
    using deserialize_at_ok [OF assms, of d v vs h] by auto
  then show ?case using Cons.IH [OF d'(2), of h'] Cons.prems(2) by auto
qed simp

text \<open>C38: what a program serializes it can deserialize. For any sequence of values of the supported
  types, given directly or in memory as slices, buffers and strings, with the texts valid UTF-8:
  every serializer call returns \<open>Z_OK\<close>; the bytes of the finished serializer deserialize, asked for
  the same types in order, to the same values with \<open>Z_OK\<close>, slices and strings being read from the
  objects the calls construct; and then the deserializer is done. Only this is asked of \<open>zenoh_ext\<close>: that its
  untagged format is read back, value by value, at the types it was written with.\<close>

theorem serialize_roundtrip:
  assumes "serde_contract S holds left" "list_all2 (denotes h) as vs"
  shows "\<exists>s z d h'. serialize_args S h as (se_new S) = ret (replicate (length as) Z_OK, s)
    \<and> ze_serializer_finish (se_finish S) (Some s) = ret (z, None)
    \<and> deserialize_all S (map type_of vs) (ze_deserializer_from_bytes (de_new S) z) h
        = ret (replicate (length vs) Z_OK, vs, d, h')
    \<and> ze_deserializer_is_done (de_done S) d"
proof -
  have "holds (se_new S) []" using assms(1) by (simp add: serde_contract_def)
  then obtain s where s: "serialize_args S h as (se_new S) = ret (replicate (length as) Z_OK, s)" "holds s vs"
    using serialize_args_ok [OF assms] by fastforce
  have left: "left (de_new S (se_finish S s)) vs" using assms(1) s(2) by (simp add: serde_contract_def)
  have "list_all serializable vs"
    using assms(2) by (induction as vs rule: list_all2_induct) (auto intro: denotes_serializable)
  then obtain d h' where d: "deserialize_all S (map type_of vs) (de_new S (se_finish S s)) h
      = ret (replicate (length vs) Z_OK, vs, d, h')" "left d []"
    using deserialize_all_ok [OF assms(1) left, of h] by auto
  then have "de_done S d" using assms(1) by (simp add: serde_contract_def)
  then show ?thesis using s d
    by (auto simp: ze_serializer_finish_def take_rust_type_def take_c_type_def mem_replace_def gravestone_option_def
        ze_deserializer_from_bytes_def ze_deserializer_is_done_def)
qed

text \<open>An untagged format of the documented kind, to show that the contract can hold: numbers little-endian at their
  width, lengths in groups of seven bits, a slice or text as its length and its bytes. The bytes of \<open>VU8 5\<close> and of
  \<open>VI8 5\<close> are the same.\<close>

fun le_bytes :: "nat \<Rightarrow> nat \<Rightarrow> u8 list" where
  "le_bytes 0 n = []"
| "le_bytes (Suc k) n = of_nat n # le_bytes k (n div 256)"

fun le_nat :: "u8 list \<Rightarrow> nat" where
  "le_nat [] = 0"
| "le_nat (b # bs) = unat b + 256 * le_nat bs"

fun varint :: "nat \<Rightarrow> u8 list" where
  "varint n = (if n < 128 then [of_nat n] else of_nat (128 + n mod 128) # varint (n div 128))"

fun read_varint :: "u8 list \<Rightarrow> (nat \<times> u8 list) option" where
  "read_varint [] = None"
| "read_varint (b # bs) = (if unat b < 128 then Some (unat b, bs)
     else map_option (\<lambda>(m, r). (unat b - 128 + 128 * m, r)) (read_varint bs))"

declare varint.simps [simp del]

fun wire :: "sval \<Rightarrow> u8 list" where
  "wire (VU8 x) = le_bytes 1 (unat x)"
| "wire (VU16 x) = le_bytes 2 (unat x)"
| "wire (VU32 x) = le_bytes 4 (unat x)"
| "wire (VU64 x) = le_bytes 8 (unat x)"
| "wire (VI8 x) = le_bytes 1 (unat x)"
| "wire (VI16 x) = le_bytes 2 (unat x)"
| "wire (VI32 x) = le_bytes 4 (unat x)"
| "wire (VI64 x) = le_bytes 8 (unat x)"
| "wire (VF32 x) = le_bytes 4 (unat x)"
| "wire (VF64 x) = le_bytes 8 (unat x)"
| "wire (VBool x) = [if x then 1 else 0]"
| "wire (VLen x) = varint (unat x)"
| "wire (VBytes bs) = varint (length bs) @ bs"
| "wire (VText bs) = varint (length bs) @ bs"

definition read_le :: "nat \<Rightarrow> (nat \<Rightarrow> sval) \<Rightarrow> u8 list \<Rightarrow> sval option \<times> u8 list" where
  "read_le k mk d = (if length d < k then (None, d) else (Some (mk (le_nat (take k d))), drop k d))"

definition read_block :: "(u8 list \<Rightarrow> sval option) \<Rightarrow> u8 list \<Rightarrow> sval option \<times> u8 list" where
  "read_block mk d = (case read_varint d of
     Some (n, r) \<Rightarrow> if length r < n then (None, d) else (mk (take n r), drop n r)
   | None \<Rightarrow> (None, d))"

fun read_wire :: "u8 list \<Rightarrow> stype \<Rightarrow> sval option \<times> u8 list" where
  "read_wire d TU8 = read_le 1 (\<lambda>n. VU8 (of_nat n)) d"
| "read_wire d TU16 = read_le 2 (\<lambda>n. VU16 (of_nat n)) d"
| "read_wire d TU32 = read_le 4 (\<lambda>n. VU32 (of_nat n)) d"
| "read_wire d TU64 = read_le 8 (\<lambda>n. VU64 (of_nat n)) d"
| "read_wire d TI8 = read_le 1 (\<lambda>n. VI8 (of_nat n)) d"
| "read_wire d TI16 = read_le 2 (\<lambda>n. VI16 (of_nat n)) d"
| "read_wire d TI32 = read_le 4 (\<lambda>n. VI32 (of_nat n)) d"
| "read_wire d TI64 = read_le 8 (\<lambda>n. VI64 (of_nat n)) d"
| "read_wire d TF32 = read_le 4 (\<lambda>n. VF32 (of_nat n)) d"
| "read_wire d TF64 = read_le 8 (\<lambda>n. VF64 (of_nat n)) d"
| "read_wire d TBool = (case d of
     [] \<Rightarrow> (None, d)
   | b # r \<Rightarrow> if b = 0 then (Some (VBool False), r) else if b = 1 then (Some (VBool True), r) else (None, d))"
| "read_wire d TLen = (case read_varint d of Some (n, r) \<Rightarrow> (Some (VLen (of_nat n)), r) | None \<Rightarrow> (None, d))"
| "read_wire d TBytes = read_block (\<lambda>bs. Some (VBytes bs)) d"
| "read_wire d TText = read_block (\<lambda>bs. if utf8_valid bs then Some (VText bs) else None) d"

lemma length_le_bytes [simp]: "length (le_bytes k n) = k"
  by (induction k n rule: le_bytes.induct) simp_all

lemma le_nat_bytes: "le_nat (le_bytes k n) = n mod 256 ^ k"
proof (induction k n rule: le_bytes.induct)
  case (2 k n)
  have "unat (of_nat n :: u8) = n mod 256" by (simp add: unat_of_nat)
  then show ?case using 2 by (simp add: mod_mult2_eq)
qed simp

lemma read_varint_ok: "read_varint (varint n @ r) = Some (n, r)"
proof (induction n rule: varint.induct)
  case (1 n)
  show ?case
  proof (cases "n < 128")
    case True
    then show ?thesis by (simp add: varint.simps [of n] unat_of_nat)
  next
    case False
    have b: "128 + n mod 128 < 256" by (simp add: add.commute less_diff_conv)
    then have "unat (of_nat (128 + n mod 128) :: u8) = 128 + n mod 128"
      by (simp add: unat_of_nat del: of_nat_add)
    then show ?thesis using 1 False
      by (simp add: varint.simps [of n] del: of_nat_add)
  qed
qed

lemma read_le_ok:
  assumes "mk (n mod 256 ^ k) = v"
  shows "read_le k mk (le_bytes k n @ r) = (Some v, r)"
  using assms by (simp add: read_le_def le_nat_bytes)

lemma le_word [simp]:
  "(of_nat (unat (x :: 8 word) mod 256) :: 8 word) = x"
  "(of_nat (unat (y :: 16 word) mod 65536) :: 16 word) = y"
  "(of_nat (unat (z :: 32 word) mod 4294967296) :: 32 word) = z"
  "(of_nat (unat (w :: 64 word) mod 18446744073709551616) :: 64 word) = w"
  using unsigned_less [of x, where ?'a = nat] unsigned_less [of y, where ?'a = nat]
    unsigned_less [of z, where ?'a = nat] unsigned_less [of w, where ?'a = nat] by simp_all

lemma read_wire_ok: "serializable v \<Longrightarrow> read_wire (wire v @ r) (type_of v) = (Some v, r)"
  by (cases v) (simp_all add: read_le_ok read_block_def read_varint_ok del: le_bytes.simps One_nat_def)

definition demo_serde :: "(u8 list, u8 list, u8 list) serde" where
  "demo_serde = \<lparr>se_new = [], se_serialize = (\<lambda>s v. s @ wire v), se_finish = id, de_new = id,
     de_deserialize = read_wire, de_done = (\<lambda>d. d = [])\<rparr>"

definition demo_reads :: "u8 list \<Rightarrow> sval list \<Rightarrow> bool" where
  "demo_reads d vs \<longleftrightarrow> d = concat (map wire vs) \<and> list_all serializable vs"

lemma demo_serde_contract: "serde_contract demo_serde demo_reads demo_reads"
  unfolding serde_contract_def by (auto simp: demo_serde_def demo_reads_def read_wire_ok)

theorem serialize_roundtrip_witness:
  "\<exists>s z d h'. serialize_args demo_serde demo_heap
        [CScalar (VLen 300), CScalar (VU8 5), CScalar (VI8 5), CScalar (VI16 5), CBuf (Ptr 0 1) 2] []
        = ret ([Z_OK, Z_OK, Z_OK, Z_OK, Z_OK], s)
    \<and> ze_serializer_finish id (Some s) = ret (z, None)
    \<and> deserialize_all demo_serde [TLen, TU8, TI8, TI16, TBytes] z demo_heap
        = ret ([Z_OK, Z_OK, Z_OK, Z_OK, Z_OK], [VLen 300, VU8 5, VI8 5, VI16 5, VBytes [8, 9]], d, h')"
proof -
  have v: "list_all2 (denotes demo_heap)
      [CScalar (VLen 300), CScalar (VU8 5), CScalar (VI8 5), CScalar (VI16 5), CBuf (Ptr 0 1) 2]
      [VLen 300, VU8 5, VI8 5, VI16 5, VBytes [8, 9]]"
    by (simp add: denotes_def from_raw_parts_def demo_heap_def is_null_def)
  have f: "se_new demo_serde = []" "se_finish demo_serde = id" "de_new demo_serde = id"
    by (simp_all add: demo_serde_def)
  show ?thesis using serialize_roundtrip [OF demo_serde_contract v]
    by (simp add: f numeral_eq_Suc ze_deserializer_from_bytes_def del: serialize_args.simps deserialize_all.simps) blast
qed

text \<open>A null string is undefined behaviour. \<open>strlen_or_zero\<close> takes a null string for an empty one,
  but the bytes are then taken with \<open>from_raw_parts\<close> of the null pointer, which is not allowed even
  for length zero, in both string functions.\<close>

lemma serialize_null_str_undefined:
  "ze_serialize_str ser new null h = panic \<and> ze_serializer_serialize_str ser' s null h = panic"
  by (simp add: ze_serialize_str_def ze_serialize_substr_def ze_serializer_serialize_str_def
      ze_serializer_serialize_substr_def from_raw_parts_def is_null_def)

end
