(* ===== verification/Entities.thy ===== *)
theory Entities
  imports Commons Closures "HOL-Library.Multiset"
begin

text \<open>
  What the declared entities of the C API (publishers, subscribers, queriers, queryables, liveliness tokens,
  listeners, caches, and their advanced and querying variants) have in common: a declaration that succeeds
  writes the entity, one that fails leaves no entity in a slot that had none, and undeclaring or dropping takes the
  entity out of its slot and hands it to zenoh once.

  The functions of each kind are in the theories of their files; the record \<open>entity_api\<close> bundles
  those a program uses. The locale \<open>entity_kind\<close> is the contract they share, interpreted for every
  kind in its theory, and its result is about whole programs: an entity that was declared is in
  exactly one slot or was undeclared exactly once.

  The network is a state \<open>'w\<close> that zenoh's \<open>undeclare\<close>, a parameter, may change.
\<close>

subsection \<open>Results\<close>

text \<open>The errors \<open>wait\<close> may return: a closed session is told apart by a downcast.\<close>

datatype wait_error = SessionClosedError | OtherError

text \<open>What a declaration writes to its output: the entity, or the gravestone on an error.\<close>

definition declare_result :: "wait_error + 'p \<Rightarrow> z_result_t \<times> 'p option" where
  "declare_result r = (case r of Inl _ \<Rightarrow> (Z_EGENERIC, None) | Inr p \<Rightarrow> (Z_OK, Some p))"

definition generic_result :: "wait_error + 'a \<Rightarrow> z_result_t" where
  "generic_result r = (case r of Inl _ \<Rightarrow> Z_EGENERIC | Inr _ \<Rightarrow> Z_OK)"

text \<open>The body of every \<open>z_undeclare_xxx\<close>, for the code it returns on an error.\<close>

definition undeclare_entity ::
  "z_result_t \<Rightarrow> ('p \<Rightarrow> 'w \<Rightarrow> (wait_error + unit) \<times> 'w) \<Rightarrow> 'p option \<Rightarrow> 'w \<Rightarrow> z_result_t \<times> 'p option \<times> 'w" where
  "undeclare_entity err undeclare this w = (case take_rust_type gravestone_option this of
     (Some p, this) \<Rightarrow> (case undeclare p w of
        (Inl _, w) \<Rightarrow> (err, this, w) | (Inr _, w) \<Rightarrow> (Z_OK, this, w))
   | (None, this) \<Rightarrow> (Z_OK, this, w))"

text \<open>What these give a kind of entity, for the code \<open>err\<close>.\<close>

lemma undeclare_entity_none: "undeclare_entity err undeclare None w = (Z_OK, None, w)"
  by (simp add: undeclare_entity_def take_rust_type_def take_c_type_def mem_replace_def gravestone_option_def)

lemma undeclare_entity_some:
  "err \<noteq> Z_OK \<Longrightarrow> \<exists>c. undeclare_entity err undeclare (Some p) w = (c, None, snd (undeclare p w))
    \<and> (c = Z_OK \<longleftrightarrow> \<not> isl (fst (undeclare p w)))"
  by (simp add: undeclare_entity_def take_rust_type_def take_c_type_def mem_replace_def gravestone_option_def
      split: prod.splits sum.splits)

lemma undeclare_entity_snd:
  "snd (undeclare_entity err f x w) = (None, case x of None \<Rightarrow> w | Some p \<Rightarrow> snd (f p w))"
  by (cases x) (simp_all add: undeclare_entity_def take_rust_type_def take_c_type_def mem_replace_def
      gravestone_option_def split: prod.splits sum.splits)

text \<open>A kind whose drop is Rust's: zenoh's \<open>Drop\<close> undeclares the entity and ignores the result.\<close>

lemma moved_drop_undeclares:
  "the (moved_drop gravestone_option (drop_option (\<lambda>p w. ret (snd (undeclare p w)))) this w)
    = snd (undeclare_entity err undeclare this w)"
  by (simp add: opt.moved_drop_eq [unfolded gravestone_option_def] undeclare_entity_snd drop_option_def gravestone_option_def
      split: option.splits)

lemma declare_result_simps [simp]:
  "declare_result (Inl e) = (Z_EGENERIC, None)" "declare_result (Inr p) = (Z_OK, Some p)"
  by (simp_all add: declare_result_def)

lemma generic_result_ok: "generic_result r = Z_OK \<longleftrightarrow> (\<exists>x. r = Inr x)"
  by (auto simp: generic_result_def split: sum.splits)

lemmas entity_laws = undeclare_entity_none undeclare_entity_some

subsection \<open>Programs\<close>

text \<open>The functions of a kind. A declaration is given what the slot holds before it, since on an error the
  listeners of transport and link events leave it there.\<close>

record ('p, 'w) entity_api =
  api_declare :: "wait_error + 'p \<Rightarrow> 'p option \<Rightarrow> z_result_t \<times> 'p option"
  api_null :: "'p option"
  api_check :: "'p option \<Rightarrow> bool"
  api_undeclare :: "('p \<Rightarrow> 'w \<Rightarrow> (wait_error + unit) \<times> 'w) \<Rightarrow> 'p option \<Rightarrow> 'w \<Rightarrow> z_result_t \<times> 'p option \<times> 'w"
  api_drop :: "('p \<Rightarrow> 'w \<Rightarrow> (wait_error + unit) \<times> 'w) \<Rightarrow> 'p option \<Rightarrow> 'w \<Rightarrow> 'p option \<times> 'w"

text \<open>A program's calls on its slots: a declaration with its outcome on the network, the two ways to
  give an entity up, and a move (\<open>z_take\<close>) into another slot.\<close>

datatype 'p ecall = EDeclare nat "wait_error + 'p" | EUndeclare nat | EDrop nat | EMove nat nat

text \<open>An execution: the slots, and the entities handed to zenoh's \<open>undeclare\<close> so far, in order. The
  outcome of undeclaring is \<open>u\<close>.\<close>

definition log_undeclare :: "('p \<Rightarrow> wait_error + unit) \<Rightarrow> 'p \<Rightarrow> 'p list \<Rightarrow> (wait_error + unit) \<times> 'p list" where
  "log_undeclare u p w = (u p, w @ [p])"

fun ecall_exec :: "('p, 'p list) entity_api \<Rightarrow> ('p \<Rightarrow> wait_error + unit) \<Rightarrow> 'p ecall
    \<Rightarrow> 'p option list \<times> 'p list \<Rightarrow> 'p option list \<times> 'p list" where
  "ecall_exec A u (EDeclare i r) (ss, w) = (ss[i := snd (api_declare A r (ss ! i))], w)"
| "ecall_exec A u (EUndeclare i) (ss, w) =
    (let (c, x, w) = api_undeclare A (log_undeclare u) (ss ! i) w in (ss[i := x], w))"
| "ecall_exec A u (EDrop i) (ss, w) =
    (let (x, w) = api_drop A (log_undeclare u) (ss ! i) w in (ss[i := x], w))"
| "ecall_exec A u (EMove i j) (ss, w) =
    (let (x, y) = take_c_type (api_null A) (ss ! i) in (ss[i := y, j := x], w))"

text \<open>The rules of the C API: slots exist, and only a slot without an entity is constructed into. The slots of a
  program start with the null value (\<open>z_internal_xxx_null\<close>).\<close>

fun ecall_allowed :: "('p, 'p list) entity_api \<Rightarrow> 'p ecall \<Rightarrow> 'p option list \<Rightarrow> bool" where
  "ecall_allowed A (EDeclare i r) ss \<longleftrightarrow> i < length ss \<and> \<not> api_check A (ss ! i)"
| "ecall_allowed A (EUndeclare i) ss \<longleftrightarrow> i < length ss"
| "ecall_allowed A (EDrop i) ss \<longleftrightarrow> i < length ss"
| "ecall_allowed A (EMove i j) ss \<longleftrightarrow> i < length ss \<and> j < length ss \<and> i \<noteq> j \<and> \<not> api_check A (ss ! j)"

fun declared_by :: "'p ecall \<Rightarrow> 'p list" where
  "declared_by (EDeclare i (Inr p)) = [p]"
| "declared_by _ = []"

text \<open>The runs of a program of \<open>n\<close> slots, with the entities the network granted.\<close>

inductive erun :: "('p, 'p list) entity_api \<Rightarrow> ('p \<Rightarrow> wait_error + unit) \<Rightarrow> nat
    \<Rightarrow> 'p list \<Rightarrow> 'p option list \<times> 'p list \<Rightarrow> bool" for A u n where
  erun_start: "erun A u n [] (replicate n (api_null A), [])"
| erun_step: "erun A u n ps (ss, w) \<Longrightarrow> ecall_allowed A c ss
    \<Longrightarrow> erun A u n (ps @ declared_by c) (ecall_exec A u c (ss, w))"

text \<open>The entities in slots.\<close>

definition ent :: "'p option \<Rightarrow> 'p multiset" where
  "ent x = (case x of None \<Rightarrow> {#} | Some p \<Rightarrow> {#p#})"

definition entities_in :: "'p option list \<Rightarrow> 'p multiset" where
  "entities_in ss = sum_list (map ent ss)"

text \<open>The balance of a run that was granted the entities \<open>ps\<close>.\<close>

definition conserves :: "'p list \<Rightarrow> nat \<Rightarrow> 'p option list \<times> 'p list \<Rightarrow> bool" where
  "conserves ps n s \<longleftrightarrow> mset ps = mset (snd s) + entities_in (fst s) \<and> length (fst s) = n"

lemma ent_simps [simp]: "ent None = {#}" "ent (Some p) = {#p#}"
  by (simp_all add: ent_def)

lemma entities_in_update:
  "i < length ss \<Longrightarrow> entities_in (ss[i := x]) + ent (ss ! i) = entities_in ss + ent x"
  using sum_list_update_add [of i "map ent ss" "ent x"] by (simp add: entities_in_def map_update)

lemma entities_in_replicate: "entities_in (replicate n None) = {#}"
  by (induction n) (simp_all add: entities_in_def)

subsection \<open>The contract of a kind of entity\<close>

locale entity_kind =
  fixes A :: "('p, 'p list) entity_api"
  assumes null_none: "api_null A = None"
    and check_some: "api_check A x \<longleftrightarrow> x \<noteq> None"
    and declare_ok: "api_declare A (Inr p) x = (Z_OK, Some p)"
    and declare_err: "\<exists>c. api_declare A (Inl e) None = (c, None) \<and> c \<noteq> Z_OK"
    and undeclare_none: "api_undeclare A f None w = (Z_OK, None, w)"
    and undeclare_some: "\<exists>c. api_undeclare A f (Some p) w = (c, None, snd (f p w)) \<and> (c = Z_OK \<longleftrightarrow> \<not> isl (fst (f p w)))"
    and drop_undeclares: "api_drop A f x w = snd (api_undeclare A f x w)"
begin

lemma declare_code: "fst (api_declare A r None) = Z_OK \<longleftrightarrow> api_check A (snd (api_declare A r None))"
proof (cases r)
  case (Inl e)
  then show ?thesis using declare_err [of e] check_some by auto
next
  case (Inr p)
  then show ?thesis using declare_ok [of p None] check_some by simp
qed

lemma declare_entities: "ent (snd (api_declare A r None)) = mset (declared_by (EDeclare i r))"
proof (cases r)
  case (Inl e)
  then show ?thesis using declare_err [of e] by auto
next
  case (Inr p)
  then show ?thesis using declare_ok [of p None] by simp
qed

text \<open>Giving up a slot hands its entity to \<open>undeclare\<close>, if it has one.\<close>

lemma undeclare_log:
  "\<exists>c w'. api_undeclare A (log_undeclare u) x w = (c, None, w') \<and> mset w' = mset w + ent x"
proof (cases x)
  case None
  then show ?thesis using undeclare_none by simp
next
  case (Some p)
  then show ?thesis using undeclare_some [of "log_undeclare u" p w] by (auto simp: log_undeclare_def)
qed

lemma exec_conserves:
  assumes "conserves ps n (ss, w)" "ecall_allowed A c ss"
  shows "conserves (ps @ declared_by c) n (ecall_exec A u c (ss, w))"
proof (cases c)
  case (EDeclare i r)
  then have "ss ! i = None" "i < length ss" using assms(2) check_some by auto
  then show ?thesis
    using assms EDeclare entities_in_update [of i ss] declare_entities [of r i] by (simp add: conserves_def)
next
  case (EUndeclare i)
  then have i: "i < length ss" using assms(2) by simp
  obtain c' w' where "api_undeclare A (log_undeclare u) (ss ! i) w = (c', None, w')" "mset w' = mset w + ent (ss ! i)"
    using undeclare_log by blast
  then show ?thesis using assms EUndeclare entities_in_update [OF i, of None] by (simp add: conserves_def add_ac)
next
  case (EDrop i)
  then have i: "i < length ss" using assms(2) by simp
  obtain c' w' where "api_undeclare A (log_undeclare u) (ss ! i) w = (c', None, w')" "mset w' = mset w + ent (ss ! i)"
    using undeclare_log by blast
  then show ?thesis
    using assms EDrop entities_in_update [OF i, of None] by (simp add: conserves_def drop_undeclares add_ac)
next
  case (EMove i j)
  then have ij: "i < length ss" "j < length ss" "i \<noteq> j" "ent (ss ! j) = {#}" using assms(2) check_some by auto
  have "entities_in (ss[i := None, j := ss ! i]) = entities_in (ss[i := None]) + ent (ss ! i)"
    using entities_in_update [of j "ss[i := None]" "ss ! i"] ij by simp
  also have "\<dots> = entities_in ss" using entities_in_update [OF ij(1), of None] by simp
  finally show ?thesis
    using assms EMove by (simp add: conserves_def take_c_type_def mem_replace_def null_none)
qed

lemma run_conserves: "erun A u n ps s \<Longrightarrow> conserves ps n s"
proof (induction rule: erun.induct)
  case erun_start
  then show ?case by (simp add: conserves_def null_none entities_in_replicate)
next
  case (erun_step ps ss w c)
  then show ?case by (rule_tac exec_conserves) simp_all
qed

text \<open>A program can always give everything back: dropping its slots, in any order that visits them
  all, undeclares every entity that was not undeclared yet.\<close>

lemma run_drops:
  "erun A u n ps (ss, w) \<Longrightarrow> set is \<subseteq> {..<n} \<Longrightarrow>
    \<exists>ss' w'. fold (ecall_exec A u) (map EDrop is) (ss, w) = (ss', w') \<and> erun A u n ps (ss', w')
      \<and> (\<forall>i<n. i \<in> set is \<or> ss ! i = None \<longrightarrow> ss' ! i = None)"
proof (induction "is" arbitrary: ss w)
  case Nil
  then show ?case by simp
next
  case (Cons i "is")
  have l: "length ss = n" using run_conserves [OF Cons.prems(1)] by (simp add: conserves_def)
  obtain c w1 where "api_undeclare A (log_undeclare u) (ss ! i) w = (c, None, w1)" using undeclare_log by blast
  then have e: "ecall_exec A u (EDrop i) (ss, w) = (ss[i := None], w1)" by (simp add: drop_undeclares)
  have "ecall_allowed A (EDrop i) ss" using l Cons.prems(2) by simp
  from erun_step [OF Cons.prems(1) this] have "erun A u n ps (ss[i := None], w1)" by (simp only: e) simp
  from Cons.IH [OF this] Cons.prems(2) obtain ss' w' where
    "fold (ecall_exec A u) (map EDrop is) (ss[i := None], w1) = (ss', w')" "erun A u n ps (ss', w')"
    and n: "\<forall>j<n. j \<in> set is \<or> ss[i := None] ! j = None \<longrightarrow> ss' ! j = None" by auto
  moreover have "\<forall>j<n. j \<in> set (i # is) \<or> ss ! j = None \<longrightarrow> ss' ! j = None"
  proof (intro allI impI)
    fix j assume j: "j < n" "j \<in> set (i # is) \<or> ss ! j = None"
    then have "j \<in> set is \<or> ss[i := None] ! j = None" using l by (cases "j = i") auto
    then show "ss' ! j = None" using n j(1) by blast
  qed
  moreover have "fold (ecall_exec A u) (map EDrop (i # is)) (ss, w)
      = fold (ecall_exec A u) (map EDrop is) (ss[i := None], w1)" by (simp only: list.map fold_Cons o_apply e)
  ultimately show ?case by metis
qed

lemma run_teardown:
  assumes "erun A u n ps (ss, w)" "set is = {..<n}"
  shows "\<exists>w'. fold (ecall_exec A u) (map EDrop is) (ss, w) = (replicate n None, w') \<and> mset w' = mset ps"
proof -
  obtain ss' w' where r: "fold (ecall_exec A u) (map EDrop is) (ss, w) = (ss', w')" "erun A u n ps (ss', w')"
    "\<forall>i<n. ss' ! i = None" using run_drops [OF assms(1), of "is"] assms(2) by auto
  from run_conserves [OF r(2)] have c: "mset ps = mset w' + entities_in ss'" "length ss' = n"
    by (simp_all add: conserves_def)
  then have "ss' = replicate n None" using r(3) by (simp add: list_eq_iff_nth_eq)
  then show ?thesis using r(1) c(1) by (simp add: entities_in_replicate)
qed

end

text \<open>The slot of an entity keeps the ownership protocol of theory \<open>Ownership\<close>: what the kind's drop does is what
  the protocol says of a drop.\<close>

sublocale entity_kind \<subseteq> slot: gravestone "api_null A" "\<lambda>x. \<not> api_check A x" "\<lambda>x w. ret (snd (api_drop A f x w))" for f
  by unfold_locales (simp_all add: null_none check_some drop_undeclares undeclare_none)

context entity_kind
begin

lemma drop_empties: "api_drop A f x w = (None, snd (api_drop A f x w))"
proof (cases x)
  case (Some p)
  obtain c where "api_undeclare A f (Some p) w = (c, None, snd (f p w))" using undeclare_some [of f p w] by blast
  then show ?thesis using Some by (simp add: drop_undeclares)
qed (simp add: drop_undeclares undeclare_none)

lemma kind_drop_is_moved_drop:
  "moved_drop (api_null A) (\<lambda>x w. ret (snd (api_drop A f x w))) x w = ret (api_drop A f x w)"
  unfolding slot.moved_drop_eq by (subst (2) drop_empties) (simp add: null_none)

text \<open>A second drop of a slot, and a drop of a slot an entity was taken from, do not reach the network.\<close>

lemma kind_drop_twice: "api_drop A f x w = (x', w') \<Longrightarrow> api_drop A f x' w' = (None, w')"
  using slot.drop_twice [of f x w x' w'] unfolding kind_drop_is_moved_drop by (simp add: null_none)

lemma kind_take_then_drop:
  "take_rust_type (api_null A) x = (y, x') \<Longrightarrow> snd (api_drop A f y (snd (api_drop A f x' w))) = snd (api_drop A f x w)"
  using slot.take_then_drop [of x y x' f w]
  unfolding slot.owned_drop_is_moved_drop kind_drop_is_moved_drop by (simp add: split_beta)

end

end
