(* ===== verification/ShmTypes.thy ===== *)
theory ShmTypes
  imports Memory Ownership
begin

text \<open>
  The values of the shared memory API: \<open>src/context.rs\<close>, \<open>src/shm/common/types.rs\<close>,
  \<open>src/shm/provider/chunk.rs\<close>, \<open>types.rs\<close> and \<open>shm_provider_backend.rs\<close>.

  The C program hands zenoh-c contexts, each with the function that deletes it, and callbacks.
  A function of the C program is a HOL function on the state \<open>'w\<close> of the program, so that a theorem
  about a call of zenoh-c says which of them run, in which order and on what.

  zenoh's own types are parameters: \<open>'s\<close> is \<open>PtrInSegment\<close>, \<open>'m\<close> is \<open>MemoryLayout\<close> and \<open>'b\<close> is \<open>ZShmMut\<close>.
  An output that a function leaves unwritten on some path is an argument, the contents of the
  caller's slot, which the model returns as it was.
\<close>

subsection \<open>Contexts (context.rs)\<close>

text \<open>\<open>zc_context_t\<close> and \<open>zc_threadsafe_context_t\<close> are plain structures of C: letting one of them go does
  nothing. Only the Rust types \<open>Context\<close> and \<open>ThreadsafeContext\<close> made from them call the deleter.\<close>

record 'w zc_context_t =
  cx_context :: ptr
  cx_delete_fn :: "ptr \<Rightarrow> 'w \<Rightarrow> 'w"

record zc_threadsafe_context_data_t =
  tcd_ptr :: ptr

record 'w zc_threadsafe_context_t =
  tcx_context :: zc_threadsafe_context_data_t
  tcx_delete_fn :: "ptr \<Rightarrow> 'w \<Rightarrow> 'w"

datatype 'w Context = Context "'w zc_context_t"

datatype 'w ThreadsafeContext = ThreadsafeContext "'w zc_threadsafe_context_t"

definition Context_from :: "'w zc_context_t \<Rightarrow> 'w Context" where
  "Context_from value = Context value"

definition ThreadsafeContext_from :: "'w zc_threadsafe_context_t \<Rightarrow> 'w ThreadsafeContext" where
  "ThreadsafeContext_from value = ThreadsafeContext value"

fun Context_get :: "'w Context \<Rightarrow> ptr" where
  "Context_get (Context c) = cx_context c"

fun ThreadsafeContext_get :: "'w ThreadsafeContext \<Rightarrow> ptr" where
  "ThreadsafeContext_get (ThreadsafeContext c) = tcd_ptr (tcx_context c)"

fun Context_drop :: "'w Context \<Rightarrow> 'w \<Rightarrow> 'w" where
  "Context_drop (Context c) w = cx_delete_fn c (cx_context c) w"

fun ThreadsafeContext_drop :: "'w ThreadsafeContext \<Rightarrow> 'w \<Rightarrow> 'w" where
  "ThreadsafeContext_drop (ThreadsafeContext c) w = tcx_delete_fn c (tcd_ptr (tcx_context c)) w"

subsection \<open>Chunks (chunk.rs)\<close>

type_synonym z_protocol_id_t = u32
type_synonym z_segment_id_t = u32
type_synonym z_chunk_id_t = u32

record z_chunk_descriptor_t =
  cd_segment :: z_segment_id_t
  cd_chunk :: z_chunk_id_t
  cd_len :: usize

text \<open>zenoh's descriptor has the same fields with a length of type \<open>NonZeroUsize\<close>.\<close>

datatype ChunkDescriptor = ChunkDescriptor_new z_segment_id_t z_chunk_id_t usize

definition NonZeroUsize_try_from :: "usize \<Rightarrow> usize option" where
  "NonZeroUsize_try_from n = (if n = 0 then None else Some n)"

definition ChunkDescriptor_try_from :: "z_chunk_descriptor_t \<Rightarrow> ChunkDescriptor option" where
  "ChunkDescriptor_try_from value = do {
     len \<leftarrow> NonZeroUsize_try_from (cd_len value);
     Some (ChunkDescriptor_new (cd_segment value) (cd_chunk value) len)
   }"

fun z_chunk_descriptor_from :: "ChunkDescriptor \<Rightarrow> z_chunk_descriptor_t" where
  "z_chunk_descriptor_from (ChunkDescriptor_new segment chunk len) = \<lparr>cd_segment = segment, cd_chunk = chunk, cd_len = len\<rparr>"

text \<open>The structure holds the address of a slot with the pointer; here it holds the slot's contents,
  and functions that take from the slot return what is left in it.\<close>

record 's z_allocated_chunk_t =
  ac_descriptpr :: z_chunk_descriptor_t
  ac_ptr :: "'s option"

datatype 's AllocatedChunk = AllocatedChunk_new ChunkDescriptor 's

text \<open>The pointer is taken out of the caller's slot before the length is looked at; when the length is
  zero the function's frame drops it.\<close>

definition AllocatedChunk_try_from ::
  "('s \<Rightarrow> 'w \<Rightarrow> 'w) \<Rightarrow> 's z_allocated_chunk_t \<Rightarrow> 'w \<Rightarrow> 's AllocatedChunk option \<times> 's option \<times> 'w" where
  "AllocatedChunk_try_from drop_ptr value w = (case take_rust_type gravestone_option (ac_ptr value) of
     (None, slot) \<Rightarrow> (None, slot, w)
   | (Some p, slot) \<Rightarrow> (case ChunkDescriptor_try_from (ac_descriptpr value) of
        None \<Rightarrow> (None, slot, drop_ptr p w)
      | Some d \<Rightarrow> (Some (AllocatedChunk_new d p), slot, w)))"

text \<open>\<open>PtrInSegment_new\<close> is zenoh's constructor over the context in a new \<open>Arc\<close>.\<close>

definition z_ptr_in_segment_new ::
  "(ptr \<Rightarrow> 'w ThreadsafeContext \<Rightarrow> 's) \<Rightarrow> ptr \<Rightarrow> 'w zc_threadsafe_context_t \<Rightarrow> 's option" where
  "z_ptr_in_segment_new PtrInSegment_new p segment =
    (let segment = ThreadsafeContext_from segment in Some (PtrInSegment_new p segment))"

definition z_internal_ptr_in_segment_null :: "'s option" where
  "z_internal_ptr_in_segment_null = None"

definition z_internal_ptr_in_segment_check :: "'s option \<Rightarrow> bool" where
  "z_internal_ptr_in_segment_check this \<longleftrightarrow> this \<noteq> None"

definition z_ptr_in_segment_loan :: "'s option \<Rightarrow> 's run" where
  "z_ptr_in_segment_loan this = loan_option this"

definition z_ptr_in_segment_clone :: "('s \<Rightarrow> 's) \<Rightarrow> 's \<Rightarrow> 's option" where
  "z_ptr_in_segment_clone to_owned this = Some (to_owned this)"

text \<open>The drop of a zenoh value changes the program's state through the deleters it holds.\<close>

definition drop_moved :: "('a \<Rightarrow> 'w \<Rightarrow> 'w) \<Rightarrow> 'a option \<Rightarrow> 'w \<Rightarrow> 'a option \<times> 'w" where
  "drop_moved drp this w =
    (let (x, this) = take_rust_type gravestone_option this in (this, case x of None \<Rightarrow> w | Some v \<Rightarrow> drp v w))"

definition z_ptr_in_segment_drop :: "('s \<Rightarrow> 'w \<Rightarrow> 'w) \<Rightarrow> 's option \<Rightarrow> 'w \<Rightarrow> 's option \<times> 'w" where
  "z_ptr_in_segment_drop drop_ptr this w = drop_moved drop_ptr this w"

subsection \<open>Errors and layouts (types.rs)\<close>

datatype z_alloc_error_t = AE_NEED_DEFRAGMENT | AE_OUT_OF_MEMORY | AE_OTHER

datatype ZAllocError = NeedDefragment | OutOfMemory | Other

fun z_alloc_error_from_rust :: "ZAllocError \<Rightarrow> z_alloc_error_t" where
  "z_alloc_error_from_rust NeedDefragment = AE_NEED_DEFRAGMENT"
| "z_alloc_error_from_rust OutOfMemory = AE_OUT_OF_MEMORY"
| "z_alloc_error_from_rust Other = AE_OTHER"

fun z_alloc_error_to_rust :: "z_alloc_error_t \<Rightarrow> ZAllocError" where
  "z_alloc_error_to_rust AE_NEED_DEFRAGMENT = NeedDefragment"
| "z_alloc_error_to_rust AE_OUT_OF_MEMORY = OutOfMemory"
| "z_alloc_error_to_rust AE_OTHER = Other"

datatype z_layout_error_t = LE_INCORRECT_LAYOUT_ARGS | LE_PROVIDER_INCOMPATIBLE_LAYOUT

datatype ZLayoutError = IncorrectLayoutArgs | ProviderIncompatibleLayout

fun z_layout_error_from_rust :: "ZLayoutError \<Rightarrow> z_layout_error_t" where
  "z_layout_error_from_rust IncorrectLayoutArgs = LE_INCORRECT_LAYOUT_ARGS"
| "z_layout_error_from_rust ProviderIncompatibleLayout = LE_PROVIDER_INCOMPATIBLE_LAYOUT"

fun z_layout_error_to_rust :: "z_layout_error_t \<Rightarrow> ZLayoutError" where
  "z_layout_error_to_rust LE_INCORRECT_LAYOUT_ARGS = IncorrectLayoutArgs"
| "z_layout_error_to_rust LE_PROVIDER_INCOMPATIBLE_LAYOUT = ProviderIncompatibleLayout"

lemma shm_error_conversions [simp]:
  "z_alloc_error_to_rust (z_alloc_error_from_rust e) = e"
  "z_alloc_error_from_rust (z_alloc_error_to_rust c) = c"
  "z_layout_error_to_rust (z_layout_error_from_rust l) = l"
  "z_layout_error_from_rust (z_layout_error_to_rust d) = d"
  by (cases e, simp_all) (cases c, simp_all, cases l, simp_all, cases d, simp_all)

record z_alloc_alignment_t =
  al_pow :: u8

text \<open>zenoh's alignments and layouts: \<open>AllocAlignment::new\<close> and \<open>MemoryLayout::new\<close> check their
  arguments; \<open>into_rust_type\<close> reinterprets the C structure without a check (\<open>la_transmute\<close>).\<close>

record ('a, 'm) layout_ops =
  la_alignment_new :: "u8 \<Rightarrow> ZLayoutError + 'a"
  la_transmute :: "z_alloc_alignment_t \<Rightarrow> 'a"
  la_into_c :: "'a \<Rightarrow> z_alloc_alignment_t"
  la_new :: "usize \<Rightarrow> 'a \<Rightarrow> ZLayoutError + 'm"
  la_size :: "'m \<Rightarrow> usize"
  la_alignment :: "'m \<Rightarrow> 'a"

definition create_memory_layout :: "('a, 'm) layout_ops \<Rightarrow> usize \<Rightarrow> z_alloc_alignment_t \<Rightarrow> ZLayoutError + 'm" where
  "create_memory_layout L sz alignment = (case la_alignment_new L (al_pow alignment) of
     Inl e \<Rightarrow> Inl e | Inr alignment \<Rightarrow> la_new L sz alignment)"

definition z_memory_layout_new ::
  "('a, 'm) layout_ops \<Rightarrow> 'm option \<Rightarrow> usize \<Rightarrow> z_alloc_alignment_t \<Rightarrow> z_result_t \<times> 'm option" where
  "z_memory_layout_new L this sz alignment = (case create_memory_layout L sz alignment of
     Inr layout \<Rightarrow> (Z_OK, Some layout) | Inl e \<Rightarrow> (Z_EINVAL, this))"

definition z_internal_memory_layout_null :: "'m option" where
  "z_internal_memory_layout_null = None"

definition z_internal_memory_layout_check :: "'m option \<Rightarrow> bool" where
  "z_internal_memory_layout_check this \<longleftrightarrow> this \<noteq> None"

definition z_memory_layout_loan :: "'m option \<Rightarrow> 'm run" where
  "z_memory_layout_loan this = loan_option this"

text \<open>A layout holds numbers only: letting it go does nothing.\<close>

definition z_memory_layout_drop :: "'m option \<Rightarrow> 'm option" where
  "z_memory_layout_drop this = snd (take_rust_type gravestone_option this)"

definition z_memory_layout_get_data :: "('a, 'm) layout_ops \<Rightarrow> 'm \<Rightarrow> usize \<times> z_alloc_alignment_t" where
  "z_memory_layout_get_data L this = (la_size L this, la_into_c L (la_alignment L this))"

type_synonym 's ChunkAllocResult = "ZAllocError + 's AllocatedChunk"

text \<open>A slot of an allocation result may be uninitialised, which is \<open>None\<close>; \<open>this\<close> is what it holds before.\<close>

type_synonym 's chunk_alloc_slot = "'s ChunkAllocResult option option"

definition z_chunk_alloc_result_new_ok ::
  "('s \<Rightarrow> 'w \<Rightarrow> 'w) \<Rightarrow> 's chunk_alloc_slot \<Rightarrow> 's z_allocated_chunk_t \<Rightarrow> 'w
   \<Rightarrow> (z_result_t \<times> 's chunk_alloc_slot) \<times> 's option \<times> 'w" where
  "z_chunk_alloc_result_new_ok drop_ptr this allocated_chunk w =
    (case AllocatedChunk_try_from drop_ptr allocated_chunk w of
       (Some chunk, slot, w) \<Rightarrow> ((Z_OK, Some (Some (Inr chunk))), slot, w)
     | (None, slot, w) \<Rightarrow> ((Z_EINVAL, this), slot, w))"

definition z_chunk_alloc_result_new_error :: "z_alloc_error_t \<Rightarrow> 's ChunkAllocResult option" where
  "z_chunk_alloc_result_new_error alloc_error = Some (Inl (z_alloc_error_to_rust alloc_error))"

definition z_internal_chunk_alloc_result_null :: "'s ChunkAllocResult option" where
  "z_internal_chunk_alloc_result_null = None"

definition z_internal_chunk_alloc_result_check :: "'s ChunkAllocResult option \<Rightarrow> bool" where
  "z_internal_chunk_alloc_result_check this \<longleftrightarrow> this \<noteq> None"

definition z_chunk_alloc_result_drop ::
  "('s ChunkAllocResult \<Rightarrow> 'w \<Rightarrow> 'w) \<Rightarrow> 's ChunkAllocResult option \<Rightarrow> 'w \<Rightarrow> 's ChunkAllocResult option \<times> 'w" where
  "z_chunk_alloc_result_drop drp this w = drop_moved drp this w"

subsection \<open>Results of allocations (types.rs)\<close>

datatype zc_buf_alloc_status_t = BA_OK | BA_ALLOC_ERROR

record 'b z_buf_alloc_result_t =
  ba_status :: zc_buf_alloc_status_t
  ba_buf :: "'b option"
  ba_error :: z_alloc_error_t

definition z_buf_alloc_result_from :: "ZAllocError + 'b \<Rightarrow> 'b z_buf_alloc_result_t" where
  "z_buf_alloc_result_from value = (case value of
     Inr val \<Rightarrow> \<lparr>ba_status = BA_OK, ba_buf = Some val, ba_error = AE_OTHER\<rparr>
   | Inl error \<Rightarrow> \<lparr>ba_status = BA_ALLOC_ERROR, ba_buf = None, ba_error = z_alloc_error_from_rust error\<rparr>)"

datatype zc_buf_layout_alloc_status_t = BLA_OK | BLA_ALLOC_ERROR | BLA_LAYOUT_ERROR

record 'b z_buf_layout_alloc_result_t =
  bla_status :: zc_buf_layout_alloc_status_t
  bla_buf :: "'b option"
  bla_alloc_error :: z_alloc_error_t
  bla_layout_error :: z_layout_error_t

datatype ZLayoutAllocError = Alloc ZAllocError | Layout ZLayoutError

definition z_buf_layout_alloc_result_from :: "ZLayoutAllocError + 'b \<Rightarrow> 'b z_buf_layout_alloc_result_t" where
  "z_buf_layout_alloc_result_from value = (case value of
     Inr val \<Rightarrow> \<lparr>bla_status = BLA_OK, bla_buf = Some val, bla_alloc_error = AE_OTHER,
       bla_layout_error = LE_PROVIDER_INCOMPATIBLE_LAYOUT\<rparr>
   | Inl (Alloc alloc) \<Rightarrow> \<lparr>bla_status = BLA_ALLOC_ERROR, bla_buf = None, bla_alloc_error = z_alloc_error_from_rust alloc,
       bla_layout_error = LE_PROVIDER_INCOMPATIBLE_LAYOUT\<rparr>
   | Inl (Layout layout) \<Rightarrow> \<lparr>bla_status = BLA_LAYOUT_ERROR, bla_buf = None, bla_alloc_error = AE_OTHER,
       bla_layout_error = z_layout_error_from_rust layout\<rparr>)"

subsection \<open>The backend made of callbacks (shm\_provider\_backend.rs)\<close>

text \<open>The state the callbacks work on is that of the program. \<open>alloc_fn\<close> and \<open>layout_for_fn\<close> write to a
  slot: the result is what they leave there. The slot of \<open>alloc_fn\<close> is uninitialised when it is called, and
  may still be when it returns.\<close>

record ('s, 'm, 'w) zc_shm_provider_backend_callbacks_t =
  alloc_fn :: "'m \<Rightarrow> ptr \<Rightarrow> 'w \<Rightarrow> 's chunk_alloc_slot \<times> 'w"
  free_fn :: "z_chunk_descriptor_t \<Rightarrow> ptr \<Rightarrow> 'w \<Rightarrow> 'w"
  defragment_fn :: "ptr \<Rightarrow> 'w \<Rightarrow> usize \<times> 'w"
  available_fn :: "ptr \<Rightarrow> 'w \<Rightarrow> usize \<times> 'w"
  layout_for_fn :: "'m option \<Rightarrow> ptr \<Rightarrow> 'w \<Rightarrow> 'm option \<times> 'w"
  id_fn :: "ptr \<Rightarrow> 'w \<Rightarrow> z_protocol_id_t \<times> 'w"

text \<open>\<open>TContext\<close> is \<open>Context\<close> or \<open>ThreadsafeContext\<close>; \<open>get\<close> is its method of the trait \<open>DroppableContext\<close>.\<close>

record ('c, 's, 'm, 'w) DynamicShmProviderBackend =
  be_context :: 'c
  be_callbacks :: "('s, 'm, 'w) zc_shm_provider_backend_callbacks_t"

definition DynamicShmProviderBackend_new ::
  "'c \<Rightarrow> ('s, 'm, 'w) zc_shm_provider_backend_callbacks_t \<Rightarrow> ('c, 's, 'm, 'w) DynamicShmProviderBackend" where
  "DynamicShmProviderBackend_new context' callbacks = \<lparr>be_context = context', be_callbacks = callbacks\<rparr>"

definition backend_id :: "('c \<Rightarrow> ptr) \<Rightarrow> ('c, 's, 'm, 'w) DynamicShmProviderBackend \<Rightarrow> 'w \<Rightarrow> z_protocol_id_t \<times> 'w" where
  "backend_id get self w = id_fn (be_callbacks self) (get (be_context self)) w"

text \<open>\<open>assume_init\<close> of a slot the callback did not write is undefined behaviour.\<close>

definition backend_alloc ::
  "('c \<Rightarrow> ptr) \<Rightarrow> ('c, 's, 'm, 'w) DynamicShmProviderBackend \<Rightarrow> 'm \<Rightarrow> 'w \<Rightarrow> ('s ChunkAllocResult \<times> 'w) run" where
  "backend_alloc get self layout w = (case alloc_fn (be_callbacks self) layout (get (be_context self)) w of
     (None, w) \<Rightarrow> panic
   | (Some result, w) \<Rightarrow> (case fst (take_rust_type gravestone_option result) of
        Some val \<Rightarrow> ret (val, w) | None \<Rightarrow> ret (Inl Other, w)))"

definition backend_free :: "('c \<Rightarrow> ptr) \<Rightarrow> ('c, 's, 'm, 'w) DynamicShmProviderBackend \<Rightarrow> ChunkDescriptor \<Rightarrow> 'w \<Rightarrow> 'w" where
  "backend_free get self chunk w = free_fn (be_callbacks self) (z_chunk_descriptor_from chunk) (get (be_context self)) w"

definition backend_defragment :: "('c \<Rightarrow> ptr) \<Rightarrow> ('c, 's, 'm, 'w) DynamicShmProviderBackend \<Rightarrow> 'w \<Rightarrow> usize \<times> 'w" where
  "backend_defragment get self w = defragment_fn (be_callbacks self) (get (be_context self)) w"

definition backend_available :: "('c \<Rightarrow> ptr) \<Rightarrow> ('c, 's, 'm, 'w) DynamicShmProviderBackend \<Rightarrow> 'w \<Rightarrow> usize \<times> 'w" where
  "backend_available get self w = available_fn (be_callbacks self) (get (be_context self)) w"

definition backend_layout_for ::
  "('c \<Rightarrow> ptr) \<Rightarrow> ('c, 's, 'm, 'w) DynamicShmProviderBackend \<Rightarrow> 'm \<Rightarrow> 'w \<Rightarrow> (ZLayoutError + 'm) \<times> 'w" where
  "backend_layout_for get self layout w =
    (case layout_for_fn (be_callbacks self) (Some layout) (get (be_context self)) w of
       (Some layout, w) \<Rightarrow> (Inr layout, w) | (None, w) \<Rightarrow> (Inl ProviderIncompatibleLayout, w))"

subsection \<open>What the program sees of a chunk\<close>

lemma take_rust_type_option [simp]: "take_rust_type gravestone_option x = (x, None)"
  by (simp add: take_rust_type_def take_c_type_def mem_replace_def gravestone_option_def)

lemma drop_moved_simps [simp]:
  "drop_moved drp None w = (None, w)"
  "drop_moved drp (Some v) w = (None, drp v w)"
  by (simp_all add: drop_moved_def)

lemma chunk_descriptor_roundtrip: "ChunkDescriptor_try_from d = Some c \<longleftrightarrow> z_chunk_descriptor_from c = d \<and> cd_len d \<noteq> 0"
  by (cases c; cases d) (auto simp: ChunkDescriptor_try_from_def NonZeroUsize_try_from_def)


text \<open>C16: a chunk keeps its identity between the callbacks of a backend. What \<open>alloc_fn\<close> wraps with
  \<open>z_chunk_alloc_result_new_ok\<close> in the slot it was given reaches zenoh as an allocated
  chunk that holds the same pointer, and freeing that chunk hands \<open>free_fn\<close> the same descriptor with
  the same context. For a length of zero the function answers \<open>Z_EINVAL\<close>, drops the pointer, although the caller may expect
  to keep it, and leaves the slot of the result as it was. If \<open>alloc_fn\<close> returns then, zenoh sees
  what was there: \<open>Other\<close> when the callback had made it a gravestone, but the slot is uninitialised when the callback is called,
  and then reading it is undefined behaviour. In all cases the caller's slot of the pointer is left empty.\<close>

theorem backend_chunk_roundtrip:
  assumes "z_chunk_alloc_result_new_ok drop_ptr this \<lparr>ac_descriptpr = d, ac_ptr = Some p\<rparr> w = ((code, res), slot, w')"
    and "alloc_fn (be_callbacks self) layout (get (be_context self)) v = (res, v')"
  shows "slot = None
    \<and> (cd_len d = 0 \<longrightarrow> code = Z_EINVAL \<and> w' = drop_ptr p w \<and> res = this
        \<and> (this = Some z_internal_chunk_alloc_result_null \<longrightarrow> backend_alloc get self layout v = ret (Inl Other, v'))
        \<and> (this = None \<longrightarrow> backend_alloc get self layout v = panic))
    \<and> (cd_len d \<noteq> 0 \<longrightarrow> code = Z_OK \<and> w' = w
        \<and> (\<exists>c. backend_alloc get self layout v = ret (Inr (AllocatedChunk_new c p), v')
            \<and> (\<forall>u. backend_free get self c u = free_fn (be_callbacks self) d (get (be_context self)) u)))"
proof (cases "ChunkDescriptor_try_from d")
  case None
  then have "cd_len d = 0"
    by (auto simp: ChunkDescriptor_try_from_def NonZeroUsize_try_from_def split: if_splits)
  with None assms show ?thesis
    by (auto simp: z_chunk_alloc_result_new_ok_def AllocatedChunk_try_from_def backend_alloc_def
        z_internal_chunk_alloc_result_null_def)
next
  case (Some c)
  then have "cd_len d \<noteq> 0" "z_chunk_descriptor_from c = d" by (simp_all add: chunk_descriptor_roundtrip)
  with Some assms show ?thesis
    by (auto simp: z_chunk_alloc_result_new_ok_def AllocatedChunk_try_from_def backend_alloc_def backend_free_def)
qed

text \<open>A program whose state is the list of what happened: deletions of contexts, frees of chunks.\<close>

definition demo_callbacks :: "(nat, usize, (nat \<times> z_chunk_descriptor_t) list) zc_shm_provider_backend_callbacks_t" where
  "demo_callbacks = \<lparr>alloc_fn = (\<lambda>_ _ v. (Some (Some (Inr (AllocatedChunk_new (ChunkDescriptor_new 1 2 64) 5))), v)),
     free_fn = (\<lambda>d _ v. v @ [(0, d)]), defragment_fn = (\<lambda>_ v. (0, v)), available_fn = (\<lambda>_ v. (0, v)),
     layout_for_fn = (\<lambda>l _ v. (l, v)), id_fn = (\<lambda>_ v. (0, v))\<rparr>"

definition demo_backend :: "(unit Context, nat, usize, (nat \<times> z_chunk_descriptor_t) list) DynamicShmProviderBackend" where
  "demo_backend = DynamicShmProviderBackend_new (Context \<lparr>cx_context = null, cx_delete_fn = (\<lambda>_ v. v)\<rparr>) demo_callbacks"

theorem backend_chunk_roundtrip_witness:
  "\<exists>c. backend_alloc Context_get demo_backend 64 [] = ret (Inr (AllocatedChunk_new c 5), [])
    \<and> backend_free Context_get demo_backend c [] = [(0, \<lparr>cd_segment = 1, cd_chunk = 2, cd_len = 64\<rparr>)]"
proof -
  let ?d = "\<lparr>cd_segment = 1, cd_chunk = 2, cd_len = 64\<rparr> :: z_chunk_descriptor_t"
  have "z_chunk_alloc_result_new_ok (\<lambda>_ w. w) None
      \<lparr>ac_descriptpr = ?d, ac_ptr = Some (5 :: nat)\<rparr> () = ((Z_OK, Some (Some (Inr (AllocatedChunk_new (ChunkDescriptor_new 1 2 64) 5)))), None, ())"
    by (simp add: z_chunk_alloc_result_new_ok_def AllocatedChunk_try_from_def ChunkDescriptor_try_from_def
        NonZeroUsize_try_from_def)
  moreover have "alloc_fn (be_callbacks demo_backend) 64 (Context_get (be_context demo_backend)) []
      = (Some (Some (Inr (AllocatedChunk_new (ChunkDescriptor_new 1 2 64) 5))), [])"
    by (simp add: demo_backend_def DynamicShmProviderBackend_new_def demo_callbacks_def)
  ultimately have "\<exists>c. backend_alloc Context_get demo_backend 64 [] = ret (Inr (AllocatedChunk_new c 5), [])
      \<and> (\<forall>u. backend_free Context_get demo_backend c u
             = free_fn (be_callbacks demo_backend) ?d (Context_get (be_context demo_backend)) u)"
    by (rule backend_chunk_roundtrip [THEN conjunct2, THEN conjunct2, THEN mp, THEN conjunct2, THEN conjunct2]) simp
  moreover have "free_fn (be_callbacks demo_backend) ?d x [] = [(0, ?d)]" for x
    by (simp add: demo_backend_def DynamicShmProviderBackend_new_def demo_callbacks_def)
  ultimately show ?thesis by auto
qed

end
