(* ===== verification/ShmProviders.thy ===== *)
theory ShmProviders
  imports ShmTypes
begin

text \<open>
  Providers of shared memory: \<open>src/shm/provider/shm_provider.rs\<close>, \<open>shm_provider_impl.rs\<close>,
  \<open>precomputed_layout.rs\<close>, \<open>precomputed_layout_impl.rs\<close>, \<open>alloc_layout.rs\<close>, \<open>shared_shm_provider.rs\<close> and
  \<open>src/shm/protocol_implementations/posix/posix_shm_provider.rs\<close>.

  zenoh's \<open>ShmProvider<Backend>\<close> and \<open>PrecomputedLayout<Backend>\<close> are parameters, \<open>'p\<close> and \<open>'l\<close>, with their
  methods in the record \<open>shm_ops\<close>. An allocation policy is a type in Rust; here it is a value of
  \<open>alloc_policy\<close>. A blocking policy may wait forever: the allocations have results of type \<open>run\<close>.
\<close>

subsection \<open>Policies and providers\<close>

text \<open>The second argument of \<open>Defragment\<close> and the third of \<open>Deallocate\<close> have defaults that zenoh defines:
  \<open>None\<close> here. \<open>ConstBool\<close> and \<open>ConstUsize\<close> are their values.\<close>

datatype alloc_policy =
    JustAlloc
  | BlockOn alloc_policy
  | GarbageCollect alloc_policy alloc_policy bool
  | Defragment alloc_policy "alloc_policy option"
  | Deallocate usize alloc_policy "alloc_policy option"

definition UnsafeGarbageCollect :: alloc_policy where
  "UnsafeGarbageCollect = GarbageCollect JustAlloc JustAlloc False"

datatype 'p CSHMProvider = Posix 'p | SharedPosix 'p | Dynamic 'p | DynamicThreadsafe 'p

datatype 'l CSHMLayout = LPosix 'l | LDynamic 'l | LDynamicThreadsafe 'l

record ('p, 'l, 'a, 'm, 's, 'b, 'w) shm_ops =
  sp_alloc :: "'p \<Rightarrow> usize \<times> 'a \<Rightarrow> alloc_policy \<Rightarrow> 'w \<Rightarrow> ((ZLayoutAllocError + 'b) \<times> 'w) run"
  sp_defragment :: "'p \<Rightarrow> 'w \<Rightarrow> usize \<times> 'w"
  sp_garbage_collect_unsafe :: "'p \<Rightarrow> 'w \<Rightarrow> usize \<times> 'w"
  sp_available :: "'p \<Rightarrow> 'w \<Rightarrow> usize \<times> 'w"
  sp_map :: "'p \<Rightarrow> 's AllocatedChunk \<Rightarrow> usize \<Rightarrow> 'w \<Rightarrow> (unit + 'b) \<times> 'w"
  sp_alloc_layout :: "'p \<Rightarrow> 'm \<Rightarrow> 'w \<Rightarrow> (ZLayoutError + 'l) \<times> 'w"
  ly_alloc :: "'l \<Rightarrow> alloc_policy \<Rightarrow> 'w \<Rightarrow> ((ZAllocError + 'b) \<times> 'w) run"
  sp_layouts :: "('a, 'm) layout_ops"
  sp_drop_ptr :: "'s \<Rightarrow> 'w \<Rightarrow> 'w"

subsection \<open>Allocation through a provider (shm\_provider\_impl.rs)\<close>

definition alloc_impl ::
  "('p, 'l, 'a, 'm, 's, 'b, 'w) shm_ops \<Rightarrow> alloc_policy \<Rightarrow> 'p \<Rightarrow> usize \<Rightarrow> z_alloc_alignment_t \<Rightarrow> 'w
   \<Rightarrow> ('b z_buf_layout_alloc_result_t \<times> 'w) run" where
  "alloc_impl N policy provider sz alignment w = do {
     (result, w) \<leftarrow> sp_alloc N provider (sz, la_transmute (sp_layouts N) alignment) policy w;
     ret (z_buf_layout_alloc_result_from result, w)
   }"

definition provider_alloc ::
  "('p, 'l, 'a, 'm, 's, 'b, 'w) shm_ops \<Rightarrow> alloc_policy \<Rightarrow> 'p CSHMProvider \<Rightarrow> usize \<Rightarrow> z_alloc_alignment_t \<Rightarrow> 'w
   \<Rightarrow> ('b z_buf_layout_alloc_result_t \<times> 'w) run" where
  "provider_alloc N policy provider sz alignment w = (case provider of
     Posix provider \<Rightarrow> alloc_impl N policy provider sz alignment w
   | SharedPosix provider \<Rightarrow> alloc_impl N policy provider sz alignment w
   | Dynamic provider \<Rightarrow> alloc_impl N policy provider sz alignment w
   | DynamicThreadsafe provider \<Rightarrow> alloc_impl N policy provider sz alignment w)"

text \<open>A task for the runtime, with what the \<open>async\<close> block captures: the call that allocates, the context
  and the C callback, which may change the result it is given.\<close>

record ('r, 'w) alloc_task =
  at_alloc :: "'w \<Rightarrow> ('r \<times> 'w) run"
  at_context :: "'w ThreadsafeContext"
  at_callback :: "ptr \<Rightarrow> 'r \<Rightarrow> 'w \<Rightarrow> 'r \<times> 'w"

text \<open>The body of the \<open>async\<close> block: allocate, write the output, call back; the context goes with the
  block's frame. The result is what is in the output at the end.\<close>

definition run_alloc_task :: "('r, 'w) alloc_task \<Rightarrow> 'w \<Rightarrow> ('r \<times> 'w) run" where
  "run_alloc_task tk w = do {
     (out_result, w) \<leftarrow> at_alloc tk w;
     let (out_result, w) = at_callback tk (ThreadsafeContext_get (at_context tk)) out_result w;
     ret (out_result, ThreadsafeContext_drop (at_context tk) w)
   }"

definition provider_alloc_async_impl ::
  "('p, 'l, 'a, 'm, 's, 'b, 'w) shm_ops \<Rightarrow> alloc_policy \<Rightarrow> 'p \<Rightarrow> usize \<Rightarrow> z_alloc_alignment_t \<Rightarrow> 'w ThreadsafeContext
   \<Rightarrow> (ptr \<Rightarrow> 'b z_buf_layout_alloc_result_t \<Rightarrow> 'w \<Rightarrow> 'b z_buf_layout_alloc_result_t \<times> 'w)
   \<Rightarrow> ('b z_buf_layout_alloc_result_t, 'w) alloc_task" where
  "provider_alloc_async_impl N policy provider sz alignment result_context result_callback =
    \<lparr>at_alloc = (\<lambda>w. do {
        (result, w) \<leftarrow> sp_alloc N provider (sz, la_transmute (sp_layouts N) alignment) policy w;
        ret (z_buf_layout_alloc_result_from result, w)
      }),
     at_context = result_context, at_callback = result_callback\<rparr>"

text \<open>The code, the task spawned on the runtime, and the program's state: the context was made a
  \<open>ThreadsafeContext\<close> by the caller, so that the path that spawns nothing deletes it.\<close>

definition provider_alloc_async ::
  "('p, 'l, 'a, 'm, 's, 'b, 'w) shm_ops \<Rightarrow> alloc_policy \<Rightarrow> 'p CSHMProvider \<Rightarrow> usize \<Rightarrow> z_alloc_alignment_t
   \<Rightarrow> 'w ThreadsafeContext \<Rightarrow> (ptr \<Rightarrow> 'b z_buf_layout_alloc_result_t \<Rightarrow> 'w \<Rightarrow> 'b z_buf_layout_alloc_result_t \<times> 'w) \<Rightarrow> 'w
   \<Rightarrow> z_result_t \<times> ('b z_buf_layout_alloc_result_t, 'w) alloc_task option \<times> 'w" where
  "provider_alloc_async N policy provider sz alignment result_context result_callback w = (case provider of
     Posix provider \<Rightarrow>
       (Z_OK, Some (provider_alloc_async_impl N policy provider sz alignment result_context result_callback), w)
   | SharedPosix provider \<Rightarrow>
       (Z_OK, Some (provider_alloc_async_impl N policy provider sz alignment result_context result_callback), w)
   | Dynamic _ \<Rightarrow> (Z_EINVAL, None, ThreadsafeContext_drop result_context w)
   | DynamicThreadsafe provider \<Rightarrow>
       (Z_OK, Some (provider_alloc_async_impl N policy provider sz alignment result_context result_callback), w))"

definition provider_defragment :: "('p, 'l, 'a, 'm, 's, 'b, 'w) shm_ops \<Rightarrow> 'p CSHMProvider \<Rightarrow> 'w \<Rightarrow> usize \<times> 'w" where
  "provider_defragment N provider w = (case provider of
     Posix provider \<Rightarrow> sp_defragment N provider w
   | SharedPosix provider \<Rightarrow> sp_defragment N provider w
   | Dynamic provider \<Rightarrow> sp_defragment N provider w
   | DynamicThreadsafe provider \<Rightarrow> sp_defragment N provider w)"

definition provider_garbage_collect_unsafe :: "('p, 'l, 'a, 'm, 's, 'b, 'w) shm_ops \<Rightarrow> 'p CSHMProvider \<Rightarrow> 'w \<Rightarrow> usize \<times> 'w" where
  "provider_garbage_collect_unsafe N provider w = (case provider of
     Posix provider \<Rightarrow> sp_garbage_collect_unsafe N provider w
   | SharedPosix provider \<Rightarrow> sp_garbage_collect_unsafe N provider w
   | Dynamic provider \<Rightarrow> sp_garbage_collect_unsafe N provider w
   | DynamicThreadsafe provider \<Rightarrow> sp_garbage_collect_unsafe N provider w)"

definition provider_available :: "('p, 'l, 'a, 'm, 's, 'b, 'w) shm_ops \<Rightarrow> 'p CSHMProvider \<Rightarrow> 'w \<Rightarrow> usize \<times> 'w" where
  "provider_available N provider w = (case provider of
     Posix provider \<Rightarrow> sp_available N provider w
   | SharedPosix provider \<Rightarrow> sp_available N provider w
   | Dynamic provider \<Rightarrow> sp_available N provider w
   | DynamicThreadsafe provider \<Rightarrow> sp_available N provider w)"

definition provider_map ::
  "('p, 'l, 'a, 'm, 's, 'b, 'w) shm_ops \<Rightarrow> 'b option \<Rightarrow> 'p CSHMProvider \<Rightarrow> 's z_allocated_chunk_t \<Rightarrow> usize \<Rightarrow> 'w
   \<Rightarrow> (z_result_t \<times> 'b option) \<times> 's option \<times> 'w" where
  "provider_map N out_result provider allocated_chunk len w =
    (case AllocatedChunk_try_from (sp_drop_ptr N) allocated_chunk w of
       (None, slot, w) \<Rightarrow> ((Z_EINVAL, out_result), slot, w)
     | (Some chunk, slot, w) \<Rightarrow>
         (let (mapping, w) = (case provider of
              Posix provider \<Rightarrow> sp_map N provider chunk len w
            | SharedPosix provider \<Rightarrow> sp_map N provider chunk len w
            | Dynamic provider \<Rightarrow> sp_map N provider chunk len w
            | DynamicThreadsafe provider \<Rightarrow> sp_map N provider chunk len w)
          in case mapping of
               Inr zbuf \<Rightarrow> ((Z_OK, Some zbuf), slot, w)
             | Inl e \<Rightarrow> ((Z_EINVAL, out_result), slot, w)))"

subsection \<open>The functions of a provider (shm\_provider.rs)\<close>

text \<open>\<open>default_backend\<close> is zenoh's builder; \<open>build\<close> wraps a backend in a provider.\<close>

definition z_shm_provider_default_new ::
  "(usize \<Rightarrow> unit + 'p) \<Rightarrow> 'p CSHMProvider option \<Rightarrow> usize \<Rightarrow> z_result_t \<times> 'p CSHMProvider option" where
  "z_shm_provider_default_new default_backend this sz = (case default_backend sz of
     Inr provider \<Rightarrow> (Z_OK, Some (Posix provider)) | Inl e \<Rightarrow> (Z_EINVAL, this))"

definition z_shm_provider_new ::
  "(('w Context, 's, 'm, 'w) DynamicShmProviderBackend \<Rightarrow> 'p) \<Rightarrow> 'w zc_context_t \<Rightarrow> ('s, 'm, 'w) zc_shm_provider_backend_callbacks_t
   \<Rightarrow> 'p CSHMProvider option" where
  "z_shm_provider_new build context' callbacks =
    (let backend = DynamicShmProviderBackend_new (Context_from context') callbacks; provider = build backend
     in Some (Dynamic provider))"

definition z_shm_provider_threadsafe_new ::
  "(('w ThreadsafeContext, 's, 'm, 'w) DynamicShmProviderBackend \<Rightarrow> 'p) \<Rightarrow> 'w zc_threadsafe_context_t
   \<Rightarrow> ('s, 'm, 'w) zc_shm_provider_backend_callbacks_t \<Rightarrow> 'p CSHMProvider option" where
  "z_shm_provider_threadsafe_new build context' callbacks =
    (let backend = DynamicShmProviderBackend_new (ThreadsafeContext_from context') callbacks; provider = build backend
     in Some (DynamicThreadsafe provider))"

definition z_internal_shm_provider_null :: "'p CSHMProvider option" where
  "z_internal_shm_provider_null = None"

definition z_internal_shm_provider_check :: "'p CSHMProvider option \<Rightarrow> bool" where
  "z_internal_shm_provider_check this \<longleftrightarrow> this \<noteq> None"

definition z_shm_provider_loan :: "'p CSHMProvider option \<Rightarrow> 'p CSHMProvider run" where
  "z_shm_provider_loan this = loan_option this"

definition z_shm_provider_drop ::
  "('p CSHMProvider \<Rightarrow> 'w \<Rightarrow> 'w) \<Rightarrow> 'p CSHMProvider option \<Rightarrow> 'w \<Rightarrow> 'p CSHMProvider option \<times> 'w" where
  "z_shm_provider_drop drop_provider this w = drop_moved drop_provider this w"

text \<open>\<open>z_posix_shm_provider_new\<close> and its variant with a layout write the gravestone on an error.\<close>

definition z_posix_shm_provider_new :: "(usize \<Rightarrow> unit + 'k) \<Rightarrow> ('k \<Rightarrow> 'p) \<Rightarrow> usize \<Rightarrow> z_result_t \<times> 'p CSHMProvider option" where
  "z_posix_shm_provider_new builder build sz = (case builder sz of
     Inr backend \<Rightarrow> (let provider = build backend in (Z_OK, Some (Posix provider))) | Inl e \<Rightarrow> (Z_EINVAL, None))"

definition z_posix_shm_provider_with_layout_new ::
  "('m \<Rightarrow> unit + 'k) \<Rightarrow> ('k \<Rightarrow> 'p) \<Rightarrow> 'm \<Rightarrow> z_result_t \<times> 'p CSHMProvider option" where
  "z_posix_shm_provider_with_layout_new builder build layout = (case builder layout of
     Inr backend \<Rightarrow> (let provider = build backend in (Z_OK, Some (Posix provider))) | Inl e \<Rightarrow> (Z_EINVAL, None))"

definition alignment_0 :: z_alloc_alignment_t where
  "alignment_0 = \<lparr>al_pow = 0\<rparr>"

definition z_shm_provider_alloc ::
  "('p, 'l, 'a, 'm, 's, 'b, 'w) shm_ops \<Rightarrow> 'p CSHMProvider \<Rightarrow> usize \<Rightarrow> 'w \<Rightarrow> ('b z_buf_layout_alloc_result_t \<times> 'w) run" where
  "z_shm_provider_alloc N provider sz w = provider_alloc N JustAlloc provider sz alignment_0 w"

definition z_shm_provider_alloc_gc ::
  "('p, 'l, 'a, 'm, 's, 'b, 'w) shm_ops \<Rightarrow> 'p CSHMProvider \<Rightarrow> usize \<Rightarrow> 'w \<Rightarrow> ('b z_buf_layout_alloc_result_t \<times> 'w) run" where
  "z_shm_provider_alloc_gc N provider sz w = provider_alloc N UnsafeGarbageCollect provider sz alignment_0 w"

definition z_shm_provider_alloc_gc_defrag ::
  "('p, 'l, 'a, 'm, 's, 'b, 'w) shm_ops \<Rightarrow> 'p CSHMProvider \<Rightarrow> usize \<Rightarrow> 'w \<Rightarrow> ('b z_buf_layout_alloc_result_t \<times> 'w) run" where
  "z_shm_provider_alloc_gc_defrag N provider sz w = provider_alloc N (Defragment UnsafeGarbageCollect None) provider sz alignment_0 w"

definition z_shm_provider_alloc_gc_defrag_dealloc ::
  "('p, 'l, 'a, 'm, 's, 'b, 'w) shm_ops \<Rightarrow> 'p CSHMProvider \<Rightarrow> usize \<Rightarrow> 'w \<Rightarrow> ('b z_buf_layout_alloc_result_t \<times> 'w) run" where
  "z_shm_provider_alloc_gc_defrag_dealloc N provider sz w = provider_alloc N (Deallocate 100 (Defragment UnsafeGarbageCollect None) None) provider sz alignment_0 w"

definition z_shm_provider_alloc_gc_defrag_blocking ::
  "('p, 'l, 'a, 'm, 's, 'b, 'w) shm_ops \<Rightarrow> 'p CSHMProvider \<Rightarrow> usize \<Rightarrow> 'w \<Rightarrow> ('b z_buf_layout_alloc_result_t \<times> 'w) run" where
  "z_shm_provider_alloc_gc_defrag_blocking N provider sz w = provider_alloc N (BlockOn (Defragment UnsafeGarbageCollect None)) provider sz alignment_0 w"

definition z_shm_provider_alloc_gc_defrag_async ::
  "('p, 'l, 'a, 'm, 's, 'b, 'w) shm_ops \<Rightarrow> 'p CSHMProvider \<Rightarrow> usize \<Rightarrow> 'w zc_threadsafe_context_t
   \<Rightarrow> (ptr \<Rightarrow> 'b z_buf_layout_alloc_result_t \<Rightarrow> 'w \<Rightarrow> 'b z_buf_layout_alloc_result_t \<times> 'w) \<Rightarrow> 'w
   \<Rightarrow> z_result_t \<times> ('b z_buf_layout_alloc_result_t, 'w) alloc_task option \<times> 'w" where
  "z_shm_provider_alloc_gc_defrag_async N provider sz result_context result_callback w =
    provider_alloc_async N (BlockOn (Defragment UnsafeGarbageCollect None)) provider sz alignment_0
      (ThreadsafeContext_from result_context) result_callback w"

definition z_shm_provider_alloc_aligned ::
  "('p, 'l, 'a, 'm, 's, 'b, 'w) shm_ops \<Rightarrow> 'p CSHMProvider \<Rightarrow> usize \<Rightarrow> z_alloc_alignment_t \<Rightarrow> 'w \<Rightarrow> ('b z_buf_layout_alloc_result_t \<times> 'w) run" where
  "z_shm_provider_alloc_aligned N provider sz alignment w = provider_alloc N JustAlloc provider sz alignment w"

definition z_shm_provider_alloc_gc_aligned ::
  "('p, 'l, 'a, 'm, 's, 'b, 'w) shm_ops \<Rightarrow> 'p CSHMProvider \<Rightarrow> usize \<Rightarrow> z_alloc_alignment_t \<Rightarrow> 'w \<Rightarrow> ('b z_buf_layout_alloc_result_t \<times> 'w) run" where
  "z_shm_provider_alloc_gc_aligned N provider sz alignment w = provider_alloc N UnsafeGarbageCollect provider sz alignment w"

definition z_shm_provider_alloc_gc_defrag_aligned ::
  "('p, 'l, 'a, 'm, 's, 'b, 'w) shm_ops \<Rightarrow> 'p CSHMProvider \<Rightarrow> usize \<Rightarrow> z_alloc_alignment_t \<Rightarrow> 'w \<Rightarrow> ('b z_buf_layout_alloc_result_t \<times> 'w) run" where
  "z_shm_provider_alloc_gc_defrag_aligned N provider sz alignment w = provider_alloc N (Defragment UnsafeGarbageCollect None) provider sz alignment w"

definition z_shm_provider_alloc_gc_defrag_dealloc_aligned ::
  "('p, 'l, 'a, 'm, 's, 'b, 'w) shm_ops \<Rightarrow> 'p CSHMProvider \<Rightarrow> usize \<Rightarrow> z_alloc_alignment_t \<Rightarrow> 'w \<Rightarrow> ('b z_buf_layout_alloc_result_t \<times> 'w) run" where
  "z_shm_provider_alloc_gc_defrag_dealloc_aligned N provider sz alignment w = provider_alloc N (Deallocate 100 (Defragment UnsafeGarbageCollect None) None) provider sz alignment w"

definition z_shm_provider_alloc_gc_defrag_blocking_aligned ::
  "('p, 'l, 'a, 'm, 's, 'b, 'w) shm_ops \<Rightarrow> 'p CSHMProvider \<Rightarrow> usize \<Rightarrow> z_alloc_alignment_t \<Rightarrow> 'w \<Rightarrow> ('b z_buf_layout_alloc_result_t \<times> 'w) run" where
  "z_shm_provider_alloc_gc_defrag_blocking_aligned N provider sz alignment w = provider_alloc N (BlockOn (Defragment UnsafeGarbageCollect None)) provider sz alignment w"

definition z_shm_provider_alloc_gc_defrag_aligned_async ::
  "('p, 'l, 'a, 'm, 's, 'b, 'w) shm_ops \<Rightarrow> 'p CSHMProvider \<Rightarrow> usize \<Rightarrow> z_alloc_alignment_t \<Rightarrow> 'w zc_threadsafe_context_t
   \<Rightarrow> (ptr \<Rightarrow> 'b z_buf_layout_alloc_result_t \<Rightarrow> 'w \<Rightarrow> 'b z_buf_layout_alloc_result_t \<times> 'w) \<Rightarrow> 'w
   \<Rightarrow> z_result_t \<times> ('b z_buf_layout_alloc_result_t, 'w) alloc_task option \<times> 'w" where
  "z_shm_provider_alloc_gc_defrag_aligned_async N provider sz alignment result_context result_callback w =
    provider_alloc_async N (BlockOn (Defragment UnsafeGarbageCollect None)) provider sz alignment
      (ThreadsafeContext_from result_context) result_callback w"

definition z_shm_provider_defragment :: "('p, 'l, 'a, 'm, 's, 'b, 'w) shm_ops \<Rightarrow> 'p CSHMProvider \<Rightarrow> 'w \<Rightarrow> usize \<times> 'w" where
  "z_shm_provider_defragment N provider w = provider_defragment N provider w"

definition z_shm_provider_garbage_collect :: "('p, 'l, 'a, 'm, 's, 'b, 'w) shm_ops \<Rightarrow> 'p CSHMProvider \<Rightarrow> 'w \<Rightarrow> usize \<times> 'w" where
  "z_shm_provider_garbage_collect N provider w = provider_garbage_collect_unsafe N provider w"

definition z_shm_provider_available :: "('p, 'l, 'a, 'm, 's, 'b, 'w) shm_ops \<Rightarrow> 'p CSHMProvider \<Rightarrow> 'w \<Rightarrow> usize \<times> 'w" where
  "z_shm_provider_available N provider w = provider_available N provider w"

definition z_shm_provider_map ::
  "('p, 'l, 'a, 'm, 's, 'b, 'w) shm_ops \<Rightarrow> 'b option \<Rightarrow> 'p CSHMProvider \<Rightarrow> 's z_allocated_chunk_t \<Rightarrow> usize \<Rightarrow> 'w
   \<Rightarrow> (z_result_t \<times> 'b option) \<times> 's option \<times> 'w" where
  "z_shm_provider_map N out_result provider allocated_chunk len w = provider_map N out_result provider allocated_chunk len w"

subsection \<open>Precomputed layouts (precomputed\_layout\_impl.rs)\<close>

definition alloc_layout ::
  "('p, 'l, 'a, 'm, 's, 'b, 'w) shm_ops \<Rightarrow> 'l CSHMLayout option \<Rightarrow> 'p CSHMProvider \<Rightarrow> usize \<Rightarrow> z_alloc_alignment_t \<Rightarrow> 'w
   \<Rightarrow> (z_result_t \<times> 'l CSHMLayout option) \<times> 'w" where
  "alloc_layout N this provider sz alignment w =
    (case la_new (sp_layouts N) sz (la_transmute (sp_layouts N) alignment) of
       Inl e \<Rightarrow> ((Z_EINVAL, this), w)
     | Inr mem_layout \<Rightarrow> (case provider of
         Posix provider \<Rightarrow> (case sp_alloc_layout N provider mem_layout w of
            (Inr layout, w) \<Rightarrow> ((Z_OK, Some (LPosix layout)), w) | (Inl e, w) \<Rightarrow> ((Z_EINVAL, this), w))
       | Dynamic provider \<Rightarrow> (case sp_alloc_layout N provider mem_layout w of
            (Inr layout, w) \<Rightarrow> ((Z_OK, Some (LDynamic layout)), w) | (Inl e, w) \<Rightarrow> ((Z_EINVAL, this), w))
       | DynamicThreadsafe provider \<Rightarrow> (case sp_alloc_layout N provider mem_layout w of
            (Inr layout, w) \<Rightarrow> ((Z_OK, Some (LDynamicThreadsafe layout)), w) | (Inl e, w) \<Rightarrow> ((Z_EINVAL, this), w))
       | SharedPosix provider \<Rightarrow> (case sp_alloc_layout N provider mem_layout w of
            (Inr layout, w) \<Rightarrow> ((Z_OK, Some (LPosix layout)), w) | (Inl e, w) \<Rightarrow> ((Z_EINVAL, this), w))))"

definition layout_alloc ::
  "('p, 'l, 'a, 'm, 's, 'b, 'w) shm_ops \<Rightarrow> alloc_policy \<Rightarrow> 'l CSHMLayout \<Rightarrow> 'w \<Rightarrow> ('b z_buf_alloc_result_t \<times> 'w) run" where
  "layout_alloc N policy layout w = do {
     (result, w) \<leftarrow> (case layout of
         LPosix layout \<Rightarrow> ly_alloc N layout policy w
       | LDynamic layout \<Rightarrow> ly_alloc N layout policy w
       | LDynamicThreadsafe layout \<Rightarrow> ly_alloc N layout policy w);
     ret (z_buf_alloc_result_from result, w)
   }"

definition layout_alloc_async_impl ::
  "('p, 'l, 'a, 'm, 's, 'b, 'w) shm_ops \<Rightarrow> alloc_policy \<Rightarrow> 'l \<Rightarrow> 'w zc_threadsafe_context_t
   \<Rightarrow> (ptr \<Rightarrow> 'b z_buf_alloc_result_t \<Rightarrow> 'w \<Rightarrow> 'b z_buf_alloc_result_t \<times> 'w) \<Rightarrow> ('b z_buf_alloc_result_t, 'w) alloc_task" where
  "layout_alloc_async_impl N policy layout result_context result_callback =
    (let result_context = ThreadsafeContext_from result_context
     in \<lparr>at_alloc = (\<lambda>w. do { (result, w) \<leftarrow> ly_alloc N layout policy w; ret (z_buf_alloc_result_from result, w) }),
         at_context = result_context, at_callback = result_callback\<rparr>)"

text \<open>The context is still the structure of C here: the path that spawns nothing lets it go.\<close>

definition layout_alloc_async ::
  "('p, 'l, 'a, 'm, 's, 'b, 'w) shm_ops \<Rightarrow> alloc_policy \<Rightarrow> 'l CSHMLayout \<Rightarrow> 'w zc_threadsafe_context_t
   \<Rightarrow> (ptr \<Rightarrow> 'b z_buf_alloc_result_t \<Rightarrow> 'w \<Rightarrow> 'b z_buf_alloc_result_t \<times> 'w) \<Rightarrow> 'w
   \<Rightarrow> z_result_t \<times> ('b z_buf_alloc_result_t, 'w) alloc_task option \<times> 'w" where
  "layout_alloc_async N policy layout result_context result_callback w = (case layout of
     LPosix layout \<Rightarrow> (Z_OK, Some (layout_alloc_async_impl N policy layout result_context result_callback), w)
   | LDynamic _ \<Rightarrow> (Z_EINVAL, None, w)
   | LDynamicThreadsafe layout \<Rightarrow> (Z_OK, Some (layout_alloc_async_impl N policy layout result_context result_callback), w))"

subsection \<open>The functions of a layout (precomputed\_layout.rs, alloc\_layout.rs)\<close>

definition z_shm_provider_alloc_layout ::
  "('p, 'l, 'a, 'm, 's, 'b, 'w) shm_ops \<Rightarrow> 'l CSHMLayout option \<Rightarrow> 'p CSHMProvider \<Rightarrow> usize \<Rightarrow> 'w
   \<Rightarrow> (z_result_t \<times> 'l CSHMLayout option) \<times> 'w" where
  "z_shm_provider_alloc_layout N this provider sz w = alloc_layout N this provider sz alignment_0 w"

definition z_shm_provider_alloc_layout_aligned ::
  "('p, 'l, 'a, 'm, 's, 'b, 'w) shm_ops \<Rightarrow> 'l CSHMLayout option \<Rightarrow> 'p CSHMProvider \<Rightarrow> usize \<Rightarrow> z_alloc_alignment_t \<Rightarrow> 'w
   \<Rightarrow> (z_result_t \<times> 'l CSHMLayout option) \<times> 'w" where
  "z_shm_provider_alloc_layout_aligned N this provider sz alignment w = alloc_layout N this provider sz alignment w"

definition z_internal_precomputed_layout_null :: "'l CSHMLayout option" where
  "z_internal_precomputed_layout_null = None"

definition z_internal_precomputed_layout_check :: "'l CSHMLayout option \<Rightarrow> bool" where
  "z_internal_precomputed_layout_check this \<longleftrightarrow> this \<noteq> None"

definition z_precomputed_layout_loan :: "'l CSHMLayout option \<Rightarrow> 'l CSHMLayout run" where
  "z_precomputed_layout_loan this = loan_option this"

definition z_precomputed_layout_drop ::
  "('l CSHMLayout \<Rightarrow> 'w \<Rightarrow> 'w) \<Rightarrow> 'l CSHMLayout option \<Rightarrow> 'w \<Rightarrow> 'l CSHMLayout option \<times> 'w" where
  "z_precomputed_layout_drop drop_layout this w = drop_moved drop_layout this w"

definition z_precomputed_layout_alloc ::
  "('p, 'l, 'a, 'm, 's, 'b, 'w) shm_ops \<Rightarrow> 'l CSHMLayout \<Rightarrow> 'w \<Rightarrow> ('b z_buf_alloc_result_t \<times> 'w) run" where
  "z_precomputed_layout_alloc N layout w = layout_alloc N JustAlloc layout w"

definition z_precomputed_layout_alloc_gc ::
  "('p, 'l, 'a, 'm, 's, 'b, 'w) shm_ops \<Rightarrow> 'l CSHMLayout \<Rightarrow> 'w \<Rightarrow> ('b z_buf_alloc_result_t \<times> 'w) run" where
  "z_precomputed_layout_alloc_gc N layout w = layout_alloc N UnsafeGarbageCollect layout w"

definition z_precomputed_layout_alloc_gc_defrag ::
  "('p, 'l, 'a, 'm, 's, 'b, 'w) shm_ops \<Rightarrow> 'l CSHMLayout \<Rightarrow> 'w \<Rightarrow> ('b z_buf_alloc_result_t \<times> 'w) run" where
  "z_precomputed_layout_alloc_gc_defrag N layout w = layout_alloc N (Defragment UnsafeGarbageCollect None) layout w"

definition z_precomputed_layout_alloc_gc_defrag_dealloc ::
  "('p, 'l, 'a, 'm, 's, 'b, 'w) shm_ops \<Rightarrow> 'l CSHMLayout \<Rightarrow> 'w \<Rightarrow> ('b z_buf_alloc_result_t \<times> 'w) run" where
  "z_precomputed_layout_alloc_gc_defrag_dealloc N layout w = layout_alloc N (Deallocate 100 (Defragment UnsafeGarbageCollect None) None) layout w"

definition z_precomputed_layout_alloc_gc_defrag_blocking ::
  "('p, 'l, 'a, 'm, 's, 'b, 'w) shm_ops \<Rightarrow> 'l CSHMLayout \<Rightarrow> 'w \<Rightarrow> ('b z_buf_alloc_result_t \<times> 'w) run" where
  "z_precomputed_layout_alloc_gc_defrag_blocking N layout w = layout_alloc N (BlockOn (Defragment UnsafeGarbageCollect None)) layout w"

definition z_precomputed_layout_threadsafe_alloc_gc_defrag_async ::
  "('p, 'l, 'a, 'm, 's, 'b, 'w) shm_ops \<Rightarrow> 'l CSHMLayout \<Rightarrow> 'w zc_threadsafe_context_t
   \<Rightarrow> (ptr \<Rightarrow> 'b z_buf_alloc_result_t \<Rightarrow> 'w \<Rightarrow> 'b z_buf_alloc_result_t \<times> 'w) \<Rightarrow> 'w
   \<Rightarrow> z_result_t \<times> ('b z_buf_alloc_result_t, 'w) alloc_task option \<times> 'w" where
  "z_precomputed_layout_threadsafe_alloc_gc_defrag_async N layout result_context result_callback w =
    layout_alloc_async N (BlockOn (Defragment UnsafeGarbageCollect None)) layout result_context result_callback w"

text \<open>The deprecated names of the same functions.\<close>

definition z_alloc_layout_new ::
  "('p, 'l, 'a, 'm, 's, 'b, 'w) shm_ops \<Rightarrow> 'l CSHMLayout option \<Rightarrow> 'p CSHMProvider \<Rightarrow> usize \<Rightarrow> 'w
   \<Rightarrow> (z_result_t \<times> 'l CSHMLayout option) \<times> 'w" where
  "z_alloc_layout_new N this provider sz w = z_shm_provider_alloc_layout N this provider sz w"

definition z_alloc_layout_with_alignment_new ::
  "('p, 'l, 'a, 'm, 's, 'b, 'w) shm_ops \<Rightarrow> 'l CSHMLayout option \<Rightarrow> 'p CSHMProvider \<Rightarrow> usize \<Rightarrow> z_alloc_alignment_t \<Rightarrow> 'w
   \<Rightarrow> (z_result_t \<times> 'l CSHMLayout option) \<times> 'w" where
  "z_alloc_layout_with_alignment_new N this provider sz alignment w =
    z_shm_provider_alloc_layout_aligned N this provider sz alignment w"

definition z_internal_alloc_layout_null :: "'l CSHMLayout option" where
  "z_internal_alloc_layout_null = z_internal_precomputed_layout_null"

definition z_internal_alloc_layout_check :: "'l CSHMLayout option \<Rightarrow> bool" where
  "z_internal_alloc_layout_check this \<longleftrightarrow> z_internal_precomputed_layout_check this"

definition z_alloc_layout_loan :: "'l CSHMLayout option \<Rightarrow> 'l CSHMLayout run" where
  "z_alloc_layout_loan this = z_precomputed_layout_loan this"

definition z_alloc_layout_drop ::
  "('l CSHMLayout \<Rightarrow> 'w \<Rightarrow> 'w) \<Rightarrow> 'l CSHMLayout option \<Rightarrow> 'w \<Rightarrow> 'l CSHMLayout option \<times> 'w" where
  "z_alloc_layout_drop drop_layout this w = z_precomputed_layout_drop drop_layout this w"

definition z_alloc_layout_alloc ::
  "('p, 'l, 'a, 'm, 's, 'b, 'w) shm_ops \<Rightarrow> 'l CSHMLayout \<Rightarrow> 'w \<Rightarrow> ('b z_buf_alloc_result_t \<times> 'w) run" where
  "z_alloc_layout_alloc N layout w = z_precomputed_layout_alloc N layout w"

definition z_alloc_layout_alloc_gc ::
  "('p, 'l, 'a, 'm, 's, 'b, 'w) shm_ops \<Rightarrow> 'l CSHMLayout \<Rightarrow> 'w \<Rightarrow> ('b z_buf_alloc_result_t \<times> 'w) run" where
  "z_alloc_layout_alloc_gc N layout w = z_precomputed_layout_alloc_gc N layout w"

definition z_alloc_layout_alloc_gc_defrag ::
  "('p, 'l, 'a, 'm, 's, 'b, 'w) shm_ops \<Rightarrow> 'l CSHMLayout \<Rightarrow> 'w \<Rightarrow> ('b z_buf_alloc_result_t \<times> 'w) run" where
  "z_alloc_layout_alloc_gc_defrag N layout w = z_precomputed_layout_alloc_gc_defrag N layout w"

definition z_alloc_layout_alloc_gc_defrag_dealloc ::
  "('p, 'l, 'a, 'm, 's, 'b, 'w) shm_ops \<Rightarrow> 'l CSHMLayout \<Rightarrow> 'w \<Rightarrow> ('b z_buf_alloc_result_t \<times> 'w) run" where
  "z_alloc_layout_alloc_gc_defrag_dealloc N layout w = z_precomputed_layout_alloc_gc_defrag_dealloc N layout w"

definition z_alloc_layout_alloc_gc_defrag_blocking ::
  "('p, 'l, 'a, 'm, 's, 'b, 'w) shm_ops \<Rightarrow> 'l CSHMLayout \<Rightarrow> 'w \<Rightarrow> ('b z_buf_alloc_result_t \<times> 'w) run" where
  "z_alloc_layout_alloc_gc_defrag_blocking N layout w = z_precomputed_layout_alloc_gc_defrag_blocking N layout w"

definition z_alloc_layout_threadsafe_alloc_gc_defrag_async ::
  "('p, 'l, 'a, 'm, 's, 'b, 'w) shm_ops \<Rightarrow> 'l CSHMLayout \<Rightarrow> 'w zc_threadsafe_context_t
   \<Rightarrow> (ptr \<Rightarrow> 'b z_buf_alloc_result_t \<Rightarrow> 'w \<Rightarrow> 'b z_buf_alloc_result_t \<times> 'w) \<Rightarrow> 'w
   \<Rightarrow> z_result_t \<times> ('b z_buf_alloc_result_t, 'w) alloc_task option \<times> 'w" where
  "z_alloc_layout_threadsafe_alloc_gc_defrag_async N layout result_context result_callback w =
    z_precomputed_layout_threadsafe_alloc_gc_defrag_async N layout result_context result_callback w"

subsection \<open>Shared providers (shared\_shm\_provider.rs)\<close>

datatype 'p SharedShmProvider = SharedShmProvider "'p CSHMProvider"

definition z_internal_shared_shm_provider_null :: "'p SharedShmProvider option" where
  "z_internal_shared_shm_provider_null = None"

definition z_internal_shared_shm_provider_check :: "'p SharedShmProvider option \<Rightarrow> bool" where
  "z_internal_shared_shm_provider_check this \<longleftrightarrow> this \<noteq> None"

definition z_shared_shm_provider_loan :: "'p SharedShmProvider option \<Rightarrow> 'p SharedShmProvider run" where
  "z_shared_shm_provider_loan this = loan_option this"

definition z_shared_shm_provider_drop ::
  "('p SharedShmProvider \<Rightarrow> 'w \<Rightarrow> 'w) \<Rightarrow> 'p SharedShmProvider option \<Rightarrow> 'w \<Rightarrow> 'p SharedShmProvider option \<times> 'w" where
  "z_shared_shm_provider_drop drop_provider this w = drop_moved drop_provider this w"

text \<open>\<open>clone\<close> is that of the \<open>Arc\<close>; the other variants are \<open>unreachable!\<close>.\<close>

fun z_shared_shm_provider_clone :: "('p \<Rightarrow> 'p) \<Rightarrow> 'p SharedShmProvider \<Rightarrow> 'p SharedShmProvider option run" where
  "z_shared_shm_provider_clone clone (SharedShmProvider (SharedPosix provider)) =
    ret (Some (SharedShmProvider (SharedPosix (clone provider))))"
| "z_shared_shm_provider_clone clone _ = panic"

fun z_shared_shm_provider_loan_as :: "'p SharedShmProvider \<Rightarrow> 'p CSHMProvider" where
  "z_shared_shm_provider_loan_as (SharedShmProvider provider) = provider"

subsection \<open>What the allocations return\<close>

text \<open>How a C program reads a result; \<open>None\<close> for one that says it succeeded and has no zbuf.\<close>

definition read_layout_alloc_result :: "'b z_buf_layout_alloc_result_t \<Rightarrow> (ZLayoutAllocError + 'b) option" where
  "read_layout_alloc_result r = (case bla_status r of
     BLA_OK \<Rightarrow> map_option Inr (bla_buf r)
   | BLA_ALLOC_ERROR \<Rightarrow> if bla_buf r = None then Some (Inl (Alloc (z_alloc_error_to_rust (bla_alloc_error r)))) else None
   | BLA_LAYOUT_ERROR \<Rightarrow> if bla_buf r = None then Some (Inl (Layout (z_layout_error_to_rust (bla_layout_error r)))) else None)"

definition read_alloc_result :: "'b z_buf_alloc_result_t \<Rightarrow> (ZAllocError + 'b) option" where
  "read_alloc_result r = (case ba_status r of
     BA_OK \<Rightarrow> map_option Inr (ba_buf r)
   | BA_ALLOC_ERROR \<Rightarrow> if ba_buf r = None then Some (Inl (z_alloc_error_to_rust (ba_error r))) else None)"

lemma read_results [simp]:
  "read_layout_alloc_result (z_buf_layout_alloc_result_from z) = Some z"
  "read_alloc_result (z_buf_alloc_result_from y) = Some y"
  by (simp_all add: read_layout_alloc_result_def z_buf_layout_alloc_result_from_def read_alloc_result_def
      z_buf_alloc_result_from_def split: sum.splits ZLayoutAllocError.splits)

text \<open>The provider and the layout of zenoh inside the variants.\<close>

fun inner_provider :: "'p CSHMProvider \<Rightarrow> 'p" where
  "inner_provider (Posix p) = p"
| "inner_provider (SharedPosix p) = p"
| "inner_provider (Dynamic p) = p"
| "inner_provider (DynamicThreadsafe p) = p"

fun inner_layout :: "'l CSHMLayout \<Rightarrow> 'l" where
  "inner_layout (LPosix l) = l"
| "inner_layout (LDynamic l) = l"
| "inner_layout (LDynamicThreadsafe l) = l"

lemma provider_alloc_inner:
  "map_option (apfst read_layout_alloc_result) (provider_alloc N policy provider sz alignment w)
   = map_option (apfst Some) (sp_alloc N (inner_provider provider) (sz, la_transmute (sp_layouts N) alignment) policy w)"
  by (cases provider) (auto simp: provider_alloc_def alloc_impl_def map_option_case split: option.splits)

lemma layout_alloc_inner:
  "map_option (apfst read_alloc_result) (layout_alloc N policy layout w)
   = map_option (apfst Some) (ly_alloc N (inner_layout layout) policy w)"
  by (cases layout) (auto simp: layout_alloc_def map_option_case split: option.splits)

text \<open>The functions that allocate, each with its policy and alignment.\<close>

definition provider_allocs ::
  "('p, 'l, 'a, 'm, 's, 'b, 'w) shm_ops \<Rightarrow> z_alloc_alignment_t
   \<Rightarrow> (alloc_policy \<times> z_alloc_alignment_t \<times> ('p CSHMProvider \<Rightarrow> usize \<Rightarrow> 'w \<Rightarrow> ('b z_buf_layout_alloc_result_t \<times> 'w) run)) list" where
  "provider_allocs N alignment =
    [(JustAlloc, alignment_0, z_shm_provider_alloc N),
     (UnsafeGarbageCollect, alignment_0, z_shm_provider_alloc_gc N),
     ((Defragment UnsafeGarbageCollect None), alignment_0, z_shm_provider_alloc_gc_defrag N),
     ((Deallocate 100 (Defragment UnsafeGarbageCollect None) None), alignment_0, z_shm_provider_alloc_gc_defrag_dealloc N),
     ((BlockOn (Defragment UnsafeGarbageCollect None)), alignment_0, z_shm_provider_alloc_gc_defrag_blocking N),
     (JustAlloc, alignment, \<lambda>p n. z_shm_provider_alloc_aligned N p n alignment),
     (UnsafeGarbageCollect, alignment, \<lambda>p n. z_shm_provider_alloc_gc_aligned N p n alignment),
     ((Defragment UnsafeGarbageCollect None), alignment, \<lambda>p n. z_shm_provider_alloc_gc_defrag_aligned N p n alignment),
     ((Deallocate 100 (Defragment UnsafeGarbageCollect None) None), alignment, \<lambda>p n. z_shm_provider_alloc_gc_defrag_dealloc_aligned N p n alignment),
     ((BlockOn (Defragment UnsafeGarbageCollect None)), alignment, \<lambda>p n. z_shm_provider_alloc_gc_defrag_blocking_aligned N p n alignment)]"

definition layout_allocs ::
  "('p, 'l, 'a, 'm, 's, 'b, 'w) shm_ops
   \<Rightarrow> (alloc_policy \<times> ('l CSHMLayout \<Rightarrow> 'w \<Rightarrow> ('b z_buf_alloc_result_t \<times> 'w) run)) list" where
  "layout_allocs N =
    [(JustAlloc, z_precomputed_layout_alloc N),
     (UnsafeGarbageCollect, z_precomputed_layout_alloc_gc N),
     ((Defragment UnsafeGarbageCollect None), z_precomputed_layout_alloc_gc_defrag N),
     ((Deallocate 100 (Defragment UnsafeGarbageCollect None) None), z_precomputed_layout_alloc_gc_defrag_dealloc N),
     ((BlockOn (Defragment UnsafeGarbageCollect None)), z_precomputed_layout_alloc_gc_defrag_blocking N),
     (JustAlloc, z_alloc_layout_alloc N),
     (UnsafeGarbageCollect, z_alloc_layout_alloc_gc N),
     ((Defragment UnsafeGarbageCollect None), z_alloc_layout_alloc_gc_defrag N),
     ((Deallocate 100 (Defragment UnsafeGarbageCollect None) None), z_alloc_layout_alloc_gc_defrag_dealloc N),
     ((BlockOn (Defragment UnsafeGarbageCollect None)), z_alloc_layout_alloc_gc_defrag_blocking N)]"

text \<open>C14: what an allocation function writes is exactly zenoh's answer. For each of the ten functions of a
  provider and the ten of a layout, on every variant of the provider: the function returns when
  zenoh's allocation with its policy and alignment does, the program's state is the same, and the
  structure it writes is well formed (a buffer if and only if the status is \<open>OK\<close>) and reads back as
  the buffer or the error zenoh answered.\<close>

theorem allocations_well_formed:
  "((policy, a, f) \<in> set (provider_allocs N alignment) \<longrightarrow>
     map_option (apfst read_layout_alloc_result) (f provider sz w)
     = map_option (apfst Some) (sp_alloc N (inner_provider provider) (sz, la_transmute (sp_layouts N) a) policy w))
   \<and> ((policy, g) \<in> set (layout_allocs N) \<longrightarrow>
     map_option (apfst read_alloc_result) (g layout w) = map_option (apfst Some) (ly_alloc N (inner_layout layout) policy w))"
proof -
  have "map_option (apfst read_layout_alloc_result) (f provider sz w)
     = map_option (apfst Some) (sp_alloc N (inner_provider provider) (sz, la_transmute (sp_layouts N) a) policy w)"
    if "(policy, a, f) \<in> set (provider_allocs N alignment)"
    using that by (auto simp: provider_allocs_def z_shm_provider_alloc_def z_shm_provider_alloc_aligned_def z_shm_provider_alloc_gc_def z_shm_provider_alloc_gc_aligned_def z_shm_provider_alloc_gc_defrag_def z_shm_provider_alloc_gc_defrag_aligned_def z_shm_provider_alloc_gc_defrag_dealloc_def z_shm_provider_alloc_gc_defrag_dealloc_aligned_def z_shm_provider_alloc_gc_defrag_blocking_def z_shm_provider_alloc_gc_defrag_blocking_aligned_def
        provider_alloc_inner)
  moreover have "map_option (apfst read_alloc_result) (g layout w) = map_option (apfst Some) (ly_alloc N (inner_layout layout) policy w)"
    if "(policy, g) \<in> set (layout_allocs N)"
    using that by (auto simp: layout_allocs_def z_alloc_layout_alloc_def z_precomputed_layout_alloc_def z_alloc_layout_alloc_gc_def z_precomputed_layout_alloc_gc_def z_alloc_layout_alloc_gc_defrag_def z_precomputed_layout_alloc_gc_defrag_def z_alloc_layout_alloc_gc_defrag_dealloc_def z_precomputed_layout_alloc_gc_defrag_dealloc_def z_alloc_layout_alloc_gc_defrag_blocking_def z_precomputed_layout_alloc_gc_defrag_blocking_def
        layout_alloc_inner)
  ultimately show ?thesis by blast
qed

text \<open>A provider of at most 100 bytes: the policy that collects garbage makes room.\<close>

definition demo_shm :: "(unit, usize, u8, usize, nat, usize, nat list) shm_ops" where
  "demo_shm = \<lparr>sp_alloc = (\<lambda>_ (n, al) pol w. if al > 63 then ret (Inl (Layout IncorrectLayoutArgs), w)
        else if n > 100 \<and> pol = JustAlloc then ret (Inl (Alloc OutOfMemory), w) else ret (Inr n, w @ [unat n])),
     sp_defragment = (\<lambda>_ w. (0, w)), sp_garbage_collect_unsafe = (\<lambda>_ w. (0, w)), sp_available = (\<lambda>_ w. (100, w)),
     sp_map = (\<lambda>_ c n w. (Inr n, w)), sp_alloc_layout = (\<lambda>_ n w. (Inr n, w)),
     ly_alloc = (\<lambda>n _ w. ret (Inr n, w @ [unat n])),
     sp_layouts = \<lparr>la_alignment_new = Inr, la_transmute = al_pow, la_into_c = (\<lambda>p. \<lparr>al_pow = p\<rparr>),
       la_new = (\<lambda>n _. Inr n), la_size = (\<lambda>n. n), la_alignment = (\<lambda>_. 0)\<rparr>,
     sp_drop_ptr = (\<lambda>p w. w @ [p])\<rparr>"

theorem allocations_well_formed_witness:
  "map_option (apfst read_layout_alloc_result) (z_shm_provider_alloc demo_shm (Posix ()) 200 [])
     = ret (Some (Inl (Alloc OutOfMemory)), [])
   \<and> map_option (apfst read_layout_alloc_result) (z_shm_provider_alloc_gc_aligned demo_shm (Posix ()) 200 \<lparr>al_pow = 70\<rparr> [])
     = ret (Some (Inl (Layout IncorrectLayoutArgs)), [])
   \<and> map_option (apfst read_alloc_result) (z_precomputed_layout_alloc demo_shm (LPosix 200) [])
     = ret (Some (Inr 200), [200])"
proof -
  have 1: "map_option (apfst read_layout_alloc_result) (z_shm_provider_alloc demo_shm (Posix ()) 200 [])
     = map_option (apfst Some) (sp_alloc demo_shm () (200, la_transmute (sp_layouts demo_shm) alignment_0) JustAlloc [])"
    using allocations_well_formed [THEN conjunct1, THEN mp, of JustAlloc alignment_0 "z_shm_provider_alloc demo_shm" demo_shm alignment_0 "Posix ()"]
    by (simp add: provider_allocs_def)
  have 2: "map_option (apfst read_layout_alloc_result) (z_shm_provider_alloc_gc_aligned demo_shm (Posix ()) 200 \<lparr>al_pow = 70\<rparr> [])
     = map_option (apfst Some) (sp_alloc demo_shm () (200, la_transmute (sp_layouts demo_shm) \<lparr>al_pow = 70\<rparr>) UnsafeGarbageCollect [])"
    using allocations_well_formed [THEN conjunct1, THEN mp, of UnsafeGarbageCollect "\<lparr>al_pow = 70\<rparr>"
        "\<lambda>p n. z_shm_provider_alloc_gc_aligned demo_shm p n \<lparr>al_pow = 70\<rparr>" demo_shm "\<lparr>al_pow = 70\<rparr>" "Posix ()"]
    by (simp add: provider_allocs_def)
  have 3: "map_option (apfst read_alloc_result) (z_precomputed_layout_alloc demo_shm (LPosix 200) [])
     = map_option (apfst Some) (ly_alloc demo_shm 200 JustAlloc [])"
    using allocations_well_formed [THEN conjunct2, THEN mp, of JustAlloc "z_precomputed_layout_alloc demo_shm" demo_shm "LPosix 200"]
    by (simp add: layout_allocs_def)
  show ?thesis unfolding 1 2 3 by (simp add: demo_shm_def alignment_0_def)
qed

subsection \<open>Contexts of asynchronous allocations\<close>

text \<open>A spawned task allocates, calls back with the context, and deletes the context last.\<close>

lemma run_alloc_task_eq:
  "run_alloc_task \<lparr>at_alloc = f, at_context = ThreadsafeContext c, at_callback = cb\<rparr> u = (case f u of
     None \<Rightarrow> None
   | Some (z, v) \<Rightarrow> let (r, v) = cb (tcd_ptr (tcx_context c)) z v in ret (r, tcx_delete_fn c (tcd_ptr (tcx_context c)) v))"
  by (simp add: run_alloc_task_def split_beta split: option.splits)

text \<open>C15: the fate of the context and the callback of an asynchronous allocation. On a provider that may be
  used from other threads the call answers \<open>Z_OK\<close> and spawns a task that allocates with zenoh's
  blocking policy, writes the output, calls the callback once with the context, and then calls the
  context's deleter, once; through a precomputed layout likewise. On a provider that is not
  thread-safe the answer is \<open>Z_EINVAL\<close>, no task is spawned and the callback never runs; the provider's
  function deletes the context, but the layout's function does not: the program's state is
  unchanged and nothing holds the context any more.\<close>

theorem async_alloc_contexts:
  "(case z_shm_provider_alloc_gc_defrag_aligned_async N provider sz alignment c cb w of
      (code, None, w') \<Rightarrow> (\<exists>p. provider = Dynamic p) \<and> code = Z_EINVAL \<and> w' = tcx_delete_fn c (tcd_ptr (tcx_context c)) w
    | (code, Some tk, w') \<Rightarrow> (\<nexists>p. provider = Dynamic p) \<and> code = Z_OK \<and> w' = w
        \<and> (\<forall>u. run_alloc_task tk u = (case sp_alloc N (inner_provider provider) (sz, la_transmute (sp_layouts N) alignment)
                 (BlockOn (Defragment UnsafeGarbageCollect None)) u of
             None \<Rightarrow> None
           | Some (z, v) \<Rightarrow> let (r, v) = cb (tcd_ptr (tcx_context c)) (z_buf_layout_alloc_result_from z) v
                           in ret (r, tcx_delete_fn c (tcd_ptr (tcx_context c)) v))))
   \<and> (case z_precomputed_layout_threadsafe_alloc_gc_defrag_async N layout c cb' w of
      (code, None, w') \<Rightarrow> (\<exists>l. layout = LDynamic l) \<and> code = Z_EINVAL \<and> w' = w
    | (code, Some tk, w') \<Rightarrow> (\<nexists>l. layout = LDynamic l) \<and> code = Z_OK \<and> w' = w
        \<and> (\<forall>u. run_alloc_task tk u = (case ly_alloc N (inner_layout layout) (BlockOn (Defragment UnsafeGarbageCollect None)) u of
             None \<Rightarrow> None
           | Some (z, v) \<Rightarrow> let (r, v) = cb' (tcd_ptr (tcx_context c)) (z_buf_alloc_result_from z) v
                           in ret (r, tcx_delete_fn c (tcd_ptr (tcx_context c)) v))))"
proof (rule conjI, goal_cases)
  case 1
  show ?case
    by (cases provider) (auto simp: z_shm_provider_alloc_gc_defrag_aligned_async_def provider_alloc_async_def
        ThreadsafeContext_from_def provider_alloc_async_impl_def run_alloc_task_eq split: option.splits)
next
  case 2
  show ?case
    by (cases layout) (auto simp: z_precomputed_layout_threadsafe_alloc_gc_defrag_async_def layout_alloc_async_def
        ThreadsafeContext_from_def layout_alloc_async_impl_def run_alloc_task_eq split: option.splits)
qed

text \<open>A layout remembers which kind of provider it came from: asynchronous allocation is possible
  through the layout exactly when it is through the provider.\<close>

lemma layout_async_agrees:
  "alloc_layout N this provider sz alignment w = ((Z_OK, Some layout), w') \<Longrightarrow>
   fst (layout_alloc_async N policy layout c cb v) = fst (provider_alloc_async N policy provider sz alignment c' cb' v)"
  by (cases provider) (auto simp: alloc_layout_def layout_alloc_async_def provider_alloc_async_def
      split: sum.splits prod.splits)

text \<open>Functions that fail without writing their output: on uninitialised memory the slot stays
  uninitialised. The POSIX constructors write the gravestone on the same errors.\<close>

lemma shm_errors_leave_slots:
  "z_shm_provider_default_new (\<lambda>_. Inl ()) this sz = (Z_EINVAL, this)
   \<and> z_posix_shm_provider_new (\<lambda>_. Inl ()) build sz = (Z_EINVAL, z_internal_shm_provider_null)
   \<and> (la_new (sp_layouts N) sz (la_transmute (sp_layouts N) alignment) = Inl e
        \<longrightarrow> alloc_layout N lslot provider sz alignment w = ((Z_EINVAL, lslot), w))
   \<and> provider_map N bslot provider \<lparr>ac_descriptpr = d, ac_ptr = None\<rparr> len w = ((Z_EINVAL, bslot), None, w)"
  by (simp add: z_shm_provider_default_new_def z_posix_shm_provider_new_def z_internal_shm_provider_null_def
      alloc_layout_def provider_map_def AllocatedChunk_try_from_def)

end
