(* ===== verification/Sessions.thy ===== *)
theory Sessions
  imports Slices Entities ShmProviders
begin

text \<open>
  \<open>src/config.rs\<close>, \<open>src/session.rs\<close>, \<open>src/close.rs\<close> and \<open>src/cancellation_token.rs\<close>: configurations,
  opening and closing sessions, concurrent close handles and cancellation tokens.

  The JSON5 and file operations of a \<open>Config\<close> are the fields of \<open>config_ops\<close> (the type is zenoh's);
  strings are their UTF-8 bytes. Opening and closing are parameters that see the configuration and
  the settings of the builder. An output the source leaves uninitialised is \<open>None\<close> where the function
  has such a path.
\<close>

subsection \<open>Configurations\<close>

record 'c config_ops =
  cfg_default :: 'c
  cfg_clone :: "'c \<Rightarrow> 'c"
  cfg_get_json :: "'c \<Rightarrow> u8 list \<Rightarrow> u8 list option"
  cfg_insert_json5 :: "'c \<Rightarrow> u8 list \<Rightarrow> u8 list \<Rightarrow> bool \<times> 'c"
  json5_from_str :: "u8 list \<Rightarrow> 'c option"
  json5_to_string :: "'c \<Rightarrow> u8 list option"
  cfg_from_file :: "u8 list \<Rightarrow> 'c option"
  cfg_from_env :: "'c option"

definition z_config_loan :: "'c option \<Rightarrow> 'c run" where
  "z_config_loan this = loan_option this"

definition z_config_loan_mut :: "'c option \<Rightarrow> 'c run" where
  "z_config_loan_mut this = loan_option this"

definition z_config_default :: "'c config_ops \<Rightarrow> z_result_t \<times> 'c option" where
  "z_config_default C = (Z_OK, Some (cfg_default C))"

definition z_internal_config_null :: "'c option" where
  "z_internal_config_null = None"

definition z_config_clone :: "'c config_ops \<Rightarrow> 'c \<Rightarrow> 'c option" where
  "z_config_clone C this = Some (cfg_clone C this)"

text \<open>\<open>z_string_copy_from_substr\<close> of a Rust string: the string is in a buffer of its own, is copied,
  and its buffer is freed when it goes out of scope.\<close>

definition copy_rust_string :: "u8 list \<Rightarrow> heap \<Rightarrow> (cslice \<times> heap) run" where
  "copy_rust_string s h = do {
     let (p, h) = box_leak s h;
     (_, out, h) \<leftarrow> z_string_copy_from_substr p (of_nat (length s)) h;
     h \<leftarrow> box_free p (length s) h;
     ret (out, h)
   }"

definition zc_config_get_from_substr ::
  "'c config_ops \<Rightarrow> 'c \<Rightarrow> ptr \<Rightarrow> usize \<Rightarrow> heap \<Rightarrow> (z_result_t \<times> cslice \<times> heap) run" where
  "zc_config_get_from_substr C this key key_len h =
    (if is_null key then ret (Z_EINVAL, z_internal_string_null, h)
     else do {
       bs \<leftarrow> from_raw_parts key (unat key_len) h;
       if \<not> utf8_valid bs then ret (Z_EINVAL, z_internal_string_null, h)
       else case cfg_get_json C this bs of
         Some val \<Rightarrow> do { (out, h) \<leftarrow> copy_rust_string val h; ret (Z_OK, out, h) }
       | None \<Rightarrow> ret (Z_EUNAVAILABLE, z_internal_string_null, h)
     })"

definition zc_config_get_from_str ::
  "'c config_ops \<Rightarrow> 'c \<Rightarrow> ptr \<Rightarrow> heap \<Rightarrow> (z_result_t \<times> cslice \<times> heap) run" where
  "zc_config_get_from_str C this key h = do {
     n \<leftarrow> strlen_or_zero key h;
     zc_config_get_from_substr C this key (of_nat n) h
   }"

definition zc_config_insert_json5_from_substr ::
  "'c config_ops \<Rightarrow> 'c \<Rightarrow> ptr \<Rightarrow> usize \<Rightarrow> ptr \<Rightarrow> usize \<Rightarrow> heap \<Rightarrow> (z_result_t \<times> 'c) run" where
  "zc_config_insert_json5_from_substr C this key key_len val val_len h = do {
     k \<leftarrow> borrowed_str key key_len h;
     case k of Inl r \<Rightarrow> ret (r, this) | Inr k \<Rightarrow> do {
       v \<leftarrow> borrowed_str val val_len h;
       case v of Inl r \<Rightarrow> ret (r, this) | Inr v \<Rightarrow>
         (let (ok, this) = cfg_insert_json5 C this k v in ret (if ok then Z_OK else Z_EGENERIC, this))
     }
   }"

definition zc_config_insert_json5 ::
  "'c config_ops \<Rightarrow> 'c \<Rightarrow> ptr \<Rightarrow> ptr \<Rightarrow> heap \<Rightarrow> (z_result_t \<times> 'c) run" where
  "zc_config_insert_json5 C this key val h = do {
     k \<leftarrow> strlen_or_zero key h;
     v \<leftarrow> strlen_or_zero val h;
     zc_config_insert_json5_from_substr C this key (of_nat k) val (of_nat v) h
   }"

definition z_config_drop :: "('c \<Rightarrow> 'w \<Rightarrow> 'w run) \<Rightarrow> 'c option \<Rightarrow> 'w \<Rightarrow> ('c option \<times> 'w) run" where
  "z_config_drop drp this w = moved_drop gravestone_option (drop_option drp) this w"

definition z_internal_config_check :: "'c option \<Rightarrow> bool" where
  "z_internal_config_check this \<longleftrightarrow> this \<noteq> None"

definition zc_config_from_substr ::
  "'c config_ops \<Rightarrow> ptr \<Rightarrow> usize \<Rightarrow> heap \<Rightarrow> (z_result_t \<times> 'c option) run" where
  "zc_config_from_substr C s l h =
    (if is_null s then ret (Z_EINVAL, z_internal_config_null)
     else do {
       bs \<leftarrow> from_raw_parts s (unat l) h;
       ret (if \<not> utf8_valid bs then (Z_EINVAL, z_internal_config_null)
            else case json5_from_str C bs of
              Some props \<Rightarrow> (Z_OK, Some props)
            | None \<Rightarrow> (Z_EPARSE, z_internal_config_null))
     })"

definition zc_config_from_str :: "'c config_ops \<Rightarrow> ptr \<Rightarrow> heap \<Rightarrow> (z_result_t \<times> 'c option) run" where
  "zc_config_from_str C s h = do {
     n \<leftarrow> strlen_or_zero s h;
     zc_config_from_substr C s (of_nat n) h
   }"

definition zc_config_to_string :: "'c config_ops \<Rightarrow> 'c \<Rightarrow> heap \<Rightarrow> (z_result_t \<times> cslice \<times> heap) run" where
  "zc_config_to_string C config h = (case json5_to_string C config of
     Some s \<Rightarrow> do { (out, h) \<leftarrow> copy_rust_string s h; ret (Z_OK, out, h) }
   | None \<Rightarrow> ret (Z_EPARSE, z_internal_string_null, h))"

definition zc_config_from_file_substr ::
  "'c config_ops \<Rightarrow> ptr \<Rightarrow> usize \<Rightarrow> heap \<Rightarrow> (z_result_t \<times> 'c option) run" where
  "zc_config_from_file_substr C path l h =
    (if is_null path then ret (Z_EINVAL, z_internal_config_null)
     else do {
       bs \<leftarrow> from_raw_parts path (unat l) h;
       ret (if \<not> utf8_valid bs then (Z_EINVAL, z_internal_config_null)
            else case cfg_from_file C bs of
              Some c \<Rightarrow> (Z_OK, Some c)
            | None \<Rightarrow> (Z_EPARSE, z_internal_config_null))
     })"

definition zc_config_from_file :: "'c config_ops \<Rightarrow> ptr \<Rightarrow> heap \<Rightarrow> (z_result_t \<times> 'c option) run" where
  "zc_config_from_file C path h = do {
     n \<leftarrow> strlen_or_zero path h;
     zc_config_from_file_substr C path (of_nat n) h
   }"

text \<open>On an error the output is not written: the slot keeps what it had.\<close>

definition zc_config_from_env :: "'c config_ops \<Rightarrow> 'c option \<Rightarrow> z_result_t \<times> 'c option" where
  "zc_config_from_env C this = (case cfg_from_env C of
     Some c \<Rightarrow> (Z_OK, Some c)
   | None \<Rightarrow> (Z_EIO, this))"

subsection \<open>Sessions\<close>

definition z_session_loan :: "'s option \<Rightarrow> 's run" where
  "z_session_loan this = loan_option this"

definition z_session_loan_mut :: "'s option \<Rightarrow> 's run" where
  "z_session_loan_mut this = loan_option this"

definition z_internal_session_null :: "'s option" where
  "z_internal_session_null = None"

record z_open_options_t =
  open_dummy :: u8

definition z_open_options_default :: z_open_options_t where
  "z_open_options_default = \<lparr>open_dummy = 0\<rparr>"

text \<open>\<open>open\<close> sees the configuration and the shared-memory clients, if any. The results are the code,
  the session's slot and the configuration's slot.\<close>

definition z_open ::
  "('c \<Rightarrow> 'm option \<Rightarrow> 'w \<Rightarrow> (wait_error + 's) \<times> 'w) \<Rightarrow> 'c option \<Rightarrow> z_open_options_t option \<Rightarrow> 'w
   \<Rightarrow> (z_result_t \<times> 's option \<times> 'c option) \<times> 'w" where
  "z_open open_wait config options w = (case take_rust_type gravestone_option config of
     (None, config) \<Rightarrow> ((Z_EINVAL, None, config), w)
   | (Some c, config) \<Rightarrow> (case open_wait c None w of
        (Inr s, w) \<Rightarrow> ((Z_OK, Some s, config), w)
      | (Inl _, w) \<Rightarrow> ((Z_ENETWORK, None, config), w)))"

definition z_open_with_custom_shm_clients ::
  "('c \<Rightarrow> 'm option \<Rightarrow> 'w \<Rightarrow> (wait_error + 's) \<times> 'w) \<Rightarrow> 'c option \<Rightarrow> 'm \<Rightarrow> 'w
   \<Rightarrow> (z_result_t \<times> 's option \<times> 'c option) \<times> 'w" where
  "z_open_with_custom_shm_clients open_wait config shm_clients w = (case take_rust_type gravestone_option config of
     (None, config) \<Rightarrow> ((Z_EINVAL, None, config), w)
   | (Some c, config) \<Rightarrow> (case open_wait c (Some shm_clients) w of
        (Inr s, w) \<Rightarrow> ((Z_OK, Some s, config), w)
      | (Inl _, w) \<Rightarrow> ((Z_ENETWORK, None, config), w)))"

datatype z_shm_provider_state = SHM_DISABLED | SHM_INITIALIZING | SHM_READY | SHM_ERROR

text \<open>Zenoh's \<open>ShmProviderState\<close>; the waiter of an initialising provider ends with the provider or
  without one.\<close>

datatype 'a ShmProviderState = Disabled | Initializing "'a option" | Ready 'a | Error

text \<open>The provider's output is written only on success.\<close>

definition z_obtain_shm_provider ::
  "'p ShmProviderState \<Rightarrow> bool \<Rightarrow> z_result_t \<times> 'p SharedShmProvider option \<times> z_shm_provider_state" where
  "z_obtain_shm_provider st blocking = (case st of
     Disabled \<Rightarrow> (Z_EUNAVAILABLE, None, SHM_DISABLED)
   | Initializing waiter \<Rightarrow>
       if blocking then
         (case waiter of
            Some provider \<Rightarrow> (Z_OK, Some (SharedShmProvider (SharedPosix provider)), SHM_READY)
          | None \<Rightarrow> (Z_EUNAVAILABLE, None, SHM_ERROR))
       else (Z_EUNAVAILABLE, None, SHM_INITIALIZING)
   | Ready provider \<Rightarrow> (Z_OK, Some (SharedShmProvider (SharedPosix provider)), SHM_READY)
   | Error \<Rightarrow> (Z_EUNAVAILABLE, None, SHM_ERROR))"

text \<open>The variant that cloning a shared provider declares unreachable is unreachable: every shared
  provider comes from here or from a clone.\<close>

lemma shared_provider_clone_returns:
  "z_obtain_shm_provider st blocking = (code, Some q, state) \<Longrightarrow>
    \<exists>p. q = SharedShmProvider (SharedPosix p)
      \<and> z_shared_shm_provider_clone clone q = ret (Some (SharedShmProvider (SharedPosix (clone p))))"
  by (auto simp: z_obtain_shm_provider_def split: ShmProviderState.splits if_splits option.splits)

definition z_internal_session_check :: "'s option \<Rightarrow> bool" where
  "z_internal_session_check this \<longleftrightarrow> this \<noteq> None"

text \<open>\<open>internal_out_concurrent\<close> says whether the caller passed a slot for the handle.\<close>

record z_close_options_t =
  internal_timeout_ms :: u32
  internal_out_concurrent :: bool

definition z_close_options_default :: z_close_options_t where
  "z_close_options_default = \<lparr>internal_timeout_ms = 0, internal_out_concurrent = False\<rparr>"

text \<open>The close builder is its timeout in milliseconds, if one was set. \<open>close\<close> closes and waits,
  \<open>close_background\<close> starts closing and gives the handle.\<close>

record ('s, 'h, 'w) closer =
  close_wait :: "'s \<Rightarrow> u64 option \<Rightarrow> 'w \<Rightarrow> (wait_error + unit) \<times> 'w"
  close_background :: "'s \<Rightarrow> u64 option \<Rightarrow> 'w \<Rightarrow> 'h \<times> 'w"

definition z_close ::
  "('s, 'h, 'w) closer \<Rightarrow> 's \<Rightarrow> z_close_options_t option \<Rightarrow> 'w \<Rightarrow> (z_result_t \<times> 'h option) \<times> 'w" where
  "z_close K session options w =
    (let timeout = (case options of
           None \<Rightarrow> None
         | Some opts \<Rightarrow> if internal_timeout_ms opts \<noteq> 0 then Some (ucast (internal_timeout_ms opts)) else None)
     in case options of
          Some opts \<Rightarrow>
            if internal_out_concurrent opts
            then (let (handle, w) = close_background K session timeout w in ((Z_OK, Some handle), w))
            else (let (r, w) = close_wait K session timeout w in ((generic_result r, None), w))
        | None \<Rightarrow> (let (r, w) = close_wait K session timeout w in ((generic_result r, None), w)))"

definition z_session_is_closed :: "('s \<Rightarrow> bool) \<Rightarrow> 's \<Rightarrow> bool" where
  "z_session_is_closed is_closed session = is_closed session"

text \<open>Dropping a session closes it and ignores the result.\<close>

definition z_session_drop :: "('s, 'h, 'w) closer \<Rightarrow> 's option \<Rightarrow> 'w \<Rightarrow> 's option \<times> 'w" where
  "z_session_drop K this w = (case take_rust_type gravestone_option this of
     (Some s, this) \<Rightarrow> (this, snd (close_wait K s None w))
   | (None, this) \<Rightarrow> (this, w))"

definition z_session_id :: "('s \<Rightarrow> 'g) \<Rightarrow> 's \<Rightarrow> 'g" where
  "z_session_id id_of session = id_of session"

subsection \<open>Concurrent close handles\<close>

definition zc_concurrent_close_handle_wait :: "('h \<Rightarrow> bool) \<Rightarrow> 'h option \<Rightarrow> (z_result_t \<times> 'h option) run" where
  "zc_concurrent_close_handle_wait wait handle =
    (let (h, handle) = take_rust_type gravestone_option handle in
     map_option (\<lambda>h. (if wait h then Z_OK else Z_EIO, handle)) (loan_option h))"

definition zc_concurrent_close_handle_drop :: "('h \<Rightarrow> 'w \<Rightarrow> 'w run) \<Rightarrow> 'h option \<Rightarrow> 'w \<Rightarrow> ('h option \<times> 'w) run" where
  "zc_concurrent_close_handle_drop drp this w = moved_drop gravestone_option (drop_option drp) this w"

definition zc_internal_concurrent_close_handle_check :: "'h option \<Rightarrow> bool" where
  "zc_internal_concurrent_close_handle_check this \<longleftrightarrow> this \<noteq> None"

definition zc_internal_concurrent_close_handle_null :: "'h option" where
  "zc_internal_concurrent_close_handle_null = None"

subsection \<open>Cancellation tokens\<close>

record ('t, 'w) token_ops =
  tk_default :: "'w \<Rightarrow> 't \<times> 'w"
  tk_clone :: "'t \<Rightarrow> 't"
  tk_cancel :: "'t \<Rightarrow> 'w \<Rightarrow> (wait_error + unit) \<times> 'w"
  tk_is_cancelled :: "'t \<Rightarrow> 'w \<Rightarrow> bool"

definition z_cancellation_token_loan :: "'t option \<Rightarrow> 't run" where
  "z_cancellation_token_loan this = loan_option this"

definition z_cancellation_token_loan_mut :: "'t option \<Rightarrow> 't run" where
  "z_cancellation_token_loan_mut this = loan_option this"

definition z_cancellation_token_new :: "('t, 'w) token_ops \<Rightarrow> 'w \<Rightarrow> (z_result_t \<times> 't option) \<times> 'w" where
  "z_cancellation_token_new T w = (let (t, w) = tk_default T w in ((Z_OK, Some t), w))"

definition z_internal_cancellation_token_null :: "'t option" where
  "z_internal_cancellation_token_null = None"

definition z_cancellation_token_clone :: "('t, 'w) token_ops \<Rightarrow> 't \<Rightarrow> 't option" where
  "z_cancellation_token_clone T this = Some (tk_clone T this)"

definition z_cancellation_token_drop :: "('t \<Rightarrow> 'w \<Rightarrow> 'w run) \<Rightarrow> 't option \<Rightarrow> 'w \<Rightarrow> ('t option \<times> 'w) run" where
  "z_cancellation_token_drop drp this w = moved_drop gravestone_option (drop_option drp) this w"

definition z_internal_cancellation_token_check :: "'t option \<Rightarrow> bool" where
  "z_internal_cancellation_token_check this \<longleftrightarrow> this \<noteq> None"

definition z_cancellation_token_cancel :: "('t, 'w) token_ops \<Rightarrow> 't \<Rightarrow> 'w \<Rightarrow> z_result_t \<times> 'w" where
  "z_cancellation_token_cancel T this w = (let (r, w) = tk_cancel T this w in (generic_result r, w))"

definition z_cancellation_token_is_cancelled :: "('t, 'w) token_ops \<Rightarrow> 't \<Rightarrow> 'w \<Rightarrow> bool" where
  "z_cancellation_token_is_cancelled T this w = tk_is_cancelled T this w"

subsection \<open>Lemmas\<close>

text \<open>A copied string has the text, and only the copy is left in memory: dropping it gives the memory
  back as it was.\<close>

lemma copy_rust_string_spec:
  assumes "heap_ok h" "s \<noteq> []" "length s < 2 ^ 64"
  shows "\<exists>out h'. copy_rust_string s h = ret (out, h') \<and> out = CSlice_wrap (Ptr (next_block h + 1) 0) (of_nat (length s))
    \<and> blocks h' = (blocks h)(next_block h + 1 \<mapsto> (Boxed, s)) \<and> next_block h' = next_block h + 2 \<and> calls h' = calls h"
proof -
  have n: "unat (of_nat (length s) :: usize) = length s" using assms(3) by (rule unat_of_nat_usize)
  then have z: "(of_nat (length s) :: usize) \<noteq> 0" using assms(2) by (metis length_0_conv unat_0)
  have "blocks h (next_block h) = None" using assms(1) by (simp add: heap_ok_def)
  then show ?thesis
    using assms(2) n z
    by (auto simp: copy_rust_string_def box_leak_def z_string_copy_from_substr_def CSlice_new_owned_def
        CSlice_new_owned_unchecked_def from_raw_parts_def box_free_def is_null_def fun_upd_twist fun_upd_idem)
qed

lemma drop_copied_string:
  assumes "blocks h' = (blocks h)(b \<mapsto> (Boxed, s))" "blocks h b = None" "length s < 2 ^ 64"
  shows "\<exists>h''. CSlice_drop (CSlice_wrap (Ptr b 0) (of_nat (length s))) h' = ret h'' \<and> (s \<noteq> [] \<longrightarrow> blocks h'' = blocks h)"
  using assms unat_of_nat_usize [OF assms(3)]
  by (auto simp: CSlice_drop_def CSlice_wrap_def CSlice_new_unchecked_def z_drop_c_slice_default_def box_free_def is_null_def
      fun_upd_idem)

subsection \<open>Properties\<close>

text \<open>C29: a configuration's text goes through C unchanged. Where \<open>json5\<close> cannot print the configuration,
  \<open>zc_config_to_string\<close> fails with \<open>Z_EPARSE\<close>, the null string and the memory as it was. Where it prints a text, the
  string holds exactly that text: given to \<open>zc_config_from_substr\<close>, it yields the configuration \<open>json5\<close> parses from
  the text itself, or \<open>Z_EPARSE\<close> and no configuration where \<open>json5\<close> does not read back what it wrote. Between the two
  calls the string is the only block the library added, and dropping it restores the memory.\<close>

theorem config_text_exact:
  assumes "heap_ok h"
    and "\<And>s. json5_to_string C c = Some s \<Longrightarrow> utf8_valid s \<and> s \<noteq> [] \<and> length s < 2 ^ 64"
  shows "case json5_to_string C c of
      None \<Rightarrow> zc_config_to_string C c h = ret (Z_EPARSE, z_internal_string_null, h)
    | Some s \<Rightarrow> \<exists>out h' h''. zc_config_to_string C c h = ret (Z_OK, out, h')
        \<and> zc_config_from_substr C (z_string_data out) (z_string_len out) h' = ret (case json5_from_str C s of
            Some c' \<Rightarrow> (Z_OK, Some c') | None \<Rightarrow> (Z_EPARSE, None))
        \<and> blocks h' = (blocks h)(next_block h + 1 \<mapsto> (Boxed, s))
        \<and> z_string_drop out h' = ret (z_internal_string_null, h'') \<and> blocks h'' = blocks h"
proof (cases "json5_to_string C c")
  case None
  then show ?thesis by (simp add: zc_config_to_string_def)
next
  case (Some s)
  with assms(2) have s: "utf8_valid s" "s \<noteq> []" "length s < 2 ^ 64" by blast+
  obtain out h' where c: "copy_rust_string s h = ret (out, h')"
    "out = CSlice_wrap (Ptr (next_block h + 1) 0) (of_nat (length s))"
    "blocks h' = (blocks h)(next_block h + 1 \<mapsto> (Boxed, s))"
    using copy_rust_string_spec [OF assms(1) s(2,3)] by blast
  have f: "blocks h (next_block h + 1) = None" using assms(1) by (simp add: heap_ok_def)
  obtain h'' where d: "CSlice_drop out h' = ret h''" "blocks h'' = blocks h"
    using drop_copied_string [OF c(3) f s(3)] s(2) c(2) by auto
  have "from_raw_parts (Ptr (next_block h + 1) 0) (length s) h' = ret s"
    by (simp add: from_raw_parts_def is_null_def c(3))
  then have "zc_config_from_substr C (z_string_data out) (z_string_len out) h' = ret (case json5_from_str C s of
      Some c' \<Rightarrow> (Z_OK, Some c') | None \<Rightarrow> (Z_EPARSE, None))"
    using s unat_of_nat_usize [OF s(3)]
    by (simp add: zc_config_from_substr_def z_string_data_def z_string_len_def c(2) CSlice_wrap_def
        CSlice_new_unchecked_def is_null_def z_internal_config_null_def split: option.split)
  moreover have "zc_config_to_string C c h = ret (Z_OK, out, h')"
    using Some c by (simp add: zc_config_to_string_def)
  ultimately show ?thesis
    using d c(3) Some by (auto simp: z_string_drop_def moved_drop_def take_rust_type_def take_c_type_def mem_replace_def
        z_internal_string_null_def)
qed

text \<open>Configurations as their text, of which only the empty object is read back.\<close>

definition demo_config :: "u8 list config_ops" where
  "demo_config = \<lparr>cfg_default = [123, 125], cfg_clone = (\<lambda>c. c), cfg_get_json = (\<lambda>c k. Some c),
     cfg_insert_json5 = (\<lambda>c k v. (True, v)), json5_from_str = (\<lambda>s. if s = [123, 125] then Some s else None),
     json5_to_string = (\<lambda>c. if c = [] then None else Some c), cfg_from_file = (\<lambda>_. None), cfg_from_env = None\<rparr>"

theorem config_text_exact_witness:
  "(\<exists>out h' h''. zc_config_to_string demo_config [123, 125] \<lparr>blocks = Map.empty, next_block = 0, calls = []\<rparr>
      = ret (Z_OK, out, h')
    \<and> zc_config_from_substr demo_config (z_string_data out) (z_string_len out) h' = ret (Z_OK, Some [123, 125])
    \<and> z_string_drop out h' = ret (z_internal_string_null, h'') \<and> blocks h'' = Map.empty)
   \<and> (\<exists>out h'. zc_config_to_string demo_config [125] \<lparr>blocks = Map.empty, next_block = 0, calls = []\<rparr> = ret (Z_OK, out, h')
    \<and> zc_config_from_substr demo_config (z_string_data out) (z_string_len out) h' = ret (Z_EPARSE, None))"
proof -
  let ?h = "\<lparr>blocks = Map.empty, next_block = 0, calls = []\<rparr> :: heap"
  have ok: "heap_ok ?h" by (simp add: heap_ok_def)
  have "case json5_to_string demo_config c of
      None \<Rightarrow> zc_config_to_string demo_config c ?h = ret (Z_EPARSE, z_internal_string_null, ?h)
    | Some s \<Rightarrow> \<exists>out h' h''. zc_config_to_string demo_config c ?h = ret (Z_OK, out, h')
        \<and> zc_config_from_substr demo_config (z_string_data out) (z_string_len out) h'
          = ret (case json5_from_str demo_config s of Some c' \<Rightarrow> (Z_OK, Some c') | None \<Rightarrow> (Z_EPARSE, None))
        \<and> blocks h' = (blocks ?h)(next_block ?h + 1 \<mapsto> (Boxed, s))
        \<and> z_string_drop out h' = ret (z_internal_string_null, h'') \<and> blocks h'' = blocks ?h"
    if "c = [123, 125] \<or> c = [125]" for c
    by (rule config_text_exact [OF ok]) (use that in \<open>auto simp: demo_config_def utf8_valid_ascii split: if_splits\<close>)
  from this [of "[123, 125]"] this [of "[125]"] show ?thesis by (simp add: demo_config_def) blast
qed

end
