(* ===== verification/Subscribers.thy ===== *)
theory Subscribers
  imports Entities
begin

text \<open>
  \<open>src/subscriber.rs\<close>, \<open>src/matching.rs\<close> and \<open>src/liveliness.rs\<close> (less \<open>z_liveliness_get\<close>, which is
  in theory \<open>Queries\<close>): subscribers, matching listeners, liveliness tokens and liveliness subscribers.

  A builder carries the key expression, the C closure the Rust callback captured and the settings;
  what zenoh does with it (\<open>wait\<close>) is a parameter that sees exactly that. The kinds of entity are
  interpreted as \<open>entity_kind\<close>.
\<close>

subsection \<open>Subscribers\<close>

definition z_internal_subscriber_null :: "'p option" where
  "z_internal_subscriber_null = None"

definition z_subscriber_loan :: "'p option \<Rightarrow> 'p run" where
  "z_subscriber_loan this = loan_option this"

record z_subscriber_options_t =
  allowed_origin :: z_locality_t

text \<open>The default locality of zenoh is a parameter; \<open>z_locality_default\<close> converts it.\<close>

definition z_subscriber_options_default :: "Locality \<Rightarrow> z_subscriber_options_t" where
  "z_subscriber_options_default d = \<lparr>allowed_origin = z_locality_from_rust d\<rparr>"

datatype 'k sub_builder =
    SubscriberB 'k closure "Locality option"
  | LivelinessSubscriberB 'k closure bool

text \<open>The Rust callback around the C closure it captured.\<close>

definition sample_callback :: "closure \<Rightarrow> 's \<Rightarrow> 's event list \<Rightarrow> 's event list" where
  "sample_callback callback sample tr = z_closure_sample_call (z_closure_sample_loan callback) sample tr"

definition declare_subscriber_inner ::
  "'k \<Rightarrow> closure \<Rightarrow> z_subscriber_options_t option \<Rightarrow> 'k sub_builder \<times> closure" where
  "declare_subscriber_inner key_expr callback options =
    (let (cb, callback) = closure_take_c_type callback in
     (SubscriberB key_expr cb (map_option (z_locality_to_rust \<circ> allowed_origin) options), callback))"

definition z_declare_subscriber ::
  "('k sub_builder \<Rightarrow> wait_error + 'p) \<Rightarrow> 'k \<Rightarrow> closure \<Rightarrow> z_subscriber_options_t option
   \<Rightarrow> (z_result_t \<times> 'p option) \<times> closure" where
  "z_declare_subscriber wait key_expr callback options =
    (let (s, callback) = declare_subscriber_inner key_expr callback options
     in (declare_result (wait s), callback))"

definition z_declare_background_subscriber ::
  "('k sub_builder \<Rightarrow> wait_error + unit) \<Rightarrow> 'k \<Rightarrow> closure \<Rightarrow> z_subscriber_options_t option
   \<Rightarrow> z_result_t \<times> closure" where
  "z_declare_background_subscriber background_wait key_expr callback options =
    (let (s, callback) = declare_subscriber_inner key_expr callback options
     in (generic_result (background_wait s), callback))"

definition z_subscriber_keyexpr :: "('p \<Rightarrow> 'k) \<Rightarrow> 'p \<Rightarrow> 'k" where
  "z_subscriber_keyexpr key_expr subscriber = key_expr subscriber"

definition z_undeclare_subscriber ::
  "('p \<Rightarrow> 'w \<Rightarrow> (wait_error + unit) \<times> 'w) \<Rightarrow> 'p option \<Rightarrow> 'w \<Rightarrow> z_result_t \<times> 'p option \<times> 'w" where
  "z_undeclare_subscriber undeclare this w = undeclare_entity Z_EGENERIC undeclare this w"

definition z_subscriber_drop ::
  "('p \<Rightarrow> 'w \<Rightarrow> (wait_error + unit) \<times> 'w) \<Rightarrow> 'p option \<Rightarrow> 'w \<Rightarrow> 'p option \<times> 'w" where
  "z_subscriber_drop undeclare this w = snd (z_undeclare_subscriber undeclare this w)"

definition z_internal_subscriber_check :: "'p option \<Rightarrow> bool" where
  "z_internal_subscriber_check this \<longleftrightarrow> this \<noteq> None"

definition z_subscriber_id :: "('p \<Rightarrow> 'g) \<Rightarrow> 'p \<Rightarrow> 'g" where
  "z_subscriber_id id_of subscriber = id_of subscriber"

definition subscriber_api :: "'k \<Rightarrow> closure \<Rightarrow> z_subscriber_options_t option \<Rightarrow> ('p, 'w) entity_api" where
  "subscriber_api k callback options = \<lparr>
     api_declare = (\<lambda>r _. fst (z_declare_subscriber (\<lambda>_. r) k callback options)),
     api_null = z_internal_subscriber_null, api_check = z_internal_subscriber_check,
     api_undeclare = z_undeclare_subscriber, api_drop = z_subscriber_drop\<rparr>"

interpretation sub: entity_kind "subscriber_api k callback options"
  by unfold_locales
     (simp_all add: subscriber_api_def z_declare_subscriber_def split_beta z_internal_subscriber_null_def
        z_internal_subscriber_check_def z_undeclare_subscriber_def z_subscriber_drop_def entity_laws)

subsection \<open>Matching listeners\<close>

definition z_internal_matching_listener_null :: "'p option" where
  "z_internal_matching_listener_null = None"

definition z_internal_matching_listener_check :: "'p option \<Rightarrow> bool" where
  "z_internal_matching_listener_check this \<longleftrightarrow> this \<noteq> None"

definition z_undeclare_matching_listener ::
  "('p \<Rightarrow> 'w \<Rightarrow> (wait_error + unit) \<times> 'w) \<Rightarrow> 'p option \<Rightarrow> 'w \<Rightarrow> z_result_t \<times> 'p option \<times> 'w" where
  "z_undeclare_matching_listener undeclare this w = undeclare_entity Z_ENETWORK undeclare this w"

definition z_matching_listener_drop ::
  "('p \<Rightarrow> 'w \<Rightarrow> (wait_error + unit) \<times> 'w) \<Rightarrow> 'p option \<Rightarrow> 'w \<Rightarrow> 'p option \<times> 'w" where
  "z_matching_listener_drop undeclare this w = snd (z_undeclare_matching_listener undeclare this w)"

text \<open>Matching listeners are declared on publishers, advanced publishers and queriers, with the same
  contract.\<close>

definition matching_listener_api ::
  "((closure \<Rightarrow> wait_error + 'p) \<Rightarrow> closure \<Rightarrow> (z_result_t \<times> 'p option) \<times> closure) \<Rightarrow> closure \<Rightarrow> ('p, 'w) entity_api" where
  "matching_listener_api declare_on callback = \<lparr>
     api_declare = (\<lambda>r _. fst (declare_on (\<lambda>_. r) callback)),
     api_null = z_internal_matching_listener_null, api_check = z_internal_matching_listener_check,
     api_undeclare = z_undeclare_matching_listener, api_drop = z_matching_listener_drop\<rparr>"

lemma matching_listener_kind:
  assumes "\<And>p. fst (declare_on (\<lambda>_. Inr p) callback) = (Z_OK, Some p)"
    and "\<And>e. \<exists>c. fst (declare_on (\<lambda>_. Inl e) callback) = (c, None) \<and> c \<noteq> Z_OK"
  shows "entity_kind (matching_listener_api declare_on callback)"
  by unfold_locales
     (simp_all add: assms matching_listener_api_def z_internal_matching_listener_null_def
        z_internal_matching_listener_check_def z_undeclare_matching_listener_def z_matching_listener_drop_def entity_laws)

subsection \<open>Liveliness tokens\<close>

definition z_internal_liveliness_token_null :: "'p option" where
  "z_internal_liveliness_token_null = None"

definition z_internal_liveliness_token_check :: "'p option \<Rightarrow> bool" where
  "z_internal_liveliness_token_check this \<longleftrightarrow> this \<noteq> None"

text \<open>The token is dropped without a call of \<open>undeclare\<close>; what dropping a \<open>LivelinessToken\<close> does is a
  parameter (zenoh undeclares it).\<close>

definition z_liveliness_token_drop :: "('p \<Rightarrow> 'w \<Rightarrow> 'w run) \<Rightarrow> 'p option \<Rightarrow> 'w \<Rightarrow> ('p option \<times> 'w) run" where
  "z_liveliness_token_drop drp this w = moved_drop gravestone_option (drop_option drp) this w"

record z_liveliness_token_options_t =
  lt_dummy :: u8

definition z_liveliness_token_options_default :: z_liveliness_token_options_t where
  "z_liveliness_token_options_default = \<lparr>lt_dummy = 0\<rparr>"

definition z_liveliness_token_loan :: "'p option \<Rightarrow> 'p run" where
  "z_liveliness_token_loan this = loan_option this"

definition z_liveliness_declare_token ::
  "('k \<Rightarrow> wait_error + 'p) \<Rightarrow> 'k \<Rightarrow> z_liveliness_token_options_t option \<Rightarrow> z_result_t \<times> 'p option" where
  "z_liveliness_declare_token wait key_expr options = declare_result (wait key_expr)"

definition z_liveliness_undeclare_token ::
  "('p \<Rightarrow> 'w \<Rightarrow> (wait_error + unit) \<times> 'w) \<Rightarrow> 'p option \<Rightarrow> 'w \<Rightarrow> z_result_t \<times> 'p option \<times> 'w" where
  "z_liveliness_undeclare_token undeclare this w = undeclare_entity Z_EGENERIC undeclare this w"

text \<open>Zenoh's \<open>Drop\<close> of a token undeclares it and ignores the result.\<close>

definition liveliness_token_api :: "'k \<Rightarrow> z_liveliness_token_options_t option \<Rightarrow> ('p, 'w) entity_api" where
  "liveliness_token_api k options = \<lparr>
     api_declare = (\<lambda>r _. z_liveliness_declare_token (\<lambda>_. r) k options),
     api_null = z_internal_liveliness_token_null, api_check = z_internal_liveliness_token_check,
     api_undeclare = z_liveliness_undeclare_token,
     api_drop = (\<lambda>undeclare this w. the (z_liveliness_token_drop (\<lambda>p w. ret (snd (undeclare p w))) this w))\<rparr>"

interpretation tok: entity_kind "liveliness_token_api k options"
  by unfold_locales
     (simp_all add: liveliness_token_api_def z_liveliness_declare_token_def z_internal_liveliness_token_null_def
        z_internal_liveliness_token_check_def z_liveliness_undeclare_token_def entity_laws
        z_liveliness_token_drop_def moved_drop_undeclares [where err = Z_EGENERIC])

subsection \<open>Liveliness subscribers\<close>

record z_liveliness_subscriber_options_t =
  history :: bool

definition z_liveliness_subscriber_options_default :: z_liveliness_subscriber_options_t where
  "z_liveliness_subscriber_options_default = \<lparr>history = False\<rparr>"

definition liveliness_declare_subscriber_inner ::
  "'k \<Rightarrow> closure \<Rightarrow> z_liveliness_subscriber_options_t option \<Rightarrow> 'k sub_builder \<times> closure" where
  "liveliness_declare_subscriber_inner key_expr callback options =
    (let (cb, callback) = closure_take_c_type callback in
     (LivelinessSubscriberB key_expr cb (case options of None \<Rightarrow> False | Some o' \<Rightarrow> history o'), callback))"

definition z_liveliness_declare_subscriber ::
  "('k sub_builder \<Rightarrow> wait_error + 'p) \<Rightarrow> 'k \<Rightarrow> closure \<Rightarrow> z_liveliness_subscriber_options_t option
   \<Rightarrow> (z_result_t \<times> 'p option) \<times> closure" where
  "z_liveliness_declare_subscriber wait key_expr callback options =
    (let (s, callback) = liveliness_declare_subscriber_inner key_expr callback options
     in (declare_result (wait s), callback))"

definition z_liveliness_declare_background_subscriber ::
  "('k sub_builder \<Rightarrow> wait_error + unit) \<Rightarrow> 'k \<Rightarrow> closure \<Rightarrow> z_liveliness_subscriber_options_t option
   \<Rightarrow> z_result_t \<times> closure" where
  "z_liveliness_declare_background_subscriber background_wait key_expr callback options =
    (let (s, callback) = liveliness_declare_subscriber_inner key_expr callback options
     in (generic_result (background_wait s), callback))"

definition liveliness_subscriber_api ::
  "'k \<Rightarrow> closure \<Rightarrow> z_liveliness_subscriber_options_t option \<Rightarrow> ('p, 'w) entity_api" where
  "liveliness_subscriber_api k callback options = \<lparr>
     api_declare = (\<lambda>r _. fst (z_liveliness_declare_subscriber (\<lambda>_. r) k callback options)),
     api_null = z_internal_subscriber_null, api_check = z_internal_subscriber_check,
     api_undeclare = z_undeclare_subscriber, api_drop = z_subscriber_drop\<rparr>"

interpretation lsub: entity_kind "liveliness_subscriber_api k callback options"
  by unfold_locales
     (simp_all add: liveliness_subscriber_api_def z_liveliness_declare_subscriber_def split_beta
        z_internal_subscriber_null_def z_internal_subscriber_check_def z_undeclare_subscriber_def
        z_subscriber_drop_def entity_laws)

end
