(* ===== verification/Publication.thy ===== *)
theory Publication
  imports Subscribers
begin

text \<open>
  \<open>src/put.rs\<close> and \<open>src/publisher.rs\<close>: put and delete on a session, and publishers (with the
  \<open>unstable\<close> feature on).

  A zenoh builder is the list of the settings applied to it, and what a finished builder does on
  the network (\<open>wait\<close>) is a parameter that sees exactly that list. Objects the caller moves in sit
  in a store at addresses: payloads and attachments (\<open>z_moved_bytes_t\<close>) and encodings
  (\<open>z_moved_encoding_t\<close>), so that a caller that passes the same object twice is covered. \<open>gb\<close> and
  \<open>ge\<close> are their gravestones (\<open>ZBytes\<close> and \<open>Encoding\<close> are zenoh's), and a pointer in an options
  struct is an address or \<open>None\<close>.
\<close>

subsection \<open>The caller's objects and zenoh's builders\<close>

record ('b, 'e) objects =
  bytes_at :: "nat \<Rightarrow> 'b"
  enc_at :: "nat \<Rightarrow> 'e"

definition take_bytes :: "'b \<Rightarrow> nat \<Rightarrow> ('b, 'e, 'x) objects_scheme \<Rightarrow> 'b \<times> ('b, 'e, 'x) objects_scheme" where
  "take_bytes gb a os =
    (let (x, rest) = take_rust_type gb (bytes_at os a) in (x, os\<lparr>bytes_at := (bytes_at os)(a := rest)\<rparr>))"

definition take_enc :: "'e \<Rightarrow> nat \<Rightarrow> ('b, 'e, 'x) objects_scheme \<Rightarrow> 'e \<times> ('b, 'e, 'x) objects_scheme" where
  "take_enc ge a os =
    (let (x, rest) = take_rust_type ge (enc_at os a) in (x, os\<lparr>enc_at := (enc_at os)(a := rest)\<rparr>))"

datatype ('b, 'e, 'ts, 'si) setting =
    SEncoding 'e
  | SAttachment 'b
  | STimestamp 'ts
  | SPriority Priority
  | SCongestionControl CongestionControl
  | SExpress bool
  | SAllowedDestination Locality
  | SReliability Reliability
  | SSourceInfo 'si

datatype ('k, 'b, 'e, 'ts, 'si) builder =
    PutB "'k option" 'b "('b, 'e, 'ts, 'si) setting list"
  | DeleteB "'k option" "('b, 'e, 'ts, 'si) setting list"
  | PublisherB 'k "('b, 'e, 'ts, 'si) setting list"

text \<open>\<open>Option::take\<close> on an options field, then \<open>take_rust_type\<close> on what it points to.\<close>

definition opt_setting :: "('a \<Rightarrow> 's) \<Rightarrow> 'a option \<Rightarrow> 's list" where
  "opt_setting f x = (case x of None \<Rightarrow> [] | Some v \<Rightarrow> [f v])"

definition take_opt_enc :: "'e \<Rightarrow> nat option \<Rightarrow> ('b, 'e, 'x) objects_scheme \<Rightarrow> 'e option \<times> ('b, 'e, 'x) objects_scheme" where
  "take_opt_enc ge p os = (case p of
     None \<Rightarrow> (None, os)
   | Some a \<Rightarrow> (let (x, os) = take_enc ge a os in (Some x, os)))"

definition take_opt_bytes :: "'b \<Rightarrow> nat option \<Rightarrow> ('b, 'e, 'x) objects_scheme \<Rightarrow> 'b option \<times> ('b, 'e, 'x) objects_scheme" where
  "take_opt_bytes gb p os = (case p of
     None \<Rightarrow> (None, os)
   | Some a \<Rightarrow> (let (x, os) = take_bytes gb a os in (Some x, os)))"

subsection \<open>Put and delete\<close>

record ('ts, 'si) z_put_options_t =
  put_encoding :: "nat option"
  put_congestion_control :: z_congestion_control_t
  put_priority :: z_priority_t
  put_is_express :: bool
  put_timestamp :: "'ts option"
  put_reliability :: z_reliability_t
  put_allowed_destination :: z_locality_t
  put_source_info :: "'si option"
  put_attachment :: "nat option"

text \<open>The defaults are those of zenoh's enumerations: \<open>CongestionControl::DEFAULT_PUSH\<close>,
  \<open>Priority::default()\<close>, \<open>Reliability::default()\<close> and \<open>Locality::default()\<close> are parameters.\<close>

record zenoh_defaults =
  default_push :: CongestionControl
  default_priority :: Priority
  default_reliability :: Reliability
  default_locality :: Locality

definition z_locality_default :: "zenoh_defaults \<Rightarrow> z_locality_t" where
  "z_locality_default d = z_locality_from_rust (default_locality d)"

definition zc_locality_default :: "zenoh_defaults \<Rightarrow> z_locality_t" where
  "zc_locality_default d = z_locality_from_rust (default_locality d)"

definition z_reliability_default :: "zenoh_defaults \<Rightarrow> z_reliability_t" where
  "z_reliability_default d = z_reliability_from_rust (default_reliability d)"

definition z_priority_default :: "zenoh_defaults \<Rightarrow> z_priority_t" where
  "z_priority_default d = z_priority_from_rust (default_priority d)"

definition z_put_options_default :: "zenoh_defaults \<Rightarrow> ('ts, 'si) z_put_options_t" where
  "z_put_options_default d = \<lparr>put_encoding = None,
     put_congestion_control = z_congestion_control_from_rust (default_push d),
     put_priority = z_priority_from_rust (default_priority d), put_is_express = False,
     put_timestamp = None, put_reliability = z_reliability_default d,
     put_allowed_destination = z_locality_default d, put_source_info = None, put_attachment = None\<rparr>"

definition put_result :: "wait_error + 'a \<Rightarrow> z_result_t" where
  "put_result r = (case r of
     Inr _ \<Rightarrow> Z_OK | Inl SessionClosedError \<Rightarrow> Z_ESESSION_CLOSED | Inl OtherError \<Rightarrow> Z_EGENERIC)"

text \<open>\<open>z_put\<close>: the result, the objects afterwards, the options struct afterwards and the builder that
  was run.\<close>

definition z_put ::
  "'b \<Rightarrow> 'e \<Rightarrow> (('k, 'b, 'e, 'ts, 'si) builder \<Rightarrow> wait_error + unit) \<Rightarrow> 'k \<Rightarrow> nat
   \<Rightarrow> ('ts, 'si) z_put_options_t option \<Rightarrow> ('b, 'e) objects
   \<Rightarrow> z_result_t \<times> ('b, 'e) objects \<times> ('ts, 'si) z_put_options_t option \<times> ('k, 'b, 'e, 'ts, 'si) builder" where
  "z_put gb ge wait key_expr payload options os =
    (let (pl, os) = take_bytes gb payload os in
     case options of
       None \<Rightarrow>
         let b = PutB (Some key_expr) pl [] in (put_result (wait b), os, None, b)
     | Some opts \<Rightarrow>
         let (enc, os) = take_opt_enc ge (put_encoding opts) os;
             (att, os) = take_opt_bytes gb (put_attachment opts) os;
             b = PutB (Some key_expr) pl
                   (opt_setting SEncoding enc @ opt_setting SAttachment att
                    @ opt_setting STimestamp (put_timestamp opts)
                    @ [SPriority (z_priority_to_rust (put_priority opts)),
                       SCongestionControl (z_congestion_control_to_rust (put_congestion_control opts)),
                       SExpress (put_is_express opts),
                       SAllowedDestination (z_locality_to_rust (put_allowed_destination opts)),
                       SReliability (z_reliability_to_rust (put_reliability opts))]
                    @ opt_setting SSourceInfo (put_source_info opts))
         in (put_result (wait b), os, Some (opts\<lparr>put_encoding := None, put_attachment := None\<rparr>), b))"

record 'ts z_delete_options_t =
  del_congestion_control :: z_congestion_control_t
  del_priority :: z_priority_t
  del_is_express :: bool
  del_timestamp :: "'ts option"
  del_reliability :: z_reliability_t
  del_allowed_destination :: z_locality_t

definition z_delete_options_default :: "zenoh_defaults \<Rightarrow> 'ts z_delete_options_t" where
  "z_delete_options_default d = \<lparr>
     del_congestion_control = z_congestion_control_from_rust (default_push d),
     del_priority = z_priority_from_rust (default_priority d), del_is_express = False,
     del_timestamp = None, del_reliability = z_reliability_default d,
     del_allowed_destination = z_locality_default d\<rparr>"

definition z_delete ::
  "(('k, 'b, 'e, 'ts, 'si) builder \<Rightarrow> wait_error + unit) \<Rightarrow> 'k \<Rightarrow> 'ts z_delete_options_t option
   \<Rightarrow> z_result_t \<times> ('k, 'b, 'e, 'ts, 'si) builder" where
  "z_delete wait key_expr options =
    (let b = DeleteB (Some key_expr) (case options of
               None \<Rightarrow> []
             | Some opts \<Rightarrow>
                 opt_setting STimestamp (del_timestamp opts)
                 @ [SCongestionControl (z_congestion_control_to_rust (del_congestion_control opts)),
                    SPriority (z_priority_to_rust (del_priority opts)),
                    SExpress (del_is_express opts),
                    SAllowedDestination (z_locality_to_rust (del_allowed_destination opts)),
                    SReliability (z_reliability_to_rust (del_reliability opts))])
     in (generic_result (wait b), b))"

subsection \<open>Publishers\<close>

record z_publisher_options_t =
  pub_encoding :: "nat option"
  pub_congestion_control :: z_congestion_control_t
  pub_priority :: z_priority_t
  pub_is_express :: bool
  pub_reliability :: z_reliability_t
  pub_allowed_destination :: z_locality_t

definition z_publisher_options_default :: "zenoh_defaults \<Rightarrow> z_publisher_options_t" where
  "z_publisher_options_default d = \<lparr>pub_encoding = None,
     pub_congestion_control = z_congestion_control_from_rust (default_push d),
     pub_priority = z_priority_from_rust (default_priority d), pub_is_express = False,
     pub_reliability = z_reliability_default d, pub_allowed_destination = z_locality_default d\<rparr>"

definition declare_publisher_inner ::
  "'e \<Rightarrow> 'k \<Rightarrow> z_publisher_options_t option \<Rightarrow> ('b, 'e) objects
   \<Rightarrow> ('k, 'b, 'e, 'ts, 'si) builder \<times> z_publisher_options_t option \<times> ('b, 'e) objects" where
  "declare_publisher_inner ge key_expr options os = (case options of
     None \<Rightarrow> (PublisherB key_expr [], None, os)
   | Some opts \<Rightarrow>
       let (enc, os) = take_opt_enc ge (pub_encoding opts) os
       in (PublisherB key_expr
             ([SCongestionControl (z_congestion_control_to_rust (pub_congestion_control opts)),
               SPriority (z_priority_to_rust (pub_priority opts)),
               SExpress (pub_is_express opts),
               SAllowedDestination (z_locality_to_rust (pub_allowed_destination opts)),
               SReliability (z_reliability_to_rust (pub_reliability opts))]
              @ opt_setting SEncoding enc),
           Some (opts\<lparr>pub_encoding := None\<rparr>), os))"

definition z_declare_publisher ::
  "'e \<Rightarrow> (('k, 'b, 'e, 'ts, 'si) builder \<Rightarrow> wait_error + 'p) \<Rightarrow> 'k \<Rightarrow> z_publisher_options_t option
   \<Rightarrow> ('b, 'e) objects \<Rightarrow> (z_result_t \<times> 'p option) \<times> z_publisher_options_t option \<times> ('b, 'e) objects" where
  "z_declare_publisher ge wait key_expr options os =
    (let (p, options, os) = declare_publisher_inner ge key_expr options os
     in (declare_result (wait p), options, os))"

definition z_internal_publisher_null :: "'p option" where
  "z_internal_publisher_null = None"

definition z_internal_publisher_check :: "'p option \<Rightarrow> bool" where
  "z_internal_publisher_check this \<longleftrightarrow> this \<noteq> None"

definition z_publisher_loan :: "'p option \<Rightarrow> 'p run" where
  "z_publisher_loan this = loan_option this"

definition z_publisher_loan_mut :: "'p option \<Rightarrow> 'p run" where
  "z_publisher_loan_mut this = loan_option this"

record ('ts, 'si) z_publisher_put_options_t =
  pp_encoding :: "nat option"
  pp_timestamp :: "'ts option"
  pp_source_info :: "'si option"
  pp_attachment :: "nat option"

definition z_publisher_put_options_default :: "('ts, 'si) z_publisher_put_options_t" where
  "z_publisher_put_options_default =
     \<lparr>pp_encoding = None, pp_timestamp = None, pp_source_info = None, pp_attachment = None\<rparr>"

definition apply_publisher_put_options ::
  "'b \<Rightarrow> 'e \<Rightarrow> ('ts, 'si) z_publisher_put_options_t \<Rightarrow> ('b, 'e) objects
   \<Rightarrow> ('b, 'e, 'ts, 'si) setting list \<times> ('ts, 'si) z_publisher_put_options_t \<times> ('b, 'e) objects" where
  "apply_publisher_put_options gb ge opts os =
    (let (enc, os) = take_opt_enc ge (pp_encoding opts) os;
         (att, os) = take_opt_bytes gb (pp_attachment opts) os
     in (opt_setting SEncoding enc @ opt_setting SSourceInfo (pp_source_info opts)
           @ opt_setting SAttachment att @ opt_setting STimestamp (pp_timestamp opts),
         opts\<lparr>pp_encoding := None, pp_attachment := None\<rparr>, os))"

definition z_publisher_put ::
  "'b \<Rightarrow> 'e \<Rightarrow> (('k, 'b, 'e, 'ts, 'si) builder \<Rightarrow> wait_error + unit) \<Rightarrow> nat
   \<Rightarrow> ('ts, 'si) z_publisher_put_options_t option \<Rightarrow> ('b, 'e) objects
   \<Rightarrow> z_result_t \<times> ('b, 'e) objects \<times> ('ts, 'si) z_publisher_put_options_t option \<times> ('k, 'b, 'e, 'ts, 'si) builder" where
  "z_publisher_put gb ge wait payload options os =
    (let (pl, os) = take_bytes gb payload os in
     case options of
       None \<Rightarrow> let b = PutB None pl [] in (put_result (wait b), os, None, b)
     | Some opts \<Rightarrow>
         let (ss, opts, os) = apply_publisher_put_options gb ge opts os;
             b = PutB None pl ss
         in (put_result (wait b), os, Some opts, b))"

record 'ts z_publisher_delete_options_t =
  pd_timestamp :: "'ts option"

definition z_publisher_delete_options_default :: "'ts z_publisher_delete_options_t" where
  "z_publisher_delete_options_default = \<lparr>pd_timestamp = None\<rparr>"

definition apply_publisher_delete_options ::
  "'ts z_publisher_delete_options_t \<Rightarrow> ('b, 'e, 'ts, 'si) setting list" where
  "apply_publisher_delete_options opts = opt_setting STimestamp (pd_timestamp opts)"

definition z_publisher_delete ::
  "(('k, 'b, 'e, 'ts, 'si) builder \<Rightarrow> wait_error + unit) \<Rightarrow> 'ts z_publisher_delete_options_t option
   \<Rightarrow> z_result_t \<times> ('k, 'b, 'e, 'ts, 'si) builder" where
  "z_publisher_delete wait options =
    (let b = DeleteB None (case options of None \<Rightarrow> [] | Some opts \<Rightarrow> apply_publisher_delete_options opts)
     in (generic_result (wait b), b))"

definition z_undeclare_publisher ::
  "('p \<Rightarrow> 'w \<Rightarrow> (wait_error + unit) \<times> 'w) \<Rightarrow> 'p option \<Rightarrow> 'w \<Rightarrow> z_result_t \<times> 'p option \<times> 'w" where
  "z_undeclare_publisher undeclare this w = undeclare_entity Z_ENETWORK undeclare this w"

definition z_publisher_drop ::
  "('p \<Rightarrow> 'w \<Rightarrow> (wait_error + unit) \<times> 'w) \<Rightarrow> 'p option \<Rightarrow> 'w \<Rightarrow> 'p option \<times> 'w" where
  "z_publisher_drop undeclare this w = snd (z_undeclare_publisher undeclare this w)"

text \<open>The functions of publishers as a kind of entity, for declarations of the key expression \<open>k\<close>
  with the given options.\<close>

definition publisher_api ::
  "'e \<Rightarrow> 'k \<Rightarrow> z_publisher_options_t option \<Rightarrow> ('b, 'e) objects \<Rightarrow> ('p, 'w) entity_api" where
  "publisher_api ge k options os = \<lparr>
     api_declare = (\<lambda>r _. fst (z_declare_publisher ge (\<lambda>_ :: ('k, 'b, 'e, unit, unit) builder. r) k options os)),
     api_null = z_internal_publisher_null, api_check = z_internal_publisher_check,
     api_undeclare = z_undeclare_publisher, api_drop = z_publisher_drop\<rparr>"

definition z_publisher_get_matching_status :: "wait_error + bool \<Rightarrow> z_result_t \<times> bool option" where
  "z_publisher_get_matching_status r = (case r of Inr s \<Rightarrow> (Z_OK, Some s) | Inl _ \<Rightarrow> (Z_ENETWORK, None))"

text \<open>A matching listener takes the callback out of the caller's slot; \<open>wait\<close> sees the closure.\<close>

definition publisher_matching_callback :: "closure \<Rightarrow> bool \<Rightarrow> bool event list \<Rightarrow> bool event list" where
  "publisher_matching_callback callback status tr =
    z_closure_matching_status_call (z_closure_matching_status_loan callback) status tr"

definition publisher_matching_listener_declare_inner :: "closure \<Rightarrow> closure \<times> closure" where
  "publisher_matching_listener_declare_inner callback = closure_take_c_type callback"

definition z_publisher_declare_matching_listener ::
  "(closure \<Rightarrow> wait_error + 'l) \<Rightarrow> closure \<Rightarrow> (z_result_t \<times> 'l option) \<times> closure" where
  "z_publisher_declare_matching_listener wait callback =
    (let (listener, callback) = publisher_matching_listener_declare_inner callback in
     (case wait listener of Inr listener \<Rightarrow> (Z_OK, Some listener) | Inl _ \<Rightarrow> (Z_EGENERIC, None), callback))"

definition z_publisher_declare_background_matching_listener ::
  "(closure \<Rightarrow> wait_error + unit) \<Rightarrow> closure \<Rightarrow> z_result_t \<times> closure" where
  "z_publisher_declare_background_matching_listener wait callback =
    (let (listener, callback) = publisher_matching_listener_declare_inner callback in (generic_result (wait listener), callback))"

subsection \<open>Lemmas\<close>

lemmas take_defs = take_bytes_def take_enc_def take_opt_bytes_def take_opt_enc_def take_rust_type_def
  take_c_type_def mem_replace_def

lemma put_result_ok: "put_result r = Z_OK \<longleftrightarrow> (\<exists>x. r = Inr x)"
  by (auto simp: put_result_def split: sum.splits wait_error.splits)

interpretation pub: entity_kind "publisher_api ge k options os"
  by unfold_locales
     (simp_all add: publisher_api_def z_declare_publisher_def split_beta z_internal_publisher_null_def
        z_internal_publisher_check_def z_undeclare_publisher_def z_publisher_drop_def entity_laws)

interpretation pubml: entity_kind "matching_listener_api z_publisher_declare_matching_listener callback"
  by (rule matching_listener_kind) (simp_all add: z_publisher_declare_matching_listener_def split_beta)

text \<open>The builder \<open>z_put\<close> runs, and what it leaves in the payload's slot.\<close>

lemma z_put_builder:
  assumes "z_put gb ge wait key_expr payload (Some opts) os = (r, os', opts', b)"
    and "put_attachment opts \<noteq> Some payload"
  shows "\<exists>ss. b = PutB (Some key_expr) (bytes_at os payload) ss \<and> distinct ss
    \<and> set ss = {SPriority (z_priority_to_rust (put_priority opts)),
        SCongestionControl (z_congestion_control_to_rust (put_congestion_control opts)),
        SExpress (put_is_express opts),
        SAllowedDestination (z_locality_to_rust (put_allowed_destination opts)),
        SReliability (z_reliability_to_rust (put_reliability opts))}
      \<union> (SEncoding \<circ> enc_at os) ` set_option (put_encoding opts)
      \<union> (SAttachment \<circ> bytes_at os) ` set_option (put_attachment opts)
      \<union> STimestamp ` set_option (put_timestamp opts)
      \<union> SSourceInfo ` set_option (put_source_info opts)
    \<and> (r = Z_OK \<longleftrightarrow> (\<exists>x. wait b = Inr x))"
proof -
  have s: "opt_setting f x = [] \<or> (\<exists>v. x = Some v \<and> opt_setting f x = [f v])"
    "set (opt_setting f x) = f ` set_option x" for f :: "'x \<Rightarrow> 'y" and x
    by (auto simp: opt_setting_def split: option.splits)
  have d: "distinct (opt_setting f x)" for f :: "'x \<Rightarrow> 'y" and x
    by (simp add: opt_setting_def split: option.splits)
  show ?thesis
    using assms
    by (cases "put_encoding opts"; cases "put_attachment opts")
       (auto simp: z_put_def take_defs Let_def s(2) d put_result_ok)
qed

lemma z_put_takes_payload:
  "z_put gb ge wait key_expr payload (Some opts) os = (r, os', opts', b) \<Longrightarrow> bytes_at os' payload = gb"
  by (auto simp: z_put_def take_defs Let_def split: option.splits)

subsection \<open>Properties\<close>

text \<open>C28: put consumes what it is given, on every path. After \<open>z_put\<close>, whether the network call
  succeeded or not, the payload's slot holds the gravestone, and so does every encoding and
  attachment the options pointed to; the options no longer point to them; and every other object of
  the caller is untouched.\<close>

theorem z_put_consumes:
  assumes "z_put gb ge wait key_expr payload (Some opts) os = (r, os', opts', b)"
  shows "bytes_at os' payload = gb
    \<and> (\<forall>a. put_encoding opts = Some a \<longrightarrow> enc_at os' a = ge)
    \<and> (\<forall>a. put_attachment opts = Some a \<longrightarrow> bytes_at os' a = gb)
    \<and> opts' = Some (opts\<lparr>put_encoding := None, put_attachment := None\<rparr>)
    \<and> (\<forall>a. a \<noteq> payload \<and> put_attachment opts \<noteq> Some a \<longrightarrow> bytes_at os' a = bytes_at os a)
    \<and> (\<forall>a. put_encoding opts \<noteq> Some a \<longrightarrow> enc_at os' a = enc_at os a)"
  using assms by (auto simp: z_put_def take_defs Let_def split: option.splits)

definition demo_opts :: "(nat, nat) z_put_options_t" where
  "demo_opts = \<lparr>put_encoding = Some 3, put_congestion_control = CC_DROP, put_priority = PRI_DATA,
     put_is_express = True, put_timestamp = Some 99, put_reliability = REL_RELIABLE,
     put_allowed_destination = LOC_REMOTE, put_source_info = None, put_attachment = Some 2\<rparr>"

theorem z_put_consumes_witness:
  "\<exists>r os' opts' b. z_put 0 ''none'' (\<lambda>_ :: (string, nat, string, nat, nat) builder. Inl OtherError) ''key'' 1
      (Some demo_opts) \<lparr>bytes_at = (\<lambda>a. 10 + a), enc_at = (\<lambda>_. ''enc'')\<rparr> = (r, os', opts', b)
    \<and> bytes_at os' 1 = 0 \<and> bytes_at os' 2 = 0 \<and> enc_at os' 3 = ''none''"
proof -
  obtain r os' opts' b where e: "z_put 0 ''none'' (\<lambda>_ :: (string, nat, string, nat, nat) builder. Inl OtherError)
      ''key'' 1 (Some demo_opts) \<lparr>bytes_at = (\<lambda>a. 10 + a), enc_at = (\<lambda>_. ''enc'')\<rparr> = (r, os', opts', b)"
    by (metis prod.collapse)
  show ?thesis using z_put_consumes [OF e] e by (auto simp: demo_opts_def)
qed

text \<open>C27: put sends what it was asked to send. The builder that \<open>z_put\<close> runs carries the payload and
  the attachment and encoding taken from the caller, and each of the caller's settings exactly once,
  converted to zenoh's enumerations; and the code is \<open>Z_OK\<close> exactly when that builder succeeded. Only
  an attachment that is the payload object itself is sent empty.\<close>

theorem z_put_sends:
  assumes "z_put gb ge wait key_expr payload (Some opts) os = (r, os', opts', b)"
    and "put_attachment opts \<noteq> Some payload"
  shows "\<exists>ss. b = PutB (Some key_expr) (bytes_at os payload) ss \<and> distinct ss
    \<and> set ss = {SPriority (z_priority_to_rust (put_priority opts)),
        SCongestionControl (z_congestion_control_to_rust (put_congestion_control opts)),
        SExpress (put_is_express opts),
        SAllowedDestination (z_locality_to_rust (put_allowed_destination opts)),
        SReliability (z_reliability_to_rust (put_reliability opts))}
      \<union> (SEncoding \<circ> enc_at os) ` set_option (put_encoding opts)
      \<union> (SAttachment \<circ> bytes_at os) ` set_option (put_attachment opts)
      \<union> STimestamp ` set_option (put_timestamp opts)
      \<union> SSourceInfo ` set_option (put_source_info opts)
    \<and> (r = Z_OK \<longleftrightarrow> (\<exists>x. wait b = Inr x))"
  using assms by (rule z_put_builder)

theorem z_put_sends_witness:
  "\<exists>r os' opts' ss. z_put 0 ''none'' (\<lambda>_ :: (string, nat, string, nat, nat) builder. Inr ()) ''key'' 1
      (Some demo_opts) \<lparr>bytes_at = (\<lambda>a. 10 + a), enc_at = (\<lambda>_. ''enc'')\<rparr>
        = (r, os', opts', PutB (Some ''key'') 11 ss)
    \<and> r = Z_OK \<and> SAttachment 12 \<in> set ss \<and> SEncoding ''enc'' \<in> set ss \<and> STimestamp 99 \<in> set ss"
proof -
  obtain r os' opts' b where e: "z_put 0 ''none'' (\<lambda>_ :: (string, nat, string, nat, nat) builder. Inr ())
      ''key'' 1 (Some demo_opts) \<lparr>bytes_at = (\<lambda>a. 10 + a), enc_at = (\<lambda>_. ''enc'')\<rparr> = (r, os', opts', b)"
    by (metis prod.collapse)
  have n: "put_attachment demo_opts \<noteq> Some 1" by (simp add: demo_opts_def)
  show ?thesis using z_put_sends [OF e n] e by (fastforce simp: demo_opts_def)
qed

end
