(* ===== verification/Queries.thy ===== *)
theory Queries
  imports Slices Publication
begin

text \<open>
  \<open>src/get.rs\<close>, \<open>src/querier.rs\<close> and \<open>z_liveliness_get\<close> of \<open>src/liveliness.rs\<close>: replies, queries on a
  session and queriers (with the \<open>unstable\<close> feature on).

  As in theory \<open>Publication\<close> a builder is the list of settings applied to it and what it does on the
  network is a parameter; the caller's objects are in a store, extended by its cancellation tokens.
  The reply closure is captured by the builder, or dropped with the function's frame when a call
  fails before it builds one; its drop is an event of the trace.
\<close>

subsection \<open>Replies\<close>

record ('e, 'b, 'n) reply_err_ops =
  re_empty :: 'e
  re_payload :: "'e \<Rightarrow> 'b"
  re_encoding :: "'e \<Rightarrow> 'n"
  re_clone :: "'e \<Rightarrow> 'e"
  re_payload_empty :: "'e \<Rightarrow> bool"

definition ReplyError_gravestone :: "('e, 'b, 'n) reply_err_ops \<Rightarrow> 'e" where
  "ReplyError_gravestone E = re_empty E"

definition ReplyError_is_gravestone :: "('e, 'b, 'n) reply_err_ops \<Rightarrow> 'e \<Rightarrow> bool" where
  "ReplyError_is_gravestone E this \<longleftrightarrow> re_payload_empty E this"

definition z_internal_reply_err_null :: "('e, 'b, 'n) reply_err_ops \<Rightarrow> 'e" where
  "z_internal_reply_err_null E = ReplyError_gravestone E"

definition z_internal_reply_err_check :: "('e, 'b, 'n) reply_err_ops \<Rightarrow> 'e \<Rightarrow> bool" where
  "z_internal_reply_err_check E this \<longleftrightarrow> \<not> ReplyError_is_gravestone E this"

definition z_reply_err_payload :: "('e, 'b, 'n) reply_err_ops \<Rightarrow> 'e \<Rightarrow> 'b" where
  "z_reply_err_payload E this = re_payload E this"

definition z_reply_err_payload_mut :: "('e, 'b, 'n) reply_err_ops \<Rightarrow> 'e \<Rightarrow> 'b" where
  "z_reply_err_payload_mut E this = re_payload E this"

definition z_reply_err_encoding :: "('e, 'b, 'n) reply_err_ops \<Rightarrow> 'e \<Rightarrow> 'n" where
  "z_reply_err_encoding E this = re_encoding E this"

definition z_reply_err_loan :: "'e \<Rightarrow> 'e" where
  "z_reply_err_loan this = this"

definition z_reply_err_loan_mut :: "'e \<Rightarrow> 'e" where
  "z_reply_err_loan_mut this = this"

definition z_reply_err_drop ::
  "('e, 'b, 'n) reply_err_ops \<Rightarrow> ('e \<Rightarrow> 'w \<Rightarrow> 'w run) \<Rightarrow> 'e \<Rightarrow> 'w \<Rightarrow> ('e \<times> 'w) run" where
  "z_reply_err_drop E drp this w = moved_drop (ReplyError_gravestone E) drp this w"

definition z_reply_err_clone :: "('e, 'b, 'n) reply_err_ops \<Rightarrow> 'e \<Rightarrow> 'e" where
  "z_reply_err_clone E this = re_clone E this"

text \<open>A reply is an error (left) or a sample; \<open>rp_result\<close> reads it, and null is \<open>None\<close>.\<close>

record ('r, 's, 'e, 'g) reply_ops =
  rp_result :: "'r \<Rightarrow> 'e + 's"
  rp_replier_id :: "'r \<Rightarrow> 'g option"
  rp_clone :: "'r \<Rightarrow> 'r"
  rp_empty :: 'r

definition z_reply_is_ok :: "('r, 's, 'e, 'g) reply_ops \<Rightarrow> 'r \<Rightarrow> bool" where
  "z_reply_is_ok R this = (case rp_result R this of Inr _ \<Rightarrow> True | Inl _ \<Rightarrow> False)"

definition z_reply_ok :: "('r, 's, 'e, 'g) reply_ops \<Rightarrow> 'r \<Rightarrow> 's option" where
  "z_reply_ok R this = (case rp_result R this of Inr sample \<Rightarrow> Some sample | Inl _ \<Rightarrow> None)"

definition z_reply_ok_mut :: "('r, 's, 'e, 'g) reply_ops \<Rightarrow> 'r \<Rightarrow> 's option" where
  "z_reply_ok_mut R this = (case rp_result R this of Inr sample \<Rightarrow> Some sample | Inl _ \<Rightarrow> None)"

definition z_reply_err :: "('r, 's, 'e, 'g) reply_ops \<Rightarrow> 'r \<Rightarrow> 'e option" where
  "z_reply_err R this = (case rp_result R this of Inr _ \<Rightarrow> None | Inl v \<Rightarrow> Some v)"

definition z_reply_err_mut :: "('r, 's, 'e, 'g) reply_ops \<Rightarrow> 'r \<Rightarrow> 'e option" where
  "z_reply_err_mut R this = (case rp_result R this of Inr _ \<Rightarrow> None | Inl v \<Rightarrow> Some v)"

definition z_reply_replier_id :: "('r, 's, 'e, 'g) reply_ops \<Rightarrow> 'r \<Rightarrow> bool \<times> 'g option" where
  "z_reply_replier_id R this = (case rp_replier_id R this of Some v \<Rightarrow> (True, Some v) | None \<Rightarrow> (False, None))"

definition z_internal_reply_null :: "'r option" where
  "z_internal_reply_null = None"

definition z_reply_clone :: "('r, 's, 'e, 'g) reply_ops \<Rightarrow> 'r \<Rightarrow> 'r option" where
  "z_reply_clone R this = Some (rp_clone R this)"

definition z_reply_drop :: "('r \<Rightarrow> 'w \<Rightarrow> 'w run) \<Rightarrow> 'r option \<Rightarrow> 'w \<Rightarrow> ('r option \<times> 'w) run" where
  "z_reply_drop drp this w = moved_drop gravestone_option (drop_option drp) this w"

definition z_internal_reply_check :: "'r option \<Rightarrow> bool" where
  "z_internal_reply_check this \<longleftrightarrow> this \<noteq> None"

definition z_reply_loan :: "'r option \<Rightarrow> 'r run" where
  "z_reply_loan this = loan_option this"

definition z_reply_loan_mut :: "'r option \<Rightarrow> 'r run" where
  "z_reply_loan_mut this = loan_option this"

definition z_reply_take_from_loaned :: "('r, 's, 'e, 'g) reply_ops \<Rightarrow> 'r \<Rightarrow> 'r option \<times> 'r" where
  "z_reply_take_from_loaned R src = (let (old, src) = mem_replace src (rp_empty R) in (Some old, src))"

subsection \<open>Consolidation\<close>

text \<open>\<open>QueryConsolidation\<close> is zenoh's: a wrapper of a mode.\<close>

record 'qc consolidation_ops =
  qc_mode :: "'qc \<Rightarrow> ConsolidationMode"
  qc_of_mode :: "ConsolidationMode \<Rightarrow> 'qc"
  qc_default :: 'qc
  qc_auto :: 'qc

record z_query_consolidation_t =
  mode :: z_consolidation_mode_t

definition z_query_consolidation_from_rust :: "'qc consolidation_ops \<Rightarrow> 'qc \<Rightarrow> z_query_consolidation_t" where
  "z_query_consolidation_from_rust Q qc = \<lparr>mode = z_consolidation_mode_from_rust (qc_mode Q qc)\<rparr>"

definition z_query_consolidation_to_rust :: "'qc consolidation_ops \<Rightarrow> z_query_consolidation_t \<Rightarrow> 'qc" where
  "z_query_consolidation_to_rust Q v = qc_of_mode Q (z_consolidation_mode_to_rust (mode v))"

definition z_query_consolidation_default :: "'qc consolidation_ops \<Rightarrow> z_query_consolidation_t" where
  "z_query_consolidation_default Q = z_query_consolidation_from_rust Q (qc_default Q)"

definition z_query_consolidation_auto :: "'qc consolidation_ops \<Rightarrow> z_query_consolidation_t" where
  "z_query_consolidation_auto Q = z_query_consolidation_from_rust Q (qc_auto Q)"

definition z_query_consolidation_latest :: "'qc consolidation_ops \<Rightarrow> z_query_consolidation_t" where
  "z_query_consolidation_latest Q = z_query_consolidation_from_rust Q (qc_of_mode Q ConsolidationMode_Latest)"

definition z_query_consolidation_monotonic :: "'qc consolidation_ops \<Rightarrow> z_query_consolidation_t" where
  "z_query_consolidation_monotonic Q = z_query_consolidation_from_rust Q (qc_of_mode Q ConsolidationMode_Monotonic)"

definition z_query_consolidation_none :: "'qc consolidation_ops \<Rightarrow> z_query_consolidation_t" where
  "z_query_consolidation_none Q = z_query_consolidation_from_rust Q (qc_of_mode Q ConsolidationMode_None)"

subsection \<open>Builders and the caller's objects\<close>

record ('b, 'e, 't) query_objects = "('b, 'e) objects" +
  token_at :: "nat \<Rightarrow> 't option"

text \<open>\<open>ct.take_rust_type()\<close>, and \<open>options.cancellation_token.take().and_then(...)\<close>.\<close>

definition take_token :: "nat \<Rightarrow> ('b, 'e, 't) query_objects \<Rightarrow> 't option \<times> ('b, 'e, 't) query_objects" where
  "take_token a os = (let (x, rest) = take_rust_type gravestone_option (token_at os a)
     in (x, os\<lparr>token_at := (token_at os)(a := rest)\<rparr>))"

definition take_opt_token ::
  "nat option \<Rightarrow> ('b, 'e, 't) query_objects \<Rightarrow> 't option \<times> ('b, 'e, 't) query_objects" where
  "take_opt_token p os = (case p of None \<Rightarrow> (None, os) | Some a \<Rightarrow> take_token a os)"

datatype ('b, 'e, 'si, 't, 'qc) qsetting =
    QPayload 'b
  | QEncoding 'e
  | QSourceInfo 'si
  | QAttachment 'b
  | QConsolidation 'qc
  | QTarget QueryTarget
  | QCongestionControl CongestionControl
  | QPriority Priority
  | QExpress bool
  | QAllowedDestination Locality
  | QAcceptReplies ReplyKeyExpr
  | QTimeout u64
  | QCancellationToken 't
  | QParameters "u8 list"

text \<open>A get on a session has a selector (key expression and parameters) and one on a querier the
  querier; both have the closure the reply callback captured.\<close>

datatype ('k, 'q, 'b, 'e, 'si, 't, 'qc) qbuilder =
    GetB 'k "u8 list" closure "('b, 'e, 'si, 't, 'qc) qsetting list"
  | QuerierB 'k "('b, 'e, 'si, 't, 'qc) qsetting list"
  | QuerierGetB 'q closure "('b, 'e, 'si, 't, 'qc) qsetting list"
  | LivelinessGetB 'k closure "('b, 'e, 'si, 't, 'qc) qsetting list"

text \<open>The Rust callback around the C closure it captured.\<close>

definition reply_callback :: "closure \<Rightarrow> 'r \<Rightarrow> 'r event list \<Rightarrow> 'r event list" where
  "reply_callback callback response tr = z_closure_reply_call (z_closure_reply_loan callback) response tr"

text \<open>\<open>if options.timeout_ms != 0\<close>.\<close>

definition timeout_setting :: "u64 \<Rightarrow> ('b, 'e, 'si, 't, 'qc) qsetting list" where
  "timeout_setting ms = (if ms \<noteq> 0 then [QTimeout ms] else [])"

subsection \<open>Get on a session\<close>

record 'si z_get_options_t =
  get_target :: z_query_target_t
  get_consolidation :: z_query_consolidation_t
  get_payload :: "nat option"
  get_encoding :: "nat option"
  get_congestion_control :: z_congestion_control_t
  get_is_express :: bool
  get_allowed_destination :: z_locality_t
  get_accept_replies :: z_reply_keyexpr_t
  get_priority :: z_priority_t
  get_source_info :: "'si option"
  get_attachment :: "nat option"
  get_timeout_ms :: u64
  get_cancellation_token :: "nat option"

text \<open>What a struct of options looks like once its owned fields were taken.\<close>

definition get_options_taken :: "'si z_get_options_t \<Rightarrow> 'si z_get_options_t" where
  "get_options_taken opts = opts\<lparr>get_payload := None, get_encoding := None, get_attachment := None,
     get_cancellation_token := None\<rparr>"

text \<open>\<open>clear\<close>: the values taken are dropped on the spot.\<close>

definition z_get_options_clear ::
  "'b \<Rightarrow> 'e \<Rightarrow> 'si z_get_options_t \<Rightarrow> ('b, 'e, 't) query_objects
   \<Rightarrow> 'si z_get_options_t \<times> ('b, 'e, 't) query_objects" where
  "z_get_options_clear gb ge opts os =
    (let (_, os) = take_opt_bytes gb (get_payload opts) os;
         (_, os) = take_opt_enc ge (get_encoding opts) os;
         (_, os) = take_opt_bytes gb (get_attachment opts) os;
         (_, os) = take_opt_token (get_cancellation_token opts) os
     in (get_options_taken opts, os))"

record 'qc query_defaults = zenoh_defaults +
  default_target :: QueryTarget
  default_request :: CongestionControl
  default_accept :: ReplyKeyExpr
  consolidation_of :: "'qc consolidation_ops"

definition z_reply_keyexpr_default :: "'qc query_defaults \<Rightarrow> z_reply_keyexpr_t" where
  "z_reply_keyexpr_default d = z_reply_keyexpr_from_rust (default_accept d)"

definition z_query_target_default :: "'qc query_defaults \<Rightarrow> z_query_target_t" where
  "z_query_target_default d = z_query_target_from_rust (default_target d)"

definition z_get_options_default :: "'qc query_defaults \<Rightarrow> 'si z_get_options_t" where
  "z_get_options_default d = \<lparr>get_target = z_query_target_from_rust (default_target d),
     get_consolidation = z_query_consolidation_from_rust (consolidation_of d) (qc_default (consolidation_of d)),
     get_payload = None, get_encoding = None,
     get_congestion_control = z_congestion_control_from_rust (default_request d), get_is_express = False,
     get_allowed_destination = z_locality_from_rust (default_locality d),
     get_accept_replies = z_reply_keyexpr_default d,
     get_priority = z_priority_from_rust (default_priority d), get_source_info = None, get_attachment = None,
     get_timeout_ms = 0, get_cancellation_token = None\<rparr>"

text \<open>The part of \<open>z_get_with_parameters_substr\<close> that applies the options to the builder.\<close>

definition apply_get_options ::
  "'b \<Rightarrow> 'e \<Rightarrow> 'qc consolidation_ops \<Rightarrow> 'si z_get_options_t \<Rightarrow> ('b, 'e, 't) query_objects
   \<Rightarrow> ('b, 'e, 'si, 't, 'qc) qsetting list \<times> 'si z_get_options_t \<times> ('b, 'e, 't) query_objects" where
  "apply_get_options gb ge Q opts os =
    (let (pl, os) = take_opt_bytes gb (get_payload opts) os;
         (enc, os) = take_opt_enc ge (get_encoding opts) os;
         (att, os) = take_opt_bytes gb (get_attachment opts) os;
         (ct, os) = take_opt_token (get_cancellation_token opts) os
     in (opt_setting QPayload pl @ opt_setting QEncoding enc
           @ opt_setting QSourceInfo (get_source_info opts) @ opt_setting QAttachment att
           @ [QConsolidation (z_query_consolidation_to_rust Q (get_consolidation opts)),
              QTarget (z_query_target_to_rust (get_target opts)),
              QCongestionControl (z_congestion_control_to_rust (get_congestion_control opts)),
              QPriority (z_priority_to_rust (get_priority opts)),
              QExpress (get_is_express opts),
              QAllowedDestination (z_locality_to_rust (get_allowed_destination opts)),
              QAcceptReplies (z_reply_keyexpr_to_rust (get_accept_replies opts))]
           @ timeout_setting (get_timeout_ms opts) @ opt_setting QCancellationToken ct,
         get_options_taken opts, os))"

text \<open>What a query leaves behind: its code, the builder that was run if any, the options, the
  caller's objects, the closure's slot and the trace.\<close>

record ('bl, 'o, 'os, 'r) get_outcome =
  code :: z_result_t
  ran :: "'bl option"
  opts_after :: "'o option"
  objs_after :: 'os
  slot_after :: closure
  trace_after :: "'r event list"

definition map_opts :: "('o \<Rightarrow> 'os \<Rightarrow> 'o \<times> 'os) \<Rightarrow> 'o option \<Rightarrow> 'os \<Rightarrow> 'o option \<times> 'os" where
  "map_opts f options os = (case options of
     None \<Rightarrow> (None, os) | Some opts \<Rightarrow> (let (opts, os) = f opts os in (Some opts, os)))"

definition z_get_with_parameters_substr ::
  "'b \<Rightarrow> 'e \<Rightarrow> 'qc consolidation_ops \<Rightarrow> (('k, 'q, 'b, 'e, 'si, 't, 'qc) qbuilder \<Rightarrow> wait_error + unit)
   \<Rightarrow> 'k \<Rightarrow> ptr \<Rightarrow> usize \<Rightarrow> closure \<Rightarrow> 'si z_get_options_t option
   \<Rightarrow> ('b, 'e, 't) query_objects \<Rightarrow> heap \<Rightarrow> 'r event list
   \<Rightarrow> (('k, 'q, 'b, 'e, 'si, 't, 'qc) qbuilder, 'si z_get_options_t, ('b, 'e, 't) query_objects, 'r) get_outcome run" where
  "z_get_with_parameters_substr gb ge Q wait key_expr parameters parameters_len callback options os h tr = do {
     let (cb, callback) = closure_take_c_type callback;
     p \<leftarrow> borrowed_str parameters parameters_len h;
     case p of
       Inl r \<Rightarrow> do {
         let (options, os) = map_opts (z_get_options_clear gb ge) options os;
         tr \<leftarrow> closure_drop cb tr;
         ret \<lparr>code = r, ran = None, opts_after = options, objs_after = os, slot_after = callback, trace_after = tr\<rparr>
       }
     | Inr p \<Rightarrow>
         (let (ss, options, os) = (case options of
                None \<Rightarrow> ([], None, os)
              | Some opts \<Rightarrow> (let (ss, opts, os) = apply_get_options gb ge Q opts os in (ss, Some opts, os)));
              b = GetB key_expr p cb ss
          in ret \<lparr>code = put_result (wait b), ran = Some b, opts_after = options, objs_after = os,
                  slot_after = callback, trace_after = tr\<rparr>)
   }"

definition z_get ::
  "'b \<Rightarrow> 'e \<Rightarrow> 'qc consolidation_ops \<Rightarrow> (('k, 'q, 'b, 'e, 'si, 't, 'qc) qbuilder \<Rightarrow> wait_error + unit)
   \<Rightarrow> 'k \<Rightarrow> ptr \<Rightarrow> closure \<Rightarrow> 'si z_get_options_t option
   \<Rightarrow> ('b, 'e, 't) query_objects \<Rightarrow> heap \<Rightarrow> 'r event list
   \<Rightarrow> (('k, 'q, 'b, 'e, 'si, 't, 'qc) qbuilder, 'si z_get_options_t, ('b, 'e, 't) query_objects, 'r) get_outcome run" where
  "z_get gb ge Q wait key_expr parameters callback options os h tr = do {
     n \<leftarrow> strlen_or_zero parameters h;
     z_get_with_parameters_substr gb ge Q wait key_expr parameters (of_nat n) callback options os h tr
   }"

subsection \<open>Queriers\<close>

record z_querier_options_t =
  qr_target :: z_query_target_t
  qr_consolidation :: z_query_consolidation_t
  qr_congestion_control :: z_congestion_control_t
  qr_is_express :: bool
  qr_allowed_destination :: z_locality_t
  qr_accept_replies :: z_reply_keyexpr_t
  qr_priority :: z_priority_t
  qr_timeout_ms :: u64

definition z_querier_options_default :: "'qc query_defaults \<Rightarrow> z_querier_options_t" where
  "z_querier_options_default d = \<lparr>qr_target = z_query_target_from_rust (default_target d),
     qr_consolidation = z_query_consolidation_from_rust (consolidation_of d) (qc_default (consolidation_of d)),
     qr_congestion_control = z_congestion_control_from_rust (default_request d), qr_is_express = False,
     qr_allowed_destination = z_locality_from_rust (default_locality d),
     qr_accept_replies = z_reply_keyexpr_default d,
     qr_priority = z_priority_from_rust (default_priority d), qr_timeout_ms = 0\<rparr>"

definition z_declare_querier ::
  "'qc consolidation_ops \<Rightarrow> (('k, 'q, 'b, 'e, 'si, 't, 'qc) qbuilder \<Rightarrow> wait_error + 'p) \<Rightarrow> 'k
   \<Rightarrow> z_querier_options_t option \<Rightarrow> (z_result_t \<times> 'p option) \<times> ('k, 'q, 'b, 'e, 'si, 't, 'qc) qbuilder" where
  "z_declare_querier Q wait key_expr options =
    (let q = QuerierB key_expr (case options of
               None \<Rightarrow> []
             | Some opts \<Rightarrow>
                 [QCongestionControl (z_congestion_control_to_rust (qr_congestion_control opts)),
                  QPriority (z_priority_to_rust (qr_priority opts)),
                  QExpress (qr_is_express opts),
                  QTarget (z_query_target_to_rust (qr_target opts)),
                  QConsolidation (z_query_consolidation_to_rust Q (qr_consolidation opts)),
                  QAllowedDestination (z_locality_to_rust (qr_allowed_destination opts)),
                  QAcceptReplies (z_reply_keyexpr_to_rust (qr_accept_replies opts))]
                 @ timeout_setting (qr_timeout_ms opts))
     in (declare_result (wait q), q))"

definition z_internal_querier_null :: "'p option" where
  "z_internal_querier_null = None"

definition z_internal_querier_check :: "'p option \<Rightarrow> bool" where
  "z_internal_querier_check this \<longleftrightarrow> this \<noteq> None"

definition z_querier_loan :: "'p option \<Rightarrow> 'p run" where
  "z_querier_loan this = loan_option this"

definition z_querier_loan_mut :: "'p option \<Rightarrow> 'p run" where
  "z_querier_loan_mut this = loan_option this"

record 'si z_querier_get_options_t =
  qg_payload :: "nat option"
  qg_encoding :: "nat option"
  qg_source_info :: "'si option"
  qg_attachment :: "nat option"
  qg_cancellation_token :: "nat option"

definition querier_get_options_taken :: "'si z_querier_get_options_t \<Rightarrow> 'si z_querier_get_options_t" where
  "querier_get_options_taken opts = opts\<lparr>qg_payload := None, qg_encoding := None, qg_attachment := None,
     qg_cancellation_token := None\<rparr>"

definition z_querier_get_options_clear ::
  "'b \<Rightarrow> 'e \<Rightarrow> 'si z_querier_get_options_t \<Rightarrow> ('b, 'e, 't) query_objects
   \<Rightarrow> 'si z_querier_get_options_t \<times> ('b, 'e, 't) query_objects" where
  "z_querier_get_options_clear gb ge opts os =
    (let (_, os) = take_opt_bytes gb (qg_payload opts) os;
         (_, os) = take_opt_enc ge (qg_encoding opts) os;
         (_, os) = take_opt_bytes gb (qg_attachment opts) os;
         (_, os) = take_opt_token (qg_cancellation_token opts) os
     in (querier_get_options_taken opts, os))"

definition z_querier_get_options_default :: "'si z_querier_get_options_t" where
  "z_querier_get_options_default = \<lparr>qg_payload = None, qg_encoding = None, qg_source_info = None,
     qg_attachment = None, qg_cancellation_token = None\<rparr>"

definition apply_querier_get_options ::
  "'b \<Rightarrow> 'e \<Rightarrow> 'si z_querier_get_options_t \<Rightarrow> ('b, 'e, 't) query_objects
   \<Rightarrow> ('b, 'e, 'si, 't, 'qc) qsetting list \<times> 'si z_querier_get_options_t \<times> ('b, 'e, 't) query_objects" where
  "apply_querier_get_options gb ge opts os =
    (let (pl, os) = take_opt_bytes gb (qg_payload opts) os;
         (enc, os) = take_opt_enc ge (qg_encoding opts) os;
         (att, os) = take_opt_bytes gb (qg_attachment opts) os;
         (ct, os) = take_opt_token (qg_cancellation_token opts) os
     in (opt_setting QPayload pl @ opt_setting QEncoding enc
           @ opt_setting QSourceInfo (qg_source_info opts) @ opt_setting QAttachment att
           @ opt_setting QCancellationToken ct,
         querier_get_options_taken opts, os))"

definition z_querier_get_with_parameters_substr ::
  "'b \<Rightarrow> 'e \<Rightarrow> (('k, 'q, 'b, 'e, 'si, 't, 'qc) qbuilder \<Rightarrow> wait_error + unit)
   \<Rightarrow> 'q \<Rightarrow> ptr \<Rightarrow> usize \<Rightarrow> closure \<Rightarrow> 'si z_querier_get_options_t option
   \<Rightarrow> ('b, 'e, 't) query_objects \<Rightarrow> heap \<Rightarrow> 'r event list
   \<Rightarrow> (('k, 'q, 'b, 'e, 'si, 't, 'qc) qbuilder, 'si z_querier_get_options_t, ('b, 'e, 't) query_objects, 'r) get_outcome run" where
  "z_querier_get_with_parameters_substr gb ge wait querier parameters parameters_len callback options os h tr = do {
     let (cb, callback) = closure_take_c_type callback;
     p \<leftarrow> borrowed_str parameters parameters_len h;
     case p of
       Inl r \<Rightarrow> do {
         let (options, os) = map_opts (z_querier_get_options_clear gb ge) options os;
         tr \<leftarrow> closure_drop cb tr;
         ret \<lparr>code = r, ran = None, opts_after = options, objs_after = os, slot_after = callback, trace_after = tr\<rparr>
       }
     | Inr p \<Rightarrow>
         (let (ss, options, os) = (case options of
                None \<Rightarrow> ([], None, os)
              | Some opts \<Rightarrow> (let (ss, opts, os) = apply_querier_get_options gb ge opts os in (ss, Some opts, os)));
              b = QuerierGetB querier cb (ss @ (if p \<noteq> [] then [QParameters p] else []))
          in ret \<lparr>code = put_result (wait b), ran = Some b, opts_after = options, objs_after = os,
                  slot_after = callback, trace_after = tr\<rparr>)
   }"

definition z_querier_get ::
  "'b \<Rightarrow> 'e \<Rightarrow> (('k, 'q, 'b, 'e, 'si, 't, 'qc) qbuilder \<Rightarrow> wait_error + unit)
   \<Rightarrow> 'q \<Rightarrow> ptr \<Rightarrow> closure \<Rightarrow> 'si z_querier_get_options_t option
   \<Rightarrow> ('b, 'e, 't) query_objects \<Rightarrow> heap \<Rightarrow> 'r event list
   \<Rightarrow> (('k, 'q, 'b, 'e, 'si, 't, 'qc) qbuilder, 'si z_querier_get_options_t, ('b, 'e, 't) query_objects, 'r) get_outcome run" where
  "z_querier_get gb ge wait querier parameters callback options os h tr = do {
     n \<leftarrow> strlen_or_zero parameters h;
     z_querier_get_with_parameters_substr gb ge wait querier parameters (of_nat n) callback options os h tr
   }"

definition z_querier_id :: "('p \<Rightarrow> 'g) \<Rightarrow> 'p \<Rightarrow> 'g" where
  "z_querier_id id_of querier = id_of querier"

definition z_querier_keyexpr :: "('p \<Rightarrow> 'k) \<Rightarrow> 'p \<Rightarrow> 'k" where
  "z_querier_keyexpr key_expr querier = key_expr querier"

text \<open>A matching listener's builder is the closure its callback captured.\<close>

definition matching_callback :: "closure \<Rightarrow> bool \<Rightarrow> bool event list \<Rightarrow> bool event list" where
  "matching_callback callback status tr = z_closure_matching_status_call (z_closure_matching_status_loan callback) status tr"

definition querier_matching_listener_declare_inner :: "closure \<Rightarrow> closure \<times> closure" where
  "querier_matching_listener_declare_inner callback = closure_take_c_type callback"

definition z_querier_declare_matching_listener ::
  "(closure \<Rightarrow> wait_error + 'l) \<Rightarrow> closure \<Rightarrow> (z_result_t \<times> 'l option) \<times> closure" where
  "z_querier_declare_matching_listener wait callback =
    (let (listener, callback) = querier_matching_listener_declare_inner callback
     in (declare_result (wait listener), callback))"

definition z_querier_declare_background_matching_listener ::
  "(closure \<Rightarrow> wait_error + unit) \<Rightarrow> closure \<Rightarrow> z_result_t \<times> closure" where
  "z_querier_declare_background_matching_listener background_wait callback =
    (let (listener, callback) = querier_matching_listener_declare_inner callback
     in (generic_result (background_wait listener), callback))"

definition z_querier_get_matching_status :: "wait_error + bool \<Rightarrow> z_result_t \<times> bool option" where
  "z_querier_get_matching_status r = (case r of Inr s \<Rightarrow> (Z_OK, Some s) | Inl _ \<Rightarrow> (Z_ENETWORK, None))"

definition z_undeclare_querier ::
  "('p \<Rightarrow> 'w \<Rightarrow> (wait_error + unit) \<times> 'w) \<Rightarrow> 'p option \<Rightarrow> 'w \<Rightarrow> z_result_t \<times> 'p option \<times> 'w" where
  "z_undeclare_querier undeclare this w = undeclare_entity Z_ENETWORK undeclare this w"

definition z_querier_drop ::
  "('p \<Rightarrow> 'w \<Rightarrow> (wait_error + unit) \<times> 'w) \<Rightarrow> 'p option \<Rightarrow> 'w \<Rightarrow> 'p option \<times> 'w" where
  "z_querier_drop undeclare this w = snd (z_undeclare_querier undeclare this w)"

definition querier_api ::
  "'qc consolidation_ops \<Rightarrow> 'k \<Rightarrow> z_querier_options_t option \<Rightarrow> ('p, 'w) entity_api" where
  "querier_api Q k options = \<lparr>
     api_declare = (\<lambda>r _. fst (z_declare_querier Q (\<lambda>_ :: ('k, unit, unit, unit, unit, unit, 'qc) qbuilder. r) k options)),
     api_null = z_internal_querier_null, api_check = z_internal_querier_check,
     api_undeclare = z_undeclare_querier, api_drop = z_querier_drop\<rparr>"

interpretation qr: entity_kind "querier_api Q k options"
  by unfold_locales
     (simp_all add: querier_api_def z_declare_querier_def Let_def z_internal_querier_null_def
        z_internal_querier_check_def z_undeclare_querier_def z_querier_drop_def entity_laws)

interpretation qrml: entity_kind "matching_listener_api z_querier_declare_matching_listener callback"
  by (rule matching_listener_kind) (simp_all add: z_querier_declare_matching_listener_def split_beta)

subsection \<open>Liveliness queries\<close>

record z_liveliness_get_options_t =
  lg_timeout_ms :: u64
  lg_cancellation_token :: "nat option"

definition z_liveliness_get_options_default :: z_liveliness_get_options_t where
  "z_liveliness_get_options_default = \<lparr>lg_timeout_ms = 10000, lg_cancellation_token = None\<rparr>"

text \<open>The timeout is set whatever its value.\<close>

definition z_liveliness_get ::
  "(('k, 'q, 'b, 'e, 'si, 't, 'qc) qbuilder \<Rightarrow> wait_error + unit) \<Rightarrow> 'k \<Rightarrow> closure
   \<Rightarrow> z_liveliness_get_options_t option \<Rightarrow> ('b, 'e, 't) query_objects \<Rightarrow> 'r event list
   \<Rightarrow> (('k, 'q, 'b, 'e, 'si, 't, 'qc) qbuilder, z_liveliness_get_options_t, ('b, 'e, 't) query_objects, 'r) get_outcome" where
  "z_liveliness_get wait key_expr callback options os tr =
    (let (cb, callback) = closure_take_c_type callback;
         (ss, options, os) = (case options of
           None \<Rightarrow> ([], None, os)
         | Some opts \<Rightarrow>
             let (ct, os) = take_opt_token (lg_cancellation_token opts) os
             in (QTimeout (lg_timeout_ms opts) # opt_setting QCancellationToken ct,
                 Some (opts\<lparr>lg_cancellation_token := None\<rparr>), os));
         b = LivelinessGetB key_expr cb ss
     in \<lparr>code = generic_result (wait b), ran = Some b, opts_after = options, objs_after = os,
         slot_after = callback, trace_after = tr\<rparr>)"

subsection \<open>Lemmas\<close>

text \<open>The objects at the given addresses were taken, and nothing else changed.\<close>

definition consumed ::
  "'b \<Rightarrow> 'e \<Rightarrow> nat set \<Rightarrow> nat set \<Rightarrow> nat set \<Rightarrow> ('b, 'e, 't) query_objects \<Rightarrow> ('b, 'e, 't) query_objects \<Rightarrow> bool" where
  "consumed gb ge B E T os os' \<longleftrightarrow> (\<forall>a. bytes_at os' a = (if a \<in> B then gb else bytes_at os a))
    \<and> (\<forall>a. enc_at os' a = (if a \<in> E then ge else enc_at os a))
    \<and> (\<forall>a. token_at os' a = (if a \<in> T then None else token_at os a))"

lemmas query_take_defs = take_defs take_token_def take_opt_token_def gravestone_option_def

lemma consumed_refl: "consumed gb ge {} {} {} os os"
  by (simp add: consumed_def)

lemma consumed_bytes:
  "consumed gb ge B E T os os1 \<Longrightarrow> consumed gb ge (B \<union> set_option p) E T os (snd (take_opt_bytes gb p os1))"
  by (auto simp: consumed_def query_take_defs split: option.splits)

lemma consumed_enc:
  "consumed gb ge B E T os os1 \<Longrightarrow> consumed gb ge B (E \<union> set_option p) T os (snd (take_opt_enc ge p os1))"
  by (auto simp: consumed_def query_take_defs split: option.splits)

lemma consumed_token:
  "consumed gb ge B E T os os1 \<Longrightarrow> consumed gb ge B E (T \<union> set_option p) os (snd (take_opt_token p os1))"
  by (auto simp: consumed_def query_take_defs split: option.splits)

lemmas consumed_steps = consumed_token consumed_enc consumed_bytes

text \<open>Both ways through the options, clearing and applying, take the same objects.\<close>

lemma apply_get_consumes:
  "consumed gb ge (set_option (get_payload opts) \<union> set_option (get_attachment opts)) (set_option (get_encoding opts))
     (set_option (get_cancellation_token opts)) os (snd (snd (apply_get_options gb ge Q opts os)))"
  using consumed_token [OF consumed_bytes [OF consumed_enc [OF consumed_bytes [OF consumed_refl]]]]
  by (simp add: apply_get_options_def split_beta Let_def)

lemma clear_is_apply:
  "z_get_options_clear gb ge opts os = snd (apply_get_options gb ge Q opts os)"
  by (simp add: apply_get_options_def z_get_options_clear_def split_beta Let_def)

lemma querier_apply_is_clear:
  "snd (apply_querier_get_options gb ge opts os) = z_querier_get_options_clear gb ge opts os"
  by (simp add: apply_querier_get_options_def z_querier_get_options_clear_def split_beta Let_def)

lemma apply_get_opts: "fst (snd (apply_get_options gb ge Q opts os)) = get_options_taken opts"
  by (simp add: apply_get_options_def split_beta Let_def)

lemma borrowed_str_code: "borrowed_str p l h = ret (Inl r) \<Longrightarrow> r \<noteq> Z_OK"
  by (auto simp: borrowed_str_def CSlice_new_borrowed_def bind_eq_Some_conv split: if_splits option.splits)

subsection \<open>Properties\<close>

text \<open>C8: a query consumes everything it was given, on every path. However \<open>z_get_with_parameters_substr\<close>
  ends, the closure's slot is empty, the payload, encoding, attachment and cancellation token that the
  options pointed to are taken and the options no longer point to them, and no other object changed.
  The reply closure is never lost: either the query that was run captured it, or no query was run,
  the code is an error, and the closure was dropped.\<close>

theorem z_get_consumes:
  assumes "z_get_with_parameters_substr gb ge Q wait key_expr params params_len callback (Some opts) os h tr = ret out"
  shows "slot_after out = closure_default
    \<and> opts_after out = Some (get_options_taken opts)
    \<and> consumed gb ge (set_option (get_payload opts) \<union> set_option (get_attachment opts))
        (set_option (get_encoding opts)) (set_option (get_cancellation_token opts)) os (objs_after out)
    \<and> (case ran out of
         Some b \<Rightarrow> (\<exists>p ss. b = GetB key_expr p callback ss) \<and> trace_after out = tr
       | None \<Rightarrow> code out \<noteq> Z_OK \<and> closure_drop callback tr = ret (trace_after out))"
proof -
  obtain r where r: "borrowed_str params params_len h = ret r"
    using assms by (cases "borrowed_str params params_len h")
      (simp_all add: z_get_with_parameters_substr_def closure_take_c_type_def mem_replace_def)
  note c = apply_get_consumes [of gb ge opts os Q]
  show ?thesis
    using assms r c borrowed_str_code [of params params_len h]
    by (cases r) (auto simp: z_get_with_parameters_substr_def closure_take_c_type_def mem_replace_def map_opts_def
        clear_is_apply [of gb ge opts os Q] split_beta Let_def apply_get_opts bind_eq_Some_conv)
qed

definition demo_get_opts :: "nat z_get_options_t" where
  "demo_get_opts = \<lparr>get_target = QT_ALL, get_consolidation = \<lparr>mode = CM_NONE\<rparr>, get_payload = Some 1,
     get_encoding = Some 3, get_congestion_control = CC_BLOCK, get_is_express = True,
     get_allowed_destination = LOC_ANY, get_accept_replies = RK_ANY, get_priority = PRI_DATA,
     get_source_info = None, get_attachment = Some 2, get_timeout_ms = 0, get_cancellation_token = Some 4\<rparr>"

definition demo_objects :: "(nat, nat, nat) query_objects" where
  "demo_objects = \<lparr>bytes_at = (\<lambda>a. 10 + a), enc_at = (\<lambda>a. 20 + a), token_at = Some\<rparr>"

definition demo_consolidation :: "ConsolidationMode consolidation_ops" where
  "demo_consolidation = \<lparr>qc_mode = (\<lambda>m. m), qc_of_mode = (\<lambda>m. m), qc_default = ConsolidationMode_Auto,
     qc_auto = ConsolidationMode_Auto\<rparr>"

text \<open>Parameters that are not UTF-8: the closure is dropped.\<close>

theorem z_get_consumes_witness:
  "\<exists>out. z_get_with_parameters_substr 0 0 demo_consolidation
      (\<lambda>_ :: (nat, nat, nat, nat, nat, nat, ConsolidationMode) qbuilder. Inr ()) 0 (Ptr 0 0) 1
      \<lparr>c_context = Ptr 5 0, c_call = Some 6, c_drop = Some 7\<rparr> (Some demo_get_opts) demo_objects
      \<lparr>blocks = [0 \<mapsto> (User, [0xFF])], next_block = 7, calls = []\<rparr> ([] :: nat event list) = ret out
    \<and> slot_after out = closure_default \<and> ran out = None \<and> code out \<noteq> Z_OK
    \<and> trace_after out = [Dropped 7 (Ptr 5 0)] \<and> bytes_at (objs_after out) 2 = 0 \<and> token_at (objs_after out) 4 = None"
proof -
  let ?h = "\<lparr>blocks = [0 \<mapsto> (User, [0xFF])], next_block = 7, calls = []\<rparr> :: heap"
  have b: "borrowed_str (Ptr 0 0) 1 ?h = ret (Inl Z_EINVAL)"
    by (simp add: borrowed_str_def CSlice_new_borrowed_def CSlice_new_borrowed_unchecked_def CSlice_new_unchecked_def
        CString_to_str_def from_raw_parts_def is_null_def utf8_valid.simps(2))
  obtain out where e: "z_get_with_parameters_substr 0 0 demo_consolidation
      (\<lambda>_ :: (nat, nat, nat, nat, nat, nat, ConsolidationMode) qbuilder. Inr ()) 0 (Ptr 0 0) 1
      \<lparr>c_context = Ptr 5 0, c_call = Some 6, c_drop = Some 7\<rparr> (Some demo_get_opts) demo_objects ?h
      ([] :: nat event list) = ret out" "ran out = None"
    by (simp add: z_get_with_parameters_substr_def b closure_take_c_type_def mem_replace_def closure_drop_def split_beta)
  show ?thesis
    using z_get_consumes [OF e(1)] e
    by (simp add: closure_drop_def demo_get_opts_def consumed_def)
qed

text \<open>The options of a get, split between a querier and a get on it.\<close>

definition querier_options_of :: "'si z_get_options_t \<Rightarrow> z_querier_options_t" where
  "querier_options_of o' = \<lparr>qr_target = get_target o', qr_consolidation = get_consolidation o',
     qr_congestion_control = get_congestion_control o', qr_is_express = get_is_express o',
     qr_allowed_destination = get_allowed_destination o', qr_accept_replies = get_accept_replies o',
     qr_priority = get_priority o', qr_timeout_ms = get_timeout_ms o'\<rparr>"

definition querier_get_options_of :: "'si z_get_options_t \<Rightarrow> 'si z_querier_get_options_t" where
  "querier_get_options_of o' = \<lparr>qg_payload = get_payload o', qg_encoding = get_encoding o',
     qg_source_info = get_source_info o', qg_attachment = get_attachment o',
     qg_cancellation_token = get_cancellation_token o'\<rparr>"

fun querier_settings :: "('k, 'q, 'b, 'e, 'si, 't, 'qc) qbuilder \<Rightarrow> ('b, 'e, 'si, 't, 'qc) qsetting list" where
  "querier_settings (QuerierB k ss) = ss"
| "querier_settings _ = []"

lemma apply_options_split:
  "mset (fst (apply_get_options gb ge Q opts os))
    = mset (querier_settings (snd (z_declare_querier Q wait k (Some (querier_options_of opts)))))
      + mset (fst (apply_querier_get_options gb ge (querier_get_options_of opts) os))
   \<and> snd (snd (apply_get_options gb ge Q opts os)) = snd (snd (apply_querier_get_options gb ge (querier_get_options_of opts) os))"
  by (simp add: apply_get_options_def apply_querier_get_options_def z_declare_querier_def querier_options_of_def
      querier_get_options_of_def split_beta Let_def)

text \<open>C9: a querier is a shortcut for the same gets. Take any options of a get and split them between
  \<open>z_declare_querier\<close> and \<open>z_querier_get_with_parameters_substr\<close>. The two ways fail on the same
  parameters, with the same code; otherwise both run one query with the same callback and parameters
  (an empty parameter string is not set on the querier's get), whose settings are together the
  same; and both leave the caller's objects, the closure's slot and the trace the same.\<close>

theorem querier_get_equivalent:
  "rel_option (\<lambda>g q. slot_after g = slot_after q \<and> trace_after g = trace_after q \<and> objs_after g = objs_after q
      \<and> (case ran g of
           None \<Rightarrow> ran q = None \<and> code g = code q
         | Some b \<Rightarrow> (\<exists>p cb ss ss'. b = GetB key_expr p cb ss
             \<and> ran q = Some (QuerierGetB querier cb (ss' @ (if p = [] then [] else [QParameters p])))
             \<and> mset ss = mset ss' + mset (querier_settings
                   (snd (z_declare_querier Q declare_wait key_expr (Some (querier_options_of opts))))))))
    (z_get_with_parameters_substr gb ge Q wait key_expr params params_len callback (Some opts) os h tr)
    (z_querier_get_with_parameters_substr gb ge wait' querier params params_len callback
       (Some (querier_get_options_of opts)) os h tr)"
proof -
  note s = apply_options_split [of gb ge Q opts os declare_wait key_expr]
  show ?thesis
  proof (cases "borrowed_str params params_len h")
    case None
    then show ?thesis
      by (simp add: z_get_with_parameters_substr_def z_querier_get_with_parameters_substr_def closure_take_c_type_def
          mem_replace_def)
  next
    case (Some r)
    then show ?thesis
      using s by (cases r)
        (auto simp: z_get_with_parameters_substr_def z_querier_get_with_parameters_substr_def closure_take_c_type_def
          mem_replace_def map_opts_def clear_is_apply [of gb ge opts os Q] querier_apply_is_clear split_beta Let_def
          closure_drop_def add.commute split: option.splits)
  qed
qed

text \<open>A timeout of zero: a get leaves the query's default timeout, a liveliness get sets a timeout of
  zero.\<close>

lemma liveliness_get_zero_timeout:
  "get_timeout_ms opts = 0 \<Longrightarrow> QTimeout t0 \<notin> set (fst (apply_get_options gb ge Q opts os))"
  "lg_timeout_ms lopts = 0 \<Longrightarrow> \<exists>ss. ran (z_liveliness_get wait k callback (Some lopts) os tr)
     = Some (LivelinessGetB k callback (QTimeout 0 # ss))"
  by (auto simp: apply_get_options_def timeout_setting_def opt_setting_def z_liveliness_get_def closure_take_c_type_def
      mem_replace_def split_beta Let_def split: option.splits)

end
