(* ===== verification/Queryables.thy ===== *)
theory Queryables
  imports Queries
begin

text \<open>
  \<open>src/queryable.rs\<close>: queries as a queryable sees them, queryables, and the three kinds of reply.

  \<open>Query\<close> is zenoh's; the accessors read it through \<open>query_ops\<close>. A reply's builder is the list of the
  settings applied to it, as in theory \<open>Publication\<close>.
\<close>

subsection \<open>Queries\<close>

record ('q, 'k, 'b, 'e, 'si) query_ops =
  qy_empty :: 'q
  qy_clone :: "'q \<Rightarrow> 'q"
  qy_key_expr :: "'q \<Rightarrow> 'k"
  qy_parameters :: "'q \<Rightarrow> ptr \<times> usize"
  qy_payload :: "'q \<Rightarrow> 'b option"
  qy_encoding :: "'q \<Rightarrow> 'e option"
  qy_attachment :: "'q \<Rightarrow> 'b option"
  qy_source_info :: "'q \<Rightarrow> 'si option"
  qy_accepts_replies :: "'q \<Rightarrow> ReplyKeyExpr"

definition z_internal_query_null :: "'q option" where
  "z_internal_query_null = None"

definition z_internal_query_check :: "'q option \<Rightarrow> bool" where
  "z_internal_query_check query \<longleftrightarrow> query \<noteq> None"

definition z_query_loan :: "'q option \<Rightarrow> 'q run" where
  "z_query_loan this = loan_option this"

definition z_query_loan_mut :: "'q option \<Rightarrow> 'q run" where
  "z_query_loan_mut this = loan_option this"

definition z_query_take_from_loaned :: "('q, 'k, 'b, 'e, 'si) query_ops \<Rightarrow> 'q \<Rightarrow> 'q option \<times> 'q" where
  "z_query_take_from_loaned Y src = (let (old, src) = mem_replace src (qy_empty Y) in (Some old, src))"

definition z_query_drop :: "('q \<Rightarrow> 'w \<Rightarrow> 'w run) \<Rightarrow> 'q option \<Rightarrow> 'w \<Rightarrow> ('q option \<times> 'w) run" where
  "z_query_drop drp this w = moved_drop gravestone_option (drop_option drp) this w"

definition z_query_clone :: "('q, 'k, 'b, 'e, 'si) query_ops \<Rightarrow> 'q \<Rightarrow> 'q option" where
  "z_query_clone Y this = Some (qy_clone Y this)"

definition z_query_keyexpr :: "('q, 'k, 'b, 'e, 'si) query_ops \<Rightarrow> 'q \<Rightarrow> 'k" where
  "z_query_keyexpr Y this = qy_key_expr Y this"

text \<open>The view is over the query's own text; the code of \<open>z_view_string_from_substr\<close> is ignored.\<close>

definition z_query_parameters :: "('q, 'k, 'b, 'e, 'si) query_ops \<Rightarrow> 'q \<Rightarrow> cslice" where
  "z_query_parameters Y this = (let (p, n) = qy_parameters Y this in snd (z_view_string_from_substr p n))"

definition z_query_payload :: "('q, 'k, 'b, 'e, 'si) query_ops \<Rightarrow> 'q \<Rightarrow> 'b option" where
  "z_query_payload Y this = qy_payload Y this"

definition z_query_payload_mut :: "('q, 'k, 'b, 'e, 'si) query_ops \<Rightarrow> 'q \<Rightarrow> 'b option" where
  "z_query_payload_mut Y this = qy_payload Y this"

definition z_query_encoding :: "('q, 'k, 'b, 'e, 'si) query_ops \<Rightarrow> 'q \<Rightarrow> 'e option" where
  "z_query_encoding Y this = qy_encoding Y this"

definition z_query_attachment :: "('q, 'k, 'b, 'e, 'si) query_ops \<Rightarrow> 'q \<Rightarrow> 'b option" where
  "z_query_attachment Y this = qy_attachment Y this"

definition z_query_attachment_mut :: "('q, 'k, 'b, 'e, 'si) query_ops \<Rightarrow> 'q \<Rightarrow> 'b option" where
  "z_query_attachment_mut Y this = qy_attachment Y this"

definition z_query_source_info :: "('q, 'k, 'b, 'e, 'si) query_ops \<Rightarrow> 'q \<Rightarrow> 'si option" where
  "z_query_source_info Y this = qy_source_info Y this"

definition z_query_accepts_replies :: "('q, 'k, 'b, 'e, 'si) query_ops \<Rightarrow> 'q \<Rightarrow> z_reply_keyexpr_t" where
  "z_query_accepts_replies Y this = z_reply_keyexpr_from_rust (qy_accepts_replies Y this)"

subsection \<open>Queryables\<close>

definition z_internal_queryable_null :: "'p option" where
  "z_internal_queryable_null = None"

definition z_queryable_loan :: "'p option \<Rightarrow> 'p run" where
  "z_queryable_loan this = loan_option this"

record z_queryable_options_t =
  qa_complete :: bool
  qa_allowed_origin :: z_locality_t

definition z_queryable_options_default :: "zenoh_defaults \<Rightarrow> z_queryable_options_t" where
  "z_queryable_options_default d = \<lparr>qa_complete = False, qa_allowed_origin = z_locality_default d\<rparr>"

text \<open>A queryable's builder: the key expression, the captured closure, and the completeness and the
  origin when options were given.\<close>

datatype 'k queryable_builder = QueryableB 'k closure "(bool \<times> Locality) option"

text \<open>The Rust callback around the C closure it captured.\<close>

definition query_callback :: "closure \<Rightarrow> 'q \<Rightarrow> 'q event list \<Rightarrow> 'q event list" where
  "query_callback callback query tr = z_closure_query_call (z_closure_query_loan callback) query tr"

definition declare_queryable_inner ::
  "'k \<Rightarrow> closure \<Rightarrow> z_queryable_options_t option \<Rightarrow> 'k queryable_builder \<times> closure" where
  "declare_queryable_inner key_expr callback options =
    (let (cb, callback) = closure_take_c_type callback in
     (QueryableB key_expr cb
        (map_option (\<lambda>opts. (qa_complete opts, z_locality_to_rust (qa_allowed_origin opts))) options), callback))"

definition z_declare_queryable ::
  "('k queryable_builder \<Rightarrow> wait_error + 'p) \<Rightarrow> 'k \<Rightarrow> closure \<Rightarrow> z_queryable_options_t option
   \<Rightarrow> (z_result_t \<times> 'p option) \<times> closure" where
  "z_declare_queryable wait key_expr callback options =
    (let (q, callback) = declare_queryable_inner key_expr callback options
     in (declare_result (wait q), callback))"

definition z_declare_background_queryable ::
  "('k queryable_builder \<Rightarrow> wait_error + unit) \<Rightarrow> 'k \<Rightarrow> closure \<Rightarrow> z_queryable_options_t option
   \<Rightarrow> z_result_t \<times> closure" where
  "z_declare_background_queryable background_wait key_expr callback options =
    (let (q, callback) = declare_queryable_inner key_expr callback options
     in (generic_result (background_wait q), callback))"

definition z_undeclare_queryable ::
  "('p \<Rightarrow> 'w \<Rightarrow> (wait_error + unit) \<times> 'w) \<Rightarrow> 'p option \<Rightarrow> 'w \<Rightarrow> z_result_t \<times> 'p option \<times> 'w" where
  "z_undeclare_queryable undeclare this w = undeclare_entity Z_EGENERIC undeclare this w"

definition z_queryable_drop ::
  "('p \<Rightarrow> 'w \<Rightarrow> (wait_error + unit) \<times> 'w) \<Rightarrow> 'p option \<Rightarrow> 'w \<Rightarrow> 'p option \<times> 'w" where
  "z_queryable_drop undeclare this w = snd (z_undeclare_queryable undeclare this w)"

definition z_internal_queryable_check :: "'p option \<Rightarrow> bool" where
  "z_internal_queryable_check this \<longleftrightarrow> this \<noteq> None"

definition z_queryable_id :: "('p \<Rightarrow> 'g) \<Rightarrow> 'p \<Rightarrow> 'g" where
  "z_queryable_id id_of queryable = id_of queryable"

definition z_queryable_keyexpr :: "('p \<Rightarrow> 'k) \<Rightarrow> 'p \<Rightarrow> 'k" where
  "z_queryable_keyexpr key_expr queryable = key_expr queryable"

definition queryable_api :: "'k \<Rightarrow> closure \<Rightarrow> z_queryable_options_t option \<Rightarrow> ('p, 'w) entity_api" where
  "queryable_api k callback options = \<lparr>
     api_declare = (\<lambda>r _. fst (z_declare_queryable (\<lambda>_. r) k callback options)),
     api_null = z_internal_queryable_null, api_check = z_internal_queryable_check,
     api_undeclare = z_undeclare_queryable, api_drop = z_queryable_drop\<rparr>"

interpretation qa: entity_kind "queryable_api k callback options"
  by unfold_locales
     (simp_all add: queryable_api_def z_declare_queryable_def split_beta z_internal_queryable_null_def
        z_internal_queryable_check_def z_undeclare_queryable_def z_queryable_drop_def entity_laws)

subsection \<open>Replies to a query\<close>

record ('ts, 'si) z_query_reply_options_t =
  rp_encoding :: "nat option"
  rp_congestion_control :: z_congestion_control_t
  rp_priority :: z_priority_t
  rp_is_express :: bool
  rp_timestamp :: "'ts option"
  rp_source_info :: "'si option"
  rp_attachment :: "nat option"

definition z_query_reply_options_default :: "zenoh_defaults \<Rightarrow> ('ts, 'si) z_query_reply_options_t" where
  "z_query_reply_options_default d = \<lparr>rp_encoding = None,
     rp_congestion_control = z_congestion_control_from_rust CongestionControl_Block,
     rp_priority = z_priority_from_rust (default_priority d), rp_is_express = False, rp_timestamp = None,
     rp_source_info = None, rp_attachment = None\<rparr>"

record z_query_reply_err_options_t =
  rerr_encoding :: "nat option"

definition z_query_reply_err_options_default :: z_query_reply_err_options_t where
  "z_query_reply_err_options_default = \<lparr>rerr_encoding = None\<rparr>"

record ('ts, 'si) z_query_reply_del_options_t =
  rd_congestion_control :: z_congestion_control_t
  rd_priority :: z_priority_t
  rd_is_express :: bool
  rd_timestamp :: "'ts option"
  rd_source_info :: "'si option"
  rd_attachment :: "nat option"

definition z_query_reply_del_options_default :: "zenoh_defaults \<Rightarrow> ('ts, 'si) z_query_reply_del_options_t" where
  "z_query_reply_del_options_default d = \<lparr>
     rd_congestion_control = z_congestion_control_from_rust CongestionControl_Block,
     rd_priority = z_priority_from_rust (default_priority d), rd_is_express = False, rd_timestamp = None,
     rd_source_info = None, rd_attachment = None\<rparr>"

datatype ('q, 'k, 'b, 'e, 'ts, 'si) reply_builder =
    ReplyB 'q 'k 'b "('b, 'e, 'ts, 'si) setting list"
  | ReplyErrB 'q 'b 'e
  | ReplyDelB 'q 'k "('b, 'e, 'ts, 'si) setting list"

text \<open>The congestion control and the priority of the options are not applied.\<close>

definition z_query_reply ::
  "'b \<Rightarrow> 'e \<Rightarrow> (('q, 'k, 'b, 'e, 'ts, 'si) reply_builder \<Rightarrow> wait_error + unit) \<Rightarrow> 'q \<Rightarrow> 'k \<Rightarrow> nat
   \<Rightarrow> ('ts, 'si) z_query_reply_options_t option \<Rightarrow> ('b, 'e) objects
   \<Rightarrow> z_result_t \<times> ('b, 'e) objects \<times> ('ts, 'si) z_query_reply_options_t option
      \<times> ('q, 'k, 'b, 'e, 'ts, 'si) reply_builder" where
  "z_query_reply gb ge wait query key_expr payload options os =
    (let (pl, os) = take_bytes gb payload os in
     case options of
       None \<Rightarrow> let b = ReplyB query key_expr pl [] in (generic_result (wait b), os, None, b)
     | Some opts \<Rightarrow>
         let (enc, os) = take_opt_enc ge (rp_encoding opts) os;
             (att, os) = take_opt_bytes gb (rp_attachment opts) os;
             b = ReplyB query key_expr pl
                   (opt_setting SEncoding enc @ opt_setting SSourceInfo (rp_source_info opts)
                    @ opt_setting SAttachment att @ opt_setting STimestamp (rp_timestamp opts)
                    @ [SExpress (rp_is_express opts)])
         in (generic_result (wait b), os, Some (opts\<lparr>rp_encoding := None, rp_attachment := None\<rparr>), b))"

text \<open>\<open>Encoding::default()\<close> is the gravestone of encodings, \<open>ge\<close>.\<close>

definition z_query_reply_err ::
  "'b \<Rightarrow> 'e \<Rightarrow> (('q, 'k, 'b, 'e, 'ts, 'si) reply_builder \<Rightarrow> wait_error + unit) \<Rightarrow> 'q \<Rightarrow> nat
   \<Rightarrow> z_query_reply_err_options_t option \<Rightarrow> ('b, 'e) objects
   \<Rightarrow> z_result_t \<times> ('b, 'e) objects \<times> z_query_reply_err_options_t option
      \<times> ('q, 'k, 'b, 'e, 'ts, 'si) reply_builder" where
  "z_query_reply_err gb ge wait query payload options os =
    (let (pl, os) = take_bytes gb payload os;
         (enc, os) = take_opt_enc ge (Option.bind options rerr_encoding) os;
         b = ReplyErrB query pl (case enc of Some e \<Rightarrow> e | None \<Rightarrow> ge)
     in (generic_result (wait b), os, map_option (\<lambda>opts. opts\<lparr>rerr_encoding := None\<rparr>) options, b))"

definition z_query_reply_del ::
  "'b \<Rightarrow> (('q, 'k, 'b, 'e, 'ts, 'si) reply_builder \<Rightarrow> wait_error + unit) \<Rightarrow> 'q \<Rightarrow> 'k
   \<Rightarrow> ('ts, 'si) z_query_reply_del_options_t option \<Rightarrow> ('b, 'e) objects
   \<Rightarrow> z_result_t \<times> ('b, 'e) objects \<times> ('ts, 'si) z_query_reply_del_options_t option
      \<times> ('q, 'k, 'b, 'e, 'ts, 'si) reply_builder" where
  "z_query_reply_del gb wait query key_expr options os = (case options of
     None \<Rightarrow> let b = ReplyDelB query key_expr [] in (generic_result (wait b), os, None, b)
   | Some opts \<Rightarrow>
       let (att, os) = take_opt_bytes gb (rd_attachment opts) os;
           b = ReplyDelB query key_expr
                 (opt_setting SSourceInfo (rd_source_info opts) @ opt_setting SAttachment att
                  @ opt_setting STimestamp (rd_timestamp opts) @ [SExpress (rd_is_express opts)])
       in (generic_result (wait b), os, Some (opts\<lparr>rd_attachment := None\<rparr>), b))"

subsection \<open>Properties\<close>

text \<open>A reply carries the payload, encoding and attachment taken from the caller and the other
  fields of the options, and consumes them whether or not it could be sent; the two deprecated
  fields, congestion control and priority, have no effect on it.\<close>

lemma z_query_reply_sends:
  assumes "z_query_reply gb ge wait query key_expr payload (Some opts) os = (r, os', opts', b)"
    and "rp_attachment opts \<noteq> Some payload"
  shows "\<exists>ss. b = ReplyB query key_expr (bytes_at os payload) ss
    \<and> set ss = {SExpress (rp_is_express opts)}
      \<union> (SEncoding \<circ> enc_at os) ` set_option (rp_encoding opts)
      \<union> (SAttachment \<circ> bytes_at os) ` set_option (rp_attachment opts)
      \<union> STimestamp ` set_option (rp_timestamp opts) \<union> SSourceInfo ` set_option (rp_source_info opts)
    \<and> (r = Z_OK \<longleftrightarrow> (\<exists>x. wait b = Inr x))
    \<and> (\<forall>a. bytes_at os' a = (if a = payload \<or> rp_attachment opts = Some a then gb else bytes_at os a))
    \<and> (\<forall>a. enc_at os' a = (if rp_encoding opts = Some a then ge else enc_at os a))
    \<and> z_query_reply gb ge wait query key_expr payload
        (Some (opts\<lparr>rp_congestion_control := cc, rp_priority := pr\<rparr>)) os
      = (r, os', map_option (\<lambda>o'. o'\<lparr>rp_congestion_control := cc, rp_priority := pr\<rparr>) opts', b)"
  using assms
  by (cases "rp_encoding opts"; cases "rp_attachment opts"; cases "rp_timestamp opts"; cases "rp_source_info opts")
     (auto simp: z_query_reply_def take_defs opt_setting_def generic_result_ok Let_def)

definition demo_reply_opts :: "(nat, nat) z_query_reply_options_t" where
  "demo_reply_opts = \<lparr>rp_encoding = Some 3, rp_congestion_control = CC_DROP, rp_priority = PRI_DATA,
     rp_is_express = True, rp_timestamp = Some 99, rp_source_info = None, rp_attachment = Some 2\<rparr>"

end
