(* ===== verification/AdvancedPublication.thy ===== *)
theory AdvancedPublication
  imports Publication
begin

text \<open>
  \<open>src/advanced_publisher.rs\<close> and \<open>src/publication_cache.rs\<close>: publishers with a cache, sample miss
  detection and detection through liveliness, and the older publication cache.

  The settings that \<open>zenoh_ext\<close> receives are datatypes here: a configuration is the list of the
  settings made on its default.
\<close>

subsection \<open>Options\<close>

record ze_advanced_publisher_cache_options_t =
  apc_is_enabled :: bool
  apc_max_samples :: usize
  apc_congestion_control :: z_congestion_control_t
  apc_priority :: z_priority_t
  apc_is_express :: bool

definition advanced_publisher_cache_options_default :: "zenoh_defaults \<Rightarrow> ze_advanced_publisher_cache_options_t" where
  "advanced_publisher_cache_options_default d = \<lparr>apc_is_enabled = True, apc_max_samples = 1,
     apc_congestion_control = z_congestion_control_from_rust (default_push d),
     apc_priority = z_priority_from_rust (default_priority d), apc_is_express = False\<rparr>"

definition ze_advanced_publisher_cache_options_default ::
  "zenoh_defaults \<Rightarrow> ze_advanced_publisher_cache_options_t" where
  "ze_advanced_publisher_cache_options_default d = advanced_publisher_cache_options_default d"

datatype cache_setting = CMaxSamples usize | CReplies CongestionControl bool Priority

definition cache_config :: "ze_advanced_publisher_cache_options_t \<Rightarrow> cache_setting list" where
  "cache_config v = [CMaxSamples (apc_max_samples v),
     CReplies (z_congestion_control_to_rust (apc_congestion_control v)) (apc_is_express v)
       (z_priority_to_rust (apc_priority v))]"

datatype ze_advanced_publisher_heartbeat_mode_t = HB_NONE | HB_PERIODIC | HB_SPORADIC

record ze_advanced_publisher_sample_miss_detection_options_t =
  apm_is_enabled :: bool
  apm_heartbeat_mode :: ze_advanced_publisher_heartbeat_mode_t
  apm_heartbeat_period_ms :: u64

definition advanced_publisher_sample_miss_detection_options_default ::
  ze_advanced_publisher_sample_miss_detection_options_t where
  "advanced_publisher_sample_miss_detection_options_default =
     \<lparr>apm_is_enabled = True, apm_heartbeat_mode = HB_NONE, apm_heartbeat_period_ms = 0\<rparr>"

definition ze_advanced_publisher_sample_miss_detection_options_default ::
  ze_advanced_publisher_sample_miss_detection_options_t where
  "ze_advanced_publisher_sample_miss_detection_options_default = advanced_publisher_sample_miss_detection_options_default"

datatype miss_setting = MSporadicHeartbeat u64 | MHeartbeat u64

text \<open>With mode \<open>NONE\<close> a period still turns the periodic heartbeat on, with a warning in the log.\<close>

definition miss_detection_config ::
  "ze_advanced_publisher_sample_miss_detection_options_t \<Rightarrow> miss_setting list" where
  "miss_detection_config v =
    (if apm_heartbeat_mode v = HB_SPORADIC then [MSporadicHeartbeat (apm_heartbeat_period_ms v)]
     else if apm_heartbeat_mode v = HB_PERIODIC then [MHeartbeat (apm_heartbeat_period_ms v)]
     else if apm_heartbeat_period_ms v > 0 then [MHeartbeat (apm_heartbeat_period_ms v)]
     else [])"

record 'k ze_advanced_publisher_options_t =
  ap_publisher_options :: z_publisher_options_t
  ap_cache :: ze_advanced_publisher_cache_options_t
  ap_sample_miss_detection :: ze_advanced_publisher_sample_miss_detection_options_t
  ap_publisher_detection :: bool
  ap_publisher_detection_metadata :: "'k option"

definition ze_advanced_publisher_options_default :: "zenoh_defaults \<Rightarrow> 'k ze_advanced_publisher_options_t" where
  "ze_advanced_publisher_options_default d = \<lparr>
     ap_publisher_options = z_publisher_options_default d,
     ap_cache = (advanced_publisher_cache_options_default d)\<lparr>apc_is_enabled := False\<rparr>,
     ap_sample_miss_detection = advanced_publisher_sample_miss_detection_options_default\<lparr>apm_is_enabled := False\<rparr>,
     ap_publisher_detection = False, ap_publisher_detection_metadata = None\<rparr>"

subsection \<open>Advanced publishers\<close>

datatype 'k adv_pub_setting =
    APublisherDetection
  | ASampleMissDetection "miss_setting list"
  | ADetectionMetadata 'k
  | ACache "cache_setting list"

text \<open>An advanced publisher's builder: the publisher's builder it was made from, and its settings.\<close>

datatype ('pb, 'k) adv_pub_builder = AdvancedPublisherB 'pb "'k adv_pub_setting list"

definition advanced_publisher_settings :: "'k ze_advanced_publisher_options_t \<Rightarrow> 'k adv_pub_setting list" where
  "advanced_publisher_settings opts =
     (if ap_publisher_detection opts then [APublisherDetection] else [])
     @ (if apm_is_enabled (ap_sample_miss_detection opts)
        then [ASampleMissDetection (miss_detection_config (ap_sample_miss_detection opts))] else [])
     @ opt_setting ADetectionMetadata (ap_publisher_detection_metadata opts)
     @ (if apc_is_enabled (ap_cache opts) then [ACache (cache_config (ap_cache opts))] else [])"

definition ze_declare_advanced_publisher ::
  "'e \<Rightarrow> ((('k, 'b, 'e, 'ts, 'si) builder, 'k) adv_pub_builder \<Rightarrow> wait_error + 'p) \<Rightarrow> 'k
   \<Rightarrow> 'k ze_advanced_publisher_options_t option \<Rightarrow> ('b, 'e) objects
   \<Rightarrow> (z_result_t \<times> 'p option) \<times> 'k ze_advanced_publisher_options_t option \<times> ('b, 'e) objects" where
  "ze_declare_advanced_publisher ge wait key_expr options os =
    (let (p, pub_options, os) = declare_publisher_inner ge key_expr (map_option ap_publisher_options options) os;
         options = (case (options, pub_options) of
           (Some opts, Some po) \<Rightarrow> Some (opts\<lparr>ap_publisher_options := po\<rparr>) | _ \<Rightarrow> options);
         b = AdvancedPublisherB p (case options of None \<Rightarrow> [] | Some opts \<Rightarrow> advanced_publisher_settings opts)
     in (declare_result (wait b), options, os))"

definition ze_internal_advanced_publisher_null :: "'p option" where
  "ze_internal_advanced_publisher_null = None"

definition ze_internal_advanced_publisher_check :: "'p option \<Rightarrow> bool" where
  "ze_internal_advanced_publisher_check this \<longleftrightarrow> this \<noteq> None"

definition ze_advanced_publisher_loan :: "'p option \<Rightarrow> 'p run" where
  "ze_advanced_publisher_loan this = loan_option this"

definition ze_advanced_publisher_loan_mut :: "'p option \<Rightarrow> 'p run" where
  "ze_advanced_publisher_loan_mut this = loan_option this"

record ('ts, 'si) ze_advanced_publisher_put_options_t =
  app_put_options :: "('ts, 'si) z_publisher_put_options_t"

definition ze_advanced_publisher_put_options_default :: "('ts, 'si) ze_advanced_publisher_put_options_t" where
  "ze_advanced_publisher_put_options_default = \<lparr>app_put_options = z_publisher_put_options_default\<rparr>"

text \<open>The source info of the base options is not applied.\<close>

definition apply_advanced_publisher_put_options ::
  "'b \<Rightarrow> 'e \<Rightarrow> ('ts, 'si) ze_advanced_publisher_put_options_t \<Rightarrow> ('b, 'e) objects
   \<Rightarrow> ('b, 'e, 'ts, 'si) setting list \<times> ('ts, 'si) ze_advanced_publisher_put_options_t \<times> ('b, 'e) objects" where
  "apply_advanced_publisher_put_options gb ge opts os =
    (let po = app_put_options opts;
         (enc, os) = take_opt_enc ge (pp_encoding po) os;
         (att, os) = take_opt_bytes gb (pp_attachment po) os
     in (opt_setting SEncoding enc @ opt_setting SAttachment att @ opt_setting STimestamp (pp_timestamp po),
         opts\<lparr>app_put_options := po\<lparr>pp_encoding := None, pp_attachment := None\<rparr>\<rparr>, os))"

definition ze_advanced_publisher_put ::
  "'b \<Rightarrow> 'e \<Rightarrow> (('k, 'b, 'e, 'ts, 'si) builder \<Rightarrow> wait_error + unit) \<Rightarrow> nat
   \<Rightarrow> ('ts, 'si) ze_advanced_publisher_put_options_t option \<Rightarrow> ('b, 'e) objects
   \<Rightarrow> z_result_t \<times> ('b, 'e) objects \<times> ('ts, 'si) ze_advanced_publisher_put_options_t option
      \<times> ('k, 'b, 'e, 'ts, 'si) builder" where
  "ze_advanced_publisher_put gb ge wait payload options os =
    (let (pl, os) = take_bytes gb payload os in
     case options of
       None \<Rightarrow> let b = PutB None pl [] in (put_result (wait b), os, None, b)
     | Some opts \<Rightarrow>
         let (ss, opts, os) = apply_advanced_publisher_put_options gb ge opts os;
             b = PutB None pl ss
         in (put_result (wait b), os, Some opts, b))"

record 'ts ze_advanced_publisher_delete_options_t =
  apd_delete_options :: "'ts z_publisher_delete_options_t"

definition ze_advanced_publisher_delete_options_default :: "'ts ze_advanced_publisher_delete_options_t" where
  "ze_advanced_publisher_delete_options_default = \<lparr>apd_delete_options = z_publisher_delete_options_default\<rparr>"

definition ze_advanced_publisher_delete ::
  "(('k, 'b, 'e, 'ts, 'si) builder \<Rightarrow> wait_error + unit) \<Rightarrow> 'ts ze_advanced_publisher_delete_options_t option
   \<Rightarrow> z_result_t \<times> ('k, 'b, 'e, 'ts, 'si) builder" where
  "ze_advanced_publisher_delete wait options =
    (let b = DeleteB None (case options of
           None \<Rightarrow> [] | Some opts \<Rightarrow> apply_publisher_delete_options (apd_delete_options opts))
     in (generic_result (wait b), b))"

definition ze_advanced_publisher_id :: "('p \<Rightarrow> 'g) \<Rightarrow> 'p \<Rightarrow> 'g" where
  "ze_advanced_publisher_id id_of publisher = id_of publisher"

definition ze_advanced_publisher_keyexpr :: "('p \<Rightarrow> 'k) \<Rightarrow> 'p \<Rightarrow> 'k" where
  "ze_advanced_publisher_keyexpr key_expr publisher = key_expr publisher"

definition advanced_publisher_matching_listener_declare_inner :: "closure \<Rightarrow> closure \<times> closure" where
  "advanced_publisher_matching_listener_declare_inner callback = closure_take_c_type callback"

definition ze_advanced_publisher_declare_matching_listener ::
  "(closure \<Rightarrow> wait_error + 'l) \<Rightarrow> closure \<Rightarrow> (z_result_t \<times> 'l option) \<times> closure" where
  "ze_advanced_publisher_declare_matching_listener wait callback =
    (let (listener, callback) = advanced_publisher_matching_listener_declare_inner callback
     in (declare_result (wait listener), callback))"

definition ze_advanced_publisher_declare_background_matching_listener ::
  "(closure \<Rightarrow> wait_error + unit) \<Rightarrow> closure \<Rightarrow> z_result_t \<times> closure" where
  "ze_advanced_publisher_declare_background_matching_listener background_wait callback =
    (let (listener, callback) = advanced_publisher_matching_listener_declare_inner callback
     in (generic_result (background_wait listener), callback))"

definition ze_advanced_publisher_get_matching_status :: "wait_error + bool \<Rightarrow> z_result_t \<times> bool option" where
  "ze_advanced_publisher_get_matching_status r = (case r of Inr s \<Rightarrow> (Z_OK, Some s) | Inl _ \<Rightarrow> (Z_ENETWORK, None))"

definition ze_undeclare_advanced_publisher ::
  "('p \<Rightarrow> 'w \<Rightarrow> (wait_error + unit) \<times> 'w) \<Rightarrow> 'p option \<Rightarrow> 'w \<Rightarrow> z_result_t \<times> 'p option \<times> 'w" where
  "ze_undeclare_advanced_publisher undeclare this w = undeclare_entity Z_ENETWORK undeclare this w"

definition ze_advanced_publisher_drop ::
  "('p \<Rightarrow> 'w \<Rightarrow> (wait_error + unit) \<times> 'w) \<Rightarrow> 'p option \<Rightarrow> 'w \<Rightarrow> 'p option \<times> 'w" where
  "ze_advanced_publisher_drop undeclare this w = snd (ze_undeclare_advanced_publisher undeclare this w)"

definition advanced_publisher_api ::
  "'e \<Rightarrow> 'k \<Rightarrow> 'k ze_advanced_publisher_options_t option \<Rightarrow> ('b, 'e) objects \<Rightarrow> ('p, 'w) entity_api" where
  "advanced_publisher_api ge k options os = \<lparr>
     api_declare = (\<lambda>r _. fst (ze_declare_advanced_publisher ge
        (\<lambda>_ :: (('k, 'b, 'e, unit, unit) builder, 'k) adv_pub_builder. r) k options os)),
     api_null = ze_internal_advanced_publisher_null, api_check = ze_internal_advanced_publisher_check,
     api_undeclare = ze_undeclare_advanced_publisher, api_drop = ze_advanced_publisher_drop\<rparr>"

interpretation apub: entity_kind "advanced_publisher_api ge k options os"
  by unfold_locales
     (simp_all add: advanced_publisher_api_def ze_declare_advanced_publisher_def split_beta Let_def
        ze_internal_advanced_publisher_null_def ze_internal_advanced_publisher_check_def
        ze_undeclare_advanced_publisher_def ze_advanced_publisher_drop_def entity_laws)

interpretation apubml: entity_kind "matching_listener_api ze_advanced_publisher_declare_matching_listener callback"
  by (rule matching_listener_kind) (simp_all add: ze_advanced_publisher_declare_matching_listener_def split_beta)

subsection \<open>Publication caches\<close>

record 'k ze_publication_cache_options_t =
  pc_queryable_suffix :: "'k option"
  pc_queryable_origin :: z_locality_t
  pc_queryable_complete :: bool
  pc_history :: usize
  pc_resources_limit :: usize

definition ze_publication_cache_options_default :: "zenoh_defaults \<Rightarrow> 'k ze_publication_cache_options_t" where
  "ze_publication_cache_options_default d = \<lparr>pc_queryable_suffix = None, pc_queryable_origin = z_locality_default d,
     pc_queryable_complete = False, pc_history = 1, pc_resources_limit = 0\<rparr>"

datatype 'k pub_cache_setting =
    PCHistory usize
  | PCQueryableAllowedOrigin Locality
  | PCQueryableComplete bool
  | PCResourcesLimit usize
  | PCQueryableSuffix 'k

definition declare_publication_cache_inner ::
  "'k \<Rightarrow> 'k ze_publication_cache_options_t option \<Rightarrow> 'k \<times> 'k pub_cache_setting list" where
  "declare_publication_cache_inner key_expr options = (key_expr, case options of
     None \<Rightarrow> []
   | Some opts \<Rightarrow>
       [PCHistory (pc_history opts), PCQueryableAllowedOrigin (z_locality_to_rust (pc_queryable_origin opts)),
        PCQueryableComplete (pc_queryable_complete opts)]
       @ (if pc_resources_limit opts \<noteq> 0 then [PCResourcesLimit (pc_resources_limit opts)] else [])
       @ opt_setting PCQueryableSuffix (pc_queryable_suffix opts))"

definition ze_declare_publication_cache ::
  "('k \<times> 'k pub_cache_setting list \<Rightarrow> wait_error + 'p) \<Rightarrow> 'k \<Rightarrow> 'k ze_publication_cache_options_t option
   \<Rightarrow> z_result_t \<times> 'p option" where
  "ze_declare_publication_cache wait key_expr options =
    declare_result (wait (declare_publication_cache_inner key_expr options))"

definition ze_declare_background_publication_cache ::
  "('k \<times> 'k pub_cache_setting list \<Rightarrow> wait_error + unit) \<Rightarrow> 'k \<Rightarrow> 'k ze_publication_cache_options_t option
   \<Rightarrow> z_result_t" where
  "ze_declare_background_publication_cache background_wait key_expr options =
    generic_result (background_wait (declare_publication_cache_inner key_expr options))"

definition ze_internal_publication_cache_null :: "'p option" where
  "ze_internal_publication_cache_null = None"

definition ze_internal_publication_cache_check :: "'p option \<Rightarrow> bool" where
  "ze_internal_publication_cache_check this \<longleftrightarrow> this \<noteq> None"

definition ze_publication_cache_drop :: "('p \<Rightarrow> 'w \<Rightarrow> 'w run) \<Rightarrow> 'p option \<Rightarrow> 'w \<Rightarrow> ('p option \<times> 'w) run" where
  "ze_publication_cache_drop drp this w = moved_drop gravestone_option (drop_option drp) this w"

definition ze_publication_cache_keyexpr :: "('p \<Rightarrow> 'k) \<Rightarrow> 'p \<Rightarrow> 'k" where
  "ze_publication_cache_keyexpr key_expr this = key_expr this"

definition ze_publication_cache_loan :: "'p option \<Rightarrow> 'p run" where
  "ze_publication_cache_loan this = loan_option this"

definition ze_undeclare_publication_cache ::
  "('p \<Rightarrow> 'w \<Rightarrow> (wait_error + unit) \<times> 'w) \<Rightarrow> 'p option \<Rightarrow> 'w \<Rightarrow> z_result_t \<times> 'p option \<times> 'w" where
  "ze_undeclare_publication_cache undeclare this w = undeclare_entity Z_EGENERIC undeclare this w"

text \<open>Zenoh's \<open>Drop\<close> of a publication cache undeclares it and ignores the result.\<close>

definition publication_cache_api :: "'k \<Rightarrow> 'k ze_publication_cache_options_t option \<Rightarrow> ('p, 'w) entity_api" where
  "publication_cache_api k options = \<lparr>
     api_declare = (\<lambda>r _. ze_declare_publication_cache (\<lambda>_. r) k options),
     api_null = ze_internal_publication_cache_null, api_check = ze_internal_publication_cache_check,
     api_undeclare = ze_undeclare_publication_cache,
     api_drop = (\<lambda>undeclare this w. the (ze_publication_cache_drop (\<lambda>p w. ret (snd (undeclare p w))) this w))\<rparr>"

interpretation pcache: entity_kind "publication_cache_api k options"
  by unfold_locales
     (simp_all add: publication_cache_api_def ze_declare_publication_cache_def ze_internal_publication_cache_null_def
        ze_internal_publication_cache_check_def ze_undeclare_publication_cache_def entity_laws
        ze_publication_cache_drop_def moved_drop_undeclares [where err = Z_EGENERIC])

subsection \<open>Properties\<close>

text \<open>An advanced put is a put of the publisher, less the source info.\<close>

lemma advanced_put_drops_source_info:
  "ze_advanced_publisher_put gb ge wait payload (Some \<lparr>app_put_options = po\<rparr>) os
    = (let (r, os', po', b) = z_publisher_put gb ge wait payload (Some (po\<lparr>pp_source_info := None\<rparr>)) os
       in (r, os', map_option (\<lambda>p. \<lparr>app_put_options = p\<lparr>pp_source_info := pp_source_info po\<rparr>\<rparr>) po', b))"
  by (simp add: ze_advanced_publisher_put_def z_publisher_put_def apply_advanced_publisher_put_options_def
      apply_publisher_put_options_def opt_setting_def split_beta Let_def)

end
