(* ===== verification/AdvancedSubscription.thy ===== *)
theory AdvancedSubscription
  imports Queries
begin

text \<open>
  \<open>src/advanced_subscriber.rs\<close> and \<open>src/querying_subscriber.rs\<close>: subscribers with history, recovery and
  detection, listeners of sample misses, and the older querying subscriber.
\<close>

subsection \<open>Options\<close>

record ze_advanced_subscriber_history_options_t =
  ash_is_enabled :: bool
  ash_detect_late_publishers :: bool
  ash_max_samples :: usize
  ash_max_age_ms :: u64

definition advanced_subscriber_history_options_default :: ze_advanced_subscriber_history_options_t where
  "advanced_subscriber_history_options_default =
     \<lparr>ash_is_enabled = True, ash_detect_late_publishers = False, ash_max_samples = 0, ash_max_age_ms = 0\<rparr>"

definition ze_advanced_subscriber_history_options_default :: ze_advanced_subscriber_history_options_t where
  "ze_advanced_subscriber_history_options_default = advanced_subscriber_history_options_default"

text \<open>The age is handed over in seconds, \<open>max_age_ms as f64 / 1000.0\<close>; it is kept in milliseconds here.\<close>

datatype history_setting = HDetectLatePublishers | HMaxSamples usize | HMaxAgeMs u64

definition history_config :: "ze_advanced_subscriber_history_options_t \<Rightarrow> history_setting list" where
  "history_config v =
     (if ash_detect_late_publishers v then [HDetectLatePublishers] else [])
     @ (if ash_max_samples v > 0 then [HMaxSamples (ash_max_samples v)] else [])
     @ (if ash_max_age_ms v > 0 then [HMaxAgeMs (ash_max_age_ms v)] else [])"

record ze_advanced_subscriber_last_sample_miss_detection_options_t =
  asm_is_enabled :: bool
  asm_periodic_queries_period_ms :: u64

definition advanced_subscriber_last_sample_miss_detection_options_default ::
  ze_advanced_subscriber_last_sample_miss_detection_options_t where
  "advanced_subscriber_last_sample_miss_detection_options_default =
     \<lparr>asm_is_enabled = True, asm_periodic_queries_period_ms = 0\<rparr>"

definition ze_advanced_subscriber_last_sample_miss_detection_options_default ::
  ze_advanced_subscriber_last_sample_miss_detection_options_t where
  "ze_advanced_subscriber_last_sample_miss_detection_options_default =
     advanced_subscriber_last_sample_miss_detection_options_default"

record ze_advanced_subscriber_recovery_options_t =
  asr_is_enabled :: bool
  asr_last_sample_miss_detection :: ze_advanced_subscriber_last_sample_miss_detection_options_t

definition advanced_subscriber_recovery_options_default :: ze_advanced_subscriber_recovery_options_t where
  "advanced_subscriber_recovery_options_default = \<lparr>asr_is_enabled = True,
     asr_last_sample_miss_detection =
       advanced_subscriber_last_sample_miss_detection_options_default\<lparr>asm_is_enabled := False\<rparr>\<rparr>"

definition ze_advanced_subscriber_recovery_options_default :: ze_advanced_subscriber_recovery_options_t where
  "ze_advanced_subscriber_recovery_options_default = advanced_subscriber_recovery_options_default"

record 'k ze_advanced_subscriber_options_t =
  as_subscriber_options :: z_subscriber_options_t
  as_history :: ze_advanced_subscriber_history_options_t
  as_recovery :: ze_advanced_subscriber_recovery_options_t
  as_query_timeout_ms :: u64
  as_subscriber_detection :: bool
  as_subscriber_detection_metadata :: "'k option"

definition ze_advanced_subscriber_options_default :: "Locality \<Rightarrow> 'k ze_advanced_subscriber_options_t" where
  "ze_advanced_subscriber_options_default d = \<lparr>
     as_subscriber_options = z_subscriber_options_default d,
     as_history = advanced_subscriber_history_options_default\<lparr>ash_is_enabled := False\<rparr>,
     as_recovery = advanced_subscriber_recovery_options_default\<lparr>asr_is_enabled := False\<rparr>,
     as_query_timeout_ms = 0, as_subscriber_detection = False, as_subscriber_detection_metadata = None\<rparr>"

subsection \<open>Advanced subscribers\<close>

datatype recovery_setting = RHeartbeat | RPeriodicQueries u64

datatype 'k adv_sub_setting =
    AQueryTimeout u64
  | ASubscriberDetection
  | ASubscriberDetectionMetadata 'k
  | AHistory "history_setting list"
  | ARecovery "recovery_setting list"

definition advanced_subscriber_settings :: "'k ze_advanced_subscriber_options_t \<Rightarrow> 'k adv_sub_setting list" where
  "advanced_subscriber_settings opts =
     (if as_query_timeout_ms opts > 0 then [AQueryTimeout (as_query_timeout_ms opts)] else [])
     @ (if as_subscriber_detection opts then [ASubscriberDetection] else [])
     @ opt_setting ASubscriberDetectionMetadata (as_subscriber_detection_metadata opts)
     @ (if ash_is_enabled (as_history opts) then [AHistory (history_config (as_history opts))] else [])
     @ (if asr_is_enabled (as_recovery opts) then
          (let miss = asr_last_sample_miss_detection (as_recovery opts) in
           if asm_is_enabled miss then
             (if asm_periodic_queries_period_ms miss = 0 then [ARecovery [RHeartbeat]]
              else [ARecovery [RPeriodicQueries (asm_periodic_queries_period_ms miss)]])
           else [ARecovery []])
        else [])"

definition declare_advanced_subscriber_inner ::
  "'k \<Rightarrow> closure \<Rightarrow> 'k ze_advanced_subscriber_options_t option
   \<Rightarrow> ('k sub_builder \<times> 'k adv_sub_setting list) \<times> closure" where
  "declare_advanced_subscriber_inner key_expr callback options =
    (let (sub, callback) = declare_subscriber_inner key_expr callback (map_option as_subscriber_options options)
     in ((sub, case options of None \<Rightarrow> [] | Some opts \<Rightarrow> advanced_subscriber_settings opts), callback))"

definition ze_internal_advanced_subscriber_null :: "'p option" where
  "ze_internal_advanced_subscriber_null = None"

definition ze_advanced_subscriber_loan :: "'p option \<Rightarrow> 'p run" where
  "ze_advanced_subscriber_loan this = loan_option this"

definition ze_internal_advanced_subscriber_check :: "'p option \<Rightarrow> bool" where
  "ze_internal_advanced_subscriber_check this \<longleftrightarrow> this \<noteq> None"

definition ze_declare_advanced_subscriber ::
  "('k sub_builder \<times> 'k adv_sub_setting list \<Rightarrow> wait_error + 'p) \<Rightarrow> 'k \<Rightarrow> closure
   \<Rightarrow> 'k ze_advanced_subscriber_options_t option \<Rightarrow> (z_result_t \<times> 'p option) \<times> closure" where
  "ze_declare_advanced_subscriber wait key_expr callback options =
    (let (s, callback) = declare_advanced_subscriber_inner key_expr callback options
     in (declare_result (wait s), callback))"

definition ze_declare_background_advanced_subscriber ::
  "('k sub_builder \<times> 'k adv_sub_setting list \<Rightarrow> wait_error + unit) \<Rightarrow> 'k \<Rightarrow> closure
   \<Rightarrow> 'k ze_advanced_subscriber_options_t option \<Rightarrow> z_result_t \<times> closure" where
  "ze_declare_background_advanced_subscriber background_wait key_expr callback options =
    (let (s, callback) = declare_advanced_subscriber_inner key_expr callback options
     in (generic_result (background_wait s), callback))"

definition ze_undeclare_advanced_subscriber ::
  "('p \<Rightarrow> 'w \<Rightarrow> (wait_error + unit) \<times> 'w) \<Rightarrow> 'p option \<Rightarrow> 'w \<Rightarrow> z_result_t \<times> 'p option \<times> 'w" where
  "ze_undeclare_advanced_subscriber undeclare this w = undeclare_entity Z_EGENERIC undeclare this w"

definition ze_advanced_subscriber_drop ::
  "('p \<Rightarrow> 'w \<Rightarrow> (wait_error + unit) \<times> 'w) \<Rightarrow> 'p option \<Rightarrow> 'w \<Rightarrow> 'p option \<times> 'w" where
  "ze_advanced_subscriber_drop undeclare this w = snd (ze_undeclare_advanced_subscriber undeclare this w)"

definition advanced_subscriber_api ::
  "'k \<Rightarrow> closure \<Rightarrow> 'k ze_advanced_subscriber_options_t option \<Rightarrow> ('p, 'w) entity_api" where
  "advanced_subscriber_api k callback options = \<lparr>
     api_declare = (\<lambda>r _. fst (ze_declare_advanced_subscriber (\<lambda>_. r) k callback options)),
     api_null = ze_internal_advanced_subscriber_null, api_check = ze_internal_advanced_subscriber_check,
     api_undeclare = ze_undeclare_advanced_subscriber, api_drop = ze_advanced_subscriber_drop\<rparr>"

interpretation asub: entity_kind "advanced_subscriber_api k callback options"
  by unfold_locales
     (simp_all add: advanced_subscriber_api_def ze_declare_advanced_subscriber_def split_beta
        ze_internal_advanced_subscriber_null_def ze_internal_advanced_subscriber_check_def
        ze_undeclare_advanced_subscriber_def ze_advanced_subscriber_drop_def entity_laws)

definition ze_advanced_subscriber_keyexpr :: "('p \<Rightarrow> 'k) \<Rightarrow> 'p \<Rightarrow> 'k" where
  "ze_advanced_subscriber_keyexpr key_expr subscriber = key_expr subscriber"

definition ze_advanced_subscriber_id :: "('p \<Rightarrow> 'g) \<Rightarrow> 'p \<Rightarrow> 'g" where
  "ze_advanced_subscriber_id id_of subscriber = id_of subscriber"

subsection \<open>Sample miss listeners\<close>

record 'g ze_miss_t =
  miss_source :: 'g
  miss_nb :: u32

definition ze_internal_sample_miss_listener_null :: "'p option" where
  "ze_internal_sample_miss_listener_null = None"

definition ze_internal_sample_miss_listener_check :: "'p option \<Rightarrow> bool" where
  "ze_internal_sample_miss_listener_check this \<longleftrightarrow> this \<noteq> None"

definition ze_undeclare_sample_miss_listener ::
  "('p \<Rightarrow> 'w \<Rightarrow> (wait_error + unit) \<times> 'w) \<Rightarrow> 'p option \<Rightarrow> 'w \<Rightarrow> z_result_t \<times> 'p option \<times> 'w" where
  "ze_undeclare_sample_miss_listener undeclare this w = undeclare_entity Z_ENETWORK undeclare this w"

definition ze_sample_miss_listener_drop ::
  "('p \<Rightarrow> 'w \<Rightarrow> (wait_error + unit) \<times> 'w) \<Rightarrow> 'p option \<Rightarrow> 'w \<Rightarrow> 'p option \<times> 'w" where
  "ze_sample_miss_listener_drop undeclare this w = snd (ze_undeclare_sample_miss_listener undeclare this w)"

text \<open>The Rust callback around the C closure it captured: zenoh's miss becomes the C struct.\<close>

definition miss_callback :: "closure \<Rightarrow> 'g \<Rightarrow> u32 \<Rightarrow> 'g ze_miss_t event list \<Rightarrow> 'g ze_miss_t event list" where
  "miss_callback callback source nb tr =
     ze_closure_miss_call (ze_closure_miss_loan callback) \<lparr>miss_source = source, miss_nb = nb\<rparr> tr"

definition advanced_subscriber_sample_miss_listener_declare_inner :: "closure \<Rightarrow> closure \<times> closure" where
  "advanced_subscriber_sample_miss_listener_declare_inner callback = closure_take_c_type callback"

definition ze_advanced_subscriber_declare_sample_miss_listener ::
  "(closure \<Rightarrow> wait_error + 'p) \<Rightarrow> closure \<Rightarrow> (z_result_t \<times> 'p option) \<times> closure" where
  "ze_advanced_subscriber_declare_sample_miss_listener wait callback =
    (let (listener, callback) = advanced_subscriber_sample_miss_listener_declare_inner callback
     in (declare_result (wait listener), callback))"

definition ze_advanced_subscriber_declare_background_sample_miss_listener ::
  "(closure \<Rightarrow> wait_error + unit) \<Rightarrow> closure \<Rightarrow> z_result_t \<times> closure" where
  "ze_advanced_subscriber_declare_background_sample_miss_listener background_wait callback =
    (let (listener, callback) = advanced_subscriber_sample_miss_listener_declare_inner callback
     in (generic_result (background_wait listener), callback))"

definition sample_miss_listener_api :: "closure \<Rightarrow> ('p, 'w) entity_api" where
  "sample_miss_listener_api callback = \<lparr>
     api_declare = (\<lambda>r _. fst (ze_advanced_subscriber_declare_sample_miss_listener (\<lambda>_. r) callback)),
     api_null = ze_internal_sample_miss_listener_null, api_check = ze_internal_sample_miss_listener_check,
     api_undeclare = ze_undeclare_sample_miss_listener, api_drop = ze_sample_miss_listener_drop\<rparr>"

interpretation miss: entity_kind "sample_miss_listener_api callback"
  by unfold_locales
     (simp_all add: sample_miss_listener_api_def ze_advanced_subscriber_declare_sample_miss_listener_def split_beta
        ze_internal_sample_miss_listener_null_def ze_internal_sample_miss_listener_check_def
        ze_undeclare_sample_miss_listener_def ze_sample_miss_listener_drop_def entity_laws)

subsection \<open>Detection of publishers\<close>

text \<open>The liveliness subscriber is on the advanced subscriber, \<open>s\<close>.\<close>

definition advanced_subscriber_detect_publishers_inner ::
  "'s \<Rightarrow> closure \<Rightarrow> z_liveliness_subscriber_options_t option \<Rightarrow> 's sub_builder \<times> closure" where
  "advanced_subscriber_detect_publishers_inner s callback options =
    (let (cb, callback) = closure_take_c_type callback in
     (LivelinessSubscriberB s cb (case options of None \<Rightarrow> False | Some o' \<Rightarrow> history o'), callback))"

definition ze_advanced_subscriber_detect_publishers ::
  "('s sub_builder \<Rightarrow> wait_error + 'p) \<Rightarrow> 's \<Rightarrow> closure \<Rightarrow> z_liveliness_subscriber_options_t option
   \<Rightarrow> (z_result_t \<times> 'p option) \<times> closure" where
  "ze_advanced_subscriber_detect_publishers wait s callback options =
    (let (b, callback) = advanced_subscriber_detect_publishers_inner s callback options
     in (declare_result (wait b), callback))"

definition ze_advanced_subscriber_detect_publishers_background ::
  "('s sub_builder \<Rightarrow> wait_error + unit) \<Rightarrow> 's \<Rightarrow> closure \<Rightarrow> z_liveliness_subscriber_options_t option
   \<Rightarrow> z_result_t \<times> closure" where
  "ze_advanced_subscriber_detect_publishers_background background_wait s callback options =
    (let (b, callback) = advanced_subscriber_detect_publishers_inner s callback options
     in (generic_result (background_wait b), callback))"

text \<open>As a kind of entity: the slot is that of a subscriber.\<close>

definition detect_publishers_api :: "'s \<Rightarrow> closure \<Rightarrow> z_liveliness_subscriber_options_t option \<Rightarrow> ('p, 'w) entity_api" where
  "detect_publishers_api s callback options = \<lparr>
     api_declare = (\<lambda>r _. fst (ze_advanced_subscriber_detect_publishers (\<lambda>_. r) s callback options)),
     api_null = z_internal_subscriber_null, api_check = z_internal_subscriber_check,
     api_undeclare = z_undeclare_subscriber, api_drop = z_subscriber_drop\<rparr>"

interpretation detect: entity_kind "detect_publishers_api s callback options"
  by unfold_locales
     (simp_all add: detect_publishers_api_def ze_advanced_subscriber_detect_publishers_def split_beta
        z_internal_subscriber_null_def z_internal_subscriber_check_def z_undeclare_subscriber_def
        z_subscriber_drop_def entity_laws)

subsection \<open>Querying subscribers\<close>

definition ze_internal_querying_subscriber_null :: "'p option" where
  "ze_internal_querying_subscriber_null = None"

record 'k ze_querying_subscriber_options_t =
  qs_allowed_origin :: z_locality_t
  qs_query_selector :: "'k option"
  qs_query_target :: z_query_target_t
  qs_query_consolidation :: z_query_consolidation_t
  qs_query_accept_replies :: z_reply_keyexpr_t
  qs_query_timeout_ms :: u64

definition ze_querying_subscriber_options_default :: "'qc query_defaults \<Rightarrow> 'k ze_querying_subscriber_options_t" where
  "ze_querying_subscriber_options_default d = \<lparr>qs_allowed_origin = z_locality_from_rust (default_locality d),
     qs_query_selector = None, qs_query_target = z_query_target_default d,
     qs_query_consolidation = z_query_consolidation_none (consolidation_of d),
     qs_query_accept_replies = z_reply_keyexpr_default d, qs_query_timeout_ms = 0\<rparr>"

datatype ('k, 'qc) querying_setting =
    QSTarget QueryTarget
  | QSConsolidation 'qc
  | QSAllowedOrigin Locality
  | QSAcceptReplies ReplyKeyExpr
  | QSSelector 'k
  | QSTimeout u64

datatype ('k, 'qc) querying_builder = QueryingSubscriberB 'k closure "('k, 'qc) querying_setting list"

definition declare_querying_subscriber_inner ::
  "'qc consolidation_ops \<Rightarrow> 'k \<Rightarrow> closure \<Rightarrow> 'k ze_querying_subscriber_options_t option
   \<Rightarrow> ('k, 'qc) querying_builder \<times> closure" where
  "declare_querying_subscriber_inner Q key_expr callback options =
    (let (cb, callback) = closure_take_c_type callback in
     (QueryingSubscriberB key_expr cb (case options of
        None \<Rightarrow> []
      | Some opts \<Rightarrow>
          [QSTarget (z_query_target_to_rust (qs_query_target opts)),
           QSConsolidation (z_query_consolidation_to_rust Q (qs_query_consolidation opts)),
           QSAllowedOrigin (z_locality_to_rust (qs_allowed_origin opts)),
           QSAcceptReplies (z_reply_keyexpr_to_rust (qs_query_accept_replies opts))]
          @ opt_setting QSSelector (qs_query_selector opts)
          @ (if qs_query_timeout_ms opts \<noteq> 0 then [QSTimeout (qs_query_timeout_ms opts)] else [])), callback))"

text \<open>The subscriber is kept with its session.\<close>

definition ze_declare_querying_subscriber ::
  "'qc consolidation_ops \<Rightarrow> (('k, 'qc) querying_builder \<Rightarrow> wait_error + 'p) \<Rightarrow> 'ses \<Rightarrow> 'k \<Rightarrow> closure
   \<Rightarrow> 'k ze_querying_subscriber_options_t option \<Rightarrow> (z_result_t \<times> ('p \<times> 'ses) option) \<times> closure" where
  "ze_declare_querying_subscriber Q wait session key_expr callback options =
    (let (sub, callback) = declare_querying_subscriber_inner Q key_expr callback options
     in (case wait sub of Inr sub \<Rightarrow> (Z_OK, Some (sub, session)) | Inl _ \<Rightarrow> (Z_EGENERIC, None), callback))"

definition ze_declare_background_querying_subscriber ::
  "'qc consolidation_ops \<Rightarrow> (('k, 'qc) querying_builder \<Rightarrow> wait_error + unit) \<Rightarrow> 'k \<Rightarrow> closure
   \<Rightarrow> 'k ze_querying_subscriber_options_t option \<Rightarrow> z_result_t \<times> closure" where
  "ze_declare_background_querying_subscriber Q background_wait key_expr callback options =
    (let (sub, callback) = declare_querying_subscriber_inner Q key_expr callback options
     in (generic_result (background_wait sub), callback))"

text \<open>The additional query. \<open>fetch\<close> of \<open>zenoh_ext\<close> calls the function it is given with the callback of
  the subscriber (\<open>Some cb\<close>) or fails without calling it (\<open>None\<close>); \<open>fetch_wait\<close> is the outcome, given
  that of the query. The cancellation token of the options is neither taken nor applied.\<close>

datatype ('k, 'cb, 'b, 'e, 'si, 't, 'qc) fetch_builder =
  FetchGetB 'k 'cb "('b, 'e, 'si, 't, 'qc) qsetting list"

definition apply_fetch_options ::
  "'b \<Rightarrow> 'e \<Rightarrow> 'qc consolidation_ops \<Rightarrow> 'si z_get_options_t \<Rightarrow> ('b, 'e, 't) query_objects
   \<Rightarrow> ('b, 'e, 'si, 't, 'qc) qsetting list \<times> 'si z_get_options_t \<times> ('b, 'e, 't) query_objects" where
  "apply_fetch_options gb ge Q opts os =
    (let (pl, os) = take_opt_bytes gb (get_payload opts) os;
         (enc, os) = take_opt_enc ge (get_encoding opts) os;
         (att, os) = take_opt_bytes gb (get_attachment opts) os
     in (opt_setting QPayload pl @ opt_setting QEncoding enc @ opt_setting QAttachment att
           @ [QConsolidation (z_query_consolidation_to_rust Q (get_consolidation opts)),
              QTarget (z_query_target_to_rust (get_target opts)),
              QCongestionControl (z_congestion_control_to_rust (get_congestion_control opts)),
              QPriority (z_priority_to_rust (get_priority opts)),
              QExpress (get_is_express opts),
              QAllowedDestination (z_locality_to_rust (get_allowed_destination opts)),
              QAcceptReplies (z_reply_keyexpr_to_rust (get_accept_replies opts))]
           @ opt_setting QSourceInfo (get_source_info opts)
           @ timeout_setting (get_timeout_ms opts),
         opts\<lparr>get_payload := None, get_encoding := None, get_attachment := None\<rparr>, os))"

definition ze_querying_subscriber_get ::
  "'b \<Rightarrow> 'e \<Rightarrow> 'qc consolidation_ops \<Rightarrow> 'cb option
   \<Rightarrow> (('k, 'cb, 'b, 'e, 'si, 't, 'qc) fetch_builder \<Rightarrow> wait_error + unit)
   \<Rightarrow> ((wait_error + unit) option \<Rightarrow> wait_error + unit) \<Rightarrow> 'k \<Rightarrow> 'si z_get_options_t option
   \<Rightarrow> ('b, 'e, 't) query_objects
   \<Rightarrow> z_result_t \<times> ('k, 'cb, 'b, 'e, 'si, 't, 'qc) fetch_builder option \<times> 'si z_get_options_t option
      \<times> ('b, 'e, 't) query_objects" where
  "ze_querying_subscriber_get gb ge Q fetch_cb wait fetch_wait selector options os = (case fetch_cb of
     None \<Rightarrow> (generic_result (fetch_wait None), None, options, os)
   | Some cb \<Rightarrow>
       (let (ss, options, os) = (case options of
              None \<Rightarrow> ([], None, os)
            | Some opts \<Rightarrow> (let (ss, opts, os) = apply_fetch_options gb ge Q opts os in (ss, Some opts, os)));
            b = FetchGetB selector cb ss
        in (generic_result (fetch_wait (Some (wait b))), Some b, options, os)))"

definition ze_querying_subscriber_drop ::
  "('p \<times> 'ses \<Rightarrow> 'w \<Rightarrow> 'w run) \<Rightarrow> ('p \<times> 'ses) option \<Rightarrow> 'w \<Rightarrow> (('p \<times> 'ses) option \<times> 'w) run" where
  "ze_querying_subscriber_drop drp this w = moved_drop gravestone_option (drop_option drp) this w"

definition ze_internal_querying_subscriber_check :: "'p option \<Rightarrow> bool" where
  "ze_internal_querying_subscriber_check this \<longleftrightarrow> this \<noteq> None"

definition ze_querying_subscriber_loan :: "'p option \<Rightarrow> 'p run" where
  "ze_querying_subscriber_loan this = loan_option this"

definition ze_undeclare_querying_subscriber ::
  "('p \<Rightarrow> 'w \<Rightarrow> (wait_error + unit) \<times> 'w) \<Rightarrow> ('p \<times> 'ses) option \<Rightarrow> 'w
   \<Rightarrow> z_result_t \<times> ('p \<times> 'ses) option \<times> 'w" where
  "ze_undeclare_querying_subscriber undeclare this w = undeclare_entity Z_EGENERIC (undeclare \<circ> fst) this w"

text \<open>As a kind of entity: the session that is kept beside the subscriber is left out of the slot. Zenoh's \<open>Drop\<close> of the
  subscriber undeclares it and ignores the result.\<close>

definition with_session :: "'ses \<Rightarrow> 'p option \<Rightarrow> ('p \<times> 'ses) option" where
  "with_session session = map_option (\<lambda>p. (p, session))"

definition querying_subscriber_api ::
  "'qc consolidation_ops \<Rightarrow> 'ses \<Rightarrow> 'k \<Rightarrow> closure \<Rightarrow> 'k ze_querying_subscriber_options_t option \<Rightarrow> ('p, 'w) entity_api" where
  "querying_subscriber_api Q session k callback options = \<lparr>
     api_declare = (\<lambda>r _. map_prod id (map_option fst)
       (fst (ze_declare_querying_subscriber Q (\<lambda>_. r) session k callback options))),
     api_null = ze_internal_querying_subscriber_null, api_check = ze_internal_querying_subscriber_check,
     api_undeclare = (\<lambda>undeclare this w. map_prod id (map_prod (map_option fst) id)
       (ze_undeclare_querying_subscriber undeclare (with_session session this) w)),
     api_drop = (\<lambda>undeclare this w. map_prod (map_option fst) id
       (the (ze_querying_subscriber_drop (\<lambda>p w. ret (snd (undeclare (fst p) w))) (with_session session this) w)))\<rparr>"

lemma querying_undeclare_entity:
  "map_prod id (map_prod (map_option fst) id) (ze_undeclare_querying_subscriber undeclare (with_session session this) w)
    = undeclare_entity Z_EGENERIC undeclare this w"
  by (cases this) (simp_all add: ze_undeclare_querying_subscriber_def with_session_def undeclare_entity_def take_rust_type_def
      take_c_type_def mem_replace_def gravestone_option_def split: prod.splits sum.splits)

lemma querying_drop_entity:
  "map_prod (map_option fst) id (the (ze_querying_subscriber_drop (\<lambda>p w. ret (snd (undeclare (fst p) w))) (with_session session this) w))
    = snd (undeclare_entity Z_EGENERIC undeclare this w)"
  by (cases this) (simp_all add: ze_querying_subscriber_drop_def with_session_def undeclare_entity_snd drop_option_def
      opt.moved_drop_eq [unfolded gravestone_option_def] gravestone_option_def)

interpretation qsub: entity_kind "querying_subscriber_api Q session k callback options"
  by unfold_locales
     (simp_all add: querying_subscriber_api_def ze_declare_querying_subscriber_def split_beta
        ze_internal_querying_subscriber_null_def ze_internal_querying_subscriber_check_def querying_undeclare_entity
        querying_drop_entity entity_laws)

subsection \<open>Properties\<close>

text \<open>The additional query of a querying subscriber is a get without its cancellation token. When
  zenoh runs it, the query carries the settings of a get with the same options less the token, and it
  takes the payload, encoding and attachment; but the token stays in the caller's object and in the
  options, so that cancelling it has no effect on the query.\<close>

lemma querying_get_ignores_token:
  "\<exists>ss. ze_querying_subscriber_get gb ge Q (Some cb) wait fetch_wait selector (Some opts) os
      = (generic_result (fetch_wait (Some (wait (FetchGetB selector cb ss)))), Some (FetchGetB selector cb ss),
         Some ((get_options_taken opts)\<lparr>get_cancellation_token := get_cancellation_token opts\<rparr>),
         (snd (snd (apply_get_options gb ge Q (opts\<lparr>get_cancellation_token := None\<rparr>) os))))
    \<and> mset ss = mset (fst (apply_get_options gb ge Q (opts\<lparr>get_cancellation_token := None\<rparr>) os))
    \<and> (\<forall>t0. QCancellationToken t0 \<notin> set ss)
    \<and> token_at (snd (snd (snd (ze_querying_subscriber_get gb ge Q (Some cb) wait fetch_wait selector (Some opts) os))))
      = token_at os"
  by (cases "get_payload opts"; cases "get_encoding opts"; cases "get_attachment opts")
     (auto simp: ze_querying_subscriber_get_def apply_fetch_options_def apply_get_options_def get_options_taken_def
      query_take_defs opt_setting_def timeout_setting_def split_beta Let_def split: option.splits)

end
