(* ===== verification/Info.thy ===== *)
theory Info
  imports Slices Commons Subscribers
begin

text \<open>
  \<open>src/info.rs\<close> and \<open>src/scouting.rs\<close>: identifiers, transports, links, their event listeners, and
  scouting (with the \<open>unstable\<close> and \<open>shared-memory\<close> features on).

  Transports, links, events and hellos are zenoh's; the functions that read them are fields of the
  records of operations. A function that calls the closure for every item does so in a loop over
  what zenoh listed, and drops the closure when it returns.
\<close>

subsection \<open>Identifiers\<close>

definition z_id_to_string :: "('z \<Rightarrow> u8 list) \<Rightarrow> 'z \<Rightarrow> heap \<Rightarrow> cslice \<times> heap" where
  "z_id_to_string to_string zid h = CString_from_string (to_string zid) h"

definition z_info_zid :: "('s \<Rightarrow> 'z) \<Rightarrow> 's \<Rightarrow> 'z" where
  "z_info_zid zid session = zid session"

text \<open>The loops: a closure called on every item, in order, and dropped at the end.\<close>

fun call_each :: "(closure \<Rightarrow> 'a \<Rightarrow> 'a event list \<Rightarrow> 'a event list) \<Rightarrow> closure \<Rightarrow> 'a list \<Rightarrow> 'a event list \<Rightarrow> 'a event list" where
  "call_each call callback [] tr = tr"
| "call_each call callback (x # xs) tr = call_each call callback xs (call callback x tr)"

definition z_info_peers_zid ::
  "'a list \<Rightarrow> closure \<Rightarrow> 'a event list \<Rightarrow> (z_result_t \<times> closure \<times> 'a event list) run" where
  "z_info_peers_zid peers callback tr = do {
     let (cb, callback) = closure_take_c_type callback;
     tr \<leftarrow> closure_drop cb (call_each (\<lambda>c. z_closure_zid_call (z_closure_zid_loan c)) cb peers tr);
     ret (Z_OK, callback, tr)
   }"

definition z_info_routers_zid ::
  "'a list \<Rightarrow> closure \<Rightarrow> 'a event list \<Rightarrow> (z_result_t \<times> closure \<times> 'a event list) run" where
  "z_info_routers_zid routers callback tr = do {
     let (cb, callback) = closure_take_c_type callback;
     tr \<leftarrow> closure_drop cb (call_each (\<lambda>c. z_closure_zid_call (z_closure_zid_loan c)) cb routers tr);
     ret (Z_OK, callback, tr)
   }"

subsection \<open>Transports\<close>

record ('t, 'z) transport_ops =
  tr_zid :: "'t \<Rightarrow> 'z"
  tr_whatami :: "'t \<Rightarrow> WhatAmI"
  tr_is_qos :: "'t \<Rightarrow> bool"
  tr_is_multicast :: "'t \<Rightarrow> bool"
  tr_is_shm :: "'t \<Rightarrow> bool"
  tr_clone :: "'t \<Rightarrow> 't"
  tr_empty :: 't
  tr_new_from_fields :: "'z \<Rightarrow> WhatAmI \<Rightarrow> bool \<Rightarrow> bool \<Rightarrow> bool \<Rightarrow> 't"

definition z_transport_zid :: "('t, 'z) transport_ops \<Rightarrow> 't \<Rightarrow> 'z" where
  "z_transport_zid T this = tr_zid T this"

definition z_transport_whatami :: "('t, 'z) transport_ops \<Rightarrow> 't \<Rightarrow> z_whatami_t" where
  "z_transport_whatami T this = (case tr_whatami T this of
     WhatAmI_Router \<Rightarrow> WAI_ROUTER | WhatAmI_Peer \<Rightarrow> WAI_PEER | WhatAmI_Client \<Rightarrow> WAI_CLIENT)"

definition z_transport_is_qos :: "('t, 'z) transport_ops \<Rightarrow> 't \<Rightarrow> bool" where
  "z_transport_is_qos T this = tr_is_qos T this"

definition z_transport_is_multicast :: "('t, 'z) transport_ops \<Rightarrow> 't \<Rightarrow> bool" where
  "z_transport_is_multicast T this = tr_is_multicast T this"

definition z_transport_is_shm :: "('t, 'z) transport_ops \<Rightarrow> 't \<Rightarrow> bool" where
  "z_transport_is_shm T this = tr_is_shm T this"

fun whatami_to_rust :: "z_whatami_t \<Rightarrow> WhatAmI" where
  "whatami_to_rust WAI_ROUTER = WhatAmI_Router"
| "whatami_to_rust WAI_PEER = WhatAmI_Peer"
| "whatami_to_rust WAI_CLIENT = WhatAmI_Client"

text \<open>The constructor without shared memory has a \<open>new_from_fields\<close> of four arguments.\<close>

definition zc_internal_create_transport ::
  "('z \<Rightarrow> WhatAmI \<Rightarrow> bool \<Rightarrow> bool \<Rightarrow> 't) \<Rightarrow> 'z \<Rightarrow> z_whatami_t \<Rightarrow> bool \<Rightarrow> bool \<Rightarrow> 't option" where
  "zc_internal_create_transport new_from_fields zid whatami is_qos is_multicast =
     Some (new_from_fields zid (whatami_to_rust whatami) is_qos is_multicast)"

definition zc_internal_create_transport_shm ::
  "('t, 'z) transport_ops \<Rightarrow> 'z \<Rightarrow> z_whatami_t \<Rightarrow> bool \<Rightarrow> bool \<Rightarrow> bool \<Rightarrow> 't option" where
  "zc_internal_create_transport_shm T zid whatami is_qos is_multicast is_shm =
     Some (tr_new_from_fields T zid (whatami_to_rust whatami) is_qos is_multicast is_shm)"

definition z_internal_transport_null :: "'p option" where
  "z_internal_transport_null = None"

definition z_internal_transport_check :: "'p option \<Rightarrow> bool" where
  "z_internal_transport_check this \<longleftrightarrow> this \<noteq> None"

definition z_transport_drop :: "('p \<Rightarrow> 'w \<Rightarrow> 'w run) \<Rightarrow> 'p option \<Rightarrow> 'w \<Rightarrow> ('p option \<times> 'w) run" where
  "z_transport_drop drp this w = moved_drop gravestone_option (drop_option drp) this w"

definition z_transport_loan :: "'p option \<Rightarrow> 'p run" where
  "z_transport_loan this = loan_option this"

definition z_transport_loan_mut :: "'p option \<Rightarrow> 'p run" where
  "z_transport_loan_mut this = loan_option this"

definition z_transport_take_from_loaned :: "'p \<Rightarrow> 'p \<Rightarrow> 'p option \<times> 'p" where
  "z_transport_take_from_loaned empty_transport src = (let (old, src) = mem_replace src empty_transport in (Some old, src))"

definition z_transport_clone :: "('p \<Rightarrow> 'p) \<Rightarrow> 'p \<Rightarrow> 'p option" where
  "z_transport_clone clone_transport this = Some (clone_transport this)"

definition z_info_transports ::
  "'a list \<Rightarrow> closure \<Rightarrow> 'a event list \<Rightarrow> (z_result_t \<times> closure \<times> 'a event list) run" where
  "z_info_transports transports callback tr = do {
     let (cb, callback) = closure_take_c_type callback;
     tr \<leftarrow> closure_drop cb (call_each (\<lambda>c. z_closure_transport_call (z_closure_transport_loan c)) cb transports tr);
     ret (Z_OK, callback, tr)
   }"

subsection \<open>Links\<close>

record ('l, 'z) link_ops =
  ln_zid :: "'l \<Rightarrow> 'z"
  ln_src :: "'l \<Rightarrow> u8 list"
  ln_dst :: "'l \<Rightarrow> u8 list"
  ln_group :: "'l \<Rightarrow> u8 list option"
  ln_mtu :: "'l \<Rightarrow> u16"
  ln_is_streamed :: "'l \<Rightarrow> bool"
  ln_interfaces :: "'l \<Rightarrow> (ptr \<times> usize) list"
  ln_auth_identifier :: "'l \<Rightarrow> u8 list option"
  ln_priorities :: "'l \<Rightarrow> (u8 \<times> u8) option"
  ln_reliability :: "'l \<Rightarrow> Reliability option"

definition z_internal_link_null :: "'p option" where
  "z_internal_link_null = None"

definition z_internal_link_check :: "'p option \<Rightarrow> bool" where
  "z_internal_link_check this \<longleftrightarrow> this \<noteq> None"

definition z_link_drop :: "('p \<Rightarrow> 'w \<Rightarrow> 'w run) \<Rightarrow> 'p option \<Rightarrow> 'w \<Rightarrow> ('p option \<times> 'w) run" where
  "z_link_drop drp this w = moved_drop gravestone_option (drop_option drp) this w"

definition z_link_loan :: "'p option \<Rightarrow> 'p run" where
  "z_link_loan this = loan_option this"

definition z_link_loan_mut :: "'p option \<Rightarrow> 'p run" where
  "z_link_loan_mut this = loan_option this"

definition z_link_take_from_loaned :: "'p \<Rightarrow> 'p \<Rightarrow> 'p option \<times> 'p" where
  "z_link_take_from_loaned empty_link src = (let (old, src) = mem_replace src empty_link in (Some old, src))"

definition z_link_clone :: "('p \<Rightarrow> 'p) \<Rightarrow> 'p \<Rightarrow> 'p option" where
  "z_link_clone clone_link this = Some (clone_link this)"

text \<open>The caller's transports are in slots, so that the options point to one of them.\<close>

record z_info_links_options_t =
  il_transport :: "nat option"

definition z_info_links_options_default :: z_info_links_options_t where
  "z_info_links_options_default = \<lparr>il_transport = None\<rparr>"

definition take_transport :: "nat option \<Rightarrow> (nat \<Rightarrow> 't option) \<Rightarrow> 't option \<times> (nat \<Rightarrow> 't option)" where
  "take_transport p ts = (case p of
     None \<Rightarrow> (None, ts)
   | Some a \<Rightarrow> (let (x, rest) = take_rust_type gravestone_option (ts a) in (x, ts(a := rest))))"

text \<open>\<open>links\<close> lists the links of the session, of one transport when it is given.\<close>

definition z_info_links ::
  "('t option \<Rightarrow> 'l list) \<Rightarrow> closure \<Rightarrow> z_info_links_options_t option \<Rightarrow> (nat \<Rightarrow> 't option) \<Rightarrow> 'l event list
   \<Rightarrow> (z_result_t \<times> closure \<times> z_info_links_options_t option \<times> (nat \<Rightarrow> 't option) \<times> 'l event list) run" where
  "z_info_links links callback options ts tr = do {
     let (cb, callback) = closure_take_c_type callback;
     let (filt, ts) = take_transport (Option.bind options il_transport) ts;
     tr \<leftarrow> closure_drop cb (call_each (\<lambda>c. z_closure_link_call (z_closure_link_loan c)) cb (links filt) tr);
     ret (Z_OK, callback, map_option (\<lambda>o'. o'\<lparr>il_transport := None\<rparr>) options, ts, tr)
   }"

definition z_link_zid :: "('l, 'z) link_ops \<Rightarrow> 'l \<Rightarrow> 'z" where
  "z_link_zid L this = ln_zid L this"

definition z_link_src :: "('l, 'z) link_ops \<Rightarrow> 'l \<Rightarrow> heap \<Rightarrow> cslice \<times> heap" where
  "z_link_src L this h = CString_from_string (ln_src L this) h"

definition z_link_dst :: "('l, 'z) link_ops \<Rightarrow> 'l \<Rightarrow> heap \<Rightarrow> cslice \<times> heap" where
  "z_link_dst L this h = CString_from_string (ln_dst L this) h"

definition z_link_group :: "('l, 'z) link_ops \<Rightarrow> 'l \<Rightarrow> heap \<Rightarrow> cslice \<times> heap" where
  "z_link_group L this h = (case ln_group L this of
     Some g \<Rightarrow> CString_from_string g h | None \<Rightarrow> (CSlice_gravestone, h))"

definition z_link_mtu :: "('l, 'z) link_ops \<Rightarrow> 'l \<Rightarrow> u16" where
  "z_link_mtu L this = ln_mtu L this"

definition z_link_is_streamed :: "('l, 'z) link_ops \<Rightarrow> 'l \<Rightarrow> bool" where
  "z_link_is_streamed L this = ln_is_streamed L this"

text \<open>The strings of the array borrow the text of the link.\<close>

definition z_link_interfaces :: "('l, 'z) link_ops \<Rightarrow> 'l \<Rightarrow> zvector" where
  "z_link_interfaces L this = map (\<lambda>(p, n). CSlice_new_borrowed_unchecked p n) (ln_interfaces L this)"

definition z_link_auth_identifier :: "('l, 'z) link_ops \<Rightarrow> 'l \<Rightarrow> heap \<Rightarrow> cslice \<times> heap" where
  "z_link_auth_identifier L this h = (case ln_auth_identifier L this of
     Some s \<Rightarrow> CString_from_string s h | None \<Rightarrow> (CSlice_gravestone, h))"

text \<open>The outputs keep their values when there is nothing to write.\<close>

definition z_link_priorities :: "('l, 'z) link_ops \<Rightarrow> 'l \<Rightarrow> u8 \<Rightarrow> u8 \<Rightarrow> bool \<times> u8 \<times> u8" where
  "z_link_priorities L this min_out max_out = (case ln_priorities L this of
     Some (mn, mx) \<Rightarrow> (True, mn, mx) | None \<Rightarrow> (False, min_out, max_out))"

definition z_link_reliability :: "('l, 'z) link_ops \<Rightarrow> 'l \<Rightarrow> z_reliability_t \<Rightarrow> bool \<times> z_reliability_t" where
  "z_link_reliability L this reliability_out = (case ln_reliability L this of
     Some r \<Rightarrow> (True, z_reliability_from_rust r) | None \<Rightarrow> (False, reliability_out))"

subsection \<open>Transport events\<close>

record ('ev, 'p) transport_event_ops =
  transporte_kind :: "'ev \<Rightarrow> SampleKind"
  transporte_transport :: "'ev \<Rightarrow> 'p"

definition z_transport_event_kind :: "('ev, 'p) transport_event_ops \<Rightarrow> 'ev \<Rightarrow> z_sample_kind_t" where
  "z_transport_event_kind E event = z_sample_kind_from_rust (transporte_kind E event)"

definition z_transport_event_transport :: "('ev, 'p) transport_event_ops \<Rightarrow> 'ev \<Rightarrow> 'p" where
  "z_transport_event_transport E event = transporte_transport E event"

definition z_transport_event_transport_mut :: "('ev, 'p) transport_event_ops \<Rightarrow> 'ev \<Rightarrow> 'p" where
  "z_transport_event_transport_mut E event = transporte_transport E event"

definition z_internal_transport_event_null :: "'p option" where
  "z_internal_transport_event_null = None"

definition z_internal_transport_event_check :: "'p option \<Rightarrow> bool" where
  "z_internal_transport_event_check this \<longleftrightarrow> this \<noteq> None"

definition z_transport_event_drop :: "('p \<Rightarrow> 'w \<Rightarrow> 'w run) \<Rightarrow> 'p option \<Rightarrow> 'w \<Rightarrow> ('p option \<times> 'w) run" where
  "z_transport_event_drop drp this w = moved_drop gravestone_option (drop_option drp) this w"

definition z_transport_event_loan :: "'p option \<Rightarrow> 'p run" where
  "z_transport_event_loan this = loan_option this"

definition z_transport_event_loan_mut :: "'p option \<Rightarrow> 'p run" where
  "z_transport_event_loan_mut this = loan_option this"

definition z_transport_event_take_from_loaned :: "'p \<Rightarrow> 'p \<Rightarrow> 'p option \<times> 'p" where
  "z_transport_event_take_from_loaned empty_transport_event src = (let (old, src) = mem_replace src empty_transport_event in (Some old, src))"

text \<open>The Rust callback around the C closure it captured.\<close>

definition transport_event_callback :: "closure \<Rightarrow> 'ev \<Rightarrow> 'ev event list \<Rightarrow> 'ev event list" where
  "transport_event_callback callback event tr = z_closure_transport_event_call (z_closure_transport_event_loan callback) event tr"

record z_transport_events_listener_options_t =
  tel_history :: bool

definition z_transport_events_listener_options_default :: z_transport_events_listener_options_t where
  "z_transport_events_listener_options_default = \<lparr>tel_history = False\<rparr>"

definition declare_transport_events_listener_inner ::
  "closure \<Rightarrow> z_transport_events_listener_options_t option \<Rightarrow> (closure \<times> bool option) \<times> closure" where
  "declare_transport_events_listener_inner callback options =
    (let (cb, callback) = closure_take_c_type callback in ((cb, map_option tel_history options), callback))"

text \<open>On an error the output is not written: the slot keeps its contents, \<open>listener\<close>.\<close>

definition z_declare_transport_events_listener ::
  "(closure \<times> bool option \<Rightarrow> wait_error + 'p) \<Rightarrow> 'p option \<Rightarrow> closure \<Rightarrow> z_transport_events_listener_options_t option
   \<Rightarrow> (z_result_t \<times> 'p option) \<times> closure" where
  "z_declare_transport_events_listener wait listener callback options =
    (let (b, callback) = declare_transport_events_listener_inner callback options
     in (case wait b of Inr l \<Rightarrow> (Z_OK, Some l) | Inl _ \<Rightarrow> (Z_EGENERIC, listener), callback))"

definition z_declare_background_transport_events_listener ::
  "(closure \<times> bool option \<Rightarrow> wait_error + unit) \<Rightarrow> closure \<Rightarrow> z_transport_events_listener_options_t option
   \<Rightarrow> z_result_t \<times> closure" where
  "z_declare_background_transport_events_listener background_wait callback options =
    (let (b, callback) = declare_transport_events_listener_inner callback options
     in (generic_result (background_wait b), callback))"

definition z_undeclare_transport_events_listener ::
  "('p \<Rightarrow> 'w \<Rightarrow> (wait_error + unit) \<times> 'w) \<Rightarrow> 'p option \<Rightarrow> 'w \<Rightarrow> z_result_t \<times> 'p option \<times> 'w" where
  "z_undeclare_transport_events_listener undeclare this w = undeclare_entity Z_ENETWORK undeclare this w"

definition z_transport_events_listener_drop ::
  "('p \<Rightarrow> 'w \<Rightarrow> (wait_error + unit) \<times> 'w) \<Rightarrow> 'p option \<Rightarrow> 'w \<Rightarrow> 'p option \<times> 'w" where
  "z_transport_events_listener_drop undeclare this w = snd (z_undeclare_transport_events_listener undeclare this w)"

definition z_internal_transport_events_listener_null :: "'p option" where
  "z_internal_transport_events_listener_null = None"

definition z_internal_transport_events_listener_check :: "'p option \<Rightarrow> bool" where
  "z_internal_transport_events_listener_check this \<longleftrightarrow> this \<noteq> None"

text \<open>The borrow is a cast of the slot's address: the gravestone is not told apart.\<close>

definition z_transport_events_listener_loan :: "'p option \<Rightarrow> 'p option" where
  "z_transport_events_listener_loan this = this"

text \<open>As a kind of entity; a failing declaration leaves the slot as it is.\<close>

definition transport_events_listener_api ::
  "closure \<Rightarrow> z_transport_events_listener_options_t option \<Rightarrow> ('p, 'w) entity_api" where
  "transport_events_listener_api callback options = \<lparr>
     api_declare = (\<lambda>r x. fst (z_declare_transport_events_listener (\<lambda>_. r) x callback options)),
     api_null = z_internal_transport_events_listener_null, api_check = z_internal_transport_events_listener_check,
     api_undeclare = z_undeclare_transport_events_listener, api_drop = z_transport_events_listener_drop\<rparr>"

interpretation tev: entity_kind "transport_events_listener_api callback options"
  by unfold_locales
     (simp_all add: transport_events_listener_api_def z_declare_transport_events_listener_def split_beta
        z_internal_transport_events_listener_null_def z_internal_transport_events_listener_check_def
        z_undeclare_transport_events_listener_def z_transport_events_listener_drop_def entity_laws)

subsection \<open>Link events\<close>

record ('ev, 'p) link_event_ops =
  linke_kind :: "'ev \<Rightarrow> SampleKind"
  linke_link :: "'ev \<Rightarrow> 'p"

definition z_link_event_kind :: "('ev, 'p) link_event_ops \<Rightarrow> 'ev \<Rightarrow> z_sample_kind_t" where
  "z_link_event_kind E event = z_sample_kind_from_rust (linke_kind E event)"

definition z_link_event_link :: "('ev, 'p) link_event_ops \<Rightarrow> 'ev \<Rightarrow> 'p" where
  "z_link_event_link E event = linke_link E event"

definition z_link_event_link_mut :: "('ev, 'p) link_event_ops \<Rightarrow> 'ev \<Rightarrow> 'p" where
  "z_link_event_link_mut E event = linke_link E event"

definition z_internal_link_event_null :: "'p option" where
  "z_internal_link_event_null = None"

definition z_internal_link_event_check :: "'p option \<Rightarrow> bool" where
  "z_internal_link_event_check this \<longleftrightarrow> this \<noteq> None"

definition z_link_event_drop :: "('p \<Rightarrow> 'w \<Rightarrow> 'w run) \<Rightarrow> 'p option \<Rightarrow> 'w \<Rightarrow> ('p option \<times> 'w) run" where
  "z_link_event_drop drp this w = moved_drop gravestone_option (drop_option drp) this w"

definition z_link_event_loan :: "'p option \<Rightarrow> 'p run" where
  "z_link_event_loan this = loan_option this"

definition z_link_event_loan_mut :: "'p option \<Rightarrow> 'p run" where
  "z_link_event_loan_mut this = loan_option this"

definition z_link_event_take_from_loaned :: "'p \<Rightarrow> 'p \<Rightarrow> 'p option \<times> 'p" where
  "z_link_event_take_from_loaned empty_link_event src = (let (old, src) = mem_replace src empty_link_event in (Some old, src))"

text \<open>The Rust callback around the C closure it captured.\<close>

definition link_event_callback :: "closure \<Rightarrow> 'ev \<Rightarrow> 'ev event list \<Rightarrow> 'ev event list" where
  "link_event_callback callback event tr = z_closure_link_event_call (z_closure_link_event_loan callback) event tr"

record z_link_events_listener_options_t =
  lel_history :: bool
  lel_transport :: "nat option"

definition z_link_events_listener_options_default :: z_link_events_listener_options_t where
  "z_link_events_listener_options_default = \<lparr>lel_history = False, lel_transport = None\<rparr>"

text \<open>The builder: the captured closure, the history flag if options were given, and the transport.\<close>

definition declare_link_events_listener_inner ::
  "closure \<Rightarrow> z_link_events_listener_options_t option \<Rightarrow> (nat \<Rightarrow> 't option)
   \<Rightarrow> (closure \<times> bool option \<times> 't option) \<times> closure \<times> z_link_events_listener_options_t option \<times> (nat \<Rightarrow> 't option)" where
  "declare_link_events_listener_inner callback options ts =
    (let (cb, callback) = closure_take_c_type callback;
         (filt, ts) = take_transport (Option.bind options lel_transport) ts
     in ((cb, map_option lel_history options, filt), callback,
         map_option (\<lambda>o'. o'\<lparr>lel_transport := None\<rparr>) options, ts))"

definition z_declare_link_events_listener ::
  "(closure \<times> bool option \<times> 't option \<Rightarrow> wait_error + 'p) \<Rightarrow> 'p option \<Rightarrow> closure
   \<Rightarrow> z_link_events_listener_options_t option \<Rightarrow> (nat \<Rightarrow> 't option)
   \<Rightarrow> (z_result_t \<times> 'p option) \<times> closure \<times> z_link_events_listener_options_t option \<times> (nat \<Rightarrow> 't option)" where
  "z_declare_link_events_listener wait listener callback options ts =
    (let (b, rest) = declare_link_events_listener_inner callback options ts
     in (case wait b of Inr l \<Rightarrow> (Z_OK, Some l) | Inl _ \<Rightarrow> (Z_EGENERIC, listener), rest))"

definition z_declare_background_link_events_listener ::
  "(closure \<times> bool option \<times> 't option \<Rightarrow> wait_error + unit) \<Rightarrow> closure
   \<Rightarrow> z_link_events_listener_options_t option \<Rightarrow> (nat \<Rightarrow> 't option)
   \<Rightarrow> z_result_t \<times> closure \<times> z_link_events_listener_options_t option \<times> (nat \<Rightarrow> 't option)" where
  "z_declare_background_link_events_listener background_wait callback options ts =
    (let (b, rest) = declare_link_events_listener_inner callback options ts
     in (generic_result (background_wait b), rest))"

definition z_undeclare_link_events_listener ::
  "('p \<Rightarrow> 'w \<Rightarrow> (wait_error + unit) \<times> 'w) \<Rightarrow> 'p option \<Rightarrow> 'w \<Rightarrow> z_result_t \<times> 'p option \<times> 'w" where
  "z_undeclare_link_events_listener undeclare this w = undeclare_entity Z_ENETWORK undeclare this w"

definition z_link_events_listener_drop ::
  "('p \<Rightarrow> 'w \<Rightarrow> (wait_error + unit) \<times> 'w) \<Rightarrow> 'p option \<Rightarrow> 'w \<Rightarrow> 'p option \<times> 'w" where
  "z_link_events_listener_drop undeclare this w = snd (z_undeclare_link_events_listener undeclare this w)"

definition z_internal_link_events_listener_null :: "'p option" where
  "z_internal_link_events_listener_null = None"

definition z_internal_link_events_listener_check :: "'p option \<Rightarrow> bool" where
  "z_internal_link_events_listener_check this \<longleftrightarrow> this \<noteq> None"

text \<open>The borrow is a cast of the slot's address: the gravestone is not told apart.\<close>

definition z_link_events_listener_loan :: "'p option \<Rightarrow> 'p option" where
  "z_link_events_listener_loan this = this"

definition link_events_listener_api ::
  "closure \<Rightarrow> z_link_events_listener_options_t option \<Rightarrow> (nat \<Rightarrow> 't option) \<Rightarrow> ('p, 'w) entity_api" where
  "link_events_listener_api callback options ts = \<lparr>
     api_declare = (\<lambda>r x. fst (z_declare_link_events_listener (\<lambda>_. r) x callback options ts)),
     api_null = z_internal_link_events_listener_null, api_check = z_internal_link_events_listener_check,
     api_undeclare = z_undeclare_link_events_listener, api_drop = z_link_events_listener_drop\<rparr>"

interpretation lev: entity_kind "link_events_listener_api callback options ts"
  by unfold_locales
     (simp_all add: link_events_listener_api_def z_declare_link_events_listener_def split_beta
        z_internal_link_events_listener_null_def z_internal_link_events_listener_check_def
        z_undeclare_link_events_listener_def z_link_events_listener_drop_def entity_laws)

subsection \<open>Scouting\<close>

definition z_internal_hello_null :: "'p option" where
  "z_internal_hello_null = None"

definition z_internal_hello_check :: "'p option \<Rightarrow> bool" where
  "z_internal_hello_check this \<longleftrightarrow> this \<noteq> None"

definition z_hello_drop :: "('p \<Rightarrow> 'w \<Rightarrow> 'w run) \<Rightarrow> 'p option \<Rightarrow> 'w \<Rightarrow> ('p option \<times> 'w) run" where
  "z_hello_drop drp this w = moved_drop gravestone_option (drop_option drp) this w"

definition z_hello_loan :: "'p option \<Rightarrow> 'p run" where
  "z_hello_loan this = loan_option this"

definition z_hello_loan_mut :: "'p option \<Rightarrow> 'p run" where
  "z_hello_loan_mut this = loan_option this"

definition z_hello_take_from_loaned :: "'p \<Rightarrow> 'p \<Rightarrow> 'p option \<times> 'p" where
  "z_hello_take_from_loaned empty_hello src = (let (old, src) = mem_replace src empty_hello in (Some old, src))"

definition z_hello_clone :: "('p \<Rightarrow> 'p) \<Rightarrow> 'p \<Rightarrow> 'p option" where
  "z_hello_clone clone_hello this = Some (clone_hello this)"

definition z_hello_zid :: "('h \<Rightarrow> 'z) \<Rightarrow> 'h \<Rightarrow> 'z" where
  "z_hello_zid zid this = zid this"

text \<open>The strings of the array borrow the text of the hello.\<close>

definition z_hello_locators :: "('h \<Rightarrow> (ptr \<times> usize) list) \<Rightarrow> 'h \<Rightarrow> zvector" where
  "z_hello_locators locators this = map (\<lambda>(p, n). CSlice_new_borrowed_unchecked p n) (locators this)"

record z_scout_options_t =
  sc_timeout_ms :: u64
  sc_what :: z_what_t

definition DEFAULT_SCOUTING_WHAT :: z_what_t where
  "DEFAULT_SCOUTING_WHAT = W_ROUTER_PEER"

definition DEFAULT_SCOUTING_TIMEOUT :: u64 where
  "DEFAULT_SCOUTING_TIMEOUT = 1000"

definition scout_options_default :: z_scout_options_t where
  "scout_options_default = \<lparr>sc_timeout_ms = DEFAULT_SCOUTING_TIMEOUT, sc_what = DEFAULT_SCOUTING_WHAT\<rparr>"

definition z_scout_options_default :: z_scout_options_t where
  "z_scout_options_default = scout_options_default"

text \<open>The Rust callback around the C closure it captured.\<close>

definition hello_callback :: "closure \<Rightarrow> 'h \<Rightarrow> 'h event list \<Rightarrow> 'h event list" where
  "hello_callback callback hello tr = z_closure_hello_call (z_closure_hello_loan callback) hello tr"

text \<open>\<open>matcher\<close> is \<open>WhatAmIMatcher::try_from\<close>. \<open>scout\<close> is the scouting that runs until the timeout (in
  milliseconds) has passed, with the closure its callback captured; it ends with the trace. A call
  that fails before scouting drops the closure with the function's frame.\<close>

definition z_scout ::
  "(u8 \<Rightarrow> 'm option) \<Rightarrow> ('m \<Rightarrow> 'c \<Rightarrow> closure \<Rightarrow> u64 \<Rightarrow> 'h event list \<Rightarrow> (wait_error + unit) \<times> 'h event list)
   \<Rightarrow> 'c option \<Rightarrow> closure \<Rightarrow> z_scout_options_t option \<Rightarrow> 'h event list
   \<Rightarrow> (z_result_t \<times> 'c option \<times> closure \<times> 'h event list) run" where
  "z_scout matcher scout config callback options tr = do {
     let (cb, callback) = closure_take_c_type callback;
     let opts = (case options of Some o' \<Rightarrow> o' | None \<Rightarrow> scout_options_default);
     case matcher (z_what_discr (sc_what opts)) of
       None \<Rightarrow> do { tr \<leftarrow> closure_drop cb tr; ret (Z_EINVAL, config, callback, tr) }
     | Some what \<Rightarrow>
         (case take_rust_type gravestone_option config of
            (None, config) \<Rightarrow> do { tr \<leftarrow> closure_drop cb tr; ret (Z_EINVAL, config, callback, tr) }
          | (Some c, config) \<Rightarrow>
              (let (r, tr) = scout what c cb (sc_timeout_ms opts) tr in ret (generic_result r, config, callback, tr)))
   }"

subsection \<open>Properties\<close>

lemma call_each_trace:
  "c_call cb = Some f \<Longrightarrow> call_each closure_call cb xs tr = tr @ map (\<lambda>x. Called f x (c_context cb)) xs"
  by (induction xs arbitrary: tr) (simp_all add: closure_call_def)

text \<open>The closure of an enumeration is called once for each item, in zenoh's order, then dropped
  before the function returns, and its slot is left empty: for identifiers, transports and links
  alike. A transport that filters the links is taken from the caller, even when it was the
  gravestone, which filters nothing.\<close>

lemma info_calls_then_drops:
  fixes zs :: "'z list" and ls :: "'t option \<Rightarrow> 'l list"
  assumes "c_call cb = Some f" "c_drop cb = Some g"
  shows "z_info_peers_zid zs cb tr
      = ret (Z_OK, closure_default, tr @ map (\<lambda>x. Called f x (c_context cb)) zs @ [Dropped g (c_context cb)])
    \<and> z_info_routers_zid zs cb tr = z_info_peers_zid zs cb tr
    \<and> z_info_transports zs cb tr = z_info_peers_zid zs cb tr
    \<and> z_info_links ls cb (Some \<lparr>il_transport = Some a\<rparr>) ts tr'
      = ret (Z_OK, closure_default, Some \<lparr>il_transport = None\<rparr>, ts(a := None),
          tr' @ map (\<lambda>x. Called f x (c_context cb)) (ls (ts a)) @ [Dropped g (c_context cb)])"
  using assms
  by (simp add: z_info_peers_zid_def z_info_routers_zid_def z_info_transports_def z_info_links_def
      closure_take_c_type_def mem_replace_def closure_drop_def take_transport_def take_rust_type_def take_c_type_def
      gravestone_option_def z_closure_zid_call_def z_closure_zid_loan_def z_closure_transport_call_def
      z_closure_transport_loan_def z_closure_link_call_def z_closure_link_loan_def
      call_each_trace [OF assms(1)])

text \<open>A failed declaration of an events listener leaves its output untouched. Whatever was in the
  slot is still there after the error, while every other declaration writes the gravestone; on
  uninitialised memory the slot stays uninitialised, so that it must not be checked or dropped.\<close>

lemma events_listener_error_leaves_slot:
  "fst (z_declare_transport_events_listener (\<lambda>_. Inl e) listener callback options) = (Z_EGENERIC, listener)
   \<and> fst (z_declare_link_events_listener (\<lambda>_. Inl e) listener callback loptions ts) = (Z_EGENERIC, listener)
   \<and> fst (z_declare_subscriber (\<lambda>_. Inl e) k callback soptions) = (Z_EGENERIC, z_internal_subscriber_null)"
  by (simp add: z_declare_transport_events_listener_def z_declare_link_events_listener_def z_declare_subscriber_def
      z_internal_subscriber_null_def split_beta)

end
