(* ===== verification/Lifecycle.thy ===== *)
theory Lifecycle
  imports Queryables AdvancedPublication AdvancedSubscription Info
begin

text \<open>
  The entities of a program, all kinds together: what the programs of theory \<open>Entities\<close> do with the
  functions of the kinds of \<open>publisher.rs\<close>, \<open>subscriber.rs\<close>, \<open>liveliness.rs\<close>, \<open>matching.rs\<close>, \<open>querier.rs\<close>,
  \<open>queryable.rs\<close>, \<open>advanced_publisher.rs\<close>, \<open>advanced_subscriber.rs\<close>, \<open>publication_cache.rs\<close>,
  \<open>querying_subscriber.rs\<close> and the listeners of \<open>info.rs\<close>. Declared key expressions are values of the program and not
  among them.
\<close>

text \<open>The arguments of the declarations.\<close>

record ('k, 'b, 'e, 'qc, 't) declare_args =
  a_key :: 'k
  a_callback :: closure
  a_objects :: "('b, 'e) objects"
  a_gravestone_enc :: 'e
  a_consolidation :: "'qc consolidation_ops"
  a_publisher :: "z_publisher_options_t option"
  a_subscriber :: "z_subscriber_options_t option"
  a_liveliness :: "z_liveliness_subscriber_options_t option"
  a_token :: "z_liveliness_token_options_t option"
  a_querier :: "z_querier_options_t option"
  a_queryable :: "z_queryable_options_t option"
  a_adv_publisher :: "'k ze_advanced_publisher_options_t option"
  a_adv_subscriber :: "'k ze_advanced_subscriber_options_t option"
  a_cache :: "'k ze_publication_cache_options_t option"
  a_querying :: "'k ze_querying_subscriber_options_t option"
  a_transport_events :: "z_transport_events_listener_options_t option"
  a_link_events :: "z_link_events_listener_options_t option"
  a_transports :: "nat \<Rightarrow> 't option"

definition entity_kinds :: "('k, 'b, 'e, 'qc, 't) declare_args \<Rightarrow> ('p, 'w) entity_api list" where
  "entity_kinds a = [
     publisher_api (a_gravestone_enc a) (a_key a) (a_publisher a) (a_objects a),
     subscriber_api (a_key a) (a_callback a) (a_subscriber a),
     liveliness_subscriber_api (a_key a) (a_callback a) (a_liveliness a),
     liveliness_token_api (a_key a) (a_token a),
     querier_api (a_consolidation a) (a_key a) (a_querier a),
     queryable_api (a_key a) (a_callback a) (a_queryable a),
     matching_listener_api z_publisher_declare_matching_listener (a_callback a),
     matching_listener_api z_querier_declare_matching_listener (a_callback a),
     matching_listener_api ze_advanced_publisher_declare_matching_listener (a_callback a),
     advanced_publisher_api (a_gravestone_enc a) (a_key a) (a_adv_publisher a) (a_objects a),
     advanced_subscriber_api (a_key a) (a_callback a) (a_adv_subscriber a),
     sample_miss_listener_api (a_callback a),
     publication_cache_api (a_key a) (a_cache a),
     querying_subscriber_api (a_consolidation a) () (a_key a) (a_callback a) (a_querying a),
     detect_publishers_api (a_key a) (a_callback a) (a_liveliness a),
     transport_events_listener_api (a_callback a) (a_transport_events a),
     link_events_listener_api (a_callback a) (a_link_events a) (a_transports a)]"

lemma entity_kinds_laws: "A \<in> set (entity_kinds a) \<Longrightarrow> entity_kind A"
  by (auto simp: entity_kinds_def intro: pub.entity_kind_axioms sub.entity_kind_axioms lsub.entity_kind_axioms
      tok.entity_kind_axioms qr.entity_kind_axioms qa.entity_kind_axioms pubml.entity_kind_axioms qrml.entity_kind_axioms
      apubml.entity_kind_axioms apub.entity_kind_axioms asub.entity_kind_axioms miss.entity_kind_axioms
      pcache.entity_kind_axioms qsub.entity_kind_axioms detect.entity_kind_axioms tev.entity_kind_axioms lev.entity_kind_axioms)

subsection \<open>Properties\<close>

text \<open>C6: entities are neither lost nor undeclared twice, for each of the seventeen kinds of \<open>entity_kinds\<close> (all that are declared on a
  session, a publisher, a querier or a subscriber). Whatever a program whose slots start with the null value and that keeps to the rules of
  the C API does with its slots (declare with any outcome, undeclare, drop, drop again, move), and
  whatever undeclaring answers: the entities the network granted are, each as many times as it was
  granted, those already handed to zenoh's \<open>undeclare\<close> and those in the slots.\<close>

theorem entities_conserved:
  assumes "A \<in> set (entity_kinds a)" "erun A u n ps (ss, w)"
  shows "mset ps = mset w + entities_in ss \<and> length ss = n"
  using entity_kind.run_conserves [OF entity_kinds_laws [OF assms(1)] assms(2)]
  by (simp add: conserves_def)

definition demo_args :: "(nat, nat, nat, ConsolidationMode, nat) declare_args" where
  "demo_args = \<lparr>a_key = 1, a_callback = closure_default, a_objects = \<lparr>bytes_at = (\<lambda>_. 0), enc_at = (\<lambda>_. 0)\<rparr>,
     a_gravestone_enc = 0, a_consolidation = demo_consolidation, a_publisher = None, a_subscriber = None,
     a_liveliness = None, a_token = None, a_querier = None, a_queryable = None, a_adv_publisher = None,
     a_adv_subscriber = None, a_cache = None, a_querying = None, a_transport_events = None, a_link_events = None,
     a_transports = (\<lambda>_. None)\<rparr>"

definition demo_kind :: "(nat, nat list) entity_api" where
  "demo_kind = entity_kinds demo_args ! 4"

text \<open>Two queriers are declared, one is moved and then undeclared; a third declaration fails.\<close>

lemma demo_run: "erun demo_kind (\<lambda>_. Inl OtherError) 3 [7, 8] ([Some 7, None, None], [8])"
proof -
  let ?k = "demo_kind"
  let ?u = "\<lambda>_. Inl OtherError :: wait_error + unit"
  have laws: "entity_kind ?k"
    by (rule entity_kinds_laws [of _ demo_args]) (simp add: demo_kind_def entity_kinds_def)
  note simps = entity_kind.null_none [OF laws] entity_kind.check_some [OF laws] entity_kind.declare_ok [OF laws]
    take_c_type_def mem_replace_def
  obtain c where e: "api_declare ?k (Inl OtherError) None = (c, None)" using entity_kind.declare_err [OF laws] by blast
  obtain c' where f: "api_undeclare ?k (log_undeclare ?u) (Some 8) [] = (c', None, [8])"
    using entity_kind.undeclare_some [OF laws, of "log_undeclare ?u" 8 "[]"] by (auto simp: log_undeclare_def)
  have "erun ?k ?u 3 [] ([None, None, None], [])"
    using erun_start [of ?k ?u 3] by (simp add: simps numeral_3_eq_3)
  from erun_step [OF this, of "EDeclare 0 (Inr 7)"] have "erun ?k ?u 3 [7] ([Some 7, None, None], [])"
    by (simp add: simps)
  from erun_step [OF this, of "EDeclare 1 (Inr 8)"] have "erun ?k ?u 3 [7, 8] ([Some 7, Some 8, None], [])"
    by (simp add: simps)
  from erun_step [OF this, of "EMove 1 2"] have "erun ?k ?u 3 [7, 8] ([Some 7, None, Some 8], [])"
    by (simp add: simps numeral_2_eq_2)
  from erun_step [OF this, of "EUndeclare 2"] have "erun ?k ?u 3 [7, 8] ([Some 7, None, None], [8])"
    by (simp add: simps f numeral_2_eq_2)
  from erun_step [OF this, of "EDeclare 1 (Inl OtherError)"] show ?thesis
    by (simp add: simps e)
qed

lemma demo_kind_in: "demo_kind \<in> set (entity_kinds demo_args)"
  by (simp add: demo_kind_def entity_kinds_def)

theorem entities_conserved_witness:
  "erun demo_kind (\<lambda>_. Inl OtherError) 3 [7, 8] ([Some 7, None, None], [8])
    \<and> mset [7, 8 :: nat] = mset [8] + entities_in [Some 7, None, None]"
  using entities_conserved [OF demo_kind_in demo_run] demo_run by blast

text \<open>C7: everything a program declared can be given back. From any state such a program reaches,
  dropping its slots, in any order and any number of times each, empties them and leaves every entity
  that was ever granted undeclared exactly as often as it was granted, even when undeclaring reports
  errors.\<close>

theorem entities_released:
  assumes "A \<in> set (entity_kinds a)" "erun A u n ps (ss, w)" "set is = {..<n}"
  shows "\<exists>w'. fold (ecall_exec A u) (map EDrop is) (ss, w) = (replicate n None, w') \<and> mset w' = mset ps"
  using entity_kind.run_teardown [OF entity_kinds_laws [OF assms(1)] assms(2,3)] .

theorem entities_released_witness:
  "\<exists>w'. fold (ecall_exec demo_kind (\<lambda>_. Inl OtherError)) (map EDrop [2, 0, 1, 0]) ([Some 7, None, None], [8])
      = (replicate 3 None, w') \<and> mset w' = mset [7, 8]"
proof -
  have "set [2, 0, 1, 0] = {..<3 :: nat}" by (auto simp: lessThan_Suc numeral_3_eq_3)
  then show ?thesis by (rule entities_released [OF demo_kind_in demo_run])
qed

end
