(* ===== verification/KeyExprs.thy ===== *)
theory KeyExprs
  imports Slices Entities
begin

text \<open>
  \<open>src/keyexpr.rs\<close>: key expressions over memory.

  \<open>KeyExpr\<close> and the algebra of key expressions are zenoh's and the fields of \<open>keyexpr_ops\<close>: a key
  expression made from a string owns its text, one made from a \<open>&str\<close> borrows it from a pointer.
  \<open>Canonize for &mut str\<close> rewrites the text in place and shortens the borrow: it gives the buffer
  afterwards, of the same size, and the length of the canonical text at its start.
\<close>

record 'k keyexpr_ops =
  ke_dummy :: 'k
  ke_is_dummy :: "'k \<Rightarrow> bool"
  ke_try_from :: "u8 list \<Rightarrow> 'k option"
  ke_autocanonize :: "u8 list \<Rightarrow> 'k option"
  ke_canonize :: "u8 list \<Rightarrow> u8 list \<times> nat"
  ke_new :: "ptr \<Rightarrow> u8 list \<Rightarrow> 'k option"
  ke_from_str_unchecked :: "ptr \<Rightarrow> u8 list \<Rightarrow> 'k"
  ke_len :: "'k \<Rightarrow> nat"
  ke_ptr :: "'k \<Rightarrow> ptr"
  ke_text :: "'k \<Rightarrow> u8 list"
  ke_equal :: "'k \<Rightarrow> 'k \<Rightarrow> bool"
  ke_intersects :: "'k \<Rightarrow> 'k \<Rightarrow> bool"
  ke_includes :: "'k \<Rightarrow> 'k \<Rightarrow> bool"
  ke_concat :: "'k \<Rightarrow> u8 list \<Rightarrow> 'k option"
  ke_join :: "'k \<Rightarrow> u8 list \<Rightarrow> 'k option"
  ke_clone :: "'k \<Rightarrow> 'k"
  ke_into_owned :: "'k \<Rightarrow> 'k"

definition KeyExpr_gravestone :: "'k keyexpr_ops \<Rightarrow> 'k" where
  "KeyExpr_gravestone K = ke_dummy K"

definition KeyExpr_is_gravestone :: "'k keyexpr_ops \<Rightarrow> 'k \<Rightarrow> bool" where
  "KeyExpr_is_gravestone K this \<longleftrightarrow> ke_is_dummy K this"

definition z_internal_keyexpr_null :: "'k keyexpr_ops \<Rightarrow> 'k" where
  "z_internal_keyexpr_null K = KeyExpr_gravestone K"

definition z_view_keyexpr_empty :: "'k keyexpr_ops \<Rightarrow> 'k" where
  "z_view_keyexpr_empty K = KeyExpr_gravestone K"

subsection \<open>Construction\<close>

text \<open>\<open>name\<close> is at \<open>p\<close>. Canonizing in place writes the caller's memory even when what is left is not a
  key expression.\<close>

definition keyexpr_create_inner ::
  "'k keyexpr_ops \<Rightarrow> ptr \<Rightarrow> u8 list \<Rightarrow> bool \<Rightarrow> bool \<Rightarrow> heap \<Rightarrow> ('k option \<times> heap) run" where
  "keyexpr_create_inner K p name should_auto_canonize should_copy h =
    (if should_copy then
       ret (if should_auto_canonize then ke_autocanonize K name else ke_try_from K name, h)
     else if should_auto_canonize then
       (let (buf, n) = ke_canonize K name in do {
          h \<leftarrow> write_mem p buf h;
          ret (ke_new K p (take n buf), h)
        })
     else ret (ke_new K p name, h))"

definition keyexpr_create ::
  "'k keyexpr_ops \<Rightarrow> ptr \<Rightarrow> u8 list \<Rightarrow> bool \<Rightarrow> bool \<Rightarrow> heap \<Rightarrow> ((z_result_t + 'k) \<times> heap) run" where
  "keyexpr_create K p name should_auto_canonize should_copy h =
    (if utf8_valid name then do {
       (r, h) \<leftarrow> keyexpr_create_inner K p name should_auto_canonize should_copy h;
       ret (case r of Some v \<Rightarrow> Inr v | None \<Rightarrow> Inl Z_EINVAL, h)
     }
     else ret (Inl Z_EPARSE, h))"

text \<open>What the constructors write: the key expression, or the gravestone and the code.\<close>

definition keyexpr_out :: "'k keyexpr_ops \<Rightarrow> z_result_t + 'k \<Rightarrow> z_result_t \<times> 'k" where
  "keyexpr_out K r = (case r of Inr ke \<Rightarrow> (Z_OK, ke) | Inl e \<Rightarrow> (e, KeyExpr_gravestone K))"

definition z_keyexpr_from_substr ::
  "'k keyexpr_ops \<Rightarrow> ptr \<Rightarrow> usize \<Rightarrow> heap \<Rightarrow> (z_result_t \<times> 'k) run" where
  "z_keyexpr_from_substr K expr l h =
    (if is_null expr then ret (Z_EINVAL, KeyExpr_gravestone K)
     else do {
       name \<leftarrow> from_raw_parts expr (unat l) h;
       (r, _) \<leftarrow> keyexpr_create K expr name False True h;
       ret (keyexpr_out K r)
     })"

definition z_keyexpr_from_str :: "'k keyexpr_ops \<Rightarrow> ptr \<Rightarrow> heap \<Rightarrow> (z_result_t \<times> 'k) run" where
  "z_keyexpr_from_str K expr h = do {
     n \<leftarrow> strlen_or_zero expr h;
     z_keyexpr_from_substr K expr (of_nat n) h
   }"

text \<open>The length is an in-out parameter: it is returned last.\<close>

definition z_keyexpr_from_substr_autocanonize ::
  "'k keyexpr_ops \<Rightarrow> ptr \<Rightarrow> usize \<Rightarrow> heap \<Rightarrow> (z_result_t \<times> 'k \<times> usize) run" where
  "z_keyexpr_from_substr_autocanonize K start l h =
    (if is_null start then ret (Z_EINVAL, KeyExpr_gravestone K, l)
     else do {
       name \<leftarrow> from_raw_parts start (unat l) h;
       (r, _) \<leftarrow> keyexpr_create K start name True True h;
       ret (case r of
              Inr ke \<Rightarrow> (Z_OK, ke, of_nat (ke_len K ke))
            | Inl e \<Rightarrow> (e, KeyExpr_gravestone K, l))
     })"

definition z_keyexpr_from_str_autocanonize :: "'k keyexpr_ops \<Rightarrow> ptr \<Rightarrow> heap \<Rightarrow> (z_result_t \<times> 'k) run" where
  "z_keyexpr_from_str_autocanonize K expr h = do {
     n \<leftarrow> strlen_or_zero expr h;
     (r, ke, _) \<leftarrow> z_keyexpr_from_substr_autocanonize K expr (of_nat n) h;
     ret (r, ke)
   }"

definition z_keyexpr_loan :: "'k \<Rightarrow> 'k" where
  "z_keyexpr_loan this = this"

definition z_view_keyexpr_loan :: "'k \<Rightarrow> 'k" where
  "z_view_keyexpr_loan this = this"

definition z_keyexpr_drop ::
  "'k keyexpr_ops \<Rightarrow> ('k \<Rightarrow> 'w \<Rightarrow> 'w run) \<Rightarrow> 'k \<Rightarrow> 'w \<Rightarrow> ('k \<times> 'w) run" where
  "z_keyexpr_drop K drp this w = moved_drop (KeyExpr_gravestone K) drp this w"

definition z_internal_keyexpr_check :: "'k keyexpr_ops \<Rightarrow> 'k \<Rightarrow> bool" where
  "z_internal_keyexpr_check K this \<longleftrightarrow> \<not> KeyExpr_is_gravestone K this"

definition z_view_keyexpr_is_empty :: "'k keyexpr_ops \<Rightarrow> 'k \<Rightarrow> bool" where
  "z_view_keyexpr_is_empty K this \<longleftrightarrow> KeyExpr_is_gravestone K this"

definition z_keyexpr_is_canon :: "'k keyexpr_ops \<Rightarrow> ptr \<Rightarrow> usize \<Rightarrow> heap \<Rightarrow> z_result_t run" where
  "z_keyexpr_is_canon K start l h = do {
     name \<leftarrow> from_raw_parts start (unat l) h;
     (r, _) \<leftarrow> keyexpr_create K start name False False h;
     ret (case r of Inr _ \<Rightarrow> Z_OK | Inl e \<Rightarrow> e)
   }"

definition z_keyexpr_canonize ::
  "'k keyexpr_ops \<Rightarrow> ptr \<Rightarrow> usize \<Rightarrow> heap \<Rightarrow> (z_result_t \<times> usize \<times> heap) run" where
  "z_keyexpr_canonize K start l h =
    (if is_null start then ret (Z_EINVAL, l, h)
     else do {
       name \<leftarrow> from_raw_parts start (unat l) h;
       (r, h) \<leftarrow> keyexpr_create K start name True False h;
       ret (case r of Inr ke \<Rightarrow> (Z_OK, of_nat (ke_len K ke), h) | Inl e \<Rightarrow> (e, l, h))
     })"

definition z_keyexpr_canonize_null_terminated :: "'k keyexpr_ops \<Rightarrow> ptr \<Rightarrow> heap \<Rightarrow> (z_result_t \<times> heap) run" where
  "z_keyexpr_canonize_null_terminated K start h = do {
     n \<leftarrow> strlen_or_zero start h;
     (r, l, h) \<leftarrow> z_keyexpr_canonize K start (of_nat n) h;
     if r = Z_OK then do {
       h \<leftarrow> write_mem (ptr_add start (unat l)) [0] h;
       ret (Z_OK, h)
     }
     else ret (r, h)
   }"

subsection \<open>Views\<close>

definition z_view_keyexpr_from_substr ::
  "'k keyexpr_ops \<Rightarrow> ptr \<Rightarrow> usize \<Rightarrow> heap \<Rightarrow> (z_result_t \<times> 'k) run" where
  "z_view_keyexpr_from_substr K expr l h =
    (if is_null expr then ret (Z_EINVAL, KeyExpr_gravestone K)
     else do {
       name \<leftarrow> from_raw_parts expr (unat l) h;
       (r, _) \<leftarrow> keyexpr_create K expr name False False h;
       ret (keyexpr_out K r)
     })"

definition z_view_keyexpr_from_substr_autocanonize ::
  "'k keyexpr_ops \<Rightarrow> ptr \<Rightarrow> usize \<Rightarrow> heap \<Rightarrow> (z_result_t \<times> 'k \<times> usize \<times> heap) run" where
  "z_view_keyexpr_from_substr_autocanonize K start l h =
    (if is_null start then ret (Z_EINVAL, KeyExpr_gravestone K, l, h)
     else do {
       name \<leftarrow> from_raw_parts start (unat l) h;
       (r, h) \<leftarrow> keyexpr_create K start name True False h;
       ret (case r of
              Inr ke \<Rightarrow> (Z_OK, ke, of_nat (ke_len K ke), h)
            | Inl e \<Rightarrow> (e, KeyExpr_gravestone K, l, h))
     })"

definition z_view_keyexpr_from_str :: "'k keyexpr_ops \<Rightarrow> ptr \<Rightarrow> heap \<Rightarrow> (z_result_t \<times> 'k) run" where
  "z_view_keyexpr_from_str K expr h =
    (if is_null expr then ret (Z_EINVAL, KeyExpr_gravestone K)
     else do {
       n \<leftarrow> strlen_or_zero expr h;
       z_view_keyexpr_from_substr K expr (of_nat n) h
     })"

definition z_view_keyexpr_from_str_autocanonize ::
  "'k keyexpr_ops \<Rightarrow> ptr \<Rightarrow> heap \<Rightarrow> (z_result_t \<times> 'k \<times> heap) run" where
  "z_view_keyexpr_from_str_autocanonize K expr h = do {
     n \<leftarrow> strlen_or_zero expr h;
     (res, ke, l, h) \<leftarrow> z_view_keyexpr_from_substr_autocanonize K expr (of_nat n) h;
     if res = Z_OK then do {
       h \<leftarrow> write_mem (ptr_add expr (unat l)) [0] h;
       ret (res, ke, h)
     }
     else ret (res, ke, h)
   }"

text \<open>\<open>from_utf8_unchecked\<close> of bytes that are not UTF-8 is undefined behaviour.\<close>

definition z_view_keyexpr_from_substr_unchecked :: "'k keyexpr_ops \<Rightarrow> ptr \<Rightarrow> usize \<Rightarrow> heap \<Rightarrow> 'k run" where
  "z_view_keyexpr_from_substr_unchecked K start l h =
    (if is_null start then ret (KeyExpr_gravestone K)
     else do {
       name \<leftarrow> from_raw_parts start (unat l) h;
       if utf8_valid name then ret (ke_from_str_unchecked K start name) else panic
     })"

definition z_view_keyexpr_from_str_unchecked :: "'k keyexpr_ops \<Rightarrow> ptr \<Rightarrow> heap \<Rightarrow> 'k run" where
  "z_view_keyexpr_from_str_unchecked K s h = do {
     n \<leftarrow> strlen_or_zero s h;
     z_view_keyexpr_from_substr_unchecked K s (of_nat n) h
   }"

definition z_keyexpr_as_view_string :: "'k keyexpr_ops \<Rightarrow> 'k \<Rightarrow> cslice" where
  "z_keyexpr_as_view_string K this = snd (z_view_string_from_substr (ke_ptr K this) (of_nat (ke_len K this)))"

subsection \<open>Declaration and algebra\<close>

definition z_declare_keyexpr ::
  "'k keyexpr_ops \<Rightarrow> ('k \<Rightarrow> wait_error + 'k) \<Rightarrow> 'k \<Rightarrow> z_result_t \<times> 'k" where
  "z_declare_keyexpr K wait key_expr = (case wait key_expr of
     Inr v \<Rightarrow> (Z_OK, ke_into_owned K v) | Inl _ \<Rightarrow> (Z_EGENERIC, KeyExpr_gravestone K))"

definition z_undeclare_keyexpr ::
  "'k keyexpr_ops \<Rightarrow> ('k \<Rightarrow> 'w \<Rightarrow> (wait_error + unit) \<times> 'w) \<Rightarrow> 'k \<Rightarrow> 'w \<Rightarrow> z_result_t \<times> 'k \<times> 'w" where
  "z_undeclare_keyexpr K undeclare key_expr w =
    (let (kexpr, key_expr) = take_rust_type (KeyExpr_gravestone K) key_expr in
     if KeyExpr_is_gravestone K kexpr then (Z_EINVAL, key_expr, w)
     else (let (r, w) = undeclare kexpr w in (generic_result r, key_expr, w)))"

definition z_keyexpr_equals :: "'k keyexpr_ops \<Rightarrow> 'k \<Rightarrow> 'k \<Rightarrow> bool" where
  "z_keyexpr_equals K l r = ke_equal K l r"

definition z_keyexpr_intersects :: "'k keyexpr_ops \<Rightarrow> 'k \<Rightarrow> 'k \<Rightarrow> bool" where
  "z_keyexpr_intersects K l r = ke_intersects K l r"

definition z_keyexpr_includes :: "'k keyexpr_ops \<Rightarrow> 'k \<Rightarrow> 'k \<Rightarrow> bool" where
  "z_keyexpr_includes K l r = ke_includes K l r"

text \<open>A null \<open>right_start\<close> is not checked: \<open>from_raw_parts\<close> on it is undefined.\<close>

definition z_keyexpr_concat ::
  "'k keyexpr_ops \<Rightarrow> 'k \<Rightarrow> ptr \<Rightarrow> usize \<Rightarrow> heap \<Rightarrow> (z_result_t \<times> 'k) run" where
  "z_keyexpr_concat K left right_start right_len h = do {
     right \<leftarrow> from_raw_parts right_start (unat right_len) h;
     ret (if utf8_valid right then
            (case ke_concat K left right of
               Some r \<Rightarrow> (Z_OK, r) | None \<Rightarrow> (Z_EGENERIC, KeyExpr_gravestone K))
          else (Z_EINVAL, KeyExpr_gravestone K))
   }"

definition z_keyexpr_join :: "'k keyexpr_ops \<Rightarrow> 'k \<Rightarrow> 'k \<Rightarrow> z_result_t \<times> 'k" where
  "z_keyexpr_join K left right = (case ke_join K left (ke_text K right) of
     Some r \<Rightarrow> (Z_OK, r) | None \<Rightarrow> (Z_EGENERIC, KeyExpr_gravestone K))"

datatype z_keyexpr_intersection_level_t = KE_DISJOINT | KE_INTERSECTS | KE_INCLUDES | KE_EQUALS

datatype SetIntersectionLevel = SIL_Disjoint | SIL_Intersects | SIL_Includes | SIL_Equals

fun z_keyexpr_intersection_level_from_rust :: "SetIntersectionLevel \<Rightarrow> z_keyexpr_intersection_level_t" where
  "z_keyexpr_intersection_level_from_rust SIL_Disjoint = KE_DISJOINT"
| "z_keyexpr_intersection_level_from_rust SIL_Intersects = KE_INTERSECTS"
| "z_keyexpr_intersection_level_from_rust SIL_Includes = KE_INCLUDES"
| "z_keyexpr_intersection_level_from_rust SIL_Equals = KE_EQUALS"

definition z_keyexpr_relation_to ::
  "('k \<Rightarrow> 'k \<Rightarrow> SetIntersectionLevel) \<Rightarrow> 'k \<Rightarrow> 'k \<Rightarrow> z_keyexpr_intersection_level_t" where
  "z_keyexpr_relation_to relation_to l r = z_keyexpr_intersection_level_from_rust (relation_to l r)"

definition z_keyexpr_clone :: "'k keyexpr_ops \<Rightarrow> 'k \<Rightarrow> 'k" where
  "z_keyexpr_clone K this = ke_clone K this"

subsection \<open>Lemmas\<close>

text \<open>What the code relies on: canonizing never lengthens the text and makes it of bytes that were
  there, and a key expression has the length of its text.\<close>

definition canonizes :: "'k keyexpr_ops \<Rightarrow> bool" where
  "canonizes K \<longleftrightarrow>
    (\<forall>s. length (fst (ke_canonize K s)) = length s \<and> snd (ke_canonize K s) \<le> length s
       \<and> set (take (snd (ke_canonize K s)) (fst (ke_canonize K s))) \<subseteq> set s)
    \<and> (\<forall>p t0 k. ke_new K p t0 = Some k \<longrightarrow> ke_len K k = length t0)"

text \<open>Terminating a text of \<open>n\<close> bytes inside the old one.\<close>

lemma terminate_block:
  assumes "blocks h b = Some (k, pre @ buf @ 0 # post)" "n \<le> length buf"
  shows "\<exists>h' s'. write_mem (Ptr b (length pre + n)) [0] h = ret h' \<and> length s' = length buf
    \<and> blocks h' = (blocks h)(b \<mapsto> (k, pre @ s' @ 0 # post)) \<and> take n s' = take n buf \<and> (pre @ s' @ 0 # post) ! (length pre + n) = 0"
proof (cases "n = length buf")
  case True
  have "blocks h b = Some (k, (pre @ buf) @ [0] @ post)" using assms(1) by simp
  from write_block [OF this, of "[0]"] obtain h' where
    "write_mem (Ptr b (length pre + n)) [0] h = ret h'" "blocks h' = (blocks h)(b \<mapsto> (k, pre @ buf @ 0 # post))"
    using True by auto
  then show ?thesis using True by (intro exI [of _ h'] exI [of _ buf]) (simp add: nth_append)
next
  case False
  then have n: "n < length buf" using assms(2) by simp
  let ?s = "take n buf @ 0 # drop (Suc n) buf"
  have "buf = take n buf @ buf ! n # drop (Suc n) buf" using n by (simp add: id_take_nth_drop)
  then have "pre @ buf @ 0 # post = (pre @ take n buf) @ [buf ! n] @ (drop (Suc n) buf @ 0 # post)" by simp
  with assms(1) have "blocks h b = Some (k, (pre @ take n buf) @ [buf ! n] @ (drop (Suc n) buf @ 0 # post))" by simp
  from write_block [OF this, of "[0]"] n obtain h' where
    "write_mem (Ptr b (length pre + n)) [0] h = ret h'" "blocks h' = (blocks h)(b \<mapsto> (k, pre @ ?s @ 0 # post))"
    by (auto simp: min_def)
  then show ?thesis using n by (intro exI [of _ h'] exI [of _ ?s]) (simp add: nth_append)
qed

text \<open>The outcomes of canonizing a string in memory.\<close>

lemma canonize_block:
  assumes K: "canonizes K" and m: "blocks h b = Some (k, pre @ s @ 0 # post)" and l: "length s < 2 ^ 64"
  obtains (invalid) "z_keyexpr_canonize K (Ptr b (length pre)) (of_nat (length s)) h = ret (Z_EPARSE, of_nat (length s), h)"
  | (bad) h1 where "z_keyexpr_canonize K (Ptr b (length pre)) (of_nat (length s)) h = ret (Z_EINVAL, of_nat (length s), h1)"
      "blocks h1 = (blocks h)(b \<mapsto> (k, pre @ fst (ke_canonize K s) @ 0 # post))"
  | (good) h1 where "z_keyexpr_canonize K (Ptr b (length pre)) (of_nat (length s)) h
        = ret (Z_OK, of_nat (snd (ke_canonize K s)), h1)"
      "blocks h1 = (blocks h)(b \<mapsto> (k, pre @ fst (ke_canonize K s) @ 0 # post))"
proof -
  let ?p = "Ptr b (length pre)" and ?buf = "fst (ke_canonize K s)" and ?n = "snd (ke_canonize K s)"
  have c: "length ?buf = length s" "?n \<le> length s" using K by (simp_all add: canonizes_def)
  have r: "from_raw_parts ?p (length s) h = ret s" using read_block [OF m] .
  have u: "unat (of_nat (length s) :: usize) = length s" using l by (rule unat_of_nat_usize)
  obtain h1 where w: "write_mem ?p ?buf h = ret h1" "blocks h1 = (blocks h)(b \<mapsto> (k, pre @ ?buf @ 0 # post))"
    using write_block [OF m c(1)] by blast
  have e: "z_keyexpr_canonize K ?p (of_nat (length s)) h = (if utf8_valid s then
      (case ke_new K ?p (take ?n ?buf) of
         Some ke \<Rightarrow> ret (Z_OK, of_nat (ke_len K ke), h1) | None \<Rightarrow> ret (Z_EINVAL, of_nat (length s), h1))
      else ret (Z_EPARSE, of_nat (length s), h))"
    by (simp add: z_keyexpr_canonize_def is_null_def u r keyexpr_create_def keyexpr_create_inner_def w(1) split_beta
        split: option.splits)
  show thesis
  proof (cases "utf8_valid s")
    case False
    then show thesis using invalid e by simp
  next
    case True
    show thesis
    proof (cases "ke_new K ?p (take ?n ?buf)")
      case None
      then show thesis using bad e True w(2) by simp
    next
      case (Some ke)
      then have "ke_len K ke = ?n" using K c by (auto simp: canonizes_def)
      then show thesis using good e True Some w(2) by simp
    qed
  qed
qed

subsection \<open>Properties\<close>

text \<open>C17: canonizing a C string in place stays inside the string. Whatever the string holds,
  \<open>z_keyexpr_canonize_null_terminated\<close> returns, writes nothing before or after it, and the memory of
  the string keeps its size and its terminator; and when it succeeds, the C string read from the same
  pointer is exactly the canonical text.\<close>

theorem canonize_in_place:
  assumes "canonizes K" "blocks h b = Some (k, pre @ s @ 0 # post)" "0 \<notin> set s" "length s < 2 ^ 64"
  shows "\<exists>r h' s'. z_keyexpr_canonize_null_terminated K (Ptr b (length pre)) h = ret (r, h')
    \<and> blocks h' = (blocks h)(b \<mapsto> (k, pre @ s' @ 0 # post)) \<and> length s' = length s
    \<and> (r = Z_OK \<longrightarrow> strlen_or_zero (Ptr b (length pre)) h' = ret (snd (ke_canonize K s))
        \<and> from_raw_parts (Ptr b (length pre)) (snd (ke_canonize K s)) h'
            = ret (take (snd (ke_canonize K s)) (fst (ke_canonize K s))))"
proof -
  let ?p = "Ptr b (length pre)" and ?buf = "fst (ke_canonize K s)" and ?n = "snd (ke_canonize K s)"
  have c: "length ?buf = length s" "?n \<le> length s" "set (take ?n ?buf) \<subseteq> set s"
    using assms(1) by (simp_all add: canonizes_def)
  have d: "z_keyexpr_canonize_null_terminated K ?p h
      = Option.bind (z_keyexpr_canonize K ?p (of_nat (length s)) h) (\<lambda>(r, l, h). if r = Z_OK
          then Option.bind (write_mem (ptr_add ?p (unat l)) [0] h) (\<lambda>h. ret (Z_OK, h)) else ret (r, h))"
    using strlen_block [OF assms(2,3)] by (simp add: z_keyexpr_canonize_null_terminated_def)
  show ?thesis
  proof (cases rule: canonize_block [OF assms(1,2,4)])
    case 1
    then show ?thesis using d assms(2) by (intro exI [of _ Z_EPARSE] exI [of _ h] exI [of _ s]) (simp add: fun_upd_idem)
  next
    case (2 h1)
    then show ?thesis using d c(1) by (intro exI [of _ Z_EINVAL] exI [of _ h1] exI [of _ ?buf]) simp
  next
    case (3 h1)
    have "blocks h1 b = Some (k, pre @ ?buf @ 0 # post)" "?n \<le> length ?buf" using 3(2) c by simp_all
    from terminate_block [OF this] obtain h' s' where t: "write_mem (Ptr b (length pre + ?n)) [0] h1 = ret h'"
      "length s' = length ?buf" "blocks h' = (blocks h1)(b \<mapsto> (k, pre @ s' @ 0 # post))" "take ?n s' = take ?n ?buf"
      "(pre @ s' @ 0 # post) ! (length pre + ?n) = 0" by blast
    have n: "?n < 2 ^ 64" using c(2) assms(4) by simp
    then have e: "z_keyexpr_canonize_null_terminated K ?p h = ret (Z_OK, h')"
      using d 3(1) t(1) by (simp add: ptr_add_def unat_of_nat_usize)
    have "pre @ s' @ 0 # post = pre @ take ?n ?buf @ 0 # drop (Suc ?n) (s' @ 0 # post)"
      using t(2,4,5) c id_take_nth_drop [of ?n "s' @ 0 # post"] by (simp add: nth_append)
    then obtain R where R: "pre @ s' @ 0 # post = pre @ take ?n ?buf @ 0 # R" by blast
    have m: "blocks h' b = Some (k, pre @ take ?n ?buf @ 0 # R)" unfolding R [symmetric] using t(3) by simp
    have "0 \<notin> set (take ?n ?buf)" using c(3) assms(3) by blast
    with strlen_block [OF m] read_block [OF m] c have "strlen_or_zero ?p h' = ret ?n"
      "from_raw_parts ?p ?n h' = ret (take ?n ?buf)" by simp_all
    then show ?thesis using e t 3 c by (intro exI [of _ Z_OK] exI [of _ h'] exI [of _ s']) simp
  qed
qed

text \<open>An algebra for the witness: nothing is rewritten, every text is a key expression.\<close>

definition demo_keyexprs :: "u8 list keyexpr_ops" where
  "demo_keyexprs = \<lparr>ke_dummy = [], ke_is_dummy = (\<lambda>k. k = []), ke_try_from = Some, ke_autocanonize = Some,
     ke_canonize = (\<lambda>s. (s, length s)), ke_new = (\<lambda>_. Some), ke_from_str_unchecked = (\<lambda>_ s. s), ke_len = length,
     ke_ptr = (\<lambda>_. Ptr 0 0), ke_text = (\<lambda>k. k), ke_equal = (=), ke_intersects = (=), ke_includes = (=),
     ke_concat = (\<lambda>k s. Some (k @ s)), ke_join = (\<lambda>k s. Some (k @ [47] @ s)), ke_clone = (\<lambda>k. k),
     ke_into_owned = (\<lambda>k. k)\<rparr>"

theorem canonize_in_place_witness:
  "\<exists>r h' s'. z_keyexpr_canonize_null_terminated demo_keyexprs (Ptr 0 1)
      \<lparr>blocks = [0 \<mapsto> (User, [9, 97, 47, 98, 0, 9])], next_block = 7, calls = []\<rparr> = ret (r, h')
    \<and> blocks h' 0 = Some (User, [9] @ s' @ [0, 9]) \<and> length s' = 3"
proof -
  have K: "canonizes demo_keyexprs" by (simp add: canonizes_def demo_keyexprs_def)
  show ?thesis
    using canonize_in_place [OF K, of "\<lparr>blocks = [0 \<mapsto> (User, [9, 97, 47, 98, 0, 9])], next_block = 7, calls = []\<rparr>"
        0 User "[9]" "[97, 47, 98]" "[9]"]
    by (fastforce simp: fun_upd_def)
qed

end
