(* ===== verification/Encodings.thy ===== *)
theory Encodings
  imports Sessions
begin

text \<open>
  \<open>src/encoding.rs\<close>: encodings, their textual form and schema, and the predefined encodings.

  \<open>Encoding\<close> is zenoh's: its constants are the datatype \<open>encoding_const\<close>, read by \<open>en_const\<close>, and its
  operations the other fields of \<open>encoding_ops\<close>. A schema is a buffer the encoding shares, so reading it
  gives a pointer and a length.
\<close>

datatype encoding_const =    ZENOH_BYTES | ZENOH_STRING | ZENOH_SERIALIZED | APPLICATION_OCTET_STREAM | TEXT_PLAIN
  | APPLICATION_JSON | TEXT_JSON | APPLICATION_CDR | APPLICATION_CBOR | APPLICATION_YAML
  | TEXT_YAML | TEXT_JSON5 | APPLICATION_PYTHON_SERIALIZED_OBJECT | APPLICATION_PROTOBUF
  | APPLICATION_JAVA_SERIALIZED_OBJECT | APPLICATION_OPENMETRICS_TEXT | IMAGE_PNG | IMAGE_JPEG
  | IMAGE_GIF | IMAGE_BMP | IMAGE_WEBP | APPLICATION_XML | APPLICATION_X_WWW_FORM_URLENCODED
  | TEXT_HTML | TEXT_XML | TEXT_CSS | TEXT_JAVASCRIPT | TEXT_MARKDOWN | TEXT_CSV
  | APPLICATION_SQL | APPLICATION_COAP_PAYLOAD | APPLICATION_JSON_PATCH_JSON
  | APPLICATION_JSON_SEQ | APPLICATION_JSONPATH | APPLICATION_JWT | APPLICATION_MP4
  | APPLICATION_SOAP_XML | APPLICATION_YANG | AUDIO_AAC | AUDIO_FLAC | AUDIO_MP4 | AUDIO_OGG
  | AUDIO_VORBIS | VIDEO_H261 | VIDEO_H263 | VIDEO_H264 | VIDEO_H265 | VIDEO_H266 | VIDEO_MP4
  | VIDEO_OGG | VIDEO_RAW | VIDEO_VP8 | VIDEO_VP9

record 'e encoding_ops =
  en_default :: 'e
  en_const :: "encoding_const \<Rightarrow> 'e"
  en_from_str :: "u8 list \<Rightarrow> 'e"
  en_with_schema :: "'e \<Rightarrow> u8 list \<Rightarrow> 'e"
  en_to_string :: "'e \<Rightarrow> u8 list"
  en_clone :: "'e \<Rightarrow> 'e"
  en_equal :: "'e \<Rightarrow> 'e \<Rightarrow> bool"
  en_id :: "'e \<Rightarrow> u16"
  en_schema :: "'e \<Rightarrow> (ptr \<times> usize) option"
  en_new :: "u16 \<Rightarrow> u8 list option \<Rightarrow> 'e"

definition Encoding_gravestone :: "'e encoding_ops \<Rightarrow> 'e" where
  "Encoding_gravestone N = en_default N"

definition Encoding_is_gravestone :: "'e encoding_ops \<Rightarrow> 'e \<Rightarrow> bool" where
  "Encoding_is_gravestone N this = en_equal N this (en_default N)"

subsection \<open>Text and schema\<close>

definition z_encoding_from_substr :: "'e encoding_ops \<Rightarrow> ptr \<Rightarrow> usize \<Rightarrow> heap \<Rightarrow> (z_result_t \<times> 'e) run" where
  "z_encoding_from_substr N s l h =
    (if is_null s then ret (Z_OK, en_default N)
     else do {
       bs \<leftarrow> from_raw_parts s (unat l) h;
       ret (if utf8_valid bs then (Z_OK, en_from_str N bs) else (Z_EINVAL, en_default N))
     })"

text \<open>\<open>std::mem::take\<close> leaves the default, and the encoding with the schema replaces it.\<close>

definition z_encoding_set_schema_from_substr ::
  "'e encoding_ops \<Rightarrow> 'e \<Rightarrow> ptr \<Rightarrow> usize \<Rightarrow> heap \<Rightarrow> (z_result_t \<times> 'e) run" where
  "z_encoding_set_schema_from_substr N this s l h =
    (if l = 0 then ret (Z_OK, en_with_schema N this [])
     else if is_null s then ret (Z_EINVAL, this)
     else do {
       bs \<leftarrow> from_raw_parts s (unat l) h;
       ret (if utf8_valid bs then (Z_OK, en_with_schema N this bs) else (Z_EINVAL, this))
     })"

definition z_encoding_set_schema_from_str ::
  "'e encoding_ops \<Rightarrow> 'e \<Rightarrow> ptr \<Rightarrow> heap \<Rightarrow> (z_result_t \<times> 'e) run" where
  "z_encoding_set_schema_from_str N this s h = do {
     n \<leftarrow> strlen_or_zero s h;
     z_encoding_set_schema_from_substr N this s (of_nat n) h
   }"

definition z_encoding_from_str :: "'e encoding_ops \<Rightarrow> ptr \<Rightarrow> heap \<Rightarrow> (z_result_t \<times> 'e) run" where
  "z_encoding_from_str N s h = do {
     n \<leftarrow> strlen_or_zero s h;
     z_encoding_from_substr N s (of_nat n) h
   }"

definition z_encoding_to_string :: "'e encoding_ops \<Rightarrow> 'e \<Rightarrow> heap \<Rightarrow> (cslice \<times> heap) run" where
  "z_encoding_to_string N this h = copy_rust_string (en_to_string N this) h"

definition z_encoding_loan_default :: "'e encoding_ops \<Rightarrow> 'e" where
  "z_encoding_loan_default N = en_const N ZENOH_BYTES"

definition z_internal_encoding_null :: "'e encoding_ops \<Rightarrow> 'e" where
  "z_internal_encoding_null N = en_default N"

definition z_encoding_drop :: "'e encoding_ops \<Rightarrow> ('e \<Rightarrow> 'w \<Rightarrow> 'w run) \<Rightarrow> 'e \<Rightarrow> 'w \<Rightarrow> ('e \<times> 'w) run" where
  "z_encoding_drop N drp this w = moved_drop (Encoding_gravestone N) drp this w"

definition z_internal_encoding_check :: "'e encoding_ops \<Rightarrow> 'e \<Rightarrow> bool" where
  "z_internal_encoding_check N this \<longleftrightarrow> \<not> en_equal N this (en_default N)"

definition z_encoding_loan :: "'e \<Rightarrow> 'e" where
  "z_encoding_loan this = this"

definition z_encoding_loan_mut :: "'e \<Rightarrow> 'e" where
  "z_encoding_loan_mut this = this"

definition z_encoding_clone :: "'e encoding_ops \<Rightarrow> 'e \<Rightarrow> 'e" where
  "z_encoding_clone N this = en_clone N this"

definition z_encoding_equals :: "'e encoding_ops \<Rightarrow> 'e \<Rightarrow> 'e \<Rightarrow> bool" where
  "z_encoding_equals N this other = en_equal N this other"

record zc_internal_encoding_data_t =
  ed_id :: u16
  ed_schema_ptr :: ptr
  ed_schema_len :: usize

definition zc_internal_encoding_get_data :: "'e encoding_ops \<Rightarrow> 'e \<Rightarrow> zc_internal_encoding_data_t" where
  "zc_internal_encoding_get_data N this = (case en_schema N this of
     Some (p, n) \<Rightarrow> \<lparr>ed_id = en_id N this, ed_schema_ptr = p, ed_schema_len = n\<rparr>
   | None \<Rightarrow> \<lparr>ed_id = en_id N this, ed_schema_ptr = null, ed_schema_len = 0\<rparr>)"

text \<open>The argument of \<open>then_some\<close> is evaluated whether or not the condition holds.\<close>

definition zc_internal_encoding_from_data :: "'e encoding_ops \<Rightarrow> zc_internal_encoding_data_t \<Rightarrow> heap \<Rightarrow> 'e run" where
  "zc_internal_encoding_from_data N d h = do {
     bs \<leftarrow> from_raw_parts (ed_schema_ptr d) (unat (ed_schema_len d)) h;
     ret (en_new N (ed_id d) (if \<not> is_null (ed_schema_ptr d) \<and> ed_schema_len d > 0 then Some bs else None))
   }"

subsection \<open>The predefined encodings\<close>

definition z_encoding_zenoh_bytes :: "'e encoding_ops \<Rightarrow> 'e" where
  "z_encoding_zenoh_bytes N = en_const N ZENOH_BYTES"

definition z_encoding_zenoh_string :: "'e encoding_ops \<Rightarrow> 'e" where
  "z_encoding_zenoh_string N = en_const N ZENOH_STRING"

definition z_encoding_zenoh_serialized :: "'e encoding_ops \<Rightarrow> 'e" where
  "z_encoding_zenoh_serialized N = en_const N ZENOH_SERIALIZED"

definition z_encoding_application_octet_stream :: "'e encoding_ops \<Rightarrow> 'e" where
  "z_encoding_application_octet_stream N = en_const N APPLICATION_OCTET_STREAM"

definition z_encoding_text_plain :: "'e encoding_ops \<Rightarrow> 'e" where
  "z_encoding_text_plain N = en_const N TEXT_PLAIN"

definition z_encoding_application_json :: "'e encoding_ops \<Rightarrow> 'e" where
  "z_encoding_application_json N = en_const N APPLICATION_JSON"

definition z_encoding_text_json :: "'e encoding_ops \<Rightarrow> 'e" where
  "z_encoding_text_json N = en_const N TEXT_JSON"

definition z_encoding_application_cdr :: "'e encoding_ops \<Rightarrow> 'e" where
  "z_encoding_application_cdr N = en_const N APPLICATION_CDR"

definition z_encoding_application_cbor :: "'e encoding_ops \<Rightarrow> 'e" where
  "z_encoding_application_cbor N = en_const N APPLICATION_CBOR"

definition z_encoding_application_yaml :: "'e encoding_ops \<Rightarrow> 'e" where
  "z_encoding_application_yaml N = en_const N APPLICATION_YAML"

definition z_encoding_text_yaml :: "'e encoding_ops \<Rightarrow> 'e" where
  "z_encoding_text_yaml N = en_const N TEXT_YAML"

definition z_encoding_text_json5 :: "'e encoding_ops \<Rightarrow> 'e" where
  "z_encoding_text_json5 N = en_const N TEXT_JSON5"

definition z_encoding_application_python_serialized_object :: "'e encoding_ops \<Rightarrow> 'e" where
  "z_encoding_application_python_serialized_object N = en_const N APPLICATION_PYTHON_SERIALIZED_OBJECT"

definition z_encoding_application_protobuf :: "'e encoding_ops \<Rightarrow> 'e" where
  "z_encoding_application_protobuf N = en_const N APPLICATION_PROTOBUF"

definition z_encoding_application_java_serialized_object :: "'e encoding_ops \<Rightarrow> 'e" where
  "z_encoding_application_java_serialized_object N = en_const N APPLICATION_JAVA_SERIALIZED_OBJECT"

definition z_encoding_application_openmetrics_text :: "'e encoding_ops \<Rightarrow> 'e" where
  "z_encoding_application_openmetrics_text N = en_const N APPLICATION_OPENMETRICS_TEXT"

definition z_encoding_image_png :: "'e encoding_ops \<Rightarrow> 'e" where
  "z_encoding_image_png N = en_const N IMAGE_PNG"

definition z_encoding_image_jpeg :: "'e encoding_ops \<Rightarrow> 'e" where
  "z_encoding_image_jpeg N = en_const N IMAGE_JPEG"

definition z_encoding_image_gif :: "'e encoding_ops \<Rightarrow> 'e" where
  "z_encoding_image_gif N = en_const N IMAGE_GIF"

definition z_encoding_image_bmp :: "'e encoding_ops \<Rightarrow> 'e" where
  "z_encoding_image_bmp N = en_const N IMAGE_BMP"

definition z_encoding_image_webp :: "'e encoding_ops \<Rightarrow> 'e" where
  "z_encoding_image_webp N = en_const N IMAGE_WEBP"

definition z_encoding_application_xml :: "'e encoding_ops \<Rightarrow> 'e" where
  "z_encoding_application_xml N = en_const N APPLICATION_XML"

definition z_encoding_application_x_www_form_urlencoded :: "'e encoding_ops \<Rightarrow> 'e" where
  "z_encoding_application_x_www_form_urlencoded N = en_const N APPLICATION_X_WWW_FORM_URLENCODED"

definition z_encoding_text_html :: "'e encoding_ops \<Rightarrow> 'e" where
  "z_encoding_text_html N = en_const N TEXT_HTML"

definition z_encoding_text_xml :: "'e encoding_ops \<Rightarrow> 'e" where
  "z_encoding_text_xml N = en_const N TEXT_XML"

definition z_encoding_text_css :: "'e encoding_ops \<Rightarrow> 'e" where
  "z_encoding_text_css N = en_const N TEXT_CSS"

definition z_encoding_text_javascript :: "'e encoding_ops \<Rightarrow> 'e" where
  "z_encoding_text_javascript N = en_const N TEXT_JAVASCRIPT"

definition z_encoding_text_markdown :: "'e encoding_ops \<Rightarrow> 'e" where
  "z_encoding_text_markdown N = en_const N TEXT_MARKDOWN"

definition z_encoding_text_csv :: "'e encoding_ops \<Rightarrow> 'e" where
  "z_encoding_text_csv N = en_const N TEXT_CSV"

definition z_encoding_application_sql :: "'e encoding_ops \<Rightarrow> 'e" where
  "z_encoding_application_sql N = en_const N APPLICATION_SQL"

definition z_encoding_application_coap_payload :: "'e encoding_ops \<Rightarrow> 'e" where
  "z_encoding_application_coap_payload N = en_const N APPLICATION_COAP_PAYLOAD"

definition z_encoding_application_json_patch_json :: "'e encoding_ops \<Rightarrow> 'e" where
  "z_encoding_application_json_patch_json N = en_const N APPLICATION_JSON_PATCH_JSON"

definition z_encoding_application_json_seq :: "'e encoding_ops \<Rightarrow> 'e" where
  "z_encoding_application_json_seq N = en_const N APPLICATION_JSON_SEQ"

definition z_encoding_application_jsonpath :: "'e encoding_ops \<Rightarrow> 'e" where
  "z_encoding_application_jsonpath N = en_const N APPLICATION_JSONPATH"

definition z_encoding_application_jwt :: "'e encoding_ops \<Rightarrow> 'e" where
  "z_encoding_application_jwt N = en_const N APPLICATION_JWT"

definition z_encoding_application_mp4 :: "'e encoding_ops \<Rightarrow> 'e" where
  "z_encoding_application_mp4 N = en_const N APPLICATION_MP4"

definition z_encoding_application_soap_xml :: "'e encoding_ops \<Rightarrow> 'e" where
  "z_encoding_application_soap_xml N = en_const N APPLICATION_SOAP_XML"

definition z_encoding_application_yang :: "'e encoding_ops \<Rightarrow> 'e" where
  "z_encoding_application_yang N = en_const N APPLICATION_YANG"

definition z_encoding_audio_aac :: "'e encoding_ops \<Rightarrow> 'e" where
  "z_encoding_audio_aac N = en_const N AUDIO_AAC"

definition z_encoding_audio_flac :: "'e encoding_ops \<Rightarrow> 'e" where
  "z_encoding_audio_flac N = en_const N AUDIO_FLAC"

definition z_encoding_audio_mp4 :: "'e encoding_ops \<Rightarrow> 'e" where
  "z_encoding_audio_mp4 N = en_const N AUDIO_MP4"

definition z_encoding_audio_ogg :: "'e encoding_ops \<Rightarrow> 'e" where
  "z_encoding_audio_ogg N = en_const N AUDIO_OGG"

definition z_encoding_audio_vorbis :: "'e encoding_ops \<Rightarrow> 'e" where
  "z_encoding_audio_vorbis N = en_const N AUDIO_VORBIS"

definition z_encoding_video_h261 :: "'e encoding_ops \<Rightarrow> 'e" where
  "z_encoding_video_h261 N = en_const N VIDEO_H261"

definition z_encoding_video_h263 :: "'e encoding_ops \<Rightarrow> 'e" where
  "z_encoding_video_h263 N = en_const N VIDEO_H263"

definition z_encoding_video_h264 :: "'e encoding_ops \<Rightarrow> 'e" where
  "z_encoding_video_h264 N = en_const N VIDEO_H264"

definition z_encoding_video_h265 :: "'e encoding_ops \<Rightarrow> 'e" where
  "z_encoding_video_h265 N = en_const N VIDEO_H265"

definition z_encoding_video_h266 :: "'e encoding_ops \<Rightarrow> 'e" where
  "z_encoding_video_h266 N = en_const N VIDEO_H266"

definition z_encoding_video_mp4 :: "'e encoding_ops \<Rightarrow> 'e" where
  "z_encoding_video_mp4 N = en_const N VIDEO_MP4"

definition z_encoding_video_ogg :: "'e encoding_ops \<Rightarrow> 'e" where
  "z_encoding_video_ogg N = en_const N VIDEO_OGG"

definition z_encoding_video_raw :: "'e encoding_ops \<Rightarrow> 'e" where
  "z_encoding_video_raw N = en_const N VIDEO_RAW"

definition z_encoding_video_vp8 :: "'e encoding_ops \<Rightarrow> 'e" where
  "z_encoding_video_vp8 N = en_const N VIDEO_VP8"

definition z_encoding_video_vp9 :: "'e encoding_ops \<Rightarrow> 'e" where
  "z_encoding_video_vp9 N = en_const N VIDEO_VP9"

subsection \<open>Properties\<close>

text \<open>
  An encoding is an identifier and possibly a schema. Where \<open>text_of\<close> is the schema's bytes, the accessors
  behave as zenoh documents them: \<open>id\<close> and \<open>schema\<close> of \<open>Encoding::new(id, schema)\<close> are its arguments, and the
  reference \<open>schema\<close> returns can be read, so in the heap its pointer leads to those bytes.
\<close>

definition accessors :: "'e encoding_ops \<Rightarrow> ('e \<Rightarrow> u8 list option) \<Rightarrow> bool" where
  "accessors N text_of \<longleftrightarrow> (\<forall>i sch. en_id N (en_new N i sch) = i \<and> text_of (en_new N i sch) = sch)"

definition schema_readable :: "'e encoding_ops \<Rightarrow> ('e \<Rightarrow> u8 list option) \<Rightarrow> 'e \<Rightarrow> heap \<Rightarrow> bool" where
  "schema_readable N text_of e h \<longleftrightarrow> (case en_schema N e of
     None \<Rightarrow> text_of e = None
   | Some (p, n) \<Rightarrow> \<exists>bs. text_of e = Some bs \<and> length bs = unat n \<and> from_raw_parts p (unat n) h = ret bs)"

text \<open>Reading past a null pointer is undefined behaviour, so the pointer of a readable schema is not null.\<close>

lemma from_data_get_data:
  assumes "schema_readable N text_of e h"
  shows "zc_internal_encoding_from_data N (zc_internal_encoding_get_data N e) h
    = (case text_of e of
         None \<Rightarrow> panic
       | Some bs \<Rightarrow> ret (en_new N (en_id N e) (if bs = [] then None else Some bs)))"
proof (cases "en_schema N e")
  case None
  with assms show ?thesis
    by (simp add: schema_readable_def zc_internal_encoding_from_data_def zc_internal_encoding_get_data_def
        from_raw_parts_def is_null_def)
next
  case (Some q)
  obtain p n where q: "q = (p, n)" by (cases q)
  with Some assms obtain bs where bs: "text_of e = Some bs" "length bs = unat n" "from_raw_parts p (unat n) h = ret bs"
    by (auto simp: schema_readable_def)
  then have "\<not> is_null p" by (auto simp: from_raw_parts_def)
  moreover have "bs = [] \<longleftrightarrow> n = 0" using bs(2) by (auto simp: unat_eq_0 dest: sym)
  ultimately show ?thesis
    using Some q bs by (simp add: zc_internal_encoding_from_data_def zc_internal_encoding_get_data_def word_gt_0)
qed

text \<open>C18: reading an encoding apart with \<open>zc_internal_encoding_get_data\<close> and putting it together again with
  \<open>zc_internal_encoding_from_data\<close> keeps the identifier, and keeps the schema exactly when it is not empty: an
  empty schema, which \<open>z_encoding_set_schema_from_substr\<close> can set, is lost. Without a schema the data
  holds a null pointer, and \<open>from_data\<close> forms a slice from it, which is undefined behaviour although the schema
  is then not used.\<close>

theorem encoding_data_roundtrip:
  assumes "accessors N text_of" "schema_readable N text_of e h"
  shows "case text_of e of
      None \<Rightarrow> zc_internal_encoding_from_data N (zc_internal_encoding_get_data N e) h = panic
    | Some bs \<Rightarrow> \<exists>e'. zc_internal_encoding_from_data N (zc_internal_encoding_get_data N e) h = ret e'
        \<and> en_id N e' = en_id N e \<and> text_of e' = (if bs = [] then None else Some bs)"
  using assms(1) by (simp add: from_data_get_data [OF assms(2)] accessors_def split: option.split)

text \<open>Encodings as pairs of an identifier and a schema, read in the block where it was stored.\<close>

definition demo_encodings :: "(u16 \<times> u8 list option) encoding_ops" where
  "demo_encodings = \<lparr>en_default = (0, None), en_const = (\<lambda>_. (1, None)), en_from_str = (\<lambda>s. (2, Some s)),
     en_with_schema = (\<lambda>(i, _) s. (i, Some s)), en_to_string = (\<lambda>_. []), en_clone = (\<lambda>e. e), en_equal = (=),
     en_id = fst, en_schema = (\<lambda>e. map_option (\<lambda>s. (Ptr 0 0, of_nat (length s))) (snd e)), en_new = Pair\<rparr>"

theorem encoding_data_roundtrip_witness:
  "(\<exists>e'. zc_internal_encoding_from_data demo_encodings (zc_internal_encoding_get_data demo_encodings (3, Some [5, 6]))
      \<lparr>blocks = [0 \<mapsto> (Boxed, [5, 6])], next_block = 7, calls = []\<rparr> = ret e' \<and> fst e' = 3 \<and> snd e' = Some [5, 6])
   \<and> (\<exists>e'. zc_internal_encoding_from_data demo_encodings (zc_internal_encoding_get_data demo_encodings (3, Some []))
      \<lparr>blocks = [0 \<mapsto> (Boxed, [5, 6])], next_block = 7, calls = []\<rparr> = ret e' \<and> fst e' = 3 \<and> snd e' = None)
   \<and> zc_internal_encoding_from_data demo_encodings (zc_internal_encoding_get_data demo_encodings (3, None))
      \<lparr>blocks = [0 \<mapsto> (Boxed, [5, 6])], next_block = 7, calls = []\<rparr> = panic"
proof -
  let ?h = "\<lparr>blocks = [0 \<mapsto> (Boxed, [5, 6])], next_block = 7, calls = []\<rparr> :: heap"
  have laws: "accessors demo_encodings snd" by (simp add: accessors_def demo_encodings_def)
  have "schema_readable demo_encodings snd (3, Some [5, 6]) ?h" "schema_readable demo_encodings snd (3, Some []) ?h"
    "schema_readable demo_encodings snd (3, None) ?h"
    by (simp_all add: schema_readable_def demo_encodings_def from_raw_parts_def is_null_def)
  from this [THEN encoding_data_roundtrip [OF laws]] show ?thesis
    by (simp_all add: demo_encodings_def)
qed

end
