(* ===== verification/ShmClients.thy ===== *)
theory ShmClients
  imports ShmProviders "HOL-Library.Multiset"
begin

text \<open>
  Buffers and clients of shared memory: \<open>src/shm/buffer/zshm.rs\<close>, \<open>zshmmut.rs\<close>,
  \<open>src/shm/client/shm_client.rs\<close>, \<open>shm_segment.rs\<close>, \<open>src/shm/client_storage/mod.rs\<close> and
  \<open>src/shm/protocol_implementations/posix/posix_shm_client.rs\<close>.

  Clients and storages are shared by reference counting (\<open>Arc\<close>). The counts are part of the model:
  a store holds the cells of all \<open>Arc\<close>s, the last reference to a cell drops its contents, and using a
  cell after that has the value \<open>panic\<close>. The result is about whole programs: the deleter of a
  client's context runs exactly when the last slot, list or storage that shares the client is
  gone, and never twice.

  zenoh's buffers are parameters; so is which of the clients it was given a storage keeps.
\<close>

subsection \<open>Buffers (zshm.rs, zshmmut.rs)\<close>

text \<open>\<open>'b\<close> is \<open>ZShmMut\<close> and \<open>'r\<close> is \<open>ZShm\<close>. A mutable borrow (\<open>zshmmut\<close> of a \<open>zshm\<close>) is the value itself.\<close>

record ('b, 'r) shm_buffer_ops =
  sb_freeze :: "'b \<Rightarrow> 'r"
  sb_try_thaw :: "'r \<Rightarrow> 'r + 'b"
  sb_clone :: "'r \<Rightarrow> 'r"
  sb_try_borrow_mut :: "'r \<Rightarrow> 'b option"
  sb_bytes :: "'r \<Rightarrow> ptr \<times> usize"
  sb_bytes_mut :: "'b \<Rightarrow> ptr \<times> usize"

definition z_shm_from_mut :: "('b, 'r) shm_buffer_ops \<Rightarrow> 'b option \<Rightarrow> 'r option \<times> 'b option" where
  "z_shm_from_mut B that = (let (x, that) = take_rust_type gravestone_option that in (map_option (sb_freeze B) x, that))"

definition z_internal_shm_null :: "'r option" where
  "z_internal_shm_null = None"

definition z_internal_shm_check :: "'r option \<Rightarrow> bool" where
  "z_internal_shm_check this \<longleftrightarrow> this \<noteq> None"

definition z_shm_clone :: "('b, 'r) shm_buffer_ops \<Rightarrow> 'r \<Rightarrow> 'r option" where
  "z_shm_clone B this = Some (sb_clone B this)"

definition z_shm_loan :: "'r option \<Rightarrow> 'r run" where
  "z_shm_loan this = loan_option this"

definition z_shm_loan_mut :: "'r option \<Rightarrow> 'r run" where
  "z_shm_loan_mut this = loan_option this"

definition z_shm_try_reloan_mut :: "('b, 'r) shm_buffer_ops \<Rightarrow> 'r \<Rightarrow> 'b option" where
  "z_shm_try_reloan_mut B this = sb_try_borrow_mut B this"

definition z_shm_try_mut :: "('b, 'r) shm_buffer_ops \<Rightarrow> 'r option \<Rightarrow> 'b option run" where
  "z_shm_try_mut B this = do { shm \<leftarrow> loan_option this; ret (sb_try_borrow_mut B shm) }"

definition z_shm_drop :: "('r \<Rightarrow> 'w \<Rightarrow> 'w) \<Rightarrow> 'r option \<Rightarrow> 'w \<Rightarrow> 'r option \<times> 'w" where
  "z_shm_drop drp this w = drop_moved drp this w"

definition z_shm_len :: "('b, 'r) shm_buffer_ops \<Rightarrow> 'r \<Rightarrow> usize" where
  "z_shm_len B this = snd (sb_bytes B this)"

definition z_shm_data :: "('b, 'r) shm_buffer_ops \<Rightarrow> 'r \<Rightarrow> ptr" where
  "z_shm_data B this = fst (sb_bytes B this)"

text \<open>Both outputs are slots that are written on one path each.\<close>

definition z_shm_mut_try_from_immut ::
  "('b, 'r) shm_buffer_ops \<Rightarrow> 'b option \<Rightarrow> 'r option \<Rightarrow> 'r option \<Rightarrow> z_result_t \<times> 'b option \<times> 'r option \<times> 'r option" where
  "z_shm_mut_try_from_immut B this that immut = (case take_rust_type gravestone_option that of
     (Some shm, that) \<Rightarrow> (case sb_try_thaw B shm of
        Inr val \<Rightarrow> (Z_OK, Some val, that, immut)
      | Inl old \<Rightarrow> (Z_EUNAVAILABLE, this, that, Some old))
   | (None, that) \<Rightarrow> (Z_EINVAL, this, that, immut))"

definition z_internal_shm_mut_null :: "'b option" where
  "z_internal_shm_mut_null = None"

definition z_internal_shm_mut_check :: "'b option \<Rightarrow> bool" where
  "z_internal_shm_mut_check this \<longleftrightarrow> this \<noteq> None"

definition z_shm_mut_loan :: "'b option \<Rightarrow> 'b run" where
  "z_shm_mut_loan this = loan_option this"

definition z_shm_mut_loan_mut :: "'b option \<Rightarrow> 'b run" where
  "z_shm_mut_loan_mut this = loan_option this"

definition z_shm_mut_drop :: "('b \<Rightarrow> 'w \<Rightarrow> 'w) \<Rightarrow> 'b option \<Rightarrow> 'w \<Rightarrow> 'b option \<times> 'w" where
  "z_shm_mut_drop drp this w = drop_moved drp this w"

definition z_shm_mut_len :: "('b, 'r) shm_buffer_ops \<Rightarrow> 'b \<Rightarrow> usize" where
  "z_shm_mut_len B this = snd (sb_bytes_mut B this)"

definition z_shm_mut_data :: "('b, 'r) shm_buffer_ops \<Rightarrow> 'b \<Rightarrow> ptr" where
  "z_shm_mut_data B this = fst (sb_bytes_mut B this)"

definition z_shm_mut_data_mut :: "('b, 'r) shm_buffer_ops \<Rightarrow> 'b \<Rightarrow> ptr" where
  "z_shm_mut_data_mut B this = fst (sb_bytes_mut B this)"

text \<open>A conversion to a mutable buffer never loses the buffer: it is in exactly one of the two outputs
  when the slot it was taken from had one. (On \<open>Z_EINVAL\<close> both outputs are left as they were.)\<close>

lemma try_from_immut_keeps_buffer:
  assumes "z_shm_mut_try_from_immut B None that None = (code, m, that', i)"
  shows "that' = None \<and> (m = None \<or> i = None)
    \<and> (case that of None \<Rightarrow> code = Z_EINVAL \<and> m = None \<and> i = None
       | Some shm \<Rightarrow> (code = Z_OK \<and> m \<noteq> None \<and> sb_try_thaw B shm = Inr (the m))
           \<or> (code = Z_EUNAVAILABLE \<and> i \<noteq> None \<and> sb_try_thaw B shm = Inl (the i)))"
  using assms by (auto simp: z_shm_mut_try_from_immut_def split: option.splits sum.splits)

subsection \<open>Segments (shm\_segment.rs)\<close>

record 'w zc_shm_segment_callbacks_t =
  map_fn :: "z_chunk_id_t \<Rightarrow> ptr \<Rightarrow> 'w \<Rightarrow> ptr \<times> 'w"

record 'w z_shm_segment_t =
  sg_context :: "'w zc_threadsafe_context_t"
  sg_callbacks :: "'w zc_shm_segment_callbacks_t"

record 'w DynamicShmSegment =
  ds_context :: "'w ThreadsafeContext"
  ds_callbacks :: "'w zc_shm_segment_callbacks_t"

definition DynamicShmSegment_new :: "'w z_shm_segment_t \<Rightarrow> 'w DynamicShmSegment" where
  "DynamicShmSegment_new d = \<lparr>ds_context = ThreadsafeContext_from (sg_context d), ds_callbacks = sg_callbacks d\<rparr>"

definition segment_map :: "'w DynamicShmSegment \<Rightarrow> z_chunk_id_t \<Rightarrow> 'w \<Rightarrow> (unit + ptr) \<times> 'w" where
  "segment_map self chunk w =
    (let (cb_result, w) = map_fn (ds_callbacks self) chunk (ThreadsafeContext_get (ds_context self)) w
     in (if is_null cb_result then Inl () else Inr cb_result, w))"

subsection \<open>Clients (shm\_client.rs, posix\_shm\_client.rs)\<close>

text \<open>\<open>attach_fn\<close> returns whether it wrote the segment; \<open>None\<close> is \<open>false\<close>.\<close>

record 'w zc_shm_client_callbacks_t =
  attach_fn :: "z_segment_id_t \<Rightarrow> ptr \<Rightarrow> 'w \<Rightarrow> 'w z_shm_segment_t option \<times> 'w"
  client_id_fn :: "ptr \<Rightarrow> 'w \<Rightarrow> z_protocol_id_t \<times> 'w"

record 'w DynamicShmClient =
  dc_context :: "'w ThreadsafeContext"
  dc_callbacks :: "'w zc_shm_client_callbacks_t"

definition DynamicShmClient_new :: "'w ThreadsafeContext \<Rightarrow> 'w zc_shm_client_callbacks_t \<Rightarrow> 'w DynamicShmClient" where
  "DynamicShmClient_new context' callbacks = \<lparr>dc_context = context', dc_callbacks = callbacks\<rparr>"

definition client_id :: "'w DynamicShmClient \<Rightarrow> 'w \<Rightarrow> z_protocol_id_t \<times> 'w" where
  "client_id self w = client_id_fn (dc_callbacks self) (ThreadsafeContext_get (dc_context self)) w"

definition client_attach :: "'w DynamicShmClient \<Rightarrow> z_segment_id_t \<Rightarrow> 'w \<Rightarrow> (unit + 'w DynamicShmSegment) \<times> 'w" where
  "client_attach self segment w =
    (case attach_fn (dc_callbacks self) segment (ThreadsafeContext_get (dc_context self)) w of
       (Some segment_data, w) \<Rightarrow> (Inr (DynamicShmSegment_new segment_data), w)
     | (None, w) \<Rightarrow> (Inl (), w))"

text \<open>\<open>dyn ShmClient\<close>.\<close>

datatype 'w ShmClient = DynamicShmClient "'w DynamicShmClient" | PosixShmClient

fun ShmClient_drop :: "'w ShmClient \<Rightarrow> 'w \<Rightarrow> 'w" where
  "ShmClient_drop (DynamicShmClient c) w = ThreadsafeContext_drop (dc_context c) w"
| "ShmClient_drop PosixShmClient w = w"

subsection \<open>Reference counting\<close>

text \<open>The cells of all \<open>Arc\<close>s of one type: the number of references and the contents. The cells are
  never reused, so that a reference to a dropped value is one to a cell of count zero.\<close>

type_synonym 'x arcs = "(nat \<times> 'x) list"

definition strong :: "'x arcs \<Rightarrow> nat \<Rightarrow> nat" where
  "strong A a = (if a < length A then fst (A ! a) else 0)"

definition arc_new :: "'x \<Rightarrow> 'x arcs \<Rightarrow> nat \<times> 'x arcs" where
  "arc_new x A = (length A, A @ [(1, x)])"

definition arc_clone :: "nat \<Rightarrow> 'x arcs \<Rightarrow> 'x arcs run" where
  "arc_clone a A = (if strong A a = 0 then panic else ret (A[a := (strong A a + 1, snd (A ! a))]))"

text \<open>The contents, when the last reference is gone.\<close>

definition arc_drop :: "nat \<Rightarrow> 'x arcs \<Rightarrow> ('x option \<times> 'x arcs) run" where
  "arc_drop a A = (if strong A a = 0 then panic
     else ret (if strong A a = 1 then Some (snd (A ! a)) else None, A[a := (strong A a - 1, snd (A ! a))]))"

text \<open>\<open>ShmClientStorage\<close>: whether it has zenoh's default clients, and the clients of the program it keeps.\<close>

record ShmClientStorage =
  st_default :: bool
  st_clients :: "nat list"

record 'w shm_store =
  client_arcs :: "'w ShmClient arcs"
  storage_arcs :: "ShmClientStorage arcs"
  GLOBAL_CLIENT_STORAGE :: nat
  prog :: 'w

definition drop_client :: "nat \<Rightarrow> 'w shm_store \<Rightarrow> 'w shm_store run" where
  "drop_client a s = do {
     (x, A) \<leftarrow> arc_drop a (client_arcs s);
     ret (s\<lparr>client_arcs := A, prog := case x of None \<Rightarrow> prog s | Some c \<Rightarrow> ShmClient_drop c (prog s)\<rparr>)
   }"

fun drop_clients :: "nat list \<Rightarrow> 'w shm_store \<Rightarrow> 'w shm_store run" where
  "drop_clients [] s = ret s"
| "drop_clients (a # as) s = do { s \<leftarrow> drop_client a s; drop_clients as s }"

definition clone_client :: "nat \<Rightarrow> 'w shm_store \<Rightarrow> 'w shm_store run" where
  "clone_client a s = do { A \<leftarrow> arc_clone a (client_arcs s); ret (s\<lparr>client_arcs := A\<rparr>) }"

fun clone_clients :: "nat list \<Rightarrow> 'w shm_store \<Rightarrow> 'w shm_store run" where
  "clone_clients [] s = ret s"
| "clone_clients (a # as) s = do { s \<leftarrow> clone_client a s; clone_clients as s }"

definition drop_storage :: "nat \<Rightarrow> 'w shm_store \<Rightarrow> 'w shm_store run" where
  "drop_storage b s = do {
     (x, A) \<leftarrow> arc_drop b (storage_arcs s);
     case x of
       None \<Rightarrow> ret (s\<lparr>storage_arcs := A\<rparr>)
     | Some st \<Rightarrow> drop_clients (st_clients st) (s\<lparr>storage_arcs := A\<rparr>)
   }"

definition new_storage :: "ShmClientStorage \<Rightarrow> 'w shm_store \<Rightarrow> nat \<times> 'w shm_store" where
  "new_storage st s = (let (b, A) = arc_new st (storage_arcs s) in (b, s\<lparr>storage_arcs := A\<rparr>))"

definition new_client :: "'w ShmClient \<Rightarrow> 'w shm_store \<Rightarrow> nat \<times> 'w shm_store" where
  "new_client c s = (let (a, A) = arc_new c (client_arcs s) in (a, s\<lparr>client_arcs := A\<rparr>))"

subsection \<open>The functions of clients, lists and storages\<close>

definition z_shm_client_new ::
  "'w zc_threadsafe_context_t \<Rightarrow> 'w zc_shm_client_callbacks_t \<Rightarrow> 'w shm_store \<Rightarrow> nat option \<times> 'w shm_store" where
  "z_shm_client_new context' callbacks s =
    (let (client, s) = new_client (DynamicShmClient (DynamicShmClient_new (ThreadsafeContext_from context') callbacks)) s
     in (Some client, s))"

definition z_posix_shm_client_new :: "'w shm_store \<Rightarrow> nat option \<times> 'w shm_store" where
  "z_posix_shm_client_new s = (let (client, s) = new_client PosixShmClient s in (Some client, s))"

definition z_internal_shm_client_null :: "nat option" where
  "z_internal_shm_client_null = None"

definition z_internal_shm_client_check :: "nat option \<Rightarrow> bool" where
  "z_internal_shm_client_check this \<longleftrightarrow> this \<noteq> None"

definition z_shm_client_drop :: "nat option \<Rightarrow> 'w shm_store \<Rightarrow> (nat option \<times> 'w shm_store) run" where
  "z_shm_client_drop this s = moved_drop gravestone_option (drop_option drop_client) this s"

definition zc_shm_client_list_new :: "nat list option" where
  "zc_shm_client_list_new = Some []"

definition zc_internal_shm_client_list_null :: "nat list option" where
  "zc_internal_shm_client_list_null = None"

definition zc_internal_shm_client_list_check :: "nat list option \<Rightarrow> bool" where
  "zc_internal_shm_client_list_check this \<longleftrightarrow> this \<noteq> None"

definition zc_shm_client_list_drop :: "nat list option \<Rightarrow> 'w shm_store \<Rightarrow> (nat list option \<times> 'w shm_store) run" where
  "zc_shm_client_list_drop this s = moved_drop gravestone_option (drop_option drop_clients) this s"

definition zc_shm_client_list_loan :: "nat list option \<Rightarrow> nat list run" where
  "zc_shm_client_list_loan this = loan_option this"

definition zc_shm_client_list_loan_mut :: "nat list option \<Rightarrow> nat list run" where
  "zc_shm_client_list_loan_mut this = loan_option this"

definition zc_shm_client_list_add_client :: "nat list \<Rightarrow> nat option \<Rightarrow> z_result_t \<times> nat list \<times> nat option" where
  "zc_shm_client_list_add_client this client = (case take_rust_type gravestone_option client of
     (None, client) \<Rightarrow> (Z_EINVAL, this, client)
   | (Some c, client) \<Rightarrow> (Z_OK, this @ [c], client))"

definition z_ref_shm_client_storage_global :: "'w shm_store \<Rightarrow> (nat option \<times> 'w shm_store) run" where
  "z_ref_shm_client_storage_global s = do {
     A \<leftarrow> arc_clone (GLOBAL_CLIENT_STORAGE s) (storage_arcs s);
     ret (Some (GLOBAL_CLIENT_STORAGE s), s\<lparr>storage_arcs := A\<rparr>)
   }"

definition z_shm_client_storage_new_default :: "'w shm_store \<Rightarrow> nat option \<times> 'w shm_store" where
  "z_shm_client_storage_new_default s =
    (let (b, s) = new_storage \<lparr>st_default = True, st_clients = []\<rparr> s in (Some b, s))"

text \<open>\<open>with_clients\<close> clones what it keeps of the list: \<open>keeps\<close>, for a builder with or without the default set.\<close>

definition z_shm_client_storage_new ::
  "(bool \<Rightarrow> nat list \<Rightarrow> nat list) \<Rightarrow> nat option \<Rightarrow> nat list \<Rightarrow> bool \<Rightarrow> 'w shm_store \<Rightarrow> (z_result_t \<times> nat option \<times> 'w shm_store) run" where
  "z_shm_client_storage_new keeps this clients add_default_client_set s =
    (if clients = [] then ret (Z_EINVAL, this, s)
     else do {
       s \<leftarrow> clone_clients (keeps add_default_client_set clients) s;
       let (b, s) = new_storage \<lparr>st_default = add_default_client_set, st_clients = keeps add_default_client_set clients\<rparr> s;
       ret (Z_OK, Some b, s)
     })"

definition z_shm_client_storage_clone :: "nat \<Rightarrow> 'w shm_store \<Rightarrow> (nat option \<times> 'w shm_store) run" where
  "z_shm_client_storage_clone from s = do {
     A \<leftarrow> arc_clone from (storage_arcs s);
     ret (Some from, s\<lparr>storage_arcs := A\<rparr>)
   }"

definition z_internal_shm_client_storage_null :: "nat option" where
  "z_internal_shm_client_storage_null = None"

definition z_internal_shm_client_storage_check :: "nat option \<Rightarrow> bool" where
  "z_internal_shm_client_storage_check this \<longleftrightarrow> this \<noteq> None"

definition z_shm_client_storage_drop :: "nat option \<Rightarrow> 'w shm_store \<Rightarrow> (nat option \<times> 'w shm_store) run" where
  "z_shm_client_storage_drop this s = moved_drop gravestone_option (drop_option drop_storage) this s"

definition z_shm_client_storage_loan :: "nat option \<Rightarrow> nat run" where
  "z_shm_client_storage_loan this = loan_option this"

end
