(* ===== verification/ShmSharing.thy ===== *)
theory ShmSharing
  imports ShmClients
begin

text \<open>
  Programs that share clients: what the functions of theory \<open>ShmClients\<close> do to the reference counts,
  and when the contexts of clients are deleted.

  The central assertion is \<open>owns s R Q\<close>: in the store \<open>s\<close> the references the program holds are \<open>R\<close> (to
  clients) and \<open>Q\<close> (to storages), every count is the number of references, and the deleters called so
  far are those of the clients nobody refers to. Each operation has one rule for it; a program's
  invariant follows by rule induction.
\<close>

subsection \<open>Cells\<close>

lemma strong_new: "arc_new x A = (a, A') \<Longrightarrow> strong A' = (strong A)(a := 1) \<and> strong A a = 0"
  by (auto simp: arc_new_def strong_def nth_append fun_eq_iff)

lemma strong_update: "strong A a \<noteq> 0 \<Longrightarrow> strong (A[a := (n, x)]) = (strong A)(a := n)"
  by (auto simp: strong_def fun_eq_iff split: if_splits)

text \<open>A sum over the cells that changes with the count only.\<close>

definition cells :: "(nat \<Rightarrow> 'x \<Rightarrow> 'm::comm_monoid_add) \<Rightarrow> 'x arcs \<Rightarrow> 'm" where
  "cells f A = sum_list (map (\<lambda>(n, x). f n x) A)"

lemma cells_append: "cells f (A @ [(n, x)]) = cells f A + f n x"
  by (simp add: cells_def)

lemma cells_update:
  "strong A a \<noteq> 0 \<Longrightarrow> cells f (A[a := (n, snd (A ! a))]) + f (strong A a) (snd (A ! a)) = cells f A + f n (snd (A ! a))"
  using sum_list_update_add [of a "map (\<lambda>(n, x). f n x) A" "f n (snd (A ! a))"]
  by (auto simp: cells_def strong_def map_update split_beta split: if_splits)

subsection \<open>The ownership assertion\<close>

text \<open>The program's state is the list of the contexts deleted: the deleters log the pointer they get.\<close>

type_synonym log_store = "ptr list shm_store"

fun client_context :: "'w ShmClient \<Rightarrow> ptr multiset" where
  "client_context (DynamicShmClient c) = {#ThreadsafeContext_get (dc_context c)#}"
| "client_context PosixShmClient = {#}"

definition log_context :: "ptr \<Rightarrow> ptr list zc_threadsafe_context_t" where
  "log_context p = \<lparr>tcx_context = \<lparr>tcd_ptr = p\<rparr>, tcx_delete_fn = (\<lambda>q w. w @ [q])\<rparr>"

definition logs :: "ptr list ShmClient \<Rightarrow> bool" where
  "logs c \<longleftrightarrow> (\<forall>w. mset (ShmClient_drop c w) = mset w + client_context c)"

definition held :: "'w shm_store \<Rightarrow> nat multiset" where
  "held s = cells (\<lambda>n st. if n = 0 then {#} else mset (st_clients st)) (storage_arcs s)"

definition deleted :: "'w shm_store \<Rightarrow> ptr multiset" where
  "deleted s = cells (\<lambda>n c. if n = 0 then client_context c else {#}) (client_arcs s)"

definition owns :: "log_store \<Rightarrow> nat multiset \<Rightarrow> nat multiset \<Rightarrow> bool" where
  "owns s R Q \<longleftrightarrow>
     (\<forall>a. strong (client_arcs s) a = count (R + held s) a)
   \<and> (\<forall>b. strong (storage_arcs s) b = count (Q + {#GLOBAL_CLIENT_STORAGE s#}) b)
   \<and> mset (prog s) = deleted s \<and> (\<forall>(n, c) \<in> set (client_arcs s). logs c)
   \<and> st_clients (snd (storage_arcs s ! GLOBAL_CLIENT_STORAGE s)) = []"

lemma cells_update_last:
  "strong A a = 1 \<Longrightarrow> f 1 (snd (A ! a)) = 0 \<Longrightarrow> cells f (A[a := (0, snd (A ! a))]) = cells f A + f 0 (snd (A ! a))"
  using cells_update [of A a f 0] by simp

lemma cells_update_same:
  fixes f :: "nat \<Rightarrow> 'x \<Rightarrow> 'm::cancel_comm_monoid_add"
  assumes "strong A a \<noteq> 0" "f (strong A a) (snd (A ! a)) = f n (snd (A ! a))"
  shows "cells f (A[a := (n, snd (A ! a))]) = cells f A"
  using cells_update [OF assms(1), of f n] assms(2) by simp

lemma set_update_snd: "(n, x) \<in> set (A[a := (m, snd (A ! a))]) \<Longrightarrow> a < length A \<Longrightarrow> \<exists>k. (k, x) \<in> set A"
  by (metis in_set_conv_nth length_list_update nth_list_update_eq nth_list_update_neq prod.collapse snd_conv)

lemma owns_logs_update:
  assumes "\<forall>(n, c) \<in> set A. logs c" "a < length A"
  shows "\<forall>(n, c) \<in> set (A[a := (m, snd (A ! a))]). logs c"
  using assms by (auto dest: set_update_snd)

lemma strong_less: "strong A a \<noteq> 0 \<Longrightarrow> a < length A"
  by (simp add: strong_def split: if_splits)

lemma owns_new_client:
  assumes "owns s R Q" "logs c" "new_client c s = (a, s')"
  shows "owns s' (add_mset a R) Q"
proof -
  have "strong (client_arcs s @ [(1, c)]) = (strong (client_arcs s))(length (client_arcs s) := 1)"
    and "strong (client_arcs s) (length (client_arcs s)) = 0"
    using strong_new [of c "client_arcs s"] by (simp_all add: arc_new_def)
  with assms show ?thesis
    by (auto simp: owns_def new_client_def arc_new_def held_def deleted_def cells_append)
qed

lemma owns_clone_client:
  assumes "owns s R Q" "a \<in># R"
  shows "\<exists>s'. clone_client a s = ret s' \<and> owns s' (add_mset a R) Q"
proof -
  let ?A = "client_arcs s"
  have n: "strong ?A a \<noteq> 0" using assms by (auto simp: owns_def)
  let ?s = "s\<lparr>client_arcs := ?A[a := (strong ?A a + 1, snd (?A ! a))]\<rparr>"
  have "deleted ?s = deleted s" unfolding deleted_def using n by (simp add: cells_update_same)
  then have "owns ?s (add_mset a R) Q"
    using assms(1) owns_logs_update [of ?A a] strong_less [OF n] by (auto simp: owns_def held_def strong_update [OF n])
  then show ?thesis using n by (simp add: clone_client_def arc_clone_def)
qed

lemma owns_drop_client:
  assumes "owns s (add_mset a R) Q"
  shows "\<exists>s'. drop_client a s = ret s' \<and> owns s' R Q"
proof -
  let ?A = "client_arcs s" and ?f = "\<lambda>n c. if n = 0 then client_context c else {#}"
  have n: "strong ?A a \<noteq> 0" using assms by (simp add: owns_def)
  let ?x = "snd (?A ! a)" and ?B = "?A[a := (strong ?A a - 1, snd (?A ! a))]"
  have l: "logs ?x" using assms nth_mem [OF strong_less [OF n]] by (auto simp: owns_def)
  let ?s = "s\<lparr>client_arcs := ?B, prog := if strong ?A a = 1 then ShmClient_drop ?x (prog s) else prog s\<rparr>"
  have "cells ?f ?B = cells ?f ?A + (if strong ?A a = 1 then client_context ?x else {#})"
  proof (cases "strong ?A a = 1")
    case True
    then show ?thesis using cells_update_last [of ?A a ?f] by simp
  next
    case False
    then show ?thesis using n cells_update_same [of ?A a ?f "strong ?A a - 1"] by simp
  qed
  moreover have "mset (prog s) = cells ?f ?A" using assms by (simp add: owns_def deleted_def)
  ultimately have "mset (prog ?s) = deleted ?s"
    using l unfolding deleted_def logs_def by (cases "strong ?A a = 1") simp_all
  then have "owns ?s R Q"
    using assms owns_logs_update [of ?A a] strong_less [OF n] by (auto simp: owns_def held_def strong_update [OF n])
  then show ?thesis using n by (cases "strong ?A a = 1") (simp_all add: drop_client_def arc_drop_def)
qed

lemma owns_clone_clients:
  "owns s R Q \<Longrightarrow> set as \<subseteq> set_mset R \<Longrightarrow> \<exists>s'. clone_clients as s = ret s' \<and> owns s' (R + mset as) Q"
proof (induction as arbitrary: s R)
  case (Cons a as)
  then obtain s1 where s1: "clone_client a s = ret s1" "owns s1 (add_mset a R) Q"
    using owns_clone_client [of s R Q a] by auto
  with Cons.IH [OF s1(2)] Cons.prems(2) show ?case by auto
qed simp

lemma owns_drop_clients:
  "owns s (R + mset as) Q \<Longrightarrow> \<exists>s'. drop_clients as s = ret s' \<and> owns s' R Q"
proof (induction as arbitrary: s)
  case (Cons a as)
  then obtain s1 where "drop_client a s = ret s1" "owns s1 (R + mset as) Q"
    using owns_drop_client [of s a "R + mset as" Q] by auto
  with Cons.IH show ?case by auto
qed simp

lemma owns_new_storage:
  assumes "owns s (R + mset (st_clients st)) Q" "new_storage st s = (b, s')"
  shows "owns s' R (add_mset b Q)"
proof -
  have "strong (storage_arcs s) (GLOBAL_CLIENT_STORAGE s) \<noteq> 0" using assms(1) by (simp add: owns_def)
  then have "GLOBAL_CLIENT_STORAGE s < length (storage_arcs s)" by (rule strong_less)
  moreover have "strong (storage_arcs s @ [(1, st)]) = (strong (storage_arcs s))(length (storage_arcs s) := 1)"
    and "strong (storage_arcs s) (length (storage_arcs s)) = 0"
    using strong_new [of st "storage_arcs s"] by (simp_all add: arc_new_def)
  ultimately show ?thesis
    using assms by (auto simp: owns_def new_storage_def arc_new_def held_def deleted_def cells_append add_ac nth_append)
qed

lemma snd_update: "snd (A[a := (n, snd (A ! a))] ! b) = snd (A ! b)"
  by (cases "a = b"; cases "a < length A") (simp_all add: list_update_beyond)

lemma owns_clone_storage:
  assumes "owns s R Q" "b \<in># add_mset (GLOBAL_CLIENT_STORAGE s) Q"
  shows "\<exists>A. arc_clone b (storage_arcs s) = ret A \<and> owns (s\<lparr>storage_arcs := A\<rparr>) R (add_mset b Q)"
proof -
  let ?A = "storage_arcs s"
  have n: "strong ?A b \<noteq> 0" using assms by (auto simp: owns_def)
  let ?s = "s\<lparr>storage_arcs := ?A[b := (strong ?A b + 1, snd (?A ! b))]\<rparr>"
  have "held ?s = held s" unfolding held_def using n by (simp add: cells_update_same)
  then have "owns ?s R (add_mset b Q)"
    using assms(1) by (auto simp: owns_def deleted_def strong_update [OF n] snd_update)
  then show ?thesis using n by (simp add: arc_clone_def)
qed

lemma owns_drop_storage:
  assumes "owns s R (add_mset b Q)"
  shows "\<exists>s'. drop_storage b s = ret s' \<and> owns s' R Q"
proof -
  let ?A = "storage_arcs s" and ?f = "\<lambda>n st. if n = 0 then {#} else mset (st_clients st)"
  have n: "strong ?A b \<noteq> 0" using assms by (simp add: owns_def)
  let ?x = "snd (?A ! b)" and ?B = "?A[b := (strong ?A b - 1, snd (?A ! b))]"
  let ?s = "s\<lparr>storage_arcs := ?B\<rparr>"
  have q: "\<forall>b'. strong ?B b' = count (Q + {#GLOBAL_CLIENT_STORAGE s#}) b'"
    using assms by (auto simp: owns_def strong_update [OF n])
  show ?thesis
  proof (cases "strong ?A b = 1")
    case True
    have "held s = mset (st_clients ?x) + held ?s"
      using cells_update [OF n, of ?f "strong ?A b - 1"] True by (simp add: held_def add.commute)
    then have "\<forall>a. strong (client_arcs s) a = count (R + mset (st_clients ?x) + held ?s) a"
      using assms by (simp add: owns_def add_ac)
    with q have "owns ?s (R + mset (st_clients ?x)) Q"
      using assms unfolding owns_def by (simp add: deleted_def snd_update)
    from owns_drop_clients [OF this] True show ?thesis by (simp add: drop_storage_def arc_drop_def)
  next
    case False
    have "held ?s = held s" unfolding held_def using n False by (simp add: cells_update_same)
    then have "owns ?s R Q" using assms q by (simp add: owns_def deleted_def snd_update)
    with n False show ?thesis by (simp add: drop_storage_def arc_drop_def)
  qed
qed

subsection \<open>Programs\<close>

datatype shm_slot = SClient "nat option" | SList "nat list option" | SStorage "nat option"

text \<open>A program's calls on its slots, by their indices. \<open>CNewClient i p cb\<close> creates a client over a context
  with the pointer \<open>p\<close> in slot \<open>i\<close>; \<open>CAdd i j\<close> adds the client of slot \<open>j\<close> to the list of slot \<open>i\<close>;
  \<open>CNewStorage i j d\<close> makes a storage in slot \<open>i\<close> from the list of slot \<open>j\<close>.\<close>

datatype shm_call =
    CNewClient nat ptr "ptr list zc_shm_client_callbacks_t"
  | CNewPosix nat
  | CNewList nat
  | CAdd nat nat
  | CRefGlobal nat
  | CNewDefault nat
  | CNewStorage nat nat bool
  | CCloneStorage nat nat
  | CDrop nat

definition drop_slot :: "shm_slot \<Rightarrow> log_store \<Rightarrow> (shm_slot \<times> log_store) run" where
  "drop_slot x s = (case x of
     SClient c \<Rightarrow> map_option (apfst SClient) (z_shm_client_drop c s)
   | SList l \<Rightarrow> map_option (apfst SList) (zc_shm_client_list_drop l s)
   | SStorage b \<Rightarrow> map_option (apfst SStorage) (z_shm_client_storage_drop b s))"

definition put_slot :: "nat \<Rightarrow> shm_slot list \<Rightarrow> (shm_slot \<times> log_store) run \<Rightarrow> (shm_slot list \<times> log_store) run" where
  "put_slot i ss r = map_option (\<lambda>(x, s). (ss[i := x], s)) r"

fun shm_exec :: "(bool \<Rightarrow> nat list \<Rightarrow> nat list) \<Rightarrow> shm_call \<Rightarrow> shm_slot list \<times> log_store \<Rightarrow> (shm_slot list \<times> log_store) run" where
  "shm_exec keeps (CNewClient i p cb) (ss, s) = put_slot i ss (ret (apfst SClient (z_shm_client_new (log_context p) cb s)))"
| "shm_exec keeps (CNewPosix i) (ss, s) = put_slot i ss (ret (apfst SClient (z_posix_shm_client_new s)))"
| "shm_exec keeps (CNewList i) (ss, s) = ret (ss[i := SList zc_shm_client_list_new], s)"
| "shm_exec keeps (CAdd i j) (ss, s) = (case (ss ! i, ss ! j) of
     (SList l, SClient c) \<Rightarrow> do {
       l \<leftarrow> zc_shm_client_list_loan_mut l;
       let (code, l, c) = zc_shm_client_list_add_client l c;
       ret (ss[i := SList (Some l), j := SClient c], s)
     }
   | _ \<Rightarrow> panic)"
| "shm_exec keeps (CRefGlobal i) (ss, s) = put_slot i ss (map_option (apfst SStorage) (z_ref_shm_client_storage_global s))"
| "shm_exec keeps (CNewDefault i) (ss, s) = put_slot i ss (ret (apfst SStorage (z_shm_client_storage_new_default s)))"
| "shm_exec keeps (CNewStorage i j d) (ss, s) = (case (ss ! i, ss ! j) of
     (SStorage b, SList l) \<Rightarrow> do {
       l \<leftarrow> zc_shm_client_list_loan l;
       (code, b, s) \<leftarrow> z_shm_client_storage_new keeps b l d s;
       ret (ss[i := SStorage b], s)
     }
   | _ \<Rightarrow> panic)"
| "shm_exec keeps (CCloneStorage i j) (ss, s) = (case ss ! j of
     SStorage b \<Rightarrow> do {
       b \<leftarrow> z_shm_client_storage_loan b;
       put_slot i ss (map_option (apfst SStorage) (z_shm_client_storage_clone b s))
     }
   | _ \<Rightarrow> panic)"
| "shm_exec keeps (CDrop i) (ss, s) = put_slot i ss (drop_slot (ss ! i) s)"

text \<open>The rules of the C API: slots exist and have the right type, what is constructed into holds
  nothing, what is borrowed is not the gravestone.\<close>

fun shm_allowed :: "shm_call \<Rightarrow> shm_slot list \<Rightarrow> bool" where
  "shm_allowed (CNewClient i p cb) ss \<longleftrightarrow> i < length ss \<and> ss ! i = SClient None"
| "shm_allowed (CNewPosix i) ss \<longleftrightarrow> i < length ss \<and> ss ! i = SClient None"
| "shm_allowed (CNewList i) ss \<longleftrightarrow> i < length ss \<and> ss ! i = SList None"
| "shm_allowed (CAdd i j) ss \<longleftrightarrow> i < length ss \<and> j < length ss \<and> (\<exists>l c. ss ! i = SList (Some l) \<and> ss ! j = SClient c)"
| "shm_allowed (CRefGlobal i) ss \<longleftrightarrow> i < length ss \<and> ss ! i = SStorage None"
| "shm_allowed (CNewDefault i) ss \<longleftrightarrow> i < length ss \<and> ss ! i = SStorage None"
| "shm_allowed (CNewStorage i j d) ss \<longleftrightarrow> i < length ss \<and> j < length ss \<and> ss ! i = SStorage None \<and> (\<exists>l. ss ! j = SList (Some l))"
| "shm_allowed (CCloneStorage i j) ss \<longleftrightarrow> i < length ss \<and> j < length ss \<and> ss ! i = SStorage None \<and> (\<exists>b. ss ! j = SStorage (Some b))"
| "shm_allowed (CDrop i) ss \<longleftrightarrow> i < length ss"

definition null_slot :: "shm_slot \<Rightarrow> bool" where
  "null_slot x \<longleftrightarrow> x = SClient z_internal_shm_client_null \<or> x = SList zc_internal_shm_client_list_null
     \<or> x = SStorage z_internal_shm_client_storage_null"

text \<open>At the start there is zenoh's global storage, referred to by its static.\<close>

definition shm_start :: log_store where
  "shm_start = \<lparr>client_arcs = [], storage_arcs = [(1, \<lparr>st_default = True, st_clients = []\<rparr>)],
     GLOBAL_CLIENT_STORAGE = 0, prog = []\<rparr>"

inductive shm_run :: "(bool \<Rightarrow> nat list \<Rightarrow> nat list) \<Rightarrow> shm_slot list \<times> log_store \<Rightarrow> bool" for keeps where
  shm_run_start: "list_all null_slot ss \<Longrightarrow> shm_run keeps (ss, shm_start)"
| shm_run_step: "shm_run keeps (ss, s) \<Longrightarrow> shm_allowed c ss \<Longrightarrow> shm_exec keeps c (ss, s) = ret (ss', s')
    \<Longrightarrow> shm_run keeps (ss', s')"

text \<open>The references in slots.\<close>

fun slot_clients :: "shm_slot \<Rightarrow> nat multiset" where
  "slot_clients (SClient (Some c)) = {#c#}"
| "slot_clients (SList (Some l)) = mset l"
| "slot_clients _ = {#}"

fun slot_storages :: "shm_slot \<Rightarrow> nat multiset" where
  "slot_storages (SStorage (Some b)) = {#b#}"
| "slot_storages _ = {#}"

definition clients_in :: "shm_slot list \<Rightarrow> nat multiset" where
  "clients_in ss = sum_list (map slot_clients ss)"

definition storages_in :: "shm_slot list \<Rightarrow> nat multiset" where
  "storages_in ss = sum_list (map slot_storages ss)"

lemma clients_in_update:
  "i < length ss \<Longrightarrow> clients_in (ss[i := x]) + slot_clients (ss ! i) = clients_in ss + slot_clients x"
  using sum_list_update_add [of i "map slot_clients ss" "slot_clients x"] by (simp add: clients_in_def map_update)

lemma storages_in_update:
  "i < length ss \<Longrightarrow> storages_in (ss[i := x]) + slot_storages (ss ! i) = storages_in ss + slot_storages x"
  using sum_list_update_add [of i "map slot_storages ss" "slot_storages x"] by (simp add: storages_in_def map_update)

lemma clients_in_mem: "i < length ss \<Longrightarrow> slot_clients (ss ! i) \<subseteq># clients_in ss"
  using clients_in_update [of i ss "SClient None"] by (metis add.right_neutral mset_subset_eq_add_right slot_clients.simps(3))

lemma storages_in_mem: "i < length ss \<Longrightarrow> slot_storages (ss ! i) \<subseteq># storages_in ss"
  using storages_in_update [of i ss "SClient None"] by (metis add.right_neutral mset_subset_eq_add_right slot_storages.simps(2))

lemma null_slots_own_nothing:
  "list_all null_slot ss \<Longrightarrow> clients_in ss = {#} \<and> storages_in ss = {#}"
  by (induction ss) (auto simp: clients_in_def storages_in_def null_slot_def z_internal_shm_client_null_def
      zc_internal_shm_client_list_null_def z_internal_shm_client_storage_null_def)

subsection \<open>The invariant of a program\<close>

definition balanced :: "shm_slot list \<times> log_store \<Rightarrow> bool" where
  "balanced p = owns (snd p) (clients_in (fst p)) (storages_in (fst p))"

lemma balanced_start: "list_all null_slot ss \<Longrightarrow> balanced (ss, shm_start)"
  using null_slots_own_nothing [of ss]
  by (auto simp: balanced_def owns_def shm_start_def strong_def held_def deleted_def cells_def)

text \<open>Writing an output slot that held nothing.\<close>

lemma balanced_put:
  assumes "i < length ss" "slot_clients (ss ! i) = {#}" "slot_storages (ss ! i) = {#}"
    and "owns s (clients_in ss + slot_clients x) (storages_in ss + slot_storages x)"
  shows "balanced (ss[i := x], s)"
  using assms clients_in_update [of i ss x] storages_in_update [of i ss x] by (simp add: balanced_def)

lemma drop_slot_owns:
  assumes "owns s (R + slot_clients x) (Q + slot_storages x)"
  shows "\<exists>x' s'. drop_slot x s = ret (x', s') \<and> slot_clients x' = {#} \<and> slot_storages x' = {#} \<and> owns s' R Q"
proof (cases x)
  case (SClient c)
  then show ?thesis using assms owns_drop_client [of s _ R Q]
    by (cases c) (auto simp: drop_slot_def z_shm_client_drop_def opt.moved_drop_eq [unfolded gravestone_option_def] drop_option_def gravestone_option_def)
next
  case (SList l)
  then show ?thesis using assms owns_drop_clients [of s R _ Q]
    by (cases l) (auto simp: drop_slot_def zc_shm_client_list_drop_def opt.moved_drop_eq [unfolded gravestone_option_def] drop_option_def gravestone_option_def)
next
  case (SStorage b)
  then show ?thesis using assms owns_drop_storage [of s R _ Q]
    by (cases b) (auto simp: drop_slot_def z_shm_client_storage_drop_def opt.moved_drop_eq [unfolded gravestone_option_def] drop_option_def gravestone_option_def)
qed

lemma balanced_drop:
  assumes "balanced (ss, s)" "i < length ss"
  shows "\<exists>ss' s'. put_slot i ss (drop_slot (ss ! i) s) = ret (ss', s') \<and> balanced (ss', s')"
proof -
  let ?R = "clients_in (ss[i := SClient None])" and ?Q = "storages_in (ss[i := SClient None])"
  have e: "?R + slot_clients (ss ! i) = clients_in ss" "?Q + slot_storages (ss ! i) = storages_in ss"
    using assms(2) clients_in_update [of i ss "SClient None"] storages_in_update [of i ss "SClient None"] by simp_all
  with assms(1) obtain x s' where x: "drop_slot (ss ! i) s = ret (x, s')" "slot_clients x = {#}" "slot_storages x = {#}"
      "owns s' ?R ?Q"
    using drop_slot_owns [of s ?R "ss ! i" ?Q] by (auto simp: balanced_def)
  moreover have "clients_in (ss[i := x]) = ?R" "storages_in (ss[i := x]) = ?Q"
    using e x(2,3) assms(2) clients_in_update [of i ss x] storages_in_update [of i ss x]
    by (metis add.right_neutral add_right_cancel)+
  ultimately show ?thesis by (auto simp: put_slot_def balanced_def)
qed

lemma log_context_logs:
  "logs (DynamicShmClient (DynamicShmClient_new (ThreadsafeContext_from (log_context p)) cb))" "logs PosixShmClient"
  by (simp_all add: logs_def log_context_def DynamicShmClient_new_def ThreadsafeContext_from_def)

lemma balanced_new_client:
  assumes "balanced (ss, s)" "i < length ss" "ss ! i = SClient None" "logs c" "new_client c s = (a, s')"
  shows "balanced (ss[i := SClient (Some a)], s')"
  using assms owns_new_client [of s "clients_in ss" "storages_in ss" c a s'] by (intro balanced_put) (simp_all add: balanced_def)

lemma balanced_new_storage:
  assumes "owns s (clients_in ss + mset (st_clients st)) (storages_in ss)" "i < length ss" "ss ! i = SStorage None"
    and "new_storage st s = (b, s')"
  shows "balanced (ss[i := SStorage (Some b)], s')"
  using assms owns_new_storage [of s "clients_in ss" st "storages_in ss" b s'] by (intro balanced_put) (simp_all add: balanced_def)

lemma balanced_clone_storage:
  assumes "balanced (ss, s)" "i < length ss" "ss ! i = SStorage None" "b \<in># add_mset (GLOBAL_CLIENT_STORAGE s) (storages_in ss)"
  shows "\<exists>A. arc_clone b (storage_arcs s) = ret A \<and> balanced (ss[i := SStorage (Some b)], s\<lparr>storage_arcs := A\<rparr>)"
proof -
  obtain A where "arc_clone b (storage_arcs s) = ret A" "owns (s\<lparr>storage_arcs := A\<rparr>) (clients_in ss) (add_mset b (storages_in ss))"
    using assms owns_clone_storage [of s "clients_in ss" "storages_in ss" b] by (auto simp: balanced_def)
  moreover from this have "balanced (ss[i := SStorage (Some b)], s\<lparr>storage_arcs := A\<rparr>)"
    using assms by (intro balanced_put) simp_all
  ultimately show ?thesis by blast
qed

lemma balanced_add:
  assumes "balanced (ss, s)" "i < length ss" "j < length ss" "ss ! i = SList (Some l)" "ss ! j = SClient c"
    and "zc_shm_client_list_add_client l c = (code, l', c')"
  shows "balanced (ss[i := SList (Some l'), j := SClient c'], s)"
proof -
  let ?s1 = "ss[i := SList (Some l')]" and ?c = "slot_clients (SClient c)" and ?c' = "slot_clients (SClient c')"
  have ij: "i \<noteq> j" using assms(4,5) by auto
  have 1: "mset l' + ?c' = mset l + ?c"
    using assms(6) by (cases c) (auto simp: zc_shm_client_list_add_client_def)
  have 2: "clients_in ?s1 + mset l = clients_in ss + mset l'"
    using assms(2,4) clients_in_update [of i ss "SList (Some l')"] by simp
  have 3: "clients_in (?s1[j := SClient c']) + ?c = clients_in ?s1 + ?c'"
    using assms(3,5) ij clients_in_update [of j ?s1 "SClient c'"] by simp
  have "clients_in (?s1[j := SClient c']) + ?c + mset l = clients_in ?s1 + mset l + ?c'" using 3 by (simp add: add_ac)
  also have "\<dots> = clients_in ss + (mset l' + ?c')" using 2 by (simp add: add_ac)
  also have "\<dots> = clients_in ss + ?c + mset l" using 1 by (simp add: add_ac)
  finally have "clients_in (?s1[j := SClient c']) = clients_in ss" by simp
  moreover have "storages_in (?s1[j := SClient c']) = storages_in ss"
    using assms ij storages_in_update [of i ss "SList (Some l')"] storages_in_update [of j ?s1 "SClient c'"] by simp
  ultimately show ?thesis using assms(1) by (simp add: balanced_def)
qed

lemma exec_balanced:
  assumes "\<forall>d cs. set (keeps d cs) \<subseteq> set cs" "balanced (ss, s)" "shm_allowed c ss"
  shows "\<exists>ss' s'. shm_exec keeps c (ss, s) = ret (ss', s') \<and> balanced (ss', s')"
proof (cases c)
  case (CNewClient i p cb)
  then show ?thesis
    using assms balanced_new_client [of ss s i "DynamicShmClient (DynamicShmClient_new (ThreadsafeContext_from (log_context p)) cb)"]
      log_context_logs(1) [of p cb]
    by (auto simp: put_slot_def z_shm_client_new_def split_beta)
next
  case (CNewPosix i)
  then show ?thesis
    using assms balanced_new_client [of ss s i PosixShmClient] log_context_logs(2)
    by (auto simp: put_slot_def z_posix_shm_client_new_def split_beta)
next
  case (CNewList i)
  then have "balanced (ss[i := SList (Some [])], s)" using assms by (intro balanced_put) (simp_all add: balanced_def)
  with CNewList show ?thesis by (simp add: zc_shm_client_list_new_def)
next
  case (CAdd i j)
  then show ?thesis using assms balanced_add [of ss s i j]
    by (auto simp: zc_shm_client_list_loan_mut_def loan_option_def split: prod.splits)
next
  case (CRefGlobal i)
  then show ?thesis using assms balanced_clone_storage [of ss s i "GLOBAL_CLIENT_STORAGE s"]
    by (auto simp: put_slot_def z_ref_shm_client_storage_global_def)
next
  case (CNewDefault i)
  then show ?thesis
    using assms balanced_new_storage [of s ss "\<lparr>st_default = True, st_clients = []\<rparr>" i]
    by (auto simp: put_slot_def z_shm_client_storage_new_default_def balanced_def split_beta)
next
  case (CNewStorage i j d)
  then obtain l where l: "ss ! j = SList (Some l)" "ss ! i = SStorage None" "i < length ss" "j < length ss" using assms(3) by auto
  show ?thesis
  proof (cases "l = []")
    case True
    then show ?thesis using CNewStorage l assms(2) list_update_id [of ss i]
      by (simp add: zc_shm_client_list_loan_def loan_option_def z_shm_client_storage_new_def)
  next
    case False
    have "set (keeps d l) \<subseteq> set_mset (clients_in ss)"
      using assms(1) l set_mset_mono [OF clients_in_mem [of j ss]] by (metis slot_clients.simps(2) set_mset_mset subset_trans)
    then obtain s1 where "clone_clients (keeps d l) s = ret s1" "owns s1 (clients_in ss + mset (keeps d l)) (storages_in ss)"
      using owns_clone_clients [of s "clients_in ss" "storages_in ss" "keeps d l"] assms(2) by (auto simp: balanced_def)
    then show ?thesis
      using CNewStorage l False balanced_new_storage [of s1 ss "\<lparr>st_default = d, st_clients = keeps d l\<rparr>" i]
      by (auto simp: zc_shm_client_list_loan_def loan_option_def z_shm_client_storage_new_def split_beta)
  qed
next
  case (CCloneStorage i j)
  then obtain b where b: "ss ! j = SStorage (Some b)" "i < length ss" "j < length ss" "ss ! i = SStorage None" using assms(3) by auto
  then have "b \<in># storages_in ss" using storages_in_mem [of j ss] by (auto dest: mset_subset_eqD)
  then show ?thesis using CCloneStorage b assms(2) balanced_clone_storage [of ss s i b]
    by (auto simp: put_slot_def z_shm_client_storage_loan_def loan_option_def z_shm_client_storage_clone_def)
next
  case (CDrop i)
  then show ?thesis using assms balanced_drop [of ss s i] by simp
qed

lemma run_balanced:
  assumes "\<forall>d cs. set (keeps d cs) \<subseteq> set cs" "shm_run keeps p"
  shows "balanced p"
  using assms(2)
proof (induction rule: shm_run.induct)
  case (shm_run_start ss)
  then show ?case by (rule balanced_start)
next
  case (shm_run_step ss s c ss' s')
  then show ?case using exec_balanced [OF assms(1), of ss s c] by auto
qed

text \<open>Who shares a client, without looking at counts: a slot, a list in a slot, or a storage that a slot
  or zenoh's static refers to.\<close>

definition shared_by :: "shm_slot list \<Rightarrow> 'w shm_store \<Rightarrow> nat \<Rightarrow> bool" where
  "shared_by ss s a \<longleftrightarrow> a \<in># clients_in ss
     \<or> (\<exists>b \<in># add_mset (GLOBAL_CLIENT_STORAGE s) (storages_in ss). a \<in> set (st_clients (snd (storage_arcs s ! b))))"

definition contexts_of :: "(nat \<Rightarrow> bool) \<Rightarrow> 'w shm_store \<Rightarrow> ptr multiset" where
  "contexts_of P s = sum_list (map (\<lambda>a. if P a then client_context (snd (client_arcs s ! a)) else {#}) [0..<length (client_arcs s)])"

lemma cells_nth: "cells f A = sum_list (map (\<lambda>a. f (strong A a) (snd (A ! a))) [0..<length A])"
proof -
  have "map (\<lambda>(n, x). f n x) A = map (\<lambda>a. f (strong A a) (snd (A ! a))) [0..<length A]"
    by (rule nth_equalityI) (simp_all add: strong_def split_beta)
  then show ?thesis by (simp add: cells_def)
qed

lemma in_held: "a \<in># held s \<longleftrightarrow> (\<exists>b. strong (storage_arcs s) b \<noteq> 0 \<and> a \<in> set (st_clients (snd (storage_arcs s ! b))))"
proof -
  have "a \<in># sum_list (map g bs) \<longleftrightarrow> (\<exists>b \<in> set bs. a \<in># g b)" for g :: "nat \<Rightarrow> nat multiset" and bs
    by (induction bs) auto
  from this [of "\<lambda>b. if strong (storage_arcs s) b = 0 then {#} else mset (st_clients (snd (storage_arcs s ! b)))"
      "[0..<length (storage_arcs s)]"]
  have "a \<in># held s \<longleftrightarrow> (\<exists>b < length (storage_arcs s). strong (storage_arcs s) b \<noteq> 0 \<and> a \<in> set (st_clients (snd (storage_arcs s ! b))))"
    unfolding held_def cells_nth by (auto split: if_splits)
  then show ?thesis using strong_less [of "storage_arcs s"] by blast
qed

lemma balanced_shared:
  assumes "balanced (ss, s)"
  shows "strong (client_arcs s) a = 0 \<longleftrightarrow> \<not> shared_by ss s a"
proof -
  have "strong (client_arcs s) a = 0 \<longleftrightarrow> a \<notin># clients_in ss \<and> a \<notin># held s"
    using assms by (simp add: balanced_def owns_def not_in_iff)
  moreover have "strong (storage_arcs s) b \<noteq> 0 \<longleftrightarrow> b \<in># add_mset (GLOBAL_CLIENT_STORAGE s) (storages_in ss)" for b
    using assms by (auto simp: balanced_def owns_def not_in_iff)
  ultimately show ?thesis unfolding shared_by_def in_held by blast
qed

lemma balanced_deleted:
  assumes "balanced (ss, s)"
  shows "mset (prog s) = contexts_of (\<lambda>a. \<not> shared_by ss s a) s"
proof -
  have "deleted s = contexts_of (\<lambda>a. \<not> shared_by ss s a) s"
    by (simp add: deleted_def cells_nth contexts_of_def balanced_shared [OF assms] cong: map_cong if_cong)
  then show ?thesis using assms by (simp add: balanced_def owns_def)
qed

subsection \<open>Dropping everything\<close>

fun shm_execs :: "(bool \<Rightarrow> nat list \<Rightarrow> nat list) \<Rightarrow> shm_call list \<Rightarrow> shm_slot list \<times> log_store \<Rightarrow> (shm_slot list \<times> log_store) run" where
  "shm_execs keeps [] p = ret p"
| "shm_execs keeps (c # cs) p = do { p \<leftarrow> shm_exec keeps c p; shm_execs keeps cs p }"

lemma shm_execs_append: "shm_execs keeps (cs @ ds) p = Option.bind (shm_execs keeps cs p) (shm_execs keeps ds)"
proof (induction cs arbitrary: p)
  case (Cons c cs)
  show ?case by (cases "shm_exec keeps c p") (simp_all add: Cons.IH)
qed simp

text \<open>Dropping keeps the record of the clients that were made.\<close>

lemma map_snd_update: "map snd (A[a := (n, snd (A ! a))]) = map snd A"
  by (rule nth_equalityI) (simp_all add: snd_update)

lemma drop_client_made: "drop_client a s = ret s' \<Longrightarrow> map snd (client_arcs s') = map snd (client_arcs s)"
  by (auto simp: drop_client_def arc_drop_def map_snd_update split: if_splits)

lemma drop_clients_made: "drop_clients as s = ret s' \<Longrightarrow> map snd (client_arcs s') = map snd (client_arcs s)"
  by (induction as arbitrary: s) (auto simp: bind_eq_Some_conv dest: drop_client_made)

lemma drop_storage_made: "drop_storage b s = ret s' \<Longrightarrow> map snd (client_arcs s') = map snd (client_arcs s)"
  by (auto simp: drop_storage_def arc_drop_def split: if_splits dest: drop_clients_made)

lemma drop_slot_made: "drop_slot x s = ret (x', s') \<Longrightarrow> map snd (client_arcs s') = map snd (client_arcs s)"
  by (auto simp: drop_slot_def z_shm_client_drop_def zc_shm_client_list_drop_def z_shm_client_storage_drop_def
      opt.moved_drop_eq drop_option_def dest: drop_client_made drop_clients_made drop_storage_made
      split: shm_slot.splits option.splits)

lemma drop_slot_empty: "drop_slot x s = ret (x', s') \<Longrightarrow> slot_clients x' = {#} \<and> slot_storages x' = {#}"
  by (auto simp: drop_slot_def z_shm_client_drop_def zc_shm_client_list_drop_def z_shm_client_storage_drop_def
      opt.moved_drop_eq gravestone_option_def [symmetric] split: shm_slot.splits) (simp_all add: gravestone_option_def)

definition teardown_ok :: "nat \<Rightarrow> shm_slot list \<times> log_store \<Rightarrow> shm_slot list \<times> log_store \<Rightarrow> bool" where
  "teardown_ok k p p' \<longleftrightarrow> balanced p' \<and> length (fst p') = length (fst p)
     \<and> (\<forall>i < k. slot_clients (fst p' ! i) = {#} \<and> slot_storages (fst p' ! i) = {#})
     \<and> map snd (client_arcs (snd p')) = map snd (client_arcs (snd p))"

lemma teardown_step:
  assumes "teardown_ok k p (ss, s)" "k < length ss"
  shows "\<exists>p'. shm_exec keeps (CDrop k) (ss, s) = ret p' \<and> teardown_ok (Suc k) p p'"
proof -
  obtain x s' where x: "drop_slot (ss ! k) s = ret (x, s')" "balanced (ss[k := x], s')"
    using balanced_drop [of ss s k] assms by (auto simp: teardown_ok_def put_slot_def)
  then have "teardown_ok (Suc k) p (ss[k := x], s')"
    using assms drop_slot_empty [OF x(1)] drop_slot_made [OF x(1)] by (auto simp: teardown_ok_def nth_list_update less_Suc_eq)
  with x show ?thesis by (simp add: put_slot_def)
qed

lemma teardown_slots:
  assumes "balanced (ss, s)" "k \<le> length ss"
  shows "\<exists>p'. shm_execs keeps (map CDrop [0..<k]) (ss, s) = ret p' \<and> teardown_ok k (ss, s) p'"
  using assms(2)
proof (induction k)
  case 0
  then show ?case using assms(1) by (simp add: teardown_ok_def)
next
  case (Suc k)
  then obtain ss1 s1 where 1: "shm_execs keeps (map CDrop [0..<k]) (ss, s) = ret (ss1, s1)" "teardown_ok k (ss, s) (ss1, s1)" by auto
  then have "k < length ss1" using Suc.prems by (simp add: teardown_ok_def)
  from teardown_step [OF 1(2) this, of keeps] 1(1) show ?case by (auto simp: shm_execs_append)
qed

lemma empty_slots_share_nothing:
  assumes "balanced (ss, s)" "\<forall>i < length ss. slot_clients (ss ! i) = {#} \<and> slot_storages (ss ! i) = {#}"
  shows "\<not> shared_by ss s a"
proof -
  have "sum_list (map g ss) = {#}" if "\<forall>i < length ss. g (ss ! i) = {#}" for g :: "shm_slot \<Rightarrow> nat multiset"
  proof -
    have "\<forall>x \<in> set ss. g x = {#}" using that by (metis in_set_conv_nth)
    then show ?thesis by (induction ss) auto
  qed
  then have "clients_in ss = {#}" "storages_in ss = {#}" using assms(2) by (simp_all add: clients_in_def storages_in_def)
  then show ?thesis using assms(1) by (simp add: shared_by_def balanced_def owns_def)
qed

lemma contexts_of_made:
  assumes "map snd (client_arcs s') = map snd (client_arcs s)"
  shows "contexts_of P s' = contexts_of P s"
proof -
  have n: "length (client_arcs s') = length (client_arcs s)" using assms by (metis length_map)
  have "snd (client_arcs s' ! a) = snd (client_arcs s ! a)" if "a < length (client_arcs s)" for a
    using assms n that by (metis nth_map)
  then show ?thesis unfolding contexts_of_def n by (intro arg_cong [where f = sum_list] map_cong) simp_all
qed

subsection \<open>Properties\<close>

text \<open>C12: the context of a client is deleted exactly when nobody shares the client any more. For every
  program that keeps to the rules of the C API, whatever selection of a list's clients a storage
  keeps: the deleters called so far are, each once, those of the clients that are in no slot, in no
  list and in no storage that is still referred to; and no allowed call runs into a freed client or
  storage.\<close>

theorem shm_contexts_deleted_once:
  assumes "\<forall>d cs. set (keeps d cs) \<subseteq> set cs" "shm_run keeps (ss, s)" "shm_allowed c ss"
  shows "mset (prog s) = contexts_of (\<lambda>a. \<not> shared_by ss s a) s \<and> shm_exec keeps c (ss, s) \<noteq> panic"
proof -
  have "balanced (ss, s)" by (rule run_balanced [OF assms(1,2)])
  then show ?thesis using balanced_deleted exec_balanced [OF assms(1) _ assms(3)] by fastforce
qed

text \<open>A program that makes a client, lists it, builds a storage from the list and drops the list: the
  storage keeps the client alive.\<close>

definition demo_client_callbacks :: "ptr list zc_shm_client_callbacks_t" where
  "demo_client_callbacks = \<lparr>attach_fn = (\<lambda>_ _ w. (None, w)), client_id_fn = (\<lambda>_ w. (7, w))\<rparr>"

definition demo_calls :: "shm_call list" where
  "demo_calls = [CNewClient 0 (Ptr 9 0) demo_client_callbacks, CNewList 1, CAdd 1 0, CNewStorage 2 1 False, CDrop 1]"

definition demo_slots :: "shm_slot list" where
  "demo_slots = [SClient None, SList None, SStorage None]"

text \<open>Running a program and checking the rules at each call.\<close>

fun shm_program :: "(bool \<Rightarrow> nat list \<Rightarrow> nat list) \<Rightarrow> shm_call list \<Rightarrow> shm_slot list \<times> log_store \<Rightarrow> (shm_slot list \<times> log_store) run" where
  "shm_program keeps [] p = ret p"
| "shm_program keeps (c # cs) p = (if shm_allowed c (fst p) then Option.bind (shm_exec keeps c p) (shm_program keeps cs) else panic)"

lemma shm_program_run: "shm_program keeps cs p = ret q \<Longrightarrow> shm_run keeps p \<Longrightarrow> shm_run keeps q"
proof (induction cs arbitrary: p)
  case (Cons c cs)
  then obtain p1 where "shm_allowed c (fst p)" "shm_exec keeps c p = ret p1" "shm_program keeps cs p1 = ret q"
    by (auto simp: bind_eq_Some_conv split: if_splits)
  with Cons show ?case by (cases p; cases p1) (auto intro: shm_run_step)
qed simp

definition demo_client :: "ptr list ShmClient" where
  "demo_client = DynamicShmClient (DynamicShmClient_new (ThreadsafeContext_from (log_context (Ptr 9 0))) demo_client_callbacks)"

definition demo_store :: log_store where
  "demo_store = \<lparr>client_arcs = [(1, demo_client)],
     storage_arcs = [(1, \<lparr>st_default = True, st_clients = []\<rparr>), (1, \<lparr>st_default = False, st_clients = [0]\<rparr>)],
     GLOBAL_CLIENT_STORAGE = 0, prog = []\<rparr>"

lemmas shm_call_defs =
  z_shm_client_new_def zc_shm_client_list_new_def zc_shm_client_list_loan_mut_def zc_shm_client_list_add_client_def
  zc_shm_client_list_loan_def z_shm_client_storage_new_def zc_shm_client_list_drop_def z_shm_client_storage_drop_def
  new_client_def new_storage_def clone_client_def drop_client_def drop_storage_def arc_new_def arc_clone_def arc_drop_def
  strong_def put_slot_def drop_slot_def loan_option_def

lemma shm_demo_run: "shm_run (\<lambda>_ cs. cs) ([SClient None, SList None, SStorage (Some 1)], demo_store)"
proof (rule shm_program_run)
  show "shm_program (\<lambda>_ cs. cs) demo_calls (demo_slots, shm_start)
      = ret ([SClient None, SList None, SStorage (Some 1)], demo_store)"
    by (simp add: demo_calls_def demo_slots_def shm_start_def demo_store_def demo_client_def shm_call_defs
        opt.moved_drop_eq [unfolded gravestone_option_def] gravestone_option_def drop_option_def
        take_rust_type_def take_c_type_def mem_replace_def)
  show "shm_run (\<lambda>_ cs. cs) (demo_slots, shm_start)"
    by (rule shm_run_start) (simp add: demo_slots_def null_slot_def z_internal_shm_client_null_def
        zc_internal_shm_client_list_null_def z_internal_shm_client_storage_null_def)
qed

theorem shm_contexts_deleted_once_witness:
  "mset (prog demo_store) = contexts_of (\<lambda>a. \<not> shared_by [SClient None, SList None, SStorage (Some 1)] demo_store a) demo_store
   \<and> shm_exec (\<lambda>_ cs. cs) (CDrop 2) ([SClient None, SList None, SStorage (Some 1)], demo_store) \<noteq> panic"
proof -
  have "shm_allowed (CDrop 2) [SClient None, SList None, SStorage (Some 1)]" by simp
  with shm_demo_run show ?thesis by (intro shm_contexts_deleted_once) simp_all
qed

text \<open>C13: when the program drops all its slots, in order, every call returns and then the context of every
  client it ever made has been deleted exactly once.\<close>

theorem shm_contexts_all_deleted:
  assumes "\<forall>d cs. set (keeps d cs) \<subseteq> set cs" "shm_run keeps (ss, s)"
  shows "\<exists>ss' s'. shm_execs keeps (map CDrop [0..<length ss]) (ss, s) = ret (ss', s')
    \<and> mset (prog s') = contexts_of (\<lambda>_. True) s"
proof -
  have "balanced (ss, s)" by (rule run_balanced [OF assms])
  from teardown_slots [OF this order_refl, of keeps] obtain ss' s' where
    r: "shm_execs keeps (map CDrop [0..<length ss]) (ss, s) = ret (ss', s')" "teardown_ok (length ss) (ss, s) (ss', s')" by auto
  then have b: "balanced (ss', s')" and "\<forall>a. \<not> shared_by ss' s' a"
    using empty_slots_share_nothing [of ss' s'] by (auto simp: teardown_ok_def)
  then have "mset (prog s') = contexts_of (\<lambda>_. True) s'" using balanced_deleted [OF b] by simp
  also have "\<dots> = contexts_of (\<lambda>_. True) s" using r(2) by (intro contexts_of_made) (simp add: teardown_ok_def)
  finally show ?thesis using r(1) by blast
qed

theorem shm_contexts_all_deleted_witness:
  "\<exists>ss' s'. shm_execs (\<lambda>_ cs. cs) [CDrop 0, CDrop 1, CDrop 2] ([SClient None, SList None, SStorage (Some 1)], demo_store) = ret (ss', s')
    \<and> mset (prog s') = {#Ptr 9 0#}"
proof -
  have "contexts_of (\<lambda>_. True) demo_store = {#Ptr 9 0#}"
    by (simp add: contexts_of_def demo_store_def demo_client_def DynamicShmClient_new_def ThreadsafeContext_from_def log_context_def)
  then show ?thesis using shm_contexts_all_deleted [OF _ shm_demo_run] by (simp add: numeral_3_eq_3 numeral_2_eq_2)
qed

end
