(* ===== verification/Samples.thy ===== *)
theory Samples
  imports Queries
begin

text \<open>
  The accessors of samples, timestamps, entity identifiers and source information of
  \<open>src/commons.rs\<close>, and the accessors of publishers of \<open>src/publisher.rs\<close>.

  A sample is zenoh's; what the functions read of it are the fields of \<open>sample_ops\<close>. A reference to a
  part of it (\<open>as_loaned_c_type_ref\<close>) is the part; a null pointer is \<open>None\<close>.
\<close>

subsection \<open>Timestamps and identifiers\<close>

record ('t, 'z) timestamp_ops =
  ts_time :: "'t \<Rightarrow> u64"
  ts_id_le_bytes :: "'t \<Rightarrow> u8 list"

text \<open>\<open>z_id_t\<close> holds sixteen bytes.\<close>

record z_id_t =
  zid_bytes :: "u8 list"

definition z_id_from :: "u8 list \<Rightarrow> z_id_t" where
  "z_id_from value = \<lparr>zid_bytes = value\<rparr>"

definition z_timestamp_new :: "('s \<Rightarrow> 't) \<Rightarrow> 's \<Rightarrow> z_result_t \<times> 't" where
  "z_timestamp_new new_timestamp session = (Z_OK, new_timestamp session)"

definition z_timestamp_ntp64_time :: "('t, 'z) timestamp_ops \<Rightarrow> 't \<Rightarrow> u64" where
  "z_timestamp_ntp64_time T this = ts_time T this"

definition z_timestamp_id :: "('t, 'z) timestamp_ops \<Rightarrow> 't \<Rightarrow> z_id_t" where
  "z_timestamp_id T this = z_id_from (ts_id_le_bytes T this)"

record ('g, 'z, 'i) source_info_ops =
  eg_zid :: "'g \<Rightarrow> 'z"
  eg_eid :: "'g \<Rightarrow> u32"
  si_new :: "'g \<Rightarrow> u32 \<Rightarrow> 'i"
  si_source_id :: "'i \<Rightarrow> 'g"
  si_source_sn :: "'i \<Rightarrow> u32"

definition z_entity_global_id_zid :: "('g, 'z, 'i) source_info_ops \<Rightarrow> 'g \<Rightarrow> 'z" where
  "z_entity_global_id_zid N this = eg_zid N this"

definition z_entity_global_id_eid :: "('g, 'z, 'i) source_info_ops \<Rightarrow> 'g \<Rightarrow> u32" where
  "z_entity_global_id_eid N this = eg_eid N this"

definition z_source_info_new :: "('g, 'z, 'i) source_info_ops \<Rightarrow> 'g \<Rightarrow> u32 \<Rightarrow> 'i" where
  "z_source_info_new N source_id source_sn = si_new N source_id source_sn"

definition z_source_info_id :: "('g, 'z, 'i) source_info_ops \<Rightarrow> 'i \<Rightarrow> 'g" where
  "z_source_info_id N this = si_source_id N this"

definition z_source_info_sn :: "('g, 'z, 'i) source_info_ops \<Rightarrow> 'i \<Rightarrow> u32" where
  "z_source_info_sn N this = si_source_sn N this"

subsection \<open>Samples\<close>

record ('s, 'k, 'e, 'b, 't, 'i) sample_ops =
  sm_key_expr :: "'s \<Rightarrow> 'k"
  sm_encoding :: "'s \<Rightarrow> 'e"
  sm_payload :: "'s \<Rightarrow> 'b"
  sm_set_payload :: "'b \<Rightarrow> 's \<Rightarrow> 's"
  sm_kind :: "'s \<Rightarrow> SampleKind"
  sm_timestamp :: "'s \<Rightarrow> 't option"
  sm_attachment :: "'s \<Rightarrow> 'b option"
  sm_source_info :: "'s \<Rightarrow> 'i option"
  sm_priority :: "'s \<Rightarrow> Priority"
  sm_express :: "'s \<Rightarrow> bool"
  sm_congestion_control :: "'s \<Rightarrow> CongestionControl"
  sm_reliability :: "'s \<Rightarrow> Reliability"

definition z_sample_keyexpr :: "('s, 'k, 'e, 'b, 't, 'i) sample_ops \<Rightarrow> 's \<Rightarrow> 'k" where
  "z_sample_keyexpr M this = sm_key_expr M this"

definition z_sample_encoding :: "('s, 'k, 'e, 'b, 't, 'i) sample_ops \<Rightarrow> 's \<Rightarrow> 'e" where
  "z_sample_encoding M this = sm_encoding M this"

definition z_sample_payload :: "('s, 'k, 'e, 'b, 't, 'i) sample_ops \<Rightarrow> 's \<Rightarrow> 'b" where
  "z_sample_payload M this = sm_payload M this"

text \<open>A mutable borrow: the payload, and the sample for a changed payload.\<close>

definition z_sample_payload_mut :: "('s, 'k, 'e, 'b, 't, 'i) sample_ops \<Rightarrow> 's \<Rightarrow> 'b \<times> ('b \<Rightarrow> 's)" where
  "z_sample_payload_mut M this = (sm_payload M this, \<lambda>b. sm_set_payload M b this)"

definition z_sample_kind :: "('s, 'k, 'e, 'b, 't, 'i) sample_ops \<Rightarrow> 's \<Rightarrow> z_sample_kind_t" where
  "z_sample_kind M this = z_sample_kind_from_rust (sm_kind M this)"

definition z_sample_timestamp :: "('s, 'k, 'e, 'b, 't, 'i) sample_ops \<Rightarrow> 's \<Rightarrow> 't option" where
  "z_sample_timestamp M this = (case sm_timestamp M this of Some ts \<Rightarrow> Some ts | None \<Rightarrow> None)"

definition z_sample_attachment :: "('s, 'k, 'e, 'b, 't, 'i) sample_ops \<Rightarrow> 's \<Rightarrow> 'b option" where
  "z_sample_attachment M this = (case sm_attachment M this of Some a \<Rightarrow> Some a | None \<Rightarrow> None)"

definition z_sample_source_info :: "('s, 'k, 'e, 'b, 't, 'i) sample_ops \<Rightarrow> 's \<Rightarrow> 'i option" where
  "z_sample_source_info M this = sm_source_info M this"

definition z_sample_priority :: "('s, 'k, 'e, 'b, 't, 'i) sample_ops \<Rightarrow> 's \<Rightarrow> z_priority_t" where
  "z_sample_priority M this = z_priority_from_rust (sm_priority M this)"

definition z_sample_express :: "('s, 'k, 'e, 'b, 't, 'i) sample_ops \<Rightarrow> 's \<Rightarrow> bool" where
  "z_sample_express M this \<longleftrightarrow> sm_express M this"

definition z_sample_congestion_control :: "('s, 'k, 'e, 'b, 't, 'i) sample_ops \<Rightarrow> 's \<Rightarrow> z_congestion_control_t" where
  "z_sample_congestion_control M this = z_congestion_control_from_rust (sm_congestion_control M this)"

definition z_sample_reliability :: "('s, 'k, 'e, 'b, 't, 'i) sample_ops \<Rightarrow> 's \<Rightarrow> z_reliability_t" where
  "z_sample_reliability M this = z_reliability_from_rust (sm_reliability M this)"

definition z_internal_congestion_control_default_push :: "zenoh_defaults \<Rightarrow> z_congestion_control_t" where
  "z_internal_congestion_control_default_push d = z_congestion_control_from_rust (default_push d)"

definition z_internal_congestion_control_default_request :: "'qc query_defaults \<Rightarrow> z_congestion_control_t" where
  "z_internal_congestion_control_default_request d = z_congestion_control_from_rust (default_request d)"

subsection \<open>Publishers\<close>

definition z_publisher_id :: "('p \<Rightarrow> 'g) \<Rightarrow> 'p \<Rightarrow> 'g" where
  "z_publisher_id id_of publisher = id_of publisher"

definition z_publisher_keyexpr :: "('p \<Rightarrow> 'k) \<Rightarrow> 'p \<Rightarrow> 'k" where
  "z_publisher_keyexpr key_expr publisher = key_expr publisher"

subsection \<open>Composition with the publication path\<close>

text \<open>What a subscriber reads from a sample is what the publisher set: the quality of service that put
  options carry to zenoh (through the conversions to Rust) comes back through the accessors.\<close>

lemma sample_reads_put_settings:
  assumes "sm_priority M s = z_priority_to_rust (put_priority opts)"
    and "sm_congestion_control M s = z_congestion_control_to_rust (put_congestion_control opts)"
    and "sm_reliability M s = z_reliability_to_rust (put_reliability opts)"
  shows "z_sample_priority M s = put_priority opts \<and> z_sample_congestion_control M s = put_congestion_control opts
    \<and> z_sample_reliability M s = put_reliability opts"
  using assms
  by (cases "put_priority opts"; cases "put_congestion_control opts"; cases "put_reliability opts")
    (simp_all add: z_sample_priority_def z_sample_congestion_control_def z_sample_reliability_def)

end
