(* ===== verification/Platform.thy ===== *)
theory Platform
  imports Commons Closures Slices
begin

text \<open>
  \<open>src/platform/random.rs\<close>, \<open>src/platform/sleep.rs\<close>, \<open>src/shm/cleanup.rs\<close>, and the logging functions and the
  guard of the runtimes of \<open>src/lib.rs\<close>.

  The generator is a stream of random numbers given as a state and a function on it; sleeping is an
  operation on the state of the system that takes the time in nanoseconds.
\<close>

subsection \<open>Random numbers\<close>

text \<open>\<open>rand::random::<T>()\<close> is the parameter \<open>random\<close>; \<open>fill_bytes\<close> fills a buffer of the given length.\<close>

definition z_random_u8 :: "('g \<Rightarrow> u8 \<times> 'g) \<Rightarrow> 'g \<Rightarrow> u8 \<times> 'g" where
  "z_random_u8 random g = random g"

definition z_random_u16 :: "('g \<Rightarrow> u16 \<times> 'g) \<Rightarrow> 'g \<Rightarrow> u16 \<times> 'g" where
  "z_random_u16 random g = random g"

definition z_random_u32 :: "('g \<Rightarrow> u32 \<times> 'g) \<Rightarrow> 'g \<Rightarrow> u32 \<times> 'g" where
  "z_random_u32 random g = random g"

definition z_random_u64 :: "('g \<Rightarrow> u64 \<times> 'g) \<Rightarrow> 'g \<Rightarrow> u64 \<times> 'g" where
  "z_random_u64 random g = random g"

definition z_random_fill :: "(nat \<Rightarrow> 'g \<Rightarrow> u8 list \<times> 'g) \<Rightarrow> ptr \<Rightarrow> usize \<Rightarrow> heap \<Rightarrow> 'g \<Rightarrow> (heap \<times> 'g) run" where
  "z_random_fill fill_bytes buf n h g =
    (if is_null buf \<or> n = 0 then ret (h, g)
     else do {
       b \<leftarrow> from_raw_parts buf (unat n) h;
       let (bs, g) = fill_bytes (length b) g;
       h \<leftarrow> write_mem buf bs h;
       ret (h, g)
     })"

text \<open>Filling changes the buffer and nothing else. A null pointer or an empty buffer is left alone.\<close>

lemma random_fill_in_bounds:
  assumes "blocks h b = Some (k, pre @ old @ rest)" "unat n = length old" "\<And>m g. length (fst (fill_bytes m g)) = m"
  shows "\<exists>h' g'. z_random_fill fill_bytes (Ptr b (length pre)) n h g = ret (h', g')
    \<and> blocks h' = (blocks h)(b \<mapsto> (k, pre @ (if n = 0 then old else fst (fill_bytes (length old) g)) @ rest))"
proof (cases "n = 0")
  case True
  then show ?thesis using assms(1) by (simp add: z_random_fill_def fun_upd_idem)
next
  case False
  have r: "from_raw_parts (Ptr b (length pre)) (length old) h = ret old" by (rule read_block [OF assms(1)])
  obtain h' where "write_mem (Ptr b (length pre)) (fst (fill_bytes (length old) g)) h = ret h'"
      "blocks h' = (blocks h)(b \<mapsto> (k, pre @ fst (fill_bytes (length old) g) @ rest))"
    using write_block [OF assms(1), of "fst (fill_bytes (length old) g)"] assms(3) by auto
  with r False assms(2) show ?thesis
    by (cases "fill_bytes (length old) g") (simp add: z_random_fill_def is_null_def)
qed

lemma random_fill_null: "z_random_fill fill_bytes null n h g = ret (h, g) \<and> z_random_fill fill_bytes p 0 h g = ret (h, g)"
  by (simp add: z_random_fill_def is_null_def)

subsection \<open>Sleeping\<close>

text \<open>\<open>sleep\<close> is \<open>thread::sleep\<close> for a \<open>Duration\<close>, in nanoseconds: a \<open>Duration\<close> of any \<open>u64\<close> of these units does
  not overflow.\<close>

definition z_sleep_s :: "(nat \<Rightarrow> 'w \<Rightarrow> 'w) \<Rightarrow> usize \<Rightarrow> 'w \<Rightarrow> z_result_t \<times> 'w" where
  "z_sleep_s sleep time w = (Z_OK, sleep (unat time * 1000000000) w)"

definition z_sleep_ms :: "(nat \<Rightarrow> 'w \<Rightarrow> 'w) \<Rightarrow> usize \<Rightarrow> 'w \<Rightarrow> z_result_t \<times> 'w" where
  "z_sleep_ms sleep time w = (Z_OK, sleep (unat time * 1000000) w)"

definition z_sleep_us :: "(nat \<Rightarrow> 'w \<Rightarrow> 'w) \<Rightarrow> usize \<Rightarrow> 'w \<Rightarrow> z_result_t \<times> 'w" where
  "z_sleep_us sleep time w = (Z_OK, sleep (unat time * 1000) w)"

subsection \<open>Logging\<close>

text \<open>\<open>zenoh::init_log_from_env_or\<close> sets up the logger of the state \<open>'w\<close>. \<open>CStr::from_ptr\<close> reads up to the
  terminator; unlike \<open>strlen_or_zero\<close> it has no case for a null pointer.\<close>

definition zc_try_init_log_from_env :: "('w \<Rightarrow> 'w) \<Rightarrow> 'w \<Rightarrow> 'w" where
  "zc_try_init_log_from_env try_init_log_from_env w = try_init_log_from_env w"

definition zc_init_log_from_env_or :: "(u8 list \<Rightarrow> 'w \<Rightarrow> 'w) \<Rightarrow> ptr \<Rightarrow> heap \<Rightarrow> 'w \<Rightarrow> (z_result_t \<times> 'w) run" where
  "zc_init_log_from_env_or init_log_from_env_or fallback_filter h w = do {
     n \<leftarrow> strlen fallback_filter h;
     s \<leftarrow> from_raw_parts fallback_filter n h;
     ret (if utf8_valid s then (Z_OK, init_log_from_env_or s w) else (Z_EINVAL, w))
   }"

text \<open>A record of the logger: its level, and its message and where the bytes of the message are.\<close>

record log_record =
  rec_level :: Level
  rec_message :: "(ptr \<times> usize) option"

text \<open>The two closures handed to \<open>init_log_with_callback\<close>: the filter, by the derived order of the
  severities, and the callback, which passes a borrowed view of the message.\<close>

definition log_filter :: "zc_log_severity_t \<Rightarrow> Level \<Rightarrow> bool" where
  "log_filter min_severity level \<longleftrightarrow> min_severity \<le> zc_log_severity_from_rust level"

definition log_callback ::
  "closure \<Rightarrow> log_record \<Rightarrow> (zc_log_severity_t \<times> cslice) event list \<Rightarrow> (zc_log_severity_t \<times> cslice) event list" where
  "log_callback callback record tr = (case rec_message record of
     Some (p, n) \<Rightarrow> zc_closure_log_call (zc_closure_log_loan callback) (zc_log_severity_from_rust (rec_level record))
       (CSlice_new_borrowed_unchecked p n) tr
   | None \<Rightarrow> tr)"

definition zc_init_log_with_callback ::
  "((Level \<Rightarrow> bool) \<Rightarrow> (log_record \<Rightarrow> (zc_log_severity_t \<times> cslice) event list \<Rightarrow> (zc_log_severity_t \<times> cslice) event list) \<Rightarrow> 'w \<Rightarrow> 'w)
   \<Rightarrow> zc_log_severity_t \<Rightarrow> closure \<Rightarrow> 'w \<Rightarrow> closure \<times> 'w" where
  "zc_init_log_with_callback init_log_with_callback min_severity callback w =
    (let (cb, callback) = closure_take_c_type callback
     in (callback, init_log_with_callback (log_filter min_severity) (log_callback cb) w))"

text \<open>The filter keeps every severity from the minimum on: raising the minimum only removes records.\<close>

lemma log_filter_antimono: "s \<le> s' \<Longrightarrow> log_filter s' level \<Longrightarrow> log_filter s level"
  unfolding log_filter_def by (rule order_trans)

text \<open>The severities are numbered in the order of the levels, so that the filter keeps a level exactly
  when it is at least as severe as the minimum; and the conversion of levels is faithful.\<close>

lemma log_filter_keeps:
  "log_filter min_severity level \<longleftrightarrow> level \<in> set (dropWhile (\<lambda>l. l \<noteq> zc_log_severity_to_rust min_severity)
     [Level_TRACE, Level_DEBUG, Level_INFO, Level_WARN, Level_ERROR])"
  by (cases min_severity; cases level) (simp_all add: log_filter_def less_eq_zc_log_severity_t_def)

subsection \<open>Runtime and shared memory\<close>

text \<open>Dropping the guard of zenoh's runtimes, and zenoh's cleanup of orphaned segments.\<close>

definition zc_stop_z_runtime :: "('g \<Rightarrow> 'w \<Rightarrow> 'w) \<Rightarrow> 'g \<Rightarrow> 'w \<Rightarrow> 'w" where
  "zc_stop_z_runtime drop_guard ZRuntimePoolGuard w = drop_guard ZRuntimePoolGuard w"

definition zc_cleanup_orphaned_shm_segments :: "('w \<Rightarrow> 'w) \<Rightarrow> 'w \<Rightarrow> 'w" where
  "zc_cleanup_orphaned_shm_segments cleanup_orphaned_shm_segments w = cleanup_orphaned_shm_segments w"

end
