(* ===== verification/OpaqueTypes.thy ===== *)
theory OpaqueTypes
  imports Generics Preprocess
begin

text \<open>
  \<open>buildrs/opaque_types_generator.rs\<close>: the generator of the C structures that stand for Rust types. The
  build compiles a crate that reports the alignment and the size of each type as a compilation
  error; the generator reads these errors and the documentation in that crate's source, and writes
  the structures with their \<open>take\<close> and \<open>drop\<close> code (the code theory \<open>Ownership\<close> models).

  Running the compiler is not modelled: what it printed is the argument \<open>data_in\<close>, the lines of the
  crate's source are an argument too, and the \<open>regex\<close> crate is the parameter \<open>captures\<close> as in theory
  \<open>Generics\<close>. A panic of the build script is the value \<open>panic\<close>.
\<close>

subsection \<open>Documentation\<close>

definition re_opaque_type_data :: rstr where
  "re_opaque_type_data = txt_of ''(?m)^get_opaque_type_data!`(`s*(.*)`s*,`s*(`w+)`s*(,)?`s*`);''"

definition ends_with :: "rstr \<Rightarrow> rstr \<Rightarrow> bool" where
  "ends_with pat s \<longleftrightarrow> starts_with (rev pat) (rev s)"

text \<open>The loop over the lines, from the local variables \<open>comments\<close>, \<open>opaque_lines\<close> and \<open>res\<close>.\<close>

fun docs_loop ::
  "regex \<Rightarrow> rstr list \<Rightarrow> rstr list \<Rightarrow> (rstr \<rightharpoonup> rstr list) \<Rightarrow> rstr list \<Rightarrow> (rstr \<rightharpoonup> rstr list) run" where
  "docs_loop captures comments opaque_lines res [] = ret res"
| "docs_loop captures comments opaque_lines res (line # ls) =
    (if starts_with (lit ''///'') line then docs_loop captures (comments @ [line]) opaque_lines res ls
     else
       let opaque_lines = (if starts_with (lit ''get_opaque_type_data!('') line \<or> opaque_lines \<noteq> []
                           then opaque_lines @ [line] else opaque_lines)
       in if opaque_lines \<noteq> [] \<and> ends_with (lit '');'') line
          then (case captures re_opaque_type_data (concat opaque_lines) of
                  (_ # name # _) # _ \<Rightarrow> docs_loop captures [] [] (res(name \<mapsto> comments)) ls
                | _ \<Rightarrow> panic)
          else docs_loop captures comments opaque_lines res ls)"

definition get_opaque_type_docs :: "regex \<Rightarrow> rstr list \<Rightarrow> (rstr \<rightharpoonup> rstr list) run" where
  "get_opaque_type_docs captures ls = docs_loop captures [] [] Map.empty ls"

subsection \<open>Structures\<close>

definition type_to_inner_field_name :: "rstr \<Rightarrow> rstr" where
  "type_to_inner_field_name type_name = (if type_name = lit ''z_id_t'' then lit ''pub id'' else lit ''_0'')"

definition struct_text :: "rstr \<Rightarrow> rstr \<Rightarrow> rstr \<Rightarrow> rstr" where
  "struct_text type_name align sz =
     lit ''#[repr(C, align('' @ align @ lit ''))]\<newline>#[rustfmt::skip]\<newline>pub struct '' @ type_name @ lit '' {\<newline>    ''
     @ type_to_inner_field_name type_name @ lit '': [u8; '' @ sz @ lit ''],\<newline>}\<newline>''"

definition moved_text :: "rstr \<Rightarrow> rstr \<Rightarrow> rstr" where
  "moved_text type_name moved_type_name =
     lit ''#[repr(C)]\<newline>#[rustfmt::skip]\<newline>pub struct '' @ moved_type_name @ lit '' {\<newline>    _this: '' @ type_name
     @ lit '',\<newline>}\<newline>\<newline>#[rustfmt::skip]\<newline>impl crate::transmute::TakeCType for '' @ moved_type_name
     @ lit '' {\<newline>    type CType = '' @ type_name
     @ lit '';\<newline>    fn take_c_type(&mut self) -> Self::CType {\<newline>        use crate::transmute::Gravestone;\<newline>        std::mem::replace(&mut self._this, ''
     @ type_name @ lit ''::gravestone())\<newline>    }\<newline>}\<newline>\<newline>#[rustfmt::skip]\<newline>impl Drop for '' @ type_name
     @ lit '' {\<newline>    fn drop(&mut self) {\<newline>        use crate::transmute::{RustTypeRef, Gravestone, IntoRustType};\<newline>        let _ = std::mem::replace(self.as_rust_type_mut(), ''
     @ type_name @ lit ''::gravestone().into_rust_type());\<newline>    }\<newline>}\<newline>''"

text \<open>The text for one reported type.\<close>

definition opaque_type_text :: "rstr \<Rightarrow> rstr \<Rightarrow> rstr \<Rightarrow> rstr run" where
  "opaque_type_text type_name align sz = do {
     (pfx, category, semantic, post) \<leftarrow> split_type_name type_name;
     let s = (if category \<noteq> Some (lit ''owned'') then lit ''#[derive(Copy, Clone)]\<newline>'' else []);
     let s = s @ struct_text type_name align sz;
     ret (if category = Some (lit ''owned'')
          then s @ moved_text type_name (pfx @ lit ''_'' @ lit ''moved'' @ lit ''_'' @ semantic @ lit ''_'' @ post)
          else s)
   }"

text \<open>The documentation of a type, each line ended by a carriage return and a line feed.\<close>

definition doc_text :: "rstr list \<Rightarrow> rstr" where
  "doc_text doc = concat (map (\<lambda>d. d @ [13, 10]) doc)"

text \<open>The loop over the reported types: a type's documentation is removed from the table when it is used.\<close>

fun opaque_loop :: "(rstr \<rightharpoonup> rstr list) \<Rightarrow> rstr list list \<Rightarrow> rstr run" where
  "opaque_loop docs [] = ret []"
| "opaque_loop docs (c # cs) = (case c of
     [type_name, align, sz] \<Rightarrow> do {
       s \<leftarrow> opaque_type_text type_name align sz;
       doc \<leftarrow> docs type_name;
       out \<leftarrow> opaque_loop (docs(type_name := None)) cs;
       ret (doc_text doc @ s @ out)
     }
   | _ \<Rightarrow> panic)"

definition re_opaque_type :: rstr where
  "re_opaque_type = txt_of ''type: (`w+), align: (`d+), size: (`d+)''"

text \<open>\<open>str::lines\<close> on a text without carriage returns.\<close>

definition text_lines :: "rstr \<Rightarrow> rstr list" where
  "text_lines s = (let ps = split_char 10 s in if last ps = [] then butlast ps else ps)"

definition generate_opaque_types :: "regex \<Rightarrow> rstr list \<Rightarrow> rstr \<Rightarrow> rstr run" where
  "generate_opaque_types captures source data_in = do {
     let data_in = map (\<lambda>c. if c = 13 then 10 else c) data_in;
     if str_contains data_in (lit ''error: failed to'') \<or> str_contains data_in (lit ''Caused by:'') then panic
     else do {
       docs \<leftarrow> get_opaque_type_docs captures source;
       let total_error_count = length (filter (starts_with (lit ''error[E'')) (text_lines data_in));
       let types = captures re_opaque_type data_in;
       data_out \<leftarrow> opaque_loop docs types;
       if length types \<noteq> total_error_count then panic else ret data_out
     }
   }"

subsection \<open>Lemmas\<close>

text \<open>What one type contributes, from its documentation and its alignment and size.\<close>

definition opaque_item :: "(rstr \<rightharpoonup> rstr list) \<Rightarrow> rstr \<times> rstr \<times> rstr \<Rightarrow> rstr" where
  "opaque_item docs = (\<lambda>(tn, a, n). doc_text (the (docs tn)) @ the (opaque_type_text tn a n))"

lemma opaque_loop_ret:
  "opaque_loop docs cs = ret out \<Longrightarrow>
   \<exists>ts. cs = map (\<lambda>(tn, a, n). [tn, a, n]) ts \<and> distinct (map fst ts) \<and> out = concat (map (opaque_item docs) ts)
     \<and> (\<forall>(tn, a, n) \<in> set ts. docs tn \<noteq> None \<and> opaque_type_text tn a n \<noteq> None)"
proof (induction cs arbitrary: docs out)
  case Nil
  then show ?case by simp
next
  case (Cons c cs)
  obtain tn a n where c: "c = [tn, a, n]" using Cons.prems by (auto split: list.splits)
  with Cons.prems obtain s d o' where x: "opaque_type_text tn a n = ret s" "docs tn = Some d"
      "opaque_loop (docs(tn := None)) cs = ret o'" "out = doc_text d @ s @ o'"
    by (auto simp: bind_eq_Some_conv)
  from Cons.IH [OF x(3)] obtain ts where ts: "cs = map (\<lambda>(tn, a, n). [tn, a, n]) ts" "distinct (map fst ts)"
      "o' = concat (map (opaque_item (docs(tn := None))) ts)"
      "\<forall>(t', a, n) \<in> set ts. (docs(tn := None)) t' \<noteq> None \<and> opaque_type_text t' a n \<noteq> None" by blast
  have new: "tn \<notin> fst ` set ts" using ts(4) by fastforce
  then have "map (opaque_item (docs(tn := None))) ts = map (opaque_item docs) ts"
    by (auto simp: opaque_item_def image_iff)
  moreover have "opaque_item docs (tn, a, n) = doc_text d @ s" using x(1,2) by (simp add: opaque_item_def)
  ultimately have "out = concat (map (opaque_item docs) ((tn, a, n) # ts))" unfolding x(4) ts(3) by (simp cong: map_cong)
  moreover have "\<forall>(t', a, n) \<in> set ((tn, a, n) # ts). docs t' \<noteq> None \<and> opaque_type_text t' a n \<noteq> None"
    using ts(4) x by (auto split: if_splits)
  ultimately show ?case using c ts(1,2) new by (intro exI [of _ "(tn, a, n) # ts"]) simp
qed

lemma opaque_type_text_shape:
  assumes "opaque_type_text tn a n = ret s"
  shows "\<exists>p k x q. tn = type_name_of p k x q \<and>
    s = (if k = Some (lit ''owned'') then struct_text tn a n @ moved_text tn (type_name_of p (Some (lit ''moved'')) x q)
         else lit ''#[derive(Copy, Clone)]\<newline>'' @ struct_text tn a n)"
proof -
  obtain p k x q where sp: "split_type_name tn = ret (p, k, x, q)" using assms by (auto simp: opaque_type_text_def bind_eq_Some_conv)
  then have "tn = type_name_of p k x q" using split_type_name_eq by blast
  moreover from sp assms have "s = (if k = Some (lit ''owned'') then struct_text tn a n @ moved_text tn (type_name_of p (Some (lit ''moved'')) x q)
         else lit ''#[derive(Copy, Clone)]\<newline>'' @ struct_text tn a n)"
    by (auto simp: opaque_type_text_def type_name_of_def simp del: lit_simps)
  ultimately show ?thesis by blast
qed

subsection \<open>Properties\<close>

text \<open>When the generator writes its file, the file is complete. The compiler reported nothing but
  types (as many errors as types found), no type is defined twice, every type has documentation in
  the crate's source, and the file is, type after type in the order reported, the documentation
  followed by the structure of that alignment and size; a type whose category is \<open>owned\<close> also gets its
  moved type, whose name differs from it in the category only, with the code that takes and drops,
  and is not copyable, while every other type is.\<close>

lemma opaque_types_generated:
  assumes "generate_opaque_types captures source data_in = ret out"
  shows "\<exists>docs ts. get_opaque_type_docs captures source = ret docs
    \<and> length ts = length (filter (starts_with (lit ''error[E'')) (text_lines (map (\<lambda>c. if c = 13 then 10 else c) data_in)))
    \<and> distinct (map fst ts) \<and> out = concat (map (opaque_item docs) ts)
    \<and> (\<forall>(tn, a, n) \<in> set ts. docs tn \<noteq> None \<and> (\<exists>p k x q. tn = type_name_of p k x q \<and>
         opaque_type_text tn a n = ret (if k = Some (lit ''owned'')
           then struct_text tn a n @ moved_text tn (type_name_of p (Some (lit ''moved'')) x q)
           else lit ''#[derive(Copy, Clone)]\<newline>'' @ struct_text tn a n)))"
proof -
  let ?d = "map (\<lambda>c. if c = 13 then 10 else c) data_in"
  obtain docs where d: "get_opaque_type_docs captures source = ret docs" "opaque_loop docs (captures re_opaque_type ?d) = ret out"
      "length (captures re_opaque_type ?d) = length (filter (starts_with (lit ''error[E'')) (text_lines ?d))"
    using assms by (auto simp: generate_opaque_types_def Let_def bind_eq_Some_conv simp del: lit_simps split: if_splits)
  from opaque_loop_ret [OF d(2)] obtain ts where ts: "captures re_opaque_type ?d = map (\<lambda>(tn, a, n). [tn, a, n]) ts"
      "distinct (map fst ts)" "out = concat (map (opaque_item docs) ts)"
      "\<forall>(tn, a, n) \<in> set ts. docs tn \<noteq> None \<and> opaque_type_text tn a n \<noteq> None" by blast
  have "\<forall>(tn, a, n) \<in> set ts. docs tn \<noteq> None \<and> (\<exists>p k x q. tn = type_name_of p k x q \<and>
         opaque_type_text tn a n = ret (if k = Some (lit ''owned'')
           then struct_text tn a n @ moved_text tn (type_name_of p (Some (lit ''moved'')) x q)
           else lit ''#[derive(Copy, Clone)]\<newline>'' @ struct_text tn a n))"
    using ts(4) opaque_type_text_shape by fastforce
  then show ?thesis using d ts by (intro exI [of _ docs] exI [of _ ts]) (simp del: lit_simps)
qed

text \<open>One type reported, with one line of documentation.\<close>

definition demo_captures :: regex where
  "demo_captures pat s = (if pat = re_opaque_type then [[lit ''z_owned_x_t'', lit ''8'', lit ''16'']]
     else [[lit ''Option<X>'', lit ''z_owned_x_t'', []]])"

definition demo_source :: "rstr list" where
  "demo_source = [lit ''/// doc'', lit ''get_opaque_type_data!(Option<X>, z_owned_x_t);'']"

lemma demo_generates:
  "generate_opaque_types demo_captures demo_source (lit ''error[E0080]: type: z_owned_x_t, align: 8, size: 16'')
   = ret (lit ''/// doc'' @ [13, 10] @ struct_text (lit ''z_owned_x_t'') (lit ''8'') (lit ''16'')
       @ moved_text (lit ''z_owned_x_t'') (lit ''z_moved_x_t''))"
proof -
  have d: "get_opaque_type_docs demo_captures demo_source = ret [lit ''z_owned_x_t'' \<mapsto> [lit ''/// doc'']]"
    by (simp add: get_opaque_type_docs_def demo_captures_def demo_source_def ends_with_def re_opaque_type_data_def
        re_opaque_type_def txt_of_def)
  have s: "split_type_name (lit ''z_owned_x_t'') = ret (lit ''z'', Some (lit ''owned''), lit ''x'', lit ''t'')"
    by (simp add: split_type_name_def str_range_def str_to_def str_from_def)
  have o1: "opaque_type_text (lit ''z_owned_x_t'') (lit ''8'') (lit ''16'')
      = ret (struct_text (lit ''z_owned_x_t'') (lit ''8'') (lit ''16'') @ moved_text (lit ''z_owned_x_t'') (lit ''z_moved_x_t''))"
    unfolding opaque_type_text_def s by simp
  show ?thesis unfolding generate_opaque_types_def Let_def d
    by (simp add: demo_captures_def o1 [simplified] doc_text_def str_contains_def text_lines_def)
qed

end
