(* ===== verification/HeaderText.thy ===== *)
theory HeaderText
  imports OpaqueTypes SplitRules
begin

text \<open>
  The last passes of \<open>buildrs/cbindgen_generator.rs\<close> over the header (\<open>add_deprecated_z_locality_enum_values\<close>,
  \<open>add_enum_defaults\<close>, \<open>text_replace\<close>) and the whole pipeline, \<open>generate_c_headers\<close>, from what cbindgen
  wrote to the files of the \<open>include\<close> directory.

  These passes use the positions of matches: the parameter \<open>matches\<close> gives, for a pattern and a text,
  the byte offsets of each match and its groups, a group that took no part being empty. That the
  crate's matches are in order, do not overlap and lie on character boundaries is the hypothesis
  \<open>finds\<close>.
\<close>

subsection \<open>Replacing matches\<close>

type_synonym matcher = "rstr \<Rightarrow> rstr \<Rightarrow> (nat \<times> nat \<times> rstr list) list"

text \<open>The loop of \<open>add_enum_defaults\<close> from the local variable \<open>last_match\<close>, for the text \<open>f\<close> that stands for a
  match with given groups. \<open>Regex::replace_all\<close> is the same loop.\<close>

fun replace_matches :: "(rstr list \<Rightarrow> rstr run) \<Rightarrow> rstr \<Rightarrow> nat \<Rightarrow> (nat \<times> nat \<times> rstr list) list \<Rightarrow> rstr run" where
  "replace_matches f s last_match [] = str_from last_match s"
| "replace_matches f s last_match ((a, b, g) # ms) = do {
     gap \<leftarrow> str_range last_match a s;
     r \<leftarrow> f g;
     out \<leftarrow> replace_matches f s b ms;
     ret (gap @ r @ out)
   }"

definition re_locality_value :: rstr where
  "re_locality_value = txt_of ''(`s*)Z_LOCALITY_(`w+)(`s*)=(`s*)(`d)(,*)''"

definition re_locality_typedef :: rstr where
  "re_locality_typedef = txt_of ''(`s*)}(`s*)z_locality_t;''"

definition locality_value_text :: "rstr list \<Rightarrow> rstr run" where
  "locality_value_text g = (case g of
     [g1, g2, g3, g4, g5, g6] \<Rightarrow>
       ret (g1 @ lit ''Z_LOCALITY_'' @ g2 @ g3 @ lit ''='' @ g4 @ g5 @ lit '',''
         @ g1 @ lit ''/**'' @ g1 @ lit ''* @warning This API is deprecated. Please use `Z_LOCALITY_'' @ g2 @ lit ''`.''
         @ g1 @ lit ''*/'' @ g1 @ lit ''ZC_LOCALITY_'' @ g2 @ g3 @ lit ''='' @ g4 @ g5 @ g6)
   | _ \<Rightarrow> panic)"

definition locality_typedef_text :: "rstr list \<Rightarrow> rstr run" where
  "locality_typedef_text g = (case g of
     [g1, g2] \<Rightarrow>
       ret (g1 @ lit ''}'' @ g2 @ lit ''z_locality_t;''
         @ g1 @ lit ''/**'' @ g1 @ lit ''* @warning This API is deprecated. Please use `z_locality_t`.''
         @ g1 @ lit ''*/'' @ g1 @ lit ''typedef z_locality_t zc_locality_t;'')
   | _ \<Rightarrow> panic)"

definition add_deprecated_z_locality_enum_values :: "matcher \<Rightarrow> rstr \<Rightarrow> rstr run" where
  "add_deprecated_z_locality_enum_values matches bindings = do {
     bindings \<leftarrow> replace_matches locality_value_text bindings 0 (matches re_locality_value bindings);
     replace_matches locality_typedef_text bindings 0 (matches re_locality_typedef bindings)
   }"

definition re_enum_default :: rstr where
  "re_enum_default = txt_of ''typedef enum ([`w_]+)_t `{([^`[^`}]*?)`[Default`](`s*)`*`/(`s*)([`w_]*)(`s*)=(`s*)(`d)(,*)''"

definition to_ascii_uppercase :: "rstr \<Rightarrow> rstr" where
  "to_ascii_uppercase s = map (\<lambda>c. if 97 \<le> c \<and> c \<le> 122 then c - 32 else c) s"

definition enum_default_text :: "rstr list \<Rightarrow> rstr run" where
  "enum_default_text g = (case g of
     [g1, g2, g3, g4, g5, g6, g7, g8, g9] \<Rightarrow>
       (let pfx = to_ascii_uppercase g1
        in ret (lit ''typedef enum '' @ g1 @ lit ''_t {'' @ g2 @ g3 @ lit ''*/'' @ g4 @ g5 @ g6 @ lit ''='' @ g7 @ g8 @ lit '', ''
             @ g4 @ pfx @ lit ''_DEFAULT'' @ g6 @ lit ''='' @ g7 @ g5 @ g9))
   | _ \<Rightarrow> panic)"

definition add_enum_defaults :: "matcher \<Rightarrow> rstr \<Rightarrow> rstr run" where
  "add_enum_defaults matches bindings = replace_matches enum_default_text bindings 0 (matches re_enum_default bindings)"

subsection \<open>The pipeline\<close>

text \<open>What \<open>text_replace\<close> does to the contents of one file; locking is left out.\<close>

definition text_replace_file :: "matcher \<Rightarrow> rstr \<Rightarrow> rstr run" where
  "text_replace_file matches buf = do {
     let buf = text_replace_plain buf;
     buf \<leftarrow> add_deprecated_z_locality_enum_values matches buf;
     add_enum_defaults matches buf
   }"

definition text_replace :: "matcher \<Rightarrow> out_files \<Rightarrow> out_files run" where
  "text_replace matches files = all_some (\<lambda>(n, buf). map_option (Pair n) (text_replace_file matches buf)) files"

text \<open>\<open>BufRead::lines\<close>: without the line feed, or the carriage return and line feed, that ends a line;
  what follows the last line feed is a line when it is not empty.\<close>

definition file_lines :: "rstr \<Rightarrow> rstr list" where
  "file_lines s =
    (let ps = split_char 10 s;
         ended = map (\<lambda>l. if l \<noteq> [] \<and> last l = 13 then butlast l else l) (butlast ps)
     in if last ps = [] then ended else ended @ [last ps])"

definition preprocess_header :: "(rstr \<Rightarrow> bool) \<Rightarrow> evaluator \<Rightarrow> rstr \<Rightarrow> rstr run" where
  "preprocess_header tf ev input = process_feature_defines tf ev (file_lines input)"

text \<open>The files written: the macros header, the configuration header, and the split headers.
  \<open>generated\<close> is what cbindgen wrote; copying the directory is left out.\<close>

definition generate_c_headers ::
  "regex \<Rightarrow> matcher \<Rightarrow> (rstr \<Rightarrow> rstr) \<Rightarrow> (rstr \<Rightarrow> bool) \<Rightarrow> evaluator \<Rightarrow> (rchar \<Rightarrow> bool) \<Rightarrow> split_guide \<Rightarrow> rstr \<Rightarrow> rstr \<Rightarrow> rstr
   \<Rightarrow> (rstr \<times> rstr \<times> out_files) run" where
  "generate_c_headers captures matches squeeze tf ev ua guide arch version generated = do {
     let generation = fix_cbindgen generated;
     preprocessed \<leftarrow> preprocess_header tf ev generation;
     macros \<leftarrow> create_generics_header captures squeeze preprocessed;
     conf \<leftarrow> configure tf arch version;
     (files, r) \<leftarrow> split_bindings ua guide generation;
     case r of
       Inl e \<Rightarrow> panic
     | Inr names \<Rightarrow> do { files \<leftarrow> text_replace matches files; ret (macros, conf, files) }
   }"

subsection \<open>Lemmas\<close>

text \<open>A text cut at its matches: pairs of the text before a match and the match, and the rest. Their
  positions are what the crate reports.\<close>

type_synonym pieces = "(rstr \<times> rstr \<times> rstr list) list"

fun positions :: "nat \<Rightarrow> pieces \<Rightarrow> (nat \<times> nat \<times> rstr list) list" where
  "positions off [] = []"
| "positions off ((gap, m, g) # ps) =
    (off + str_len gap, off + str_len gap + str_len m, g) # positions (off + str_len gap + str_len m) ps"

definition cut_text :: "pieces \<Rightarrow> rstr" where
  "cut_text ps = concat (map (\<lambda>(gap, m, g). gap @ m) ps)"

definition finds :: "matcher \<Rightarrow> rstr \<Rightarrow> rstr \<Rightarrow> pieces \<Rightarrow> rstr \<Rightarrow> bool" where
  "finds matches pat s ps rest \<longleftrightarrow> s = cut_text ps @ rest \<and> matches pat s = positions 0 ps"

lemma replace_matches_pieces:
  assumes "\<forall>(gap, m, g) \<in> set ps. f g \<noteq> None"
  shows "replace_matches f (pre @ cut_text ps @ rest) (str_len pre) (positions (str_len pre) ps)
    = ret (concat (map (\<lambda>(gap, m, g). gap @ the (f g)) ps) @ rest)"
  using assms
proof (induction ps arbitrary: pre)
  case Nil
  then show ?case by (simp add: cut_text_def)
next
  case (Cons p ps)
  obtain gap m g where p: "p = (gap, m, g)" by (cases p)
  let ?s = "pre @ cut_text (p # ps) @ rest"
  have "str_range (str_len pre) (str_len pre + str_len gap) ?s = ret gap"
    using str_range_append [of "str_len pre" pre _ gap "m @ cut_text ps @ rest"] p by (simp add: cut_text_def)
  moreover have "replace_matches f ?s (str_len pre + str_len gap + str_len m) (positions (str_len pre + str_len gap + str_len m) ps)
      = ret (concat (map (\<lambda>(gap, m, g). gap @ the (f g)) ps) @ rest)"
    using Cons.IH [of "pre @ gap @ m"] Cons.prems p by (simp add: cut_text_def add.assoc)
  moreover obtain r where "f g = ret r" using Cons.prems p by auto
  ultimately show ?case using p by simp
qed

lemma replace_matches_finds:
  assumes "finds matches pat s ps rest" "\<forall>(gap, m, g) \<in> set ps. f g \<noteq> None"
  shows "replace_matches f s 0 (matches pat s) = ret (concat (map (\<lambda>(gap, m, g). gap @ the (f g)) ps) @ rest)"
  using replace_matches_pieces [OF assms(2), of "[]" rest] assms(1) by (auto simp: finds_def)

text \<open>The pipeline writes exactly the files the guide lists, in the order of the split.\<close>

lemma text_replace_names: "text_replace matches files = ret files' \<Longrightarrow> map fst files' = map fst files"
proof -
  assume "text_replace matches files = ret files'"
  then have "map (\<lambda>(n, buf). map_option (Pair n) (text_replace_file matches buf)) files = map Some files'"
    by (simp add: text_replace_def all_some_iff)
  then show ?thesis
  proof (induction files arbitrary: files')
    case Nil
    then show ?case by simp
  next
    case (Cons p files)
    then show ?case by (cases files') (auto split: prod.splits)
  qed
qed

subsection \<open>Properties\<close>

text \<open>The enumeration with nine groups without its mark \<open>[Default]\<close>, followed by the constant of the default.\<close>

definition enum_with_default :: "rstr list \<Rightarrow> rstr" where
  "enum_with_default g = lit ''typedef enum '' @ g ! 0 @ lit ''_t {'' @ g ! 1 @ g ! 2 @ lit ''*/'' @ g ! 3 @ g ! 4 @ g ! 5 @ lit ''='' @ g ! 6 @ g ! 7
     @ lit '', '' @ g ! 3 @ to_ascii_uppercase (g ! 0) @ lit ''_DEFAULT'' @ g ! 5 @ lit ''='' @ g ! 6 @ g ! 4 @ g ! 8"

lemma enum_default_text_9: "length g = 9 \<Longrightarrow> enum_default_text g = ret (enum_with_default g)"
  by (auto simp: enum_default_text_def enum_with_default_def length_Suc_conv numeral_eq_Suc simp del: lit_simps)

text \<open>C30: adding the default values touches the matched enumerations only and never slices inside a
  character. For matches that are in order, disjoint and on character boundaries, the pass returns,
  the text outside the matches is unchanged, and each match (with its nine groups) is replaced by the
  enumeration without its mark \<open>[Default]\<close> followed by the constant \<open><NAME>_DEFAULT\<close> that is equal to the marked
  value. In particular a text without a match is returned as it is.\<close>

theorem add_enum_defaults_replaces:
  assumes "finds matches re_enum_default s ps rest" "\<forall>(gap, m, g) \<in> set ps. length g = 9"
  shows "add_enum_defaults matches s = ret (concat (map (\<lambda>(gap, m, g). gap @ enum_with_default g) ps) @ rest)"
proof -
  have "\<forall>(gap, m, g) \<in> set ps. enum_default_text g \<noteq> None" using assms(2) enum_default_text_9 by fastforce
  from replace_matches_finds [OF assms(1) this] have "add_enum_defaults matches s
      = ret (concat (map (\<lambda>(gap, m, g). gap @ the (enum_default_text g)) ps) @ rest)"
    by (simp add: add_enum_defaults_def)
  moreover have "map (\<lambda>(gap, m, g). gap @ the (enum_default_text g)) ps = map (\<lambda>(gap, m, g). gap @ enum_with_default g) ps"
    using assms(2) enum_default_text_9 by (intro map_cong) auto
  ultimately show ?thesis by simp
qed

definition demo_pieces :: pieces where
  "demo_pieces = [(lit ''a '', lit ''typedef enum z_x_t {/** [Default] */ Z_X_A = 0,'',
     [lit ''z_x'', lit ''/** '', lit '' '', lit '' '', lit ''Z_X_A'', lit '' '', lit '' '', lit ''0'', lit '','' ])]"

theorem add_enum_defaults_replaces_witness:
  "add_enum_defaults (\<lambda>pat s. positions 0 demo_pieces) (lit ''a typedef enum z_x_t {/** [Default] */ Z_X_A = 0, }'')
   = ret (lit ''a typedef enum z_x_t {/**  */ Z_X_A = 0,  Z_X_DEFAULT = Z_X_A, }'')"
proof -
  have "finds (\<lambda>pat s. positions 0 demo_pieces) re_enum_default (lit ''a typedef enum z_x_t {/** [Default] */ Z_X_A = 0, }'')
      demo_pieces (lit '' }'')"
    by (simp add: finds_def cut_text_def demo_pieces_def)
  moreover have "\<forall>(gap, m, g) \<in> set demo_pieces. length g = 9" by (simp add: demo_pieces_def)
  ultimately show ?thesis
    using add_enum_defaults_replaces by (simp add: demo_pieces_def enum_with_default_def to_ascii_uppercase_def)
qed

end
