(* ===== verification/Transmute.thy ===== *)
theory Transmute
  imports Ownership
begin

text \<open>
  \<open>src/transmute.rs\<close>: the macros that declare the C types of the API. A declaration lists the owned,
  loaned, view or moved C type and the Rust type behind it; its expansion is a list of items, which
  are compile-time comparisons of the layouts of two types and implementations of the conversion traits.
  The bodies of the conversions are pointer casts and \<open>mem::transmute\<close>, which are sound only between
  types of the same layout. The compiler checks the sizes of a \<open>transmute\<close>; nothing but the comparisons
  checks a pointer cast.

  The alignment and the size of a type are the compiler's and a parameter (\<open>layout\<close>); that \<open>MaybeUninit\<close> of a type
  has the layout of the type is documented behaviour of the standard library and a hypothesis.
  A declaration that no arm of a macro matches is \<open>None\<close>; of two arms with the same pattern, which both
  macros and \<open>impl_owned!\<close> have, the first one is taken, and only this one is in the model.
\<close>

subsection \<open>Types and layouts\<close>

text \<open>A type as the declarations write it.\<close>

datatype rust_type = Ty string | OptionTy rust_type | MaybeUninitTy rust_type

record layout =
  align_of :: "rust_type \<Rightarrow> nat"
  size_of :: "rust_type \<Rightarrow> nat"

definition same_layout :: "layout \<Rightarrow> rust_type \<Rightarrow> rust_type \<Rightarrow> bool" where
  "same_layout l a b \<longleftrightarrow> align_of l a = align_of l b \<and> size_of l a = size_of l b"

text \<open>The two compile-time errors of \<open>validate_equivalence!\<close>.\<close>

datatype layout_error =
  Alignment_mismatch rust_type nat rust_type nat
| Size_mismatch rust_type nat rust_type nat

definition validate_equivalence :: "layout \<Rightarrow> rust_type \<Rightarrow> rust_type \<Rightarrow> layout_error + unit" where
  "validate_equivalence l a b =
    (if align_of l a \<noteq> align_of l b then Inl (Alignment_mismatch a (align_of l a) b (align_of l b))
     else if size_of l a \<noteq> size_of l b then Inl (Size_mismatch a (size_of l a) b (size_of l b))
     else Inr ())"

subsection \<open>Implementations\<close>

text \<open>What the body of a conversion does.\<close>

datatype conversion = Cast rust_type rust_type | Transmute rust_type rust_type | Itself

datatype conversion_trait =
  CTypeRef | OwnedCTypeRef | LoanedCTypeRef | ViewCTypeRef | RustTypeRef | RustTypeRefUninit
| IntoRustType | Gravestone | IntoCType | TakeCType

text \<open>An implementation: the trait, the type it is for, and its conversion.\<close>

type_synonym trait_impl = "conversion_trait \<times> rust_type \<times> conversion"

datatype transmute_kind = as_c | as_c_owned | as_c_loaned | as_c_view | as_rust | into_rust | take_rust | into_c

fun impl_transmute :: "transmute_kind \<Rightarrow> rust_type \<Rightarrow> rust_type \<Rightarrow> trait_impl list" where
  "impl_transmute as_c r c = [(CTypeRef, r, Cast r c)]"
| "impl_transmute as_c_owned r c = [(OwnedCTypeRef, r, Cast r c)]"
| "impl_transmute as_c_loaned r c = [(LoanedCTypeRef, r, Cast r c)]"
| "impl_transmute as_c_view r c = [(ViewCTypeRef, r, Cast r c)]"
| "impl_transmute as_rust c r =
     [(RustTypeRef, c, Cast c r),
      (RustTypeRefUninit, MaybeUninitTy c, Cast (MaybeUninitTy c) (MaybeUninitTy r))]"
| "impl_transmute into_rust c r = [(IntoRustType, c, Transmute c r)]"
| "impl_transmute take_rust c r = [(Gravestone, c, Transmute r c)]"
| "impl_transmute into_c r c = [(IntoCType, r, Transmute r c)]"

text \<open>\<open>into_rust (itself T)\<close>.\<close>

definition into_rust_itself :: "rust_type \<Rightarrow> trait_impl list" where
  "into_rust_itself c = [(IntoRustType, c, Itself)]"

definition impl_owned_option :: "rust_type \<Rightarrow> rust_type \<Rightarrow> trait_impl list" where
  "impl_owned_option c_owned rust_inner =
     impl_transmute as_c_owned (OptionTy rust_inner) c_owned
   @ impl_transmute as_rust c_owned (OptionTy rust_inner)
   @ impl_transmute into_rust c_owned (OptionTy rust_inner)
   @ impl_transmute into_c (OptionTy rust_inner) c_owned
   @ impl_transmute take_rust c_owned (OptionTy rust_inner)"

definition impl_owned_plain :: "rust_type \<Rightarrow> rust_type \<Rightarrow> trait_impl list" where
  "impl_owned_plain c_owned rust_owned =
     impl_transmute as_c_owned rust_owned c_owned
   @ impl_transmute as_rust c_owned rust_owned
   @ impl_transmute into_rust c_owned rust_owned
   @ impl_transmute take_rust c_owned rust_owned"

definition impl_owned_rust :: "rust_type \<Rightarrow> rust_type \<Rightarrow> trait_impl list" where
  "impl_owned_rust c_owned c_loaned =
     impl_transmute as_c_owned c_loaned c_owned
   @ impl_transmute as_c_loaned c_owned c_loaned
   @ into_rust_itself c_owned"

subsection \<open>Declarations\<close>

text \<open>The clauses of a declaration: \<open>owned(c, option r)\<close>, \<open>owned(c, r)\<close>, \<open>owned(c)\<close>, \<open>loaned(c)\<close>,
  \<open>loaned(c, r)\<close>, \<open>view(c, r)\<close>, \<open>moved(c)\<close> and \<open>copy(c, r)\<close>.\<close>

datatype clause =
  Owned_option rust_type rust_type
| Owned rust_type rust_type
| Owned_c rust_type
| Loaned_inner rust_type
| Loaned rust_type rust_type
| View rust_type rust_type
| Moved rust_type
| Copied rust_type rust_type

datatype item = Validate rust_type rust_type | Impls "trait_impl list"

text \<open>The items every arm with a loaned type, and every arm with a view type, ends with.\<close>

abbreviation loaned_items :: "rust_type \<Rightarrow> rust_type \<Rightarrow> item list" where
  "loaned_items c r \<equiv> [Validate c r, Impls (impl_transmute as_c_loaned r c), Impls (impl_transmute as_rust c r)]"

abbreviation view_items :: "rust_type \<Rightarrow> rust_type \<Rightarrow> item list" where
  "view_items c r \<equiv> [Validate c r, Impls (impl_transmute as_c_view r c), Impls (impl_transmute as_rust c r)]"

text \<open>A macro expands a declaration by the arm whose pattern it has; the patterns exclude each other, so there
  is one rule for each arm (lemma \<open>expansions_unique\<close>), and a declaration without rule does not compile.\<close>

inductive decl_c_type_inequal :: "clause list \<Rightarrow> item list \<Rightarrow> bool"
  and decl_c_type :: "clause list \<Rightarrow> item list \<Rightarrow> bool" where
  inequal_option_loaned: "decl_c_type [Owned_option c r] items \<Longrightarrow>
    decl_c_type_inequal [Owned_option c r, Loaned lc lr] (items @ loaned_items lc lr)"
| inequal_loaned: "decl_c_type [Owned c r] items \<Longrightarrow>
    decl_c_type_inequal [Owned c r, Loaned lc lr] (items @ loaned_items lc lr)"
| inequal_option_inner: "decl_c_type_inequal [Owned_option c r, Loaned lc r] items \<Longrightarrow>
    decl_c_type_inequal [Owned_option c r, Loaned_inner lc] items"
| inequal_inner: "decl_c_type_inequal [Owned c r, Loaned lc r] items \<Longrightarrow>
    decl_c_type_inequal [Owned c r, Loaned_inner lc] items"
| inequal_option_view: "decl_c_type_inequal [Owned_option c r, Loaned_inner lc] items \<Longrightarrow>
    decl_c_type_inequal [Owned_option c r, Loaned_inner lc, View vc vr] (items @ view_items vc vr)"
| inequal_inner_view: "decl_c_type_inequal [Owned c r, Loaned_inner lc] items \<Longrightarrow>
    decl_c_type_inequal [Owned c r, Loaned_inner lc, View vc vr] (items @ view_items vc vr)"
| inequal_view: "decl_c_type_inequal [Owned c r, Loaned lc lr] items \<Longrightarrow>
    decl_c_type_inequal [Owned c r, Loaned lc lr, View vc vr] (items @ view_items vc vr)"
| owned_option: "decl_c_type [Owned_option c r] [Validate c (OptionTy r), Impls (impl_owned_option c r)]"
| owned: "decl_c_type [Owned c r] [Validate c r, Impls (impl_owned_plain c r)]"
| option_loaned: "decl_c_type_inequal [Owned_option c r, Loaned lc lr] items \<Longrightarrow>
    decl_c_type [Owned_option c r, Loaned lc lr] (items @ [Validate lc c])"
| loaned: "decl_c_type_inequal [Owned c r, Loaned lc lr] items \<Longrightarrow>
    decl_c_type [Owned c r, Loaned lc lr] (items @ [Validate lc c])"
| option_inner: "decl_c_type [Owned_option c r, Loaned lc r] items \<Longrightarrow>
    decl_c_type [Owned_option c r, Loaned_inner lc] items"
| inner: "decl_c_type [Owned c r, Loaned lc r] items \<Longrightarrow> decl_c_type [Owned c r, Loaned_inner lc] items"
| option_view: "decl_c_type_inequal [Owned_option c r, Loaned_inner lc, View vc vr] items \<Longrightarrow>
    decl_c_type [Owned_option c r, Loaned_inner lc, View vc vr] (items @ [Validate c lc, Validate vc lc])"
| inner_view: "decl_c_type_inequal [Owned c r, Loaned lc r, View vc vr] items \<Longrightarrow>
    decl_c_type [Owned c r, Loaned_inner lc, View vc vr] (items @ [Validate c lc, Validate vc lc])"
| loaned_view: "decl_c_type_inequal [Owned c r, Loaned lc lr, View vc vr] items \<Longrightarrow>
    decl_c_type [Owned c r, Loaned lc lr, View vc vr] (items @ [Validate c lc, Validate vc lc])"
| closures: "decl_c_type [Owned_c c, Loaned_inner lc, Moved mc]
    [Validate c lc, Impls (impl_owned_rust c lc), Impls [(TakeCType, mc, Itself)]]"
| copied: "decl_c_type [Copied c r]
    [Validate c r, Impls (impl_transmute as_c r c), Impls (impl_transmute as_rust c r),
     Impls (impl_transmute into_c r c), Impls (impl_transmute into_rust c r)]"
| loaned_only: "decl_c_type [Loaned lc lr] (loaned_items lc lr)"

inductive_simps decl_c_type_simps:
  "decl_c_type [Owned_option c r] items"
  "decl_c_type [Owned c r] items"
  "decl_c_type [Owned_option c r, Loaned lc lr] items"
  "decl_c_type [Owned c r, Loaned lc lr] items"
  "decl_c_type [Owned_option c r, Loaned_inner lc] items"
  "decl_c_type [Owned c r, Loaned_inner lc] items"
  "decl_c_type [Owned_option c r, Loaned_inner lc, View vc vr] items"
  "decl_c_type [Owned c r, Loaned_inner lc, View vc vr] items"
  "decl_c_type [Owned c r, Loaned lc lr, View vc vr] items"
  "decl_c_type [Owned_c c, Loaned_inner lc, Moved mc] items"
  "decl_c_type [Copied c r] items"
  "decl_c_type [Loaned lc lr] items"

inductive_simps decl_c_type_inequal_simps:
  "decl_c_type_inequal [Owned_option c r, Loaned lc lr] items"
  "decl_c_type_inequal [Owned c r, Loaned lc lr] items"
  "decl_c_type_inequal [Owned_option c r, Loaned_inner lc] items"
  "decl_c_type_inequal [Owned c r, Loaned_inner lc] items"
  "decl_c_type_inequal [Owned_option c r, Loaned_inner lc, View vc vr] items"
  "decl_c_type_inequal [Owned c r, Loaned_inner lc, View vc vr] items"
  "decl_c_type_inequal [Owned c r, Loaned lc lr, View vc vr] items"

lemmas expansion_simps = decl_c_type_simps decl_c_type_inequal_simps

lemma expansions_unique:
  "decl_c_type_inequal cl items \<Longrightarrow> \<forall>other. decl_c_type_inequal cl other \<longrightarrow> other = items"
  "decl_c_type cl items \<Longrightarrow> \<forall>other. decl_c_type cl other \<longrightarrow> other = items"
  by (induction rule: decl_c_type_inequal_decl_c_type.inducts) (auto simp: expansion_simps)

subsection \<open>Compiling a declaration\<close>

text \<open>The comparisons run in order at compile time; the first that fails stops the build.\<close>

fun compile_items :: "layout \<Rightarrow> item list \<Rightarrow> layout_error + unit" where
  "compile_items l [] = Inr ()"
| "compile_items l (Validate a b # items) = (case validate_equivalence l a b of Inl e \<Rightarrow> Inl e | Inr _ \<Rightarrow> compile_items l items)"
| "compile_items l (Impls ts # items) = compile_items l items"

fun item_impls :: "item \<Rightarrow> trait_impl list" where
  "item_impls (Validate a b) = []"
| "item_impls (Impls ts) = ts"

definition impls :: "item list \<Rightarrow> trait_impl list" where
  "impls items = concat (map item_impls items)"

text \<open>A conversion is sound when it is between types of one layout.\<close>

fun sound_conversion :: "layout \<Rightarrow> conversion \<Rightarrow> bool" where
  "sound_conversion l (Cast a b) = same_layout l a b"
| "sound_conversion l (Transmute a b) = same_layout l a b"
| "sound_conversion l Itself = True"

text \<open>The C types of a declaration that the C++ bindings reinterpret as each other: owned, loaned and view.\<close>

fun reinterpreted :: "clause \<Rightarrow> rust_type list" where
  "reinterpreted (Owned_option c r) = [c]"
| "reinterpreted (Owned c r) = [c]"
| "reinterpreted (Owned_c c) = [c]"
| "reinterpreted (Loaned_inner c) = [c]"
| "reinterpreted (Loaned c r) = [c]"
| "reinterpreted (View c r) = [c]"
| "reinterpreted (Moved c) = []"
| "reinterpreted (Copied c r) = [c]"

text \<open>What \<open>MaybeUninit\<close> is documented to have.\<close>

definition maybe_uninit_transparent :: "layout \<Rightarrow> bool" where
  "maybe_uninit_transparent l \<longleftrightarrow> (\<forall>t. same_layout l (MaybeUninitTy t) t)"

lemma same_layout_sym: "same_layout l a b \<Longrightarrow> same_layout l b a"
  by (simp add: same_layout_def)

lemma compile_validate [simp]: "compile_items l (Validate a b # items) = Inr () \<longleftrightarrow> same_layout l a b \<and> compile_items l items = Inr ()"
  by (simp add: validate_equivalence_def same_layout_def)

declare compile_items.simps(2) [simp del]

lemma compile_append [simp]: "compile_items l (xs @ ys) = Inr () \<longleftrightarrow> compile_items l xs = Inr () \<and> compile_items l ys = Inr ()"
proof (induction xs)
  case (Cons x xs)
  then show ?case by (cases x) simp_all
qed simp

lemma impls_append [simp]: "impls (xs @ ys) = impls xs @ impls ys" "impls (Validate a b # xs) = impls xs" "impls (Impls ts # xs) = ts @ impls xs" "impls [] = []"
  by (simp_all add: impls_def)

definition sound_items :: "layout \<Rightarrow> item list \<Rightarrow> bool" where
  "sound_items l items \<longleftrightarrow> (compile_items l items = Inr () \<longrightarrow> (\<forall>(tr, t, conv) \<in> set (impls items). sound_conversion l conv))"

lemma expansions_sound:
  assumes "maybe_uninit_transparent l"
  shows "decl_c_type_inequal cl items \<Longrightarrow> sound_items l items"
    and "decl_c_type cl items \<Longrightarrow> sound_items l items"
  using assms
  by (induction rule: decl_c_type_inequal_decl_c_type.inducts)
    (auto simp: sound_items_def impl_owned_option_def impl_owned_plain_def impl_owned_rust_def into_rust_itself_def
       maybe_uninit_transparent_def same_layout_def)

lemma reinterpreted_types:
  assumes "decl_c_type cl items" "compile_items l items = Inr ()"
  shows "\<forall>a \<in> set (concat (map reinterpreted cl)). \<forall>b \<in> set (concat (map reinterpreted cl)). same_layout l a b"
  using assms by (cases rule: decl_c_type.cases) (auto simp: expansion_simps same_layout_def)

lemma impls_coherent_inequal:
  assumes "decl_c_type_inequal cl items" "distinct (concat (map reinterpreted cl))"
  shows "distinct (map (\<lambda>(tr, t, conv). (tr, t)) (impls items))"
  using assms
  by (cases rule: decl_c_type_inequal.cases)
    (auto simp: expansion_simps impl_owned_option_def impl_owned_plain_def into_rust_itself_def)

lemma impls_coherent:
  assumes "decl_c_type cl items" "distinct (concat (map reinterpreted cl))"
  shows "distinct (map (\<lambda>(tr, t, conv). (tr, t)) (impls items))"
  using assms
  by (cases rule: decl_c_type.cases)
    (auto simp: expansion_simps impl_owned_option_def impl_owned_plain_def impl_owned_rust_def into_rust_itself_def)

lemma compile_error_real:
  "compile_items l items = Inl e \<Longrightarrow> \<exists>a b. Validate a b \<in> set items \<and> \<not> same_layout l a b \<and> validate_equivalence l a b = Inl e"
proof (induction items)
  case (Cons x items)
  show ?case
  proof (cases x)
    case (Validate a b)
    show ?thesis
    proof (cases "validate_equivalence l a b")
      case (Inl e')
      then have "e' = e" using Cons.prems Validate by (simp add: compile_items.simps(2))
      then show ?thesis using Inl Validate by (intro exI [of _ a] exI [of _ b]) (auto simp: validate_equivalence_def same_layout_def split: if_splits)
    next
      case (Inr u)
      then show ?thesis using Cons Validate by (auto simp: compile_items.simps(2))
    qed
  next
    case (Impls ts)
    then show ?thesis using Cons by auto
  qed
qed simp

subsection \<open>Properties\<close>

text \<open>C32: a declaration that compiles is sound. Whatever the layouts of the types are, if every comparison a
  declaration expands to passes, then every pointer cast and every \<open>transmute\<close> in its conversions is
  between types of the same alignment and size, and no trait is implemented twice for a type. This holds of
  both macros; for a declaration by \<open>decl_c_type!\<close> the owned, loaned and view C types, which the C++ bindings
  reinterpret as each other, agree too, which \<open>decl_c_type_inequal!\<close> leaves out.\<close>

theorem declared_conversions_sound:
  assumes "maybe_uninit_transparent l" "decl_c_type cl items \<or> decl_c_type_inequal cl items"
    and "compile_items l items = Inr ()" "distinct (concat (map reinterpreted cl))"
  shows "(\<forall>(tr, t, conv) \<in> set (impls items). sound_conversion l conv)
    \<and> (decl_c_type cl items \<longrightarrow>
        (\<forall>a \<in> set (concat (map reinterpreted cl)). \<forall>b \<in> set (concat (map reinterpreted cl)). same_layout l a b))
    \<and> distinct (map (\<lambda>(tr, t, conv). (tr, t)) (impls items))"
  using assms(2)
proof
  assume d: "decl_c_type cl items"
  then show ?thesis
    using expansions_sound(2) [OF assms(1) d] reinterpreted_types [OF d assms(3)] impls_coherent [OF d assms(4)] assms(3)
    by (simp add: sound_items_def)
next
  assume d: "decl_c_type_inequal cl items"
  then show ?thesis
    using expansions_sound(1) [OF assms(1) d] reinterpreted_types [OF _ assms(3), of cl]
      impls_coherent_inequal [OF d assms(4)] assms(3)
    by (simp add: sound_items_def)
qed

text \<open>The declaration of the slices, where all types take four words.\<close>

definition demo_layout :: layout where
  "demo_layout = \<lparr>align_of = (\<lambda>t. 8), size_of = (\<lambda>t. 32)\<rparr>"

definition demo_clauses :: "clause list" where
  "demo_clauses = [Owned (Ty ''z_owned_slice_t'') (Ty ''CSliceOwned''), Loaned (Ty ''z_loaned_slice_t'') (Ty ''CSlice''),
     View (Ty ''z_view_slice_t'') (Ty ''CSliceView'')]"

definition demo_items :: "item list" where
  "demo_items =
    [Validate (Ty ''z_owned_slice_t'') (Ty ''CSliceOwned''), Impls (impl_owned_plain (Ty ''z_owned_slice_t'') (Ty ''CSliceOwned''))]
    @ loaned_items (Ty ''z_loaned_slice_t'') (Ty ''CSlice'') @ view_items (Ty ''z_view_slice_t'') (Ty ''CSliceView'')
    @ [Validate (Ty ''z_owned_slice_t'') (Ty ''z_loaned_slice_t''), Validate (Ty ''z_view_slice_t'') (Ty ''z_loaned_slice_t'')]"

lemma demo_expands: "decl_c_type demo_clauses demo_items"
  by (simp add: demo_clauses_def demo_items_def expansion_simps)

theorem declared_conversions_sound_witness:
  "list_all (\<lambda>(tr, t, conv). sound_conversion demo_layout conv) (impls demo_items) \<and> length (impls demo_items) = 11
   \<and> distinct (map (\<lambda>(tr, t, conv). (tr, t)) (impls demo_items))"
proof -
  have "maybe_uninit_transparent demo_layout" "compile_items demo_layout demo_items = Inr ()"
    by (simp_all add: maybe_uninit_transparent_def demo_layout_def demo_items_def same_layout_def)
  moreover have "distinct (concat (map reinterpreted demo_clauses))" by (simp add: demo_clauses_def)
  ultimately have "(\<forall>(tr, t, conv) \<in> set (impls demo_items). sound_conversion demo_layout conv)
      \<and> distinct (map (\<lambda>(tr, t, conv). (tr, t)) (impls demo_items))"
    using declared_conversions_sound [OF _ disjI1 [OF demo_expands]] by blast
  moreover have "length (impls demo_items) = 11" by (simp add: demo_items_def impl_owned_plain_def)
  ultimately show ?thesis unfolding list_all_iff by blast
qed

end
