(* ===== verification/Declarations.thy ===== *)
theory Declarations
  imports Transmute
begin

text \<open>
  Every declaration of a C type in the sources: the invocations of \<open>decl_c_type!\<close> and
  \<open>decl_c_type_inequal!\<close>, file by file. A Rust type is written as the invocation writes it. All features
  are taken to be enabled.
\<close>

subsection \<open>Declarations\<close>

text \<open>\<open>src/advanced_publisher.rs\<close>\<close>

definition ze_advanced_publisher_decl :: "clause list" where
  "ze_advanced_publisher_decl = [Owned_option (Ty ''ze_owned_advanced_publisher_t'') (Ty ''zenoh_ext::AdvancedPublisher<'static>''), Loaned_inner (Ty ''ze_loaned_advanced_publisher_t'')]"


text \<open>\<open>src/advanced_subscriber.rs\<close>\<close>

definition ze_advanced_subscriber_decl :: "clause list" where
  "ze_advanced_subscriber_decl = [Owned_option (Ty ''ze_owned_advanced_subscriber_t'') (Ty ''zenoh_ext::AdvancedSubscriber<()>''), Loaned_inner (Ty ''ze_loaned_advanced_subscriber_t'')]"

definition ze_sample_miss_listener_decl :: "clause list" where
  "ze_sample_miss_listener_decl = [Owned_option (Ty ''ze_owned_sample_miss_listener_t'') (Ty ''SampleMissListener<()>'')]"


text \<open>\<open>src/cancellation_token.rs\<close>\<close>

definition z_cancellation_token_decl :: "clause list" where
  "z_cancellation_token_decl = [Owned_option (Ty ''z_owned_cancellation_token_t'') (Ty ''CancellationToken''), Loaned (Ty ''z_loaned_cancellation_token_t'') (Ty ''CancellationToken'')]"


text \<open>\<open>src/close.rs\<close>\<close>

definition zc_concurrent_close_handle_decl :: "clause list" where
  "zc_concurrent_close_handle_decl = [Owned_option (Ty ''zc_owned_concurrent_close_handle_t'') (Ty ''NolocalJoinHandle<zenoh::Result<()>>'')]"


text \<open>\<open>src/collections.rs\<close>\<close>

definition z_slice_decl :: "clause list" where
  "z_slice_decl = [Owned (Ty ''z_owned_slice_t'') (Ty ''CSliceOwned''), Loaned (Ty ''z_loaned_slice_t'') (Ty ''CSlice''), View (Ty ''z_view_slice_t'') (Ty ''CSliceView'')]"

definition z_string_decl :: "clause list" where
  "z_string_decl = [Owned (Ty ''z_owned_string_t'') (Ty ''CStringOwned''), Loaned (Ty ''z_loaned_string_t'') (Ty ''CStringInner''), View (Ty ''z_view_string_t'') (Ty ''CStringView'')]"

definition z_string_array_decl :: "clause list" where
  "z_string_array_decl = [Owned (Ty ''z_owned_string_array_t'') (Ty ''ZVector''), Loaned_inner (Ty ''z_loaned_string_array_t'')]"


text \<open>\<open>src/commons.rs\<close>\<close>

definition z_timestamp_decl :: "clause list" where
  "z_timestamp_decl = [Copied (Ty ''z_timestamp_t'') (Ty ''Timestamp'')]"

definition z_sample_decl :: "clause list" where
  "z_sample_decl = [Owned_option (Ty ''z_owned_sample_t'') (Ty ''Sample''), Loaned_inner (Ty ''z_loaned_sample_t'')]"

definition z_entity_global_id_decl :: "clause list" where
  "z_entity_global_id_decl = [Copied (Ty ''z_entity_global_id_t'') (Ty ''EntityGlobalId'')]"

definition z_source_info_decl :: "clause list" where
  "z_source_info_decl = [Copied (Ty ''z_source_info_t'') (Ty ''SourceInfo'')]"


text \<open>\<open>src/config.rs\<close>\<close>

definition z_config_decl :: "clause list" where
  "z_config_decl = [Owned_option (Ty ''z_owned_config_t'') (Ty ''Config''), Loaned_inner (Ty ''z_loaned_config_t'')]"


text \<open>\<open>src/encoding.rs\<close>\<close>

definition z_encoding_decl :: "clause list" where
  "z_encoding_decl = [Owned (Ty ''z_owned_encoding_t'') (Ty ''Encoding''), Loaned (Ty ''z_loaned_encoding_t'') (Ty ''Encoding'')]"


text \<open>\<open>src/get.rs\<close>\<close>

definition z_reply_err_decl :: "clause list" where
  "z_reply_err_decl = [Owned (Ty ''z_owned_reply_err_t'') (Ty ''ReplyError''), Loaned (Ty ''z_loaned_reply_err_t'') (Ty ''ReplyError'')]"

definition z_reply_decl :: "clause list" where
  "z_reply_decl = [Owned_option (Ty ''z_owned_reply_t'') (Ty ''Reply''), Loaned_inner (Ty ''z_loaned_reply_t'')]"


text \<open>\<open>src/info.rs\<close>\<close>

definition z_id_decl :: "clause list" where
  "z_id_decl = [Copied (Ty ''z_id_t'') (Ty ''ZenohId'')]"

definition z_transport_decl :: "clause list" where
  "z_transport_decl = [Owned_option (Ty ''z_owned_transport_t'') (Ty ''Transport''), Loaned (Ty ''z_loaned_transport_t'') (Ty ''Transport'')]"

definition z_link_decl :: "clause list" where
  "z_link_decl = [Owned_option (Ty ''z_owned_link_t'') (Ty ''Link''), Loaned (Ty ''z_loaned_link_t'') (Ty ''Link'')]"

definition z_transport_event_decl :: "clause list" where
  "z_transport_event_decl = [Owned_option (Ty ''z_owned_transport_event_t'') (Ty ''TransportEvent''), Loaned (Ty ''z_loaned_transport_event_t'') (Ty ''TransportEvent'')]"

definition z_link_event_decl :: "clause list" where
  "z_link_event_decl = [Owned_option (Ty ''z_owned_link_event_t'') (Ty ''LinkEvent''), Loaned (Ty ''z_loaned_link_event_t'') (Ty ''LinkEvent'')]"

definition z_transport_events_listener_decl :: "clause list" where
  "z_transport_events_listener_decl = [Owned_option (Ty ''z_owned_transport_events_listener_t'') (Ty ''TransportEventsListener<()>''), Loaned (Ty ''z_loaned_transport_events_listener_t'') (Ty ''TransportEventsListener<()>'')]"

definition z_link_events_listener_decl :: "clause list" where
  "z_link_events_listener_decl = [Owned_option (Ty ''z_owned_link_events_listener_t'') (Ty ''LinkEventsListener<()>''), Loaned (Ty ''z_loaned_link_events_listener_t'') (Ty ''LinkEventsListener<()>'')]"


text \<open>\<open>src/keyexpr.rs\<close>\<close>

definition z_keyexpr_decl :: "clause list" where
  "z_keyexpr_decl = [Owned (Ty ''z_owned_keyexpr_t'') (Ty ''KeyExpr<'static>''), Loaned_inner (Ty ''z_loaned_keyexpr_t''), View (Ty ''z_view_keyexpr_t'') (Ty ''KeyExpr<'static>'')]"


text \<open>\<open>src/liveliness.rs\<close>\<close>

definition z_liveliness_token_decl :: "clause list" where
  "z_liveliness_token_decl = [Owned_option (Ty ''z_owned_liveliness_token_t'') (Ty ''LivelinessToken''), Loaned_inner (Ty ''z_loaned_liveliness_token_t'')]"


text \<open>\<open>src/matching.rs\<close>\<close>

definition z_matching_listener_decl :: "clause list" where
  "z_matching_listener_decl = [Owned_option (Ty ''z_owned_matching_listener_t'') (Ty ''MatchingListener<()>'')]"


text \<open>\<open>src/publication_cache.rs\<close>\<close>

definition ze_publication_cache_decl :: "clause list" where
  "ze_publication_cache_decl = [Owned_option (Ty ''ze_owned_publication_cache_t'') (Ty ''zenoh_ext::PublicationCache''), Loaned_inner (Ty ''ze_loaned_publication_cache_t'')]"


text \<open>\<open>src/publisher.rs\<close>\<close>

definition z_publisher_decl :: "clause list" where
  "z_publisher_decl = [Owned_option (Ty ''z_owned_publisher_t'') (Ty ''Publisher<'static>''), Loaned_inner (Ty ''z_loaned_publisher_t'')]"


text \<open>\<open>src/querier.rs\<close>\<close>

definition z_querier_decl :: "clause list" where
  "z_querier_decl = [Owned_option (Ty ''z_owned_querier_t'') (Ty ''Querier<'static>''), Loaned_inner (Ty ''z_loaned_querier_t'')]"


text \<open>\<open>src/queryable.rs\<close>\<close>

definition z_queryable_decl :: "clause list" where
  "z_queryable_decl = [Owned_option (Ty ''z_owned_queryable_t'') (Ty ''Queryable<()>''), Loaned_inner (Ty ''z_loaned_queryable_t'')]"

definition z_query_decl :: "clause list" where
  "z_query_decl = [Owned_option (Ty ''z_owned_query_t'') (Ty ''Query''), Loaned_inner (Ty ''z_loaned_query_t'')]"


text \<open>\<open>src/querying_subscriber.rs\<close>\<close>

definition ze_querying_subscriber_decl :: "clause list" where
  "ze_querying_subscriber_decl = [Owned_option (Ty ''ze_owned_querying_subscriber_t'') (Ty ''(zenoh_ext::FetchingSubscriber<()>, &'static Session)''), Loaned_inner (Ty ''ze_loaned_querying_subscriber_t'')]"


text \<open>\<open>src/scouting.rs\<close>\<close>

definition z_hello_decl :: "clause list" where
  "z_hello_decl = [Owned_option (Ty ''z_owned_hello_t'') (Ty ''Hello''), Loaned_inner (Ty ''z_loaned_hello_t'')]"


text \<open>\<open>src/serialization.rs\<close>\<close>

definition ze_serializer_decl :: "clause list" where
  "ze_serializer_decl = [Owned_option (Ty ''ze_owned_serializer_t'') (Ty ''ZSerializer''), Loaned_inner (Ty ''ze_loaned_serializer_t'')]"

definition ze_deserializer_decl :: "clause list" where
  "ze_deserializer_decl = [Loaned (Ty ''ze_deserializer_t'') (Ty ''ZDeserializer<'static>'')]"


text \<open>\<open>src/session.rs\<close>\<close>

definition z_session_decl :: "clause list" where
  "z_session_decl = [Owned_option (Ty ''z_owned_session_t'') (Ty ''Session''), Loaned_inner (Ty ''z_loaned_session_t'')]"


text \<open>\<open>src/subscriber.rs\<close>\<close>

definition z_subscriber_decl :: "clause list" where
  "z_subscriber_decl = [Owned_option (Ty ''z_owned_subscriber_t'') (Ty ''Subscriber<()>''), Loaned_inner (Ty ''z_loaned_subscriber_t'')]"


text \<open>\<open>src/zbytes.rs\<close>\<close>

definition z_bytes_decl :: "clause list" where
  "z_bytes_decl = [Owned (Ty ''z_owned_bytes_t'') (Ty ''ZBytes''), Loaned_inner (Ty ''z_loaned_bytes_t'')]"

definition z_bytes_slice_iterator_decl :: "clause list" where
  "z_bytes_slice_iterator_decl = [Loaned (Ty ''z_bytes_slice_iterator_t'') (Ty ''ZBytesSliceIterator<'static>'')]"

definition z_bytes_reader_decl :: "clause list" where
  "z_bytes_reader_decl = [Loaned (Ty ''z_bytes_reader_t'') (Ty ''ZBytesReader<'static>'')]"

definition z_bytes_writer_decl :: "clause list" where
  "z_bytes_writer_decl = [Owned_option (Ty ''z_owned_bytes_writer_t'') (Ty ''ZBytesWriter''), Loaned_inner (Ty ''z_loaned_bytes_writer_t'')]"


text \<open>\<open>src/closures/hello_closure.rs\<close>\<close>

definition z_closure_hello_decl :: "clause list" where
  "z_closure_hello_decl = [Owned_c (Ty ''z_owned_closure_hello_t''), Loaned_inner (Ty ''z_loaned_closure_hello_t''), Moved (Ty ''z_moved_closure_hello_t'')]"


text \<open>\<open>src/closures/link_closure.rs\<close>\<close>

definition z_closure_link_decl :: "clause list" where
  "z_closure_link_decl = [Owned_c (Ty ''z_owned_closure_link_t''), Loaned_inner (Ty ''z_loaned_closure_link_t''), Moved (Ty ''z_moved_closure_link_t'')]"


text \<open>\<open>src/closures/link_event_closure.rs\<close>\<close>

definition z_closure_link_event_decl :: "clause list" where
  "z_closure_link_event_decl = [Owned_c (Ty ''z_owned_closure_link_event_t''), Loaned_inner (Ty ''z_loaned_closure_link_event_t''), Moved (Ty ''z_moved_closure_link_event_t'')]"


text \<open>\<open>src/closures/log_closure.rs\<close>\<close>

definition zc_closure_log_decl :: "clause list" where
  "zc_closure_log_decl = [Owned_c (Ty ''zc_owned_closure_log_t''), Loaned_inner (Ty ''zc_loaned_closure_log_t''), Moved (Ty ''zc_moved_closure_log_t'')]"


text \<open>\<open>src/closures/matching_status_closure.rs\<close>\<close>

definition z_closure_matching_status_decl :: "clause list" where
  "z_closure_matching_status_decl = [Owned_c (Ty ''z_owned_closure_matching_status_t''), Loaned_inner (Ty ''z_loaned_closure_matching_status_t''), Moved (Ty ''z_moved_closure_matching_status_t'')]"


text \<open>\<open>src/closures/miss_closure.rs\<close>\<close>

definition ze_closure_miss_decl :: "clause list" where
  "ze_closure_miss_decl = [Owned_c (Ty ''ze_owned_closure_miss_t''), Loaned_inner (Ty ''ze_loaned_closure_miss_t''), Moved (Ty ''ze_moved_closure_miss_t'')]"


text \<open>\<open>src/closures/query_channel.rs\<close>\<close>

definition z_fifo_handler_query_decl :: "clause list" where
  "z_fifo_handler_query_decl = [Owned_option (Ty ''z_owned_fifo_handler_query_t'') (Ty ''FifoChannelHandler<Query>''), Loaned_inner (Ty ''z_loaned_fifo_handler_query_t'')]"

definition z_ring_handler_query_decl :: "clause list" where
  "z_ring_handler_query_decl = [Owned_option (Ty ''z_owned_ring_handler_query_t'') (Ty ''RingChannelHandler<Query>''), Loaned_inner (Ty ''z_loaned_ring_handler_query_t'')]"


text \<open>\<open>src/closures/query_closure.rs\<close>\<close>

definition z_closure_query_decl :: "clause list" where
  "z_closure_query_decl = [Owned_c (Ty ''z_owned_closure_query_t''), Loaned_inner (Ty ''z_loaned_closure_query_t''), Moved (Ty ''z_moved_closure_query_t'')]"


text \<open>\<open>src/closures/reply_closure.rs\<close>\<close>

definition z_closure_reply_decl :: "clause list" where
  "z_closure_reply_decl = [Owned_c (Ty ''z_owned_closure_reply_t''), Loaned_inner (Ty ''z_loaned_closure_reply_t''), Moved (Ty ''z_moved_closure_reply_t'')]"


text \<open>\<open>src/closures/response_channel.rs\<close>\<close>

definition z_fifo_handler_reply_decl :: "clause list" where
  "z_fifo_handler_reply_decl = [Owned_option (Ty ''z_owned_fifo_handler_reply_t'') (Ty ''FifoChannelHandler<Reply>''), Loaned_inner (Ty ''z_loaned_fifo_handler_reply_t'')]"

definition z_ring_handler_reply_decl :: "clause list" where
  "z_ring_handler_reply_decl = [Owned_option (Ty ''z_owned_ring_handler_reply_t'') (Ty ''RingChannelHandler<Reply>''), Loaned_inner (Ty ''z_loaned_ring_handler_reply_t'')]"


text \<open>\<open>src/closures/sample_channel.rs\<close>\<close>

definition z_fifo_handler_sample_decl :: "clause list" where
  "z_fifo_handler_sample_decl = [Owned_option (Ty ''z_owned_fifo_handler_sample_t'') (Ty ''FifoChannelHandler<Sample>''), Loaned_inner (Ty ''z_loaned_fifo_handler_sample_t'')]"

definition z_ring_handler_sample_decl :: "clause list" where
  "z_ring_handler_sample_decl = [Owned_option (Ty ''z_owned_ring_handler_sample_t'') (Ty ''RingChannelHandler<Sample>''), Loaned_inner (Ty ''z_loaned_ring_handler_sample_t'')]"


text \<open>\<open>src/closures/sample_closure.rs\<close>\<close>

definition z_closure_sample_decl :: "clause list" where
  "z_closure_sample_decl = [Owned_c (Ty ''z_owned_closure_sample_t''), Loaned_inner (Ty ''z_loaned_closure_sample_t''), Moved (Ty ''z_moved_closure_sample_t'')]"


text \<open>\<open>src/closures/transport_closure.rs\<close>\<close>

definition z_closure_transport_decl :: "clause list" where
  "z_closure_transport_decl = [Owned_c (Ty ''z_owned_closure_transport_t''), Loaned_inner (Ty ''z_loaned_closure_transport_t''), Moved (Ty ''z_moved_closure_transport_t'')]"


text \<open>\<open>src/closures/transport_event_closure.rs\<close>\<close>

definition z_closure_transport_event_decl :: "clause list" where
  "z_closure_transport_event_decl = [Owned_c (Ty ''z_owned_closure_transport_event_t''), Loaned_inner (Ty ''z_loaned_closure_transport_event_t''), Moved (Ty ''z_moved_closure_transport_event_t'')]"


text \<open>\<open>src/closures/zenohid_closure.rs\<close>\<close>

definition z_closure_zid_decl :: "clause list" where
  "z_closure_zid_decl = [Owned_c (Ty ''z_owned_closure_zid_t''), Loaned_inner (Ty ''z_loaned_closure_zid_t''), Moved (Ty ''z_moved_closure_zid_t'')]"


text \<open>\<open>src/platform/synchronization.rs\<close>\<close>

definition z_mutex_decl :: "clause list" where
  "z_mutex_decl = [Owned_option (Ty ''z_owned_mutex_t'') (Ty ''(Mutex<()>, Option<MutexGuard<'static, ()>>)''), Loaned_inner (Ty ''z_loaned_mutex_t'')]"

definition z_condvar_decl :: "clause list" where
  "z_condvar_decl = [Owned_option (Ty ''z_owned_condvar_t'') (Ty ''Condvar''), Loaned_inner (Ty ''z_loaned_condvar_t'')]"

definition z_task_decl :: "clause list" where
  "z_task_decl = [Owned_option (Ty ''z_owned_task_t'') (Ty ''JoinHandle<()>'')]"


text \<open>\<open>src/shm/buffer/zshm.rs\<close>\<close>

definition z_shm_decl :: "clause list" where
  "z_shm_decl = [Owned_option (Ty ''z_owned_shm_t'') (Ty ''ZShm''), Loaned (Ty ''z_loaned_shm_t'') (Ty ''zshm'')]"


text \<open>\<open>src/shm/buffer/zshmmut.rs\<close>\<close>

definition z_shm_mut_decl :: "clause list" where
  "z_shm_mut_decl = [Owned_option (Ty ''z_owned_shm_mut_t'') (Ty ''ZShmMut''), Loaned (Ty ''z_loaned_shm_mut_t'') (Ty ''zshmmut'')]"


text \<open>\<open>src/shm/client/shm_client.rs\<close>\<close>

definition z_shm_client_decl :: "clause list" where
  "z_shm_client_decl = [Owned_option (Ty ''z_owned_shm_client_t'') (Ty ''Arc<dyn ShmClient>'')]"


text \<open>\<open>src/shm/client_storage/mod.rs\<close>\<close>

definition zc_shm_client_list_decl :: "clause list" where
  "zc_shm_client_list_decl = [Owned_option (Ty ''zc_owned_shm_client_list_t'') (Ty ''Vec<Arc<dyn ShmClient>>''), Loaned_inner (Ty ''zc_loaned_shm_client_list_t'')]"

definition z_shm_client_storage_decl :: "clause list" where
  "z_shm_client_storage_decl = [Owned_option (Ty ''z_owned_shm_client_storage_t'') (Ty ''Arc<ShmClientStorage>''), Loaned_inner (Ty ''z_loaned_shm_client_storage_t'')]"


text \<open>\<open>src/shm/provider/chunk.rs\<close>\<close>

definition z_ptr_in_segment_decl :: "clause list" where
  "z_ptr_in_segment_decl = [Owned_option (Ty ''z_owned_ptr_in_segment_t'') (Ty ''PtrInSegment''), Loaned_inner (Ty ''z_loaned_ptr_in_segment_t'')]"


text \<open>\<open>src/shm/provider/precomputed_layout.rs\<close>\<close>

definition z_precomputed_layout_decl :: "clause list" where
  "z_precomputed_layout_decl = [Owned_option (Ty ''z_owned_precomputed_layout_t'') (Ty ''CSHMLayout''), Loaned_inner (Ty ''z_loaned_precomputed_layout_t'')]"


text \<open>\<open>src/shm/provider/shared_shm_provider.rs\<close>\<close>

definition z_shared_shm_provider_decl :: "clause list" where
  "z_shared_shm_provider_decl = [Owned_option (Ty ''z_owned_shared_shm_provider_t'') (Ty ''SharedShmProvider''), Loaned_inner (Ty ''z_loaned_shared_shm_provider_t'')]"


text \<open>\<open>src/shm/provider/shm_provider.rs\<close>\<close>

definition z_shm_provider_decl :: "clause list" where
  "z_shm_provider_decl = [Owned_option (Ty ''z_owned_shm_provider_t'') (Ty ''CSHMProvider''), Loaned_inner (Ty ''z_loaned_shm_provider_t'')]"


text \<open>\<open>src/shm/provider/types.rs\<close>\<close>

definition z_alloc_alignment_decl :: "clause list" where
  "z_alloc_alignment_decl = [Copied (Ty ''z_alloc_alignment_t'') (Ty ''AllocAlignment'')]"

definition z_memory_layout_decl :: "clause list" where
  "z_memory_layout_decl = [Owned_option (Ty ''z_owned_memory_layout_t'') (Ty ''MemoryLayout''), Loaned_inner (Ty ''z_loaned_memory_layout_t'')]"

definition z_chunk_alloc_result_decl :: "clause list" where
  "z_chunk_alloc_result_decl = [Owned_option (Ty ''z_owned_chunk_alloc_result_t'') (Ty ''ChunkAllocResult'')]"

subsection \<open>All declarations\<close>

definition closure_declarations :: "clause list list" where
  "closure_declarations =
   [z_closure_hello_decl, z_closure_link_decl, z_closure_link_event_decl, zc_closure_log_decl,
    z_closure_matching_status_decl, ze_closure_miss_decl, z_closure_query_decl, z_closure_reply_decl,
    z_closure_sample_decl, z_closure_transport_decl, z_closure_transport_event_decl, z_closure_zid_decl]"

definition equal_declarations :: "clause list list" where
  "equal_declarations =
   [ze_advanced_publisher_decl, ze_advanced_subscriber_decl, ze_sample_miss_listener_decl, z_cancellation_token_decl,
    zc_concurrent_close_handle_decl, z_slice_decl, z_string_decl, z_string_array_decl, z_timestamp_decl,
    z_sample_decl, z_entity_global_id_decl, z_source_info_decl, z_config_decl, z_encoding_decl, z_reply_err_decl,
    z_reply_decl, z_id_decl, z_transport_decl, z_link_decl, z_transport_event_decl, z_link_event_decl,
    z_transport_events_listener_decl, z_link_events_listener_decl, z_keyexpr_decl, z_liveliness_token_decl,
    z_matching_listener_decl, ze_publication_cache_decl, z_publisher_decl, z_querier_decl, z_queryable_decl,
    z_query_decl, ze_querying_subscriber_decl, z_hello_decl, ze_serializer_decl, ze_deserializer_decl,
    z_session_decl, z_subscriber_decl, z_bytes_decl, z_bytes_slice_iterator_decl, z_bytes_reader_decl,
    z_bytes_writer_decl, z_fifo_handler_query_decl, z_ring_handler_query_decl, z_fifo_handler_reply_decl,
    z_ring_handler_reply_decl, z_fifo_handler_sample_decl, z_ring_handler_sample_decl, z_task_decl, z_shm_decl,
    z_shm_mut_decl, z_shm_client_decl, zc_shm_client_list_decl, z_shm_client_storage_decl, z_ptr_in_segment_decl,
    z_precomputed_layout_decl, z_shared_shm_provider_decl, z_shm_provider_decl, z_alloc_alignment_decl,
    z_chunk_alloc_result_decl]"

definition inequal_declarations :: "clause list list" where
  "inequal_declarations =
   [z_mutex_decl, z_condvar_decl, z_memory_layout_decl]"

lemmas declaration_defs =
  ze_advanced_publisher_decl_def
  ze_advanced_subscriber_decl_def
  ze_sample_miss_listener_decl_def
  z_cancellation_token_decl_def
  zc_concurrent_close_handle_decl_def
  z_slice_decl_def
  z_string_decl_def
  z_string_array_decl_def
  z_timestamp_decl_def
  z_sample_decl_def
  z_entity_global_id_decl_def
  z_source_info_decl_def
  z_config_decl_def
  z_encoding_decl_def
  z_reply_err_decl_def
  z_reply_decl_def
  z_id_decl_def
  z_transport_decl_def
  z_link_decl_def
  z_transport_event_decl_def
  z_link_event_decl_def
  z_transport_events_listener_decl_def
  z_link_events_listener_decl_def
  z_keyexpr_decl_def
  z_liveliness_token_decl_def
  z_matching_listener_decl_def
  ze_publication_cache_decl_def
  z_publisher_decl_def
  z_querier_decl_def
  z_queryable_decl_def
  z_query_decl_def
  ze_querying_subscriber_decl_def
  z_hello_decl_def
  ze_serializer_decl_def
  ze_deserializer_decl_def
  z_session_decl_def
  z_subscriber_decl_def
  z_bytes_decl_def
  z_bytes_slice_iterator_decl_def
  z_bytes_reader_decl_def
  z_bytes_writer_decl_def
  z_closure_hello_decl_def
  z_closure_link_decl_def
  z_closure_link_event_decl_def
  zc_closure_log_decl_def
  z_closure_matching_status_decl_def
  ze_closure_miss_decl_def
  z_fifo_handler_query_decl_def
  z_ring_handler_query_decl_def
  z_closure_query_decl_def
  z_closure_reply_decl_def
  z_fifo_handler_reply_decl_def
  z_ring_handler_reply_decl_def
  z_fifo_handler_sample_decl_def
  z_ring_handler_sample_decl_def
  z_closure_sample_decl_def
  z_closure_transport_decl_def
  z_closure_transport_event_decl_def
  z_closure_zid_decl_def
  z_mutex_decl_def
  z_condvar_decl_def
  z_task_decl_def
  z_shm_decl_def
  z_shm_mut_decl_def
  z_shm_client_decl_def
  zc_shm_client_list_decl_def
  z_shm_client_storage_decl_def
  z_ptr_in_segment_decl_def
  z_precomputed_layout_decl_def
  z_shared_shm_provider_decl_def
  z_shm_provider_decl_def
  z_alloc_alignment_decl_def
  z_memory_layout_decl_def
  z_chunk_alloc_result_decl_def

subsection \<open>The program as a whole\<close>

definition declarations :: "clause list list" where
  "declarations = closure_declarations @ equal_declarations @ inequal_declarations"

definition declared_types :: "clause list list \<Rightarrow> rust_type list" where
  "declared_types cls = concat (map reinterpreted (concat cls))"

text \<open>Every shape of declaration that has an arm.\<close>

lemma shapes_expand:
  "Ex (decl_c_type [Owned_option c r])"
  "Ex (decl_c_type [Owned c r])"
  "Ex (decl_c_type [Owned_option c r, Loaned lc lr])"
  "Ex (decl_c_type [Owned c r, Loaned lc lr])"
  "Ex (decl_c_type [Owned_option c r, Loaned_inner lc])"
  "Ex (decl_c_type [Owned c r, Loaned_inner lc])"
  "Ex (decl_c_type [Owned c r, Loaned_inner lc, View vc vr])"
  "Ex (decl_c_type [Owned c r, Loaned lc lr, View vc vr])"
  "Ex (decl_c_type [Owned_c c, Loaned_inner lc, Moved mc])"
  "Ex (decl_c_type [Copied c r])"
  "Ex (decl_c_type [Loaned lc lr])"
  "Ex (decl_c_type_inequal [Owned_option c r, Loaned_inner lc])"
  by (intro exI, (rule decl_c_type_inequal_decl_c_type.intros)+)+

lemma closure_expand: "\<forall>cl \<in> set closure_declarations. \<exists>items. decl_c_type cl items"
  unfolding closure_declarations_def declaration_defs list.set ball_simps by (intro conjI shapes_expand TrueI)

lemma equal_expand: "\<forall>cl \<in> set equal_declarations. \<exists>items. decl_c_type cl items"
  unfolding equal_declarations_def declaration_defs list.set ball_simps by (intro conjI shapes_expand TrueI)

lemma inequal_expand: "\<forall>cl \<in> set inequal_declarations. \<exists>items. decl_c_type_inequal cl items"
  unfolding inequal_declarations_def declaration_defs list.set ball_simps by (intro conjI shapes_expand TrueI)

subsection \<open>Properties\<close>

text \<open>C31: all conversions of the program are sound. Every declaration of the sources has an expansion; when
  every comparison in the expansions passes, every pointer cast and every \<open>transmute\<close> of every
  declaration, those of the mutex, the condition variable and the memory layout included, is between types of
  the same alignment and size, and for all others but these three the owned, loaned and view types agree.\<close>

theorem program_conversions_sound:
  assumes "maybe_uninit_transparent l"
    and "\<forall>cl \<in> set (closure_declarations @ equal_declarations). \<forall>items. decl_c_type cl items \<longrightarrow> compile_items l items = Inr ()"
    and "\<forall>cl \<in> set inequal_declarations. \<forall>items. decl_c_type_inequal cl items \<longrightarrow> compile_items l items = Inr ()"
  shows "(\<forall>cl \<in> set (closure_declarations @ equal_declarations). \<exists>items. decl_c_type cl items
      \<and> (\<forall>(tr, t, conv) \<in> set (impls items). sound_conversion l conv)
      \<and> (\<forall>a \<in> set (concat (map reinterpreted cl)). \<forall>b \<in> set (concat (map reinterpreted cl)). same_layout l a b))
    \<and> (\<forall>cl \<in> set inequal_declarations. \<exists>items. decl_c_type_inequal cl items
      \<and> (\<forall>(tr, t, conv) \<in> set (impls items). sound_conversion l conv))"
proof (intro conjI ballI)
  fix cl assume cl: "cl \<in> set (closure_declarations @ equal_declarations)"
  then obtain items where i: "decl_c_type cl items" using closure_expand equal_expand by fastforce
  then have c: "compile_items l items = Inr ()" using assms(2) cl by blast
  show "\<exists>items. decl_c_type cl items \<and> (\<forall>(tr, t, conv) \<in> set (impls items). sound_conversion l conv)
      \<and> (\<forall>a \<in> set (concat (map reinterpreted cl)). \<forall>b \<in> set (concat (map reinterpreted cl)). same_layout l a b)"
    using i expansions_sound(2) [OF assms(1) i] reinterpreted_types [OF i c] c unfolding sound_items_def by blast
next
  fix cl assume cl: "cl \<in> set inequal_declarations"
  then obtain items where i: "decl_c_type_inequal cl items" using inequal_expand by blast
  then have c: "compile_items l items = Inr ()" using assms(3) cl by blast
  show "\<exists>items. decl_c_type_inequal cl items \<and> (\<forall>(tr, t, conv) \<in> set (impls items). sound_conversion l conv)"
    using i expansions_sound(1) [OF assms(1) i] c unfolding sound_items_def by blast
qed

lemma demo_layout_compiles: "compile_items demo_layout items = Inr ()"
proof (induction items)
  case (Cons x items)
  then show ?case by (cases x) (simp_all add: demo_layout_def same_layout_def)
qed simp

theorem program_conversions_sound_witness:
  "\<exists>items. decl_c_type z_keyexpr_decl items \<and> list_all (\<lambda>(tr, t, conv). sound_conversion demo_layout conv) (impls items)"
proof -
  have "z_keyexpr_decl \<in> set (closure_declarations @ equal_declarations)" unfolding equal_declarations_def by simp
  moreover have "maybe_uninit_transparent demo_layout" by (simp add: maybe_uninit_transparent_def demo_layout_def same_layout_def)
  ultimately show ?thesis using program_conversions_sound [of demo_layout] demo_layout_compiles
    unfolding list_all_iff by blast
qed

end
