(* ===== verification/OpaqueCrate.thy ===== *)
theory OpaqueCrate
  imports OpaqueTypes Declarations
begin

text \<open>
  \<open>build-resources/opaque-types/src/lib.rs\<close>: the crate whose compilation reports the layout of every type
  that C sees as opaque bytes. Each of its 112 invocations of \<open>get_opaque_type_data!\<close> is a row of a
  table: the features it needs, whether the invocation is written on four lines, the Rust type, the C name, and
  the documentation above it, less the three slashes. The types with which the crate stands in for the types of
  shared memory are in theory \<open>StandIns\<close>.

  The properties: every C type the declarations of theory \<open>Declarations\<close> speak of is a row, apart from the
  closures and \<open>z_alloc_alignment_t\<close>, which are C structures, and there are no other rows; and the
  generator of theory \<open>OpaqueTypes\<close> returns on what this crate reports.
\<close>

subsection \<open>Rows\<close>

record opaque_declaration =
  od_features :: "string list"
  od_multiline :: bool
  od_type :: string
  od_name :: string
  od_docs :: "string list"

definition opaque :: "string list \<Rightarrow> bool \<Rightarrow> string \<Rightarrow> string \<Rightarrow> string list \<Rightarrow> opaque_declaration" where
  "opaque features multiline src_type name docs =
     \<lparr>od_features = features, od_multiline = multiline, od_type = src_type, od_name = name, od_docs = docs\<rparr>"

lemma opaque_simps [simp]:
  "od_features (opaque f m t n d) = f" "od_multiline (opaque f m t n d) = m" "od_type (opaque f m t n d) = t"
  "od_name (opaque f m t n d) = n" "od_docs (opaque f m t n d) = d"
  by (simp_all add: opaque_def)

text \<open>The message \<open>get_opaque_type_data!\<close> panics with, for the alignment and the size in decimal.\<close>

definition get_opaque_type_data :: "string \<Rightarrow> rstr \<Rightarrow> rstr \<Rightarrow> rstr" where
  "get_opaque_type_data name align sz = lit ''type: '' @ lit name @ lit '', align: '' @ align @ lit '', size: '' @ sz"

subsection \<open>The table\<close>

definition opaque_declarations_1 :: "opaque_declaration list" where
  "opaque_declarations_1 = [
    opaque [] False ''ZBytes'' ''z_owned_bytes_t''
      ['' A Zenoh data.'',
       '''',
       '' To minimize copies and reallocations, Zenoh may provide data in several separate buffers.''],
    opaque [] False ''ZBytes'' ''z_loaned_bytes_t''
      ['' A loaned Zenoh data.''],
    opaque [] False ''CSlice'' ''z_owned_slice_t''
      [],
    opaque [] False ''CSlice'' ''z_view_slice_t''
      ['' A contiguous sequence of bytes owned by some other entity.''],
    opaque [] False ''CSlice'' ''z_loaned_slice_t''
      ['' A loaned sequence of bytes.''],
    opaque [] False ''CSlice'' ''z_owned_string_t''
      ['' The wrapper type for strings allocated by Zenoh.''],
    opaque [] False ''CSlice'' ''z_view_string_t''
      ['' The view over a string.''],
    opaque [] False ''CSlice'' ''z_loaned_string_t''
      ['' A loaned string.''],
    opaque [] False ''Vec<CSlice>'' ''z_owned_string_array_t''
      ['' An array of maybe-owned non-null terminated strings.'',
       ''''],
    opaque [] False ''Vec<CSlice>'' ''z_loaned_string_array_t''
      ['' A loaned string array.''],
    opaque [] False ''Option<Sample>'' ''z_owned_sample_t''
      ['' An owned Zenoh sample.'',
       '''',
       '' This is a read only type that can only be constructed by cloning a `z_loaned_sample_t`.'',
       '' Like all owned types, it should be freed using z_drop or z_sample_drop.''],
    opaque [] False ''Sample'' ''z_loaned_sample_t''
      ['' A loaned Zenoh sample.''],
    opaque [] False ''ZBytesReader<'static>'' ''z_bytes_reader_t''
      ['' A reader for payload.''],
    opaque [] False ''Option<ZBytesWriter>'' ''z_owned_bytes_writer_t''
      ['' An owned writer for payload.''],
    opaque [] False ''ZBytesWriter'' ''z_loaned_bytes_writer_t''
      ['' An loaned writer for payload.''],
    opaque [] False ''ZBytesSliceIterator<'static>'' ''z_bytes_slice_iterator_t''
      ['' An iterator over slices of serialized data.''],
    opaque [] False ''Encoding'' ''z_owned_encoding_t''
      ['' The <a href=\"https://zenoh.io/docs/manual/abstractions/#encoding\"> encoding </a> of Zenoh data.''],
    opaque [] False ''Encoding'' ''z_loaned_encoding_t''
      ['' A loaned Zenoh encoding.''],
    opaque [] False ''Option<Reply>'' ''z_owned_reply_t''
      ['' An owned reply from a Queryable to a `z_get()`.''],
    opaque [] False ''Reply'' ''z_loaned_reply_t''
      ['' A loaned reply.''],
    opaque [] False ''ReplyError'' ''z_owned_reply_err_t''
      ['' A Zenoh reply error - a combination of reply error payload and its encoding.''],
    opaque [] False ''ReplyError'' ''z_loaned_reply_err_t''
      ['' A loaned Zenoh reply error.''],
    opaque [] False ''Option<Query>'' ''z_owned_query_t''
      ['' An owned Zenoh query received by a queryable.'',
       '''',
       '' Queries are atomically reference-counted, letting you extract them from the callback that handed them to you by cloning.''],
    opaque [] False ''Query'' ''z_loaned_query_t''
      ['' A loaned Zenoh query.''],
    opaque [] False ''Option<Queryable<()>>'' ''z_owned_queryable_t''
      ['' An owned Zenoh <a href=\"https://zenoh.io/docs/manual/abstractions/#queryable\"> queryable </a>.'',
       '''',
       '' Responds to queries sent via `z_get()` with intersecting key expression.''],
    opaque [] False ''Queryable<()>'' ''z_loaned_queryable_t''
      ['' A loaned Zenoh queryable.''],
    opaque [] False ''Option<Querier>'' ''z_owned_querier_t''
      ['' An owned Zenoh querier.'',
       '''',
       '' Sends queries to matching queryables.''],
    opaque [] False ''Querier'' ''z_loaned_querier_t''
      ['' A loaned Zenoh queryable.''],
    opaque [''unstable''] True ''Option<(zenoh_ext::FetchingSubscriber<()>, &'static Session)>'' ''ze_owned_querying_subscriber_t''
      ['' @warning This API has been marked as unstable: it works as advertised, but it may be changed in a future release.'',
       '' @brief An owned Zenoh querying subscriber.'',
       '''',
       '' In addition to receiving the data it is subscribed to,'',
       '' it also will fetch data from a Queryable at startup and peridodically (using  `ze_querying_subscriber_get()`).''],
    opaque [''unstable''] True ''(zenoh_ext::FetchingSubscriber<()>, &'static Session)'' ''ze_loaned_querying_subscriber_t''
      ['' @warning This API has been marked as unstable: it works as advertised, but it may be changed in a future release.'',
       '' @brief A loaned Zenoh querying subscriber.''],
    opaque [''unstable''] True ''Option<zenoh_ext::AdvancedSubscriber<()>>'' ''ze_owned_advanced_subscriber_t''
      ['' @warning This API has been marked as unstable: it works as advertised, but it may be changed in a future release.'',
       '' @brief An owned Zenoh advanced subscriber.'',
       '''',
       '' In addition to receiving the data it is subscribed to,'',
       '' it is also able to receive notifications regarding missed samples and/or automatically recover them.''],
    opaque [''unstable''] True ''zenoh_ext::AdvancedSubscriber<()>'' ''ze_loaned_advanced_subscriber_t''
      ['' @warning This API has been marked as unstable: it works as advertised, but it may be changed in a future release.'',
       '' @brief A loaned Zenoh advanced subscriber.''],
    opaque [''unstable''] True ''Option<zenoh_ext::SampleMissListener<()>>'' ''ze_owned_sample_miss_listener_t''
      ['' @warning This API has been marked as unstable: it works as advertised, but it may be changed in a future release.'',
       '' @brief An owned Zenoh sample miss listener. Missed samples can only be detected from advanced publishers, enabling sample miss detection.'',
       '''',
       '' A listener that sends notification when the advanced subscriber misses a sample .'',
       '' Dropping the corresponding subscriber, also drops the listener.'']]"

definition opaque_declarations_2 :: "opaque_declaration list" where
  "opaque_declarations_2 = [
    opaque [''unstable''] True ''Option<zenoh_ext::AdvancedPublisher<'static>>'' ''ze_owned_advanced_publisher_t''
      ['' @warning This API has been marked as unstable: it works as advertised, but it may be changed in a future release.'',
       '' @brief An owned Zenoh advanced publisher.'',
       '''',
       '' In addition to publishing the data,'',
       '' it also maintains the storage, allowing matching subscribers to retrive missed samples.''],
    opaque [''unstable''] True ''zenoh_ext::AdvancedPublisher<'static>'' ''ze_loaned_advanced_publisher_t''
      ['' @warning This API has been marked as unstable: it works as advertised, but it may be changed in a future release.'',
       '' @brief A loaned Zenoh advanced publisher.''],
    opaque [] False ''Option<KeyExpr<'static>>'' ''z_owned_keyexpr_t''
      ['' A Zenoh-allocated <a href=\"https://zenoh.io/docs/manual/abstractions/#key-expression\"> key expression </a>.'',
       '''',
       '' Key expressions can identify a single key or a set of keys.'',
       '''',
       '' Examples :'',
       ''    - ``\"key/expression\"``.'',
       ''    - ``\"key/ex*\"``.'',
       '''',
       '' Key expressions can be mapped to numerical ids through `z_declare_keyexpr`'',
       '' for wire and computation efficiency.'',
       '''',
       '' Internally key expressiobn can be either:'',
       ''   - A plain string expression.'',
       ''   - A pure numerical id.'',
       ''   - The combination of a numerical prefix and a string suffix.''],
    opaque [] False ''Option<KeyExpr<'static>>'' ''z_view_keyexpr_t''
      ['' A user allocated string, viewed as a key expression.''],
    opaque [] False ''KeyExpr<'static>'' ''z_loaned_keyexpr_t''
      ['' A loaned key expression.'',
       '''',
       '' Key expressions can identify a single key or a set of keys.'',
       '''',
       '' Examples :'',
       ''    - ``\"key/expression\"``.'',
       ''    - ``\"key/ex*\"``.'',
       '''',
       '' Using `z_declare_keyexpr` allows Zenoh to optimize a key expression,'',
       '' both for local processing and network-wise.''],
    opaque [] False ''Option<Session>'' ''z_owned_session_t''
      ['' An owned Zenoh session.''],
    opaque [] False ''Session'' ''z_loaned_session_t''
      ['' A loaned Zenoh session.''],
    opaque [''unstable''] True ''Option<NolocalJoinHandle<zenoh::Result<()>>>'' ''zc_owned_concurrent_close_handle_t''
      ['' An owned Close handle''],
    opaque [] False ''Option<Config>'' ''z_owned_config_t''
      ['' An owned Zenoh configuration.''],
    opaque [] False ''Config'' ''z_loaned_config_t''
      ['' A loaned Zenoh configuration.''],
    opaque [] False ''ZenohId'' ''z_id_t''
      ['' @brief A Zenoh ID.'',
       '''',
       '' In general, valid Zenoh IDs are LSB-first 128bit unsigned and non-zero integers.''],
    opaque [] False ''Timestamp'' ''z_timestamp_t''
      ['' A Zenoh <a href=\"https://zenoh.io/docs/manual/abstractions/#timestamp\"> timestamp </a>.'',
       '''',
       '' It consists of a time generated by a Hybrid Logical Clock (HLC) in NPT64 format and a unique zenoh identifier.''],
    opaque [] False ''Option<Publisher<'static>>'' ''z_owned_publisher_t''
      ['' An owned Zenoh <a href=\"https://zenoh.io/docs/manual/abstractions/#publisher\"> publisher </a>.''],
    opaque [] False ''Publisher<'static>'' ''z_loaned_publisher_t''
      ['' A loaned Zenoh publisher.''],
    opaque [] False ''Option<MatchingListener<()>>'' ''z_owned_matching_listener_t''
      ['' @brief An owned Zenoh matching listener.'',
       '''',
       '' A listener that sends notifications when the [`MatchingStatus`] of a publisher or querier changes.'',
       '' Dropping the corresponding publisher, also drops matching listener.''],
    opaque [] False ''Option<Subscriber<()>>'' ''z_owned_subscriber_t''
      ['' An owned Zenoh <a href=\"https://zenoh.io/docs/manual/abstractions/#subscriber\"> subscriber </a>.'',
       '''',
       '' Receives data from publication on intersecting key expressions.'',
       '' Destroying the subscriber cancels the subscription.''],
    opaque [] False ''Subscriber<()>'' ''z_loaned_subscriber_t''
      ['' A loaned Zenoh subscriber.''],
    opaque [] False ''Option<LivelinessToken>'' ''z_owned_liveliness_token_t''
      ['' @brief A liveliness token that can be used to provide the network with information about connectivity to its'',
       '' declarer: when constructed, a PUT sample will be received by liveliness subscribers on intersecting key'',
       '' expressions.'',
       '''',
       '' A DELETE on the token's key expression will be received by subscribers if the token is destroyed, or if connectivity between the subscriber and the token's creator is lost.''],
    opaque [] False ''LivelinessToken'' ''z_loaned_liveliness_token_t''
      ['' @brief A loaned liveliness token.''],
    opaque [''unstable''] False ''Option<Transport>'' ''z_owned_transport_t''
      ['' @brief A Transport structure returned by Zenoh connectivity API.'',
       '''',
       '' Represents a remote zenoh node connected to this node. Only one transport per remote node exists.'',
       '' Each transport can have multiple corresponding `z_owned_link_t` which represent'',
       '' actual established data links with various protocols.''],
    opaque [''unstable''] False ''Transport'' ''z_loaned_transport_t''
      ['' @brief A loaned Transport structure.''],
    opaque [''unstable''] False ''Option<Link>'' ''z_owned_link_t''
      ['' @brief A Zenoh link structure returned by Zenoh connectivity API.'',
       '''',
       '' Represents an actual data link with a remote zenoh node over a specific protocol.''],
    opaque [''unstable''] False ''Link'' ''z_loaned_link_t''
      ['' @brief A loaned Link structure.''],
    opaque [''unstable''] False ''Option<TransportEvent>'' ''z_owned_transport_event_t''
      ['' @brief The event notifyting about addition or removal of a transport `z_owned_transport_t`'',
       '''',
       '' Used in Zenoh connectivity API to notify about connecting or disconnecting to remote zenoh nodes.''],
    opaque [''unstable''] False ''TransportEvent'' ''z_loaned_transport_event_t''
      ['' @brief A loaned TransportEvent structure.''],
    opaque [''unstable''] False ''Option<LinkEvent>'' ''z_owned_link_event_t''
      ['' @brief The event notifyting about addition or removal of a link `z_owned_link_t`'',
       '''',
       '' Used in Zenoh connectivity API to notify about establishment or break of data links with remote zenoh nodes.''],
    opaque [''unstable''] False ''LinkEvent'' ''z_loaned_link_event_t''
      ['' @brief A loaned LinkEvent structure.'']]"

definition opaque_declarations_3 :: "opaque_declaration list" where
  "opaque_declarations_3 = [
    opaque [''unstable''] True ''Option<TransportEventsListener<()>>'' ''z_owned_transport_events_listener_t''
      ['' @brief A listener for transport events.'',
       '''',
       '' Used in Zenoh connectivity API to get notified about connecting or disconnecting to remote zenoh nodes.''],
    opaque [''unstable''] True ''TransportEventsListener<()>'' ''z_loaned_transport_events_listener_t''
      ['' @brief A loaned TransportEventsListener structure.''],
    opaque [''unstable''] True ''Option<LinkEventsListener<()>>'' ''z_owned_link_events_listener_t''
      ['' @brief A listener for link events.'',
       '''',
       '' Used in Zenoh connectivity API to get notified about establishment or break of data links with remote zenoh nodes.''],
    opaque [''unstable''] False ''LinkEventsListener<()>'' ''z_loaned_link_events_listener_t''
      ['' @brief A loaned LinkEventsListener structure.''],
    opaque [''unstable''] True ''Option<zenoh_ext::PublicationCache>'' ''ze_owned_publication_cache_t''
      ['' @warning This API has been marked as unstable: it works as advertised, but it may be changed in a future release.'',
       '' @brief An owned Zenoh publication cache.'',
       '''',
       '' Used to store publications on intersecting key expressions. Can be queried later via `z_get()` to retrieve this data'',
       '' (for example by `ze_owned_querying_subscriber_t`).''],
    opaque [''unstable''] False ''zenoh_ext::PublicationCache'' ''ze_loaned_publication_cache_t''
      ['' @warning This API has been marked as unstable: it works as advertised, but it may be changed in a future release.'',
       '' @brief A loaned Zenoh publication cache.''],
    opaque [] True ''Option<(Mutex<()>, Option<MutexGuard<'static, ()>>)>'' ''z_owned_mutex_t''
      ['' An owned mutex.''],
    opaque [] True ''(Mutex<()>, Option<MutexGuard<'static, ()>>)'' ''z_loaned_mutex_t''
      ['' A loaned mutex.''],
    opaque [] False ''Option<Condvar>'' ''z_owned_condvar_t''
      ['' An owned conditional variable.'',
       '''',
       '' Used in combination with `z_owned_mutex_t` to wake up thread when certain conditions are met.''],
    opaque [] False ''Condvar'' ''z_loaned_condvar_t''
      ['' A loaned conditional variable.''],
    opaque [] False ''Option<JoinHandle<()>>'' ''z_owned_task_t''
      ['' An owned Zenoh task.''],
    opaque [] False ''Option<Hello>'' ''z_owned_hello_t''
      ['' An owned Zenoh-allocated hello message returned by a Zenoh entity to a scout message sent with `z_scout()`.''],
    opaque [] False ''Hello'' ''z_loaned_hello_t''
      ['' A loaned hello message.''],
    opaque [''shared-memory'', ''unstable''] False ''Option<Arc<dyn ShmClient>>'' ''z_owned_shm_client_t''
      ['' @warning This API has been marked as unstable: it works as advertised, but it may be changed in a future release.'',
       '' @brief An owned SHM Client.''],
    opaque [''shared-memory'', ''unstable''] False ''Option<Vec<Arc<dyn ShmClient>>>'' ''zc_owned_shm_client_list_t''
      ['' @warning This API has been marked as unstable: it works as advertised, but it may be changed in a future release.'',
       '' @brief An owned list of SHM Clients.''],
    opaque [''shared-memory'', ''unstable''] False ''Vec<Arc<dyn ShmClient>>'' ''zc_loaned_shm_client_list_t''
      ['' @warning This API has been marked as unstable: it works as advertised, but it may be changed in a future release.'',
       '' @brief A loaned list of SHM Clients.''],
    opaque [''shared-memory'', ''unstable''] False ''Option<Arc<ShmClientStorage>>'' ''z_owned_shm_client_storage_t''
      ['' @warning This API has been marked as unstable: it works as advertised, but it may be changed in a future release.'',
       '' @brief An owned SHM Client Storage''],
    opaque [''shared-memory'', ''unstable''] False ''Arc<ShmClientStorage>'' ''z_loaned_shm_client_storage_t''
      ['' A loaned SHM Client Storage.''],
    opaque [''shared-memory'', ''unstable''] False ''Option<MemoryLayout>'' ''z_owned_memory_layout_t''
      ['' @warning This API has been marked as unstable: it works as advertised, but it may be changed in a future release.'',
       '' @brief An owned MemoryLayout.''],
    opaque [''shared-memory'', ''unstable''] False ''MemoryLayout'' ''z_loaned_memory_layout_t''
      ['' @warning This API has been marked as unstable: it works as advertised, but it may be changed in a future release.'',
       '' @brief A loaned MemoryLayout.''],
    opaque [''shared-memory'', ''unstable''] False ''Option<ChunkAllocResult>'' ''z_owned_chunk_alloc_result_t''
      ['' @warning This API has been marked as unstable: it works as advertised, but it may be changed in a future release.'',
       '' @brief An owned ChunkAllocResult.''],
    opaque [''shared-memory'', ''unstable''] False ''Option<ZShm>'' ''z_owned_shm_t''
      ['' @warning This API has been marked as unstable: it works as advertised, but it may be changed in a future release.'',
       '' @brief An owned ZShm slice.''],
    opaque [''shared-memory'', ''unstable''] False ''zshm'' ''z_loaned_shm_t''
      ['' @warning This API has been marked as unstable: it works as advertised, but it may be changed in a future release.'',
       '' @brief A loaned ZShm slice.''],
    opaque [''shared-memory'', ''unstable''] False ''Option<ZShmMut>'' ''z_owned_shm_mut_t''
      ['' @warning This API has been marked as unstable: it works as advertised, but it may be changed in a future release.'',
       '' @brief An owned ZShmMut slice.''],
    opaque [''shared-memory'', ''unstable''] False ''zshmmut'' ''z_loaned_shm_mut_t''
      ['' @warning This API has been marked as unstable: it works as advertised, but it may be changed in a future release.'',
       '' @brief A loaned ZShmMut slice.'']]"

definition opaque_declarations_4 :: "opaque_declaration list" where
  "opaque_declarations_4 = [
    opaque [''shared-memory'', ''unstable''] False ''Option<CDummySHMProvider>'' ''z_owned_shm_provider_t''
      ['' @warning This API has been marked as unstable: it works as advertised, but it may be changed in a future release.'',
       '' @brief An owned ShmProvider.''],
    opaque [''shared-memory'', ''unstable''] False ''CDummySHMProvider'' ''z_loaned_shm_provider_t''
      ['' @warning This API has been marked as unstable: it works as advertised, but it may be changed in a future release.'',
       '' @brief A loaned ShmProvider.''],
    opaque [''shared-memory'', ''unstable''] True ''Option<DummySharedShmProvider>'' ''z_owned_shared_shm_provider_t''
      ['' @warning This API has been marked as unstable: it works as advertised, but it may be changed in a future release.'',
       '' @brief An owned shared ShmProvider.''],
    opaque [''shared-memory'', ''unstable''] False ''DummySharedShmProvider'' ''z_loaned_shared_shm_provider_t''
      ['' @warning This API has been marked as unstable: it works as advertised, but it may be changed in a future release.'',
       '' @brief A loaned shared ShmProvider.''],
    opaque [''shared-memory'', ''unstable''] False ''Option<CSHMLayout>'' ''z_owned_precomputed_layout_t''
      ['' @warning This API has been marked as unstable: it works as advertised, but it may be changed in a future release.'',
       '' @brief An owned ShmProvider's PrecomputedLayout.''],
    opaque [''shared-memory'', ''unstable''] False ''CSHMLayout'' ''z_loaned_precomputed_layout_t''
      ['' @warning This API has been marked as unstable: it works as advertised, but it may be changed in a future release.'',
       '' @brief A loaned ShmProvider's PrecomputedLayout.''],
    opaque [''shared-memory'', ''unstable''] False ''Option<PtrInSegment>'' ''z_owned_ptr_in_segment_t''
      ['' @warning This API has been marked as unstable: it works as advertised, but it may be changed in a future release.'',
       '' @brief A pointer in SHM Segment.''],
    opaque [''shared-memory'', ''unstable''] False ''PtrInSegment'' ''z_loaned_ptr_in_segment_t''
      ['' @warning This API has been marked as unstable: it works as advertised, but it may be changed in a future release.'',
       '' @brief A loaned pointer in SHM Segment.''],
    opaque [] True ''Option<FifoChannelHandler<Sample>>'' ''z_owned_fifo_handler_sample_t''
      ['' An owned Zenoh fifo sample handler.''],
    opaque [] False ''FifoChannelHandler<Sample>'' ''z_loaned_fifo_handler_sample_t''
      ['' An loaned Zenoh fifo sample handler.''],
    opaque [] True ''Option<RingChannelHandler<Sample>>'' ''z_owned_ring_handler_sample_t''
      ['' An owned Zenoh ring sample handler.''],
    opaque [] False ''RingChannelHandler<Sample>'' ''z_loaned_ring_handler_sample_t''
      ['' An loaned Zenoh ring sample handler.''],
    opaque [] True ''Option<FifoChannelHandler<Query>>'' ''z_owned_fifo_handler_query_t''
      ['' An owned Zenoh fifo query handler.''],
    opaque [] False ''FifoChannelHandler<Query>'' ''z_loaned_fifo_handler_query_t''
      ['' An loaned Zenoh fifo query handler.''],
    opaque [] True ''Option<RingChannelHandler<Query>>'' ''z_owned_ring_handler_query_t''
      ['' An owned Zenoh ring query handler.''],
    opaque [] False ''RingChannelHandler<Query>'' ''z_loaned_ring_handler_query_t''
      ['' An loaned Zenoh ring query handler.''],
    opaque [] True ''Option<FifoChannelHandler<Reply>>'' ''z_owned_fifo_handler_reply_t''
      ['' An owned Zenoh fifo reply handler.''],
    opaque [] False ''FifoChannelHandler<Reply>'' ''z_loaned_fifo_handler_reply_t''
      ['' An loaned Zenoh fifo reply handler.''],
    opaque [] True ''Option<RingChannelHandler<Reply>>'' ''z_owned_ring_handler_reply_t''
      ['' An owned Zenoh ring reply handler.''],
    opaque [] False ''RingChannelHandler<Reply>'' ''z_loaned_ring_handler_reply_t''
      ['' An loaned Zenoh ring reply handler.''],
    opaque [''unstable''] False ''SourceInfo'' ''z_source_info_t''
      ['' @warning This API has been marked as unstable: it works as advertised, but it may be changed in a future release.'',
       '' @brief A source info.''],
    opaque [''unstable''] False ''EntityGlobalId'' ''z_entity_global_id_t''
      ['' @warning This API has been marked as unstable: it works as advertised, but it may be changed in a future release.'',
       '' @brief An entity gloabal id.''],
    opaque [] False ''Option<zenoh_ext::ZSerializer>'' ''ze_owned_serializer_t''
      ['' @brief An owned Zenoh serializer.''],
    opaque [] False ''zenoh_ext::ZSerializer'' ''ze_loaned_serializer_t''
      ['' @brief A loaned Zenoh serializer.''],
    opaque [] False ''zenoh_ext::ZDeserializer<'static>'' ''ze_deserializer_t''
      ['' @brief A Zenoh serializer.''],
    opaque [''unstable''] False ''Option<CancellationToken>'' ''z_owned_cancellation_token_t''
      ['' @warning This API has been marked as unstable: it works as advertised, but it may be changed in a future release.'',
       '' @brief An owned cancellation token, which can be used to interrupt GET queries.''],
    opaque [''unstable''] False ''CancellationToken'' ''z_loaned_cancellation_token_t''
      ['' @warning This API has been marked as unstable: it works as advertised, but it may be changed in a future release.'',
       '' @brief A loaned cancellation token, which can be used to interrupt GET queries.'']]"

definition opaque_declarations :: "opaque_declaration list" where
  "opaque_declarations = opaque_declarations_1 @ opaque_declarations_2 @ opaque_declarations_3 @ opaque_declarations_4"

lemmas opaque_table =
  opaque_declarations_def opaque_declarations_1_def opaque_declarations_2_def opaque_declarations_3_def opaque_declarations_4_def

definition c_name :: "rust_type \<Rightarrow> string" where
  "c_name t = (case t of Ty s \<Rightarrow> s | _ \<Rightarrow> [])"

definition opaque_names :: "string list" where
  "opaque_names = map od_name opaque_declarations"

text \<open>The C types of the declarations that are not closures.\<close>

definition opaque_declared :: "string list" where
  "opaque_declared = map c_name (declared_types (equal_declarations @ inequal_declarations))"

lemmas opaque_declared_eval =
  opaque_declared_def declared_types_def equal_declarations_def inequal_declarations_def declaration_defs c_name_def

text \<open>Where each row's type is declared: positions in \<open>opaque_declared\<close>.\<close>

definition declared_at :: "nat list" where
  "declared_at =
   [69, 70, 8, 10, 9, 11, 13, 12, 14, 15, 17, 18, 72, 73, 74, 71, 23, 24, 27, 28, 25, 26, 56, 57, 54, 55, 52, 53, 58,
    59, 2, 3, 4, 0, 1, 42, 44, 43, 65, 66, 7, 21, 22, 29, 16, 50, 51, 47, 67, 68, 45, 46, 30, 31, 32, 33, 34, 35, 36,
    37, 38, 39, 40, 41, 48, 49, 107, 108, 109, 110, 87, 60, 61, 92, 93, 94, 95, 96, 111, 112, 106, 88, 89, 90, 91,
    103, 104, 101, 102, 99, 100, 97, 98, 83, 84, 85, 86, 75, 76, 77, 78, 79, 80, 81, 82, 20, 19, 62, 63, 64, 5, 6]"

lemma opaque_names_eval: "opaque_names =
   [''z_owned_bytes_t'', ''z_loaned_bytes_t'', ''z_owned_slice_t'', ''z_view_slice_t'', ''z_loaned_slice_t'',
    ''z_owned_string_t'', ''z_view_string_t'', ''z_loaned_string_t'', ''z_owned_string_array_t'',
    ''z_loaned_string_array_t'', ''z_owned_sample_t'', ''z_loaned_sample_t'', ''z_bytes_reader_t'',
    ''z_owned_bytes_writer_t'', ''z_loaned_bytes_writer_t'', ''z_bytes_slice_iterator_t'', ''z_owned_encoding_t'',
    ''z_loaned_encoding_t'', ''z_owned_reply_t'', ''z_loaned_reply_t'', ''z_owned_reply_err_t'',
    ''z_loaned_reply_err_t'', ''z_owned_query_t'', ''z_loaned_query_t'', ''z_owned_queryable_t'',
    ''z_loaned_queryable_t'', ''z_owned_querier_t'', ''z_loaned_querier_t'', ''ze_owned_querying_subscriber_t'',
    ''ze_loaned_querying_subscriber_t'', ''ze_owned_advanced_subscriber_t'', ''ze_loaned_advanced_subscriber_t'',
    ''ze_owned_sample_miss_listener_t'', ''ze_owned_advanced_publisher_t'', ''ze_loaned_advanced_publisher_t'',
    ''z_owned_keyexpr_t'', ''z_view_keyexpr_t'', ''z_loaned_keyexpr_t'', ''z_owned_session_t'',
    ''z_loaned_session_t'', ''zc_owned_concurrent_close_handle_t'', ''z_owned_config_t'', ''z_loaned_config_t'',
    ''z_id_t'', ''z_timestamp_t'', ''z_owned_publisher_t'', ''z_loaned_publisher_t'',
    ''z_owned_matching_listener_t'', ''z_owned_subscriber_t'', ''z_loaned_subscriber_t'',
    ''z_owned_liveliness_token_t'', ''z_loaned_liveliness_token_t'', ''z_owned_transport_t'',
    ''z_loaned_transport_t'', ''z_owned_link_t'', ''z_loaned_link_t'', ''z_owned_transport_event_t'',
    ''z_loaned_transport_event_t'', ''z_owned_link_event_t'', ''z_loaned_link_event_t'',
    ''z_owned_transport_events_listener_t'', ''z_loaned_transport_events_listener_t'',
    ''z_owned_link_events_listener_t'', ''z_loaned_link_events_listener_t'', ''ze_owned_publication_cache_t'',
    ''ze_loaned_publication_cache_t'', ''z_owned_mutex_t'', ''z_loaned_mutex_t'', ''z_owned_condvar_t'',
    ''z_loaned_condvar_t'', ''z_owned_task_t'', ''z_owned_hello_t'', ''z_loaned_hello_t'', ''z_owned_shm_client_t'',
    ''zc_owned_shm_client_list_t'', ''zc_loaned_shm_client_list_t'', ''z_owned_shm_client_storage_t'',
    ''z_loaned_shm_client_storage_t'', ''z_owned_memory_layout_t'', ''z_loaned_memory_layout_t'',
    ''z_owned_chunk_alloc_result_t'', ''z_owned_shm_t'', ''z_loaned_shm_t'', ''z_owned_shm_mut_t'',
    ''z_loaned_shm_mut_t'', ''z_owned_shm_provider_t'', ''z_loaned_shm_provider_t'',
    ''z_owned_shared_shm_provider_t'', ''z_loaned_shared_shm_provider_t'', ''z_owned_precomputed_layout_t'',
    ''z_loaned_precomputed_layout_t'', ''z_owned_ptr_in_segment_t'', ''z_loaned_ptr_in_segment_t'',
    ''z_owned_fifo_handler_sample_t'', ''z_loaned_fifo_handler_sample_t'', ''z_owned_ring_handler_sample_t'',
    ''z_loaned_ring_handler_sample_t'', ''z_owned_fifo_handler_query_t'', ''z_loaned_fifo_handler_query_t'',
    ''z_owned_ring_handler_query_t'', ''z_loaned_ring_handler_query_t'', ''z_owned_fifo_handler_reply_t'',
    ''z_loaned_fifo_handler_reply_t'', ''z_owned_ring_handler_reply_t'', ''z_loaned_ring_handler_reply_t'',
    ''z_source_info_t'', ''z_entity_global_id_t'', ''ze_owned_serializer_t'', ''ze_loaned_serializer_t'',
    ''ze_deserializer_t'', ''z_owned_cancellation_token_t'', ''z_loaned_cancellation_token_t'']"
  by (simp add: opaque_names_def opaque_table)

lemma opaque_names_at: "opaque_names = map ((!) opaque_declared) declared_at"
  by (simp add: opaque_names_eval opaque_declared_eval declared_at_def)

lemma alignment_at: "length opaque_declared = 113 \<and> opaque_declared ! 105 = ''z_alloc_alignment_t''"
  by (simp add: opaque_declared_eval)

lemma declared_at_set: "set (105 # declared_at) = {..<113}"
proof (rule card_subset_eq)
  show "set (105 # declared_at) \<subseteq> {..<113}" by (simp add: declared_at_def)
  have "distinct (105 # declared_at)" by (simp add: declared_at_def)
  then have "card (set (105 # declared_at)) = length (105 # declared_at)" by (rule distinct_card)
  then show "card (set (105 # declared_at)) = card {..<113::nat}" by (simp add: declared_at_def)
qed simp

text \<open>The names are told apart by the sums of their characters weighted by position, which evaluate faster than the
  comparisons of all pairs.\<close>

lemma lit_chars:
  "lit (CHR ''_'' # s) = 95 # lit s"
  "lit (CHR ''a'' # s) = 97 # lit s"
  "lit (CHR ''b'' # s) = 98 # lit s"
  "lit (CHR ''c'' # s) = 99 # lit s"
  "lit (CHR ''d'' # s) = 100 # lit s"
  "lit (CHR ''e'' # s) = 101 # lit s"
  "lit (CHR ''f'' # s) = 102 # lit s"
  "lit (CHR ''g'' # s) = 103 # lit s"
  "lit (CHR ''h'' # s) = 104 # lit s"
  "lit (CHR ''i'' # s) = 105 # lit s"
  "lit (CHR ''j'' # s) = 106 # lit s"
  "lit (CHR ''k'' # s) = 107 # lit s"
  "lit (CHR ''l'' # s) = 108 # lit s"
  "lit (CHR ''m'' # s) = 109 # lit s"
  "lit (CHR ''n'' # s) = 110 # lit s"
  "lit (CHR ''o'' # s) = 111 # lit s"
  "lit (CHR ''p'' # s) = 112 # lit s"
  "lit (CHR ''q'' # s) = 113 # lit s"
  "lit (CHR ''r'' # s) = 114 # lit s"
  "lit (CHR ''s'' # s) = 115 # lit s"
  "lit (CHR ''t'' # s) = 116 # lit s"
  "lit (CHR ''u'' # s) = 117 # lit s"
  "lit (CHR ''v'' # s) = 118 # lit s"
  "lit (CHR ''w'' # s) = 119 # lit s"
  "lit (CHR ''x'' # s) = 120 # lit s"
  "lit (CHR ''y'' # s) = 121 # lit s"
  "lit (CHR ''z'' # s) = 122 # lit s"
  by simp_all

lemmas lit_eval = lit_chars lit_simps(1)

fun weigh :: "int \<Rightarrow> rstr \<Rightarrow> int" where
  "weigh k [] = 0"
| "weigh k (c # s) = k * c + weigh (k + 1) s"

lemma opaque_names_distinct: "distinct opaque_names"
proof -
  have "distinct (map (\<lambda>n. weigh 1 (lit n)) opaque_names)" by (simp del: lit_simps add: opaque_names_eval lit_eval)
  then show ?thesis by (simp add: distinct_map)
qed

definition is_word :: "rchar \<Rightarrow> bool" where
  "is_word c \<longleftrightarrow> c = 95 \<or> 48 \<le> c \<and> c \<le> 57 \<or> 97 \<le> c \<and> c \<le> 122"

lemma is_word_chars:
  "is_word 95" "is_word 97" "is_word 98" "is_word 99" "is_word 100" "is_word 101" "is_word 102" "is_word 103" "is_word 104"
  "is_word 105" "is_word 106" "is_word 107" "is_word 108" "is_word 109" "is_word 110" "is_word 111" "is_word 112" "is_word 113"
  "is_word 114" "is_word 115" "is_word 116" "is_word 117" "is_word 118" "is_word 119" "is_word 120" "is_word 121" "is_word 122"
  by (simp_all add: is_word_def)

text \<open>To check a list with \<open>map\<close> is faster than with a quantifier.\<close>

lemma all_by_map: "map P xs = replicate n True \<Longrightarrow> \<forall>x \<in> set xs. P x"
  by (metis (mono_tags, lifting) in_set_replicate list.set_map image_eqI)

lemma names_are_words: "\<forall>n \<in> set opaque_names. n \<noteq> [] \<and> list_all is_word (lit n)"
proof (rule all_by_map)
  show "map (\<lambda>n. n \<noteq> [] \<and> list_all is_word (lit n)) opaque_names = replicate 112 True"
    by (simp del: lit_simps add: opaque_names_eval is_word_chars lit_eval) (simp add: numeral_eq_Suc)
qed

lemma opaque_names_plain: "\<forall>n \<in> set opaque_names. \<not> ends_with (lit '');'') (lit ''    '' @ lit n)"
proof
  fix n assume "n \<in> set opaque_names"
  then have n: "n \<noteq> []" "list_all is_word (lit n)" using names_are_words by auto
  then obtain m x where x: "rev (lit n) = x # m" by (cases "rev (lit n)"; cases n) auto
  then have "is_word x" using n(2) by (metis list.set_intros(1) list_all_iff set_rev)
  then have "x \<noteq> 59" by (auto simp: is_word_def)
  then show "\<not> ends_with (lit '');'') (lit ''    '' @ lit n)" using x by (simp add: ends_with_def starts_with_def)
qed

text \<open>A name of four pieces splits.\<close>

lemma split_type_name_pieces:
  assumes "3 \<le> count_list tn 95"
  shows "split_type_name tn \<noteq> None"
proof -
  have "95 \<in> set tn" using assms by (intro ccontr [of "95 \<in> set tn"]) (simp add: count_notin)
  then obtain p n1 where p: "tn = p @ 95 # n1" "95 \<notin> set p" using split_list_first by metis
  then have c1: "2 \<le> count_list n1 95" using assms by (simp add: count_notin)
  then have "95 \<in> set n1" by (intro ccontr [of "95 \<in> set n1"]) (simp add: count_notin)
  then obtain k n2 where k: "n1 = k @ 95 # n2" "95 \<notin> set k" using split_list_first by metis
  then have "1 \<le> count_list n2 95" using c1 by (simp add: count_notin)
  then have "95 \<in> set n2" by (intro ccontr [of "95 \<in> set n2"]) (simp add: count_notin)
  then obtain s q where s: "n2 = s @ 95 # q" "95 \<notin> set q" using split_list_last by metis
  show ?thesis
  proof (cases "is_category k")
    case True
    have "tn = type_name_of p (Some k) s q" using p k s by (simp add: type_name_of_def)
    then show ?thesis using split_type_name_of [OF p(2) s(2) True] by simp
  next
    case False
    have tn: "tn = (p @ [95]) @ (k @ 95 # s) @ 95 # q" using p k s by simp
    have pieces: "split_char 95 tn = p # k # split_char 95 (s @ 95 # q)" using p k s by (simp add: split_char_append)
    have "str_range (str_len p + 1) (str_len tn - str_len q - 1) ((p @ [95]) @ (k @ 95 # s) @ 95 # q) = ret (k @ 95 # s)"
      unfolding tn by (rule str_range_append) simp_all
    then show ?thesis using pieces False split_char_length [of 95 s q] last_split_char [of 95 q s] s(2) tn
      by (auto simp: split_type_name_def is_category_def Let_def)
  qed
qed

lemma opaque_names_split: "\<forall>n \<in> set opaque_names. split_type_name (lit n) \<noteq> None"
proof -
  have "map (\<lambda>n. if 3 \<le> count_list (lit n) 95 then True else n = ''z_id_t'' \<or> n = ''z_timestamp_t'' \<or> n = ''ze_deserializer_t'') opaque_names
      = replicate 112 True"
    by (simp del: lit_simps add: opaque_names_eval lit_eval) (simp add: numeral_eq_Suc)
  from all_by_map [OF this] have "\<forall>n \<in> set opaque_names. 3 \<le> count_list (lit n) 95 \<or> n = ''z_id_t'' \<or> n = ''z_timestamp_t'' \<or> n = ''ze_deserializer_t''"
    by metis
  moreover have "split_type_name (lit ''z_id_t'') \<noteq> None" "split_type_name (lit ''z_timestamp_t'') \<noteq> None"
      "split_type_name (lit ''ze_deserializer_t'') \<noteq> None"
    by (simp_all add: split_type_name_def str_range_def str_to_def str_from_def Let_def)
  ultimately show ?thesis using split_type_name_pieces by metis
qed

subsection \<open>Reading the crate\<close>

text \<open>The documentation lines of a row, and the source lines of its invocation.\<close>

definition doc_lines :: "opaque_declaration \<Rightarrow> rstr list" where
  "doc_lines d = map (\<lambda>l. lit ''///'' @ lit l) (od_docs d)"

definition invocation_lines :: "opaque_declaration \<Rightarrow> rstr list" where
  "invocation_lines d =
    (if od_multiline d
     then [lit ''get_opaque_type_data!('', lit ''    '' @ lit (od_type d) @ lit '','', lit ''    '' @ lit (od_name d), lit '');'']
     else [lit ''get_opaque_type_data!('' @ lit (od_type d) @ lit '', '' @ lit (od_name d) @ lit '');''])"

text \<open>A source that reads as a table, from documentation already seen: documentation lines, invocations, and
  between them any lines that start neither like documentation nor like an invocation.\<close>

inductive crate_text :: "rstr list \<Rightarrow> rstr list \<Rightarrow> opaque_declaration list \<Rightarrow> bool" where
  text_end: "crate_text c [] []"
| text_other: "\<not> starts_with (lit ''///'') l \<Longrightarrow> \<not> starts_with (lit ''get_opaque_type_data!('') l \<Longrightarrow>
    crate_text c ls rows \<Longrightarrow> crate_text c (l # ls) rows"
| text_doc: "starts_with (lit ''///'') l \<Longrightarrow> crate_text (c @ [l]) ls rows \<Longrightarrow> crate_text c (l # ls) rows"
| text_row: "crate_text [] ls rows \<Longrightarrow> crate_text (doc_lines d) (invocation_lines d @ ls) (d # rows)"

text \<open>The pattern's second group is the C name.\<close>

definition captures_name :: "regex \<Rightarrow> opaque_declaration \<Rightarrow> bool" where
  "captures_name captures d \<longleftrightarrow> (\<exists>ty rest more.
     captures re_opaque_type_data (concat (invocation_lines d)) = (ty # lit (od_name d) # rest) # more)"

definition row_docs :: "(rstr \<rightharpoonup> rstr list) \<Rightarrow> opaque_declaration \<Rightarrow> (rstr \<rightharpoonup> rstr list)" where
  "row_docs m d = m(lit (od_name d) \<mapsto> doc_lines d)"

lemma ends_with_append [simp]: "ends_with p (s @ p)"
  by (simp add: ends_with_def starts_with_def)

lemma docs_loop_invocation:
  assumes "captures_name captures d" "\<not> ends_with (lit '');'') (lit ''    '' @ lit (od_name d))"
  shows "docs_loop captures c [] res (invocation_lines d @ ls) = docs_loop captures [] [] (res(lit (od_name d) \<mapsto> c)) ls"
proof -
  obtain ty rest more where c: "captures re_opaque_type_data (concat (invocation_lines d)) = (ty # lit (od_name d) # rest) # more"
    using assms(1) by (auto simp: captures_name_def)
  show ?thesis
  proof (cases "od_multiline d")
    case True
    have "\<not> ends_with (lit '');'') (lit ''    '' @ lit (od_type d) @ lit '','')" "\<not> ends_with (lit '');'') (lit ''get_opaque_type_data!('')"
      by (simp_all add: ends_with_def)
    then show ?thesis using assms(2) True c by (simp add: invocation_lines_def) (simp add: ends_with_def)
  next
    case False
    have "ends_with (lit '');'') (lit ''get_opaque_type_data!('' @ lit (od_type d) @ lit '', '' @ lit (od_name d) @ lit '');'')"
      using ends_with_append [of "lit '');''" "lit ''get_opaque_type_data!('' @ lit (od_type d) @ lit '', '' @ lit (od_name d)"]
      by (simp del: lit_simps)
    then show ?thesis using False c by (simp add: invocation_lines_def)
  qed
qed

lemma docs_loop_text:
  assumes "crate_text c ls rows" "\<forall>d \<in> set rows. captures_name captures d \<and> \<not> ends_with (lit '');'') (lit ''    '' @ lit (od_name d))"
  shows "docs_loop captures c [] res ls = ret (foldl row_docs res rows)"
  using assms
proof (induction arbitrary: res rule: crate_text.induct)
  case (text_row ls rows d)
  have "docs_loop captures (doc_lines d) [] res (invocation_lines d @ ls) = docs_loop captures [] [] (row_docs res d) ls"
    unfolding row_docs_def using text_row.prems by (intro docs_loop_invocation) simp_all
  moreover have "docs_loop captures [] [] (row_docs res d) ls = ret (foldl row_docs (row_docs res d) rows)"
    using text_row.prems by (intro text_row.IH) simp
  ultimately show ?case by (simp only: foldl.simps)
qed simp_all

lemma row_docs_other: "lit (od_name d) \<notin> lit ` od_name ` set rows \<Longrightarrow> foldl row_docs m rows (lit (od_name d)) = m (lit (od_name d))"
  by (induction rows arbitrary: m) (auto simp: row_docs_def)

lemma row_docs_row:
  "distinct (map (lit \<circ> od_name) rows) \<Longrightarrow> d \<in> set rows \<Longrightarrow> foldl row_docs m rows (lit (od_name d)) = Some (doc_lines d)"
proof (induction rows arbitrary: m)
  case (Cons x rows)
  show ?case
  proof (cases "d = x")
    case True
    have "lit (od_name d) \<notin> lit ` od_name ` set rows" using Cons.prems True by (simp add: image_image)
    then have "foldl row_docs (row_docs m d) rows (lit (od_name d)) = row_docs m d (lit (od_name d))" by (rule row_docs_other)
    moreover have "row_docs m d (lit (od_name d)) = Some (doc_lines d)" by (simp add: row_docs_def)
    ultimately show ?thesis using True by simp
  next
    case False
    then show ?thesis using Cons by simp
  qed
qed simp

lemma lit_inj: "lit s = lit t' \<longleftrightarrow> s = t'"
  by (induction s arbitrary: t') (case_tac t'; simp)+

text \<open>The loop succeeds on names that differ, have documentation and split.\<close>

lemma opaque_loop_succeeds:
  assumes "distinct (map fst ts)" "\<forall>(tn, a, n) \<in> set ts. docs tn \<noteq> None \<and> split_type_name tn \<noteq> None"
  shows "opaque_loop docs (map (\<lambda>(tn, a, n). [tn, a, n]) ts) = ret (concat (map (opaque_item docs) ts))"
  using assms
proof (induction ts arbitrary: docs)
  case (Cons y ts)
  obtain tn a n where y: "y = (tn, a, n)" by (cases y)
  obtain s where s: "opaque_type_text tn a n = ret s" using Cons.prems y
    by (auto simp: opaque_type_text_def Let_def simp del: lit_simps)
  obtain d where d: "docs tn = Some d" using Cons.prems y by auto
  have new: "tn \<notin> fst ` set ts" using Cons.prems y by simp
  then have same: "map (opaque_item (docs(tn := None))) ts = map (opaque_item docs) ts" by (auto simp: opaque_item_def image_iff)
  have "opaque_loop (docs(tn := None)) (map (\<lambda>(tn, a, n). [tn, a, n]) ts) = ret (concat (map (opaque_item (docs(tn := None))) ts))"
    using Cons.prems new by (intro Cons.IH) force+
  moreover have "opaque_item docs y = doc_text d @ s" using y s d by (simp add: opaque_item_def)
  ultimately show ?case using same y s d by simp
qed simp

subsection \<open>Properties\<close>

text \<open>C33: the crate measures exactly the types the C API declares. The C types that the declarations of all
  source files speak of (closures apart) are, with the one exception of \<open>z_alloc_alignment_t\<close>, the 112
  names of the crate's table, no name being there twice.\<close>

theorem opaque_types_declared:
  "set opaque_declared = insert ''z_alloc_alignment_t'' (set opaque_names) \<and> distinct opaque_names \<and> length opaque_names = 112"
proof -
  have "set opaque_declared = (!) opaque_declared ` {..<length opaque_declared}" by (auto simp: set_conv_nth)
  also have "\<dots> = (!) opaque_declared ` set (105 # declared_at)" using alignment_at declared_at_set by metis
  also have "\<dots> = insert ''z_alloc_alignment_t'' (set opaque_names)"
  proof -
    have "set opaque_names = (!) opaque_declared ` set declared_at" by (subst opaque_names_at) simp
    then show ?thesis using alignment_at by simp
  qed
  finally have "set opaque_declared = insert ''z_alloc_alignment_t'' (set opaque_names)" .
  moreover have "length opaque_names = length declared_at" by (subst opaque_names_at) simp
  ultimately show ?thesis using opaque_names_distinct by (simp add: declared_at_def)
qed

text \<open>C34: the generator succeeds on this crate. Let its source read as the table, let the regular expression
  find the name of each invocation, and let the compiler report, in any order and with any alignments and
  sizes, some of the types (those whose features are enabled), once each, and nothing else. Then no panic
  of the generator is reached, and the file is the documentation and the structure of each type reported.\<close>

theorem opaque_crate_generates:
  fixes reported :: "(opaque_declaration \<times> rstr \<times> rstr) list"
  assumes "crate_text [] source opaque_declarations"
    and "\<forall>d \<in> set opaque_declarations. captures_name captures d"
    and "\<not> str_contains data (lit ''error: failed to'')" "\<not> str_contains data (lit ''Caused by:'')" "13 \<notin> set data"
    and "captures re_opaque_type data = map (\<lambda>(d, a, n). [lit (od_name d), a, n]) reported"
    and "distinct (map fst reported)" "set (map fst reported) \<subseteq> set opaque_declarations"
    and "length (filter (starts_with (lit ''error[E'')) (text_lines data)) = length reported"
  shows "generate_opaque_types captures source data = ret (concat (map (\<lambda>(d, a, n).
      doc_text (doc_lines d) @ the (opaque_type_text (lit (od_name d)) a n)) reported))
    \<and> (\<forall>(d, a, n) \<in> set reported. opaque_type_text (lit (od_name d)) a n \<noteq> None)"
proof -
  let ?docs = "foldl row_docs Map.empty opaque_declarations"
  let ?ts = "map (\<lambda>(d, a, n). (lit (od_name d), a, n)) reported"
  have inj: "inj_on (lit \<circ> od_name) (set opaque_declarations)" and dist: "distinct (map (lit \<circ> od_name) opaque_declarations)"
    using opaque_names_distinct unfolding opaque_names_def by (auto simp: distinct_map inj_on_def lit_inj)
  have docs: "get_opaque_type_docs captures source = ret ?docs"
    unfolding get_opaque_type_docs_def using assms(1,2) opaque_names_plain
    by (intro docs_loop_text) (simp_all add: opaque_names_def)
  have doc: "?docs (lit (od_name d)) = Some (doc_lines d)" if "d \<in> set opaque_declarations" for d
    using row_docs_row [OF dist that] .
  have split: "split_type_name (lit (od_name d)) \<noteq> None" if "d \<in> set opaque_declarations" for d
    using opaque_names_split that by (simp add: opaque_names_def)
  have rows: "d \<in> set opaque_declarations" if "(d, a, n) \<in> set reported" for d a n using assms(8) that by force
  have "map fst ?ts = map (lit \<circ> od_name) (map fst reported)" by (simp add: case_prod_unfold)
  then have "distinct (map fst ?ts)" using assms(7,8) inj by (metis distinct_map inj_on_subset)
  moreover have "\<forall>(tn, a, n) \<in> set ?ts. ?docs tn \<noteq> None \<and> split_type_name tn \<noteq> None" using doc split rows by fastforce
  ultimately have "opaque_loop ?docs (map (\<lambda>(tn, a, n). [tn, a, n]) ?ts) = ret (concat (map (opaque_item ?docs) ?ts))"
    by (rule opaque_loop_succeeds)
  moreover have "map (\<lambda>(tn, a, n). [tn, a, n]) ?ts = captures re_opaque_type data"
    unfolding assms(6) by (simp add: case_prod_unfold)
  moreover have "map (opaque_item ?docs) ?ts
      = map (\<lambda>(d, a, n). doc_text (doc_lines d) @ the (opaque_type_text (lit (od_name d)) a n)) reported"
    using doc rows by (auto simp: opaque_item_def)
  ultimately have "opaque_loop ?docs (captures re_opaque_type data) = ret (concat (map (\<lambda>(d, a, n).
      doc_text (doc_lines d) @ the (opaque_type_text (lit (od_name d)) a n)) reported))" by (simp only:)
  moreover have "map (\<lambda>c. if c = 13 then 10 else c) data = data" using assms(5) by (intro map_idI) auto
  ultimately have "generate_opaque_types captures source data = ret (concat (map (\<lambda>(d, a, n).
      doc_text (doc_lines d) @ the (opaque_type_text (lit (od_name d)) a n)) reported))"
    using docs assms(3,4,6,9) by (simp add: generate_opaque_types_def Let_def del: lit_simps)
  moreover have "\<forall>(d, a, n) \<in> set reported. opaque_type_text (lit (od_name d)) a n \<noteq> None"
    using split rows by (fastforce simp: opaque_type_text_def Let_def simp del: lit_simps)
  ultimately show ?thesis by blast
qed

text \<open>The table as a source of its own, a capture that takes the last word of a text, and a compiler that
  reports the first type.\<close>

definition crate_source :: "opaque_declaration list \<Rightarrow> rstr list" where
  "crate_source rows = concat (map (\<lambda>d. doc_lines d @ invocation_lines d) rows)"

definition last_word :: "rstr \<Rightarrow> rstr" where
  "last_word s = rev (takeWhile is_word (dropWhile (\<lambda>c. \<not> is_word c) (rev s)))"

definition demo_crate_captures :: regex where
  "demo_crate_captures pat s =
    (if pat = re_opaque_type then [[lit ''z_owned_bytes_t'', lit ''8'', lit ''32'']] else [[[], last_word s]])"

definition demo_row :: opaque_declaration where
  "demo_row = hd opaque_declarations"

lemma crate_text_docs: "crate_text (c @ map (\<lambda>l. lit ''///'' @ lit l) ds) ls rows \<Longrightarrow>
    crate_text c (map (\<lambda>l. lit ''///'' @ lit l) ds @ ls) rows"
proof (induction ds arbitrary: c)
  case (Cons l ds)
  have "starts_with (lit ''///'') (lit ''///'' @ lit l)" by (simp add: starts_with_def)
  moreover have "crate_text (c @ [lit ''///'' @ lit l]) (map (\<lambda>l. lit ''///'' @ lit l) ds @ ls) rows"
    using Cons.prems by (intro Cons.IH) (simp del: lit_simps)
  ultimately have "crate_text c ((lit ''///'' @ lit l) # (map (\<lambda>l. lit ''///'' @ lit l) ds @ ls)) rows" by (rule text_doc)
  then show ?case by (simp only: list.map append_Cons)
qed (simp del: lit_simps)

lemma crate_text_source: "crate_text [] (crate_source rows) rows"
proof (induction rows)
  case (Cons d rows)
  then have "crate_text ([] @ doc_lines d) (invocation_lines d @ crate_source rows) (d # rows)"
    unfolding append_Nil by (rule text_row)
  then have "crate_text [] (doc_lines d @ invocation_lines d @ crate_source rows) (d # rows)"
    unfolding doc_lines_def by (rule crate_text_docs)
  then show ?case by (simp add: crate_source_def)
qed (simp add: crate_source_def text_end)

lemma last_word_name: "n \<noteq> [] \<Longrightarrow> list_all is_word n \<Longrightarrow> last_word (s @ [32] @ n @ lit '');'') = n"
proof -
  assume n: "n \<noteq> []" "list_all is_word n"
  then have "is_word (last n)" by (simp add: list_all_iff)
  then obtain m x where x: "rev n = x # m" "is_word x" using n(1) by (cases n rule: rev_cases) auto
  have w: "\<not> is_word 41" "\<not> is_word 59" "\<not> is_word 32" by (simp_all add: is_word_def)
  then have "dropWhile (\<lambda>c. \<not> is_word c) (rev (s @ [32] @ n @ lit '');'')) = rev n @ 32 # rev s" using x by simp
  moreover have "takeWhile is_word (rev n @ 32 # rev s) = rev n" using n(2) w by (simp add: takeWhile_append list_all_iff)
  ultimately show ?thesis by (simp add: last_word_def)
qed

lemma captures_last_word: "n \<noteq> [] \<Longrightarrow> list_all is_word (lit n) \<Longrightarrow> od_name d = n \<Longrightarrow> captures_name demo_crate_captures d"
proof -
  assume n: "n \<noteq> []" "list_all is_word (lit n)" "od_name d = n"
  have "\<exists>s. concat (invocation_lines d) = s @ [32] @ lit n @ lit '');''"
    using n(3) by (cases "od_multiline d") (auto simp: invocation_lines_def)
  moreover have "lit n \<noteq> []" using n(1) by (cases n) simp_all
  ultimately have "last_word (concat (invocation_lines d)) = lit n" using last_word_name n(2) by metis
  moreover have "re_opaque_type_data \<noteq> re_opaque_type" by (simp add: re_opaque_type_data_def re_opaque_type_def txt_of_def)
  ultimately show ?thesis using n(3) by (simp add: captures_name_def demo_crate_captures_def)
qed

theorem opaque_crate_generates_witness:
  "generate_opaque_types demo_crate_captures (crate_source opaque_declarations)
     (lit ''error[E0080]: type: z_owned_bytes_t, align: 8, size: 32'')
   = ret (doc_text (doc_lines demo_row) @ the (opaque_type_text (lit ''z_owned_bytes_t'') (lit ''8'') (lit ''32'')))"
proof -
  let ?data = "lit ''error[E0080]: type: z_owned_bytes_t, align: 8, size: 32''"
  have "opaque_declarations \<noteq> []" by (simp add: opaque_declarations_def opaque_declarations_1_def)
  then have row: "demo_row \<in> set opaque_declarations" unfolding demo_row_def by (rule hd_in_set)
  have name: "od_name demo_row = ''z_owned_bytes_t''"
    by (simp add: demo_row_def opaque_declarations_def opaque_declarations_1_def)
  have "crate_text [] (crate_source opaque_declarations) opaque_declarations" by (rule crate_text_source)
  moreover have "\<forall>d \<in> set opaque_declarations. captures_name demo_crate_captures d"
  proof
    fix d assume "d \<in> set opaque_declarations"
    then have "od_name d \<noteq> [] \<and> list_all is_word (lit (od_name d))" using names_are_words by (simp add: opaque_names_def)
    then show "captures_name demo_crate_captures d" using captures_last_word [OF _ _ refl] by blast
  qed
  moreover have "demo_crate_captures re_opaque_type ?data = map (\<lambda>(d, a, n). [lit (od_name d), a, n]) [(demo_row, lit ''8'', lit ''32'')]"
    using name by (simp add: demo_crate_captures_def)
  moreover have "length (filter (starts_with (lit ''error[E'')) (text_lines ?data)) = length [(demo_row, lit ''8'', lit ''32'')]"
    by (simp add: text_lines_def)
  moreover have "\<not> str_contains ?data (lit ''error: failed to'')" "\<not> str_contains ?data (lit ''Caused by:'')" "13 \<notin> set ?data"
    by (simp_all add: str_contains_def)
  ultimately show ?thesis using opaque_crate_generates [of "crate_source opaque_declarations" demo_crate_captures ?data
      "[(demo_row, lit ''8'', lit ''32'')]"] row name by (simp del: lit_simps)
qed

end
