(* ===== verification/StandIns.thy ===== *)
theory StandIns
  imports OpaqueCrate
begin

text \<open>
  The types with which \<open>build-resources/opaque-types/src/lib.rs\<close> stands in for those of shared memory. The
  opaque-types crate does not depend on zenoh-c, so for a type of zenoh-c that is neither zenoh's nor the standard
  library's it declares another one that is meant to have the same layout. Here are both, with their fields, and the
  comparison: they are the same up to names, the signatures of functions and wrappers that have the
  layout of what they wrap.

  The types of zenoh-c are those of \<open>src/context.rs\<close>, \<open>src/shm/provider/shm_provider_backend.rs\<close>, \<open>shm_provider.rs\<close>,
  \<open>shared_shm_provider.rs\<close>, \<open>precomputed_layout.rs\<close> and \<open>src/shm/protocol_implementations/posix/posix_shm_provider.rs\<close>.
\<close>

subsection \<open>Types and shapes\<close>

text \<open>A Rust type with its fields: a raw pointer, a function pointer with its parameters and result, a
  structure laid out as in C, transparently, or as the compiler likes, an enumeration, or a type of another crate
  applied to types (lifetimes are left out).\<close>

datatype field_type =
  Raw_pointer
| Fn_pointer "string list" "string option"
| Struct_C "(string \<times> field_type) list"
| Struct_transparent field_type
| Struct_Rust "(string \<times> field_type) list"
| Enum_Rust "(string \<times> field_type) list"
| Other_crate string "field_type list"

text \<open>What the layout depends on. All function pointers have one layout, a transparent structure has that of its
  field, and so does a structure with a single field in C.\<close>

datatype shape = Pointer | Function | Product bool "shape list" | Sum "shape list" | Extern string "shape list"

fun shape_of :: "field_type \<Rightarrow> shape" where
  "shape_of Raw_pointer = Pointer"
| "shape_of (Fn_pointer params res) = Function"
| "shape_of (Struct_C fs) = (case map (\<lambda>(n, f). shape_of f) fs of [s] \<Rightarrow> s | ss \<Rightarrow> Product True ss)"
| "shape_of (Struct_transparent f) = shape_of f"
| "shape_of (Struct_Rust fs) = Product False (map (\<lambda>(n, f). shape_of f) fs)"
| "shape_of (Enum_Rust fs) = Sum (map (\<lambda>(n, f). shape_of f) fs)"
| "shape_of (Other_crate n fs) = Extern n (map shape_of fs)"

definition option_type :: "field_type \<Rightarrow> field_type" where
  "option_type f = Other_crate ''Option'' [f]"

subsection \<open>The stand-ins\<close>

definition DummyCallbacks_type :: field_type where
  "DummyCallbacks_type = Struct_C [
     (''alloc_fn'', Fn_pointer [] None), (''free_fn'', Fn_pointer [] None),
     (''defragment_fn'', Fn_pointer [] (Some ''usize'')), (''available_fn'', Fn_pointer [] (Some ''usize'')),
     (''layout_for_fn'', Fn_pointer [] None), (''id_fn'', Fn_pointer [] None)]"

definition DummyContext_type :: field_type where
  "DummyContext_type = Struct_C [(''context'', Raw_pointer), (''delete_fn'', Fn_pointer [''*mut c_void''] None)]"

definition DummySHMProviderBackend_type :: field_type where
  "DummySHMProviderBackend_type = Struct_Rust [(''context'', DummyContext_type), (''callbacks'', DummyCallbacks_type)]"

text \<open>Its methods are never called; all but one panic.\<close>

definition DummySHMProviderBackend_id :: u32 where
  "DummySHMProviderBackend_id = 0"

definition DummySHMProviderBackend_alloc :: "'m \<Rightarrow> 'c run" where
  "DummySHMProviderBackend_alloc layout = panic"

definition DummySHMProviderBackend_free :: "'c \<Rightarrow> unit run" where
  "DummySHMProviderBackend_free chunk = panic"

definition DummySHMProviderBackend_defragment :: "usize run" where
  "DummySHMProviderBackend_defragment = panic"

definition DummySHMProviderBackend_available :: "usize run" where
  "DummySHMProviderBackend_available = panic"

definition DummySHMProviderBackend_layout_for :: "'m \<Rightarrow> ('e + 'm) run" where
  "DummySHMProviderBackend_layout_for layout = panic"

definition DummySHMProvider_type :: field_type where
  "DummySHMProvider_type = Other_crate ''ShmProvider'' [DummySHMProviderBackend_type]"

definition PosixSHMProvider_type :: field_type where
  "PosixSHMProvider_type = Other_crate ''ShmProvider'' [Other_crate ''PosixShmProviderBackend'' []]"

definition SharedPosixSHMProvider_type :: field_type where
  "SharedPosixSHMProvider_type = Other_crate ''Arc'' [PosixSHMProvider_type]"

definition CDummySHMProvider_type :: field_type where
  "CDummySHMProvider_type = Enum_Rust [(''Posix'', PosixSHMProvider_type), (''SharedPosix'', SharedPosixSHMProvider_type),
     (''Dynamic'', DummySHMProvider_type), (''DynamicThreadsafe'', DummySHMProvider_type)]"

definition DummySharedShmProvider_type :: field_type where
  "DummySharedShmProvider_type = Struct_Rust [(''0'', CDummySHMProvider_type)]"

definition opaque_PosixPrecomputedLayout_type :: field_type where
  "opaque_PosixPrecomputedLayout_type =
     Other_crate ''PrecomputedLayout'' [Other_crate ''PosixShmProviderBackend'' [], Other_crate ''MemoryLayout'' []]"

definition DummyDynamicPrecomputedLayout_type :: field_type where
  "DummyDynamicPrecomputedLayout_type =
     Other_crate ''PrecomputedLayout'' [DummySHMProviderBackend_type, Other_crate ''MemoryLayout'' []]"

definition DummyDynamicPrecomputedLayoutThreadSafe_type :: field_type where
  "DummyDynamicPrecomputedLayoutThreadSafe_type =
     Other_crate ''PrecomputedLayout'' [DummySHMProviderBackend_type, Other_crate ''MemoryLayout'' []]"

definition opaque_CSHMLayout_type :: field_type where
  "opaque_CSHMLayout_type = Enum_Rust [(''Posix'', opaque_PosixPrecomputedLayout_type),
     (''Dynamic'', DummyDynamicPrecomputedLayout_type), (''DynamicThreadSafe'', DummyDynamicPrecomputedLayout_type)]"

subsection \<open>The types they stand for\<close>

definition zc_context_type :: field_type where
  "zc_context_type = Struct_C [(''context'', Raw_pointer), (''delete_fn'', Fn_pointer [''*mut c_void''] None)]"

definition Context_type :: field_type where
  "Context_type = Struct_transparent zc_context_type"

definition zc_threadsafe_context_data_type :: field_type where
  "zc_threadsafe_context_data_type = Struct_C [(''ptr'', Raw_pointer)]"

definition zc_threadsafe_context_type :: field_type where
  "zc_threadsafe_context_type = Struct_C [(''context'', zc_threadsafe_context_data_type),
     (''delete_fn'', Fn_pointer [''*mut c_void''] None)]"

definition ThreadsafeContext_type :: field_type where
  "ThreadsafeContext_type = Struct_transparent zc_threadsafe_context_type"

definition zc_shm_provider_backend_callbacks_type :: field_type where
  "zc_shm_provider_backend_callbacks_type = Struct_C [
     (''alloc_fn'', Fn_pointer [''*mut z_owned_chunk_alloc_result_t'', ''&z_loaned_memory_layout_t'', ''*mut c_void''] None),
     (''free_fn'', Fn_pointer [''*const z_chunk_descriptor_t'', ''*mut c_void''] None),
     (''defragment_fn'', Fn_pointer [''*mut c_void''] (Some ''usize'')),
     (''available_fn'', Fn_pointer [''*mut c_void''] (Some ''usize'')),
     (''layout_for_fn'', Fn_pointer [''*mut z_owned_memory_layout_t'', ''*mut c_void''] None),
     (''id_fn'', Fn_pointer [''*mut c_void''] (Some ''z_protocol_id_t''))]"

definition DynamicShmProviderBackend_type :: "field_type \<Rightarrow> field_type" where
  "DynamicShmProviderBackend_type TContext =
     Struct_Rust [(''context'', TContext), (''callbacks'', zc_shm_provider_backend_callbacks_type)]"

definition DynamicShmProvider_type :: field_type where
  "DynamicShmProvider_type = Other_crate ''ShmProvider'' [DynamicShmProviderBackend_type Context_type]"

definition DynamicShmProviderThreadsafe_type :: field_type where
  "DynamicShmProviderThreadsafe_type = Other_crate ''ShmProvider'' [DynamicShmProviderBackend_type ThreadsafeContext_type]"

definition PosixShmProvider_type :: field_type where
  "PosixShmProvider_type = Other_crate ''ShmProvider'' [Other_crate ''PosixShmProviderBackend'' []]"

definition SharedPosixShmProvider_type :: field_type where
  "SharedPosixShmProvider_type = Other_crate ''Arc'' [PosixShmProvider_type]"

definition CSHMProvider_type :: field_type where
  "CSHMProvider_type = Enum_Rust [(''Posix'', PosixShmProvider_type), (''SharedPosix'', SharedPosixShmProvider_type),
     (''Dynamic'', DynamicShmProvider_type), (''DynamicThreadsafe'', DynamicShmProviderThreadsafe_type)]"

definition SharedShmProvider_type :: field_type where
  "SharedShmProvider_type = Struct_Rust [(''0'', CSHMProvider_type)]"

definition PosixPrecomputedLayout_type :: field_type where
  "PosixPrecomputedLayout_type =
     Other_crate ''PrecomputedLayout'' [Other_crate ''PosixShmProviderBackend'' [], Other_crate ''MemoryLayout'' []]"

definition DynamicPrecomputedLayout_type :: field_type where
  "DynamicPrecomputedLayout_type =
     Other_crate ''PrecomputedLayout'' [DynamicShmProviderBackend_type Context_type, Other_crate ''MemoryLayout'' []]"

definition DynamicPrecomputedLayoutThreadsafe_type :: field_type where
  "DynamicPrecomputedLayoutThreadsafe_type =
     Other_crate ''PrecomputedLayout'' [DynamicShmProviderBackend_type ThreadsafeContext_type, Other_crate ''MemoryLayout'' []]"

definition CSHMLayout_type :: field_type where
  "CSHMLayout_type = Enum_Rust [(''Posix'', PosixPrecomputedLayout_type), (''Dynamic'', DynamicPrecomputedLayout_type),
     (''DynamicThreadsafe'', DynamicPrecomputedLayoutThreadsafe_type)]"

lemmas stand_in_defs = DummyCallbacks_type_def DummyContext_type_def DummySHMProviderBackend_type_def DummySHMProvider_type_def
  PosixSHMProvider_type_def SharedPosixSHMProvider_type_def CDummySHMProvider_type_def DummySharedShmProvider_type_def
  opaque_PosixPrecomputedLayout_type_def DummyDynamicPrecomputedLayout_type_def opaque_CSHMLayout_type_def

lemmas stood_for_defs = zc_context_type_def Context_type_def zc_threadsafe_context_data_type_def zc_threadsafe_context_type_def
  ThreadsafeContext_type_def zc_shm_provider_backend_callbacks_type_def DynamicShmProviderBackend_type_def DynamicShmProvider_type_def
  DynamicShmProviderThreadsafe_type_def PosixShmProvider_type_def SharedPosixShmProvider_type_def CSHMProvider_type_def
  SharedShmProvider_type_def PosixPrecomputedLayout_type_def DynamicPrecomputedLayout_type_def
  DynamicPrecomputedLayoutThreadsafe_type_def CSHMLayout_type_def

subsection \<open>The comparison\<close>

text \<open>The Rust types the two crates name, as their tables write them.\<close>

definition opaque_crate_type :: "string \<rightharpoonup> field_type" where
  "opaque_crate_type = map_of [
     (''Option<CDummySHMProvider>'', option_type CDummySHMProvider_type), (''CDummySHMProvider'', CDummySHMProvider_type),
     (''Option<DummySharedShmProvider>'', option_type DummySharedShmProvider_type),
     (''DummySharedShmProvider'', DummySharedShmProvider_type),
     (''Option<CSHMLayout>'', option_type opaque_CSHMLayout_type), (''CSHMLayout'', opaque_CSHMLayout_type)]"

definition zenoh_c_type :: "rust_type \<Rightarrow> field_type option" where
  "zenoh_c_type r = map_of [(Ty ''CSHMProvider'', CSHMProvider_type), (Ty ''SharedShmProvider'', SharedShmProvider_type),
     (Ty ''CSHMLayout'', CSHMLayout_type)] r"

text \<open>The row of a C type in the opaque crate, and the declaration of it in zenoh-c, have Rust types of one
  shape.\<close>

definition stands_in :: "opaque_declaration \<Rightarrow> clause list \<Rightarrow> bool" where
  "stands_in d cl = (case opaque_crate_type (od_type d) of
     None \<Rightarrow> False
   | Some s \<Rightarrow> (case cl of
       [Owned_option (Ty c) r, Loaned_inner (Ty lc)] \<Rightarrow> (case zenoh_c_type r of
           None \<Rightarrow> False
         | Some s' \<Rightarrow> (od_name d = c \<and> shape_of s = shape_of (option_type s')) \<or> (od_name d = lc \<and> shape_of s = shape_of s'))
     | _ \<Rightarrow> False))"

text \<open>The backends have one shape, for both kinds of context; from this it follows for all types around them.\<close>

lemma stand_in_backend:
  "shape_of (DynamicShmProviderBackend_type Context_type) = shape_of DummySHMProviderBackend_type"
  "shape_of (DynamicShmProviderBackend_type ThreadsafeContext_type) = shape_of DummySHMProviderBackend_type"
  by (simp_all add: stand_in_defs stood_for_defs)

lemma stand_in_shapes:
  "shape_of CDummySHMProvider_type = shape_of CSHMProvider_type"
  "shape_of DummySharedShmProvider_type = shape_of SharedShmProvider_type"
  "shape_of opaque_CSHMLayout_type = shape_of CSHMLayout_type"
  by (simp_all add: CDummySHMProvider_type_def CSHMProvider_type_def DummySharedShmProvider_type_def SharedShmProvider_type_def
      opaque_CSHMLayout_type_def CSHMLayout_type_def DummySHMProvider_type_def DynamicShmProvider_type_def
      DynamicShmProviderThreadsafe_type_def DummyDynamicPrecomputedLayout_type_def DynamicPrecomputedLayout_type_def
      DynamicPrecomputedLayoutThreadsafe_type_def stand_in_backend PosixSHMProvider_type_def PosixShmProvider_type_def
      SharedPosixSHMProvider_type_def SharedPosixShmProvider_type_def opaque_PosixPrecomputedLayout_type_def
      PosixPrecomputedLayout_type_def)

text \<open>Every row of the opaque crate for a type that needs a stand-in, which are the first six of this part of its table,
  stands in for the Rust type that zenoh-c declares for the same C type.\<close>

lemma stand_ins_fit:
  "list_all2 stands_in (take 6 opaque_declarations_4)
     [z_shm_provider_decl, z_shm_provider_decl, z_shared_shm_provider_decl, z_shared_shm_provider_decl,
      z_precomputed_layout_decl, z_precomputed_layout_decl]"
  by (simp add: opaque_declarations_4_def stands_in_def opaque_crate_type_def zenoh_c_type_def z_shm_provider_decl_def
      z_shared_shm_provider_decl_def z_precomputed_layout_decl_def stand_in_shapes option_type_def)

text \<open>A compiler whose layout of a type depends on its shape measures the right thing.\<close>

lemma stand_ins_measure:
  assumes "\<And>a b. shape_of a = shape_of b \<Longrightarrow> measured a = measured b"
  shows "measured (option_type CDummySHMProvider_type) = measured (option_type CSHMProvider_type)"
    and "measured (option_type DummySharedShmProvider_type) = measured (option_type SharedShmProvider_type)"
    and "measured (option_type opaque_CSHMLayout_type) = measured (option_type CSHMLayout_type)"
  by (rule assms, simp add: option_type_def stand_in_shapes)+

end
