(* ===== verification/StringTypes.thy ===== *)
theory StringTypes
  imports SliceMachine
begin

text \<open>
  The newtypes of \<open>src/collections.rs\<close> around \<open>CSlice\<close>: owned and view slices, and the strings, with their
  constructors, conversions and borrows. The other theories use one record for all of them; here each type
  has its constructor, and the lemmas say that the newtypes add nothing: every constructor is the
  one of \<open>CSlice\<close> behind it, and reading a string through any of its types reads the same bytes.
\<close>

subsection \<open>Slices\<close>

datatype CSliceOwned = CSliceOwned (owned_slice: cslice)
datatype CSliceView = CSliceView (view_slice: cslice)

definition CSliceOwned_gravestone :: CSliceOwned where
  "CSliceOwned_gravestone = CSliceOwned CSlice_gravestone"

definition CSliceOwned_is_gravestone :: "CSliceOwned \<Rightarrow> bool" where
  "CSliceOwned_is_gravestone this \<longleftrightarrow> CSlice_is_gravestone (owned_slice this)"

definition CSliceView_gravestone :: CSliceView where
  "CSliceView_gravestone = CSliceView CSlice_gravestone"

definition CSliceView_is_gravestone :: "CSliceView \<Rightarrow> bool" where
  "CSliceView_is_gravestone this \<longleftrightarrow> CSlice_is_gravestone (view_slice this)"

definition CSliceOwned_deref :: "CSliceOwned \<Rightarrow> cslice" where
  "CSliceOwned_deref this = owned_slice this"

definition CSliceView_deref :: "CSliceView \<Rightarrow> cslice" where
  "CSliceView_deref this = view_slice this"

definition CSliceOwned_deref_mut :: "(cslice \<Rightarrow> cslice) \<Rightarrow> CSliceOwned \<Rightarrow> CSliceOwned" where
  "CSliceOwned_deref_mut f this = CSliceOwned (f (owned_slice this))"

definition CSliceView_deref_mut :: "(cslice \<Rightarrow> cslice) \<Rightarrow> CSliceView \<Rightarrow> CSliceView" where
  "CSliceView_deref_mut f this = CSliceView (f (view_slice this))"

definition CSlice_from_CSliceOwned :: "CSliceOwned \<Rightarrow> cslice" where
  "CSlice_from_CSliceOwned value = owned_slice value"

definition CSlice_from_CSliceView :: "CSliceView \<Rightarrow> cslice" where
  "CSlice_from_CSliceView value = view_slice value"

definition CSliceOwned_clone :: "CSliceOwned \<Rightarrow> heap \<Rightarrow> (CSliceOwned \<times> heap) run" where
  "CSliceOwned_clone this h = map_option (\<lambda>(s, h). (CSliceOwned s, h)) (CSlice_clone (owned_slice this) h)"

text \<open>A Rust slice is its pointer and length.\<close>

definition new_borrowed_from_slice :: "ptr \<times> usize \<Rightarrow> cslice" where
  "new_borrowed_from_slice s = CSlice_new_borrowed_unchecked (fst s) (snd s)"

definition CSliceView_new :: "ptr \<Rightarrow> usize \<Rightarrow> z_result_t + CSliceView" where
  "CSliceView_new d l = map_sum id CSliceView (CSlice_new_borrowed d l)"

definition CSliceView_from_slice :: "ptr \<times> usize \<Rightarrow> CSliceView" where
  "CSliceView_from_slice s = CSliceView (new_borrowed_from_slice s)"

definition CSliceOwned_new :: "ptr \<Rightarrow> usize \<Rightarrow> heap \<Rightarrow> ((z_result_t + CSliceOwned) \<times> heap) run" where
  "CSliceOwned_new d l h = map_option (\<lambda>(r, h). (map_sum id CSliceOwned r, h)) (CSlice_new_owned d l h)"

definition CSliceOwned_wrap :: "ptr \<Rightarrow> usize \<Rightarrow> deleter option \<Rightarrow> ptr \<Rightarrow> z_result_t + CSliceOwned" where
  "CSliceOwned_wrap d l dr ctx = map_sum id CSliceOwned (CSlice_new d l dr ctx)"

definition CSlice_data :: "cslice \<Rightarrow> ptr" where
  "CSlice_data this = data this"

definition CSlice_len :: "cslice \<Rightarrow> usize" where
  "CSlice_len this = len this"

text \<open>\<open>Hash\<close>, for the hash of a byte sequence into the hasher's state.\<close>

definition CSlice_hash :: "(u8 list \<Rightarrow> 's \<Rightarrow> 's) \<Rightarrow> cslice \<Rightarrow> heap \<Rightarrow> 's \<Rightarrow> 's run" where
  "CSlice_hash hash_bytes this h state = map_option (\<lambda>bs. hash_bytes bs state) (CSlice_slice this h)"

text \<open>\<open>From<Vec<u8>> for CSlice\<close>, through \<open>CSliceOwned\<close>.\<close>

definition CSliceOwned_from_vec :: "u8 list \<Rightarrow> heap \<Rightarrow> CSliceOwned \<times> heap" where
  "CSliceOwned_from_vec v h = (let (s, h) = CSlice_from_vec v h in (CSliceOwned s, h))"

definition CSlice_from_vec_u8 :: "u8 list \<Rightarrow> heap \<Rightarrow> cslice \<times> heap" where
  "CSlice_from_vec_u8 v h = (let (s, h) = CSliceOwned_from_vec v h in (owned_slice s, h))"

definition z_view_slice_loan :: "CSliceView \<Rightarrow> cslice" where
  "z_view_slice_loan this = view_slice this"

definition z_slice_loan :: "CSliceOwned \<Rightarrow> cslice" where
  "z_slice_loan this = owned_slice this"

subsection \<open>Strings\<close>

datatype CStringInner = CStringInner (inner_slice: cslice)
datatype CStringOwned = CStringOwned (owned_string: CStringInner)
datatype CStringView = CStringView (view_string: CStringInner)

definition CStringInner_gravestone :: CStringInner where
  "CStringInner_gravestone = CStringInner CSlice_gravestone"

definition CStringInner_is_gravestone :: "CStringInner \<Rightarrow> bool" where
  "CStringInner_is_gravestone this \<longleftrightarrow> CSlice_is_gravestone (inner_slice this)"

definition CStringOwned_gravestone :: CStringOwned where
  "CStringOwned_gravestone = CStringOwned CStringInner_gravestone"

definition CStringOwned_is_gravestone :: "CStringOwned \<Rightarrow> bool" where
  "CStringOwned_is_gravestone this \<longleftrightarrow> CStringInner_is_gravestone (owned_string this)"

definition CStringView_gravestone :: CStringView where
  "CStringView_gravestone = CStringView CStringInner_gravestone"

definition CStringView_is_gravestone :: "CStringView \<Rightarrow> bool" where
  "CStringView_is_gravestone this \<longleftrightarrow> CStringInner_is_gravestone (view_string this)"

definition CStringInner_new_borrowed_from_slice :: "ptr \<times> usize \<Rightarrow> CStringInner" where
  "CStringInner_new_borrowed_from_slice s = CStringInner (new_borrowed_from_slice s)"

definition CStringOwned_new :: "ptr \<Rightarrow> usize \<Rightarrow> heap \<Rightarrow> ((z_result_t + CStringOwned) \<times> heap) run" where
  "CStringOwned_new d l h =
     map_option (\<lambda>(r, h). (map_sum id (\<lambda>s. CStringOwned (CStringInner s)) r, h)) (CSlice_new_owned d l h)"

definition CStringOwned_wrap :: "ptr \<Rightarrow> usize \<Rightarrow> deleter option \<Rightarrow> ptr \<Rightarrow> z_result_t + CStringOwned" where
  "CStringOwned_wrap d l dr ctx = map_sum id (\<lambda>s. CStringOwned (CStringInner s)) (CSlice_new d l dr ctx)"

definition CStringView_new_borrowed :: "ptr \<Rightarrow> usize \<Rightarrow> z_result_t + CStringView" where
  "CStringView_new_borrowed d l = map_sum id (\<lambda>s. CStringView (CStringInner s)) (CSlice_new_borrowed d l)"

definition CStringView_new_borrowed_from_slice :: "ptr \<times> usize \<Rightarrow> CStringView" where
  "CStringView_new_borrowed_from_slice s = CStringView (CStringInner_new_borrowed_from_slice s)"

definition CStringInner_deref :: "CStringInner \<Rightarrow> cslice" where
  "CStringInner_deref this = inner_slice this"

definition CStringOwned_deref :: "CStringOwned \<Rightarrow> CStringInner" where
  "CStringOwned_deref this = owned_string this"

definition CStringView_deref :: "CStringView \<Rightarrow> CStringInner" where
  "CStringView_deref this = view_string this"

text \<open>\<open>AsRef<CSlice>\<close>: a string borrows as a slice through as many dereferences as its type needs.\<close>

definition CStringInner_as_ref :: "CStringInner \<Rightarrow> cslice" where
  "CStringInner_as_ref this = inner_slice this"

definition CStringOwned_as_ref :: "CStringOwned \<Rightarrow> cslice" where
  "CStringOwned_as_ref this = CStringInner_deref (owned_string this)"

definition CStringView_as_ref :: "CStringView \<Rightarrow> cslice" where
  "CStringView_as_ref this = CStringInner_deref (view_string this)"

definition CSlice_from_CStringInner :: "CStringInner \<Rightarrow> cslice" where
  "CSlice_from_CStringInner value = inner_slice value"

definition CSlice_from_CStringOwned :: "CStringOwned \<Rightarrow> cslice" where
  "CSlice_from_CStringOwned value = inner_slice (owned_string value)"

definition CStringView_try_from :: "CStringView \<Rightarrow> heap \<Rightarrow> u8 list option run" where
  "CStringView_try_from value h = CString_to_str (inner_slice (view_string value)) h"

definition z_string_loan :: "CStringOwned \<Rightarrow> CStringInner" where
  "z_string_loan this = owned_string this"

definition z_view_string_loan :: "CStringView \<Rightarrow> CStringInner" where
  "z_view_string_loan this = view_string this"

definition z_string_array_loan :: "zvector \<Rightarrow> zvector" where
  "z_string_array_loan this = this"

definition z_string_array_loan_mut :: "(zvector \<Rightarrow> 'r \<times> zvector) \<Rightarrow> zvector \<Rightarrow> 'r \<times> zvector" where
  "z_string_array_loan_mut f this = f this"

lemmas slice_type_defs =
  CSliceOwned_gravestone_def CSliceOwned_is_gravestone_def CSliceView_gravestone_def CSliceView_is_gravestone_def
  CSliceOwned_deref_def CSliceView_deref_def CSliceOwned_deref_mut_def CSliceView_deref_mut_def
  CSlice_from_CSliceOwned_def CSlice_from_CSliceView_def CSliceOwned_clone_def new_borrowed_from_slice_def
  CSliceView_new_def CSliceView_from_slice_def CSliceOwned_new_def CSliceOwned_wrap_def CSlice_data_def CSlice_len_def
  CSliceOwned_from_vec_def CSlice_from_vec_u8_def z_view_slice_loan_def z_slice_loan_def

lemmas string_type_defs =
  CStringInner_gravestone_def CStringInner_is_gravestone_def CStringOwned_gravestone_def CStringOwned_is_gravestone_def
  CStringView_gravestone_def CStringView_is_gravestone_def CStringInner_new_borrowed_from_slice_def CStringOwned_new_def
  CStringOwned_wrap_def CStringView_new_borrowed_def CStringView_new_borrowed_from_slice_def CStringInner_deref_def
  CStringOwned_deref_def CStringView_deref_def CStringInner_as_ref_def CStringOwned_as_ref_def CStringView_as_ref_def
  CSlice_from_CStringInner_def CSlice_from_CStringOwned_def CStringView_try_from_def z_string_loan_def z_view_string_loan_def

subsection \<open>The newtypes add nothing\<close>

text \<open>Each newtype keeps the gravestone contract, with the drop of the slice inside.\<close>

interpretation cso: gravestone CSliceOwned_gravestone CSliceOwned_is_gravestone "\<lambda>s. CSlice_drop (owned_slice s)"
  by unfold_locales (simp_all add: slice_type_defs csl.is_gravestone_g csl.drp_g)

interpretation csv: gravestone CSliceView_gravestone CSliceView_is_gravestone "\<lambda>s. CSlice_drop (view_slice s)"
  by unfold_locales (simp_all add: slice_type_defs csl.is_gravestone_g csl.drp_g)

interpretation sto: gravestone CStringOwned_gravestone CStringOwned_is_gravestone "\<lambda>s. CSlice_drop (inner_slice (owned_string s))"
  by unfold_locales (simp_all add: string_type_defs csl.is_gravestone_g csl.drp_g)

interpretation stv: gravestone CStringView_gravestone CStringView_is_gravestone "\<lambda>s. CSlice_drop (inner_slice (view_string s))"
  by unfold_locales (simp_all add: string_type_defs csl.is_gravestone_g csl.drp_g)

text \<open>Dropping through a newtype is dropping the slice.\<close>

lemma owned_slice_drop:
  "map_option (\<lambda>(s, h). (owned_slice s, h)) (moved_drop CSliceOwned_gravestone (\<lambda>s. CSlice_drop (owned_slice s)) (CSliceOwned s) h)
   = z_slice_drop s h"
  unfolding cso.moved_drop_eq z_slice_drop_def csl.moved_drop_eq
  by (cases "CSlice_drop s h") (simp_all add: CSliceOwned_gravestone_def)

lemma owned_string_drop:
  "map_option (\<lambda>(s, h). (inner_slice (owned_string s), h))
     (moved_drop CStringOwned_gravestone (\<lambda>s. CSlice_drop (inner_slice (owned_string s))) (CStringOwned (CStringInner s)) h)
   = z_string_drop s h"
  unfolding sto.moved_drop_eq z_string_drop_def csl.moved_drop_eq
  by (cases "CSlice_drop s h") (simp_all add: string_type_defs)

text \<open>A string copied through \<open>CStringOwned::new\<close> reads as the copy \<open>z_string_copy_from_substr\<close> makes, through every
  borrow.\<close>

lemma owned_string_new:
  assumes "CStringOwned_new p l h = ret (Inr s, h')"
  shows "CSlice_new_owned p l h = ret (Inr (CStringOwned_as_ref s), h')
   \<and> CStringInner_as_ref (z_string_loan s) = CStringOwned_as_ref s \<and> CSlice_from_CStringOwned s = CStringOwned_as_ref s
   \<and> z_string_copy_from_substr p l h = ret (Z_OK, CStringOwned_as_ref s, h')"
proof -
  obtain r where r: "CSlice_new_owned p l h = ret (r, h')" "map_sum id (\<lambda>s. CStringOwned (CStringInner s)) r = Inr s"
    using assms by (auto simp: CStringOwned_new_def)
  then obtain c where "r = Inr c" "s = CStringOwned (CStringInner c)" by (cases r) auto
  then show ?thesis using r(1) by (simp add: string_type_defs z_string_copy_from_substr_def)
qed

text \<open>\<open>Hash\<close> agrees with \<open>Eq\<close>: slices that compare equal hash equally.\<close>

lemma hash_respects_eq:
  "CSlice_eq s u h = ret True \<Longrightarrow> CSlice_hash hash_bytes s h st = CSlice_hash hash_bytes u h st"
  by (auto simp: CSlice_eq_def CSlice_hash_def bind_eq_Some_conv)

text \<open>A vector converted either way is the same slice.\<close>

lemma from_vec_agree: "CSlice_from_vec_u8 v h = CSlice_from_vec v h"
  by (simp add: slice_type_defs case_prod_unfold Let_def)

end
