(* ===== verification/BuildScript.thy ===== *)
theory BuildScript
  imports HeaderText
begin

text \<open>
  The build script: \<open>src/build.rs\<close>, the command line of \<open>produce_opaque_types_data\<close> (\<open>opaque_types_generator.rs\<close>)
  and \<open>features\<close> (\<open>common_helpers.rs\<close>). The environment is a map from names to texts, files are a map from
  paths to contents, and running the build of the opaque types, cbindgen and the header pipeline are composed as
  \<open>main\<close> composes them. Running cargo is the parameter \<open>run_cargo\<close>, from the command line to what it prints; what
  cbindgen makes of the opaque types is the parameter \<open>cbindgen\<close>. Copying directories and files for the dump of the
  sources is \<open>fs_extra\<close>'s, the parameters of the record \<open>dump_ops\<close>.
\<close>

type_synonym environment = "rstr \<Rightarrow> rstr option"

subsection \<open>Features\<close>

text \<open>\<open>str::split\<close> by a pattern: \<open>k\<close> characters of a match are still to be skipped, \<open>cur\<close> is the current piece,
  reversed.\<close>

fun split_loop :: "rstr \<Rightarrow> nat \<Rightarrow> rstr \<Rightarrow> rstr \<Rightarrow> rstr list" where
  "split_loop pat k cur [] = [rev cur]"
| "split_loop pat (Suc k) cur (c # s) = split_loop pat k cur s"
| "split_loop pat 0 cur (c # s) =
    (if starts_with pat (c # s) then rev cur # split_loop pat (length pat - 1) [] s
     else split_loop pat 0 (c # cur) s)"

text \<open>A \<open>BTreeSet\<close> of texts, as its sorted list.\<close>

fun str_less :: "rstr \<Rightarrow> rstr \<Rightarrow> bool" where
  "str_less s [] \<longleftrightarrow> False"
| "str_less [] (c # t') \<longleftrightarrow> True"
| "str_less (b # s) (c # t') \<longleftrightarrow> b < c \<or> b = c \<and> str_less s t'"

fun btree_insert :: "rstr \<Rightarrow> rstr list \<Rightarrow> rstr list" where
  "btree_insert x [] = [x]"
| "btree_insert x (y # ys) = (if x = y then y # ys else if str_less x y then x # y # ys else y # btree_insert x ys)"

definition features :: "rstr \<Rightarrow> rstr list" where
  "features FEATURES = fold btree_insert (split_loop (lit '' zenoh/'') 0 [] FEATURES) []"

subsection \<open>The command line\<close>

definition path_join :: "rstr \<Rightarrow> rstr \<Rightarrow> rstr" where
  "path_join d f = (if d = [] \<or> last d = 47 then d @ f else d @ [47] @ f)"

definition opaque_types_command :: "environment \<Rightarrow> rstr \<Rightarrow> rstr \<Rightarrow> rstr list run" where
  "opaque_types_command env FEATURES base = do {
     target \<leftarrow> env (lit ''TARGET'');
     let linker = (case env (lit ''RUSTC_LINKER'') of Some l \<Rightarrow> l | None \<Rightarrow> []);
     let manifest_path = path_join base (lit ''build-resources/opaque-types/Cargo.toml'');
     let linker_args = (if linker \<noteq> []
           then [lit ''--config'', lit ''target.'' @ target @ lit ''.linker=\"'' @ linker @ lit ''\"''] else []);
     let feature_args = [lit ''-F'', lit ''panic'']
           @ concat (map (\<lambda>f. [lit ''-F'', f]) (filter (\<lambda>f. f \<noteq> []) (features FEATURES)));
     let command = (case env (lit ''CARGO_COMMAND'') of
           Some c \<Rightarrow> if c \<noteq> [] then [c]
             else [lit ''cargo''] @ (case env (lit ''RUSTUP_TOOLCHAIN'') of Some tc \<Rightarrow> [lit ''+'' @ tc] | None \<Rightarrow> [])
         | None \<Rightarrow> [lit ''cargo''] @ (case env (lit ''RUSTUP_TOOLCHAIN'') of Some tc \<Rightarrow> [lit ''+'' @ tc] | None \<Rightarrow> []));
     out_dir \<leftarrow> env (lit ''OUT_DIR'');
     let target_dir = (case env (lit ''OPAQUE_TYPES_BUILD_DIR'') of
           Some d \<Rightarrow> d | None \<Rightarrow> path_join out_dir (lit ''build_resources/opaque_types''));
     ret (command @ [lit ''build'', lit ''--no-default-features''] @ feature_args @ linker_args
       @ [lit ''--color'', lit ''never'', lit ''--offline'', lit ''--target'', target,
          lit ''--manifest-path'', manifest_path, lit ''--target-dir'', target_dir])
   }"

subsection \<open>The build script\<close>

text \<open>\<open>fs::copy\<close> of the lock file; \<open>copy_ok\<close> tells whether it succeeds.\<close>

definition sync_opaque_types_lockfile :: "environment \<Rightarrow> rstr \<Rightarrow> bool \<Rightarrow> (rstr \<rightharpoonup> rstr) \<Rightarrow> ((rstr \<rightharpoonup> rstr) \<times> rstr list) run" where
  "sync_opaque_types_lockfile env base copy_ok fs = do {
     manifest_dir \<leftarrow> env (lit ''CARGO_MANIFEST_DIR'');
     let root_lock = path_join manifest_dir (lit ''Cargo.lock'');
     let opaque_lock = path_join (path_join base (lit ''build-resources/opaque-types'')) (lit ''Cargo.lock'');
     contents \<leftarrow> fs root_lock;
     if \<not> copy_ok then panic
     else ret (fs(opaque_lock \<mapsto> contents),
       [lit ''cargo:warning=Copying Cargo.lock from '' @ root_lock @ lit '' to '' @ opaque_lock,
        lit ''cargo:warning=Successfully copied Cargo.lock''])
   }"

definition soname :: "rstr \<Rightarrow> rstr" where
  "soname name = lit ''lib'' @ filter (\<lambda>c. c \<noteq> 45) name @ lit ''.so''"

definition rerun_lines :: "rstr list" where
  "rerun_lines =
    [lit ''cargo:rerun-if-changed=build.rs'', lit ''cargo:rerun-if-changed=buildrs'', lit ''cargo:rerun-if-changed=src'',
     lit ''cargo:rerun-if-changed=splitguide.yaml'', lit ''cargo:rerun-if-changed=cbindgen.toml'',
     lit ''cargo:rerun-if-changed=build-resources'', lit ''cargo:rerun-if-changed=include'', lit ''cargo:rerun-if-changed=Cargo.lock'']"

definition link_lines :: "environment \<Rightarrow> rstr list run" where
  "link_lines env =
    (if env (lit ''CARGO_CFG_TARGET_OS'') = Some (lit ''linux'')
     then do { name \<leftarrow> env (lit ''CARGO_PKG_NAME''); ret [lit ''cargo:rustc-cdylib-link-arg=-Wl,-soname,'' @ soname name] }
     else ret [])"

text \<open>\<open>Path::parent\<close> of a path without doubled slashes or one at its end: what comes before the last slash, the root of a path in
  the root, the empty path for a name, and nothing for the empty path and the root. A path is absolute when it
  starts with a slash.\<close>

definition path_parent :: "rstr \<Rightarrow> rstr option" where
  "path_parent p = (case dropWhile (\<lambda>c. c \<noteq> 47) (rev p) of
     [] \<Rightarrow> (if p = [] then None else Some [])
   | [_] \<Rightarrow> (if length p = 1 then None else Some [47])
   | _ # d \<Rightarrow> Some (rev d))"

text \<open>The directory of \<open>build.rs\<close>, for the path \<open>file!()\<close> and the current directory.\<close>

definition get_build_rs_path :: "rstr \<Rightarrow> rstr option \<Rightarrow> rstr run" where
  "get_build_rs_path file_path cwd =
    (let absolute_path = (if starts_with [47] file_path then file_path
           else (case cwd of Some d \<Rightarrow> path_join d file_path | None \<Rightarrow> file_path))
     in path_parent absolute_path)"

definition get_out_rs_path :: "environment \<Rightarrow> rstr run" where
  "get_out_rs_path env = env (lit ''OUT_DIR'')"

text \<open>The files, and what \<open>fs_extra\<close> and the file system do: creating the directories of a path, when it does not
  exist, may fail, and so may copying.\<close>

type_synonym files = "rstr \<rightharpoonup> rstr"

record dump_ops =
  path_exists :: "rstr \<Rightarrow> files \<Rightarrow> bool"
  create_dir_all :: "rstr \<Rightarrow> files \<Rightarrow> files run"
  copy_items :: "rstr list \<Rightarrow> rstr \<Rightarrow> files \<Rightarrow> files run"
  copy_file :: "rstr \<Rightarrow> rstr \<Rightarrow> files \<Rightarrow> files run"

definition dump_rust_sources :: "dump_ops \<Rightarrow> environment \<Rightarrow> rstr \<Rightarrow> rstr \<Rightarrow> files \<Rightarrow> files run" where
  "dump_rust_sources D env base out_path fs = do {
     let src_path = path_join base (lit ''src'');
     out_rs_path \<leftarrow> get_out_rs_path env;
     let opaque_types_src_path = path_join out_rs_path (lit ''opaque_types.rs'');
     fs \<leftarrow> (if \<not> path_exists D out_path fs then create_dir_all D out_path fs else ret fs);
     fs \<leftarrow> copy_items D [src_path] out_path fs;
     copy_file D opaque_types_src_path (path_join out_path (lit ''src/opaque_types/mod.rs'')) fs
   }"

text \<open>What the script leaves: the files, the text of \<open>opaque_types.rs\<close>, the headers, and the lines it printed.\<close>

record build_result =
  b_files :: files
  b_opaque :: rstr
  b_headers :: "rstr \<times> rstr \<times> out_files"
  b_printed :: "rstr list"

text \<open>The parameters of \<open>generate_c_headers\<close>, from the text cbindgen wrote.\<close>

type_synonym header_generator = "rstr \<Rightarrow> (rstr \<times> rstr \<times> out_files) run"

definition build_main ::
  "environment \<Rightarrow> rstr \<Rightarrow> rstr \<Rightarrow> rstr option \<Rightarrow> bool \<Rightarrow> (rstr list \<Rightarrow> rstr) \<Rightarrow> (rstr \<Rightarrow> rstr) \<Rightarrow> regex \<Rightarrow> rstr list
   \<Rightarrow> header_generator \<Rightarrow> dump_ops \<Rightarrow> files \<Rightarrow> build_result run" where
  "build_main env FEATURES file_path cwd copy_ok run_cargo cbindgen captures source headers D fs = do {
     base \<leftarrow> get_build_rs_path file_path cwd;
     (fs, printed) \<leftarrow> sync_opaque_types_lockfile env base copy_ok fs;
     out_rs_path \<leftarrow> get_out_rs_path env;
     command \<leftarrow> opaque_types_command env FEATURES base;
     opaque \<leftarrow> generate_opaque_types captures source (run_cargo command);
     let fs = fs(path_join out_rs_path (lit ''opaque_types.rs'') \<mapsto> opaque);
     hs \<leftarrow> headers (cbindgen opaque);
     fs \<leftarrow> (case env (lit ''ZENOHC_DUMP_SRC_DIR'') of
         Some out_path \<Rightarrow> dump_rust_sources D env base out_path fs
       | None \<Rightarrow> ret fs);
     link \<leftarrow> link_lines env;
     ret \<lparr>b_files = fs, b_opaque = opaque, b_headers = hs, b_printed = printed @ rerun_lines @ link\<rparr>
   }"

subsection \<open>Lemmas\<close>

lemma split_loop_skip: "k \<le> length s \<Longrightarrow> split_loop pat k cur s = split_loop pat 0 cur (drop k s)"
proof (induction k arbitrary: s)
  case (Suc k)
  then show ?case by (cases s) simp_all
qed simp

lemma split_loop_piece: "c \<notin> set f \<Longrightarrow> split_loop (c # pat) 0 cur (f @ s) = split_loop (c # pat) 0 (rev f @ cur) s"
  by (induction f arbitrary: cur) (auto simp: starts_with_def)

lemma split_loop_sep: "split_loop (c # pat) 0 cur ((c # pat) @ s) = rev cur # split_loop (c # pat) 0 [] s"
  using split_loop_skip [of "length pat" "pat @ s" "c # pat" "[]"] by (simp add: starts_with_def)

text \<open>The features come back from the text zenoh makes of them (\<open>features_text\<close> of theory \<open>Generics\<close>), with the empty
  piece before the first, which the command line filters out.\<close>

lemma split_features_text:
  assumes "\<forall>f \<in> set fs. 32 \<notin> set f"
  shows "split_loop (lit '' zenoh/'') 0 cur (features_text fs) = rev cur # fs"
  using assms
proof (induction fs arbitrary: cur)
  case (Cons f fs)
  let ?pat = "lit ''zenoh/''"
  have p: "lit '' zenoh/'' = 32 # ?pat" by simp
  have "features_text (f # fs) = (32 # ?pat) @ f @ features_text fs" by (simp add: features_text_def)
  then have "split_loop (lit '' zenoh/'') 0 cur (features_text (f # fs)) = rev cur # split_loop (32 # ?pat) 0 (rev f) (features_text fs)"
    using Cons.prems split_loop_piece [of 32 f ?pat "[]" "features_text fs"] unfolding p by (simp only: split_loop_sep) simp
  then show ?case using Cons unfolding p by simp
qed (simp add: features_text_def)

lemma btree_insert_set: "set (btree_insert x ys) = insert x (set ys)"
  by (induction ys) auto

lemma features_set: "set (features F) = set (split_loop (lit '' zenoh/'') 0 [] F)"
proof -
  have "set (fold btree_insert xs ys) = set xs \<union> set ys" for xs ys
    by (induction xs arbitrary: ys) (auto simp: btree_insert_set)
  then show ?thesis by (simp add: features_def)
qed

lemma str_less_trans: "str_less a b \<Longrightarrow> str_less b c \<Longrightarrow> str_less a c"
proof (induction a b arbitrary: c rule: str_less.induct)
  case (2 b t')
  then show ?case by (cases c) auto
next
  case (3 x s y t')
  then show ?case by (cases c) auto
qed simp

lemma str_less_linear: "a \<noteq> b \<Longrightarrow> \<not> str_less a b \<Longrightarrow> str_less b a"
proof (induction a b rule: str_less.induct)
  case (1 s)
  then show ?case by (cases s) auto
qed auto

lemma str_less_irrefl: "\<not> str_less a a"
  by (induction a) auto

lemma btree_insert_sorted: "sorted_wrt str_less ys \<Longrightarrow> sorted_wrt str_less (btree_insert x ys)"
proof (induction ys)
  case (Cons y ys)
  then show ?case using str_less_linear [of x y] by (auto simp: btree_insert_set intro: str_less_trans)
qed simp

lemma features_of_text: "\<forall>f \<in> set fs. 32 \<notin> set f \<Longrightarrow> set (features (features_text fs)) = insert [] (set fs)"
  by (simp add: features_set split_features_text del: lit_simps)

text \<open>Each feature is there once, in order, so \<open>-F\<close> names every feature once.\<close>

lemma features_sorted: "sorted_wrt str_less (features F) \<and> distinct (features F)"
proof -
  have "sorted_wrt str_less (fold btree_insert xs ys)" if "sorted_wrt str_less ys" for xs ys
    using that by (induction xs arbitrary: ys) (auto simp: btree_insert_sorted)
  then have s: "sorted_wrt str_less (features F)" by (simp add: features_def)
  moreover have "distinct zs" if "sorted_wrt str_less zs" for zs
    using that by (induction zs) (auto simp: str_less_irrefl)
  ultimately show ?thesis by blast
qed

lemma soname_no_hyphen: "45 \<notin> set (soname name)"
  by (simp add: soname_def)

lemma path_join_inj: "path_join d f = path_join d' f' \<Longrightarrow> f \<noteq> [] \<Longrightarrow> f' \<noteq> [] \<Longrightarrow> last f = last f'"
  by (drule arg_cong [where f = last]) (simp add: path_join_def split: if_splits)

text \<open>A build that succeeds without a dump ran on one lock file: the crate of the opaque types has the lock file
  of the root.\<close>

lemma build_locks_agree:
  assumes "build_main env F file cwd ok cargo cbindgen captures source headers D fs = ret r"
    and "env (lit ''CARGO_MANIFEST_DIR'') = Some d" "env (lit ''ZENOHC_DUMP_SRC_DIR'') = None"
    and "get_build_rs_path file cwd = ret base"
  shows "b_files r (path_join (path_join base (lit ''build-resources/opaque-types'')) (lit ''Cargo.lock''))
      = fs (path_join d (lit ''Cargo.lock''))"
proof -
  have "path_join (path_join base (lit ''build-resources/opaque-types'')) (lit ''Cargo.lock'') \<noteq> path_join out (lit ''opaque_types.rs'')" for out
    using path_join_inj [of _ "lit ''Cargo.lock''" _ "lit ''opaque_types.rs''"] by auto
  then show ?thesis using assms
    by (auto simp: build_main_def sync_opaque_types_lockfile_def Let_def bind_eq_Some_conv simp del: lit_simps split: if_splits)
qed

text \<open>A dump contains the opaque types this build generated, for a \<open>copy_file\<close> that copies, and a \<open>copy_items\<close> that does
  not touch the build's output.\<close>

lemma build_dumps_opaque_types:
  assumes "build_main env F file cwd ok cargo cbindgen captures source headers D fs = ret r"
    and "env (lit ''ZENOHC_DUMP_SRC_DIR'') = Some out" "env (lit ''OUT_DIR'') = Some o'"
    and "\<And>src dst fs fs'. copy_file D src dst fs = ret fs' \<Longrightarrow> fs' dst = fs src"
    and "\<And>xs fs fs'. copy_items D xs out fs = ret fs' \<Longrightarrow>
      fs' (path_join o' (lit ''opaque_types.rs'')) = fs (path_join o' (lit ''opaque_types.rs''))"
    and "\<And>fs fs'. create_dir_all D out fs = ret fs' \<Longrightarrow> fs' = fs"
  shows "b_files r (path_join out (lit ''src/opaque_types/mod.rs'')) = Some (b_opaque r)"
  using assms(1-3)
  by (auto simp: build_main_def dump_rust_sources_def get_out_rs_path_def Let_def bind_eq_Some_conv simp del: lit_simps
      split: if_splits dest!: assms(4,5,6))

end
