(* ===== verification/Journey.thy ===== *)
theory Journey
  imports Bytes Samples Channels Queryables
begin

text \<open>
  Whole exchanges: from a put to a subscriber that reads the sample, and from a query through a queryable to the
  reply. They compose payloads (theory \<open>Bytes\<close>), put (\<open>Publication\<close>), subscribers (\<open>Subscribers\<close>), queries and
  queryables (\<open>Queries\<close>, \<open>Queryables\<close>), closures and channels (\<open>ClosureTypes\<close>, \<open>Channels\<close>) and the
  accessors of samples (\<open>Samples\<close>). The network between the builder that a call runs and what the callback at the
  other end gets is zenoh's; what it is documented to keep are the hypotheses \<open>delivers\<close>, \<open>asks\<close> and \<open>answers\<close>.
\<close>

subsection \<open>What zenoh delivers\<close>

text \<open>A sample carries a key expression, a payload and settings: its attachment and timestamp are those among the
  settings, and every other setting is found in it.\<close>

definition sample_carries ::
  "('s, 'k, 'e, 'b, 't, 'i) sample_ops \<Rightarrow> 'k \<Rightarrow> 'b \<Rightarrow> ('b, 'e, 't, 'i) setting list \<Rightarrow> 's \<Rightarrow> bool" where
  "sample_carries M k pl ss s \<longleftrightarrow> sm_kind M s = SampleKind_Put \<and> sm_key_expr M s = k \<and> sm_payload M s = pl
     \<and> set_option (sm_attachment M s) = {a. SAttachment a \<in> set ss}
     \<and> set_option (sm_timestamp M s) = {t. STimestamp t \<in> set ss}
     \<and> (\<forall>e. SEncoding e \<in> set ss \<longrightarrow> sm_encoding M s = e)
     \<and> (\<forall>p. SPriority p \<in> set ss \<longrightarrow> sm_priority M s = p)
     \<and> (\<forall>c. SCongestionControl c \<in> set ss \<longrightarrow> sm_congestion_control M s = c)
     \<and> (\<forall>x. SExpress x \<in> set ss \<longrightarrow> sm_express M s = x)
     \<and> (\<forall>r. SReliability r \<in> set ss \<longrightarrow> sm_reliability M s = r)"

text \<open>The sample of a put.\<close>

definition delivers ::
  "('s, 'k, 'e, 'b, 't, 'i) sample_ops \<Rightarrow> ('k, 'b, 'e, 't, 'i) builder \<Rightarrow> 's \<Rightarrow> bool" where
  "delivers M bld s = (case bld of PutB (Some k) pl ss \<Rightarrow> sample_carries M k pl ss s | _ \<Rightarrow> False)"

text \<open>The query a queryable gets for a get: the key expression, the text of the parameters in the queryable's
  memory \<open>h\<close>, and the payload, encoding, attachment, source and accepted replies among the settings.\<close>

definition asks ::
  "('y, 'k, 'b, 'e, 'i) query_ops \<Rightarrow> heap \<Rightarrow> ('k, 'q, 'b, 'e, 'i, 't, 'qc) qbuilder \<Rightarrow> 'y \<Rightarrow> bool" where
  "asks Y h bld q = (case bld of
     GetB k p cb ss \<Rightarrow> qy_key_expr Y q = k
       \<and> from_raw_parts (fst (qy_parameters Y q)) (unat (snd (qy_parameters Y q))) h = ret p
       \<and> set_option (qy_payload Y q) = {b. QPayload b \<in> set ss}
       \<and> set_option (qy_encoding Y q) = {e. QEncoding e \<in> set ss}
       \<and> set_option (qy_attachment Y q) = {b. QAttachment b \<in> set ss}
       \<and> set_option (qy_source_info Y q) = {i. QSourceInfo i \<in> set ss}
       \<and> (\<forall>r. QAcceptReplies r \<in> set ss \<longrightarrow> qy_accepts_replies Y q = r)
   | _ \<Rightarrow> False)"

text \<open>The reply a getter gets: the sample of a reply, or the error with its payload and encoding.\<close>

definition answers ::
  "('s, 'k, 'e, 'b, 't, 'i) sample_ops \<Rightarrow> ('x, 'b, 'e) reply_err_ops \<Rightarrow> ('r, 's, 'x, 'g) reply_ops
   \<Rightarrow> ('q, 'k, 'b, 'e, 't, 'i) reply_builder \<Rightarrow> 'r \<Rightarrow> bool" where
  "answers M E R bld r = (case bld of
     ReplyB q k pl ss \<Rightarrow> (case rp_result R r of Inr s \<Rightarrow> sample_carries M k pl ss s | Inl _ \<Rightarrow> False)
   | ReplyErrB q pl e \<Rightarrow> (case rp_result R r of Inl x \<Rightarrow> re_payload E x = pl \<and> re_encoding E x = e | Inr _ \<Rightarrow> False)
   | ReplyDelB q k ss \<Rightarrow> (case rp_result R r of
       Inr s \<Rightarrow> sm_kind M s = SampleKind_Delete \<and> sm_key_expr M s = k | Inl _ \<Rightarrow> False))"

subsection \<open>Samples\<close>

lemma set_option_inject: "set_option x = set_option y \<Longrightarrow> x = y"
  by (cases x; cases y) auto

text \<open>What a subscriber reads from the sample of a put.\<close>

lemma delivered_settings:
  assumes "z_put gb ge wait k payload (Some opts) os = (r, os', opts', bld)" "put_attachment opts \<noteq> Some payload"
    and "delivers M bld s"
  shows "z_sample_kind M s = SK_PUT \<and> z_sample_keyexpr M s = k \<and> z_sample_payload M s = bytes_at os payload
    \<and> z_sample_attachment M s = map_option (bytes_at os) (put_attachment opts)
    \<and> z_sample_timestamp M s = put_timestamp opts
    \<and> (\<forall>a. put_encoding opts = Some a \<longrightarrow> z_sample_encoding M s = enc_at os a)
    \<and> z_sample_priority M s = put_priority opts \<and> z_sample_congestion_control M s = put_congestion_control opts
    \<and> z_sample_express M s = put_is_express opts \<and> z_sample_reliability M s = put_reliability opts"
proof -
  obtain ss where b: "bld = PutB (Some k) (bytes_at os payload) ss"
    and ss: "set ss = {SPriority (z_priority_to_rust (put_priority opts)),
        SCongestionControl (z_congestion_control_to_rust (put_congestion_control opts)),
        SExpress (put_is_express opts),
        SAllowedDestination (z_locality_to_rust (put_allowed_destination opts)),
        SReliability (z_reliability_to_rust (put_reliability opts))}
      \<union> (SEncoding \<circ> enc_at os) ` set_option (put_encoding opts)
      \<union> (SAttachment \<circ> bytes_at os) ` set_option (put_attachment opts)
      \<union> STimestamp ` set_option (put_timestamp opts)
      \<union> SSourceInfo ` set_option (put_source_info opts)"
    using z_put_builder [OF assms(1,2)] by blast
  have d: "sm_kind M s = SampleKind_Put" "sm_key_expr M s = k" "sm_payload M s = bytes_at os payload"
      "set_option (sm_attachment M s) = {a. SAttachment a \<in> set ss}" "set_option (sm_timestamp M s) = {t. STimestamp t \<in> set ss}"
      "\<forall>e. SEncoding e \<in> set ss \<longrightarrow> sm_encoding M s = e" "\<forall>p. SPriority p \<in> set ss \<longrightarrow> sm_priority M s = p"
      "\<forall>c. SCongestionControl c \<in> set ss \<longrightarrow> sm_congestion_control M s = c" "\<forall>x. SExpress x \<in> set ss \<longrightarrow> sm_express M s = x"
      "\<forall>r. SReliability r \<in> set ss \<longrightarrow> sm_reliability M s = r"
    using assms(3) unfolding delivers_def b by (simp_all add: sample_carries_def)
  have "set_option (sm_attachment M s) = set_option (map_option (bytes_at os) (put_attachment opts))"
    unfolding d(4) ss by auto
  then have att: "sm_attachment M s = map_option (bytes_at os) (put_attachment opts)" by (rule set_option_inject)
  have "set_option (sm_timestamp M s) = set_option (put_timestamp opts)" unfolding d(5) ss by auto
  then have ts: "sm_timestamp M s = put_timestamp opts" by (rule set_option_inject)
  have "sm_priority M s = z_priority_to_rust (put_priority opts)" "sm_express M s = put_is_express opts"
      "sm_congestion_control M s = z_congestion_control_to_rust (put_congestion_control opts)"
      "sm_reliability M s = z_reliability_to_rust (put_reliability opts)"
    using d(7-10) unfolding ss by simp_all
  moreover have "\<forall>a. put_encoding opts = Some a \<longrightarrow> sm_encoding M s = enc_at os a" using d(6) unfolding ss by simp
  ultimately show ?thesis using att ts d(1-3) sample_reads_put_settings [of M s opts]
    by (simp add: z_sample_kind_def z_sample_keyexpr_def z_sample_payload_def z_sample_attachment_def z_sample_timestamp_def
        z_sample_encoding_def z_sample_express_def split: option.splits)
qed

text \<open>What a getter reads from the sample of a reply.\<close>

lemma replied_settings:
  assumes "sample_carries M k pl ss s"
    and "set ss = {SExpress x} \<union> (SEncoding \<circ> f) ` set_option enc \<union> (SAttachment \<circ> g) ` set_option att
      \<union> STimestamp ` set_option ts \<union> SSourceInfo ` set_option si"
  shows "z_sample_kind M s = SK_PUT \<and> z_sample_keyexpr M s = k \<and> z_sample_payload M s = pl
    \<and> z_sample_attachment M s = map_option g att \<and> z_sample_timestamp M s = ts \<and> z_sample_express M s = x
    \<and> (\<forall>a. enc = Some a \<longrightarrow> z_sample_encoding M s = f a)"
proof -
  note d = assms(1) [unfolded sample_carries_def]
  have "set_option (sm_attachment M s) = set_option (map_option g att)" using d unfolding assms(2) by auto
  then have att: "sm_attachment M s = map_option g att" by (rule set_option_inject)
  have "set_option (sm_timestamp M s) = set_option ts" using d unfolding assms(2) by auto
  then have ts: "sm_timestamp M s = ts" by (rule set_option_inject)
  have "sm_express M s = x" "\<forall>a. enc = Some a \<longrightarrow> sm_encoding M s = f a" using d unfolding assms(2) by simp_all
  then show ?thesis using d att ts
    by (simp add: z_sample_kind_def z_sample_keyexpr_def z_sample_payload_def z_sample_attachment_def z_sample_timestamp_def
        z_sample_encoding_def z_sample_express_def split: option.splits)
qed

subsection \<open>Queries\<close>

lemma set_opt_setting: "set (opt_setting f x) = f ` set_option x"
  by (cases x) (simp_all add: opt_setting_def)

text \<open>The settings a get applies, for a payload and an attachment that are two objects.\<close>

lemma get_settings:
  assumes "get_payload opts = None \<or> get_attachment opts \<noteq> get_payload opts"
  shows "set (fst (apply_get_options gb ge Q opts os))
    = (QPayload \<circ> bytes_at os) ` set_option (get_payload opts) \<union> (QEncoding \<circ> enc_at os) ` set_option (get_encoding opts)
      \<union> QSourceInfo ` set_option (get_source_info opts) \<union> (QAttachment \<circ> bytes_at os) ` set_option (get_attachment opts)
      \<union> {QConsolidation (z_query_consolidation_to_rust Q (get_consolidation opts)),
         QTarget (z_query_target_to_rust (get_target opts)),
         QCongestionControl (z_congestion_control_to_rust (get_congestion_control opts)),
         QPriority (z_priority_to_rust (get_priority opts)), QExpress (get_is_express opts),
         QAllowedDestination (z_locality_to_rust (get_allowed_destination opts)),
         QAcceptReplies (z_reply_keyexpr_to_rust (get_accept_replies opts))}
      \<union> set (timeout_setting (get_timeout_ms opts))
      \<union> QCancellationToken ` set_option (Option.bind (get_cancellation_token opts) (token_at os))"
  using assms
  by (cases "get_payload opts"; cases "get_encoding opts"; cases "get_attachment opts"; cases "get_cancellation_token opts")
     (auto simp: apply_get_options_def query_take_defs set_opt_setting Let_def)

text \<open>What a queryable reads from the query of a get.\<close>

lemma asked_settings:
  assumes "asks Y h' (GetB k p cb (fst (apply_get_options gb ge Q opts os))) q"
    and "get_payload opts = None \<or> get_attachment opts \<noteq> get_payload opts"
  shows "z_query_keyexpr Y q = k \<and> z_query_payload Y q = map_option (bytes_at os) (get_payload opts)
    \<and> z_query_encoding Y q = map_option (enc_at os) (get_encoding opts)
    \<and> z_query_attachment Y q = map_option (bytes_at os) (get_attachment opts)
    \<and> z_query_source_info Y q = get_source_info opts \<and> z_query_accepts_replies Y q = get_accept_replies opts"
proof -
  note d = assms(1) [unfolded asks_def qbuilder.case get_settings [OF assms(2)]]
  note t = timeout_setting_def
  have "set_option (qy_payload Y q) = set_option (map_option (bytes_at os) (get_payload opts))" using d by (auto simp: t)
  then have pl: "qy_payload Y q = map_option (bytes_at os) (get_payload opts)" by (rule set_option_inject)
  have "set_option (qy_encoding Y q) = set_option (map_option (enc_at os) (get_encoding opts))" using d by (auto simp: t)
  then have enc: "qy_encoding Y q = map_option (enc_at os) (get_encoding opts)" by (rule set_option_inject)
  have "set_option (qy_attachment Y q) = set_option (map_option (bytes_at os) (get_attachment opts))" using d by (auto simp: t)
  then have att: "qy_attachment Y q = map_option (bytes_at os) (get_attachment opts)" by (rule set_option_inject)
  have "set_option (qy_source_info Y q) = set_option (get_source_info opts)" using d by (auto simp: t)
  then have si: "qy_source_info Y q = get_source_info opts" by (rule set_option_inject)
  have "qy_accepts_replies Y q = z_reply_keyexpr_to_rust (get_accept_replies opts)" using d by simp
  then show ?thesis using d pl enc att si
    by (cases "get_accept_replies opts")
       (simp_all add: z_query_keyexpr_def z_query_payload_def z_query_encoding_def z_query_attachment_def
          z_query_source_info_def z_query_accepts_replies_def)
qed

text \<open>The parameters that a queryable reads are the bytes of the text the getter passed.\<close>

lemma asked_parameters:
  assumes "asks Y h' (GetB k p cb ss) q"
  shows "CSlice_slice (z_query_parameters Y q) h' = ret p"
proof (cases "qy_parameters Y q")
  case (Pair x n)
  then have r: "from_raw_parts x (unat n) h' = ret p" using assms by (simp add: asks_def)
  then have "\<not> is_null x" "n = 0 \<longrightarrow> p = []" by (auto simp: from_raw_parts_def split: if_splits)
  then show ?thesis using Pair r
    by (auto simp: z_query_parameters_def z_view_string_from_substr_def cslice_defs CSlice_slice_def)
qed

lemma get_runs:
  assumes "z_get_with_parameters_substr gb ge Q wait k params n callback (Some opts) os h tr = ret out" "ran out = Some b"
  shows "(\<exists>p. borrowed_str params n h = ret (Inr p) \<and> b = GetB k p callback (fst (apply_get_options gb ge Q opts os)))
    \<and> objs_after out = snd (snd (apply_get_options gb ge Q opts os))
    \<and> opts_after out = Some (get_options_taken opts) \<and> slot_after out = closure_default"
proof -
  obtain r where r: "borrowed_str params n h = ret r"
    using assms(1) by (cases "borrowed_str params n h")
      (simp_all add: z_get_with_parameters_substr_def closure_take_c_type_def mem_replace_def)
  then show ?thesis using assms
    by (cases r) (auto simp: z_get_with_parameters_substr_def closure_take_c_type_def mem_replace_def map_opts_def
        split_beta Let_def apply_get_opts bind_eq_Some_conv)
qed

text \<open>An error reply arrives as one, with its payload and encoding.\<close>

lemma answered_error:
  assumes "z_query_reply_err gb ge wait q payload options os = (rc, os', options', b)" "answers M E R b r"
  shows "\<not> z_reply_is_ok R r \<and> (\<exists>x. z_reply_err R r = Some x \<and> z_reply_err_payload E x = bytes_at os payload
    \<and> z_reply_err_encoding E x
        = (case Option.bind options rerr_encoding of Some a \<Rightarrow> enc_at os a | None \<Rightarrow> ge))"
  using assms
  by (cases "Option.bind options rerr_encoding"; cases "rp_result R r")
     (auto simp: z_query_reply_err_def take_defs answers_def z_reply_is_ok_def z_reply_err_def z_reply_err_payload_def
        z_reply_err_encoding_def Let_def)

subsection \<open>Channels\<close>

text \<open>A subscriber declared with the closure of a channel: its callback calls the channel's sender with the
  channel's context.\<close>

lemma channel_subscriber_calls:
  assumes "z_fifo_channel_sample_new into_handler box send_fn drop_handler cap = (c, hnd)"
    and "declare_subscriber_inner k c options = (SubscriberB k cb allowed, c')"
  shows "sample_callback cb s [] = [Called send_fn s (box (fst (into_handler cap)))] \<and> c' = closure_default"
  using assms
  by (auto simp: z_fifo_channel_sample_new_def channel_new_def declare_subscriber_inner_def closure_take_c_type_def mem_replace_def
      sample_callback_def z_closure_sample_call_def z_closure_sample_loan_def closure_call_def Let_def split: prod.splits)

text \<open>A queryable and a query with the closure of a channel.\<close>

lemma channel_queryable_calls:
  assumes "z_fifo_channel_query_new into_handler box send_fn drop_handler cap = (c, hnd)"
    and "declare_queryable_inner k c options = (QueryableB k cb opts, c')"
  shows "query_callback cb q [] = [Called send_fn q (box (fst (into_handler cap)))] \<and> c' = closure_default"
  using assms
  by (auto simp: z_fifo_channel_query_new_def channel_new_def declare_queryable_inner_def closure_take_c_type_def mem_replace_def
      query_callback_def z_closure_query_call_def z_closure_query_loan_def closure_call_def Let_def split: prod.splits)

lemma channel_reply_calls:
  assumes "z_fifo_channel_reply_new into_handler box send_fn drop_handler cap = (c, hnd)"
  shows "reply_callback c r [] = [Called send_fn r (box (fst (into_handler cap)))]"
  using assms
  by (auto simp: z_fifo_channel_reply_new_def channel_new_def reply_callback_def z_closure_reply_call_def
      z_closure_reply_loan_def closure_call_def Let_def split: prod.splits)

text \<open>What the sender of a channel that is a queue gives to its receiver, for the three payloads.\<close>

lemma channel_hands_over:
  assumes "\<And>x h. queue (push x h) = queue h @ [x]"
    and "\<And>h. try_recv h = (case queue h of [] \<Rightarrow> (Some None, h) | x # _ \<Rightarrow> (Some (Some x), pop h))"
    and "queue h = []"
  shows "z_handler_sample_send push (Some s) h = ret (None, push s h)"
    and "z_fifo_handler_sample_try_recv try_recv (push s h) = ((Z_OK, Some s), pop (push s h))"
    and "z_handler_query_send push (Some s) h = ret (None, push s h)"
    and "z_fifo_handler_query_try_recv try_recv (push s h) = ((Z_OK, Some s), pop (push s h))"
    and "z_handler_reply_send push (Some s) h = ret (None, push s h)"
    and "z_fifo_handler_reply_try_recv try_recv (push s h) = ((Z_OK, Some s), pop (push s h))"
  using assms
  by (simp_all add: z_handler_sample_send_def z_handler_query_send_def z_handler_reply_send_def handler_send_def mem_replace_def
      z_fifo_handler_sample_try_recv_def z_fifo_handler_query_try_recv_def z_fifo_handler_reply_try_recv_def
      fifo_handler_try_recv_def)

subsection \<open>Payloads\<close>

text \<open>The bytes of a payload that was copied from a buffer.\<close>

lemma copied_bytes:
  assumes "payload_reads_slices Z" "from_raw_parts (Ptr b off) (unat l) h = ret bs" "heap_ok h" "blocks h b \<noteq> None"
    and "z_bytes_copy_from_buf Z (Ptr b off) l h = ret (r, z, h')"
  shows "r = Z_OK \<and> (\<exists>s h''. z_bytes_to_slice Z z (h'\<lparr>blocks := (blocks h')(b := None)\<rparr>) = ret (Z_OK, s, h'') \<and> CSlice_slice s h'' = ret bs)"
  using copied_payload_reads [OF assms(1-4)] assms(5) by auto

end
