(* ===== verification/Spec2Isabelle.thy ===== *)
theory Spec2Isabelle
  imports SplitRules Preprocess SliceMachine Sync Channels Commons Clock Generics Serialization Sessions Lifecycle KeyExprs
    Encodings Info ShmSharing Samples Platform HeaderText StandIns StringTypes BuildScript Journey
begin

text \<open>
  A verification library for zenoh-c, the C binding of the Zenoh protocol, written in Rust. File names are
  relative to the repository; \<open>src/collections.rs\<close> is the file of that name in the crate's \<open>src\<close>.

  \<^bold>\<open>The program.\<close> zenoh-c has three parts. The \<^emph>\<open>crate\<close> (\<open>src/\<close>) exports C functions over objects of the Rust
  library zenoh: slices and strings, payloads, key expressions, encodings, sessions, the entities declared on
  a session (publishers, subscribers, queryables, queriers, liveliness tokens, listeners), queries and replies, shared memory, and
  a few services of the platform. Every object the C program owns sits in a slot with a gravestone
  value, is passed as moved, loaned or viewed, and is given up once. The \<^emph>\<open>build\<close> (\<open>build.rs\<close>, \<open>buildrs/\<close>) compiles a crate
  (\<open>build-resources/opaque-types\<close>) to learn the layout of every opaque type, writes the C structures and
  the code of their ownership, and turns what cbindgen wrote into the headers of \<open>include/\<close>. The \<^emph>\<open>macros\<close> of \<open>src/transmute.rs\<close>
  connect the two: they tie each C type to its Rust type and check that the layouts agree.

  \<^bold>\<open>How the code is modelled.\<close> A function of the source is a definition of the same name. State is passed
  explicitly: the memory (\<open>heap\<close>: blocks, and a log of the deleters called), slots, the caller's objects at addresses, the
  trace of calls of the program's functions, the reference counts of shared memory. A computation that may panic or be undefined
  behaviour has type \<open>'a run\<close>, which is \<open>option\<close> with \<open>ret\<close> and \<open>panic\<close>: that a call returns is always part of what a theorem
  says. Result codes are those of \<open>src/result.rs\<close>; an output that a path leaves unwritten is visible as such.
  Integers have the width of the source; \<open>usize\<close> has 64 bits. All features of the crate are taken to be on unless a
  theory says otherwise. Logging of errors is left out.

  \<^bold>\<open>What is a parameter.\<close> zenoh and the other crates are not in the repository. A function of theirs is an argument of the
  definitions that use it, one by one or as the fields of a record of operations (\<open>zbytes_ops\<close>, \<open>keyexpr_ops\<close>,
  \<open>encoding_ops\<close>, \<open>config_ops\<close>, \<open>sample_ops\<close>, \<open>query_ops\<close>, \<open>shm_ops\<close>, \<dots>). A builder is the list of the settings applied to
  it, and running it (\<open>wait\<close>) is an argument that sees exactly this list. What a theorem needs of such a parameter is
  a hypothesis that states its documented behaviour, and the theorem's witness gives a concrete function for
  which it holds: that a payload reads the slices it was made of (\<open>payload_reads_slices\<close>), that a channel is a queue, that a
  sample, a query or a reply carries what its builder had (\<open>delivers\<close>, \<open>asks\<close>, \<open>answers\<close>), that matches of a regular
  expression are in order and on character boundaries (\<open>finds\<close>), that what a serializer wrote is read back when the same types are asked
  for in the same order (\<open>serde_contract\<close>; the format carries no types), that the accessors of a new encoding return its parts.

  \<^bold>\<open>The theories.\<close> Common to all:

  \<^item> \<open>Prelude\<close>: the type \<open>run\<close>, the integers, \<open>utf8_valid\<close>, generic lemmas, the collections \<open>run_simps\<close> and \<open>api_defs\<close>.
  \<^item> \<open>ResultCodes\<close> (\<open>src/result.rs\<close>): the codes and the buffer of the last error.
  \<^item> \<open>Memory\<close> (\<open>src/lib.rs\<close>): pointers, blocks, deleters; \<open>strlen_or_zero\<close> and \<open>copy_to_c_array\<close>, which writes the common prefix and
    nothing else.
  \<^item> \<open>Ownership\<close> (\<open>src/transmute.rs\<close>, code written by the build): take, drop and gravestones. The locale
    \<open>gravestone\<close> is the contract of the trait \<open>Gravestone\<close>; it is interpreted for options, slices, strings, string arrays and closures, and
    every kind of entity is a \<open>gravestone\<close> by a \<open>sublocale\<close>.
  \<^item> \<open>RustStr\<close>: Rust's \<open>str\<close> with byte offsets, for the build; slicing at offsets the scripts compute never panics.

  Values:

  \<^item> \<open>Slices\<close>, \<open>SliceMachine\<close>, \<open>StringTypes\<close> (\<open>src/collections.rs\<close>): slices, strings and string arrays; whole
    programs over them, with the invariant that every block has one owner and every deleter is called once; the newtypes.
  \<^item> \<open>Bytes\<close> (\<open>src/zbytes.rs\<close>): payloads, their readers, writers and iterators; copying into a payload and out of it is a
    round trip; \<open>Serialization\<close> (\<open>src/serialization.rs\<close>): serializers and deserializers, with their round trip.
  \<^item> \<open>KeyExprs\<close> (\<open>src/keyexpr.rs\<close>): key expressions over memory; canonizing in place stays in bounds.
  \<^item> \<open>Encodings\<close> (\<open>src/encoding.rs\<close>): encodings and their schemas, the predefined ones; taking one apart and putting it together
    again keeps the identifier and every schema but an empty one.
  \<^item> \<open>Commons\<close>, \<open>Samples\<close> (\<open>src/commons.rs\<close>): the enumerations with their discriminants and conversions, which are
    inverse to each other, and samples, timestamps and sources. Severities of the log are a \<open>linorder\<close>.

  Functions of the program and the platform:

  \<^item> \<open>Closures\<close>, \<open>ClosureTypes\<close> (\<open>src/closures/*_closure.rs\<close>): the twelve closure types and the guarantee that no call follows
    the start of the drop; closures made of Rust closures.
  \<^item> \<open>Channels\<close> (\<open>src/closures/*_channel.rs\<close>): fifo and ring channels for samples, queries and replies; every
    handler is a faithful front of its channel, whatever the channel does.
  \<^item> \<open>Sync\<close> (\<open>src/platform/synchronization.rs\<close>): mutexes, condition variables and tasks, as interleaved atomic steps.
  \<^item> \<open>Clock\<close> (\<open>src/platform/clock.rs\<close>); \<open>Platform\<close> (\<open>random.rs\<close>, \<open>sleep.rs\<close>, \<open>src/shm/cleanup.rs\<close>, the logging functions and the guard of the
    runtimes of \<open>src/lib.rs\<close>).

  Sessions and entities:

  \<^item> \<open>Sessions\<close> (\<open>src/config.rs\<close>, \<open>session.rs\<close>, \<open>close.rs\<close>, \<open>cancellation_token.rs\<close>); the text of a configuration goes through
    the C functions unchanged.
  \<^item> \<open>Entities\<close>: the locale \<open>entity_kind\<close>, the contract of everything that is declared and undeclared, and programs over one kind.
    The kinds are interpreted where their functions are: \<open>Subscribers\<close> (\<open>src/subscriber.rs\<close>, \<open>matching.rs\<close>, \<open>liveliness.rs\<close>),
    \<open>Publication\<close> (\<open>src/put.rs\<close>, \<open>publisher.rs\<close>), \<open>Queries\<close> (\<open>src/get.rs\<close>, \<open>querier.rs\<close>), \<open>Queryables\<close> (\<open>src/queryable.rs\<close>),
    \<open>AdvancedPublication\<close> (\<open>src/advanced_publisher.rs\<close>, \<open>publication_cache.rs\<close>), \<open>AdvancedSubscription\<close>
    (\<open>src/advanced_subscriber.rs\<close>, \<open>querying_subscriber.rs\<close>) and \<open>Info\<close> (\<open>src/info.rs\<close>). \<open>Lifecycle\<close> puts the seventeen kinds
    together: an entity that was granted is in one slot or was undeclared once, and a program whose slots start with the null value
    can always give everything back.
  \<^item> The same theories have what a put, a get and a reply send and what they consume; a get through a querier is
    a get on the session.
  \<^item> \<open>Info\<close> (\<open>src/info.rs\<close>, \<open>scouting.rs\<close>): identifiers, transports, links and their listeners, scouting.
  \<^item> \<open>Journey\<close>: lemmas on whole exchanges, for the two theorems of this theory.

  Shared memory:

  \<^item> \<open>ShmTypes\<close> (\<open>src/context.rs\<close>, \<open>src/shm/common/types.rs\<close>, \<open>src/shm/provider/chunk.rs\<close>, \<open>types.rs\<close>, \<open>shm_provider_backend.rs\<close>), \<open>ShmProviders\<close> (the other
    files of \<open>src/shm/provider\<close>), \<open>ShmClients\<close> (\<open>src/shm/buffer\<close>, \<open>client\<close>, \<open>client_storage\<close>): contexts and callbacks of the program, allocation under
    every policy, synchronous or not, and clients shared by reference counting.
  \<^item> \<open>ShmSharing\<close>: whole programs; the context of a client is deleted exactly when the last reference is gone.

  Declarations and the build:

  \<^item> \<open>Transmute\<close> (\<open>src/transmute.rs\<close>): the declaration macros as an inductive expansion; a declaration that compiles has sound
    conversions. \<open>Declarations\<close>: every invocation in the sources.
  \<^item> \<open>OpaqueTypes\<close> (\<open>buildrs/opaque_types_generator.rs\<close>), \<open>OpaqueCrate\<close>, \<open>StandIns\<close> (\<open>build-resources/opaque-types/src/lib.rs\<close>):
    the generator of the C structures, and the crate it measures. This crate and the declarations are about the same
    C types, and the types with which it stands in for those of shared memory have their shape.
  \<^item> \<open>SplitGuide\<close>, \<open>SplitRules\<close> (\<open>buildrs/splitguide.rs\<close>): the tokenizer, the records and the files they go to; nothing is lost.
  \<^item> \<open>Preprocess\<close>, \<open>HeaderText\<close> (\<open>buildrs/cbindgen_generator.rs\<close>): the passes over the header and their pipeline; \<open>Generics\<close>
    (the same file, and \<open>buildrs/common_helpers.rs\<close>): \<open>zenoh_macros.h\<close> and the configuration header.
  \<^item> \<open>BuildScript\<close> (\<open>build.rs\<close>): the steps of the build.

  \<^bold>\<open>Termination.\<close> No definition has fuel. The loops of the source that consume a text (\<open>str_replace\<close>, \<open>group_loop\<close>, \<open>tokenise\<close>) are
  functions with a measure, the length of the text that is left; that each token is a non-empty prefix is
  what the proofs rest on. Everything else is structural. Programs (sequences of calls, interleavings of threads) are
  inductive relations of any length. The split counts nesting in an \<open>i32\<close>, which is an \<open>int\<close> here: it is bounded by the number of
  tokens of one header.

  \<^bold>\<open>Not modelled.\<close>

  \<^item> The inside of zenoh, of its extension and of other crates, and with them the network: there are no
    theorems about routing, discovery or timing.
  \<^item> Calls of one closure by several threads at once, and the memory model of the machine. The only concurrency is that of mutexes and
    condition variables, where it is the subject.
  \<^item> In the build: running cargo, the compiler and cbindgen; locking, deleting and formatting files.
  \<^item> Texts of error and log messages, and trait implementations the compiler derives (\<open>Debug\<close>, \<open>Clone\<close>), unless the program
    observes them.

  \<^bold>\<open>Where model and documentation part.\<close> Some lemmas state what the code does where its documentation or a sibling function
  does otherwise; among them are \<open>querying_get_ignores_token\<close>, \<open>liveliness_get_zero_timeout\<close>, \<open>advanced_put_drops_source_info\<close>,
  \<open>serialize_null_str_undefined\<close>, \<open>test_feature_prefix\<close>, \<open>process_feature_defines_ifndef\<close>, \<open>string_from_null_is_ok\<close> and
  \<open>events_listener_error_leaves_slot\<close>. Theory \<open>Encodings\<close> shows which schemas are lost on the way through the encoding data, theory
  \<open>ShmTypes\<close> when the backend reads a result that its callback has not written.

  \<^bold>\<open>This theory\<close> has the two properties that span components: what is put is what a subscriber reads, and a query
  is answered.
\<close>

text \<open>C10: what is put is what is read. A program copies a buffer into a payload, puts it, and may then
  release the buffer; a subscriber was declared with the closure of a fifo channel. If zenoh delivers the put (what
  the hypothesis \<open>delivers\<close> says) and the channel is a queue, then the payload's slot is empty after the put, the
  subscriber's callback calls the channel's sender with the channel's context and the sample, the receiver gets that
  sample with \<open>Z_OK\<close>, its accessors return the key expression, attachment, timestamp, encoding and quality of
  service that were put, and the bytes of its payload are the bytes of the buffer.\<close>

theorem put_reaches_reader:
  assumes "payload_reads_slices Z" "from_raw_parts (Ptr b off) (unat l) h = ret bs" "heap_ok h" "blocks h b \<noteq> None"
    and "z_bytes_copy_from_buf Z (Ptr b off) l h = ret (r, z, h')"
    and "bytes_at os payload = z" "put_attachment opts \<noteq> Some payload"
    and "z_put gb ge wait k payload (Some opts) os = (rp, os', opts', bld)"
    and "delivers M bld s"
    and "z_fifo_channel_sample_new into_handler box send_fn drop_handler cap = (c, hnd)"
    and "declare_subscriber_inner k' c options = (SubscriberB k' cb origin, c')"
    and "\<And>x g. queue (push x g) = queue g @ [x]"
    and "\<And>g. try_recv g = (case queue g of [] \<Rightarrow> (Some None, g) | x # _ \<Rightarrow> (Some (Some x), pop g))"
    and "queue g = []"
  shows "r = Z_OK \<and> bytes_at os' payload = gb
    \<and> sample_callback cb s [] = [Called send_fn s (box (fst (into_handler cap)))]
    \<and> z_handler_sample_send push (Some s) g = ret (None, push s g)
    \<and> z_fifo_handler_sample_try_recv try_recv (push s g) = ((Z_OK, Some s), pop (push s g))
    \<and> z_sample_kind M s = SK_PUT \<and> z_sample_keyexpr M s = k
    \<and> z_sample_attachment M s = map_option (bytes_at os) (put_attachment opts)
    \<and> z_sample_timestamp M s = put_timestamp opts
    \<and> (\<forall>a. put_encoding opts = Some a \<longrightarrow> z_sample_encoding M s = enc_at os a)
    \<and> z_sample_priority M s = put_priority opts \<and> z_sample_congestion_control M s = put_congestion_control opts
    \<and> z_sample_express M s = put_is_express opts \<and> z_sample_reliability M s = put_reliability opts
    \<and> (\<exists>sl h''. z_bytes_to_slice Z (z_sample_payload M s) (h'\<lparr>blocks := (blocks h')(b := None)\<rparr>) = ret (Z_OK, sl, h'')
        \<and> CSlice_slice sl h'' = ret bs)"
proof -
  note copied = copied_bytes [OF assms(1-5)]
  note settings = delivered_settings [OF assms(8,7,9)]
  note called = channel_subscriber_calls [OF assms(10,11), of s]
  have handed: "z_handler_sample_send push (Some s) g = ret (None, push s g)
    \<and> z_fifo_handler_sample_try_recv try_recv (push s g) = ((Z_OK, Some s), pop (push s g))"
    using channel_hands_over(1,2) [where queue = queue, OF assms(12-14)] by simp
  have payload: "z_sample_payload M s = z" using settings assms(6) by simp
  show ?thesis unfolding payload
    using copied settings called handed z_put_takes_payload [OF assms(8)] by (elim conjE) (intro conjI; assumption)
qed

definition demo_put_opts :: "(nat, nat) z_put_options_t" where
  "demo_put_opts = \<lparr>put_encoding = None, put_congestion_control = CC_DROP, put_priority = PRI_DATA,
     put_is_express = True, put_timestamp = None, put_reliability = REL_RELIABLE,
     put_allowed_destination = LOC_REMOTE, put_source_info = None, put_attachment = None\<rparr>"

text \<open>A sample that is its payload, as zenoh would deliver it for these options.\<close>

definition demo_sample_ops :: "(cslice, string, string, cslice, nat, nat) sample_ops" where
  "demo_sample_ops = \<lparr>sm_key_expr = (\<lambda>_. ''key''), sm_encoding = (\<lambda>_. ''bytes''), sm_payload = (\<lambda>s. s), sm_set_payload = (\<lambda>b s. b),
     sm_kind = (\<lambda>_. SampleKind_Put), sm_timestamp = (\<lambda>_. None), sm_attachment = (\<lambda>_. None), sm_source_info = (\<lambda>_. None),
     sm_priority = (\<lambda>_. z_priority_to_rust PRI_DATA), sm_express = (\<lambda>_. True),
     sm_congestion_control = (\<lambda>_. z_congestion_control_to_rust CC_DROP),
     sm_reliability = (\<lambda>_. z_reliability_to_rust REL_RELIABLE)\<rparr>"

theorem put_reaches_reader_witness:
  "\<exists>z h' sl h''. z_bytes_copy_from_buf demo_zbytes (Ptr 0 1) 2 demo_heap = ret (Z_OK, z, h')
     \<and> z_sample_priority demo_sample_ops z = PRI_DATA
     \<and> z_fifo_handler_sample_try_recv (\<lambda>g. case g of [] \<Rightarrow> (Some None, g) | x # _ \<Rightarrow> (Some (Some x), tl g)) [z] = ((Z_OK, Some z), [])
     \<and> z_bytes_to_slice demo_zbytes (z_sample_payload demo_sample_ops z) (h'\<lparr>blocks := (blocks h')(0 := None)\<rparr>) = ret (Z_OK, sl, h'')
     \<and> CSlice_slice sl h'' = ret [8, 9]"
proof -
  have Z: "payload_reads_slices demo_zbytes" by (simp add: payload_reads_slices_def demo_zbytes_def CSlice_as_slice_def)
  have H: "from_raw_parts (Ptr 0 1) (unat (2 :: usize)) demo_heap = ret [8, 9]" "heap_ok demo_heap" "blocks demo_heap 0 \<noteq> None"
    by (simp_all add: from_raw_parts_def demo_heap_def is_null_def heap_ok_def)
  obtain z h' where c: "z_bytes_copy_from_buf demo_zbytes (Ptr 0 1) 2 demo_heap = ret (Z_OK, z, h')"
    using copied_payload_reads [OF Z H] by blast
  let ?os = "\<lparr>bytes_at = (\<lambda>a. z), enc_at = (\<lambda>a. ''enc'')\<rparr>"
  obtain r os' opts' bld where p: "z_put CSlice_gravestone ''none'' (\<lambda>_ :: (string, cslice, string, nat, nat) builder. Inr ())
      ''key'' 1 (Some demo_put_opts) ?os = (r, os', opts', bld)" by (metis prod.collapse)
  then have d: "delivers demo_sample_ops bld z"
    by (auto simp: z_put_def take_defs demo_put_opts_def opt_setting_def delivers_def sample_carries_def demo_sample_ops_def)
  obtain cl hnd where ch: "z_fifo_channel_sample_new (\<lambda>n. (7 :: nat, [] :: cslice list)) (\<lambda>c. Ptr c 0) 5 6 3 = (cl, hnd)" by fastforce
  have sub: "declare_subscriber_inner ''key'' cl None = (SubscriberB ''key'' cl None, closure_default)"
    by (simp add: declare_subscriber_inner_def closure_take_c_type_def mem_replace_def)
  have "put_attachment demo_put_opts \<noteq> Some 1" by (simp add: demo_put_opts_def)
  from put_reaches_reader [OF Z H c _ this p d ch sub, of "\<lambda>g. g" "\<lambda>x g. g @ [x]" "\<lambda>g. case g of [] \<Rightarrow> (Some None, g) | x # _ \<Rightarrow> (Some (Some x), tl g)" tl "[]"]
  show ?thesis using c by (auto simp: demo_put_opts_def)
qed

text \<open>C11: a query is answered. A program sends a get with parameters and options whose payload and attachment are
  two objects; the reply closure is that of a fifo channel that is a queue. If zenoh hands the query to a queryable
  (\<open>asks\<close>), the queryable's callback calls its function with the query, and the accessors of the query return the
  key expression, the parameters' bytes, the payload, encoding, attachment and source that the getter passed, and
  which replies it accepts. If the queryable replies with \<open>z_query_reply\<close> and zenoh delivers the reply
  (\<open>answers\<close>), then the getter's callback calls the channel's sender, the receiver gets that reply with \<open>Z_OK\<close>, it
  is a sample, and the sample's accessors return what was replied. Both calls consume exactly what they were passed:
  the get empties the slots of the payload, attachment, encoding, cancellation token and closure and the options' own
  pointers to them, the reply those of the payload, attachment and encoding; no other object changes.\<close>

theorem query_reaches_answer:
  assumes "z_fifo_channel_reply_new into_handler box send_fn drop_handler cap = (c, hnd)"
    and "z_get_with_parameters_substr gb ge Q wait k params n c (Some opts) os h tr = ret out" "ran out = Some b"
    and "get_payload opts = None \<or> get_attachment opts \<noteq> get_payload opts"
    and "asks Y hq b q"
    and "declare_queryable_inner k' \<lparr>c_context = ctx, c_call = Some f, c_drop = d\<rparr> options = (QueryableB k' cb qopts, c')"
    and "z_query_reply gbr ger waitr q kr payload (Some ropts) osr = (rr, osr', ropts', rb)" "rp_attachment ropts \<noteq> Some payload"
    and "answers M E R rb r"
    and "\<And>x g. queue (push x g) = queue g @ [x]"
    and "\<And>g. try_recv g = (case queue g of [] \<Rightarrow> (Some None, g) | x # _ \<Rightarrow> (Some (Some x), pop g))"
    and "queue g = []"
  shows "query_callback cb q [] = [Called f q ctx] \<and> z_query_keyexpr Y q = k
    \<and> (\<exists>p ss. borrowed_str params n h = ret (Inr p) \<and> CSlice_slice (z_query_parameters Y q) hq = ret p \<and> b = GetB k p c ss)
    \<and> z_query_payload Y q = map_option (bytes_at os) (get_payload opts)
    \<and> z_query_encoding Y q = map_option (enc_at os) (get_encoding opts)
    \<and> z_query_attachment Y q = map_option (bytes_at os) (get_attachment opts)
    \<and> z_query_source_info Y q = get_source_info opts \<and> z_query_accepts_replies Y q = get_accept_replies opts
    \<and> consumed gb ge (set_option (get_payload opts) \<union> set_option (get_attachment opts)) (set_option (get_encoding opts))
        (set_option (get_cancellation_token opts)) os (objs_after out)
    \<and> opts_after out = Some (get_options_taken opts) \<and> slot_after out = closure_default \<and> c' = closure_default
    \<and> (\<forall>a. bytes_at osr' a = (if a = payload \<or> rp_attachment ropts = Some a then gbr else bytes_at osr a))
    \<and> (\<forall>a. enc_at osr' a = (if rp_encoding ropts = Some a then ger else enc_at osr a))
    \<and> ropts' = Some (ropts\<lparr>rp_encoding := None, rp_attachment := None\<rparr>)
    \<and> reply_callback c r [] = [Called send_fn r (box (fst (into_handler cap)))]
    \<and> z_handler_reply_send push (Some r) g = ret (None, push r g)
    \<and> z_fifo_handler_reply_try_recv try_recv (push r g) = ((Z_OK, Some r), pop (push r g))
    \<and> z_reply_is_ok R r
    \<and> (\<exists>s. z_reply_ok R r = Some s \<and> z_sample_kind M s = SK_PUT \<and> z_sample_keyexpr M s = kr
        \<and> z_sample_payload M s = bytes_at osr payload \<and> z_sample_attachment M s = map_option (bytes_at osr) (rp_attachment ropts)
        \<and> z_sample_timestamp M s = rp_timestamp ropts \<and> z_sample_express M s = rp_is_express ropts
        \<and> (\<forall>a. rp_encoding ropts = Some a \<longrightarrow> z_sample_encoding M s = enc_at osr a))"
proof -
  obtain p where p: "borrowed_str params n h = ret (Inr p)" "b = GetB k p c (fst (apply_get_options gb ge Q opts os))"
    using get_runs [OF assms(2,3)] by blast
  note asked = asked_settings [OF assms(5) [unfolded p(2)] assms(4)] asked_parameters [OF assms(5) [unfolded p(2)]]
  have called: "query_callback cb q [] = [Called f q ctx]" "c' = closure_default" using assms(6)
    by (auto simp: declare_queryable_inner_def closure_take_c_type_def mem_replace_def query_callback_def
        z_closure_query_call_def z_closure_query_loan_def closure_call_def)
  have taken: "consumed gb ge (set_option (get_payload opts) \<union> set_option (get_attachment opts))
      (set_option (get_encoding opts)) (set_option (get_cancellation_token opts)) os (objs_after out)"
    "opts_after out = Some (get_options_taken opts)" "slot_after out = closure_default"
    using get_runs [OF assms(2,3)] apply_get_consumes [of gb ge opts os Q] by simp_all
  obtain ss where rb: "rb = ReplyB q kr (bytes_at osr payload) ss"
    "set ss = {SExpress (rp_is_express ropts)} \<union> (SEncoding \<circ> enc_at osr) ` set_option (rp_encoding ropts)
      \<union> (SAttachment \<circ> bytes_at osr) ` set_option (rp_attachment ropts)
      \<union> STimestamp ` set_option (rp_timestamp ropts) \<union> SSourceInfo ` set_option (rp_source_info ropts)"
    and emptied: "\<forall>a. bytes_at osr' a = (if a = payload \<or> rp_attachment ropts = Some a then gbr else bytes_at osr a)"
      "\<forall>a. enc_at osr' a = (if rp_encoding ropts = Some a then ger else enc_at osr a)"
    using z_query_reply_sends [OF assms(7,8)] by blast
  have ropts: "ropts' = Some (ropts\<lparr>rp_encoding := None, rp_attachment := None\<rparr>)"
    using assms(7) by (auto simp: z_query_reply_def split_beta Let_def)
  obtain s where s: "rp_result R r = Inr s" "sample_carries M kr (bytes_at osr payload) ss s"
    using assms(9) unfolding answers_def rb(1) by (auto split: sum.splits)
  note hands = channel_hands_over(5,6) [where queue = queue, OF assms(10-12)]
  show ?thesis
    using p asked called taken emptied ropts channel_reply_calls [OF assms(1)] hands replied_settings [OF s(2) rb(2)] s(1)
    by (simp add: z_reply_is_ok_def z_reply_ok_def)
qed

definition demo_query_ops :: "(nat, string, nat, nat, nat) query_ops" where
  "demo_query_ops = \<lparr>qy_empty = 0, qy_clone = (\<lambda>q. q), qy_key_expr = (\<lambda>_. ''key''), qy_parameters = (\<lambda>_. (Ptr 4 0, 1)),
     qy_payload = (\<lambda>_. Some 11), qy_encoding = (\<lambda>_. Some 23), qy_attachment = (\<lambda>_. Some 12), qy_source_info = (\<lambda>_. None),
     qy_accepts_replies = (\<lambda>_. ReplyKeyExpr_Any)\<rparr>"

definition demo_answer_ops :: "(nat, string, nat, nat, nat, nat) sample_ops" where
  "demo_answer_ops = \<lparr>sm_key_expr = (\<lambda>_. ''answer''), sm_encoding = (\<lambda>_. 33), sm_payload = (\<lambda>s. s), sm_set_payload = (\<lambda>b s. b),
     sm_kind = (\<lambda>_. SampleKind_Put), sm_timestamp = (\<lambda>_. Some 99), sm_attachment = (\<lambda>_. Some 32), sm_source_info = (\<lambda>_. None),
     sm_priority = (\<lambda>_. Priority_Data), sm_express = (\<lambda>_. True), sm_congestion_control = (\<lambda>_. CongestionControl_Block),
     sm_reliability = (\<lambda>_. Reliability_Reliable)\<rparr>"

definition demo_err_ops :: "(nat, nat, nat) reply_err_ops" where
  "demo_err_ops = \<lparr>re_empty = 0, re_payload = (\<lambda>e. e), re_encoding = (\<lambda>e. e), re_clone = (\<lambda>e. e), re_payload_empty = (\<lambda>e. e = 0)\<rparr>"

definition demo_reply_ops :: "(nat, nat, nat, nat) reply_ops" where
  "demo_reply_ops = \<lparr>rp_result = Inr, rp_replier_id = (\<lambda>_. None), rp_clone = (\<lambda>r. r), rp_empty = 0\<rparr>"

theorem query_reaches_answer_witness:
  "z_query_payload demo_query_ops 5 = Some 11 \<and> z_query_attachment demo_query_ops 5 = Some 12
    \<and> CSlice_slice (z_query_parameters demo_query_ops 5) \<lparr>blocks = [4 \<mapsto> (User, [97])], next_block = 7, calls = []\<rparr> = ret [97]
    \<and> z_fifo_handler_reply_try_recv (\<lambda>g. case g of [] \<Rightarrow> (Some None, g) | x # _ \<Rightarrow> (Some (Some x), tl g)) [31 :: nat] = ((Z_OK, Some 31), [])
    \<and> z_reply_is_ok demo_reply_ops 31 \<and> z_sample_attachment demo_answer_ops 31 = Some 32
    \<and> z_sample_timestamp demo_answer_ops 31 = Some 99"
proof -
  let ?h = "\<lparr>blocks = [0 \<mapsto> (User, [97])], next_block = 7, calls = []\<rparr> :: heap"
  let ?hq = "\<lparr>blocks = [4 \<mapsto> (User, [97])], next_block = 7, calls = []\<rparr> :: heap"
  let ?get = "z_get_with_parameters_substr 0 0 demo_consolidation
      (\<lambda>_ :: (string, nat, nat, nat, nat, nat, ConsolidationMode) qbuilder. Inr ()) ''key'' (Ptr 0 0) 1
      \<lparr>c_context = Ptr 3 0, c_call = Some 5, c_drop = Some 6\<rparr> (Some demo_get_opts) demo_objects ?h ([] :: nat event list)"
  let ?reply = "z_query_reply 0 0 (\<lambda>_ :: (nat, string, nat, nat, nat, nat) reply_builder. Inr ()) 5 ''answer'' 1
      (Some demo_reply_opts) \<lparr>bytes_at = (\<lambda>a. 30 + a), enc_at = (\<lambda>a. 30 + a)\<rparr>"
  have ch: "z_fifo_channel_reply_new (\<lambda>n. (3 :: nat, [] :: nat list)) (\<lambda>c. Ptr c 0) 5 6 3
      = (\<lparr>c_context = Ptr 3 0, c_call = Some 5, c_drop = Some 6\<rparr>, Some [])"
    by (simp add: z_fifo_channel_reply_new_def channel_new_def)
  have str: "borrowed_str (Ptr 0 0) 1 ?h = ret (Inr [97])"
    by (simp add: borrowed_str_def CSlice_new_borrowed_def CSlice_new_borrowed_unchecked_def CSlice_new_unchecked_def
        CString_to_str_def from_raw_parts_def is_null_def utf8_valid.simps)
  obtain out b where out: "?get = ret out" "ran out = Some b"
    by (simp add: z_get_with_parameters_substr_def str closure_take_c_type_def mem_replace_def split_beta)
  then have asked: "asks demo_query_ops ?hq b 5"
    by (auto simp: z_get_with_parameters_substr_def str closure_take_c_type_def mem_replace_def split_beta asks_def
        demo_query_ops_def from_raw_parts_def is_null_def apply_get_options_def demo_get_opts_def demo_objects_def
        query_take_defs opt_setting_def timeout_setting_def)
  have dist: "get_payload demo_get_opts = None \<or> get_attachment demo_get_opts \<noteq> get_payload demo_get_opts"
    by (simp add: demo_get_opts_def)
  have qa: "declare_queryable_inner ''key'' \<lparr>c_context = Ptr 9 0, c_call = Some 1, c_drop = None\<rparr> None
      = (QueryableB ''key'' \<lparr>c_context = Ptr 9 0, c_call = Some 1, c_drop = None\<rparr> None, closure_default)"
    by (simp add: declare_queryable_inner_def closure_take_c_type_def mem_replace_def)
  obtain rr osr' ropts' rb where rb: "?reply = (rr, osr', ropts', rb)" by (metis prod.collapse)
  then have answered: "answers demo_answer_ops demo_err_ops demo_reply_ops rb 31"
    by (auto simp: z_query_reply_def take_defs demo_reply_opts_def opt_setting_def answers_def sample_carries_def
        demo_answer_ops_def demo_reply_ops_def)
  have "rp_attachment demo_reply_opts \<noteq> Some 1" by (simp add: demo_reply_opts_def)
  from query_reaches_answer [OF ch out dist asked qa rb this answered, of "\<lambda>g. g" "\<lambda>x g. g @ [x]"
      "\<lambda>g. case g of [] \<Rightarrow> (Some None, g) | x # _ \<Rightarrow> (Some (Some x), tl g)" tl "[]"]
  show ?thesis by (auto simp: demo_get_opts_def demo_objects_def demo_reply_opts_def demo_reply_ops_def z_reply_ok_def str)
qed

end
